(* ===== verification/Accord_Prelude.thy ===== *)
theory Accord_Prelude
  imports
    Complex_Main
    "HOL-Library.AList"
    "HOL-Library.Word"
    "HOL-Library.Char_ord"
    "HOL-Library.List_Lexorder"
begin

text \<open>
  Shared foundations of the Accord development.

  \<^item> An error-and-state computation \<open>('s, 'e, 'a) act\<close>: a Rust function that reads and writes a
    state \<open>'s\<close> and returns \<open>Result<'a, 'e>\<close>.  Effects made before an error persist, as they do in
    the source (no handler runs in a transaction unless it says so).  The \<open>?\<close> operator is
    \<open>bnd\<close>, an early \<open>return Err(e)\<close> is \<open>fail e\<close>, a \<open>for\<close> loop whose body may return early is
    \<open>for_each\<close>.
  \<^item> A weakest-precondition calculus \<open>wp\<close> for it, kept in the collection \<open>wp_simps\<close>, so that the
    component proofs are simplifications.
  \<^item> The fragments of the Rust standard library the source uses on strings and integers (\<open>trim\<close>,
    \<open>strip_prefix\<close>, decimal formatting and parsing of \<open>u64\<close>, \<open>as i32\<close>).  Strings are ASCII text: a
    character is one byte and one scalar value.
  \<^item> The SQL fragments the store uses on tables (lists of rows).
\<close>

section \<open>Error-and-state computations\<close>

type_synonym ('s, 'e, 'a) act = "'s \<Rightarrow> ('e + 'a) \<times> 's"

definition ret :: "'a \<Rightarrow> ('s, 'e, 'a) act" where
  "ret x = (\<lambda>s. (Inr x, s))"

definition fail :: "'e \<Rightarrow> ('s, 'e, 'a) act" where
  "fail e = (\<lambda>s. (Inl e, s))"

definition bnd :: "('s, 'e, 'a) act \<Rightarrow> ('a \<Rightarrow> ('s, 'e, 'b) act) \<Rightarrow> ('s, 'e, 'b) act" where
  "bnd m f = (\<lambda>s. case m s of (r, t) \<Rightarrow> (case r of Inl e \<Rightarrow> (Inl e, t) | Inr a \<Rightarrow> f a t))"

definition gets :: "('s \<Rightarrow> 'a) \<Rightarrow> ('s, 'e, 'a) act" where
  "gets f = (\<lambda>s. (Inr (f s), s))"

definition modify :: "('s \<Rightarrow> 's) \<Rightarrow> ('s, 'e, unit) act" where
  "modify f = (\<lambda>s. (Inr (), f s))"

definition ensure :: "bool \<Rightarrow> 'e \<Rightarrow> ('s, 'e, unit) act" where
  "ensure b e = (if b then ret () else fail e)"

definition of_res :: "'e + 'a \<Rightarrow> ('s, 'e, 'a) act" where
  "of_res r = (\<lambda>s. (r, s))"

definition some_or :: "'e \<Rightarrow> 'a option \<Rightarrow> ('s, 'e, 'a) act" where
  "some_or e x = (case x of None \<Rightarrow> fail e | Some a \<Rightarrow> ret a)"

definition map_err :: "('e \<Rightarrow> 'f) \<Rightarrow> ('s, 'e, 'a) act \<Rightarrow> ('s, 'f, 'a) act" where
  "map_err g m = (\<lambda>s. case m s of (r, t) \<Rightarrow> (case r of Inl e \<Rightarrow> (Inl (g e), t) | Inr a \<Rightarrow> (Inr a, t)))"

text \<open>\<open>m.await.unwrap_or(d)\<close> and \<open>let _ = m.await\<close>: the error is dropped, the effect stays.\<close>

definition or_else :: "'a \<Rightarrow> ('s, 'e, 'a) act \<Rightarrow> ('s, 'f, 'a) act" where
  "or_else d m = (\<lambda>s. case m s of (r, t) \<Rightarrow> (Inr (case r of Inl e \<Rightarrow> d | Inr a \<Rightarrow> a), t))"

text \<open>Running a computation on a part of a larger state.\<close>

definition zoom :: "('s \<Rightarrow> 't) \<Rightarrow> ('t \<Rightarrow> 's \<Rightarrow> 's) \<Rightarrow> ('t, 'e, 'a) act \<Rightarrow> ('s, 'e, 'a) act" where
  "zoom get put m = (\<lambda>s. case m (get s) of (r, t) \<Rightarrow> (r, put t s))"

fun for_each :: "('x \<Rightarrow> ('s, 'e, unit) act) \<Rightarrow> 'x list \<Rightarrow> ('s, 'e, unit) act" where
  "for_each f [] = ret ()"
| "for_each f (x # xs) = bnd (f x) (\<lambda>_. for_each f xs)"

fun map_each :: "('x \<Rightarrow> ('s, 'e, 'y) act) \<Rightarrow> 'x list \<Rightarrow> ('s, 'e, 'y list) act" where
  "map_each f [] = ret []"
| "map_each f (x # xs) = bnd (f x) (\<lambda>y. bnd (map_each f xs) (\<lambda>ys. ret (y # ys)))"

lemmas act_defs = ret_def fail_def bnd_def gets_def modify_def ensure_def of_res_def some_or_def
  map_err_def or_else_def zoom_def

subsection \<open>Weakest preconditions\<close>

named_theorems wp_simps

definition wp :: "('s, 'e, 'a) act \<Rightarrow> ('a \<Rightarrow> 's \<Rightarrow> bool) \<Rightarrow> ('e \<Rightarrow> 's \<Rightarrow> bool) \<Rightarrow> 's \<Rightarrow> bool" where
  "wp m Q X s \<longleftrightarrow> (case m s of (r, t) \<Rightarrow> (case r of Inl e \<Rightarrow> X e t | Inr a \<Rightarrow> Q a t))"

lemma wp_ret [wp_simps]: "wp (ret x) Q X = Q x"
  by (simp add: wp_def ret_def fun_eq_iff)

lemma wp_fail [wp_simps]: "wp (fail e) Q X = X e"
  by (simp add: wp_def fail_def fun_eq_iff)

lemma wp_bnd [wp_simps]: "wp (bnd m f) Q X = wp m (\<lambda>a. wp (f a) Q X) X"
  by (simp add: wp_def bnd_def fun_eq_iff split: prod.splits sum.splits)

lemma wp_gets [wp_simps]: "wp (gets f) Q X = (\<lambda>s. Q (f s) s)"
  by (simp add: wp_def gets_def fun_eq_iff)

lemma wp_modify [wp_simps]: "wp (modify f) Q X = (\<lambda>s. Q () (f s))"
  by (simp add: wp_def modify_def fun_eq_iff)

lemma wp_ensure [wp_simps]: "wp (ensure b e) Q X = (\<lambda>s. if b then Q () s else X e s)"
  by (simp add: ensure_def wp_ret wp_fail)

lemma wp_of_res [wp_simps]:
  "wp (of_res r) Q X = (\<lambda>s. case r of Inl e \<Rightarrow> X e s | Inr a \<Rightarrow> Q a s)"
  by (simp add: wp_def of_res_def fun_eq_iff)

lemma wp_some_or [wp_simps]:
  "wp (some_or e x) Q X = (\<lambda>s. case x of None \<Rightarrow> X e s | Some a \<Rightarrow> Q a s)"
  by (simp add: some_or_def wp_ret wp_fail split: option.splits)

lemma wp_map_err [wp_simps]: "wp (map_err g m) Q X = wp m Q (\<lambda>e. X (g e))"
  by (simp add: wp_def map_err_def fun_eq_iff split: prod.splits sum.splits)

lemma wp_or_else [wp_simps]: "wp (or_else d m) Q X = wp m Q (\<lambda>_. Q d)"
  by (simp add: wp_def or_else_def fun_eq_iff split: prod.splits sum.splits)

lemma wp_zoom [wp_simps]:
  "wp (zoom get put m) Q X =
     (\<lambda>s. wp m (\<lambda>a t. Q a (put t s)) (\<lambda>e t. X e (put t s)) (get s))"
  by (simp add: wp_def zoom_def fun_eq_iff split: prod.splits sum.splits)

lemma wp_if [wp_simps]:
  "wp (if b then m else n) Q X = (\<lambda>s. if b then wp m Q X s else wp n Q X s)"
  by simp

lemma wp_case_option [wp_simps]:
  "wp (case x of None \<Rightarrow> m | Some a \<Rightarrow> f a) Q X =
     (\<lambda>s. case x of None \<Rightarrow> wp m Q X s | Some a \<Rightarrow> wp (f a) Q X s)"
  by (simp split: option.splits)

lemma wp_let [wp_simps]: "wp (Let a f) Q X = wp (f a) Q X"
  by (simp add: Let_def)

lemma wp_case_prod [wp_simps]:
  "wp (case p of (a, b) \<Rightarrow> f a b) Q X = (\<lambda>s. case p of (a, b) \<Rightarrow> wp (f a b) Q X s)"
  by (simp split: prod.splits)

lemma case_option_same [simp]: "(case x of None \<Rightarrow> P | Some a \<Rightarrow> P) = P"
  by (cases x) auto

lemma wp_conj: "wp m Q X s \<Longrightarrow> wp m Q' X' s \<Longrightarrow> wp m (\<lambda>a t. Q a t \<and> Q' a t) (\<lambda>e t. X e t \<and> X' e t) s"
  by (simp add: wp_def split: prod.splits sum.splits)

lemma wp_mono:
  assumes "wp m Q X s" and "\<And>a t. Q a t \<Longrightarrow> Q' a t" and "\<And>e t. X e t \<Longrightarrow> X' e t"
  shows "wp m Q' X' s"
  using assms by (simp add: wp_def split: prod.splits sum.splits)

lemma wp_okD: "wp m Q X s \<Longrightarrow> m s = (Inr a, t) \<Longrightarrow> Q a t"
  by (simp add: wp_def)

lemma wp_errD: "wp m Q X s \<Longrightarrow> m s = (Inl e, t) \<Longrightarrow> X e t"
  by (simp add: wp_def)

lemma wp_sndD: "wp m (\<lambda>_. P) (\<lambda>_. P) s \<Longrightarrow> P (snd (m s))"
  by (simp add: wp_def split: prod.splits sum.splits)

lemma wp_sndI: "P (snd (m s)) \<Longrightarrow> wp m (\<lambda>_. P) (\<lambda>_. P) s"
  by (auto simp: wp_def split: prod.splits sum.splits)

text \<open>Loops: an invariant that every iteration keeps, whether it succeeds or returns early.\<close>

lemma wp_for_each:
  assumes "\<And>x t. x \<in> set xs \<Longrightarrow> P t \<Longrightarrow> wp (f x) (\<lambda>_. P) X t" and "P s"
  shows "wp (for_each f xs) (\<lambda>_. P) X s"
  using assms
proof (induction xs arbitrary: s)
  case Nil
  then show ?case by (simp add: wp_ret)
next
  case (Cons x xs)
  have "wp (f x) (\<lambda>_. P) X s" using Cons.prems by simp
  then have "wp (f x) (\<lambda>_. wp (for_each f xs) (\<lambda>_. P) X) X s"
    by (rule wp_mono) (use Cons in auto)
  then show ?case by (simp add: wp_bnd)
qed

lemma wp_map_each:
  assumes "\<And>x t. x \<in> set xs \<Longrightarrow> P t \<Longrightarrow> wp (f x) (\<lambda>_. P) X t" and "P s"
  shows "wp (map_each f xs) (\<lambda>_. P) X s"
  using assms
proof (induction xs arbitrary: s)
  case Nil
  then show ?case by (simp add: wp_ret)
next
  case (Cons x xs)
  have "wp (f x) (\<lambda>_. P) X s" using Cons.prems by simp
  then have "wp (f x) (\<lambda>_. wp (map_each f xs) (\<lambda>_. P) X) X s"
    by (rule wp_mono) (use Cons in auto)
  then show ?case by (simp add: wp_bnd wp_ret)
qed

subsection \<open>Successful runs\<close>

named_theorems ok_simps

lemma ret_ok [ok_simps]: "ret x s = (Inr y, t) \<longleftrightarrow> x = y \<and> s = t"
  by (auto simp: ret_def)

lemma fail_ok [ok_simps]: "fail e s = (Inr y, t) \<longleftrightarrow> False"
  by (simp add: fail_def)

lemma bnd_ok [ok_simps]:
  "bnd m f s = (Inr b, t) \<longleftrightarrow> (\<exists>a u. m s = (Inr a, u) \<and> f a u = (Inr b, t))"
  by (auto simp: bnd_def split: prod.splits sum.splits)

lemma gets_ok [ok_simps]: "gets f s = (Inr y, t) \<longleftrightarrow> y = f s \<and> s = t"
  by (auto simp: gets_def)

lemma modify_ok [ok_simps]: "modify f s = (Inr y, t) \<longleftrightarrow> t = f s"
  by (auto simp: modify_def)

lemma ensure_ok [ok_simps]: "ensure b e s = (Inr y, t) \<longleftrightarrow> b \<and> s = t"
  by (auto simp: ensure_def ret_def fail_def)

lemma of_res_ok [ok_simps]: "of_res r s = (Inr y, t) \<longleftrightarrow> r = Inr y \<and> s = t"
  by (auto simp: of_res_def)

lemma some_or_ok [ok_simps]: "some_or e x s = (Inr y, t) \<longleftrightarrow> x = Some y \<and> s = t"
  by (auto simp: some_or_def ret_def fail_def split: option.splits)

lemma map_err_ok [ok_simps]: "map_err g m s = (Inr y, t) \<longleftrightarrow> m s = (Inr y, t)"
  by (auto simp: map_err_def split: prod.splits sum.splits)

lemma zoom_ok [ok_simps]:
  "zoom get put m s = (Inr y, t) \<longleftrightarrow> (\<exists>u. m (get s) = (Inr y, u) \<and> t = put u s)"
  by (auto simp: zoom_def split: prod.splits)

subsection \<open>Running a computation\<close>

text \<open>The first step of a sequence, with the state it hands on.\<close>

named_theorems run_simps

lemma bnd_assoc: "bnd (bnd m f) g = bnd m (\<lambda>a. bnd (f a) g)"
  by (auto simp: bnd_def fun_eq_iff split: prod.splits sum.splits)

lemma bnd_ret [run_simps]: "bnd (ret x) f s = f x s"
  by (simp add: bnd_def ret_def)

lemma bnd_fail [run_simps]: "bnd (fail e) f s = (Inl e, s)"
  by (simp add: bnd_def fail_def)

lemma bnd_gets [run_simps]: "bnd (gets g) f s = f (g s) s"
  by (simp add: bnd_def gets_def)

lemma bnd_modify [run_simps]: "bnd (modify g) f s = f () (g s)"
  by (simp add: bnd_def modify_def)

lemma bnd_ensure [run_simps]: "bnd (ensure b e) f s = (if b then f () s else (Inl e, s))"
  by (simp add: bnd_def ensure_def ret_def fail_def)

lemma bnd_some_or [run_simps]: "bnd (some_or e x) f s = (case x of None \<Rightarrow> (Inl e, s) | Some a \<Rightarrow> f a s)"
  by (simp add: bnd_def some_or_def ret_def fail_def split: option.splits)

lemma bnd_eq: "m s = (Inr a, t) \<Longrightarrow> bnd m f s = f a t"
  by (simp add: bnd_def)

subsection \<open>Effects: how a computation may change the state\<close>

text \<open>
  \<open>effect R m\<close> says that every run of \<open>m\<close>, successful or not, takes a state to one related by
  \<open>R\<close>.  For a reflexive and transitive \<open>R\<close> (a frame, an invariant, a monotone quantity) it is
  closed under every combinator; the locale \<open>effect_order\<close> states those closure rules once.
\<close>

definition effect :: "('s \<Rightarrow> 's \<Rightarrow> bool) \<Rightarrow> ('s, 'e, 'a) act \<Rightarrow> bool" where
  "effect R m \<longleftrightarrow> (\<forall>s. R s (snd (m s)))"

locale effect_order =
  fixes R :: "'s \<Rightarrow> 's \<Rightarrow> bool"
  assumes eff_refl: "R s s"
    and eff_trans: "R s t \<Longrightarrow> R t u \<Longrightarrow> R s u"
begin

lemma eff_ret: "effect R (ret x)"
  by (simp add: effect_def ret_def eff_refl)

lemma eff_fail: "effect R (fail e)"
  by (simp add: effect_def fail_def eff_refl)

lemma eff_gets: "effect R (gets f)"
  by (simp add: effect_def gets_def eff_refl)

lemma eff_ensure: "effect R (ensure b e)"
  by (simp add: ensure_def eff_ret eff_fail)

lemma eff_of_res: "effect R (of_res r)"
  by (simp add: effect_def of_res_def eff_refl)

lemma eff_some_or: "effect R (some_or e x)"
  by (simp add: some_or_def eff_ret eff_fail split: option.splits)

lemma eff_bnd: "effect R m \<Longrightarrow> (\<And>a. effect R (f a)) \<Longrightarrow> effect R (bnd m f)"
  by (auto simp: effect_def bnd_def split: prod.splits sum.splits)
    (metis eff_trans snd_conv)+

lemma eff_map_err: "effect R m \<Longrightarrow> effect R (map_err g m)"
  by (auto simp: effect_def map_err_def split: prod.splits sum.splits) (metis snd_conv)+

lemma eff_or_else: "effect R m \<Longrightarrow> effect R (or_else d m)"
  by (auto simp: effect_def or_else_def split: prod.splits) (metis snd_conv)

lemma eff_for_each: "(\<And>x. effect R (f x)) \<Longrightarrow> effect R (for_each f xs)"
  by (induction xs) (auto intro: eff_ret eff_bnd)

lemma eff_map_each: "(\<And>x. effect R (f x)) \<Longrightarrow> effect R (map_each f xs)"
  by (induction xs) (auto intro: eff_ret eff_bnd)

lemma eff_if: "effect R m \<Longrightarrow> effect R n \<Longrightarrow> effect R (if b then m else n)"
  by simp

lemma eff_option: "effect R m \<Longrightarrow> (\<And>a. effect R (f a)) \<Longrightarrow> effect R (case x of None \<Rightarrow> m | Some a \<Rightarrow> f a)"
  by (simp split: option.splits)

lemma eff_prod: "(\<And>a b. effect R (f a b)) \<Longrightarrow> effect R (case p of (a, b) \<Rightarrow> f a b)"
  by (simp split: prod.splits)

lemma eff_let: "(\<And>a. effect R (f a)) \<Longrightarrow> effect R (Let x f)"
  by (simp add: Let_def)

lemmas eff_rules = eff_ret eff_fail eff_gets eff_ensure eff_of_res eff_some_or eff_bnd eff_map_err
  eff_or_else eff_for_each eff_map_each eff_if eff_option eff_prod eff_let

end

lemma effectD: "effect R m \<Longrightarrow> m s = (r, t) \<Longrightarrow> R s t"
  by (auto simp: effect_def dest: spec [of _ s])


section \<open>Transition systems\<close>

text \<open>
  States reached from an initial one by labelled steps, and the rule that an inductive invariant
  holds in all of them.
\<close>

inductive reach :: "('s \<Rightarrow> bool) \<Rightarrow> ('s \<Rightarrow> 'l \<Rightarrow> 's \<Rightarrow> bool) \<Rightarrow> 's \<Rightarrow> bool" for init step where
  reach_init: "init s \<Longrightarrow> reach init step s"
| reach_step: "reach init step s \<Longrightarrow> step s l t \<Longrightarrow> reach init step t"

locale inductive_invariant =
  fixes init :: "'s \<Rightarrow> bool" and step :: "'s \<Rightarrow> 'l \<Rightarrow> 's \<Rightarrow> bool" and inv :: "'s \<Rightarrow> bool"
  assumes inv_init: "init s \<Longrightarrow> inv s"
    and inv_step: "inv s \<Longrightarrow> step s l t \<Longrightarrow> inv t"
begin

lemma inv_reach: "reach init step s \<Longrightarrow> inv s"
  by (induction rule: reach.induct) (auto intro: inv_init inv_step)

end

section \<open>Rust standard library fragments\<close>

type_synonym byte = "8 word"
type_synonym bytes = "byte list"

text \<open>\<open>as_bytes\<close> of an ASCII string.\<close>

definition ascii :: "string \<Rightarrow> bytes" where
  "ascii s = map (of_nat \<circ> of_char) s"

text \<open>\<open>x as i32\<close> on an \<open>i64\<close> keeps the low 32 bits.\<close>

definition as_i32 :: "int \<Rightarrow> int" where
  "as_i32 x = (x + 2147483648) mod 4294967296 - 2147483648"

abbreviation i32_max :: int where
  "i32_max \<equiv> 2147483647"

lemma as_i32_range: "- 2147483648 \<le> as_i32 x" "as_i32 x \<le> i32_max"
proof -
  have "0 \<le> (x + 2147483648) mod 4294967296 \<and> (x + 2147483648) mod 4294967296 < 4294967296"
    by (simp add: pos_mod_bound)
  then show "- 2147483648 \<le> as_i32 x" "as_i32 x \<le> i32_max"
    unfolding as_i32_def by linarith+
qed

lemma as_i32_id: "- 2147483648 \<le> x \<Longrightarrow> x \<le> i32_max \<Longrightarrow> as_i32 x = x"
  by (simp add: as_i32_def mod_pos_pos_trivial)

lemma word_as_i32 [simp]: "word_of_int (as_i32 x) = (word_of_int x :: 32 word)"
proof -
  have "as_i32 x mod 2 ^ 32 = x mod 2 ^ 32"
    by (simp add: as_i32_def mod_diff_left_eq)
  then show ?thesis by (simp add: word_of_int_eq_iff take_bit_eq_mod)
qed

text \<open>\<open>char::is_whitespace\<close> on ASCII, \<open>str::trim\<close>, \<open>str::strip_prefix\<close>.\<close>

definition is_ws :: "char \<Rightarrow> bool" where
  "is_ws c \<longleftrightarrow> of_char c \<in> {9, 10, 11, 12, 13, 32 :: nat}"

definition trim :: "string \<Rightarrow> string" where
  "trim s = rev (dropWhile is_ws (rev (dropWhile is_ws s)))"

definition strip_prefix :: "string \<Rightarrow> string \<Rightarrow> string option" where
  "strip_prefix p s = (if take (length p) s = p then Some (drop (length p) s) else None)"

lemma strip_prefix_append [simp]: "strip_prefix p (p @ s) = Some s"
  by (simp add: strip_prefix_def)

lemma dropWhile_noop: "xs = [] \<or> \<not> P (hd xs) \<Longrightarrow> dropWhile P xs = xs"
  by (cases xs) auto

lemma trim_noop:
  assumes "\<not> is_ws (hd s)" and "\<not> is_ws (last s)"
  shows "trim s = s"
proof (cases "s = []")
  case True
  then show ?thesis by (simp add: trim_def)
next
  case False
  have "dropWhile is_ws s = s"
    using assms(1) by (simp add: dropWhile_noop)
  moreover have "dropWhile is_ws (rev s) = rev s"
    using assms(2) False by (intro dropWhile_noop) (simp add: hd_rev)
  ultimately show ?thesis by (simp add: trim_def)
qed

lemma hd_dropWhile_ws: "dropWhile is_ws s \<noteq> [] \<Longrightarrow> \<not> is_ws (hd (dropWhile is_ws s))"
  by (rule hd_dropWhile)

lemma trim_idem: "trim (trim s) = trim s"
proof (cases "trim s = []")
  case True
  have "trim [] = []" by (simp add: trim_def)
  with True show ?thesis by simp
next
  case False
  define u where "u = dropWhile is_ws s"
  define v where "v = dropWhile is_ws (rev u)"
  have tv: "trim s = rev v"
    by (simp add: trim_def u_def v_def)
  have v: "v \<noteq> []"
    using False by (simp add: tv)
  have l: "\<not> is_ws (last (rev v))"
    using v hd_dropWhile_ws [of "rev u"] by (simp add: last_rev v_def)
  have un: "u \<noteq> []"
    using v by (auto simp: v_def)
  have "rev u = takeWhile is_ws (rev u) @ v"
    by (simp add: v_def)
  then have "u = rev v @ rev (takeWhile is_ws (rev u))"
    by (metis rev_append rev_rev_ident)
  then have "hd u = hd (rev v)"
    using v by (metis hd_append2 rev_is_Nil_conv)
  then have h: "\<not> is_ws (hd (rev v))"
    using un hd_dropWhile_ws [of s] by (simp add: u_def)
  show ?thesis
    unfolding tv using h l by (rule trim_noop)
qed

text \<open>ASCII lower-casing (\<open>to_lowercase\<close> on ASCII text, SQLite's \<open>LIKE\<close> comparison).\<close>

definition lower_char :: "char \<Rightarrow> char" where
  "lower_char c = (let n = (of_char c :: nat) in if 65 \<le> n \<and> n \<le> 90 then char_of (n + 32) else c)"

text \<open>Decimal output of a natural number (\<open>Display\<close> of the unsigned integer types).\<close>

definition digit_char :: "nat \<Rightarrow> char" where
  "digit_char d = char_of (48 + d)"

fun show_nat :: "nat \<Rightarrow> string" where
  "show_nat n = (if n < 10 then [digit_char n] else show_nat (n div 10) @ [digit_char (n mod 10)])"

declare show_nat.simps [simp del]

text \<open>\<open>str::parse::<u64>\<close>: an optional \<open>+\<close>, at least one digit, every step checked for overflow.\<close>

definition is_digit :: "char \<Rightarrow> bool" where
  "is_digit c \<longleftrightarrow> 48 \<le> (of_char c :: nat) \<and> (of_char c :: nat) \<le> 57"

definition digit_val :: "char \<Rightarrow> nat" where
  "digit_val c = of_char c - 48"

fun parse_digits :: "nat \<Rightarrow> string \<Rightarrow> nat option" where
  "parse_digits acc [] = Some acc"
| "parse_digits acc (c # cs) =
     (if \<not> is_digit c then None
      else if 2 ^ 64 \<le> acc * 10 then None
      else if 2 ^ 64 \<le> acc * 10 + digit_val c then None
      else parse_digits (acc * 10 + digit_val c) cs)"

definition parse_u64 :: "string \<Rightarrow> 64 word option" where
  "parse_u64 s =
     (let body = (if s \<noteq> [] \<and> hd s = CHR ''+'' then tl s else s)
      in if body = [] then None else map_option of_nat (parse_digits 0 body))"

lemma of_char_digit [simp]: "d < 10 \<Longrightarrow> (of_char (digit_char d) :: nat) = 48 + d"
  by (simp add: digit_char_def of_char_mod_256)

lemma is_digit_digit_char [simp]: "d < 10 \<Longrightarrow> is_digit (digit_char d)"
  by (simp add: is_digit_def)

lemma digit_val_digit_char [simp]: "d < 10 \<Longrightarrow> digit_val (digit_char d) = d"
  by (simp add: digit_val_def)

lemma parse_digits_append:
  "parse_digits acc (xs @ ys) =
     (case parse_digits acc xs of None \<Rightarrow> None | Some n \<Rightarrow> parse_digits n ys)"
  by (induction xs arbitrary: acc) auto

lemma parse_show_nat: "n < 2 ^ 64 \<Longrightarrow> parse_digits 0 (show_nat n) = Some n"
proof (induction n rule: show_nat.induct)
  case (1 n)
  show ?case
  proof (cases "n < 10")
    case True
    then show ?thesis by (simp add: show_nat.simps [of n])
  next
    case False
    have small: "n div 10 < 2 ^ 64" using "1.prems" by simp
    have rec: "parse_digits 0 (show_nat (n div 10)) = Some (n div 10)"
      using "1.IH" [OF False small] .
    have "n div 10 * 10 + n mod 10 = n" by presburger
    moreover have "n div 10 * 10 \<le> n" by simp
    ultimately show ?thesis
      using False "1.prems" rec by (subst show_nat.simps) (auto simp: parse_digits_append)
  qed
qed

lemma show_nat_digits: "c \<in> set (show_nat n) \<Longrightarrow> is_digit c"
proof (induction n rule: show_nat.induct)
  case (1 n)
  then show ?case by (subst (asm) show_nat.simps) (auto split: if_splits)
qed

lemma show_nat_nonempty [simp]: "show_nat n \<noteq> []"
  by (subst show_nat.simps) simp

lemma parse_u64_show_nat: "n < 2 ^ 64 \<Longrightarrow> parse_u64 (show_nat n) = Some (of_nat n)"
proof -
  assume n: "n < 2 ^ 64"
  have "is_digit (hd (show_nat n))"
    by (rule show_nat_digits [of _ n]) (simp add: hd_in_set)
  then have "hd (show_nat n) \<noteq> CHR ''+''"
    by (auto simp: is_digit_def)
  then show ?thesis using n by (simp add: parse_u64_def parse_show_nat)
qed

section \<open>SQL fragments on tables\<close>

text \<open>
  A table is the list of its rows in insertion order.  \<open>DELETE ... WHERE P\<close>, \<open>UPDATE ... SET f
  WHERE P\<close>, \<open>SELECT ... WHERE P LIMIT 1\<close>, \<open>COALESCE(MAX(e), d)\<close> and \<open>LIMIT n\<close> (a negative limit is
  no limit in SQLite).  \<open>ORDER BY\<close> is a stable sort; rows equal under the sort key stay in table
  order, one of the orders SQLite may return.
\<close>

definition del_where :: "('r \<Rightarrow> bool) \<Rightarrow> 'r list \<Rightarrow> 'r list" where
  "del_where P t = filter (\<lambda>r. \<not> P r) t"

definition upd_where :: "('r \<Rightarrow> bool) \<Rightarrow> ('r \<Rightarrow> 'r) \<Rightarrow> 'r list \<Rightarrow> 'r list" where
  "upd_where P f t = map (\<lambda>r. if P r then f r else r) t"

definition exists_where :: "('r \<Rightarrow> bool) \<Rightarrow> 'r list \<Rightarrow> bool" where
  "exists_where P t = list_ex P t"

definition max_or :: "int \<Rightarrow> int list \<Rightarrow> int" where
  "max_or d xs = (case xs of [] \<Rightarrow> d | y # ys \<Rightarrow> foldr max ys y)"

definition sql_limit :: "int \<Rightarrow> 'r list \<Rightarrow> 'r list" where
  "sql_limit n t = (if n < 0 then t else take (nat n) t)"

definition order_desc :: "('r \<Rightarrow> 'k::linorder) \<Rightarrow> 'r list \<Rightarrow> 'r list" where
  "order_desc k t = rev (sort_key k (rev t))"

lemma set_del_where [simp]: "set (del_where P t) = {r \<in> set t. \<not> P r}"
  by (auto simp: del_where_def)

lemma set_upd_where: "set (upd_where P f t) = (\<lambda>r. if P r then f r else r) ` set t"
  by (simp add: upd_where_def)

lemma exists_where_iff [simp]: "exists_where P t \<longleftrightarrow> (\<exists>r \<in> set t. P r)"
  by (simp add: exists_where_def list_ex_iff)

lemma map_upd_where: "(\<And>r. k (f r) = k r) \<Longrightarrow> map k (upd_where P f t) = map k t"
  by (simp add: upd_where_def)

lemma distinct_map_del_where: "distinct (map k t) \<Longrightarrow> distinct (map k (del_where P t))"
  by (simp add: del_where_def distinct_map_filter)

lemma foldr_max_ge: "(y::int) \<le> foldr max ys y" "z \<in> set ys \<Longrightarrow> z \<le> foldr max ys y"
  by (induction ys) auto

lemma foldr_max_in: "foldr max ys (y::int) \<in> insert y (set ys)"
  by (induction ys) (auto simp: max_def)

lemma max_or_ge: "x \<in> set xs \<Longrightarrow> x \<le> max_or d xs"
  by (auto simp: max_or_def foldr_max_ge split: list.splits)

lemma max_or_in: "xs \<noteq> [] \<Longrightarrow> max_or d xs \<in> set xs"
  using foldr_max_in by (fastforce simp: max_or_def split: list.splits)

lemma max_or_Nil [simp]: "max_or d [] = d"
  by (simp add: max_or_def)

lemma set_sql_limit: "set (sql_limit n t) \<subseteq> set t"
  by (auto simp: sql_limit_def dest: in_set_takeD)

lemma set_order_desc [simp]: "set (order_desc k t) = set t"
  by (simp add: order_desc_def)

lemma length_order_desc [simp]: "length (order_desc k t) = length t"
  by (simp add: order_desc_def)

lemma sorted_order_desc: "sorted_wrt (\<lambda>a b. k b \<le> k a) (order_desc k t)"
proof -
  have "sorted_wrt (\<lambda>a b. k a \<le> k b) (sort_key k (rev t))"
    using sorted_sort_key [of k "rev t"] by (simp add: sorted_map)
  then show ?thesis by (simp add: order_desc_def sorted_wrt_rev)
qed

lemma find_SomeD: "List.find P t = Some r \<Longrightarrow> r \<in> set t \<and> P r"
  by (auto simp: find_Some_iff)

lemma find_unique:
  assumes "distinct (map k t)" and "r \<in> set t"
  shows "List.find (\<lambda>x. k x = k r) t = Some r"
  using assms by (induction t) (auto simp: rev_image_eqI)

lemma filter_unique:
  assumes "distinct (map k t)" and "r \<in> set t"
  shows "filter (\<lambda>x. k x = k r) t = [r]"
  using assms by (induction t) (auto simp: rev_image_eqI filter_empty_conv)

lemma find_None: "List.find P t = None \<longleftrightarrow> (\<forall>r \<in> set t. \<not> P r)"
  by (auto simp: find_None_iff)

lemma find_append: "List.find P (xs @ ys) = (case List.find P xs of None \<Rightarrow> List.find P ys | r \<Rightarrow> r)"
  by (induction xs) auto

text \<open>A row looked up by its key after an upsert or a delete under the same or another key.\<close>

definition upsert_where :: "('r \<Rightarrow> bool) \<Rightarrow> 'r \<Rightarrow> ('r \<Rightarrow> 'r) \<Rightarrow> 'r list \<Rightarrow> 'r list" where
  "upsert_where P new f t = (if exists_where P t then upd_where P f t else t @ [new])"

lemma find_upsert_same:
  assumes "\<And>r. P r \<Longrightarrow> P (f r) \<and> h (f r) = v" and "P new" and "h new = v"
  shows "map_option h (List.find P (upsert_where P new f t)) = Some v"
proof (cases "exists_where P t")
  case True
  then show ?thesis
    using assms(1) by (simp add: upsert_where_def) (induction t, auto simp: upd_where_def)
next
  case False
  then have "List.find P t = None" by (simp add: find_None_iff)
  with False assms show ?thesis by (simp add: upsert_where_def find_append)
qed

lemma find_upsert_other:
  assumes "\<And>r. P r \<Longrightarrow> \<not> Q r" and "\<And>r. P r \<Longrightarrow> P (f r)" and "P new"
  shows "List.find Q (upsert_where P new f t) = List.find Q t"
proof -
  have "List.find Q (upd_where P f t) = List.find Q t"
    using assms(1,2) by (induction t) (auto simp: upd_where_def)
  moreover have "\<not> Q new" using assms(1,3) by blast
  ultimately show ?thesis by (simp add: upsert_where_def find_append split: option.split)
qed

lemma find_del_same: "List.find P (del_where P t) = None"
  by (simp add: find_None_iff)

lemma find_del_other: "(\<And>r. P r \<Longrightarrow> \<not> Q r) \<Longrightarrow> List.find Q (del_where P t) = List.find Q t"
  by (induction t) (auto simp: del_where_def)

end
