(* ===== verification/Perms.thy ===== *)
theory Perms
  imports Accord_Prelude
begin

text \<open>
  The permission bitfield of \<open>crates/accord-types/src/perms.rs\<close>: the fourteen constants, the name
  table, the set operations and the authorization check, and the decimal wire format.  A
  \<open>Permissions\<close> value is its \<open>u64\<close>, so a \<open>64 word\<close>.
\<close>

unbundle bit_operations_syntax

type_synonym permissions = "64 word"

section \<open>Constants and the name table\<close>

definition ADMINISTRATOR :: permissions where "ADMINISTRATOR = push_bit 0 1"
definition VIEW_CHANNELS :: permissions where "VIEW_CHANNELS = push_bit 1 1"
definition SEND_MESSAGES :: permissions where "SEND_MESSAGES = push_bit 2 1"
definition MANAGE_MESSAGES :: permissions where "MANAGE_MESSAGES = push_bit 3 1"
definition MANAGE_CHANNELS :: permissions where "MANAGE_CHANNELS = push_bit 4 1"
definition MANAGE_ROLES :: permissions where "MANAGE_ROLES = push_bit 5 1"
definition CREATE_INVITE :: permissions where "CREATE_INVITE = push_bit 6 1"
definition KICK_MEMBERS :: permissions where "KICK_MEMBERS = push_bit 7 1"
definition BAN_MEMBERS :: permissions where "BAN_MEMBERS = push_bit 8 1"
definition MANAGE_SERVER :: permissions where "MANAGE_SERVER = push_bit 9 1"
definition CREATE_PRIVATE_CHAT :: permissions where "CREATE_PRIVATE_CHAT = push_bit 10 1"
definition MENTION_EVERYONE :: permissions where "MENTION_EVERYONE = push_bit 11 1"
definition ATTACH_FILES :: permissions where "ATTACH_FILES = push_bit 12 1"
definition ADD_REACTIONS :: permissions where "ADD_REACTIONS = push_bit 13 1"

lemmas perm_defs = ADMINISTRATOR_def VIEW_CHANNELS_def SEND_MESSAGES_def MANAGE_MESSAGES_def
  MANAGE_CHANNELS_def MANAGE_ROLES_def CREATE_INVITE_def KICK_MEMBERS_def BAN_MEMBERS_def
  MANAGE_SERVER_def CREATE_PRIVATE_CHAT_def MENTION_EVERYONE_def ATTACH_FILES_def ADD_REACTIONS_def

definition NAMES :: "(string \<times> permissions) list" where
  "NAMES =
     [(''ADMINISTRATOR'', ADMINISTRATOR),
      (''VIEW_CHANNELS'', VIEW_CHANNELS),
      (''SEND_MESSAGES'', SEND_MESSAGES),
      (''MANAGE_MESSAGES'', MANAGE_MESSAGES),
      (''MANAGE_CHANNELS'', MANAGE_CHANNELS),
      (''MANAGE_ROLES'', MANAGE_ROLES),
      (''CREATE_INVITE'', CREATE_INVITE),
      (''KICK_MEMBERS'', KICK_MEMBERS),
      (''BAN_MEMBERS'', BAN_MEMBERS),
      (''MANAGE_SERVER'', MANAGE_SERVER),
      (''CREATE_PRIVATE_CHAT'', CREATE_PRIVATE_CHAT),
      (''MENTION_EVERYONE'', MENTION_EVERYONE),
      (''ATTACH_FILES'', ATTACH_FILES),
      (''ADD_REACTIONS'', ADD_REACTIONS)]"

section \<open>Operations\<close>

definition perms_empty :: permissions where
  "perms_empty = 0"

text \<open>The \<open>while i < NAMES.len()\<close> loop that ORs the table together.\<close>

definition perms_all :: permissions where
  "perms_all = foldl (\<lambda>bits p. bits OR snd p) 0 NAMES"

definition default_everyone :: permissions where
  "default_everyone =
     VIEW_CHANNELS OR SEND_MESSAGES OR CREATE_INVITE OR CREATE_PRIVATE_CHAT OR ADD_REACTIONS
       OR ATTACH_FILES"

definition perms_contains :: "permissions \<Rightarrow> permissions \<Rightarrow> bool" where
  "perms_contains p q \<longleftrightarrow> p AND q = q"

definition is_admin :: "permissions \<Rightarrow> bool" where
  "is_admin p = perms_contains p ADMINISTRATOR"

definition perms_union :: "permissions \<Rightarrow> permissions \<Rightarrow> permissions" where
  "perms_union p q = p OR q"

definition allows :: "permissions \<Rightarrow> permissions \<Rightarrow> bool" where
  "allows p q \<longleftrightarrow> is_admin p \<or> perms_contains p q"

definition perms_names :: "permissions \<Rightarrow> string list" where
  "perms_names p = map fst (filter (\<lambda>np. perms_contains p (snd np)) NAMES)"

text \<open>\<open>Display\<close> / \<open>Serialize\<close> print the \<open>u64\<close> in decimal; \<open>FromStr\<close> / \<open>visit_str\<close> parse it back,
  and \<open>visit_u64\<close> takes a raw integer.\<close>

definition perms_display :: "permissions \<Rightarrow> string" where
  "perms_display p = show_nat (unat p)"

definition perms_from_str :: "string \<Rightarrow> permissions option" where
  "perms_from_str s = parse_u64 s"

datatype json_scalar = JString string | JUnsigned "64 word"

fun perms_deserialize :: "json_scalar \<Rightarrow> permissions option" where
  "perms_deserialize (JString s) = parse_u64 s"
| "perms_deserialize (JUnsigned n) = Some n"

section \<open>The operations bit by bit\<close>

lemma perms_contains_iff: "perms_contains p q \<longleftrightarrow> (\<forall>n. bit q n \<longrightarrow> bit p n)"
proof
  assume "perms_contains p q"
  then have "p AND q = q" by (simp add: perms_contains_def)
  then show "\<forall>n. bit q n \<longrightarrow> bit p n" by (metis bit_and_iff)
next
  assume sub: "\<forall>n. bit q n \<longrightarrow> bit p n"
  have "p AND q = q" by (rule bit_word_eqI) (use sub in \<open>auto simp: bit_and_iff\<close>)
  then show "perms_contains p q" by (simp add: perms_contains_def)
qed

lemma is_admin_iff: "is_admin p \<longleftrightarrow> bit p 0"
  by (auto simp: is_admin_def perms_contains_iff ADMINISTRATOR_def bit_1_iff)

lemma is_admin_union [simp]: "is_admin (p OR q) \<longleftrightarrow> is_admin p \<or> is_admin q"
  by (simp add: is_admin_iff bit_or_iff)

lemma is_admin_0 [simp]: "\<not> is_admin 0"
  by (simp add: is_admin_iff)

lemma not_allows_0: "q \<noteq> 0 \<Longrightarrow> \<not> allows 0 q"
  by (auto simp: allows_def perms_contains_def)

lemma allows_mono: "perms_contains p' p \<Longrightarrow> allows p q \<Longrightarrow> allows p' q"
  by (auto simp: allows_def is_admin_def perms_contains_iff)

lemma bit_perms_all: "bit perms_all n \<longleftrightarrow> n < 14"
proof -
  have "perms_all = mask 14"
    by (simp add: perms_all_def NAMES_def perm_defs mask_eq_exp_minus_1)
  moreover have "bit (mask 14 :: permissions) n \<longleftrightarrow> n < 14"
    unfolding bit_mask_iff by auto
  ultimately show ?thesis by (simp only:)
qed

lemma is_admin_all [simp]: "is_admin perms_all"
  by (simp add: is_admin_iff bit_perms_all)

lemma not_admin_default_everyone [simp]: "\<not> is_admin default_everyone"
  by (simp add: is_admin_iff default_everyone_def perm_defs)

lemma parse_show_nat_overflow: "2 ^ 64 \<le> n \<Longrightarrow> parse_digits 0 (show_nat n) = None"
proof (induction n rule: show_nat.induct)
  case (1 n)
  then have big: "\<not> n < 10" by simp
  have split: "n div 10 * 10 + n mod 10 = n" by presburger
  show ?case
  proof (cases "2 ^ 64 \<le> n div 10")
    case True
    with "1.IH" big have "parse_digits 0 (show_nat (n div 10)) = None" by simp
    with big show ?thesis by (subst show_nat.simps) (simp add: parse_digits_append)
  next
    case False
    then have "parse_digits 0 (show_nat (n div 10)) = Some (n div 10)"
      by (simp add: parse_show_nat)
    moreover have "2 ^ 64 \<le> n div 10 * 10 + digit_val (digit_char (n mod 10))"
      using split "1.prems" by simp
    ultimately show ?thesis
      using big by (subst show_nat.simps) (simp add: parse_digits_append)
  qed
qed

section \<open>Properties\<close>

text \<open>
  Wire format of the permission bitfield: parsing the decimal printout of any natural number
  gives back exactly that bitfield when it fits a \<open>u64\<close>, and is an error otherwise; in particular
  every permission value survives a round trip through its string form and through both JSON forms
  the deserializer accepts.
\<close>

theorem perms_wire_roundtrip:
  "perms_from_str (show_nat n) = (if n < 2 ^ 64 then Some (of_nat n) else None) \<and>
   perms_from_str (perms_display p) = Some p \<and>
   perms_deserialize (JString (perms_display p)) = Some p \<and>
   perms_deserialize (JUnsigned p) = Some p"
proof -
  have nat: "perms_from_str (show_nat m) = (if m < 2 ^ 64 then Some (of_nat m) else None)" for m
  proof (cases "m < 2 ^ 64")
    case True
    then show ?thesis by (simp add: perms_from_str_def parse_u64_show_nat)
  next
    case False
    have "is_digit (hd (show_nat m))"
      by (rule show_nat_digits [of _ m]) (simp add: hd_in_set)
    then have "hd (show_nat m) \<noteq> CHR ''+''" by (auto simp: is_digit_def)
    with False show ?thesis
      by (simp add: perms_from_str_def parse_u64_def parse_show_nat_overflow)
  qed
  have "unat p < 2 ^ 64"
    using unsigned_less [of p, where ?'a = nat] by simp
  then have "perms_from_str (perms_display p) = Some p"
    using nat [of "unat p"] by (simp add: perms_display_def)
  then show ?thesis
    using nat by (simp add: perms_from_str_def)
qed

text \<open>
  The authorization check: a permission set allows an action exactly when it holds the
  ADMINISTRATOR bit or every bit of the action; ADMINISTRATOR allows everything, the full set
  \<open>all()\<close> is the fourteen named bits and names all of them, and the \<open>@everyone\<close> defaults allow
  chatting and inviting but no moderation, role, channel or server management.
\<close>

theorem perms_allows_spec:
  "(allows p q \<longleftrightarrow> bit p 0 \<or> (\<forall>n. bit q n \<longrightarrow> bit p n)) \<and>
   (bit perms_all n \<longleftrightarrow> n < 14) \<and>
   perms_names perms_all = map fst NAMES \<and>
   (\<forall>r \<in> {MANAGE_MESSAGES, MANAGE_CHANNELS, MANAGE_ROLES, KICK_MEMBERS, BAN_MEMBERS,
      MANAGE_SERVER, MENTION_EVERYONE, ADMINISTRATOR}. \<not> allows default_everyone r) \<and>
   (\<forall>r \<in> {VIEW_CHANNELS, SEND_MESSAGES, CREATE_INVITE, CREATE_PRIVATE_CHAT, ATTACH_FILES,
      ADD_REACTIONS}. allows default_everyone r)"
proof (intro conjI)
  show "allows p q \<longleftrightarrow> bit p 0 \<or> (\<forall>n. bit q n \<longrightarrow> bit p n)"
    by (simp add: allows_def is_admin_iff perms_contains_iff)
  show "bit perms_all n \<longleftrightarrow> n < 14"
    by (rule bit_perms_all)
  show "perms_names perms_all = map fst NAMES"
    by (simp add: perms_names_def NAMES_def perms_all_def perms_contains_def perm_defs)
  show "\<forall>r \<in> {MANAGE_MESSAGES, MANAGE_CHANNELS, MANAGE_ROLES, KICK_MEMBERS, BAN_MEMBERS,
      MANAGE_SERVER, MENTION_EVERYONE, ADMINISTRATOR}. \<not> allows default_everyone r"
    by (simp add: allows_def is_admin_def perms_contains_def default_everyone_def perm_defs)
  show "\<forall>r \<in> {VIEW_CHANNELS, SEND_MESSAGES, CREATE_INVITE, CREATE_PRIVATE_CHAT, ATTACH_FILES,
      ADD_REACTIONS}. allows default_everyone r"
    by (simp add: allows_def is_admin_def perms_contains_def default_everyone_def perm_defs)
qed

text \<open>Witness at the value 1094 (the bits 1, 2, 6 and 10).\<close>

theorem perms_allows_spec_witness:
  "allows 1094 SEND_MESSAGES \<and> \<not> allows 1094 BAN_MEMBERS \<and> bit perms_all 13 \<and>
   \<not> allows default_everyone BAN_MEMBERS"
  using perms_allows_spec [of 1094 SEND_MESSAGES 13]
  by (simp add: allows_def is_admin_def perms_contains_def perm_defs)

end
