(* ===== verification/Errors.thy ===== *)
theory Errors
  imports Accord_Prelude
begin

text \<open>
  \<open>crates/accord-server/src/error.rs\<close>: the server's error type and its mapping to a gRPC status.
  The sqlx error inside \<open>Database\<close> is reduced to the kinds the store can meet.  \<open>Panicked\<close> is not a
  variant of the Rust enum: it is the unwinding of a handler, which no \<open>?\<close> or \<open>unwrap_or_default\<close>
  catches; \<open>Aborted\<close> is what the RPC then ends in (no status is returned).
\<close>

datatype sqlx_error = UniqueViolation | ForeignKeyViolation | CheckViolation | RowNotFound
  | ColumnNotFound string | InvalidRowCount

datatype server_error =
    Unauthenticated
  | PermissionDenied
  | AlreadyExists string
  | NotFound string
  | InvalidArgument string
  | RateLimited string
  | Database sqlx_error
  | Migration string
  | Internal string
  | Redis string
  | PasswordHash string
  | Token string
  | Panicked string

datatype code =
    CodeUnauthenticated
  | CodePermissionDenied
  | CodeAlreadyExists
  | CodeNotFound
  | CodeInvalidArgument
  | CodeResourceExhausted
  | CodeFailedPrecondition
  | CodeUnimplemented
  | CodeInternal

datatype status = Status code string | Aborted string

fun status_code :: "status \<Rightarrow> code option" where
  "status_code (Status c m) = Some c"
| "status_code (Aborted m) = None"

text \<open>\<open>impl From<ServerError> for Status\<close>: the \<open>Display\<close> text of the client-facing variants, one
  fixed message for every internal one.\<close>

fun status_of :: "server_error \<Rightarrow> status" where
  "status_of Unauthenticated = Status CodeUnauthenticated ''authentication failed''"
| "status_of PermissionDenied = Status CodePermissionDenied ''permission denied''"
| "status_of (AlreadyExists m) = Status CodeAlreadyExists (''already exists: '' @ m)"
| "status_of (NotFound m) = Status CodeNotFound (''not found: '' @ m)"
| "status_of (InvalidArgument m) = Status CodeInvalidArgument (''invalid argument: '' @ m)"
| "status_of (RateLimited m) = Status CodeResourceExhausted (''rate limited: '' @ m)"
| "status_of (Database e) = Status CodeInternal ''internal server error''"
| "status_of (Redis m) = Status CodeInternal ''internal server error''"
| "status_of (Migration m) = Status CodeInternal ''internal server error''"
| "status_of (Internal m) = Status CodeInternal ''internal server error''"
| "status_of (PasswordHash m) = Status CodeInternal ''internal server error''"
| "status_of (Token m) = Status CodeInternal ''internal server error''"
| "status_of (Panicked m) = Aborted m"

text \<open>\<open>unwrap_or(d)\<close> on a \<open>ServerResult\<close>: drops a returned error, lets a panic through.\<close>

definition unwrap_or :: "'a \<Rightarrow> ('s, server_error, 'a) act \<Rightarrow> ('s, server_error, 'a) act" where
  "unwrap_or d m = (\<lambda>s. case m s of (r, t) \<Rightarrow>
     (case r of
        Inl e \<Rightarrow> (case e of Panicked p \<Rightarrow> (Inl (Panicked p), t) | _ \<Rightarrow> (Inr d, t))
      | Inr a \<Rightarrow> (Inr a, t)))"

lemma effect_unwrap_or: "effect R m \<Longrightarrow> effect R (unwrap_or d m)"
  by (auto simp: effect_def unwrap_or_def split: prod.splits sum.splits server_error.splits)
    (metis snd_conv)+

lemma wp_unwrap_or:
  "wp m Q (\<lambda>e t. Q d t \<and> (\<forall>p. e = Panicked p \<longrightarrow> X e t)) s \<Longrightarrow> wp (unwrap_or d m) Q X s"
  by (auto simp: wp_def unwrap_or_def split: prod.splits sum.splits server_error.splits)

section \<open>Properties\<close>



end
