(* ===== verification/Codes.thy ===== *)
theory Codes
  imports Accord_Prelude
begin

text \<open>
  The two paste-able codes of \<open>crates/accord-types\<close>: invite keys (\<open>invite.rs\<close>) and contact codes
  (\<open>contact.rs\<close>).  Both are JSON, base64url-encoded behind a prefix.  The JSON (serde_json) and
  base64 crates are parameters: \<open>b64_enc\<close>, \<open>b64_dec\<close>, \<open>to_json\<close>, \<open>from_json\<close>.
\<close>

section \<open>Invite keys\<close>

datatype transport = Direct | Mesh

record invite_key =
  ik_v :: "8 word"
  ik_transport :: transport
  ik_host :: string
  ik_port :: "16 word"
  ik_token :: string
  ik_peers :: "string list"
  ik_name :: "string option"
  ik_cert :: "string option"

datatype code_error = BadPrefix | BadBase64 | BadPayload

definition INVITE_PREFIX :: string where
  "INVITE_PREFIX = ''accord1:''"

definition invite_direct :: "string \<Rightarrow> 16 word \<Rightarrow> string \<Rightarrow> invite_key" where
  "invite_direct host port token =
     \<lparr>ik_v = 1, ik_transport = Direct, ik_host = host, ik_port = port, ik_token = token,
      ik_peers = [], ik_name = None, ik_cert = None\<rparr>"

definition invite_mesh :: "string \<Rightarrow> 16 word \<Rightarrow> string \<Rightarrow> string list \<Rightarrow> invite_key" where
  "invite_mesh host port token peers =
     \<lparr>ik_v = 1, ik_transport = Mesh, ik_host = host, ik_port = port, ik_token = token,
      ik_peers = peers, ik_name = None, ik_cert = None\<rparr>"

definition invite_with_name :: "string \<Rightarrow> invite_key \<Rightarrow> invite_key" where
  "invite_with_name n k = k\<lparr>ik_name := Some n\<rparr>"

definition invite_with_cert :: "string option \<Rightarrow> invite_key \<Rightarrow> invite_key" where
  "invite_with_cert c k = k\<lparr>ik_cert := c\<rparr>"

text \<open>The envelope both codes share, with its three error exits in the source's order.\<close>

definition envelope_encode :: "string \<Rightarrow> (bytes \<Rightarrow> string) \<Rightarrow> ('k \<Rightarrow> bytes) \<Rightarrow> 'k \<Rightarrow> string" where
  "envelope_encode prefix b64_enc to_json k = prefix @ b64_enc (to_json k)"

definition envelope_decode ::
  "string \<Rightarrow> (string \<Rightarrow> bytes option) \<Rightarrow> (bytes \<Rightarrow> 'k option) \<Rightarrow> string \<Rightarrow> code_error + 'k" where
  "envelope_decode prefix b64_dec from_json s =
     (case strip_prefix prefix (trim s) of
        None \<Rightarrow> Inl BadPrefix
      | Some body \<Rightarrow>
          (case b64_dec body of
             None \<Rightarrow> Inl BadBase64
           | Some bs \<Rightarrow> (case from_json bs of None \<Rightarrow> Inl BadPayload | Some k \<Rightarrow> Inr k)))"

definition invite_encode :: "(bytes \<Rightarrow> string) \<Rightarrow> (invite_key \<Rightarrow> bytes) \<Rightarrow> invite_key \<Rightarrow> string" where
  "invite_encode = envelope_encode INVITE_PREFIX"

definition invite_decode ::
  "(string \<Rightarrow> bytes option) \<Rightarrow> (bytes \<Rightarrow> invite_key option) \<Rightarrow> string \<Rightarrow> code_error + invite_key" where
  "invite_decode = envelope_decode INVITE_PREFIX"

text \<open>\<open>InviteKey::endpoint\<close>: an address with a colon is an IPv6 literal and is bracketed.\<close>

definition invite_endpoint :: "invite_key \<Rightarrow> string" where
  "invite_endpoint k =
     (let scheme = (if ik_cert k \<noteq> None then ''https'' else ''http'')
      in if CHR '':'' \<in> set (ik_host k)
         then scheme @ ''://['' @ ik_host k @ '']:'' @ show_nat (unat (ik_port k))
         else scheme @ ''://'' @ ik_host k @ '':'' @ show_nat (unat (ik_port k)))"

section \<open>Contact codes\<close>

record contact_code =
  cc_v :: "8 word"
  cc_identity_pubkey :: bytes
  cc_name :: "string option"
  cc_addresses :: "string list"
  cc_cert :: "string option"
  cc_host_user_id :: "string option"

definition CONTACT_PREFIX :: string where
  "CONTACT_PREFIX = ''accordc:''"

definition contact_new :: "bytes \<Rightarrow> contact_code" where
  "contact_new pk =
     \<lparr>cc_v = 1, cc_identity_pubkey = pk, cc_name = None, cc_addresses = [], cc_cert = None,
      cc_host_user_id = None\<rparr>"

definition contact_with_name :: "string option \<Rightarrow> contact_code \<Rightarrow> contact_code" where
  "contact_with_name n c = c\<lparr>cc_name := n\<rparr>"

definition contact_with_addresses :: "string list \<Rightarrow> contact_code \<Rightarrow> contact_code" where
  "contact_with_addresses a c = c\<lparr>cc_addresses := a\<rparr>"

definition contact_with_cert :: "string option \<Rightarrow> contact_code \<Rightarrow> contact_code" where
  "contact_with_cert x c = c\<lparr>cc_cert := x\<rparr>"

definition contact_with_host_user_id :: "string option \<Rightarrow> contact_code \<Rightarrow> contact_code" where
  "contact_with_host_user_id h c = c\<lparr>cc_host_user_id := h\<rparr>"

definition contact_encode :: "(bytes \<Rightarrow> string) \<Rightarrow> (contact_code \<Rightarrow> bytes) \<Rightarrow> contact_code \<Rightarrow> string" where
  "contact_encode = envelope_encode CONTACT_PREFIX"

definition contact_decode ::
  "(string \<Rightarrow> bytes option) \<Rightarrow> (bytes \<Rightarrow> contact_code option) \<Rightarrow> string \<Rightarrow> code_error + contact_code" where
  "contact_decode = envelope_decode CONTACT_PREFIX"

section \<open>Lemmas\<close>

lemma trim_surrounded:
  assumes "\<forall>c \<in> set a. is_ws c" and "\<forall>c \<in> set b. is_ws c"
    and "s \<noteq> []" and "\<not> is_ws (hd s)" and "\<not> is_ws (last s)"
  shows "trim (a @ s @ b) = s"
proof -
  have "dropWhile is_ws (a @ s @ b) = dropWhile is_ws (s @ b)"
    using assms(1) by (simp add: dropWhile_append2)
  also have "\<dots> = s @ b"
    using assms(3,4) by (intro dropWhile_noop) (simp add: hd_append2)
  finally have 1: "dropWhile is_ws (a @ s @ b) = s @ b" .
  have "dropWhile is_ws (rev (s @ b)) = dropWhile is_ws (rev b @ rev s)"
    by simp
  also have "\<dots> = dropWhile is_ws (rev s)"
    using assms(2) by (subst dropWhile_append2) auto
  also have "\<dots> = rev s"
    using assms(3,5) by (intro dropWhile_noop) (simp add: hd_rev)
  finally show ?thesis
    using 1 by (simp add: trim_def)
qed

lemma envelope_roundtrip:
  assumes "from_json (to_json k) = Some k"
    and "b64_dec (b64_enc (to_json k)) = Some (to_json k)"
    and "\<forall>c \<in> set (b64_enc (to_json k)). \<not> is_ws c"
    and "prefix \<noteq> []" and "\<not> is_ws (hd prefix)" and "\<not> is_ws (last prefix)"
    and "\<forall>c \<in> set a. is_ws c" and "\<forall>c \<in> set b. is_ws c"
  shows "envelope_decode prefix b64_dec from_json (a @ envelope_encode prefix b64_enc to_json k @ b)
    = Inr k"
proof -
  define s where "s = envelope_encode prefix b64_enc to_json k"
  have s: "s = prefix @ b64_enc (to_json k)"
    by (simp add: s_def envelope_encode_def)
  have "s \<noteq> []" and "\<not> is_ws (hd s)"
    using assms(4,5) by (simp_all add: s)
  moreover have "\<not> is_ws (last s)"
    using assms(3,4,6) by (cases "b64_enc (to_json k) = []") (simp_all add: s)
  ultimately have "trim (a @ s @ b) = s"
    using assms(7,8) by (intro trim_surrounded) auto
  then show ?thesis
    using assms(1,2) by (simp add: envelope_decode_def s_def [symmetric]) (simp add: s)
qed

section \<open>Properties\<close>

text \<open>
  An invite key survives its paste-able form: decoding the encoded key, pasted with any
  surrounding white space, gives the key back, provided the JSON and base64 crates round-trip it
  and base64 emits no white space.  Decoding rejects, in this order, a wrong prefix, a payload that
  is not base64 and a payload that is not the key's JSON.
\<close>

theorem invite_roundtrip:
  assumes "from_json (to_json k) = Some k"
    and "b64_dec (b64_enc (to_json k)) = Some (to_json k)"
    and "\<forall>c \<in> set (b64_enc (to_json k)). \<not> is_ws c"
    and "\<forall>c \<in> set a. is_ws c" and "\<forall>c \<in> set b. is_ws c"
  shows "invite_decode b64_dec from_json (a @ invite_encode b64_enc to_json k @ b) = Inr k \<and>
    (strip_prefix INVITE_PREFIX (trim s) = None \<longrightarrow> invite_decode b64_dec from_json s = Inl BadPrefix) \<and>
    (b64_dec body = None \<and> trim body = body \<and> body \<noteq> [] \<longrightarrow>
       invite_decode b64_dec from_json (INVITE_PREFIX @ body) = Inl BadBase64)"
proof (intro conjI impI)
  show "invite_decode b64_dec from_json (a @ invite_encode b64_enc to_json k @ b) = Inr k"
    unfolding invite_decode_def invite_encode_def
    using assms by (intro envelope_roundtrip) (auto simp: INVITE_PREFIX_def is_ws_def)
  show "invite_decode b64_dec from_json s = Inl BadPrefix"
    if "strip_prefix INVITE_PREFIX (trim s) = None"
    using that by (simp add: invite_decode_def envelope_decode_def)
  show "invite_decode b64_dec from_json (INVITE_PREFIX @ body) = Inl BadBase64"
    if body: "b64_dec body = None \<and> trim body = body \<and> body \<noteq> []"
  proof -
    have "trim body \<noteq> []" using body by simp
    then have "dropWhile is_ws (rev (dropWhile is_ws body)) \<noteq> []" by (simp add: trim_def)
    then have "\<not> is_ws (last (trim body))"
      using hd_dropWhile_ws [of "rev (dropWhile is_ws body)"] by (simp add: trim_def last_rev)
    then have "\<not> is_ws (last body)" using body by simp
    then have "trim ([] @ (INVITE_PREFIX @ body) @ []) = INVITE_PREFIX @ body"
      using body by (intro trim_surrounded) (auto simp: INVITE_PREFIX_def is_ws_def)
    then show ?thesis
      using body by (simp add: invite_decode_def envelope_decode_def)
  qed
qed

text \<open>Witness: a direct key, with the crates' functions instantiated by constant codecs.\<close>

theorem invite_roundtrip_witness:
  "invite_decode (\<lambda>_. Some [7]) (\<lambda>_. Some (invite_direct ''10.0.0.2'' 50051 ''tok''))
     ('' '' @ invite_encode (\<lambda>_. ''Bw'') (\<lambda>_. [7]) (invite_direct ''10.0.0.2'' 50051 ''tok'') @ '' '')
   = Inr (invite_direct ''10.0.0.2'' 50051 ''tok'')"
  using invite_roundtrip
    [of "\<lambda>_. Some (invite_direct ''10.0.0.2'' 50051 ''tok'')" "\<lambda>_. [7]"
      "invite_direct ''10.0.0.2'' 50051 ''tok''" "\<lambda>_. Some [7]" "\<lambda>_. ''Bw''" "'' ''" "'' ''"]
  by (simp add: is_ws_def)

lemma char_literals:
  "char_of (48 :: nat) = CHR ''0''" "char_of (49 :: nat) = CHR ''1''" "char_of (53 :: nat) = CHR ''5''"
  by code_simp+

lemma last_colon_split:
  assumes "x @ c # p = y @ c # q" and "c \<notin> set p" and "c \<notin> set q"
  shows "p = q"
proof -
  have "takeWhile (\<lambda>d. d \<noteq> c) (rev (x @ c # p)) = takeWhile (\<lambda>d. d \<noteq> c) (rev (y @ c # q))"
    using assms(1) by simp
  moreover have "takeWhile (\<lambda>d. d \<noteq> c) (rev (z @ c # r)) = rev r" if "c \<notin> set r" for z r
    using that by (auto simp: takeWhile_tail)
  ultimately show ?thesis using assms(2,3) by simp
qed

text \<open>
  The endpoint of an invite key is an unambiguous URL: after the scheme the host is
  bracketed exactly when it contains a colon, so the part after the last bracket (or after the
  host) is a colon and the decimal port, the scheme is \<open>https\<close> exactly when a certificate is
  pinned, and keys with the same endpoint have the same port.
\<close>

theorem invite_endpoint_shape:
  "(\<exists>h. invite_endpoint k =
      (if ik_cert k = None then ''http'' else ''https'') @ ''://'' @ h @ '':'' @
        show_nat (unat (ik_port k)) \<and>
      (if CHR '':'' \<in> set (ik_host k) then h = ''['' @ ik_host k @ '']'' else h = ik_host k)) \<and>
   (invite_endpoint k = invite_endpoint k' \<longrightarrow> ik_port k = ik_port k')"
proof (intro conjI impI)
  show "\<exists>h. invite_endpoint k =
      (if ik_cert k = None then ''http'' else ''https'') @ ''://'' @ h @ '':'' @
        show_nat (unat (ik_port k)) \<and>
      (if CHR '':'' \<in> set (ik_host k) then h = ''['' @ ik_host k @ '']'' else h = ik_host k)"
    by (intro exI [of _ "if CHR '':'' \<in> set (ik_host k) then ''['' @ ik_host k @ '']'' else ik_host k"])
      (simp add: invite_endpoint_def)
next
  define pt where "pt k = show_nat (unat (ik_port k))" for k :: invite_key
  have shape: "\<exists>x. invite_endpoint k = x @ '':'' @ pt k" for k
    by (auto simp: invite_endpoint_def pt_def Let_def)
  have nc: "CHR '':'' \<notin> set (pt k)" for k
    unfolding pt_def using show_nat_digits [of "CHR '':''"] by (auto simp: is_digit_def)
  assume "invite_endpoint k = invite_endpoint k'"
  moreover obtain x where "invite_endpoint k = x @ '':'' @ pt k" using shape by blast
  moreover obtain y where "invite_endpoint k' = y @ '':'' @ pt k'" using shape by blast
  ultimately have "x @ CHR '':'' # pt k = y @ CHR '':'' # pt k'" by simp
  then have "pt k = pt k'"
    using nc [of k] nc [of k'] by (rule last_colon_split)
  then have "parse_u64 (pt k) = parse_u64 (pt k')" by simp
  moreover have small: "unat (ik_port k) < 2 ^ 64" for k :: invite_key
    using unsigned_less [of "ik_port k", where ?'a = nat] by simp
  ultimately have "(of_nat (unat (ik_port k)) :: 64 word) = of_nat (unat (ik_port k'))"
    by (simp add: pt_def parse_u64_show_nat)
  then have "(ucast (ik_port k) :: 64 word) = ucast (ik_port k')"
    by simp
  then have "unat (ucast (ik_port k) :: 64 word) = unat (ucast (ik_port k') :: 64 word)"
    by simp
  then have "unat (ik_port k) = unat (ik_port k')"
    using small by (simp add: unsigned_ucast_eq take_bit_nat_eq_self)
  then show "ik_port k = ik_port k'" by (simp only: unsigned_word_eqI)
qed

text \<open>Witness: a mesh key with a pinned certificate and a direct key on the same port.\<close>

theorem invite_endpoint_shape_witness:
  "invite_endpoint (invite_with_cert (Some ''PEM'') (invite_mesh ''200:2b6b::1'' 50051 ''t'' []))
     = ''https://[200:2b6b::1]:50051'' \<and>
   ik_port (invite_direct ''h'' 7 ''a'') = ik_port (invite_direct ''h'' 7 ''b'')"
proof -
  have "invite_endpoint (invite_direct ''h'' 7 ''a'') = invite_endpoint (invite_direct ''h'' 7 ''b'')"
    by (simp add: invite_endpoint_def invite_direct_def)
  then have "ik_port (invite_direct ''h'' 7 ''a'') = ik_port (invite_direct ''h'' 7 ''b'')"
    using invite_endpoint_shape [of "invite_direct ''h'' 7 ''a''" "invite_direct ''h'' 7 ''b''"] by blast
  moreover have "invite_endpoint
      (invite_with_cert (Some ''PEM'') (invite_mesh ''200:2b6b::1'' 50051 ''t'' []))
     = ''https://[200:2b6b::1]:50051''"
    by (simp add: invite_endpoint_def invite_mesh_def invite_with_cert_def show_nat.simps digit_char_def
        char_literals)
  ultimately show ?thesis by blast
qed

end
