(* ===== verification/Names.thy ===== *)
theory Names
  imports Accord_Prelude
begin

text \<open>
  \<open>crates/accord-server/src/guardrails/names.rs\<close>: the channel-name heuristics.  Ratios of character
  counts are exact rationals: for the lengths involved the comparisons agree with those on \<open>f64\<close>.
  The one value that depends on rounding is the percentage printed in a reason, and \<open>percent_f64\<close>
  rounds the two \<open>f64\<close> operations to nearest, ties to even, as the hardware does.
\<close>

section \<open>The heuristics\<close>

datatype name_verdict = NameOk | Suspicious string

definition SPAM_CLUSTER :: nat where "SPAM_CLUSTER = 3"
definition SIMILAR :: rat where "SIMILAR = 8 / 10"

fun split_at_ws :: "string \<Rightarrow> string list" where
  "split_at_ws [] = [[]]"
| "split_at_ws (c # cs) =
     (if is_ws c then [] # split_at_ws cs
      else (case split_at_ws cs of [] \<Rightarrow> [[c]] | w # ws \<Rightarrow> (c # w) # ws))"

definition split_whitespace :: "string \<Rightarrow> string list" where
  "split_whitespace s = filter (\<lambda>w. w \<noteq> []) (split_at_ws s)"

fun join :: "string \<Rightarrow> string list \<Rightarrow> string" where
  "join sep [] = []"
| "join sep [w] = w"
| "join sep (w # v # ws) = w @ sep @ join sep (v # ws)"

definition normalize :: "string \<Rightarrow> string" where
  "normalize s = join '' '' (split_whitespace (map lower_char (trim s)))"

definition is_ascii_alphabetic :: "char \<Rightarrow> bool" where
  "is_ascii_alphabetic c \<longleftrightarrow> (let n = (of_char c :: nat) in 65 \<le> n \<and> n \<le> 90 \<or> 97 \<le> n \<and> n \<le> 122)"

definition is_vowel :: "char \<Rightarrow> bool" where
  "is_vowel c \<longleftrightarrow> c \<in> set ''aeiouy''"

text \<open>Rounding to nearest (ties to even) on the grid of step \<open>2 ^ - p\<close>; a ratio above one half and at
  most one lies on the grid \<open>p = 53\<close>, its hundredfold on 47 below 64 and 46 from there.\<close>

definition round_half_even :: "rat \<Rightarrow> int" where
  "round_half_even q =
     (let f = \<lfloor>q\<rfloor>; r = q - of_int f in
      if r < 1 / 2 then f else if r > 1 / 2 then f + 1 else if even f then f else f + 1)"

definition f64_grid :: "nat \<Rightarrow> rat \<Rightarrow> rat" where
  "f64_grid p q = of_int (round_half_even (q * 2 ^ p)) / 2 ^ p"

definition percent_f64 :: "nat \<Rightarrow> nat \<Rightarrow> nat" where
  "percent_f64 d t =
     (let x = f64_grid 53 (of_nat d / of_nat t) * 100
      in nat \<lfloor>f64_grid (if x < 64 then 47 else 46) x\<rfloor>)"

definition looks_random :: "string \<Rightarrow> string option" where
  "looks_random nm =
     (let letters = filter is_ascii_alphabetic nm;
          digits = length (filter is_digit nm);
          total = length (filter (\<lambda>c. \<not> is_ws c) nm)
      in if total < 5 then None
         else if (of_nat digits / of_nat total :: rat) > 1 / 2
         then Some (''mostly digits ('' @ show_nat (percent_f64 digits total) @ ''%)'')
         else if length letters \<ge> 5 then
           (let vowels = length (filter is_vowel letters);
                distinct_letters = length (remdups_adj (sort letters))
            in if (of_nat vowels / of_nat (length letters) :: rat) < 15 / 100
               then Some ''no vowels (likely random)''
               else if length letters \<ge> 6 \<and> distinct_letters \<le> 2
               then Some ''very low character variety''
               else None)
         else None)"

text \<open>The two-row dynamic program: \<open>lev_cell\<close> is one assignment of the inner loop, \<open>lev_inner\<close> the
  inner loop, and the outer loop swaps the rows.\<close>

definition lev_cell :: "nat list \<Rightarrow> char \<Rightarrow> nat list \<Rightarrow> nat \<times> char \<Rightarrow> nat list" where
  "lev_cell prev ca cur jc = (case jc of (j, cb) \<Rightarrow>
     cur[j + 1 := min (min (prev ! (j + 1) + 1) (cur ! j + 1)) (prev ! j + of_bool (ca \<noteq> cb))])"

definition lev_inner :: "string \<Rightarrow> nat list \<Rightarrow> char \<Rightarrow> nat list \<Rightarrow> nat list" where
  "lev_inner b prev ca cur = foldl (lev_cell prev ca) cur (List.enumerate 0 b)"

definition lev_outer :: "string \<Rightarrow> nat list \<times> nat list \<Rightarrow> nat \<times> char \<Rightarrow> nat list \<times> nat list" where
  "lev_outer b rows ic = (case rows of (prev, cur) \<Rightarrow> case ic of (i, ca) \<Rightarrow>
     (lev_inner b prev ca (cur[0 := i + 1]), prev))"

definition levenshtein :: "string \<Rightarrow> string \<Rightarrow> nat" where
  "levenshtein a b =
     (if a = [] then length b
      else if b = [] then length a
      else fst (foldl (lev_outer b) ([0..<length b + 1], replicate (length b + 1) 0)
             (List.enumerate 0 a)) ! length b)"

definition similarity :: "string \<Rightarrow> string \<Rightarrow> rat" where
  "similarity a b =
     (let m = max (length a) (length b)
      in if m = 0 then 1 else 1 - of_nat (levenshtein a b) / of_nat m)"

text \<open>The reason's approximation sign is written in ASCII here.\<close>

definition assess_name :: "string \<Rightarrow> string list \<Rightarrow> name_verdict" where
  "assess_name name recent =
     (let nm = normalize name in
      if nm = [] then NameOk
      else case looks_random nm of
        Some reason \<Rightarrow> Suspicious reason
      | None \<Rightarrow>
          (let similar = length (filter (\<lambda>r. similarity nm (normalize r) \<ge> SIMILAR) recent)
           in if similar \<ge> SPAM_CLUSTER
              then Suspicious (''low-variance name (~'' @ show_nat similar @ '' near-identical recent channels)'')
              else NameOk))"

section \<open>Edit distance: specification\<close>

text \<open>\<open>aligns a b n\<close>: some alignment of the two words deletes, inserts and replaces \<open>n\<close> characters.\<close>

inductive aligns :: "string \<Rightarrow> string \<Rightarrow> nat \<Rightarrow> bool" where
  al_nil: "aligns [] [] 0"
| al_del: "aligns xs ys n \<Longrightarrow> aligns (x # xs) ys (Suc n)"
| al_ins: "aligns xs ys n \<Longrightarrow> aligns xs (y # ys) (Suc n)"
| al_sub: "aligns xs ys n \<Longrightarrow> aligns (x # xs) (y # ys) (n + of_bool (x \<noteq> y))"

fun ed :: "string \<Rightarrow> string \<Rightarrow> nat" where
  "ed [] ys = length ys"
| "ed (x # xs) [] = Suc (length xs)"
| "ed (x # xs) (y # ys) =
     min (min (ed xs (y # ys) + 1) (ed (x # xs) ys + 1)) (ed xs ys + of_bool (x \<noteq> y))"

lemma aligns_all_ins: "aligns [] ys (length ys)"
  by (induction ys) (auto intro: aligns.intros)

lemma aligns_all_del: "aligns xs [] (length xs)"
  by (induction xs) (auto intro: aligns.intros)

lemma aligns_ed: "aligns xs ys (ed xs ys)"
proof (induction xs ys rule: ed.induct)
  case (3 x xs y ys)
  have 1: "aligns (x # xs) (y # ys) (Suc (ed xs (y # ys)))" using 3 by (auto intro: al_del)
  have 2: "aligns (x # xs) (y # ys) (Suc (ed (x # xs) ys))" using 3 by (auto intro: al_ins)
  have "aligns (x # xs) (y # ys) (ed xs ys + of_bool (x \<noteq> y))" using 3(3) by (rule al_sub)
  with 1 2 show ?case by (simp only: ed.simps min_def Suc_eq_plus1 split: if_splits) simp
qed (use aligns_all_ins aligns_all_del in \<open>auto intro: al_del\<close>)

lemma ed_Nil2 [simp]: "ed xs [] = length xs"
  by (cases xs) auto

lemma ed_del_le: "ed (x # xs) ys \<le> ed xs ys + 1"
  by (cases ys) auto

lemma ed_ins_le: "ed xs (y # ys) \<le> ed xs ys + 1"
  by (cases xs) auto

lemma ed_least: "aligns xs ys n \<Longrightarrow> ed xs ys \<le> n"
proof (induction rule: aligns.induct)
  case (al_del xs ys n x)
  then show ?case using ed_del_le [of x xs ys] by simp
next
  case (al_ins xs ys n y)
  then show ?case using ed_ins_le [of xs y ys] by simp
qed (auto simp: min_le_iff_disj)

lemma aligns_append: "aligns xs ys n \<Longrightarrow> aligns us vs m \<Longrightarrow> aligns (xs @ us) (ys @ vs) (n + m)"
proof (induction rule: aligns.induct)
  case (al_sub xs ys n x y)
  then have "aligns (x # xs @ us) (y # ys @ vs) (n + m + of_bool (x \<noteq> y))"
    by (intro aligns.al_sub) auto
  then show ?case by (simp add: ac_simps)
qed (auto intro: aligns.intros)

lemma aligns_single: "aligns [x] [y] (of_bool (x \<noteq> y))"
  using al_sub [OF al_nil, of x y] by simp

lemma aligns_rev: "aligns xs ys n \<Longrightarrow> aligns (rev xs) (rev ys) n"
proof (induction rule: aligns.induct)
  case (al_del xs ys n x)
  have "aligns [x] [] 1" using aligns.al_del [OF al_nil, of x] by simp
  from aligns_append [OF al_del.IH this] show ?case by simp
next
  case (al_ins xs ys n y)
  have "aligns [] [y] 1" using aligns.al_ins [OF al_nil, of y] by simp
  from aligns_append [OF al_ins.IH this] show ?case by simp
next
  case (al_sub xs ys n x y)
  from aligns_append [OF al_sub.IH aligns_single [of x y]] show ?case by simp
qed (simp add: al_nil)

lemma ed_rev: "ed (rev xs) (rev ys) = ed xs ys"
proof (rule antisym)
  show "ed (rev xs) (rev ys) \<le> ed xs ys" by (rule ed_least [OF aligns_rev [OF aligns_ed]])
  have "aligns (rev (rev xs)) (rev (rev ys)) (ed (rev xs) (rev ys))" by (rule aligns_rev [OF aligns_ed])
  then show "ed xs ys \<le> ed (rev xs) (rev ys)" by (intro ed_least) simp
qed

lemma ed_snoc:
  "ed (xs @ [x]) (ys @ [y]) =
     min (min (ed xs (ys @ [y]) + 1) (ed (xs @ [x]) ys + 1)) (ed xs ys + of_bool (x \<noteq> y))"
  using ed_rev [of "xs @ [x]" "ys @ [y]"] ed_rev [of xs "ys @ [y]"] ed_rev [of "xs @ [x]" ys]
    ed_rev [of xs ys] by simp

section \<open>The dynamic program meets the specification\<close>

lemma enumerate_take_Suc:
  "k < length b \<Longrightarrow> List.enumerate 0 (take (Suc k) b) = List.enumerate 0 (take k b) @ [(k, b ! k)]"
  by (simp add: take_Suc_conv_app_nth enumerate_append_eq)

lemma lev_inner_prefix:
  fixes c :: char
  assumes prev: "\<forall>j \<le> length b. prev ! j = ed a (take j b)"
    and cur: "length cur = length b + 1" "cur ! 0 = length a + 1"
    and k: "k \<le> length b"
  defines "row \<equiv> foldl (lev_cell prev c) cur (List.enumerate 0 (take k b))"
  shows "length row = length b + 1 \<and> (\<forall>j \<le> k. row ! j = ed (a @ [c]) (take j b))"
  unfolding row_def using k
proof (induction k)
  case 0
  then show ?case using cur by simp
next
  case (Suc k)
  define r where "r = foldl (lev_cell prev c) cur (List.enumerate 0 (take k b))"
  have IH: "length r = length b + 1" "\<forall>j \<le> k. r ! j = ed (a @ [c]) (take j b)"
    using Suc by (simp_all add: r_def)
  have step: "foldl (lev_cell prev c) cur (List.enumerate 0 (take (Suc k) b)) = lev_cell prev c r (k, b ! k)"
    using Suc.prems by (simp add: enumerate_take_Suc r_def)
  have snoc: "take (Suc k) b = take k b @ [b ! k]"
    using Suc.prems by (simp add: take_Suc_conv_app_nth)
  have new: "lev_cell prev c r (k, b ! k) ! Suc k = ed (a @ [c]) (take (Suc k) b)"
    using IH prev Suc.prems by (simp add: lev_cell_def snoc ed_snoc)
  show ?case
    unfolding step
  proof (intro conjI allI impI)
    show "length (lev_cell prev c r (k, b ! k)) = length b + 1"
      using IH by (simp add: lev_cell_def)
    fix j assume "j \<le> Suc k"
    then show "lev_cell prev c r (k, b ! k) ! j = ed (a @ [c]) (take j b)"
      using new IH by (cases "j = Suc k") (simp_all add: lev_cell_def)
  qed
qed

lemma lev_inner_row:
  assumes "\<forall>j \<le> length b. prev ! j = ed a (take j b)"
    and "length cur = length b + 1" "cur ! 0 = length a + 1"
  shows "length (lev_inner b prev c cur) = length b + 1 \<and>
    (\<forall>j \<le> length b. lev_inner b prev c cur ! j = ed (a @ [c]) (take j b))"
  using lev_inner_prefix [OF assms le_refl, of c] by (simp add: lev_inner_def)

lemma lev_outer_rows:
  fixes b
  defines "start \<equiv> ([0..<length b + 1], replicate (length b + 1) 0)"
  assumes "k \<le> length a"
  shows "case foldl (lev_outer b) start (List.enumerate 0 (take k a)) of (prev, cur) \<Rightarrow>
    length prev = length b + 1 \<and> length cur = length b + 1 \<and>
    (\<forall>j \<le> length b. prev ! j = ed (take k a) (take j b))"
  using assms(2)
proof (induction k)
  case 0
  have "[0..<length b + 1] ! j = j" if "j \<le> length b" for j
    using that by (subst nth_upt) auto
  then show ?case by (simp add: start_def del: upt_Suc)
next
  case (Suc k)
  obtain prev cur where rows: "foldl (lev_outer b) start (List.enumerate 0 (take k a)) = (prev, cur)"
    by (cases "foldl (lev_outer b) start (List.enumerate 0 (take k a))")
  have IH: "length prev = length b + 1" "length cur = length b + 1"
    "\<forall>j \<le> length b. prev ! j = ed (take k a) (take j b)"
    using Suc rows by auto
  have snoc: "take (Suc k) a = take k a @ [a ! k]"
    using Suc.prems by (simp add: take_Suc_conv_app_nth)
  have "foldl (lev_outer b) start (List.enumerate 0 (take (Suc k) a)) =
      (lev_inner b prev (a ! k) (cur[0 := k + 1]), prev)"
    using Suc.prems rows by (simp add: enumerate_take_Suc lev_outer_def)
  moreover have "length (lev_inner b prev (a ! k) (cur[0 := k + 1])) = length b + 1 \<and>
      (\<forall>j \<le> length b. lev_inner b prev (a ! k) (cur[0 := k + 1]) ! j = ed (take k a @ [a ! k]) (take j b))"
    using IH Suc.prems by (intro lev_inner_row) auto
  ultimately show ?case using IH snoc by simp
qed

lemma levenshtein_ed: "levenshtein a b = ed a b"
proof (cases "a = [] \<or> b = []")
  case False
  then show ?thesis
    using lev_outer_rows [of "length a" a b] by (auto simp: levenshtein_def split: prod.splits)
qed (auto simp: levenshtein_def)

subsection \<open>Metric laws\<close>

lemma aligns_sym: "aligns xs ys n \<Longrightarrow> aligns ys xs n"
proof (induction rule: aligns.induct)
  case (al_sub xs ys n x y)
  from aligns.al_sub [OF al_sub.IH, of y x] show ?case by (simp add: eq_commute)
qed (auto intro: aligns.intros)

lemma ed_sym: "ed xs ys = ed ys xs"
  by (rule antisym) (auto intro: ed_least aligns_sym aligns_ed)

lemma aligns_0: "aligns xs ys n \<Longrightarrow> n = 0 \<Longrightarrow> xs = ys"
  by (induction rule: aligns.induct) auto

lemma aligns_refl: "aligns xs xs 0"
proof (induction xs)
  case (Cons x xs)
  from al_sub [OF this, of x x] show ?case by simp
qed (rule al_nil)

lemma ed_0_iff: "ed xs ys = 0 \<longleftrightarrow> xs = ys"
  using aligns_0 [OF aligns_ed] ed_least [OF aligns_refl] by auto

lemma aligns_over_cons:
  assumes "aligns (y # ys) zs m"
    and step: "\<And>zs m. aligns ys zs m \<Longrightarrow> \<exists>k \<le> n + m. aligns xs zs k"
  shows "\<exists>k \<le> Suc n + m. aligns xs zs k \<and> (\<exists>k \<le> n + of_bool (x \<noteq> y) + m. aligns (x # xs) zs k)"
  using assms(1)
proof (induction "y # ys" zs m rule: aligns.induct)
  case (al_del zs m)
  then obtain k where k: "k \<le> n + m" "aligns xs zs k" using step by blast
  then have "aligns (x # xs) zs (Suc k)" by (auto intro: aligns.al_del)
  with k show ?case by (intro exI [of _ k] conjI exI [of _ "Suc k"]) auto
next
  case (al_ins zs m z)
  then obtain k l where "k \<le> Suc n + m" "aligns xs zs k"
    "l \<le> n + of_bool (x \<noteq> y) + m" "aligns (x # xs) zs l" by blast
  then show ?case by (intro exI [of _ "Suc k"] conjI exI [of _ "Suc l"]) (auto intro: aligns.al_ins)
next
  case (al_sub zs m z)
  then obtain k where k: "k \<le> n + m" "aligns xs zs k" using step by blast
  then have "aligns (x # xs) (z # zs) (k + of_bool (x \<noteq> z))" by (intro aligns.al_sub)
  moreover have "aligns xs (z # zs) (Suc k)" using k by (intro aligns.al_ins)
  moreover have "of_bool (x \<noteq> z) \<le> of_bool (x \<noteq> y) + (of_bool (y \<noteq> z) :: nat)" by auto
  ultimately show ?case
    using k by (intro exI [of _ "Suc k"] conjI exI [of _ "k + of_bool (x \<noteq> z)"]) auto
qed

lemma aligns_trans: "aligns xs ys n \<Longrightarrow> aligns ys zs m \<Longrightarrow> \<exists>k \<le> n + m. aligns xs zs k"
proof (induction arbitrary: zs m rule: aligns.induct)
  case (al_del xs ys n x)
  then obtain k where "k \<le> n + m" "aligns xs zs k" by blast
  then show ?case by (intro exI [of _ "Suc k"]) (auto intro: aligns.al_del)
next
  case (al_ins xs ys n y)
  then show ?case using aligns_over_cons [of y ys zs m n xs] by blast
next
  case (al_sub xs ys n x y)
  then show ?case using aligns_over_cons [of y ys zs m n xs x] by blast
qed auto

lemma ed_triangle: "ed xs zs \<le> ed xs ys + ed ys zs"
proof -
  obtain k where "k \<le> ed xs ys + ed ys zs" "aligns xs zs k"
    using aligns_trans [OF aligns_ed aligns_ed] by blast
  then show ?thesis using ed_least by fastforce
qed

lemma ed_le_max: "ed xs ys \<le> max (length xs) (length ys)"
  by (induction xs ys rule: ed.induct) auto

section \<open>Properties\<close>

text \<open>
  C4: The two-row dynamic program of the source computes the edit distance: some alignment of the
  two names has exactly that many insertions, deletions and replacements, and none has fewer.
\<close>

theorem levenshtein_minimal:
  "{n. aligns a b n \<and> (\<nexists>m. aligns a b m \<and> m < n)} = {levenshtein a b}"
proof -
  have "aligns a b n \<and> (\<nexists>m. aligns a b m \<and> m < n) \<longleftrightarrow> n = ed a b" for n
    using aligns_ed [of a b] ed_least [of a b] by (metis le_antisym not_le)
  then show ?thesis by (auto simp: levenshtein_ed)
qed

text \<open>
  The distance behind the low-variance check is a metric and the similarity built on it is a
  normalised one: symmetric, between 0 and 1, and 1 exactly on equal names; the distance obeys the
  triangle inequality.
\<close>

theorem similarity_normalised:
  "0 \<le> similarity a b \<and> similarity a b \<le> 1 \<and> similarity a b = similarity b a \<and>
   (similarity a b = 1 \<longleftrightarrow> a = b) \<and> levenshtein a c \<le> levenshtein a b + levenshtein b c"
proof -
  define m where "m = max (length a) (length b)"
  have le: "levenshtein a b \<le> m"
    using ed_le_max [of a b] by (simp add: levenshtein_ed m_def)
  have z: "levenshtein a b = 0 \<longleftrightarrow> a = b"
    by (simp add: levenshtein_ed ed_0_iff)
  have sim: "similarity a b = (if m = 0 then 1 else 1 - of_nat (levenshtein a b) / of_nat m)"
    by (simp add: similarity_def m_def)
  have bounds: "0 \<le> similarity a b" "similarity a b \<le> 1"
    using le by (auto simp: sim divide_le_eq)
  have one: "similarity a b = 1 \<longleftrightarrow> a = b"
    using z le by (auto simp: sim m_def max_def split: if_splits)
  have sym: "similarity a b = similarity b a"
    using ed_sym [of a b] by (simp add: similarity_def levenshtein_ed max.commute)
  have tri: "levenshtein a c \<le> levenshtein a b + levenshtein b c"
    by (simp add: levenshtein_ed ed_triangle)
  from bounds one sym tri show ?thesis by blast
qed

end
