(* ===== verification/Externals.thy ===== *)
theory Externals
  imports Codes Errors
begin

text \<open>
  What the server takes from outside its own sources, in two records.

  \<^item> \<open>ext\<close>: the functions of third-party crates (uuid, jsonwebtoken, argon2, ed25519-dalek, base64,
    serde\_json) as parameters.  Nothing is assumed of them here; a theorem that relies on documented
    behaviour of one of them names it as a hypothesis.
  \<^item> \<open>env\<close>: the oracles a run reads, indexed by a counter that every read advances: fresh UUIDs
    (\<open>Uuid::now_v7\<close>), the wall clock in nanoseconds since the epoch (\<open>Utc::now\<close>,
    \<open>SystemTime::now\<close>), the monotonic clock in nanoseconds (\<open>Instant::now\<close>) and password salts.

  \<open>claims\<close>, \<open>challenge_claims\<close> and \<open>private_inbox\<close> are the structures the encoders carry
  (\<open>auth/jwt.rs\<close>, \<open>messaging/hub.rs\<close>).
\<close>

type_synonym uuid = "128 word"

record claims =
  cl_sub :: string
  cl_device_id :: string
  cl_exp :: nat
  cl_iat :: nat

record challenge_claims =
  cc_sub :: string
  cc_purpose :: string
  cc_nonce :: string
  cc_exp :: nat
  cc_iat :: nat

record private_inbox =
  pi_ciphertext :: bytes
  pi_sender_id :: string
  pi_epoch :: "64 word"
  pi_timestamp_secs :: int
  pi_timestamp_nanos :: int
  pi_sequence_number :: "64 word"

record ext =
  parse_str :: "string \<Rightarrow> uuid option"
  to_str :: "uuid \<Rightarrow> string"
  simple :: "uuid \<Rightarrow> string"
  jwt_encode :: "claims \<Rightarrow> string option"
  jwt_decode :: "nat \<Rightarrow> string \<Rightarrow> claims option"
  challenge_encode :: "challenge_claims \<Rightarrow> string option"
  challenge_decode :: "nat \<Rightarrow> string \<Rightarrow> challenge_claims option"
  argon2_hash :: "string \<Rightarrow> bytes \<Rightarrow> string option"
  phc_ok :: "string \<Rightarrow> bool"
  argon2_verify :: "string \<Rightarrow> string \<Rightarrow> bool"
  vk_ok :: "bytes \<Rightarrow> bool"
  verify_strict :: "bytes \<Rightarrow> string \<Rightarrow> bytes \<Rightarrow> bool"
  b64_decode :: "string \<Rightarrow> bytes option"
  contact_json_decode :: "bytes \<Rightarrow> contact_code option"
  inbox_json_encode :: "private_inbox \<Rightarrow> bytes"
  inbox_json_decode :: "bytes \<Rightarrow> private_inbox option"

record env =
  e_uuid :: "nat \<Rightarrow> uuid"
  e_wall :: "nat \<Rightarrow> nat"
  e_instant :: "nat \<Rightarrow> nat"
  e_salt :: "nat \<Rightarrow> bytes"
  e_tick :: nat

text \<open>One read of an oracle: its value at the counter, and the counter advanced.\<close>

definition read_env :: "(env \<Rightarrow> nat \<Rightarrow> 'a) \<Rightarrow> (env, 'e, 'a) act" where
  "read_env f = (\<lambda>e. (Inr (f e (e_tick e)), e\<lparr>e_tick := Suc (e_tick e)\<rparr>))"

definition ms_of :: "nat \<Rightarrow> int" where
  "ms_of ns = int (ns div 1000000)"

definition secs_of :: "nat \<Rightarrow> nat" where
  "secs_of ns = ns div 1000000000"

section \<open>Concrete parameters\<close>

text \<open>
  One instance of the parameters, for the concrete runs the theorems are exercised on: an id is
  printed in unary, tokens carry their claims' subject and device, every password verifies against
  itself, every signature is its key twice, and the clocks stand still.
\<close>

definition unary :: "uuid \<Rightarrow> string" where
  "unary u = replicate (unat u) CHR ''x''"

definition demo_ext :: ext where
  "demo_ext =
     \<lparr>parse_str = (\<lambda>s. if set s \<subseteq> {CHR ''x''} then Some (of_nat (length s)) else None),
      to_str = unary,
      simple = unary,
      jwt_encode = (\<lambda>c. Some (cl_sub c @ ''.'' @ cl_device_id c)),
      jwt_decode = (\<lambda>now s. if CHR ''.'' \<in> set s
         then Some \<lparr>cl_sub = takeWhile (\<lambda>c. c \<noteq> CHR ''.'') s,
                    cl_device_id = tl (dropWhile (\<lambda>c. c \<noteq> CHR ''.'') s), cl_exp = 0, cl_iat = 0\<rparr>
         else None),
      challenge_encode = (\<lambda>c. Some (cc_sub c)),
      challenge_decode = (\<lambda>now s. Some \<lparr>cc_sub = s, cc_purpose = ''challenge'', cc_nonce = [],
         cc_exp = 0, cc_iat = 0\<rparr>),
      argon2_hash = (\<lambda>p salt. Some (CHR ''$'' # p)),
      phc_ok = (\<lambda>s. True),
      argon2_verify = (\<lambda>p s. s = CHR ''$'' # p),
      vk_ok = (\<lambda>k. True),
      verify_strict = (\<lambda>k m s. s = k @ k),
      b64_decode = (\<lambda>s. None),
      contact_json_decode = (\<lambda>b. None),
      inbox_json_encode = pi_ciphertext,
      inbox_json_decode = (\<lambda>b. Some \<lparr>pi_ciphertext = b, pi_sender_id = [], pi_epoch = 0,
         pi_timestamp_secs = 0, pi_timestamp_nanos = 0, pi_sequence_number = 0\<rparr>)\<rparr>"

definition demo_env :: env where
  "demo_env = \<lparr>e_uuid = (\<lambda>n. of_nat (100 + n)), e_wall = (\<lambda>n. 0), e_instant = (\<lambda>n. 0),
     e_salt = (\<lambda>n. []), e_tick = 0\<rparr>"

lemma demo_parse [simp]: "parse_str demo_ext (unary u) = Some u"
  by (auto simp: demo_ext_def unary_def)

end
