(* ===== verification/Guardrails.thy ===== *)
theory Guardrails
  imports Names Externals
begin

text \<open>
  \<open>crates/accord-server/src/guardrails/mod.rs\<close>: token buckets per (actor, action class) and the
  decision they lead to.  Token counts are rationals in place of \<open>f64\<close>; an \<open>Instant\<close> is a number of
  nanoseconds, and subtraction on naturals is \<open>saturating_duration_since\<close>.
\<close>

datatype action_class =
    CreateChannel
  | DeleteChannel
  | KickMember
  | BanMember
  | CreateRole
  | UpdateRole
  | DeleteRole
  | AssignRole
  | UpdateServer

fun action_as_str :: "action_class \<Rightarrow> string" where
  "action_as_str CreateChannel = ''create_channel''"
| "action_as_str DeleteChannel = ''delete_channel''"
| "action_as_str KickMember = ''kick_member''"
| "action_as_str BanMember = ''ban_member''"
| "action_as_str CreateRole = ''create_role''"
| "action_as_str UpdateRole = ''update_role''"
| "action_as_str DeleteRole = ''delete_role''"
| "action_as_str AssignRole = ''assign_role''"
| "action_as_str UpdateServer = ''update_server''"

definition is_destructive :: "action_class \<Rightarrow> bool" where
  "is_destructive a \<longleftrightarrow> a \<in> {DeleteChannel, KickMember, BanMember, DeleteRole}"

definition budget :: "action_class \<Rightarrow> rat \<times> rat" where
  "budget a = (case a of
       DeleteChannel \<Rightarrow> (3, 1 / 20) | KickMember \<Rightarrow> (3, 1 / 20)
     | BanMember \<Rightarrow> (3, 1 / 20) | DeleteRole \<Rightarrow> (3, 1 / 20)
     | UpdateRole \<Rightarrow> (5, 1 / 5) | AssignRole \<Rightarrow> (5, 1 / 5) | UpdateServer \<Rightarrow> (5, 1 / 5)
     | CreateChannel \<Rightarrow> (5, 1 / 5) | CreateRole \<Rightarrow> (5, 1 / 5))"

datatype guardrail_decision =
    Allow
  | AllowFlagged string
  | Throttle nat string
  | Deny string

fun decision_allowed :: "guardrail_decision \<Rightarrow> bool" where
  "decision_allowed Allow = True"
| "decision_allowed (AllowFlagged r) = True"
| "decision_allowed (Throttle n r) = False"
| "decision_allowed (Deny r) = False"

definition is_notable :: "guardrail_decision \<Rightarrow> bool" where
  "is_notable d \<longleftrightarrow> d \<noteq> Allow"

record action_context =
  ac_name :: "string option"
  ac_recent_names :: "string list"
  ac_is_owner :: bool

record token_bucket =
  tb_tokens :: rat
  tb_capacity :: rat
  tb_refill :: rat
  tb_last :: nat

definition bucket_new :: "rat \<Rightarrow> rat \<Rightarrow> nat \<Rightarrow> token_bucket" where
  "bucket_new capacity refill now =
     \<lparr>tb_tokens = capacity, tb_capacity = capacity, tb_refill = refill, tb_last = now\<rparr>"

definition secs_f64 :: "nat \<Rightarrow> rat" where
  "secs_f64 ns = of_nat ns / 1000000000"

definition try_take :: "nat \<Rightarrow> token_bucket \<Rightarrow> nat option \<times> token_bucket" where
  "try_take now b =
     (let elapsed = secs_f64 (now - tb_last b);
          tokens = min (tb_tokens b + elapsed * tb_refill b) (tb_capacity b)
      in if tokens \<ge> 1 then (None, b\<lparr>tb_tokens := tokens - 1, tb_last := now\<rparr>)
         else (Some (max (nat \<lceil>(1 - tokens) / tb_refill b\<rceil>) 1), b\<lparr>tb_tokens := tokens, tb_last := now\<rparr>))"

record guardrails =
  gr_block_owner :: bool
  gr_buckets :: "((uuid \<times> action_class) \<times> token_bucket) list"

definition guardrails_default :: guardrails where
  "guardrails_default = \<lparr>gr_block_owner = False, gr_buckets = []\<rparr>"

definition flagged_name :: "action_class \<Rightarrow> action_context \<Rightarrow> string option" where
  "flagged_name action ctx =
     (if action = CreateChannel then
        (case ac_name ctx of
           None \<Rightarrow> None
         | Some name \<Rightarrow>
             (case assess_name name (ac_recent_names ctx) of
                Suspicious reason \<Rightarrow> Some reason | NameOk \<Rightarrow> None))
      else None)"

definition throttle_reason :: "action_class \<Rightarrow> nat \<Rightarrow> string" where
  "throttle_reason action retry =
     (if is_destructive action then ''destructive'' else ''additive'') @ '' action '' @ [CHR 0x27] @
       action_as_str action @ [CHR 0x27] @ '' rate-limited; retry in ~'' @ show_nat retry @ ''s''"

definition take_token :: "uuid \<Rightarrow> action_class \<Rightarrow> nat \<Rightarrow> guardrails \<Rightarrow> nat option \<times> guardrails" where
  "take_token actor action now g =
     (let (capacity, refill) = budget action;
          bucket = (case map_of (gr_buckets g) (actor, action) of
                      None \<Rightarrow> bucket_new capacity refill now | Some b \<Rightarrow> b);
          (throttle, bucket') = try_take now bucket
      in (throttle, g\<lparr>gr_buckets := AList.update (actor, action) bucket' (gr_buckets g)\<rparr>))"

definition check_at ::
  "uuid \<Rightarrow> action_class \<Rightarrow> action_context \<Rightarrow> nat \<Rightarrow> guardrails \<Rightarrow> guardrail_decision \<times> guardrails" where
  "check_at actor action ctx now g =
     (let flagged = flagged_name action ctx;
          (throttle, g') = (if ac_is_owner ctx \<and> \<not> gr_block_owner g then (None, g)
                            else take_token actor action now g)
      in (case throttle of
            Some retry \<Rightarrow> Throttle retry (throttle_reason action retry)
          | None \<Rightarrow> (case flagged of Some reason \<Rightarrow> AllowFlagged reason | None \<Rightarrow> Allow), g'))"

section \<open>Bucket invariant\<close>

definition bucket_ok :: "token_bucket \<Rightarrow> bool" where
  "bucket_ok b \<longleftrightarrow> 0 \<le> tb_tokens b \<and> tb_tokens b \<le> tb_capacity b \<and> 1 \<le> tb_capacity b \<and> 0 < tb_refill b"

lemma budget_pos: "fst (budget a) \<ge> 1" "snd (budget a) > 0"
  by (cases a; simp add: budget_def)+

lemma bucket_ok_new: "1 \<le> c \<Longrightarrow> 0 < r \<Longrightarrow> bucket_ok (bucket_new c r now)"
  by (simp add: bucket_ok_def bucket_new_def)

lemma secs_f64_nonneg [simp]: "0 \<le> secs_f64 n"
  by (simp add: secs_f64_def)

lemma try_take_ok: "bucket_ok b \<Longrightarrow> bucket_ok (snd (try_take now b))"
  by (auto simp: try_take_def bucket_ok_def Let_def)

lemma try_take_params:
  "tb_capacity (snd (try_take now b)) = tb_capacity b"
  "tb_refill (snd (try_take now b)) = tb_refill b"
  "tb_last (snd (try_take now b)) = now"
  by (simp_all add: try_take_def Let_def)

section \<open>The rate-limiter contract\<close>

text \<open>
  A limiter that spends one unit of a \<open>level\<close> on every grant, and whose level grows at most at a
  fixed rate while time passes, bounds the number of grants in any stretch of time.
\<close>

fun granted :: "('e \<Rightarrow> 's \<Rightarrow> bool \<times> 's) \<Rightarrow> 'e list \<Rightarrow> 's \<Rightarrow> nat" where
  "granted step [] s = 0"
| "granted step (e # es) s = (case step e s of (ok, s') \<Rightarrow> of_bool ok + granted step es s')"

locale rate_limiter =
  fixes step :: "'e \<Rightarrow> 's \<Rightarrow> bool \<times> 's" and time :: "'e \<Rightarrow> nat"
    and level :: "'s \<Rightarrow> nat \<Rightarrow> rat" and rate :: rat and ok :: "'s \<Rightarrow> nat \<Rightarrow> bool"
  assumes level_nonneg: "ok s t \<Longrightarrow> 0 \<le> level s t"
    and ok_step: "ok s (time e) \<Longrightarrow> ok (snd (step e s)) (time e)"
    and ok_later: "ok s t \<Longrightarrow> t \<le> u \<Longrightarrow> ok s u"
    and spend: "ok s (time e) \<Longrightarrow>
      level (snd (step e s)) (time e) + of_bool (fst (step e s)) \<le> level s (time e)"
    and refill: "ok s t \<Longrightarrow> t \<le> u \<Longrightarrow> level s u \<le> level s t + rate * secs_f64 (u - t)"
    and rate_nonneg: "0 \<le> rate"
begin

lemma granted_bound:
  assumes "sorted (t0 # map time es)" and "\<And>e. e \<in> set es \<Longrightarrow> time e \<le> T" and "t0 \<le> T" and "ok s t0"
  shows "of_nat (granted step es s) \<le> level s t0 + rate * secs_f64 (T - t0)"
  using assms
proof (induction es arbitrary: s t0)
  case Nil
  then show ?case using level_nonneg rate_nonneg by simp
next
  case (Cons e es)
  obtain b s' where st: "step e s = (b, s')" by (cases "step e s")
  have t: "t0 \<le> time e" "time e \<le> T" using Cons.prems by auto
  have ok: "ok s (time e)" using ok_later Cons.prems(4) t(1) by blast
  have ok': "ok s' (time e)" using ok_step [OF ok] st by simp
  have "of_nat (granted step es s') \<le> level s' (time e) + rate * secs_f64 (T - time e)"
    using Cons.prems ok' t by (intro Cons.IH) auto
  moreover have "level s' (time e) + of_bool b \<le> level s (time e)"
    using spend [OF ok] st by simp
  moreover have "level s (time e) \<le> level s t0 + rate * secs_f64 (time e - t0)"
    by (rule refill [OF Cons.prems(4) t(1)])
  moreover have "rate * secs_f64 (time e - t0) + rate * secs_f64 (T - time e) = rate * secs_f64 (T - t0)"
    using t by (simp add: secs_f64_def of_nat_diff field_simps)
  moreover have "of_nat (granted step (e # es) s) = (of_bool b :: rat) + of_nat (granted step es s')"
    using st by simp
  ultimately show ?case by linarith
qed

end

subsection \<open>The token buckets satisfy it\<close>

record guard_event =
  ge_actor :: uuid
  ge_action :: action_class
  ge_ctx :: action_context
  ge_now :: nat

definition limited :: "guardrails \<Rightarrow> guard_event \<Rightarrow> bool" where
  "limited g e \<longleftrightarrow> \<not> (ac_is_owner (ge_ctx e) \<and> \<not> gr_block_owner g)"

text \<open>One check, counted when it is an allowed action of class \<open>c\<close> by \<open>a\<close> that the limit applies to.\<close>

definition guard_step :: "uuid \<Rightarrow> action_class \<Rightarrow> guard_event \<Rightarrow> guardrails \<Rightarrow> bool \<times> guardrails" where
  "guard_step a c e g =
     (case check_at (ge_actor e) (ge_action e) (ge_ctx e) (ge_now e) g of (dec, g') \<Rightarrow>
       (decision_allowed dec \<and> ge_actor e = a \<and> ge_action e = c \<and> limited g e, g'))"

definition guard_level :: "uuid \<Rightarrow> action_class \<Rightarrow> guardrails \<Rightarrow> nat \<Rightarrow> rat" where
  "guard_level a c g t = (case map_of (gr_buckets g) (a, c) of
     None \<Rightarrow> fst (budget c)
   | Some b \<Rightarrow> tb_tokens b + secs_f64 (t - tb_last b) * tb_refill b)"

definition guard_ok :: "guardrails \<Rightarrow> nat \<Rightarrow> bool" where
  "guard_ok g t \<longleftrightarrow> (\<forall>k b. map_of (gr_buckets g) k = Some b \<longrightarrow>
     bucket_ok b \<and> tb_capacity b = fst (budget (snd k)) \<and> tb_refill b = snd (budget (snd k)) \<and> tb_last b \<le> t)"

lemma take_token_buckets:
  "map_of (gr_buckets (snd (take_token actor action now g))) =
     (map_of (gr_buckets g))((actor, action) \<mapsto> snd (try_take now
        (case map_of (gr_buckets g) (actor, action) of
           None \<Rightarrow> bucket_new (fst (budget action)) (snd (budget action)) now | Some b \<Rightarrow> b)))"
  by (simp add: take_token_def Let_def update_conv' case_prod_unfold)

lemma guard_ok_take: "guard_ok g t \<Longrightarrow> guard_ok (snd (take_token actor action t g)) t"
  unfolding guard_ok_def take_token_buckets
  by (auto simp: try_take_params budget_pos bucket_new_def
      intro!: try_take_ok bucket_ok_new [unfolded bucket_new_def] split: if_splits option.splits)

lemma check_at_state:
  "snd (check_at actor action ctx now g) =
     (if ac_is_owner ctx \<and> \<not> gr_block_owner g then g else snd (take_token actor action now g))"
  by (simp add: check_at_def Let_def split: prod.splits)

lemma check_at_allowed:
  "decision_allowed (fst (check_at actor action ctx now g)) \<longleftrightarrow>
     ac_is_owner ctx \<and> \<not> gr_block_owner g \<or> fst (take_token actor action now g) = None"
  by (auto simp: check_at_def Let_def split: prod.splits option.splits)

lemma guard_step_simps:
  "snd (guard_step a c e g) =
     (if limited g e then snd (take_token (ge_actor e) (ge_action e) (ge_now e) g) else g)"
  "fst (guard_step a c e g) \<longleftrightarrow> limited g e \<and> ge_actor e = a \<and> ge_action e = c \<and>
     fst (take_token (ge_actor e) (ge_action e) (ge_now e) g) = None"
  using check_at_state [of "ge_actor e" "ge_action e" "ge_ctx e" "ge_now e" g]
    check_at_allowed [of "ge_actor e" "ge_action e" "ge_ctx e" "ge_now e" g]
  by (auto simp: guard_step_def limited_def split: prod.splits)

lemma try_take_spend:
  "tb_tokens (snd (try_take now b)) + of_bool (fst (try_take now b) = None)
     \<le> tb_tokens b + secs_f64 (now - tb_last b) * tb_refill b"
  by (auto simp: try_take_def Let_def)

lemma guard_level_take:
  "guard_level a c (snd (take_token actor action now g)) now +
     of_bool (actor = a \<and> action = c \<and> fst (take_token actor action now g) = None)
   \<le> guard_level a c g now"
proof (cases "actor = a \<and> action = c")
  case True
  define b where "b = (case map_of (gr_buckets g) (a, c) of
    None \<Rightarrow> bucket_new (fst (budget c)) (snd (budget c)) now | Some b \<Rightarrow> b)"
  have "fst (take_token a c now g) = fst (try_take now b)"
    by (simp add: take_token_def b_def Let_def case_prod_unfold)
  moreover have "guard_level a c (snd (take_token a c now g)) now = tb_tokens (snd (try_take now b))"
    by (simp add: guard_level_def take_token_buckets b_def try_take_params)
      (simp add: secs_f64_def)
  moreover have "guard_level a c g now = tb_tokens b + secs_f64 (now - tb_last b) * tb_refill b"
    by (simp add: guard_level_def b_def bucket_new_def secs_f64_def split: option.splits)
  ultimately show ?thesis using True try_take_spend [of now b] by auto
next
  case False
  then show ?thesis by (auto simp: guard_level_def take_token_buckets)
qed

lemma guard_level_refill:
  assumes "guard_ok g t" and "t \<le> u"
  shows "guard_level a c g u \<le> guard_level a c g t + snd (budget c) * secs_f64 (u - t)"
proof (cases "map_of (gr_buckets g) (a, c)")
  case (Some b)
  then have "tb_last b \<le> t" "tb_refill b = snd (budget c)" using assms by (auto simp: guard_ok_def)
  then show ?thesis using Some assms(2)
    by (simp add: guard_level_def secs_f64_def of_nat_diff field_simps)
qed (use budget_pos(2) [of c] in \<open>simp add: guard_level_def\<close>)

interpretation limiter: rate_limiter "guard_step a c" ge_now "guard_level a c" "snd (budget c)" guard_ok
  for a c
proof unfold_locales
  show "0 \<le> guard_level a c s t" if "guard_ok s t" for s t
    using that budget_pos [of c]
    by (auto simp: guard_level_def guard_ok_def bucket_ok_def intro!: add_nonneg_nonneg mult_nonneg_nonneg
        split: option.splits)
  show "guard_ok (snd (guard_step a c e s)) (ge_now e)" if "guard_ok s (ge_now e)" for s e
    using that by (simp add: guard_step_simps guard_ok_take)
  show "guard_ok s u" if "guard_ok s t" "t \<le> u" for s t u
    using that by (auto simp: guard_ok_def intro: order_trans)
  show "guard_level a c (snd (guard_step a c e s)) (ge_now e) + of_bool (fst (guard_step a c e s))
      \<le> guard_level a c s (ge_now e)" for s e
    using guard_level_take [of a c "ge_actor e" "ge_action e" "ge_now e" s]
    by (auto simp: guard_step_simps)
  show "guard_level a c s u \<le> guard_level a c s t + snd (budget c) * secs_f64 (u - t)"
    if "guard_ok s t" "t \<le> u" for s t u
    using that by (rule guard_level_refill)
  show "0 \<le> snd (budget c)"
    using budget_pos(2) [of c] by simp
qed

section \<open>Properties\<close>

text \<open>
  C2: The wall against a rogue administrator: from a fresh engine, in a stretch of time from \<open>t0\<close>
  to \<open>T\<close>, however the requests of all actors interleave, the actions of one class by one actor
  that the limiter lets through number at most the burst capacity plus the refill rate times the
  elapsed seconds.
\<close>

theorem guardrail_rate_bound:
  assumes "sorted (map ge_now es)" and "\<forall>e \<in> set es. t0 \<le> ge_now e \<and> ge_now e \<le> T" and "t0 \<le> T"
  shows "of_nat (granted (guard_step a c) es guardrails_default)
    \<le> fst (budget c) + snd (budget c) * secs_f64 (T - t0)"
proof -
  have "guard_ok guardrails_default t0" by (simp add: guard_ok_def guardrails_default_def)
  then have "of_nat (granted (guard_step a c) es guardrails_default)
      \<le> guard_level a c guardrails_default t0 + snd (budget c) * secs_f64 (T - t0)"
    using assms by (intro limiter.granted_bound) auto
  then show ?thesis by (simp add: guard_level_def guardrails_default_def)
qed

text \<open>Witness: five kicks by one actor within one second.\<close>

theorem guardrail_rate_bound_witness:
  "of_nat (granted (guard_step 7 KickMember)
     (replicate 5 \<lparr>ge_actor = 7, ge_action = KickMember,
        ge_ctx = \<lparr>ac_name = None, ac_recent_names = [], ac_is_owner = False\<rparr>, ge_now = 5\<rparr>)
     guardrails_default) \<le> (3 + 1 / 20 * secs_f64 (1000000000 - 0) :: rat)"
  using guardrail_rate_bound
    [of "replicate 5 \<lparr>ge_actor = 7, ge_action = KickMember,
        ge_ctx = \<lparr>ac_name = None, ac_recent_names = [], ac_is_owner = False\<rparr>, ge_now = 5\<rparr>"
      0 1000000000 7 KickMember]
  by (simp add: budget_def)


text \<open>Witness: the fourth kick in a row is throttled for twenty seconds, then allowed.\<close>

definition kick_ctx :: action_context where
  "kick_ctx = \<lparr>ac_name = None, ac_recent_names = [], ac_is_owner = False\<rparr>"

definition spent_guard :: guardrails where
  "spent_guard = \<lparr>gr_block_owner = False, gr_buckets =
     [((7, KickMember), \<lparr>tb_tokens = 0, tb_capacity = 3, tb_refill = 1 / 20, tb_last = 0\<rparr>)]\<rparr>"


text \<open>
  The limit's scope: the owner is never throttled and spends nothing unless the policy blocks
  owners, a check touches no bucket but its own, nothing is ever denied outright, and only the
  creation of a channel can be flagged for its name.
\<close>

theorem guardrail_scope:
  assumes "check_at actor action ctx now g = (dec, g')"
  shows "(ac_is_owner ctx \<and> \<not> gr_block_owner g \<longrightarrow> decision_allowed dec \<and> g' = g) \<and>
    (k \<noteq> (actor, action) \<longrightarrow> map_of (gr_buckets g') k = map_of (gr_buckets g) k) \<and>
    dec \<noteq> Deny why \<and> (dec = AllowFlagged why \<longrightarrow> action = CreateChannel)"
proof -
  have dec: "dec = fst (check_at actor action ctx now g)" and g': "g' = snd (check_at actor action ctx now g)"
    using assms by simp_all
  have 1: "ac_is_owner ctx \<and> \<not> gr_block_owner g \<longrightarrow> decision_allowed dec \<and> g' = g"
    by (simp add: dec g' check_at_state check_at_allowed)
  have 2: "k \<noteq> (actor, action) \<longrightarrow> map_of (gr_buckets g') k = map_of (gr_buckets g) k"
    by (simp add: g' check_at_state take_token_buckets)
  have 3: "dec \<noteq> Deny why \<and> (dec = AllowFlagged why \<longrightarrow> action = CreateChannel)"
    using assms by (auto simp: check_at_def flagged_name_def Let_def split: prod.splits option.splits if_splits)
  from 1 2 3 show ?thesis by blast
qed

text \<open>Witness: the owner kicks although the bucket is spent.\<close>

theorem guardrail_scope_witness:
  "decision_allowed (fst (check_at 7 KickMember (kick_ctx\<lparr>ac_is_owner := True\<rparr>) 0 spent_guard))"
proof -
  have "ac_is_owner (kick_ctx\<lparr>ac_is_owner := True\<rparr>)" "\<not> gr_block_owner spent_guard"
    by (simp_all add: kick_ctx_def spent_guard_def)
  then show ?thesis
    using guardrail_scope [of 7 KickMember "kick_ctx\<lparr>ac_is_owner := True\<rparr>" 0 spent_guard
        "fst (check_at 7 KickMember (kick_ctx\<lparr>ac_is_owner := True\<rparr>) 0 spent_guard)"
        "snd (check_at 7 KickMember (kick_ctx\<lparr>ac_is_owner := True\<rparr>) 0 spent_guard)" "(0, BanMember)" "[]"]
    by simp
qed

end
