(* ===== verification/Hub.thy ===== *)
theory Hub
  imports Externals
begin

text \<open>
  \<open>crates/accord-server/src/messaging/hub.rs\<close>: the delivery hub.

  A bounded \<open>mpsc\<close> channel is an entry of \<open>hb_chans\<close>; a sender is its index, so that the clones of a
  sender held by several tables denote the same queue.  \<open>try_send\<close> drops the message when the
  queue holds \<open>CLIENT_BUFFER\<close> messages or the receiver is gone.  Hash maps are association lists
  with at most one entry per key; iteration follows the list.  The Redis transport appends to a
  log of published events (\<open>hb_bus\<close>) or fails; the listener task consumes that log with \<open>route\<close>.
\<close>

section \<open>Messages\<close>

record proto_timestamp =
  ts_seconds :: int
  ts_nanos :: int

record public_bus_message =
  pb_message_id :: string
  pb_group_id :: string
  pb_sender_id :: string
  pb_sender_display_name :: string
  pb_content :: string
  pb_timestamp_secs :: int
  pb_timestamp_nanos :: int
  pb_sequence_number :: "64 word"

record private_bus_message =
  vb_group_id :: string
  vb_sender_id :: string
  vb_ciphertext :: bytes
  vb_epoch :: "64 word"
  vb_timestamp_secs :: int
  vb_timestamp_nanos :: int
  vb_sequence_number :: "64 word"

datatype bus_event =
    BusPublic public_bus_message
  | BusPrivate private_bus_message string
  | BusWelcome string string bytes
  | BusCommit string bytes "64 word" string

record incoming_public =
  ip_message_id :: string
  ip_group_id :: string
  ip_sender_id :: string
  ip_sender_display_name :: string
  ip_content :: string
  ip_timestamp :: proto_timestamp
  ip_sequence_number :: "64 word"

record incoming_private =
  iv_group_id :: string
  iv_sender_id :: string
  iv_mls_ciphertext :: bytes
  iv_epoch :: "64 word"
  iv_timestamp :: proto_timestamp
  iv_sequence_number :: "64 word"

record voice_state =
  vs_user_id :: uuid
  vs_username :: string
  vs_display_name :: string
  vs_muted :: bool
  vs_camera_on :: bool
  vs_screen_on :: bool

record voice_participant =
  vp_group_id :: string
  vp_user_id :: string
  vp_device_id :: string
  vp_joined :: bool
  vp_muted :: bool
  vp_camera_on :: bool
  vp_screen_on :: bool
  vp_username :: string
  vp_display_name :: string

record voice_signal =
  sg_group_id :: "string option"
  sg_target_device :: "string option"
  sg_from_device :: "string option"
  sg_kind :: int
  sg_data :: bytes

datatype severity = Info | Warn | Hostile

record mod_alert =
  ma_actor_id :: string
  ma_action :: string
  ma_target :: string
  ma_reason :: string
  ma_severity :: severity
  ma_timestamp :: proto_timestamp

datatype server_message =
    SPublic incoming_public
  | SPrivate incoming_private
  | SWelcome string bytes
  | SCommit string bytes "64 word"
  | SVoiceParticipant voice_participant
  | SVoiceSignal voice_signal
  | SModAlert mod_alert

definition public_into_server_message :: "public_bus_message \<Rightarrow> server_message" where
  "public_into_server_message m = SPublic
     \<lparr>ip_message_id = pb_message_id m, ip_group_id = pb_group_id m, ip_sender_id = pb_sender_id m,
      ip_sender_display_name = pb_sender_display_name m, ip_content = pb_content m,
      ip_timestamp = \<lparr>ts_seconds = pb_timestamp_secs m, ts_nanos = pb_timestamp_nanos m\<rparr>,
      ip_sequence_number = pb_sequence_number m\<rparr>"

definition private_into_server_message :: "private_bus_message \<Rightarrow> server_message" where
  "private_into_server_message m = SPrivate
     \<lparr>iv_group_id = vb_group_id m, iv_sender_id = vb_sender_id m, iv_mls_ciphertext = vb_ciphertext m,
      iv_epoch = vb_epoch m,
      iv_timestamp = \<lparr>ts_seconds = vb_timestamp_secs m, ts_nanos = vb_timestamp_nanos m\<rparr>,
      iv_sequence_number = vb_sequence_number m\<rparr>"

definition welcome_notification :: "string \<Rightarrow> bytes \<Rightarrow> server_message" where
  "welcome_notification group_id welcome = SWelcome group_id welcome"

definition voice_participant_msg :: "ext \<Rightarrow> uuid \<Rightarrow> uuid \<Rightarrow> voice_state \<Rightarrow> bool \<Rightarrow> server_message" where
  "voice_participant_msg E grp device state joined = SVoiceParticipant
     \<lparr>vp_group_id = to_str E grp, vp_user_id = to_str E (vs_user_id state),
      vp_device_id = to_str E device, vp_joined = joined, vp_muted = vs_muted state,
      vp_camera_on = vs_camera_on state, vp_screen_on = vs_screen_on state,
      vp_username = vs_username state, vp_display_name = vs_display_name state\<rparr>"

definition commit_notification :: "string \<Rightarrow> bytes \<Rightarrow> 64 word \<Rightarrow> server_message" where
  "commit_notification group_id commit epoch = SCommit group_id commit epoch"

definition encode_private_inbox :: "ext \<Rightarrow> private_inbox \<Rightarrow> bytes" where
  "encode_private_inbox E p = inbox_json_encode E p"

definition private_notification :: "ext \<Rightarrow> string \<Rightarrow> bytes \<Rightarrow> server_message option" where
  "private_notification E group_id payload =
     map_option (\<lambda>p. SPrivate
       \<lparr>iv_group_id = group_id, iv_sender_id = pi_sender_id p, iv_mls_ciphertext = pi_ciphertext p,
        iv_epoch = pi_epoch p,
        iv_timestamp = \<lparr>ts_seconds = pi_timestamp_secs p, ts_nanos = pi_timestamp_nanos p\<rparr>,
        iv_sequence_number = pi_sequence_number p\<rparr>)
       (inbox_json_decode E payload)"

section \<open>The hub's state\<close>

record chan =
  ch_queue :: "server_message list"
  ch_open :: bool

datatype transport = LocalBus | RedisBus

type_synonym sender = nat

record hub =
  hb_chans :: "chan list"
  hb_group_subs :: "(uuid \<times> (uuid \<times> sender) list) list"
  hb_device_subs :: "(uuid \<times> sender) list"
  hb_device_groups :: "(uuid \<times> uuid list) list"
  hb_voice :: "(uuid \<times> (uuid \<times> voice_state) list) list"
  hb_transport :: transport
  hb_redis_up :: bool
  hb_bus :: "bus_event list"

definition CLIENT_BUFFER :: nat where
  "CLIENT_BUFFER = 128"

definition hub_new :: "string option \<Rightarrow> bool \<Rightarrow> hub" where
  "hub_new redis_url up =
     \<lparr>hb_chans = [], hb_group_subs = [], hb_device_subs = [], hb_device_groups = [], hb_voice = [],
      hb_transport = (case redis_url of Some url \<Rightarrow> (if url \<noteq> [] then RedisBus else LocalBus)
                                      | None \<Rightarrow> LocalBus),
      hb_redis_up = up, hb_bus = []\<rparr>"

definition try_send :: "sender \<Rightarrow> server_message \<Rightarrow> hub \<Rightarrow> hub" where
  "try_send tx msg h =
     (let c = hb_chans h ! tx in
      if tx < length (hb_chans h) \<and> ch_open c \<and> length (ch_queue c) < CLIENT_BUFFER
      then h\<lparr>hb_chans := (hb_chans h)[tx := c\<lparr>ch_queue := ch_queue c @ [msg]\<rparr>]\<rparr>
      else h)"

definition lookup_list :: "('k \<times> 'v list) list \<Rightarrow> 'k \<Rightarrow> 'v list" where
  "lookup_list m k = (case map_of m k of None \<Rightarrow> [] | Some v \<Rightarrow> v)"

definition add_group_sub :: "uuid \<Rightarrow> uuid \<Rightarrow> sender \<Rightarrow> hub \<Rightarrow> hub" where
  "add_group_sub grp device tx h =
     h\<lparr>hb_group_subs := AList.update grp
         (AList.update device tx (lookup_list (hb_group_subs h) grp)) (hb_group_subs h)\<rparr>"

definition hub_register :: "uuid \<Rightarrow> uuid list \<Rightarrow> hub \<Rightarrow> sender \<times> hub" where
  "hub_register device groups h =
     (let tx = length (hb_chans h);
          h1 = h\<lparr>hb_chans := hb_chans h @ [\<lparr>ch_queue = [], ch_open = True\<rparr>]\<rparr>;
          h2 = fold (\<lambda>grp. add_group_sub grp device tx) groups h1
      in (tx, h2\<lparr>hb_device_subs := AList.update device tx (hb_device_subs h2),
                hb_device_groups := AList.update device groups (hb_device_groups h2)\<rparr>))"

definition drop_group_sub :: "uuid \<Rightarrow> uuid \<Rightarrow> hub \<Rightarrow> hub" where
  "drop_group_sub device grp h =
     (case map_of (hb_group_subs h) grp of
        None \<Rightarrow> h
      | Some members \<Rightarrow>
          (let members' = AList.delete device members
           in if members' = [] then h\<lparr>hb_group_subs := AList.delete grp (hb_group_subs h)\<rparr>
              else h\<lparr>hb_group_subs := AList.update grp members' (hb_group_subs h)\<rparr>))"

definition hub_deliver_to_group :: "uuid \<Rightarrow> server_message \<Rightarrow> uuid option \<Rightarrow> hub \<Rightarrow> hub" where
  "hub_deliver_to_group grp message exclude h =
     fold (\<lambda>(device, tx) h. if Some device = exclude then h else try_send tx message h)
       (lookup_list (hb_group_subs h) grp) h"

definition hub_deliver_to_device :: "uuid \<Rightarrow> server_message \<Rightarrow> hub \<Rightarrow> hub" where
  "hub_deliver_to_device device message h =
     (case map_of (hb_device_subs h) device of None \<Rightarrow> h | Some tx \<Rightarrow> try_send tx message h)"

definition hub_send_to_device :: "uuid \<Rightarrow> server_message \<Rightarrow> hub \<Rightarrow> hub" where
  "hub_send_to_device device message h =
     (case map_of (hb_device_subs h) device of None \<Rightarrow> h | Some tx \<Rightarrow> try_send tx message h)"

definition hub_publish_voice_participant :: "uuid \<Rightarrow> server_message \<Rightarrow> hub \<Rightarrow> hub" where
  "hub_publish_voice_participant grp message = hub_deliver_to_group grp message None"

definition hub_voice_drop_device :: "uuid \<Rightarrow> hub \<Rightarrow> (uuid \<times> voice_state) list \<times> hub" where
  "hub_voice_drop_device device h =
     ([(g, st). (g, ms) \<leftarrow> hb_voice h, st \<leftarrow> (case map_of ms device of None \<Rightarrow> [] | Some s \<Rightarrow> [s])],
      h\<lparr>hb_voice := filter (\<lambda>(g, ms). ms \<noteq> [])
          (map (\<lambda>(g, ms). (g, AList.delete device ms)) (hb_voice h))\<rparr>)"

definition hub_unregister :: "ext \<Rightarrow> uuid \<Rightarrow> hub \<Rightarrow> hub" where
  "hub_unregister E device h =
     (let h1 = h\<lparr>hb_device_subs := AList.delete device (hb_device_subs h)\<rparr>;
          h2 = (case map_of (hb_device_groups h1) device of
                  None \<Rightarrow> h1
                | Some groups \<Rightarrow> fold (drop_group_sub device) groups
                    (h1\<lparr>hb_device_groups := AList.delete device (hb_device_groups h1)\<rparr>));
          (left, h3) = hub_voice_drop_device device h2
      in fold (\<lambda>(grp, state). hub_publish_voice_participant grp
           (voice_participant_msg E grp device state False)) left h3)"

definition hub_subscribe :: "uuid \<Rightarrow> uuid \<Rightarrow> hub \<Rightarrow> hub" where
  "hub_subscribe device grp h =
     (case map_of (hb_device_subs h) device of
        None \<Rightarrow> h
      | Some tx \<Rightarrow>
          (let h1 = add_group_sub grp device tx h;
               groups = lookup_list (hb_device_groups h1) device
           in h1\<lparr>hb_device_groups := AList.update device
                 (if grp \<in> set groups then groups else groups @ [grp]) (hb_device_groups h1)\<rparr>))"

definition hub_is_connected :: "uuid \<Rightarrow> hub \<Rightarrow> bool" where
  "hub_is_connected device h \<longleftrightarrow> map_of (hb_device_subs h) device \<noteq> None"

definition hub_is_single_instance :: "hub \<Rightarrow> bool" where
  "hub_is_single_instance h \<longleftrightarrow> hb_transport h = LocalBus"

definition hub_voice_join :: "uuid \<Rightarrow> uuid \<Rightarrow> voice_state \<Rightarrow> hub \<Rightarrow> (uuid \<times> voice_state) list \<times> hub" where
  "hub_voice_join grp device state h =
     (let members = AList.update device state (lookup_list (hb_voice h) grp)
      in (members, h\<lparr>hb_voice := AList.update grp members (hb_voice h)\<rparr>))"

definition hub_voice_set_state :: "uuid \<Rightarrow> uuid \<Rightarrow> voice_state \<Rightarrow> hub \<Rightarrow> hub" where
  "hub_voice_set_state grp device state h =
     (case map_of (hb_voice h) grp of
        None \<Rightarrow> h
      | Some members \<Rightarrow>
          (case map_of members device of
             None \<Rightarrow> h
           | Some _ \<Rightarrow> h\<lparr>hb_voice := AList.update grp (AList.update device state members) (hb_voice h)\<rparr>))"

definition hub_voice_leave :: "uuid \<Rightarrow> uuid \<Rightarrow> hub \<Rightarrow> voice_state option \<times> hub" where
  "hub_voice_leave grp device h =
     (case map_of (hb_voice h) grp of
        None \<Rightarrow> (None, h)
      | Some members \<Rightarrow>
          (let members' = AList.delete device members
           in (map_of members device,
               h\<lparr>hb_voice := (if members' = [] then AList.delete grp (hb_voice h)
                             else AList.update grp members' (hb_voice h))\<rparr>)))"

definition hub_send_mod_alert :: "uuid list \<Rightarrow> mod_alert \<Rightarrow> hub \<Rightarrow> hub" where
  "hub_send_mod_alert devices alert h =
     fold (\<lambda>device h. case map_of (hb_device_subs h) device of
        None \<Rightarrow> h | Some tx \<Rightarrow> try_send tx (SModAlert alert) h) devices h"

section \<open>Publishing and routing\<close>

definition hub_route :: "ext \<Rightarrow> bus_event \<Rightarrow> hub \<Rightarrow> hub" where
  "hub_route E event h = (case event of
       BusPublic msg \<Rightarrow>
         (case parse_str E (pb_group_id msg) of
            Some grp \<Rightarrow> hub_deliver_to_group grp (public_into_server_message msg) None h
          | None \<Rightarrow> h)
     | BusPrivate msg exclude_device \<Rightarrow>
         (case parse_str E (vb_group_id msg) of
            Some grp \<Rightarrow> hub_deliver_to_group grp (private_into_server_message msg)
              (parse_str E exclude_device) h
          | None \<Rightarrow> h)
     | BusWelcome device_id group_id welcome \<Rightarrow>
         (case parse_str E device_id of
            Some device \<Rightarrow> hub_deliver_to_device device (welcome_notification group_id welcome) h
          | None \<Rightarrow> h)
     | BusCommit group_id commit epoch exclude_device \<Rightarrow>
         (case parse_str E group_id of
            Some grp \<Rightarrow> hub_deliver_to_group grp (commit_notification group_id commit epoch)
              (parse_str E exclude_device) h
          | None \<Rightarrow> h))"

definition hub_publish :: "ext \<Rightarrow> bus_event \<Rightarrow> (hub, server_error, unit) act" where
  "hub_publish E event = (\<lambda>h. case hb_transport h of
       RedisBus \<Rightarrow> (if hb_redis_up h then (Inr (), h\<lparr>hb_bus := hb_bus h @ [event]\<rparr>)
                    else (Inl (Redis ''publish failed''), h))
     | LocalBus \<Rightarrow> (Inr (), hub_route E event h))"

definition hub_publish_public :: "ext \<Rightarrow> public_bus_message \<Rightarrow> (hub, server_error, unit) act" where
  "hub_publish_public E msg = hub_publish E (BusPublic msg)"

definition hub_publish_private :: "ext \<Rightarrow> private_bus_message \<Rightarrow> uuid \<Rightarrow> (hub, server_error, unit) act" where
  "hub_publish_private E msg exclude_device = hub_publish E (BusPrivate msg (to_str E exclude_device))"

definition hub_publish_welcome :: "ext \<Rightarrow> uuid \<Rightarrow> uuid \<Rightarrow> bytes \<Rightarrow> (hub, server_error, unit) act" where
  "hub_publish_welcome E device_id group_id welcome =
     hub_publish E (BusWelcome (to_str E device_id) (to_str E group_id) welcome)"

definition hub_publish_commit ::
  "ext \<Rightarrow> uuid \<Rightarrow> bytes \<Rightarrow> 64 word \<Rightarrow> uuid \<Rightarrow> (hub, server_error, unit) act" where
  "hub_publish_commit E group_id commit epoch exclude_device =
     hub_publish E (BusCommit (to_str E group_id) commit epoch (to_str E exclude_device))"

text \<open>The listener task on an instance: every event another instance published is routed here.\<close>

definition hub_bus_listener :: "ext \<Rightarrow> bus_event list \<Rightarrow> hub \<Rightarrow> hub" where
  "hub_bus_listener E events h = (case hb_transport h of
     LocalBus \<Rightarrow> h | RedisBus \<Rightarrow> fold (hub_route E) events h)"

section \<open>Sending\<close>

text \<open>A hub with its channel contents masked: everything a send leaves alone.\<close>

definition tables :: "hub \<Rightarrow> hub" where
  "tables h = h\<lparr>hb_chans := []\<rparr>"

lemma tables_fields:
  assumes "tables h = tables k"
  shows "hb_group_subs h = hb_group_subs k" "hb_device_subs h = hb_device_subs k"
    "hb_device_groups h = hb_device_groups k" "hb_voice h = hb_voice k"
    "hb_transport h = hb_transport k" "hb_redis_up h = hb_redis_up k" "hb_bus h = hb_bus k"
proof -
  have "hb_group_subs (tables h) = hb_group_subs (tables k) \<and> hb_device_subs (tables h) = hb_device_subs (tables k) \<and>
    hb_device_groups (tables h) = hb_device_groups (tables k) \<and> hb_voice (tables h) = hb_voice (tables k) \<and>
    hb_transport (tables h) = hb_transport (tables k) \<and> hb_redis_up (tables h) = hb_redis_up (tables k) \<and>
    hb_bus (tables h) = hb_bus (tables k)"
    using assms by simp
  then show "hb_group_subs h = hb_group_subs k" "hb_device_subs h = hb_device_subs k"
    "hb_device_groups h = hb_device_groups k" "hb_voice h = hb_voice k"
    "hb_transport h = hb_transport k" "hb_redis_up h = hb_redis_up k" "hb_bus h = hb_bus k"
    by (simp_all add: tables_def)
qed

definition accepts :: "sender \<Rightarrow> hub \<Rightarrow> bool" where
  "accepts tx h \<longleftrightarrow> tx < length (hb_chans h) \<and> ch_open (hb_chans h ! tx) \<and>
     length (ch_queue (hb_chans h ! tx)) < CLIENT_BUFFER"

lemma tables_try_send [simp]: "tables (try_send tx msg h) = tables h"
  by (simp add: try_send_def tables_def Let_def)

lemma length_try_send [simp]: "length (hb_chans (try_send tx msg h)) = length (hb_chans h)"
  by (simp add: try_send_def Let_def)

lemma queue_try_send:
  "c < length (hb_chans h) \<Longrightarrow> ch_queue (hb_chans (try_send tx msg h) ! c) =
     ch_queue (hb_chans h ! c) @ (if c = tx \<and> accepts tx h then [msg] else [])"
  by (auto simp: try_send_def accepts_def Let_def nth_list_update)

lemma open_try_send:
  "c < length (hb_chans h) \<Longrightarrow> ch_open (hb_chans (try_send tx msg h) ! c) = ch_open (hb_chans h ! c)"
  by (auto simp: try_send_def Let_def nth_list_update)

lemma accepts_try_send: "c \<noteq> tx \<Longrightarrow> accepts c (try_send tx msg h) \<longleftrightarrow> accepts c h"
  by (auto simp: try_send_def accepts_def Let_def)

text \<open>Sending one message to a list of senders without repetition: each that accepts gets it once.\<close>

definition send_all :: "server_message \<Rightarrow> sender list \<Rightarrow> hub \<Rightarrow> hub" where
  "send_all msg txs h = fold (\<lambda>tx. try_send tx msg) txs h"

lemma send_all_Cons [simp]: "send_all msg (tx # txs) h = send_all msg txs (try_send tx msg h)"
  by (simp add: send_all_def)

lemma send_all_Nil [simp]: "send_all msg [] h = h"
  by (simp add: send_all_def)

lemma tables_send_all [simp]: "tables (send_all msg txs h) = tables h"
  by (induction txs arbitrary: h) auto

lemma length_send_all [simp]: "length (hb_chans (send_all msg txs h)) = length (hb_chans h)"
  by (induction txs arbitrary: h) auto

lemma queue_send_all:
  "distinct txs \<Longrightarrow> c < length (hb_chans h) \<Longrightarrow> ch_queue (hb_chans (send_all msg txs h) ! c) =
     ch_queue (hb_chans h ! c) @ (if c \<in> set txs \<and> accepts c h then [msg] else [])"
proof (induction txs arbitrary: h)
  case (Cons tx txs)
  then show ?case
    by (cases "c = tx") (auto simp: queue_try_send accepts_try_send)
qed simp

definition recipients :: "uuid \<Rightarrow> uuid option \<Rightarrow> hub \<Rightarrow> sender list" where
  "recipients grp exclude h =
     map snd (filter (\<lambda>(d, tx). Some d \<noteq> exclude) (lookup_list (hb_group_subs h) grp))"

lemma deliver_to_group_send_all:
  "hub_deliver_to_group grp msg exclude h = send_all msg (recipients grp exclude h) h"
proof -
  have "fold (\<lambda>(device, tx) h. if Some device = exclude then h else try_send tx msg h) ms k =
      send_all msg (map snd (filter (\<lambda>(d, tx). Some d \<noteq> exclude) ms)) k" for ms k
    by (induction ms arbitrary: k) auto
  then show ?thesis by (simp add: hub_deliver_to_group_def recipients_def)
qed

lemma tables_deliver [simp]:
  "tables (hub_deliver_to_group grp msg exclude h) = tables h"
  "tables (hub_deliver_to_device device msg h) = tables h"
  "tables (hub_send_to_device device msg h) = tables h"
  "tables (hub_publish_voice_participant grp msg h) = tables h"
  "tables (hub_route E ev h) = tables h"
  by (auto simp: deliver_to_group_send_all hub_deliver_to_device_def hub_send_to_device_def
      hub_publish_voice_participant_def hub_route_def split: option.splits bus_event.splits)

lemma length_deliver [simp]:
  "length (hb_chans (hub_deliver_to_group grp msg exclude h)) = length (hb_chans h)"
  "length (hb_chans (hub_deliver_to_device device msg h)) = length (hb_chans h)"
  "length (hb_chans (hub_send_to_device device msg h)) = length (hb_chans h)"
  "length (hb_chans (hub_publish_voice_participant grp msg h)) = length (hb_chans h)"
  "length (hb_chans (hub_route E ev h)) = length (hb_chans h)"
  by (auto simp: deliver_to_group_send_all hub_deliver_to_device_def hub_send_to_device_def
      hub_publish_voice_participant_def hub_route_def split: option.splits bus_event.splits)

section \<open>Well-formed registries\<close>

text \<open>
  The hash maps have one entry per key, every sender is a channel, and a channel belongs to one
  device.
\<close>

definition all_subs :: "hub \<Rightarrow> (uuid \<times> sender) set" where
  "all_subs h = set (hb_device_subs h) \<union> (\<Union>gm \<in> set (hb_group_subs h). set (snd gm))"

definition map_wf :: "('k \<times> 'v) list \<Rightarrow> bool" where
  "map_wf m \<longleftrightarrow> distinct (map fst m)"

definition subs_ok :: "nat \<Rightarrow> (uuid \<times> sender) set \<Rightarrow> bool" where
  "subs_ok n S \<longleftrightarrow> (\<forall>d tx. (d, tx) \<in> S \<longrightarrow> tx < n) \<and>
     (\<forall>d d' tx. (d, tx) \<in> S \<longrightarrow> (d', tx) \<in> S \<longrightarrow> d = d')"

definition hub_wf :: "hub \<Rightarrow> bool" where
  "hub_wf h \<longleftrightarrow>
     map_wf (hb_device_subs h) \<and> map_wf (hb_group_subs h) \<and> map_wf (hb_device_groups h) \<and>
     map_wf (hb_voice h) \<and>
     (\<forall>gm \<in> set (hb_group_subs h). map_wf (snd gm)) \<and> (\<forall>gm \<in> set (hb_voice h). map_wf (snd gm)) \<and>
     subs_ok (length (hb_chans h)) (all_subs h) \<and>
     (\<forall>c \<in> set (hb_chans h). length (ch_queue c) \<le> CLIENT_BUFFER)"

lemma map_wf_update [simp]: "map_wf m \<Longrightarrow> map_wf (AList.update k v m)"
  by (simp add: map_wf_def distinct_update)

lemma map_wf_delete [simp]: "map_wf m \<Longrightarrow> map_wf (AList.delete k m)"
  by (simp add: map_wf_def distinct_delete)

lemma map_wf_Nil [simp]: "map_wf []"
  by (simp add: map_wf_def)

lemma in_set_updateD: "p \<in> set (AList.update k v m) \<Longrightarrow> p = (k, v) \<or> p \<in> set m"
proof (induction m)
  case (Cons q m)
  then show ?case by (cases q) (auto split: if_splits)
qed simp

lemma set_delete_sub: "p \<in> set (AList.delete k m) \<Longrightarrow> p \<in> set m"
  by (simp add: AList.delete_eq)

lemma map_wf_lookup_list:
  "(\<And>gm. gm \<in> set m \<Longrightarrow> map_wf (snd gm)) \<Longrightarrow> map_wf (lookup_list m k)"
  by (auto simp: lookup_list_def dest!: map_of_SomeD split: option.splits)

lemma queues_try_send:
  "\<forall>c \<in> set (hb_chans h). length (ch_queue c) \<le> CLIENT_BUFFER \<Longrightarrow>
   \<forall>c \<in> set (hb_chans (try_send tx msg h)). length (ch_queue c) \<le> CLIENT_BUFFER"
  by (force simp: try_send_def Let_def in_set_conv_nth nth_list_update)

lemma hub_wf_tables:
  assumes "hub_wf h" and "tables k = tables h" and "length (hb_chans k) = length (hb_chans h)"
    and "\<forall>c \<in> set (hb_chans k). length (ch_queue c) \<le> CLIENT_BUFFER"
  shows "hub_wf k"
  using assms(1,4) unfolding hub_wf_def all_subs_def tables_fields [OF assms(2)] assms(3)
  by (elim conjE) (intro conjI; assumption)

lemma hub_wf_queues: "hub_wf h \<Longrightarrow> \<forall>c \<in> set (hb_chans h). length (ch_queue c) \<le> CLIENT_BUFFER"
  by (simp add: hub_wf_def)

lemma hub_wf_try_send: "hub_wf h \<Longrightarrow> hub_wf (try_send tx msg h)"
  by (rule hub_wf_tables [OF _ tables_try_send length_try_send queues_try_send [OF hub_wf_queues]])

lemma hub_wf_send_all: "hub_wf h \<Longrightarrow> hub_wf (send_all msg txs h)"
  by (induction txs arbitrary: h) (auto simp: hub_wf_try_send)

lemma hub_wf_deliver:
  assumes "hub_wf h"
  shows "hub_wf (hub_deliver_to_group grp msg exclude h)" "hub_wf (hub_deliver_to_device device msg h)"
    "hub_wf (hub_send_to_device device msg h)" "hub_wf (hub_publish_voice_participant grp msg h)"
    "hub_wf (hub_route E ev h)"
  using assms by (auto simp: deliver_to_group_send_all hub_deliver_to_device_def hub_send_to_device_def
      hub_publish_voice_participant_def hub_route_def hub_wf_send_all hub_wf_try_send
      split: option.splits bus_event.splits)

lemma subs_ok_mono: "subs_ok n S \<Longrightarrow> T \<subseteq> S \<Longrightarrow> n \<le> m \<Longrightarrow> subs_ok m T"
  unfolding subs_ok_def by (meson in_mono less_le_trans)

lemma subs_ok_insert:
  "subs_ok n S \<Longrightarrow> tx < n \<Longrightarrow> (\<And>d'. (d', tx) \<in> S \<Longrightarrow> d' = d) \<Longrightarrow> subs_ok n (insert (d, tx) S)"
  unfolding subs_ok_def by blast

lemma hub_wf_subs: "hub_wf h \<Longrightarrow> subs_ok (length (hb_chans h)) (all_subs h)"
  by (simp add: hub_wf_def)

lemma in_lookup_list: "x \<in> set (lookup_list m k) \<Longrightarrow> \<exists>v. (k, v) \<in> set m \<and> x \<in> set v"
  by (cases "map_of m k") (auto simp: lookup_list_def dest: map_of_SomeD)

lemma all_subs_add: "all_subs (add_group_sub grp d tx h) \<subseteq> insert (d, tx) (all_subs h)"
  by (auto simp: all_subs_def add_group_sub_def dest!: in_set_updateD in_lookup_list)
    (auto dest!: in_set_updateD in_lookup_list)

lemma add_group_sub_fields [simp]:
  "hb_chans (add_group_sub grp d tx h) = hb_chans h"
  "hb_device_subs (add_group_sub grp d tx h) = hb_device_subs h"
  "hb_device_groups (add_group_sub grp d tx h) = hb_device_groups h"
  "hb_voice (add_group_sub grp d tx h) = hb_voice h"
  by (simp_all add: add_group_sub_def)

lemma hub_wf_add:
  assumes wf: "hub_wf h" and tx: "tx < length (hb_chans h)"
    and own: "\<And>d'. (d', tx) \<in> all_subs h \<Longrightarrow> d' = d"
  shows "hub_wf (add_group_sub grp d tx h)"
proof -
  have "subs_ok (length (hb_chans h)) (all_subs (add_group_sub grp d tx h))"
    by (rule subs_ok_mono [OF subs_ok_insert [OF hub_wf_subs [OF wf] tx own] all_subs_add]) simp_all
  moreover have "map_wf (snd gm)" if "gm \<in> set (hb_group_subs (add_group_sub grp d tx h))" for gm
    using that wf map_wf_lookup_list [of "hb_group_subs h" grp]
    by (auto simp: add_group_sub_def hub_wf_def dest!: in_set_updateD)
  moreover have "map_wf (hb_group_subs (add_group_sub grp d tx h))"
    using wf by (simp add: add_group_sub_def hub_wf_def)
  ultimately show ?thesis using wf by (simp add: hub_wf_def)
qed

lemma hub_wf_add_all:
  assumes "hub_wf h" and "tx < length (hb_chans h)"
    and "\<And>d'. (d', tx) \<in> all_subs h \<Longrightarrow> d' = d"
  shows "hub_wf (fold (\<lambda>grp. add_group_sub grp d tx) gs h) \<and>
    hb_chans (fold (\<lambda>grp. add_group_sub grp d tx) gs h) = hb_chans h \<and>
    all_subs (fold (\<lambda>grp. add_group_sub grp d tx) gs h) \<subseteq> insert (d, tx) (all_subs h)"
  using assms
proof (induction gs arbitrary: h)
  case (Cons g gs)
  have sub: "all_subs (add_group_sub g d tx h) \<subseteq> insert (d, tx) (all_subs h)" by (rule all_subs_add)
  have "hub_wf (add_group_sub g d tx h)" using Cons.prems by (rule hub_wf_add)
  then have "hub_wf (fold (\<lambda>grp. add_group_sub grp d tx) gs (add_group_sub g d tx h)) \<and>
    hb_chans (fold (\<lambda>grp. add_group_sub grp d tx) gs (add_group_sub g d tx h)) = hb_chans (add_group_sub g d tx h) \<and>
    all_subs (fold (\<lambda>grp. add_group_sub grp d tx) gs (add_group_sub g d tx h))
      \<subseteq> insert (d, tx) (all_subs (add_group_sub g d tx h))"
    using Cons.prems sub by (intro Cons.IH) auto
  then show ?case using sub by auto
qed auto

lemma hub_wf_new: "hub_wf (hub_new url up)"
  by (simp add: hub_wf_def hub_new_def subs_ok_def all_subs_def)

lemma hub_wf_set_device:
  assumes "hub_wf h" and "tx < length (hb_chans h)"
    and "\<And>d'. (d', tx) \<in> all_subs h \<Longrightarrow> d' = d"
  shows "hub_wf (h\<lparr>hb_device_subs := AList.update d tx (hb_device_subs h),
     hb_device_groups := AList.update d gs (hb_device_groups h)\<rparr>)" (is "hub_wf ?k")
proof -
  have "all_subs ?k \<subseteq> insert (d, tx) (all_subs h)"
    by (auto simp: all_subs_def dest!: in_set_updateD)
  then have "subs_ok (length (hb_chans h)) (all_subs ?k)"
    using subs_ok_mono [OF subs_ok_insert [OF hub_wf_subs [OF assms(1)] assms(2,3)]] by simp
  then show ?thesis using assms(1) by (simp add: hub_wf_def)
qed

lemma hub_wf_register: "hub_wf h \<Longrightarrow> hub_wf (snd (hub_register d gs h))"
proof -
  assume wf: "hub_wf h"
  define tx where "tx = length (hb_chans h)"
  define h1 where "h1 = h\<lparr>hb_chans := hb_chans h @ [\<lparr>ch_queue = [], ch_open = True\<rparr>]\<rparr>"
  define h2 where "h2 = fold (\<lambda>grp. add_group_sub grp d tx) gs h1"
  have all1: "all_subs h1 = all_subs h" by (simp add: all_subs_def h1_def)
  have fresh: "d' = d" if "(d', tx) \<in> all_subs h1" for d'
    using that hub_wf_subs [OF wf] unfolding all1 subs_ok_def tx_def by blast
  have wf1: "hub_wf h1"
    using wf subs_ok_mono [of "length (hb_chans h)" "all_subs h" "all_subs h" "length (hb_chans h1)"]
    by (simp add: hub_wf_def all1) (auto simp: h1_def CLIENT_BUFFER_def)
  have 2: "hub_wf h2 \<and> hb_chans h2 = hb_chans h1 \<and> all_subs h2 \<subseteq> insert (d, tx) (all_subs h1)"
    unfolding h2_def using wf1 fresh by (intro hub_wf_add_all) (auto simp: h1_def tx_def)
  then have "hub_wf (h2\<lparr>hb_device_subs := AList.update d tx (hb_device_subs h2),
      hb_device_groups := AList.update d gs (hb_device_groups h2)\<rparr>)"
    using fresh by (intro hub_wf_set_device) (auto simp: h1_def tx_def)
  then show ?thesis
    by (simp add: hub_register_def Let_def h2_def h1_def tx_def)
qed

lemma hub_wf_subscribe: "hub_wf h \<Longrightarrow> hub_wf (hub_subscribe d g h)"
proof (cases "map_of (hb_device_subs h) d")
  case (Some tx)
  assume wf: "hub_wf h"
  have sub: "(d, tx) \<in> all_subs h" using map_of_SomeD [OF Some] by (simp add: all_subs_def)
  have own: "d' = d" if "(d', tx) \<in> all_subs h" for d'
    using that sub hub_wf_subs [OF wf] unfolding subs_ok_def by blast
  have lt: "tx < length (hb_chans h)"
    using sub hub_wf_subs [OF wf] unfolding subs_ok_def by blast
  define k where "k = add_group_sub g d tx h"
  have k: "hub_wf k" unfolding k_def using wf lt own by (rule hub_wf_add)
  define gs where "gs = (if g \<in> set (lookup_list (hb_device_groups k) d) then lookup_list (hb_device_groups k) d
     else lookup_list (hb_device_groups k) d @ [g])"
  have "hub_subscribe d g h = k\<lparr>hb_device_groups := AList.update d gs (hb_device_groups k)\<rparr>"
    using Some by (simp add: hub_subscribe_def k_def gs_def Let_def)
  moreover have "all_subs (k\<lparr>hb_device_groups := G\<rparr>) = all_subs k" for G
    by (simp add: all_subs_def)
  ultimately show ?thesis using k by (simp add: hub_wf_def)
qed (simp add: hub_subscribe_def)

lemma hub_wf_drop_group_sub: "hub_wf h \<Longrightarrow> hub_wf (drop_group_sub d g h)"
proof (cases "map_of (hb_group_subs h) g")
  case (Some ms)
  assume wf: "hub_wf h"
  have mem: "(g, ms) \<in> set (hb_group_subs h)" by (rule map_of_SomeD [OF Some])
  obtain subs where k: "drop_group_sub d g h = h\<lparr>hb_group_subs := subs\<rparr>"
    and subs: "subs = AList.delete g (hb_group_subs h) \<or> subs = AList.update g (AList.delete d ms) (hb_group_subs h)"
    using Some by (cases "AList.delete d ms = []") (auto simp: drop_group_sub_def)
  have inner: "gm \<in> set (hb_group_subs h) \<or> gm = (g, AList.delete d ms)" if "gm \<in> set subs" for gm
    using that subs by (auto dest!: in_set_updateD set_delete_sub)
  have sub: "all_subs (h\<lparr>hb_group_subs := subs\<rparr>) \<subseteq> all_subs h"
    using mem by (force simp: all_subs_def dest!: inner dest: set_delete_sub)
  have "map_wf (snd gm)" if "gm \<in> set subs" for gm
    using inner [OF that] wf mem by (auto simp: hub_wf_def)
  moreover have "map_wf subs" using subs wf by (auto simp: hub_wf_def)
  moreover have "subs_ok (length (hb_chans h)) (all_subs (h\<lparr>hb_group_subs := subs\<rparr>))"
    by (rule subs_ok_mono [OF hub_wf_subs [OF wf] sub]) simp
  ultimately show ?thesis using wf unfolding k by (simp add: hub_wf_def)
qed (simp add: drop_group_sub_def)

lemma hub_wf_fold: "(\<And>x h. hub_wf h \<Longrightarrow> hub_wf (f x h)) \<Longrightarrow> hub_wf h \<Longrightarrow> hub_wf (fold f xs h)"
  by (induction xs arbitrary: h) auto

lemma hub_wf_set_voice:
  "hub_wf h \<Longrightarrow> map_wf v \<Longrightarrow> (\<And>gm. gm \<in> set v \<Longrightarrow> map_wf (snd gm)) \<Longrightarrow> hub_wf (h\<lparr>hb_voice := v\<rparr>)"
  by (simp add: hub_wf_def all_subs_def)

lemma hub_wf_voice:
  assumes wf: "hub_wf h"
  shows "hub_wf (snd (hub_voice_join g d st h))" "hub_wf (hub_voice_set_state g d st h)"
    "hub_wf (snd (hub_voice_leave g d h))" "hub_wf (snd (hub_voice_drop_device d h))"
proof -
  have v: "map_wf (hb_voice h)" "\<And>gm. gm \<in> set (hb_voice h) \<Longrightarrow> map_wf (snd gm)"
    using wf by (auto simp: hub_wf_def)
  have l: "map_wf (lookup_list (hb_voice h) g)" by (rule map_wf_lookup_list) (rule v)
  have m: "map_wf ms" if "map_of (hb_voice h) g = Some ms" for ms
    using v(2) [OF map_of_SomeD [OF that]] by simp
  show "hub_wf (snd (hub_voice_join g d st h))"
    using v l by (auto simp: hub_voice_join_def Let_def intro!: hub_wf_set_voice [OF wf] dest!: in_set_updateD)
  show "hub_wf (hub_voice_set_state g d st h)"
    using wf v m by (auto simp: hub_voice_set_state_def intro!: hub_wf_set_voice dest!: in_set_updateD
        split: option.splits)
  show "hub_wf (snd (hub_voice_leave g d h))"
    using wf v m by (auto simp: hub_voice_leave_def Let_def intro!: hub_wf_set_voice
        dest!: in_set_updateD set_delete_sub split: option.splits)
  have "map fst (filter (\<lambda>(g, ms). ms \<noteq> []) (map (\<lambda>(g, ms). (g, AList.delete d ms)) vs)) =
      map fst (filter (\<lambda>(g, ms). AList.delete d ms \<noteq> []) vs)" for vs :: "(uuid \<times> (uuid \<times> voice_state) list) list"
    by (induction vs) auto
  then have "map_wf (filter (\<lambda>(g, ms). ms \<noteq> []) (map (\<lambda>(g, ms). (g, AList.delete d ms)) (hb_voice h)))"
    using v(1) by (simp add: map_wf_def distinct_map_filter)
  then show "hub_wf (snd (hub_voice_drop_device d h))"
    using v(2) by (auto simp: hub_voice_drop_device_def intro!: hub_wf_set_voice [OF wf])
qed

lemma hub_wf_unregister: "hub_wf h \<Longrightarrow> hub_wf (hub_unregister E d h)"
proof -
  assume wf: "hub_wf h"
  define h1 where "h1 = h\<lparr>hb_device_subs := AList.delete d (hb_device_subs h)\<rparr>"
  have "all_subs h1 \<subseteq> all_subs h" by (auto simp: all_subs_def h1_def dest: set_delete_sub)
  then have "subs_ok (length (hb_chans h)) (all_subs h1)"
    using subs_ok_mono [OF hub_wf_subs [OF wf]] by simp
  then have wf1: "hub_wf h1" using wf by (simp add: hub_wf_def) (simp add: h1_def)
  have wf1': "hub_wf (h1\<lparr>hb_device_groups := AList.delete d (hb_device_groups h1)\<rparr>)"
    using wf1 by (simp add: hub_wf_def all_subs_def)
  define h2 where "h2 = (case map_of (hb_device_groups h1) d of None \<Rightarrow> h1
    | Some groups \<Rightarrow> fold (drop_group_sub d) groups
        (h1\<lparr>hb_device_groups := AList.delete d (hb_device_groups h1)\<rparr>))"
  have "hub_wf h2"
    using wf1 wf1' by (auto simp: h2_def intro: hub_wf_fold hub_wf_drop_group_sub split: option.splits)
  then have "hub_wf (snd (hub_voice_drop_device d h2))" by (rule hub_wf_voice)
  then show ?thesis
    by (auto simp: hub_unregister_def h1_def [symmetric] h2_def [symmetric] Let_def
        intro!: hub_wf_fold hub_wf_deliver split: prod.splits)
qed

section \<open>The hub as a transition system\<close>

text \<open>Every call the services make, the client reading its stream and the client going away.\<close>

datatype hub_call =
    Register uuid "uuid list"
  | Unregister uuid
  | Subscribe uuid uuid
  | SendTo uuid server_message
  | Publish bus_event
  | Listen "bus_event list"
  | VoiceJoin uuid uuid voice_state
  | VoiceSetState uuid uuid voice_state
  | VoiceLeave uuid uuid
  | VoiceAnnounce uuid server_message
  | Alert "uuid list" mod_alert
  | Receive sender
  | CloseReceiver sender

definition chan_update :: "sender \<Rightarrow> (chan \<Rightarrow> chan) \<Rightarrow> hub \<Rightarrow> hub" where
  "chan_update tx f h = h\<lparr>hb_chans := (hb_chans h)[tx := f (hb_chans h ! tx)]\<rparr>"

fun hub_exec :: "ext \<Rightarrow> hub_call \<Rightarrow> hub \<Rightarrow> hub" where
  "hub_exec E (Register d gs) h = snd (hub_register d gs h)"
| "hub_exec E (Unregister d) h = hub_unregister E d h"
| "hub_exec E (Subscribe d g) h = hub_subscribe d g h"
| "hub_exec E (SendTo d m) h = hub_send_to_device d m h"
| "hub_exec E (Publish ev) h = snd (hub_publish E ev h)"
| "hub_exec E (Listen evs) h = hub_bus_listener E evs h"
| "hub_exec E (VoiceJoin g d st) h = snd (hub_voice_join g d st h)"
| "hub_exec E (VoiceSetState g d st) h = hub_voice_set_state g d st h"
| "hub_exec E (VoiceLeave g d) h = snd (hub_voice_leave g d h)"
| "hub_exec E (VoiceAnnounce g m) h = hub_publish_voice_participant g m h"
| "hub_exec E (Alert ds a) h = hub_send_mod_alert ds a h"
| "hub_exec E (Receive tx) h = chan_update tx (\<lambda>c. c\<lparr>ch_queue := tl (ch_queue c)\<rparr>) h"
| "hub_exec E (CloseReceiver tx) h = chan_update tx (\<lambda>c. c\<lparr>ch_open := False\<rparr>) h"

inductive hub_step :: "ext \<Rightarrow> hub \<Rightarrow> hub_call \<Rightarrow> hub \<Rightarrow> bool" for E where
  "hub_step E h c (hub_exec E c h)"

inductive_simps hub_step_iff: "hub_step E h c h'"

definition hub_init :: "hub \<Rightarrow> bool" where
  "hub_init h \<longleftrightarrow> (\<exists>url up. h = hub_new url up)"

lemma hub_wf_chan_update:
  assumes "hub_wf h" and "\<And>c. length (ch_queue (f c)) \<le> length (ch_queue c)"
  shows "hub_wf (chan_update tx f h)"
proof (rule hub_wf_tables [OF assms(1)])
  show "\<forall>c \<in> set (hb_chans (chan_update tx f h)). length (ch_queue c) \<le> CLIENT_BUFFER"
    using hub_wf_queues [OF assms(1)] assms(2)
    by (auto simp: chan_update_def in_set_conv_nth)
      (metis (no_types, lifting) le_trans nth_list_update nth_list_update_neq nth_mem)
qed (simp_all add: chan_update_def tables_def)

lemma hub_wf_exec: "hub_wf h \<Longrightarrow> hub_wf (hub_exec E c h)"
proof (cases c)
  case (Publish ev)
  assume "hub_wf h"
  moreover have "hub_wf (h\<lparr>hb_bus := b\<rparr>)" if "hub_wf h" for b
    using that by (simp add: hub_wf_def all_subs_def)
  ultimately show ?thesis using Publish
    by (auto simp: hub_publish_def hub_wf_deliver split: transport.splits)
next
  case (Alert ds a)
  assume "hub_wf h"
  then show ?thesis using Alert
    by (auto simp: hub_send_mod_alert_def intro!: hub_wf_fold hub_wf_try_send split: option.splits)
qed (auto simp: hub_wf_register hub_wf_unregister hub_wf_subscribe hub_wf_deliver hub_wf_voice
    hub_bus_listener_def hub_wf_chan_update intro: hub_wf_fold split: transport.splits)

interpretation hub_sys: inductive_invariant hub_init "hub_step E" hub_wf for E
  by unfold_locales (auto simp: hub_init_def hub_step_iff hub_wf_new hub_wf_exec)

section \<open>Properties\<close>



text \<open>
  C3: Delivery to a group is exact: every subscriber but the excluded device gets the message once
  at the end of its queue (unless its receiver is gone or its buffer is full), and no other
  channel, and no table, changes.
\<close>

theorem deliver_to_group_exact:
  assumes "hub_wf h" and "c < length (hb_chans h)"
  shows "ch_queue (hb_chans (hub_deliver_to_group grp msg exclude h) ! c) =
      ch_queue (hb_chans h ! c) @
      (if (\<exists>d. (d, c) \<in> set (lookup_list (hb_group_subs h) grp) \<and> Some d \<noteq> exclude) \<and> accepts c h
       then [msg] else []) \<and>
    tables (hub_deliver_to_group grp msg exclude h) = tables h"
proof -
  define ms where "ms = filter (\<lambda>(d, tx). Some d \<noteq> exclude) (lookup_list (hb_group_subs h) grp)"
  have sub: "set ms \<subseteq> all_subs h"
    using in_lookup_list [of _ "hb_group_subs h" grp] by (force simp: ms_def all_subs_def)
  have "map_wf (lookup_list (hb_group_subs h) grp)"
    using assms(1) by (intro map_wf_lookup_list) (simp add: hub_wf_def)
  then have "distinct (map fst ms)" by (simp add: ms_def map_wf_def distinct_map_filter)
  moreover have "inj_on snd (set ms)"
  proof (rule inj_onI)
    fix p q assume pq: "p \<in> set ms" "q \<in> set ms" "snd p = snd q"
    have "(fst p, snd q) \<in> all_subs h" "(fst q, snd q) \<in> all_subs h"
      using pq sub by (metis prod.collapse subsetD)+
    then have "fst p = fst q"
      using hub_wf_subs [OF assms(1)] unfolding subs_ok_def by blast
    with pq(3) show "p = q" by (simp add: prod_eq_iff)
  qed
  ultimately have "distinct (map snd ms)" by (auto simp: distinct_map)
  moreover have "c \<in> set (map snd ms) \<longleftrightarrow>
      (\<exists>d. (d, c) \<in> set (lookup_list (hb_group_subs h) grp) \<and> Some d \<noteq> exclude)"
    by (force simp: ms_def)
  ultimately show ?thesis
    using queue_send_all [of "map snd ms" c h msg] assms(2)
    by (simp add: deliver_to_group_send_all recipients_def ms_def [symmetric])
qed

text \<open>Witness: two devices in a group, the sender excluded.\<close>

definition two_devices :: hub where
  "two_devices = snd (hub_register 2 [8] (snd (hub_register 1 [8] (hub_new None True))))"

lemmas two_devices_eval = two_devices_def hub_register_def hub_new_def add_group_sub_def
  lookup_list_def Let_def

theorem deliver_to_group_exact_witness:
  "ch_queue (hb_chans (hub_deliver_to_group 8 (SWelcome ''g'' []) (Some 1) two_devices) ! 0) = [] \<and>
   ch_queue (hb_chans (hub_deliver_to_group 8 (SWelcome ''g'' []) (Some 1) two_devices) ! 1)
     = [SWelcome ''g'' []]"
proof -
  have wf: "hub_wf two_devices"
    unfolding two_devices_def by (intro hub_wf_register hub_wf_new)
  have "0 < length (hb_chans two_devices)" "1 < length (hb_chans two_devices)"
    by (simp_all add: two_devices_eval)
  note d0 = deliver_to_group_exact [OF wf this(1), of 8 "SWelcome ''g'' []" "Some 1"]
    and d1 = deliver_to_group_exact [OF wf this(2), of 8 "SWelcome ''g'' []" "Some 1"]
  have subs: "lookup_list (hb_group_subs two_devices) 8 = [(1, 0), (2, 1)]"
    and chans: "hb_chans two_devices = replicate 2 \<lparr>ch_queue = [], ch_open = True\<rparr>"
    by (simp_all add: two_devices_eval numeral_2_eq_2)
  show ?thesis
    using d0 d1 by (simp add: subs chans accepts_def CLIENT_BUFFER_def)
qed

text \<open>Who is subscribed to what, as functions of the tables.\<close>

definition subscribed :: "hub \<Rightarrow> uuid \<Rightarrow> uuid \<Rightarrow> sender option" where
  "subscribed h grp d = map_of (lookup_list (hb_group_subs h) grp) d"

definition in_voice :: "hub \<Rightarrow> uuid \<Rightarrow> uuid \<Rightarrow> voice_state option" where
  "in_voice h grp d = map_of (lookup_list (hb_voice h) grp) d"

lemma subscribed_drop:
  "subscribed (drop_group_sub d grp h) g' d' = (if g' = grp \<and> d' = d then None else subscribed h g' d')"
proof (cases "map_of (hb_group_subs h) grp")
  case (Some ms)
  have "map_of ms d' = None" if "AList.delete d ms = []" "d' \<noteq> d"
    using that map_of_delete [of d' d ms] by simp
  then show ?thesis
    using Some by (auto simp: subscribed_def drop_group_sub_def Let_def lookup_list_def delete_conv'
        update_conv' split: option.splits)
qed (auto simp: subscribed_def drop_group_sub_def lookup_list_def)

lemma drop_group_sub_fields [simp]:
  "hb_device_subs (drop_group_sub d grp h) = hb_device_subs h"
  "hb_voice (drop_group_sub d grp h) = hb_voice h"
  by (auto simp: drop_group_sub_def Let_def split: option.splits)

lemma fold_drop:
  "subscribed (fold (drop_group_sub d) gs h) g' d' =
     (if g' \<in> set gs \<and> d' = d then None else subscribed h g' d') \<and>
   hb_device_subs (fold (drop_group_sub d) gs h) = hb_device_subs h \<and>
   hb_voice (fold (drop_group_sub d) gs h) = hb_voice h"
  by (induction gs arbitrary: h) (auto simp: subscribed_drop)

lemma lookup_drop_voice:
  "distinct (map fst vs) \<Longrightarrow>
   map_of (lookup_list (filter (\<lambda>(g, ms). ms \<noteq> []) (map (\<lambda>(g, ms). (g, AList.delete d ms)) vs)) grp) d' =
     (if d' = d then None else map_of (lookup_list vs grp) d')"
proof (induction vs)
  case (Cons v vs)
  obtain g ms where v: "v = (g, ms)" by (cases v)
  have no: "map_of (filter (\<lambda>(g, ms). ms \<noteq> []) (map (\<lambda>(g, ms). (g, AList.delete d ms)) vs)) g = None"
    using Cons.prems v by (force simp: map_of_eq_None_iff image_iff)
  have "map_of ms d' = None" if "AList.delete d ms = []" "d' \<noteq> d"
    using that map_of_delete [of d' d ms] by simp
  then show ?case
    using Cons v no by (cases "g = grp") (auto simp: lookup_list_def delete_conv')
qed (simp add: lookup_list_def)

lemma tables_fold: "(\<And>x h. tables (f x h) = tables h) \<Longrightarrow> tables (fold f xs h) = tables h"
  by (induction xs arbitrary: h) auto

lemma subscribed_tables:
  assumes "tables k = tables h"
  shows "subscribed k = subscribed h" "in_voice k = in_voice h" "hub_is_connected d k = hub_is_connected d h"
  using tables_fields [OF assms] by (auto simp: subscribed_def in_voice_def hub_is_connected_def fun_eq_iff)

text \<open>
  When a device disconnects, and the cleanup list covers its subscriptions, every trace of it
  is gone (device table, all groups, all voice channels) and no other device loses anything.
\<close>

theorem unregister_clean:
  assumes "hub_wf h"
    and "\<forall>grp. subscribed h grp d \<noteq> None \<longrightarrow> grp \<in> set (lookup_list (hb_device_groups h) d)"
  shows "subscribed (hub_unregister E d h) grp d' = (if d' = d then None else subscribed h grp d') \<and>
    in_voice (hub_unregister E d h) grp d' = (if d' = d then None else in_voice h grp d') \<and>
    (hub_is_connected d' (hub_unregister E d h) \<longleftrightarrow> d' \<noteq> d \<and> hub_is_connected d' h)"
proof -
  define h1 where "h1 = h\<lparr>hb_device_subs := AList.delete d (hb_device_subs h)\<rparr>"
  define h2 where "h2 = (case map_of (hb_device_groups h1) d of None \<Rightarrow> h1
    | Some groups \<Rightarrow> fold (drop_group_sub d) groups
        (h1\<lparr>hb_device_groups := AList.delete d (hb_device_groups h1)\<rparr>))"
  define h3 where "h3 = snd (hub_voice_drop_device d h2)"
  have T: "tables (hub_unregister E d h) = tables h3"
    by (auto simp: hub_unregister_def h1_def [symmetric] h2_def [symmetric] h3_def Let_def
        intro!: tables_fold split: prod.splits)
  have s2: "subscribed h2 grp d' = (if d' = d then None else subscribed h grp d')"
    using assms(2) by (auto simp: h2_def h1_def fold_drop lookup_list_def [of "hb_device_groups h"]
        split: option.splits) (auto simp: subscribed_def)
  have v2: "hb_voice h2 = hb_voice h" "hb_device_subs h2 = AList.delete d (hb_device_subs h)"
    by (auto simp: h2_def h1_def fold_drop split: option.splits)
  have s3: "subscribed h3 = subscribed h2" "hub_is_connected d' h3 = hub_is_connected d' h2"
    by (simp_all add: h3_def hub_voice_drop_device_def subscribed_def hub_is_connected_def fun_eq_iff)
  have v3: "in_voice h3 grp d' = (if d' = d then None else in_voice h grp d')"
    using lookup_drop_voice [of "hb_voice h" d grp d'] assms(1)
    by (simp add: h3_def in_voice_def hub_voice_drop_device_def v2 hub_wf_def map_wf_def)
  show ?thesis
    unfolding subscribed_tables [OF T] s3 s2 v3
    by (auto simp: hub_is_connected_def v2 delete_conv')
qed

text \<open>Witness: one of two connected devices leaves.\<close>

theorem unregister_clean_witness:
  "subscribed (hub_unregister demo_ext 1 two_devices) 8 1 = None \<and>
   subscribed (hub_unregister demo_ext 1 two_devices) 8 2 = Some 1 \<and>
   \<not> hub_is_connected 1 (hub_unregister demo_ext 1 two_devices)"
proof -
  have wf: "hub_wf two_devices"
    unfolding two_devices_def by (intro hub_wf_register hub_wf_new)
  have "\<forall>grp. subscribed two_devices grp 1 \<noteq> None \<longrightarrow> grp \<in> set (lookup_list (hb_device_groups two_devices) 1)"
    by (auto simp: subscribed_def two_devices_eval)
  note u = unregister_clean [OF wf this, of demo_ext 8]
  have "subscribed two_devices 8 2 = Some 1"
    by (simp add: subscribed_def two_devices_eval)
  then show ?thesis using u [of 1] u [of 2] by simp
qed

section \<open>Reconnection\<close>

text \<open>
  What the cleanup hypothesis of the disconnect theorem excludes.  A device that opens a second
  stream while the first is still registered overwrites its cleanup list; a group it had on the
  first stream only keeps the old sender after the device is gone.  And the guard of the first
  stream, dropped later, unregisters the device although the second stream is alive.
\<close>

lemma reconnect_leaks_subscription:
  "subscribed (hub_unregister demo_ext 1 (snd (hub_register 1 [] (snd (hub_register 1 [8] (hub_new None True)))))) 8 1
     = Some 0"
  by (simp add: hub_unregister_def subscribed_def hub_register_def hub_new_def add_group_sub_def
      lookup_list_def hub_voice_drop_device_def Let_def)

lemma stale_guard_disconnects:
  "\<not> hub_is_connected 1 (hub_unregister demo_ext 1
       (snd (hub_register 1 [8] (snd (hub_register 1 [8] (hub_new None True)))))) \<and>
   ch_open (hb_chans (hub_unregister demo_ext 1
       (snd (hub_register 1 [8] (snd (hub_register 1 [8] (hub_new None True)))))) ! 1)"
  by (simp add: hub_unregister_def hub_is_connected_def hub_register_def hub_new_def add_group_sub_def
      drop_group_sub_def lookup_list_def hub_voice_drop_device_def Let_def)

end
