(* ===== verification/Store_Schema.thy ===== *)
theory Store_Schema
  imports Externals Perms
begin

text \<open>
  The store's data model: the tables of \<open>migrations/sqlite\<close> as lists of row records, the structs of
  \<open>store/model.rs\<close> the queries return, and the SQL statements the methods of \<open>store/sqlite.rs\<close> issue.

  Identifiers are kept as 128-bit words: the source writes every id column as \<open>id.to_string()\<close> and
  reads it back with \<open>parse_id\<close>, and the text order of the hyphenated lower-case form is the numeric
  order.  Columns the source treats as plain text (\<open>groups.category_id\<close>, \<open>friend_requests.id\<close>) stay
  strings.  Booleans stored as 0/1 are booleans, timestamps are milliseconds, permissions and epochs
  are 64-bit words (\<open>u64\<close> and the \<open>i64\<close> with the same bits).

  \<open>db_fk\<close> says whether SQLite enforces \<open>REFERENCES\<close> clauses on the connection (the sqlx default
  does).  \<open>db_pub_seq\<close> and \<open>db_priv_seq\<close> are the \<open>sqlite_sequence\<close> high-water marks of the two
  AUTOINCREMENT columns.  No user, device or role with dependants is ever deleted by a statement of
  the source, and \<open>delete_group\<close> removes the dependants itself, so no cascade has to be modelled.
\<close>

section \<open>Rows of the tables\<close>

record users_row =
  u_id :: uuid
  u_username :: string
  u_display_name :: string
  u_password_hash :: string
  u_created_at :: int
  u_is_owner :: bool
  u_is_guest :: bool
  u_identity_key :: "bytes option"
  u_avatar_url :: string

record devices_row =
  d_id :: uuid
  d_user :: uuid
  d_name :: string
  d_created_at :: int
  d_revoked_at :: "int option"
  d_mls_credential :: "bytes option"

record refresh_tokens_row =
  rt_token :: string
  rt_user :: uuid
  rt_device :: uuid
  rt_expires_at :: int
  rt_created_at :: int

record groups_row =
  g_id :: uuid
  g_name :: string
  g_description :: string
  g_kind :: string
  g_channel_kind :: string
  g_category :: string
  g_position :: int
  g_created_at :: int

record group_members_row =
  gm_group :: uuid
  gm_user :: uuid
  gm_role :: string
  gm_joined_at :: int

record public_messages_row =
  pm_seq :: int
  pm_id :: uuid
  pm_group :: uuid
  pm_sender :: uuid
  pm_content :: string
  pm_client_id :: uuid
  pm_created_at :: int

record private_messages_row =
  vm_seq :: int
  vm_id :: uuid
  vm_group :: uuid
  vm_sender :: uuid
  vm_device :: uuid
  vm_ciphertext :: bytes
  vm_epoch :: "64 word"
  vm_client_id :: uuid
  vm_created_at :: int

record key_packages_row =
  kp_id :: uuid
  kp_user :: uuid
  kp_device :: uuid
  kp_bytes :: bytes
  kp_consumed :: bool
  kp_created_at :: int

record mls_inbox_row =
  ib_id :: uuid
  ib_device :: uuid
  ib_kind :: string
  ib_group :: uuid
  ib_payload :: bytes
  ib_created_at :: int

record invites_row =
  in_token :: string
  in_created_by :: uuid
  in_revoked :: bool
  in_created_at :: int

record roles_row =
  ro_id :: uuid
  ro_name :: string
  ro_permissions :: permissions
  ro_position :: int
  ro_is_default :: bool
  ro_color :: string
  ro_icon :: string
  ro_hoist :: bool
  ro_mentionable :: bool
  ro_created_at :: int

record member_roles_row =
  mr_user :: uuid
  mr_role :: uuid

record key_backups_row =
  kb_user :: uuid
  kb_blob :: bytes
  kb_salt :: bytes
  kb_params :: bytes
  kb_version :: int
  kb_updated_at :: int

record vault_blobs_row =
  vb_user :: uuid
  vb_name :: string
  vb_blob :: bytes
  vb_updated_at :: int

record friend_requests_row =
  fq_id :: string
  fq_recipient :: uuid
  fq_sender :: bytes
  fq_kind :: string
  fq_code :: string
  fq_created_at :: int

record tavern_info_row =
  ti_id :: uuid
  ti_name :: string
  ti_icon_url :: string
  ti_description :: string
  ti_linking :: bool
  ti_banner_url :: string

record bans_row =
  bn_user :: uuid
  bn_by :: uuid
  bn_reason :: string
  bn_created_at :: int

record audit_log_row =
  al_id :: uuid
  al_actor :: uuid
  al_action :: string
  al_target :: string
  al_verdict :: string
  al_reason :: string
  al_created_at :: int

record categories_row =
  ca_id :: uuid
  ca_name :: string
  ca_position :: int
  ca_created_at :: int

record db =
  db_users :: "users_row list"
  db_devices :: "devices_row list"
  db_refresh :: "refresh_tokens_row list"
  db_groups :: "groups_row list"
  db_members :: "group_members_row list"
  db_public :: "public_messages_row list"
  db_private :: "private_messages_row list"
  db_packages :: "key_packages_row list"
  db_inbox :: "mls_inbox_row list"
  db_invites :: "invites_row list"
  db_roles :: "roles_row list"
  db_member_roles :: "member_roles_row list"
  db_backups :: "key_backups_row list"
  db_vault :: "vault_blobs_row list"
  db_friends :: "friend_requests_row list"
  db_tavern :: "tavern_info_row list"
  db_bans :: "bans_row list"
  db_audit :: "audit_log_row list"
  db_categories :: "categories_row list"
  db_pub_seq :: int
  db_priv_seq :: int
  db_fk :: bool
  db_env :: env

type_synonym 'a dbact = "(db, server_error, 'a) act"

section \<open>Structs returned by the store\<close>

record user_row =
  ur_id :: uuid
  ur_username :: string
  ur_display_name :: string
  ur_password_hash :: string
  ur_is_guest :: bool

record group_summary_row =
  gs_id :: uuid
  gs_name :: string
  gs_description :: string
  gs_kind :: string
  gs_channel_kind :: string
  gs_member_count :: int
  gs_category_id :: string
  gs_position :: int

record category_row =
  cr_id :: uuid
  cr_name :: string
  cr_position :: int

record member_row =
  mb_user_id :: uuid
  mb_username :: string
  mb_display_name :: string
  mb_is_owner :: bool
  mb_avatar_url :: string

record tavern_row =
  tr_name :: string
  tr_icon_url :: string
  tr_description :: string
  tr_linking_enabled :: bool
  tr_banner_url :: string

record ban_row =
  br_user_id :: uuid
  br_reason :: string
  br_banned_by :: uuid
  br_created_at_ms :: int

record audit_row =
  ar_actor_id :: uuid
  ar_action :: string
  ar_target :: string
  ar_verdict :: string
  ar_reason :: string
  ar_created_at_ms :: int

record public_message_row =
  pr_id :: uuid
  pr_group_id :: uuid
  pr_sender_id :: uuid
  pr_sender_display_name :: string
  pr_content :: string
  pr_seq :: int
  pr_created_at :: int

record private_message_row =
  vr_id :: uuid
  vr_group_id :: uuid
  vr_sender_id :: uuid
  vr_sender_device_id :: uuid
  vr_ciphertext :: bytes
  vr_epoch :: "64 word"
  vr_seq :: int
  vr_created_at :: int

record refresh_row =
  rr_user_id :: uuid
  rr_device_id :: uuid
  rr_expires_at :: int

record claimed_key_package =
  ck_device_id :: uuid
  ck_key_package :: bytes

record inbox_row =
  ir_kind :: string
  ir_group_id :: uuid
  ir_payload :: bytes

record role_row =
  rl_id :: uuid
  rl_name :: string
  rl_permissions :: permissions
  rl_position :: int
  rl_is_default :: bool
  rl_color :: string
  rl_icon :: string
  rl_hoist :: bool
  rl_mentionable :: bool

record role_write =
  rw_name :: string
  rw_permissions :: permissions
  rw_color :: string
  rw_icon :: string
  rw_hoist :: bool
  rw_mentionable :: bool

record backup_row =
  bk_encrypted_blob :: bytes
  bk_salt :: bytes
  bk_argon2_params :: bytes
  bk_version :: int

record friend_request_row =
  fe_id :: string
  fe_kind :: string
  fe_contact_code :: string
  fe_created_at_ms :: int

section \<open>Oracles and statements\<close>

definition on_env :: "(env, server_error, 'a) act \<Rightarrow> 'a dbact" where
  "on_env = zoom db_env (\<lambda>e d. d\<lparr>db_env := e\<rparr>)"

definition now_v7 :: "uuid dbact" where
  "now_v7 = on_env (read_env e_uuid)"

definition now_wall :: "nat dbact" where
  "now_wall = on_env (read_env e_wall)"

definition now_instant :: "nat dbact" where
  "now_instant = on_env (read_env e_instant)"

definition now_ms :: "int dbact" where
  "now_ms = bnd now_wall (\<lambda>ns. ret (ms_of ns))"

text \<open>
  \<open>INSERT\<close>: a key conflict is a unique violation; otherwise, when foreign keys are enforced, every
  referenced row has to exist.  \<open>ON CONFLICT DO NOTHING\<close> and \<open>ON CONFLICT DO UPDATE\<close> take their
  own branch on a conflict, where no reference is checked (the key columns do not change).  The
  argument \<open>other\<close> of an upsert is a conflict on a unique key its clause does not name.
\<close>

definition insert_stmt :: "(db \<Rightarrow> bool) \<Rightarrow> (db \<Rightarrow> bool) \<Rightarrow> (db \<Rightarrow> db) \<Rightarrow> unit dbact" where
  "insert_stmt conflict refs f = (\<lambda>d.
     if conflict d then (Inl (Database UniqueViolation), d)
     else if db_fk d \<and> \<not> refs d then (Inl (Database ForeignKeyViolation), d)
     else (Inr (), f d))"

definition insert_or_ignore :: "(db \<Rightarrow> bool) \<Rightarrow> (db \<Rightarrow> bool) \<Rightarrow> (db \<Rightarrow> db) \<Rightarrow> unit dbact" where
  "insert_or_ignore conflict refs f = (\<lambda>d.
     if conflict d then (Inr (), d)
     else if db_fk d \<and> \<not> refs d then (Inl (Database ForeignKeyViolation), d)
     else (Inr (), f d))"

definition upsert_stmt ::
  "(db \<Rightarrow> bool) \<Rightarrow> (db \<Rightarrow> bool) \<Rightarrow> (db \<Rightarrow> bool) \<Rightarrow> (db \<Rightarrow> db) \<Rightarrow> (db \<Rightarrow> db) \<Rightarrow> unit dbact" where
  "upsert_stmt conflict other refs f g = (\<lambda>d.
     if conflict d then (Inr (), g d)
     else if other d then (Inl (Database UniqueViolation), d)
     else if db_fk d \<and> \<not> refs d then (Inl (Database ForeignKeyViolation), d)
     else (Inr (), f d))"

text \<open>A transaction (\<open>begin\<close> ... \<open>commit\<close>): an error inside rolls the database back.\<close>

definition transaction :: "'a dbact \<Rightarrow> 'a dbact" where
  "transaction m = (\<lambda>d. case m d of (Inl e, d') \<Rightarrow> (Inl e, d\<lparr>db_env := db_env d'\<rparr>) | (Inr a, d') \<Rightarrow> (Inr a, d'))"

definition has_user :: "uuid \<Rightarrow> db \<Rightarrow> bool" where
  "has_user u d = exists_where (\<lambda>r. u_id r = u) (db_users d)"

definition has_device :: "uuid \<Rightarrow> db \<Rightarrow> bool" where
  "has_device v d = exists_where (\<lambda>r. d_id r = v) (db_devices d)"

definition has_group :: "uuid \<Rightarrow> db \<Rightarrow> bool" where
  "has_group g d = exists_where (\<lambda>r. g_id r = g) (db_groups d)"

definition find_user :: "uuid \<Rightarrow> db \<Rightarrow> users_row option" where
  "find_user u d = List.find (\<lambda>r. u_id r = u) (db_users d)"

subsection \<open>Rules\<close>

lemma wp_on_env_read [wp_simps]:
  "wp (on_env (read_env f)) Q X =
     (\<lambda>d. Q (f (db_env d) (e_tick (db_env d)))
           (d\<lparr>db_env := (db_env d)\<lparr>e_tick := Suc (e_tick (db_env d))\<rparr>\<rparr>))"
  by (simp add: on_env_def wp_zoom fun_eq_iff) (simp add: wp_def read_env_def)

lemma wp_insert_stmt [wp_simps]:
  "wp (insert_stmt c r f) Q X =
     (\<lambda>d. if c d then X (Database UniqueViolation) d
          else if db_fk d \<and> \<not> r d then X (Database ForeignKeyViolation) d else Q () (f d))"
  by (simp add: wp_def insert_stmt_def fun_eq_iff)

lemma wp_insert_or_ignore [wp_simps]:
  "wp (insert_or_ignore c r f) Q X =
     (\<lambda>d. if c d then Q () d
          else if db_fk d \<and> \<not> r d then X (Database ForeignKeyViolation) d else Q () (f d))"
  by (simp add: wp_def insert_or_ignore_def fun_eq_iff)

lemma wp_upsert_stmt [wp_simps]:
  "wp (upsert_stmt c o' r f g) Q X =
     (\<lambda>d. if c d then Q () (g d)
          else if o' d then X (Database UniqueViolation) d
          else if db_fk d \<and> \<not> r d then X (Database ForeignKeyViolation) d else Q () (f d))"
  by (simp add: wp_def upsert_stmt_def fun_eq_iff)

lemma wp_transaction [wp_simps]:
  "wp (transaction m) Q X = (\<lambda>d. wp m Q (\<lambda>e d'. X e (d\<lparr>db_env := db_env d'\<rparr>)) d)"
  by (simp add: wp_def transaction_def fun_eq_iff split: prod.splits sum.splits)

lemmas clock_defs = now_v7_def now_ms_def now_wall_def now_instant_def

lemma insert_stmt_ok [ok_simps]:
  "insert_stmt c r f d = (Inr y, t) \<longleftrightarrow> \<not> c d \<and> (db_fk d \<longrightarrow> r d) \<and> t = f d"
  by (auto simp: insert_stmt_def)

lemma insert_or_ignore_ok [ok_simps]:
  "insert_or_ignore c r f d = (Inr y, t) \<longleftrightarrow>
     (if c d then t = d else (db_fk d \<longrightarrow> r d) \<and> t = f d)"
  by (auto simp: insert_or_ignore_def)

lemma upsert_stmt_ok [ok_simps]:
  "upsert_stmt c o' r f g d = (Inr y, t) \<longleftrightarrow>
     (if c d then t = g d else \<not> o' d \<and> (db_fk d \<longrightarrow> r d) \<and> t = f d)"
  by (auto simp: upsert_stmt_def)

lemma on_env_read_ok [ok_simps]:
  "on_env (read_env f) d = (Inr y, t) \<longleftrightarrow>
     y = f (db_env d) (e_tick (db_env d)) \<and>
     t = d\<lparr>db_env := (db_env d)\<lparr>e_tick := Suc (e_tick (db_env d))\<rparr>\<rparr>"
  by (auto simp: on_env_def zoom_def read_env_def)

section \<open>Frames\<close>

text \<open>
  \<open>db_frame\<close> is the contract of a relation between database states that every statement is checked
  against: a reflexive, transitive relation that ignores the oracles.  A projection that ignores the
  oracles (\<open>db_view\<close>) gives one: the relation ``has the same value of the projection''.
\<close>

locale db_frame = effect_order R for R :: "db \<Rightarrow> db \<Rightarrow> bool" +
  assumes frame_env: "R d (d\<lparr>db_env := e\<rparr>)"
begin

lemma frame_on_env: "effect R (on_env m)"
  by (auto simp: effect_def on_env_def zoom_def frame_env split: prod.splits)

lemma frame_clock: "effect R now_v7" "effect R now_ms" "effect R now_wall" "effect R now_instant"
  by (auto simp: clock_defs intro!: frame_on_env eff_bnd eff_ret)

lemma frame_modify: "(\<And>d. R d (f d)) \<Longrightarrow> effect R (modify f)"
  by (simp add: effect_def modify_def)

lemma frame_insert:
  "(\<And>d. \<not> c d \<Longrightarrow> (db_fk d \<longrightarrow> r d) \<Longrightarrow> R d (f d)) \<Longrightarrow> effect R (insert_stmt c r f)"
  by (simp add: effect_def insert_stmt_def eff_refl)

lemma frame_ignore:
  "(\<And>d. \<not> c d \<Longrightarrow> (db_fk d \<longrightarrow> r d) \<Longrightarrow> R d (f d)) \<Longrightarrow> effect R (insert_or_ignore c r f)"
  by (simp add: effect_def insert_or_ignore_def eff_refl)

lemma frame_upsert:
  "(\<And>d. \<not> c d \<Longrightarrow> \<not> o' d \<Longrightarrow> (db_fk d \<longrightarrow> r d) \<Longrightarrow> R d (f d)) \<Longrightarrow>
   (\<And>d. c d \<Longrightarrow> R d (g d)) \<Longrightarrow> effect R (upsert_stmt c o' r f g)"
  by (simp add: effect_def upsert_stmt_def eff_refl)

lemma frame_transaction: "effect R m \<Longrightarrow> effect R (transaction m)"
  by (auto simp: effect_def transaction_def frame_env split: prod.splits sum.splits)
    (metis snd_conv)

lemma frame_unwrap_or: "effect R m \<Longrightarrow> effect R (unwrap_or x m)"
  by (rule effect_unwrap_or)

lemmas frame_rules = eff_rules frame_clock frame_modify frame_insert frame_ignore frame_upsert
  frame_transaction frame_unwrap_or frame_on_env

end

locale db_view =
  fixes view :: "db \<Rightarrow> 'v"
  assumes view_env: "view (d\<lparr>db_env := e\<rparr>) = view d"
begin

definition same_view :: "db \<Rightarrow> db \<Rightarrow> bool" where
  "same_view s t \<longleftrightarrow> view t = view s"

end

sublocale db_view \<subseteq> db_frame same_view
  by unfold_locales (simp_all add: same_view_def view_env)

section \<open>Initial and sample databases\<close>

text \<open>A fresh file after the migrations: empty tables and the seeded \<open>#general\<close> channel (0002).\<close>

definition general_id :: uuid where
  "general_id = 0x01900000000070008000000000000001"

definition migrated_db :: "bool \<Rightarrow> env \<Rightarrow> db" where
  "migrated_db fk e =
     \<lparr>db_users = [], db_devices = [], db_refresh = [],
      db_groups = [\<lparr>g_id = general_id, g_name = ''general'',
        g_description = ''Default public channel - welcome to Accord!'', g_kind = ''public'',
        g_channel_kind = ''text'', g_category = [], g_position = 0, g_created_at = 0\<rparr>],
      db_members = [], db_public = [], db_private = [], db_packages = [], db_inbox = [],
      db_invites = [], db_roles = [], db_member_roles = [], db_backups = [], db_vault = [],
      db_friends = [], db_tavern = [], db_bans = [], db_audit = [], db_categories = [],
      db_pub_seq = 0, db_priv_seq = 0, db_fk = fk, db_env = e\<rparr>"

text \<open>
  A small server for the concrete runs: the owner (user 1), a moderator (user 2, role 11 at
  position 2), a plain member (user 3) and a guest (user 4), each with one device.
\<close>

definition demo_user :: "uuid \<Rightarrow> string \<Rightarrow> bool \<Rightarrow> bool \<Rightarrow> users_row" where
  "demo_user u name own guest = \<lparr>u_id = u, u_username = name, u_display_name = name,
     u_password_hash = CHR ''$'' # name, u_created_at = 0, u_is_owner = own, u_is_guest = guest,
     u_identity_key = None, u_avatar_url = []\<rparr>"

definition demo_role :: "uuid \<Rightarrow> permissions \<Rightarrow> int \<Rightarrow> bool \<Rightarrow> roles_row" where
  "demo_role r p pos def = \<lparr>ro_id = r, ro_name = [], ro_permissions = p, ro_position = pos,
     ro_is_default = def, ro_color = [], ro_icon = [], ro_hoist = False, ro_mentionable = False,
     ro_created_at = 0\<rparr>"

definition demo_device :: "uuid \<Rightarrow> uuid \<Rightarrow> devices_row" where
  "demo_device v u = \<lparr>d_id = v, d_user = u, d_name = ''pc'', d_created_at = 0, d_revoked_at = None,
     d_mls_credential = None\<rparr>"

definition demo_db :: db where
  "demo_db = (migrated_db True demo_env)
     \<lparr>db_users := [demo_user 1 ''ann'' True False, demo_user 2 ''bob'' False False,
        demo_user 3 ''cy'' False False, demo_user 4 ''gus'' False True],
      db_devices := [demo_device 21 1, demo_device 22 2, demo_device 23 3, demo_device 24 4],
      db_roles := [demo_role 10 0 0 True, demo_role 11 0x1F0 2 False],
      db_member_roles := [\<lparr>mr_user = 2, mr_role = 11\<rparr>]\<rparr>"

lemma demo_db_fields [simp]:
  "db_users demo_db = [demo_user 1 ''ann'' True False, demo_user 2 ''bob'' False False,
        demo_user 3 ''cy'' False False, demo_user 4 ''gus'' False True]"
  "db_devices demo_db = [demo_device 21 1, demo_device 22 2, demo_device 23 3, demo_device 24 4]"
  "db_roles demo_db = [demo_role 10 0 0 True, demo_role 11 0x1F0 2 False]"
  "db_member_roles demo_db = [\<lparr>mr_user = 2, mr_role = 11\<rparr>]"
  "db_env demo_db = demo_env" "db_fk demo_db = True" "db_members demo_db = []" "db_bans demo_db = []"
  "db_refresh demo_db = []" "db_inbox demo_db = []" "db_packages demo_db = []" "db_invites demo_db = []"
  "db_public demo_db = []" "db_private demo_db = []" "db_friends demo_db = []" "db_vault demo_db = []"
  "db_backups demo_db = []" "db_audit demo_db = []" "db_categories demo_db = []"
  "db_pub_seq demo_db = 0" "db_priv_seq demo_db = 0"
  by (simp_all add: demo_db_def migrated_db_def)

lemma demo_user_fields [simp]:
  "u_id (demo_user u n o' g) = u" "u_is_owner (demo_user u n o' g) = o'"
  "u_is_guest (demo_user u n o' g) = g" "u_username (demo_user u n o' g) = n"
  "u_password_hash (demo_user u n o' g) = CHR ''$'' # n" "u_identity_key (demo_user u n o' g) = None"
  "u_display_name (demo_user u n o' g) = n"
  by (simp_all add: demo_user_def)

lemma demo_role_fields [simp]:
  "ro_id (demo_role r p pos def) = r" "ro_permissions (demo_role r p pos def) = p"
  "ro_position (demo_role r p pos def) = pos" "ro_is_default (demo_role r p pos def) = def"
  by (simp_all add: demo_role_def)

lemma demo_device_fields [simp]:
  "d_id (demo_device v u) = v" "d_user (demo_device v u) = u" "d_revoked_at (demo_device v u) = None"
  "d_name (demo_device v u) = ''pc''"
  by (simp_all add: demo_device_def)

lemma demo_refs [simp]:
  "has_group general_id demo_db" "has_user u demo_db \<longleftrightarrow> u \<in> {1, 2, 3, 4}"
  "has_device v demo_db \<longleftrightarrow> v \<in> {21, 22, 23, 24}"
  by (auto simp: has_group_def has_user_def has_device_def demo_db_def migrated_db_def demo_user_def demo_device_def)

end
