(* ===== verification/Store_Accounts.thy ===== *)
theory Store_Accounts
  imports Store_Schema
begin

text \<open>
  \<open>store/sqlite.rs\<close>, first half: users, invites, roles, key backups, vault blobs, devices and refresh
  tokens.  One definition per method of the \<open>Store\<close> trait, named after it with the prefix \<open>sq_\<close>.
\<close>

section \<open>Users\<close>

definition on_unique :: "server_error \<Rightarrow> 'a dbact \<Rightarrow> 'a dbact" where
  "on_unique e = map_err (\<lambda>x. if x = Database UniqueViolation then e else x)"

definition sq_create_user ::
  "string \<Rightarrow> string \<Rightarrow> string \<Rightarrow> bool \<Rightarrow> bool \<Rightarrow> bytes option \<Rightarrow> uuid dbact" where
  "sq_create_user username display_name password_hash is_owner is_guest identity_pubkey =
     bnd now_v7 (\<lambda>id.
     bnd now_ms (\<lambda>now.
     bnd (on_unique (AlreadyExists ''username or identity'')
       (insert_stmt
         (\<lambda>d. exists_where (\<lambda>r. u_id r = id \<or> u_username r = username \<or>
                 identity_pubkey \<noteq> None \<and> u_identity_key r = identity_pubkey) (db_users d))
         (\<lambda>d. True)
         (\<lambda>d. d\<lparr>db_users := db_users d @
            [\<lparr>u_id = id, u_username = username, u_display_name = display_name,
              u_password_hash = password_hash, u_created_at = now, u_is_owner = is_owner,
              u_is_guest = is_guest, u_identity_key = identity_pubkey, u_avatar_url = ''''\<rparr>]\<rparr>))) (\<lambda>_.
     ret id)))"

definition sq_identity_exists :: "bytes \<Rightarrow> bool dbact" where
  "sq_identity_exists key = gets (\<lambda>d. exists_where (\<lambda>r. u_identity_key r = Some key) (db_users d))"

definition to_user_row :: "users_row \<Rightarrow> user_row" where
  "to_user_row r = \<lparr>ur_id = u_id r, ur_username = u_username r, ur_display_name = u_display_name r,
     ur_password_hash = u_password_hash r, ur_is_guest = u_is_guest r\<rparr>"

definition sq_find_user_by_username :: "string \<Rightarrow> user_row option dbact" where
  "sq_find_user_by_username username = gets (\<lambda>d.
     map_option to_user_row (List.find (\<lambda>r. u_username r = username) (db_users d)))"

definition sq_find_user_by_identity :: "bytes \<Rightarrow> user_row option dbact" where
  "sq_find_user_by_identity key = gets (\<lambda>d.
     map_option to_user_row (List.find (\<lambda>r. u_identity_key r = Some key) (db_users d)))"

definition sq_is_user_guest :: "uuid \<Rightarrow> bool dbact" where
  "sq_is_user_guest user_id = gets (\<lambda>d.
     case find_user user_id d of None \<Rightarrow> False | Some r \<Rightarrow> u_is_guest r)"

definition sq_user_profile :: "uuid \<Rightarrow> (string \<times> string \<times> string) option dbact" where
  "sq_user_profile user_id = gets (\<lambda>d.
     map_option (\<lambda>r. (u_username r, u_display_name r, u_avatar_url r)) (find_user user_id d))"

definition sq_update_profile :: "uuid \<Rightarrow> string \<Rightarrow> string \<Rightarrow> unit dbact" where
  "sq_update_profile user_id display_name avatar_url = modify (\<lambda>d. d\<lparr>db_users :=
     upd_where (\<lambda>r. u_id r = user_id)
       (\<lambda>r. r\<lparr>u_display_name := display_name, u_avatar_url := avatar_url\<rparr>) (db_users d)\<rparr>)"

definition sq_count_users :: "int dbact" where
  "sq_count_users = gets (\<lambda>d. int (length (db_users d)))"

definition sq_is_owner :: "uuid \<Rightarrow> bool dbact" where
  "sq_is_owner user_id = gets (\<lambda>d.
     case find_user user_id d of None \<Rightarrow> False | Some r \<Rightarrow> u_is_owner r)"

section \<open>Invites\<close>

definition sq_create_invite :: "string \<Rightarrow> uuid \<Rightarrow> unit dbact" where
  "sq_create_invite token created_by =
     bnd now_ms (\<lambda>now.
     insert_stmt (\<lambda>d. exists_where (\<lambda>r. in_token r = token) (db_invites d)) (\<lambda>d. True)
       (\<lambda>d. d\<lparr>db_invites := db_invites d @
          [\<lparr>in_token = token, in_created_by = created_by, in_revoked = False,
            in_created_at = now\<rparr>]\<rparr>))"

definition sq_is_invite_valid :: "string \<Rightarrow> bool dbact" where
  "sq_is_invite_valid token = gets (\<lambda>d.
     case List.find (\<lambda>r. in_token r = token) (db_invites d) of
       None \<Rightarrow> False | Some r \<Rightarrow> \<not> in_revoked r)"

definition sq_revoke_invite :: "string \<Rightarrow> unit dbact" where
  "sq_revoke_invite token = modify (\<lambda>d. d\<lparr>db_invites :=
     upd_where (\<lambda>r. in_token r = token) (\<lambda>r. r\<lparr>in_revoked := True\<rparr>) (db_invites d)\<rparr>)"

section \<open>Roles\<close>

definition sq_ensure_default_role :: "uuid \<Rightarrow> string \<Rightarrow> permissions \<Rightarrow> unit dbact" where
  "sq_ensure_default_role role_id name permissions =
     bnd now_ms (\<lambda>now.
     insert_or_ignore (\<lambda>d. exists_where (\<lambda>r. ro_id r = role_id) (db_roles d)) (\<lambda>d. True)
       (\<lambda>d. d\<lparr>db_roles := db_roles d @
          [\<lparr>ro_id = role_id, ro_name = name, ro_permissions = permissions, ro_position = 0,
            ro_is_default = True, ro_color = '''', ro_icon = '''', ro_hoist = False,
            ro_mentionable = False, ro_created_at = now\<rparr>]\<rparr>))"

definition sq_create_role :: "role_write \<Rightarrow> uuid dbact" where
  "sq_create_role w =
     bnd now_v7 (\<lambda>id.
     bnd (gets (\<lambda>d. max_or 0 (map ro_position (db_roles d)))) (\<lambda>max_pos.
     bnd now_ms (\<lambda>now.
     bnd (insert_stmt (\<lambda>d. exists_where (\<lambda>r. ro_id r = id) (db_roles d)) (\<lambda>d. True)
       (\<lambda>d. d\<lparr>db_roles := db_roles d @
          [\<lparr>ro_id = id, ro_name = rw_name w, ro_permissions = rw_permissions w,
            ro_position = max_pos + 1, ro_is_default = False, ro_color = rw_color w,
            ro_icon = rw_icon w, ro_hoist = rw_hoist w, ro_mentionable = rw_mentionable w,
            ro_created_at = now\<rparr>]\<rparr>)) (\<lambda>_.
     ret id))))"

definition role_from_row :: "roles_row \<Rightarrow> role_row" where
  "role_from_row r = \<lparr>rl_id = ro_id r, rl_name = ro_name r, rl_permissions = ro_permissions r,
     rl_position = as_i32 (ro_position r), rl_is_default = ro_is_default r, rl_color = ro_color r,
     rl_icon = ro_icon r, rl_hoist = ro_hoist r, rl_mentionable = ro_mentionable r\<rparr>"

text \<open>\<open>ORDER BY position DESC, name\<close>: sorted by name, then stably by descending position.\<close>

definition sq_list_roles :: "role_row list dbact" where
  "sq_list_roles = gets (\<lambda>d.
     map role_from_row (sort_key (\<lambda>r. - ro_position r) (sort_key ro_name (db_roles d))))"

definition sq_get_role :: "uuid \<Rightarrow> role_row option dbact" where
  "sq_get_role role_id = gets (\<lambda>d. map_option role_from_row (List.find (\<lambda>r. ro_id r = role_id) (db_roles d)))"

definition sq_update_role :: "uuid \<Rightarrow> role_write \<Rightarrow> unit dbact" where
  "sq_update_role role_id w = modify (\<lambda>d. d\<lparr>db_roles :=
     upd_where (\<lambda>r. ro_id r = role_id)
       (\<lambda>r. r\<lparr>ro_name := rw_name w, ro_permissions := rw_permissions w, ro_color := rw_color w,
             ro_icon := rw_icon w, ro_hoist := rw_hoist w, ro_mentionable := rw_mentionable w\<rparr>)
       (db_roles d)\<rparr>)"

definition sq_delete_role :: "uuid \<Rightarrow> unit dbact" where
  "sq_delete_role role_id =
     bnd (modify (\<lambda>d. d\<lparr>db_member_roles := del_where (\<lambda>m. mr_role m = role_id) (db_member_roles d)\<rparr>)) (\<lambda>_.
     modify (\<lambda>d. d\<lparr>db_roles := del_where (\<lambda>r. ro_id r = role_id \<and> \<not> ro_is_default r) (db_roles d)\<rparr>))"

definition sq_reorder_roles :: "uuid list \<Rightarrow> unit dbact" where
  "sq_reorder_roles ids = transaction (for_each
     (\<lambda>(i, id). modify (\<lambda>d. d\<lparr>db_roles :=
        upd_where (\<lambda>r. ro_id r = id \<and> \<not> ro_is_default r)
          (\<lambda>r. r\<lparr>ro_position := int (length ids) - int i\<rparr>) (db_roles d)\<rparr>))
     (List.enumerate 0 ids))"

definition sq_assign_role :: "uuid \<Rightarrow> uuid \<Rightarrow> unit dbact" where
  "sq_assign_role user_id role_id =
     insert_or_ignore
       (\<lambda>d. exists_where (\<lambda>m. mr_user m = user_id \<and> mr_role m = role_id) (db_member_roles d)) (\<lambda>d. True)
       (\<lambda>d. d\<lparr>db_member_roles := db_member_roles d @ [\<lparr>mr_user = user_id, mr_role = role_id\<rparr>]\<rparr>)"

definition sq_unassign_role :: "uuid \<Rightarrow> uuid \<Rightarrow> unit dbact" where
  "sq_unassign_role user_id role_id = modify (\<lambda>d. d\<lparr>db_member_roles :=
     del_where (\<lambda>m. mr_user m = user_id \<and> mr_role m = role_id) (db_member_roles d)\<rparr>)"

definition assigned_roles :: "uuid \<Rightarrow> db \<Rightarrow> roles_row list" where
  "assigned_roles user_id d =
     [r. r \<leftarrow> db_roles d, m \<leftarrow> db_member_roles d, mr_role m = ro_id r \<and> mr_user m = user_id]"

text \<open>
  The statement selects five columns, and \<open>role_from_row\<close> then reads \<open>color\<close>, which is not among
  them: \<open>Row::get\<close> panics on an unknown column, so any row at all aborts the handler.
\<close>

definition sq_roles_for_user :: "uuid \<Rightarrow> role_row list dbact" where
  "sq_roles_for_user user_id =
     bnd (gets (assigned_roles user_id)) (\<lambda>rows.
     if rows = [] then ret [] else fail (Panicked ''no column found for name: color''))"

definition sq_highest_role_position :: "uuid \<Rightarrow> int dbact" where
  "sq_highest_role_position user_id =
     gets (\<lambda>d. as_i32 (max_or 0 (map ro_position (assigned_roles user_id d))))"

unbundle bit_operations_syntax

definition member_bits :: "uuid \<Rightarrow> db \<Rightarrow> permissions" where
  "member_bits user_id d =
     foldl (\<lambda>acc r. acc OR ro_permissions r) 0
       (filter (\<lambda>r. ro_is_default r \<or>
          exists_where (\<lambda>m. mr_role m = ro_id r \<and> mr_user m = user_id) (db_member_roles d))
          (db_roles d))"

definition sq_member_permissions :: "uuid \<Rightarrow> permissions dbact" where
  "sq_member_permissions user_id = gets (member_bits user_id)"

section \<open>Key backups and vault blobs\<close>

definition sq_upsert_backup :: "uuid \<Rightarrow> bytes \<Rightarrow> bytes \<Rightarrow> bytes \<Rightarrow> int \<Rightarrow> unit dbact" where
  "sq_upsert_backup user_id blob salt params version =
     bnd now_ms (\<lambda>now.
     upsert_stmt (\<lambda>d. exists_where (\<lambda>r. kb_user r = user_id) (db_backups d)) (\<lambda>d. False) (\<lambda>d. True)
       (\<lambda>d. d\<lparr>db_backups := db_backups d @
          [\<lparr>kb_user = user_id, kb_blob = blob, kb_salt = salt, kb_params = params,
            kb_version = version, kb_updated_at = now\<rparr>]\<rparr>)
       (\<lambda>d. d\<lparr>db_backups := upd_where (\<lambda>r. kb_user r = user_id)
          (\<lambda>r. r\<lparr>kb_blob := blob, kb_salt := salt, kb_params := params, kb_version := version,
                kb_updated_at := now\<rparr>) (db_backups d)\<rparr>))"

definition sq_get_backup :: "uuid \<Rightarrow> backup_row option dbact" where
  "sq_get_backup user_id = gets (\<lambda>d.
     map_option (\<lambda>r. \<lparr>bk_encrypted_blob = kb_blob r, bk_salt = kb_salt r,
         bk_argon2_params = kb_params r, bk_version = as_i32 (kb_version r)\<rparr>)
       (List.find (\<lambda>r. kb_user r = user_id) (db_backups d)))"

definition sq_delete_backup :: "uuid \<Rightarrow> unit dbact" where
  "sq_delete_backup user_id = modify (\<lambda>d. d\<lparr>db_backups :=
     del_where (\<lambda>r. kb_user r = user_id) (db_backups d)\<rparr>)"

definition sq_put_vault_blob :: "uuid \<Rightarrow> string \<Rightarrow> bytes \<Rightarrow> unit dbact" where
  "sq_put_vault_blob user_id name blob =
     bnd now_ms (\<lambda>now.
     upsert_stmt (\<lambda>d. exists_where (\<lambda>r. vb_user r = user_id \<and> vb_name r = name) (db_vault d)) (\<lambda>d. False) (\<lambda>d. True)
       (\<lambda>d. d\<lparr>db_vault := db_vault d @
          [\<lparr>vb_user = user_id, vb_name = name, vb_blob = blob, vb_updated_at = now\<rparr>]\<rparr>)
       (\<lambda>d. d\<lparr>db_vault := upd_where (\<lambda>r. vb_user r = user_id \<and> vb_name r = name)
          (\<lambda>r. r\<lparr>vb_blob := blob, vb_updated_at := now\<rparr>) (db_vault d)\<rparr>))"

definition sq_get_vault_blob :: "uuid \<Rightarrow> string \<Rightarrow> bytes option dbact" where
  "sq_get_vault_blob user_id name = gets (\<lambda>d.
     map_option vb_blob (List.find (\<lambda>r. vb_user r = user_id \<and> vb_name r = name) (db_vault d)))"

text \<open>
  SQLite's \<open>LIKE ... ESCAPE '\'\<close>: \<open>%\<close> matches any run, \<open>_\<close> one character, the escape makes the
  next character literal, and literals compare without regard to ASCII case.  A pattern that ends
  in the escape matches nothing.
\<close>

datatype like_token = AnyRun | AnyOne | Lit char | Never

fun like_tokens :: "string \<Rightarrow> like_token list" where
  "like_tokens [] = []"
| "like_tokens (c # cs) =
     (if c = CHR ''%'' then AnyRun # like_tokens cs
      else if c = CHR ''_'' then AnyOne # like_tokens cs
      else if c = CHR 0x5C then (case cs of [] \<Rightarrow> [Never] | e # es \<Rightarrow> Lit e # like_tokens es)
      else Lit c # like_tokens cs)"

fun like_match :: "like_token list \<Rightarrow> string \<Rightarrow> bool" where
  "like_match [] s = (s = [])"
| "like_match (AnyRun # ts) [] = like_match ts []"
| "like_match (AnyRun # ts) (c # s) = (like_match ts (c # s) \<or> like_match (AnyRun # ts) s)"
| "like_match (AnyOne # ts) [] = False"
| "like_match (AnyOne # ts) (c # s) = like_match ts s"
| "like_match (Lit l # ts) [] = False"
| "like_match (Lit l # ts) (c # s) = (lower_char l = lower_char c \<and> like_match ts s)"
| "like_match (Never # ts) s = False"

definition replace_char :: "char \<Rightarrow> string \<Rightarrow> string \<Rightarrow> string" where
  "replace_char c by s = concat (map (\<lambda>x. if x = c then by else [x]) s)"

definition vault_pattern :: "string \<Rightarrow> string" where
  "vault_pattern prefix =
     replace_char CHR ''_'' [CHR 0x5C, CHR ''_''] (replace_char CHR ''%'' [CHR 0x5C, CHR ''%''] prefix)
       @ ''%''"

definition sq_list_vault_blobs :: "uuid \<Rightarrow> string \<Rightarrow> string list dbact" where
  "sq_list_vault_blobs user_id prefix = gets (\<lambda>d.
     map vb_name (sort_key vb_name (filter
       (\<lambda>r. vb_user r = user_id \<and> like_match (like_tokens (vault_pattern prefix)) (vb_name r))
       (db_vault d))))"

definition sq_delete_vault_blob :: "uuid \<Rightarrow> string \<Rightarrow> unit dbact" where
  "sq_delete_vault_blob user_id name = modify (\<lambda>d. d\<lparr>db_vault :=
     del_where (\<lambda>r. vb_user r = user_id \<and> vb_name r = name) (db_vault d)\<rparr>)"

section \<open>Devices and refresh tokens\<close>

definition sq_create_device :: "uuid \<Rightarrow> string \<Rightarrow> uuid dbact" where
  "sq_create_device user_id name =
     bnd now_v7 (\<lambda>id.
     bnd now_ms (\<lambda>now.
     bnd (insert_stmt (has_device id) (has_user user_id)
       (\<lambda>d. d\<lparr>db_devices := db_devices d @
          [\<lparr>d_id = id, d_user = user_id, d_name = name, d_created_at = now, d_revoked_at = None,
            d_mls_credential = None\<rparr>]\<rparr>)) (\<lambda>_.
     ret id)))"

definition sq_find_device :: "uuid \<Rightarrow> string \<Rightarrow> uuid option dbact" where
  "sq_find_device user_id name = gets (\<lambda>d.
     case order_desc d_id
       (filter (\<lambda>r. d_user r = user_id \<and> d_name r = name \<and> d_revoked_at r = None) (db_devices d)) of
       [] \<Rightarrow> None | r # _ \<Rightarrow> Some (d_id r))"

definition sq_revoke_device :: "uuid \<Rightarrow> uuid \<Rightarrow> unit dbact" where
  "sq_revoke_device user_id device_id =
     bnd now_ms (\<lambda>now.
     modify (\<lambda>d. d\<lparr>db_devices :=
       upd_where (\<lambda>r. d_id r = device_id \<and> d_user r = user_id \<and> d_revoked_at r = None)
         (\<lambda>r. r\<lparr>d_revoked_at := Some now\<rparr>) (db_devices d)\<rparr>))"

definition sq_set_device_credential :: "uuid \<Rightarrow> bytes \<Rightarrow> unit dbact" where
  "sq_set_device_credential device_id credential = modify (\<lambda>d. d\<lparr>db_devices :=
     upd_where (\<lambda>r. d_id r = device_id) (\<lambda>r. r\<lparr>d_mls_credential := Some credential\<rparr>) (db_devices d)\<rparr>)"

definition sq_store_refresh_token :: "string \<Rightarrow> uuid \<Rightarrow> uuid \<Rightarrow> int \<Rightarrow> unit dbact" where
  "sq_store_refresh_token token user_id device_id expires_at =
     bnd now_ms (\<lambda>now.
     insert_stmt (\<lambda>d. exists_where (\<lambda>r. rt_token r = token) (db_refresh d))
       (\<lambda>d. has_user user_id d \<and> has_device device_id d)
       (\<lambda>d. d\<lparr>db_refresh := db_refresh d @
          [\<lparr>rt_token = token, rt_user = user_id, rt_device = device_id, rt_expires_at = expires_at,
            rt_created_at = now\<rparr>]\<rparr>))"

definition sq_lookup_refresh_token :: "string \<Rightarrow> refresh_row option dbact" where
  "sq_lookup_refresh_token token = gets (\<lambda>d.
     map_option (\<lambda>r. \<lparr>rr_user_id = rt_user r, rr_device_id = rt_device r,
         rr_expires_at = rt_expires_at r\<rparr>)
       (List.find (\<lambda>r. rt_token r = token) (db_refresh d)))"

definition sq_delete_refresh_token :: "string \<Rightarrow> unit dbact" where
  "sq_delete_refresh_token token = modify (\<lambda>d. d\<lparr>db_refresh :=
     del_where (\<lambda>r. rt_token r = token) (db_refresh d)\<rparr>)"

end
