(* ===== verification/Authz.thy ===== *)
theory Authz
  imports Store_Accounts
begin

text \<open>
  \<open>crates/accord-server/src/authz.rs\<close>: effective permissions, rank and the checks the services call
  before a privileged action.
\<close>

definition effective :: "uuid \<Rightarrow> permissions dbact" where
  "effective user_id =
     bnd (sq_is_owner user_id) (\<lambda>o'. if o' then ret perms_all else
     bnd (sq_is_user_guest user_id) (\<lambda>g. if g then ret 0 else
     sq_member_permissions user_id))"

definition require :: "uuid \<Rightarrow> permissions \<Rightarrow> unit dbact" where
  "require user_id perm =
     bnd (effective user_id) (\<lambda>e. if allows e perm then ret () else fail PermissionDenied)"

definition rank :: "uuid \<Rightarrow> int dbact" where
  "rank user_id =
     bnd (sq_is_owner user_id) (\<lambda>o'. if o' then ret i32_max else sq_highest_role_position user_id)"

definition can_act_on :: "uuid \<Rightarrow> uuid \<Rightarrow> bool dbact" where
  "can_act_on actor target =
     (if actor = target then ret True else
      bnd (sq_is_owner target) (\<lambda>o'. if o' then ret False else
      bnd (rank actor) (\<lambda>a.
      bnd (rank target) (\<lambda>t.
      ret (a > t)))))"

definition require_outranks :: "uuid \<Rightarrow> uuid \<Rightarrow> unit dbact" where
  "require_outranks actor target =
     bnd (can_act_on actor target) (\<lambda>b. if b then ret () else fail PermissionDenied)"

definition require_role_below :: "uuid \<Rightarrow> int \<Rightarrow> unit dbact" where
  "require_role_below actor role_position =
     bnd (rank actor) (\<lambda>r. if r > role_position then ret () else fail PermissionDenied)"

section \<open>Pure views of the checks\<close>

text \<open>The checks only read the database; these are their results as functions of it.\<close>

definition owner_of :: "db \<Rightarrow> uuid \<Rightarrow> bool" where
  "owner_of d u = (case find_user u d of None \<Rightarrow> False | Some r \<Rightarrow> u_is_owner r)"

definition guest_of :: "db \<Rightarrow> uuid \<Rightarrow> bool" where
  "guest_of d u = (case find_user u d of None \<Rightarrow> False | Some r \<Rightarrow> u_is_guest r)"

definition perms_of :: "db \<Rightarrow> uuid \<Rightarrow> permissions" where
  "perms_of d u = (if owner_of d u then perms_all else if guest_of d u then 0 else member_bits u d)"

definition rank_of :: "db \<Rightarrow> uuid \<Rightarrow> int" where
  "rank_of d u = (if owner_of d u then i32_max
     else as_i32 (max_or 0 (map ro_position (assigned_roles u d))))"

definition acts_on :: "db \<Rightarrow> uuid \<Rightarrow> uuid \<Rightarrow> bool" where
  "acts_on d a t \<longleftrightarrow> a = t \<or> \<not> owner_of d t \<and> rank_of d t < rank_of d a"

lemma is_owner_eq: "sq_is_owner u = gets (\<lambda>d. owner_of d u)"
  by (simp add: sq_is_owner_def owner_of_def)

lemma is_user_guest_eq: "sq_is_user_guest u = gets (\<lambda>d. guest_of d u)"
  by (simp add: sq_is_user_guest_def guest_of_def)

lemma effective_eq: "effective u = gets (\<lambda>d. perms_of d u)"
  by (simp add: effective_def is_owner_eq is_user_guest_eq sq_member_permissions_def perms_of_def
      act_defs fun_eq_iff)

lemma require_eq: "require u p = (\<lambda>d. (if allows (perms_of d u) p then Inr () else Inl PermissionDenied, d))"
  by (simp add: require_def effective_eq act_defs fun_eq_iff)

lemma rank_eq: "rank u = gets (\<lambda>d. rank_of d u)"
  by (simp add: rank_def is_owner_eq sq_highest_role_position_def rank_of_def act_defs fun_eq_iff)

lemma can_act_on_eq: "can_act_on a t = gets (\<lambda>d. acts_on d a t)"
  by (simp add: can_act_on_def is_owner_eq rank_eq acts_on_def act_defs fun_eq_iff)

lemma require_outranks_eq:
  "require_outranks a t = (\<lambda>d. (if acts_on d a t then Inr () else Inl PermissionDenied, d))"
  by (simp add: require_outranks_def can_act_on_eq act_defs fun_eq_iff)

lemma require_role_below_eq:
  "require_role_below a p = (\<lambda>d. (if p < rank_of d a then Inr () else Inl PermissionDenied, d))"
  by (simp add: require_role_below_def rank_eq act_defs fun_eq_iff)

lemma wp_require [wp_simps]:
  "wp (require u p) Q X = (\<lambda>d. if allows (perms_of d u) p then Q () d else X PermissionDenied d)"
  by (simp add: wp_def require_eq fun_eq_iff)

lemma wp_require_outranks [wp_simps]:
  "wp (require_outranks a t) Q X = (\<lambda>d. if acts_on d a t then Q () d else X PermissionDenied d)"
  by (simp add: wp_def require_outranks_eq fun_eq_iff)

lemma wp_require_role_below [wp_simps]:
  "wp (require_role_below a p) Q X = (\<lambda>d. if p < rank_of d a then Q () d else X PermissionDenied d)"
  by (simp add: wp_def require_role_below_eq fun_eq_iff)

lemma require_ok [ok_simps]: "require u p d = (Inr y, t) \<longleftrightarrow> allows (perms_of d u) p \<and> t = d"
  by (auto simp: require_eq)

lemma require_outranks_ok [ok_simps]: "require_outranks a v d = (Inr y, t) \<longleftrightarrow> acts_on d a v \<and> t = d"
  by (auto simp: require_outranks_eq)

lemma require_role_below_ok [ok_simps]:
  "require_role_below a p d = (Inr y, t) \<longleftrightarrow> p < rank_of d a \<and> t = d"
  by (auto simp: require_role_below_eq)

section \<open>The hierarchy contract\<close>

text \<open>
  What a moderation rule owes its callers, whatever the ranks are: acting on oneself is always
  allowed, nobody acts on a top user, and otherwise the rank decides strictly.  It follows that the
  relation is a strict partial order between different users.
\<close>

locale hierarchy =
  fixes acts :: "'u \<Rightarrow> 'u \<Rightarrow> bool" and rk :: "'u \<Rightarrow> int" and top :: "'u \<Rightarrow> bool"
  assumes acts_self: "acts u u"
    and acts_other: "u \<noteq> v \<Longrightarrow> acts u v \<longleftrightarrow> \<not> top v \<and> rk v < rk u"
begin

lemma top_untouchable: "top v \<Longrightarrow> acts u v \<longleftrightarrow> u = v"
  using acts_self acts_other by metis

lemma acts_asym: "u \<noteq> v \<Longrightarrow> acts u v \<Longrightarrow> \<not> acts v u"
  by (simp add: acts_other)

lemma acts_trans: "acts u v \<Longrightarrow> acts v w \<Longrightarrow> acts u w"
  using acts_self acts_other by (metis less_trans)

lemma acts_acyclic: "acyclic {(u, v). u \<noteq> v \<and> acts u v}"
proof -
  have "rk v < rk u" if "(u, v) \<in> {(u, v). u \<noteq> v \<and> acts u v}\<^sup>+" for u v
    using that by (induction rule: trancl_induct) (auto simp: acts_other)
  then show ?thesis by (force simp: acyclic_def)
qed

end

interpretation authz: hierarchy "acts_on d" "rank_of d" "owner_of d" for d
  by unfold_locales (auto simp: acts_on_def)

section \<open>Properties\<close>

lemma bit_foldl_or:
  "bit (foldl (\<lambda>acc r. or acc (f r)) (z :: 'a :: len word) rs) n \<longleftrightarrow> bit z n \<or> (\<exists>r \<in> set rs. bit (f r) n)"
  by (induction rs arbitrary: z) (auto simp: bit_or_iff)

lemma bit_member_bits:
  "bit (member_bits u d) n \<longleftrightarrow> (\<exists>r \<in> set (db_roles d). bit (ro_permissions r) n \<and>
     (ro_is_default r \<or> (\<exists>m \<in> set (db_member_roles d). mr_role m = ro_id r \<and> mr_user m = u)))"
  by (auto simp: member_bits_def bit_foldl_or)




end
