(* ===== verification/Store_Groups.thy ===== *)
theory Store_Groups
  imports Store_Schema
begin

text \<open>
  \<open>store/sqlite.rs\<close>, second part: groups and their members, categories, the tavern row, bans, the
  audit log and the devices of administrators.
\<close>

section \<open>Groups and members\<close>

definition sq_create_public_group :: "string \<Rightarrow> string \<Rightarrow> string \<Rightarrow> string \<Rightarrow> uuid dbact" where
  "sq_create_public_group name description channel_kind category_id =
     bnd now_v7 (\<lambda>id.
     bnd (gets (\<lambda>d. max_or (- 1)
       (map g_position (filter (\<lambda>g. g_category g = category_id) (db_groups d))))) (\<lambda>max_pos.
     bnd now_ms (\<lambda>now.
     bnd (insert_stmt (has_group id) (\<lambda>d. True)
       (\<lambda>d. d\<lparr>db_groups := db_groups d @
          [\<lparr>g_id = id, g_name = name, g_description = description, g_kind = ''public'',
            g_channel_kind = channel_kind, g_category = category_id, g_position = max_pos + 1,
            g_created_at = now\<rparr>]\<rparr>)) (\<lambda>_.
     ret id))))"

definition sq_create_private_group_with_id :: "ext \<Rightarrow> uuid \<Rightarrow> string \<Rightarrow> unit dbact" where
  "sq_create_private_group_with_id E gid name =
     bnd now_ms (\<lambda>now.
     map_err (\<lambda>x. if x = Database UniqueViolation then AlreadyExists (''group '' @ to_str E gid) else x)
       (insert_stmt (has_group gid) (\<lambda>d. True)
         (\<lambda>d. d\<lparr>db_groups := db_groups d @
            [\<lparr>g_id = gid, g_name = name, g_description = '''', g_kind = ''private'',
              g_channel_kind = ''text'', g_category = '''', g_position = 0,
              g_created_at = now\<rparr>]\<rparr>)))"

definition sq_add_member :: "uuid \<Rightarrow> uuid \<Rightarrow> string \<Rightarrow> unit dbact" where
  "sq_add_member group_id user_id role =
     bnd now_ms (\<lambda>now.
     insert_or_ignore
       (\<lambda>d. exists_where (\<lambda>m. gm_group m = group_id \<and> gm_user m = user_id) (db_members d))
       (\<lambda>d. has_group group_id d \<and> has_user user_id d)
       (\<lambda>d. d\<lparr>db_members := db_members d @
          [\<lparr>gm_group = group_id, gm_user = user_id, gm_role = role, gm_joined_at = now\<rparr>]\<rparr>))"

definition sq_remove_member :: "uuid \<Rightarrow> uuid \<Rightarrow> unit dbact" where
  "sq_remove_member group_id user_id = modify (\<lambda>d. d\<lparr>db_members :=
     del_where (\<lambda>m. gm_group m = group_id \<and> gm_user m = user_id) (db_members d)\<rparr>)"

definition sq_delete_group :: "uuid \<Rightarrow> unit dbact" where
  "sq_delete_group group_id =
     bnd (modify (\<lambda>d. d\<lparr>db_members := del_where (\<lambda>m. gm_group m = group_id) (db_members d)\<rparr>)) (\<lambda>_.
     bnd (modify (\<lambda>d. d\<lparr>db_public := del_where (\<lambda>m. pm_group m = group_id) (db_public d)\<rparr>)) (\<lambda>_.
     bnd (modify (\<lambda>d. d\<lparr>db_private := del_where (\<lambda>m. vm_group m = group_id) (db_private d)\<rparr>)) (\<lambda>_.
     modify (\<lambda>d. d\<lparr>db_groups := del_where (\<lambda>g. g_id g = group_id) (db_groups d)\<rparr>))))"

definition is_member_of :: "uuid \<Rightarrow> uuid \<Rightarrow> db \<Rightarrow> bool" where
  "is_member_of group_id user_id d =
     exists_where (\<lambda>m. gm_group m = group_id \<and> gm_user m = user_id) (db_members d)"

definition sq_is_member :: "uuid \<Rightarrow> uuid \<Rightarrow> bool dbact" where
  "sq_is_member group_id user_id = gets (is_member_of group_id user_id)"

definition sq_group_ids_for_user :: "uuid \<Rightarrow> uuid list dbact" where
  "sq_group_ids_for_user user_id =
     gets (\<lambda>d. map gm_group (filter (\<lambda>m. gm_user m = user_id) (db_members d)))"

definition to_group_summary :: "db \<Rightarrow> groups_row \<Rightarrow> group_summary_row" where
  "to_group_summary d g = \<lparr>gs_id = g_id g, gs_name = g_name g, gs_description = g_description g,
     gs_kind = g_kind g, gs_channel_kind = g_channel_kind g,
     gs_member_count = int (length (filter (\<lambda>m. gm_group m = g_id g) (db_members d))),
     gs_category_id = g_category g, gs_position = as_i32 (g_position g)\<rparr>"

definition sq_list_groups_for_user :: "uuid \<Rightarrow> group_summary_row list dbact" where
  "sq_list_groups_for_user user_id = gets (\<lambda>d.
     map (to_group_summary d) (sort_key g_position (sort_key g_name
       [g. g \<leftarrow> db_groups d, m \<leftarrow> db_members d, gm_group m = g_id g \<and> gm_user m = user_id])))"

definition sq_get_group :: "ext \<Rightarrow> uuid \<Rightarrow> group_summary_row dbact" where
  "sq_get_group E group_id =
     bnd (gets (\<lambda>d. map_option (to_group_summary d) (List.find (\<lambda>g. g_id g = group_id) (db_groups d))))
       (some_or (NotFound (''group '' @ to_str E group_id)))"

section \<open>Categories\<close>

definition insert_category :: "uuid \<Rightarrow> string \<Rightarrow> int \<Rightarrow> int \<Rightarrow> unit dbact" where
  "insert_category cid name pos now =
     insert_stmt (\<lambda>d. exists_where (\<lambda>c. ca_id c = cid) (db_categories d)) (\<lambda>d. True)
       (\<lambda>d. d\<lparr>db_categories := db_categories d @
          [\<lparr>ca_id = cid, ca_name = name, ca_position = pos, ca_created_at = now\<rparr>]\<rparr>)"

definition sq_ensure_default_categories :: "ext \<Rightarrow> unit dbact" where
  "sq_ensure_default_categories E =
     bnd (gets (\<lambda>d. length (db_categories d))) (\<lambda>count.
     if count > 0 then ret () else
     bnd now_v7 (\<lambda>text_id.
     bnd now_v7 (\<lambda>voice_id.
     bnd now_ms (\<lambda>now.
     bnd (for_each (\<lambda>(cid, name, pos). insert_category cid name pos now)
       [(text_id, ''Text Channels'', 0), (voice_id, ''Voice Channels'', 1)]) (\<lambda>_.
     bnd (modify (\<lambda>d. d\<lparr>db_groups :=
       upd_where (\<lambda>g. g_kind g = ''public'' \<and> g_channel_kind g = ''voice'' \<and> g_category g = '''')
         (\<lambda>g. g\<lparr>g_category := to_str E voice_id\<rparr>) (db_groups d)\<rparr>)) (\<lambda>_.
     modify (\<lambda>d. d\<lparr>db_groups :=
       upd_where (\<lambda>g. g_kind g = ''public'' \<and> g_channel_kind g \<noteq> ''voice'' \<and> g_category g = '''')
         (\<lambda>g. g\<lparr>g_category := to_str E text_id\<rparr>) (db_groups d)\<rparr>)))))))"

definition to_category_row :: "categories_row \<Rightarrow> category_row" where
  "to_category_row c = \<lparr>cr_id = ca_id c, cr_name = ca_name c, cr_position = as_i32 (ca_position c)\<rparr>"

definition sq_list_categories :: "category_row list dbact" where
  "sq_list_categories = gets (\<lambda>d.
     map to_category_row (sort_key ca_position (sort_key ca_name (db_categories d))))"

definition sq_create_category :: "string \<Rightarrow> uuid dbact" where
  "sq_create_category name =
     bnd now_v7 (\<lambda>id.
     bnd (gets (\<lambda>d. max_or (- 1) (map ca_position (db_categories d)))) (\<lambda>max_pos.
     bnd now_ms (\<lambda>now.
     bnd (insert_category id name (max_pos + 1) now) (\<lambda>_.
     ret id))))"

definition sq_delete_category :: "ext \<Rightarrow> uuid \<Rightarrow> unit dbact" where
  "sq_delete_category E cid =
     bnd (modify (\<lambda>d. d\<lparr>db_groups :=
       upd_where (\<lambda>g. g_category g = to_str E cid) (\<lambda>g. g\<lparr>g_category := ''''\<rparr>) (db_groups d)\<rparr>)) (\<lambda>_.
     modify (\<lambda>d. d\<lparr>db_categories := del_where (\<lambda>c. ca_id c = cid) (db_categories d)\<rparr>))"

definition sq_reorder_categories :: "uuid list \<Rightarrow> unit dbact" where
  "sq_reorder_categories ordered = transaction (for_each
     (\<lambda>(i, cid). modify (\<lambda>d. d\<lparr>db_categories :=
        upd_where (\<lambda>c. ca_id c = cid) (\<lambda>c. c\<lparr>ca_position := int i\<rparr>) (db_categories d)\<rparr>))
     (List.enumerate 0 ordered))"

definition sq_reorder_channels :: "string \<Rightarrow> uuid list \<Rightarrow> unit dbact" where
  "sq_reorder_channels category_id ordered = transaction (for_each
     (\<lambda>(i, gid). modify (\<lambda>d. d\<lparr>db_groups :=
        upd_where (\<lambda>g. g_id g = gid)
          (\<lambda>g. g\<lparr>g_category := category_id, g_position := int i\<rparr>) (db_groups d)\<rparr>))
     (List.enumerate 0 ordered))"

section \<open>Member and device lists\<close>

definition sq_member_ids :: "uuid \<Rightarrow> uuid list dbact" where
  "sq_member_ids group_id =
     gets (\<lambda>d. map gm_user (filter (\<lambda>m. gm_group m = group_id) (db_members d)))"

definition sq_device_ids_for_group :: "uuid \<Rightarrow> uuid list dbact" where
  "sq_device_ids_for_group group_id = gets (\<lambda>d.
     [d_id v. v \<leftarrow> db_devices d, m \<leftarrow> db_members d,
        gm_user m = d_user v \<and> gm_group m = group_id \<and> d_revoked_at v = None])"

definition sq_device_ids_for_user :: "uuid \<Rightarrow> uuid list dbact" where
  "sq_device_ids_for_user user_id = gets (\<lambda>d.
     map d_id (filter (\<lambda>v. d_user v = user_id \<and> d_revoked_at v = None) (db_devices d)))"

definition sq_list_members :: "uuid \<Rightarrow> member_row list dbact" where
  "sq_list_members group_id = gets (\<lambda>d.
     map (\<lambda>u. \<lparr>mb_user_id = u_id u, mb_username = u_username u, mb_display_name = u_display_name u,
          mb_is_owner = u_is_owner u, mb_avatar_url = u_avatar_url u\<rparr>)
       (sort_key u_display_name
         [u. u \<leftarrow> db_users d, m \<leftarrow> db_members d, gm_user m = u_id u \<and> gm_group m = group_id]))"

section \<open>Tavern identity\<close>

definition sq_ensure_tavern :: "uuid \<Rightarrow> unit dbact" where
  "sq_ensure_tavern tid =
     insert_or_ignore (\<lambda>d. exists_where (\<lambda>t. ti_id t = tid) (db_tavern d)) (\<lambda>d. True)
       (\<lambda>d. d\<lparr>db_tavern := db_tavern d @
          [\<lparr>ti_id = tid, ti_name = '''', ti_icon_url = '''', ti_description = '''',
            ti_linking = False, ti_banner_url = ''''\<rparr>]\<rparr>)"

definition sq_get_tavern :: "tavern_row dbact" where
  "sq_get_tavern = gets (\<lambda>d. case db_tavern d of
       [] \<Rightarrow> \<lparr>tr_name = '''', tr_icon_url = '''', tr_description = '''', tr_linking_enabled = False,
              tr_banner_url = ''''\<rparr>
     | t # _ \<Rightarrow> \<lparr>tr_name = ti_name t, tr_icon_url = ti_icon_url t, tr_description = ti_description t,
              tr_linking_enabled = ti_linking t, tr_banner_url = ti_banner_url t\<rparr>)"

definition sq_upsert_tavern :: "uuid \<Rightarrow> string \<Rightarrow> string \<Rightarrow> string \<Rightarrow> string \<Rightarrow> unit dbact" where
  "sq_upsert_tavern tid name icon_url description banner_url =
     upsert_stmt (\<lambda>d. exists_where (\<lambda>t. ti_id t = tid) (db_tavern d)) (\<lambda>d. False) (\<lambda>d. True)
       (\<lambda>d. d\<lparr>db_tavern := db_tavern d @
          [\<lparr>ti_id = tid, ti_name = name, ti_icon_url = icon_url, ti_description = description,
            ti_linking = False, ti_banner_url = banner_url\<rparr>]\<rparr>)
       (\<lambda>d. d\<lparr>db_tavern := upd_where (\<lambda>t. ti_id t = tid)
          (\<lambda>t. t\<lparr>ti_name := name, ti_icon_url := icon_url, ti_description := description,
                ti_banner_url := banner_url\<rparr>) (db_tavern d)\<rparr>)"

section \<open>Bans and the audit log\<close>

definition sq_ban_user :: "uuid \<Rightarrow> uuid \<Rightarrow> string \<Rightarrow> unit dbact" where
  "sq_ban_user user_id banned_by reason =
     bnd now_ms (\<lambda>now.
     upsert_stmt (\<lambda>d. exists_where (\<lambda>b. bn_user b = user_id) (db_bans d)) (\<lambda>d. False) (\<lambda>d. True)
       (\<lambda>d. d\<lparr>db_bans := db_bans d @
          [\<lparr>bn_user = user_id, bn_by = banned_by, bn_reason = reason, bn_created_at = now\<rparr>]\<rparr>)
       (\<lambda>d. d\<lparr>db_bans := upd_where (\<lambda>b. bn_user b = user_id)
          (\<lambda>b. b\<lparr>bn_by := banned_by, bn_reason := reason\<rparr>) (db_bans d)\<rparr>))"

definition sq_unban_user :: "uuid \<Rightarrow> unit dbact" where
  "sq_unban_user user_id = modify (\<lambda>d. d\<lparr>db_bans :=
     del_where (\<lambda>b. bn_user b = user_id) (db_bans d)\<rparr>)"

definition banned :: "uuid \<Rightarrow> db \<Rightarrow> bool" where
  "banned user_id d = exists_where (\<lambda>b. bn_user b = user_id) (db_bans d)"

definition sq_is_banned :: "uuid \<Rightarrow> bool dbact" where
  "sq_is_banned user_id = gets (banned user_id)"

definition sq_list_bans :: "ban_row list dbact" where
  "sq_list_bans = gets (\<lambda>d.
     map (\<lambda>b. \<lparr>br_user_id = bn_user b, br_reason = bn_reason b, br_banned_by = bn_by b,
          br_created_at_ms = bn_created_at b\<rparr>)
       (order_desc bn_created_at (db_bans d)))"

definition sq_record_audit :: "uuid \<Rightarrow> string \<Rightarrow> string \<Rightarrow> string \<Rightarrow> string \<Rightarrow> unit dbact" where
  "sq_record_audit actor_id action target verdict reason =
     bnd now_v7 (\<lambda>id.
     bnd now_ms (\<lambda>now.
     insert_stmt (\<lambda>d. exists_where (\<lambda>a. al_id a = id) (db_audit d)) (\<lambda>d. True)
       (\<lambda>d. d\<lparr>db_audit := db_audit d @
          [\<lparr>al_id = id, al_actor = actor_id, al_action = action, al_target = target,
            al_verdict = verdict, al_reason = reason, al_created_at = now\<rparr>]\<rparr>)))"

definition sq_list_audit :: "int \<Rightarrow> audit_row list dbact" where
  "sq_list_audit limit = gets (\<lambda>d.
     map (\<lambda>a. \<lparr>ar_actor_id = al_actor a, ar_action = al_action a, ar_target = al_target a,
          ar_verdict = al_verdict a, ar_reason = al_reason a, ar_created_at_ms = al_created_at a\<rparr>)
       (sql_limit limit (order_desc al_created_at (db_audit d))))"

unbundle bit_operations_syntax

definition sq_admin_device_ids :: "permissions \<Rightarrow> uuid list dbact" where
  "sq_admin_device_ids perm_mask = gets (\<lambda>d.
     remdups (map d_id (filter
       (\<lambda>v. d_revoked_at v = None \<and>
          ((case find_user (d_user v) d of None \<Rightarrow> False | Some u \<Rightarrow> u_is_owner u) \<or>
           exists_where (\<lambda>m. mr_user m = d_user v \<and>
             exists_where (\<lambda>r. ro_id r = mr_role m \<and> ro_permissions r AND perm_mask \<noteq> 0) (db_roles d))
             (db_member_roles d)))
       (db_devices d))))"

end
