(* ===== verification/Store_Messages.thy ===== *)
theory Store_Messages
  imports Store_Schema "HOL-Library.Multiset"
begin

text \<open>
  \<open>store/sqlite.rs\<close>, third part: public and private messages, MLS key packages, the offline inbox and
  parked friend requests.
\<close>

section \<open>Messages\<close>

text \<open>
  \<open>seq\<close> is an AUTOINCREMENT key: one more than the larger of the recorded high-water mark and the
  largest stored value, and the mark moves even when the statement takes its \<open>ON CONFLICT\<close> branch.
\<close>

definition next_seq :: "int \<Rightarrow> int list \<Rightarrow> int" where
  "next_seq mark seqs = max mark (max_or 0 seqs) + 1"

definition i64_max :: int where
  "i64_max = 9223372036854775807"

definition sq_insert_public_message :: "uuid \<Rightarrow> uuid \<Rightarrow> string \<Rightarrow> uuid \<Rightarrow> public_message_row dbact" where
  "sq_insert_public_message group_id sender_id content client_message_id =
     bnd now_v7 (\<lambda>id.
     bnd now_ms (\<lambda>now.
     bnd (upsert_stmt
       (\<lambda>d. exists_where (\<lambda>m. pm_group m = group_id \<and> pm_client_id m = client_message_id) (db_public d))
       (\<lambda>d. exists_where (\<lambda>m. pm_id m = id) (db_public d))
       (\<lambda>d. has_group group_id d \<and> has_user sender_id d)
       (\<lambda>d. let n = next_seq (db_pub_seq d) (map pm_seq (db_public d)) in
          d\<lparr>db_pub_seq := n, db_public := db_public d @
            [\<lparr>pm_seq = n, pm_id = id, pm_group = group_id, pm_sender = sender_id, pm_content = content,
              pm_client_id = client_message_id, pm_created_at = now\<rparr>]\<rparr>)
       (\<lambda>d. d\<lparr>db_pub_seq := next_seq (db_pub_seq d) (map pm_seq (db_public d))\<rparr>)) (\<lambda>_.
     bnd (gets (\<lambda>d. List.find (\<lambda>m. pm_group m = group_id \<and> pm_client_id m = client_message_id)
       (db_public d))) (\<lambda>row.
     bnd (some_or (Database RowNotFound) row) (\<lambda>r.
     bnd (gets (find_user sender_id)) (\<lambda>u.
     bnd (some_or (Database RowNotFound) u) (\<lambda>name_row.
     ret \<lparr>pr_id = id, pr_group_id = group_id, pr_sender_id = sender_id,
          pr_sender_display_name = u_display_name name_row, pr_content = content, pr_seq = pm_seq r,
          pr_created_at = pm_created_at r\<rparr>)))))))"

definition sq_fetch_public_history :: "uuid \<Rightarrow> int \<Rightarrow> int \<Rightarrow> public_message_row list dbact" where
  "sq_fetch_public_history group_id before_seq limit = gets (\<lambda>d.
     let upper = (if before_seq \<le> 0 then i64_max else before_seq) in
     map (\<lambda>(m, u). \<lparr>pr_id = pm_id m, pr_group_id = pm_group m, pr_sender_id = pm_sender m,
          pr_sender_display_name = u_display_name u, pr_content = pm_content m, pr_seq = pm_seq m,
          pr_created_at = pm_created_at m\<rparr>)
       (sql_limit limit (order_desc (\<lambda>(m, u). pm_seq m)
         [(m, u). m \<leftarrow> db_public d, u \<leftarrow> db_users d,
            u_id u = pm_sender m \<and> pm_group m = group_id \<and> pm_seq m < upper])))"

definition sq_store_private_message ::
  "uuid \<Rightarrow> uuid \<Rightarrow> uuid \<Rightarrow> bytes \<Rightarrow> 64 word \<Rightarrow> uuid \<Rightarrow> private_message_row dbact" where
  "sq_store_private_message group_id sender_id sender_device_id ciphertext epoch client_message_id =
     bnd now_v7 (\<lambda>id.
     bnd now_ms (\<lambda>now.
     bnd (upsert_stmt
       (\<lambda>d. exists_where (\<lambda>m. vm_group m = group_id \<and> vm_client_id m = client_message_id) (db_private d))
       (\<lambda>d. exists_where (\<lambda>m. vm_id m = id) (db_private d))
       (\<lambda>d. has_group group_id d \<and> has_user sender_id d \<and> has_device sender_device_id d)
       (\<lambda>d. let n = next_seq (db_priv_seq d) (map vm_seq (db_private d)) in
          d\<lparr>db_priv_seq := n, db_private := db_private d @
            [\<lparr>vm_seq = n, vm_id = id, vm_group = group_id, vm_sender = sender_id,
              vm_device = sender_device_id, vm_ciphertext = ciphertext, vm_epoch = epoch,
              vm_client_id = client_message_id, vm_created_at = now\<rparr>]\<rparr>)
       (\<lambda>d. d\<lparr>db_priv_seq := next_seq (db_priv_seq d) (map vm_seq (db_private d))\<rparr>)) (\<lambda>_.
     bnd (gets (\<lambda>d. List.find (\<lambda>m. vm_group m = group_id \<and> vm_client_id m = client_message_id)
       (db_private d))) (\<lambda>row.
     bnd (some_or (Database RowNotFound) row) (\<lambda>r.
     ret \<lparr>vr_id = id, vr_group_id = group_id, vr_sender_id = sender_id,
          vr_sender_device_id = sender_device_id, vr_ciphertext = ciphertext, vr_epoch = epoch,
          vr_seq = vm_seq r, vr_created_at = vm_created_at r\<rparr>)))))"

definition sq_fetch_private_history :: "uuid \<Rightarrow> int \<Rightarrow> int \<Rightarrow> private_message_row list dbact" where
  "sq_fetch_private_history group_id before_seq limit = gets (\<lambda>d.
     let upper = (if before_seq \<le> 0 then i64_max else before_seq) in
     map (\<lambda>m. \<lparr>vr_id = vm_id m, vr_group_id = vm_group m, vr_sender_id = vm_sender m,
          vr_sender_device_id = vm_device m, vr_ciphertext = vm_ciphertext m, vr_epoch = vm_epoch m,
          vr_seq = vm_seq m, vr_created_at = vm_created_at m\<rparr>)
       (sql_limit limit (order_desc vm_seq
         (filter (\<lambda>m. vm_group m = group_id \<and> vm_seq m < upper) (db_private d)))))"

section \<open>Key packages\<close>

definition MAX_UNCONSUMED_KEY_PACKAGES :: int where
  "MAX_UNCONSUMED_KEY_PACKAGES = 30"

definition unconsumed :: "uuid \<Rightarrow> db \<Rightarrow> key_packages_row list" where
  "unconsumed device_id d = filter (\<lambda>k. kp_device k = device_id \<and> \<not> kp_consumed k) (db_packages d)"

definition insert_key_package :: "uuid \<Rightarrow> uuid \<Rightarrow> bytes \<Rightarrow> unit dbact" where
  "insert_key_package user_id device_id pkg =
     bnd now_v7 (\<lambda>id.
     bnd now_ms (\<lambda>now.
     insert_stmt (\<lambda>d. exists_where (\<lambda>k. kp_id k = id) (db_packages d))
       (\<lambda>d. has_user user_id d \<and> has_device device_id d)
       (\<lambda>d. d\<lparr>db_packages := db_packages d @
          [\<lparr>kp_id = id, kp_user = user_id, kp_device = device_id, kp_bytes = pkg,
            kp_consumed = False, kp_created_at = now\<rparr>]\<rparr>)))"

definition trim_key_packages :: "uuid \<Rightarrow> unit dbact" where
  "trim_key_packages device_id = modify (\<lambda>d.
     let keep = map kp_id (sql_limit MAX_UNCONSUMED_KEY_PACKAGES (order_desc kp_id (unconsumed device_id d)))
     in d\<lparr>db_packages := del_where
          (\<lambda>k. kp_device k = device_id \<and> \<not> kp_consumed k \<and> kp_id k \<notin> set keep) (db_packages d)\<rparr>)"

definition sq_store_key_packages :: "uuid \<Rightarrow> uuid \<Rightarrow> bytes list \<Rightarrow> nat dbact" where
  "sq_store_key_packages user_id device_id packages =
     bnd (for_each (insert_key_package user_id device_id) packages) (\<lambda>_.
     bnd (trim_key_packages device_id) (\<lambda>_.
     ret (length packages)))"

definition claim_one :: "uuid \<Rightarrow> claimed_key_package option dbact" where
  "claim_one device_id =
     bnd (gets (\<lambda>d. sort_key kp_created_at (unconsumed device_id d))) (\<lambda>rows.
     case rows of
       [] \<Rightarrow> ret None
     | pr # _ \<Rightarrow>
         bnd (modify (\<lambda>d. d\<lparr>db_packages :=
           upd_where (\<lambda>k. kp_id k = kp_id pr) (\<lambda>k. k\<lparr>kp_consumed := True\<rparr>) (db_packages d)\<rparr>)) (\<lambda>_.
         ret (Some \<lparr>ck_device_id = device_id, ck_key_package = kp_bytes pr\<rparr>)))"

definition sq_claim_key_packages_for_user :: "uuid \<Rightarrow> claimed_key_package list dbact" where
  "sq_claim_key_packages_for_user user_id =
     bnd (gets (\<lambda>d. remdups (map kp_device
       (filter (\<lambda>k. kp_user k = user_id \<and> \<not> kp_consumed k) (db_packages d))))) (\<lambda>devices.
     bnd (map_each claim_one devices) (\<lambda>claimed.
     ret (map the (filter (\<lambda>c. c \<noteq> None) claimed))))"

section \<open>Offline inbox\<close>

definition sq_enqueue_inbox :: "uuid \<Rightarrow> string \<Rightarrow> uuid \<Rightarrow> bytes \<Rightarrow> unit dbact" where
  "sq_enqueue_inbox device_id kind group_id payload =
     bnd now_v7 (\<lambda>id.
     bnd now_ms (\<lambda>now.
     insert_stmt (\<lambda>d. exists_where (\<lambda>i. ib_id i = id) (db_inbox d)) (has_device device_id)
       (\<lambda>d. d\<lparr>db_inbox := db_inbox d @
          [\<lparr>ib_id = id, ib_device = device_id, ib_kind = kind, ib_group = group_id,
            ib_payload = payload, ib_created_at = now\<rparr>]\<rparr>)))"

definition to_inbox_row :: "mls_inbox_row \<Rightarrow> inbox_row" where
  "to_inbox_row i = \<lparr>ir_kind = ib_kind i, ir_group_id = ib_group i, ir_payload = ib_payload i\<rparr>"

definition sq_drain_inbox :: "uuid \<Rightarrow> inbox_row list dbact" where
  "sq_drain_inbox device_id =
     bnd (gets (\<lambda>d. filter (\<lambda>i. ib_device i = device_id) (db_inbox d))) (\<lambda>rows.
     bnd (modify (\<lambda>d. d\<lparr>db_inbox := del_where (\<lambda>i. ib_device i = device_id) (db_inbox d)\<rparr>)) (\<lambda>_.
     ret (map to_inbox_row rows)))"

section \<open>Friend requests\<close>

text \<open>The table's \<open>CHECK (kind IN ('request', 'accept'))\<close> is tested before the unique key.\<close>

definition sq_upsert_friend_request :: "ext \<Rightarrow> uuid \<Rightarrow> bytes \<Rightarrow> string \<Rightarrow> string \<Rightarrow> unit dbact" where
  "sq_upsert_friend_request E recipient sender_identity kind contact_code =
     bnd now_v7 (\<lambda>id.
     bnd now_ms (\<lambda>now.
     bnd (ensure (kind = ''request'' \<or> kind = ''accept'') (Database CheckViolation)) (\<lambda>_.
     upsert_stmt
       (\<lambda>d. exists_where (\<lambda>f. fq_recipient f = recipient \<and> fq_sender f = sender_identity \<and>
              fq_kind f = kind) (db_friends d))
       (\<lambda>d. exists_where (\<lambda>f. fq_id f = to_str E id) (db_friends d))
       (has_user recipient)
       (\<lambda>d. d\<lparr>db_friends := db_friends d @
          [\<lparr>fq_id = to_str E id, fq_recipient = recipient, fq_sender = sender_identity, fq_kind = kind,
            fq_code = contact_code, fq_created_at = now\<rparr>]\<rparr>)
       (\<lambda>d. d\<lparr>db_friends := upd_where
          (\<lambda>f. fq_recipient f = recipient \<and> fq_sender f = sender_identity \<and> fq_kind f = kind)
          (\<lambda>f. f\<lparr>fq_code := contact_code\<rparr>) (db_friends d)\<rparr>))))"

definition sq_list_friend_requests :: "uuid \<Rightarrow> friend_request_row list dbact" where
  "sq_list_friend_requests recipient = gets (\<lambda>d.
     map (\<lambda>f. \<lparr>fe_id = fq_id f, fe_kind = fq_kind f, fe_contact_code = fq_code f,
          fe_created_at_ms = fq_created_at f\<rparr>)
       (sort_key fq_created_at (filter (\<lambda>f. fq_recipient f = recipient) (db_friends d))))"

definition sq_delete_friend_request :: "uuid \<Rightarrow> string \<Rightarrow> unit dbact" where
  "sq_delete_friend_request recipient rid = modify (\<lambda>d. d\<lparr>db_friends :=
     del_where (\<lambda>f. fq_id f = rid \<and> fq_recipient f = recipient) (db_friends d)\<rparr>)"

definition sq_count_friend_requests :: "uuid \<Rightarrow> int dbact" where
  "sq_count_friend_requests recipient =
     gets (\<lambda>d. int (length (filter (\<lambda>f. fq_recipient f = recipient) (db_friends d))))"

section \<open>Sequence numbers\<close>

text \<open>
  The public message log: sequence numbers grow along the table, never exceed the recorded mark, and a
  client message id occurs once per group.
\<close>

definition public_log_ok :: "db \<Rightarrow> bool" where
  "public_log_ok d \<longleftrightarrow> sorted_wrt (<) (map pm_seq (db_public d)) \<and>
     (\<forall>m \<in> set (db_public d). pm_seq m \<le> db_pub_seq d) \<and>
     distinct (map (\<lambda>m. (pm_group m, pm_client_id m)) (db_public d))"

lemma next_seq_gt: "x \<in> set xs \<Longrightarrow> x < next_seq mark xs" "mark < next_seq mark xs"
  using max_or_ge [of x xs 0] by (auto simp: next_seq_def)

text \<open>What a successful send leaves behind, on both branches of its \<open>ON CONFLICT\<close> clause.\<close>

lemma insert_public_ok:
  assumes "sq_insert_public_message g u content cid d = (Inr row, t)"
  shows "\<exists>m \<in> set (db_public t). pm_group m = g \<and> pm_client_id m = cid \<and> pr_seq row = pm_seq m \<and>
      pr_group_id row = g \<and> pr_sender_id row = u \<and> pr_content row = content \<and>
    (if exists_where (\<lambda>m. pm_group m = g \<and> pm_client_id m = cid) (db_public d)
     then db_public t = db_public d
     else db_public t = db_public d @ [m] \<and> pm_sender m = u \<and> pm_content m = content \<and>
       pm_seq m = next_seq (db_pub_seq d) (map pm_seq (db_public d)))"
    and "db_pub_seq t = next_seq (db_pub_seq d) (map pm_seq (db_public d))"
  using assms
  by (auto simp: sq_insert_public_message_def clock_defs ok_simps Let_def find_append split: if_splits option.splits
      dest!: find_SomeD)

text \<open>A page of history is a stretch of the log, newest first.\<close>

lemma order_desc_sorted:
  fixes k :: "'r \<Rightarrow> 'k::linorder"
  assumes "sorted_wrt (<) (map k t)"
  shows "order_desc k t = rev t"
proof -
  have "sorted_wrt (\<lambda>a b. k a < k b) t" using assms by (simp add: sorted_wrt_map)
  then have "distinct (map k t)" "sorted (map k t)"
    using assms by (auto simp: strict_sorted_iff)
  then have "sort_key k (rev t) = t"
    by (intro sort_key_inj_key_eq) (auto simp: distinct_map)
  then show ?thesis by (simp add: order_desc_def)
qed

definition sender_of :: "db \<Rightarrow> public_messages_row \<Rightarrow> users_row" where
  "sender_of d m = the (find_user (pm_sender m) d)"

definition public_row :: "db \<Rightarrow> public_messages_row \<Rightarrow> public_message_row" where
  "public_row d m = \<lparr>pr_id = pm_id m, pr_group_id = pm_group m, pr_sender_id = pm_sender m,
     pr_sender_display_name = u_display_name (sender_of d m), pr_content = pm_content m, pr_seq = pm_seq m,
     pr_created_at = pm_created_at m\<rparr>"

lemma join_senders:
  assumes "distinct (map u_id (db_users d))" and "\<forall>m \<in> set ms. has_user (pm_sender m) d"
  shows "[(m, u). m \<leftarrow> ms, u \<leftarrow> db_users d, u_id u = pm_sender m \<and> P m] = map (\<lambda>m. (m, sender_of d m)) (filter P ms)"
  using assms(2)
proof (induction ms)
  case (Cons m ms)
  obtain u where u: "u \<in> set (db_users d)" "u_id u = pm_sender m"
    using Cons.prems by (auto simp: has_user_def)
  have join: "[(m, u). u \<leftarrow> us, u_id u = pm_sender m \<and> P m] =
      (if P m then map (Pair m) (filter (\<lambda>u. u_id u = pm_sender m) us) else [])" for us
    by (induction us) auto
  have "filter (\<lambda>u. u_id u = pm_sender m) (db_users d) = [u]"
    using filter_unique [OF assms(1) u(1)] u(2) by simp
  moreover have "sender_of d m = u"
    using find_unique [OF assms(1) u(1)] u(2) by (simp add: sender_of_def find_user_def)
  ultimately show ?case using Cons by (simp add: join)
qed simp

lemma fetch_public_page:
  assumes "public_log_ok d" and "db_pub_seq d < i64_max" and "distinct (map u_id (db_users d))"
    and "\<forall>m \<in> set (db_public d). has_user (pm_sender m) d" and "0 \<le> n"
  shows "sq_fetch_public_history g b n d = (Inr (map (public_row d) (take (nat n)
    (rev (filter (\<lambda>m. pm_group m = g \<and> (b \<le> 0 \<or> pm_seq m < b)) (db_public d))))), d)"
proof -
  let ?upper = "if b \<le> 0 then i64_max else b"
  let ?ms = "filter (\<lambda>m. pm_group m = g \<and> pm_seq m < ?upper) (db_public d)"
  have "sorted_wrt (<) (map pm_seq (db_public d))" using assms(1) by (simp add: public_log_ok_def)
  then have "sorted_wrt (<) (map pm_seq ?ms)"
    by (simp add: sorted_wrt_map sorted_wrt_filter)
  then have "order_desc (\<lambda>(m, u). pm_seq m) (map (\<lambda>m. (m, sender_of d m)) ?ms) = rev (map (\<lambda>m. (m, sender_of d m)) ?ms)"
    by (intro order_desc_sorted) (simp add: o_def)
  moreover have "?ms = filter (\<lambda>m. pm_group m = g \<and> (b \<le> 0 \<or> pm_seq m < b)) (db_public d)"
    using assms(1,2) by (intro filter_cong) (auto simp: public_log_ok_def)
  ultimately show ?thesis
    using assms(5) join_senders [OF assms(3,4), of "\<lambda>m. pm_group m = g \<and> pm_seq m < ?upper"]
    by (simp add: sq_fetch_public_history_def gets_def sql_limit_def public_row_def rev_map take_map o_def)
qed

section \<open>Key packages are claimed once\<close>

definition consume :: "uuid set \<Rightarrow> key_packages_row list \<Rightarrow> key_packages_row list" where
  "consume ids t = upd_where (\<lambda>k. kp_id k \<in> ids) (\<lambda>k. k\<lparr>kp_consumed := True\<rparr>) t"

definition oldest :: "uuid \<Rightarrow> db \<Rightarrow> key_packages_row" where
  "oldest v d = hd (sort_key kp_created_at (unconsumed v d))"

lemma consume_simps [simp]:
  "map kp_id (consume ids t) = map kp_id t" "consume ids (consume ids' t) = consume (ids \<union> ids') t"
  "consume {} t = t"
  by (induction t) (auto simp: consume_def upd_where_def)

lemma oldest_in: "unconsumed v d \<noteq> [] \<Longrightarrow> oldest v d \<in> set (unconsumed v d)"
  by (metis oldest_def hd_in_set set_sort sort_key_simps(1) length_sort length_0_conv)

lemma oldest_least: "unconsumed v d \<noteq> [] \<Longrightarrow> \<forall>l \<in> set (unconsumed v d). kp_created_at (oldest v d) \<le> kp_created_at l"
proof -
  assume "unconsumed v d \<noteq> []"
  then obtain p ps where s: "sort_key kp_created_at (unconsumed v d) = p # ps"
    by (metis length_0_conv length_sort list.exhaust)
  have "sorted (map kp_created_at (p # ps))" using sorted_sort_key [of kp_created_at "unconsumed v d"] by (simp add: s)
  moreover have "set (unconsumed v d) = set (p # ps)" by (metis s set_sort)
  ultimately show ?thesis by (auto simp: oldest_def s)
qed

lemma unconsumed_consume:
  assumes "distinct (map kp_id (db_packages d))" and "p \<in> set (unconsumed v d)" and "v' \<noteq> v"
  shows "unconsumed v' (d\<lparr>db_packages := consume {kp_id p} (db_packages d)\<rparr>) = unconsumed v' d"
proof -
  have "k = p" if "k \<in> set (db_packages d)" "kp_id k = kp_id p" for k
    using assms that by (auto simp: unconsumed_def distinct_map inj_on_def)
  then have "\<forall>k \<in> set (db_packages d). kp_id k = kp_id p \<longrightarrow> kp_device k \<noteq> v'"
    using assms by (auto simp: unconsumed_def)
  then have "filter (\<lambda>k. kp_device k = v' \<and> \<not> kp_consumed k) (consume {kp_id p} (db_packages d)) =
      filter (\<lambda>k. kp_device k = v' \<and> \<not> kp_consumed k) (db_packages d)"
  proof (induction "db_packages d" arbitrary: d)
    case (Cons k ks)
    from Cons.hyps(1) [of "d\<lparr>db_packages := ks\<rparr>"] Cons.prems show ?case
      by (simp add: Cons.hyps(2) [symmetric] consume_def upd_where_def)
  qed (simp add: consume_def upd_where_def)
  then show ?thesis by (simp add: unconsumed_def)
qed

lemma claim_one_eq:
  assumes "unconsumed v d \<noteq> []"
  shows "claim_one v d = (Inr (Some \<lparr>ck_device_id = v, ck_key_package = kp_bytes (oldest v d)\<rparr>),
    d\<lparr>db_packages := consume {kp_id (oldest v d)} (db_packages d)\<rparr>)"
proof -
  obtain p ps where "sort_key kp_created_at (unconsumed v d) = p # ps"
    using assms by (metis length_0_conv length_sort list.exhaust)
  then show ?thesis
    by (simp add: claim_one_def act_defs oldest_def consume_def)
qed

lemma claim_all:
  assumes "distinct vs" and "\<forall>v \<in> set vs. unconsumed v d \<noteq> []" and "distinct (map kp_id (db_packages d))"
  shows "map_each claim_one vs d =
    (Inr (map (\<lambda>v. Some \<lparr>ck_device_id = v, ck_key_package = kp_bytes (oldest v d)\<rparr>) vs),
     d\<lparr>db_packages := consume ((\<lambda>v. kp_id (oldest v d)) ` set vs) (db_packages d)\<rparr>)"
  using assms
proof (induction vs arbitrary: d)
  case (Cons v vs)
  define d' where "d' = d\<lparr>db_packages := consume {kp_id (oldest v d)} (db_packages d)\<rparr>"
  have same: "unconsumed v' d' = unconsumed v' d" if "v' \<in> set vs" for v'
    unfolding d'_def using that Cons.prems by (intro unconsumed_consume [OF _ oldest_in]) auto
  then have old: "oldest v' d' = oldest v' d" if "v' \<in> set vs" for v'
    using that by (simp add: oldest_def)
  have "map_each claim_one vs d' =
    (Inr (map (\<lambda>v. Some \<lparr>ck_device_id = v, ck_key_package = kp_bytes (oldest v d')\<rparr>) vs),
     d'\<lparr>db_packages := consume ((\<lambda>v. kp_id (oldest v d')) ` set vs) (db_packages d')\<rparr>)"
    using Cons.prems same by (intro Cons.IH) (auto simp: d'_def)
  moreover have "(\<lambda>v. kp_id (oldest v d')) ` set vs = (\<lambda>v. kp_id (oldest v d)) ` set vs"
    using old by simp
  moreover have "map (\<lambda>v. Some \<lparr>ck_device_id = v, ck_key_package = kp_bytes (oldest v d')\<rparr>) vs =
      map (\<lambda>v. Some \<lparr>ck_device_id = v, ck_key_package = kp_bytes (oldest v d)\<rparr>) vs"
    using old by simp
  moreover have "claim_one v d = (Inr (Some \<lparr>ck_device_id = v, ck_key_package = kp_bytes (oldest v d)\<rparr>), d')"
    unfolding d'_def using Cons.prems by (intro claim_one_eq) simp
  ultimately show ?case
    by (simp add: bnd_def ret_def) (simp add: d'_def)
qed (simp add: ret_def)

definition devices_left :: "uuid \<Rightarrow> db \<Rightarrow> uuid list" where
  "devices_left u d = remdups (map kp_device (filter (\<lambda>k. kp_user k = u \<and> \<not> kp_consumed k) (db_packages d)))"

lemma devices_left_nonempty: "v \<in> set (devices_left u d) \<Longrightarrow> unconsumed v d \<noteq> []"
  by (auto simp: devices_left_def unconsumed_def filter_empty_conv)

lemma claim_user:
  assumes "distinct (map kp_id (db_packages d))"
  shows "sq_claim_key_packages_for_user u d =
    (Inr (map (\<lambda>v. \<lparr>ck_device_id = v, ck_key_package = kp_bytes (oldest v d)\<rparr>) (devices_left u d)),
     d\<lparr>db_packages := consume ((\<lambda>v. kp_id (oldest v d)) ` set (devices_left u d)) (db_packages d)\<rparr>)"
  using claim_all [of "devices_left u d" d] devices_left_nonempty assms
  by (simp add: sq_claim_key_packages_for_user_def act_defs devices_left_def [symmetric] filter_map o_def)
    (simp add: devices_left_def)

lemma consume_rows:
  assumes "distinct (map kp_id t)" and "set ks \<subseteq> set t"
  shows "consume (kp_id ` set ks) t = map (\<lambda>k. if k \<in> set ks then k\<lparr>kp_consumed := True\<rparr> else k) t"
  unfolding consume_def upd_where_def
proof (rule map_cong [OF refl])
  fix k assume "k \<in> set t"
  then have "kp_id k \<in> kp_id ` set ks \<longleftrightarrow> k \<in> set ks"
    using assms by (auto simp: distinct_map inj_on_def)
  then show "(if kp_id k \<in> kp_id ` set ks then k\<lparr>kp_consumed := True\<rparr> else k) =
      (if k \<in> set ks then k\<lparr>kp_consumed := True\<rparr> else k)" by simp
qed

text \<open>The cap: the newest packages of a device survive an upload.\<close>

lemma insert_packages_distinct:
  "for_each (insert_key_package u v) pkgs d = (Inr (), t) \<Longrightarrow> distinct (map kp_id (db_packages d)) \<Longrightarrow>
   distinct (map kp_id (db_packages t)) \<and> (\<forall>v'. v' \<noteq> v \<longrightarrow> unconsumed v' t = unconsumed v' d)"
proof (induction pkgs arbitrary: d)
  case (Cons p pkgs)
  then obtain e where "insert_key_package u v p d = (Inr (), e)" "for_each (insert_key_package u v) pkgs e = (Inr (), t)"
    by (auto simp: ok_simps)
  moreover from this(1) Cons.prems(2)
  have "distinct (map kp_id (db_packages e)) \<and> (\<forall>v'. v' \<noteq> v \<longrightarrow> unconsumed v' e = unconsumed v' d)"
    by (auto simp: insert_key_package_def clock_defs ok_simps unconsumed_def)
  ultimately show ?case using Cons.IH [of e] by simp
qed (simp add: ok_simps)

lemma trim_packages:
  assumes "distinct (map kp_id (db_packages d))"
  shows "length (unconsumed v (snd (trim_key_packages v d))) \<le> 30"
    and "v' \<noteq> v \<Longrightarrow> unconsumed v' (snd (trim_key_packages v d)) = unconsumed v' d"
proof -
  define keep where "keep = map kp_id (sql_limit 30 (order_desc kp_id (unconsumed v d)))"
  let ?t = "snd (trim_key_packages v d)"
  have t: "db_packages ?t = del_where (\<lambda>k. kp_device k = v \<and> \<not> kp_consumed k \<and> kp_id k \<notin> set keep) (db_packages d)"
    by (simp add: trim_key_packages_def modify_def MAX_UNCONSUMED_KEY_PACKAGES_def Let_def keep_def)
  have "distinct (map kp_id (unconsumed v ?t))"
    using assms by (simp add: unconsumed_def t del_where_def distinct_map_filter)
  then have "length (unconsumed v ?t) = card (kp_id ` set (unconsumed v ?t))"
    by (metis distinct_card length_map set_map)
  also have "\<dots> \<le> card (set keep)"
    by (rule card_mono) (auto simp: unconsumed_def t)
  also have "\<dots> \<le> 30"
    using card_length [of keep] by (simp add: keep_def sql_limit_def)
  finally show "length (unconsumed v ?t) \<le> 30" .
  show "v' \<noteq> v \<Longrightarrow> unconsumed v' ?t = unconsumed v' d"
    by (auto simp: unconsumed_def t del_where_def intro: filter_cong)
qed

section \<open>Properties\<close>

text \<open>
  C15: Public messages are numbered in order and stored once: a successful send keeps the log well
  formed; under a client message id the group has not seen it appends one message whose number is
  larger than every earlier one, and under a repeated id it changes no message and reports the number
  of the stored one.
\<close>

theorem public_send_once_in_order:
  assumes "public_log_ok d" and "sq_insert_public_message g u content cid d = (Inr row, t)"
  shows "public_log_ok t \<and>
    (if exists_where (\<lambda>m. pm_group m = g \<and> pm_client_id m = cid) (db_public d)
     then db_public t = db_public d \<and>
       (\<exists>m \<in> set (db_public d). pm_group m = g \<and> pm_client_id m = cid \<and> pr_seq row = pm_seq m)
     else (\<exists>m. db_public t = db_public d @ [m] \<and> pm_group m = g \<and> pm_sender m = u \<and> pm_content m = content \<and>
         pm_client_id m = cid \<and> pm_seq m = pr_seq row) \<and>
       (\<forall>m \<in> set (db_public d). pm_seq m < pr_seq row))"
proof -
  let ?n = "next_seq (db_pub_seq d) (map pm_seq (db_public d))"
  note new = next_seq_gt(1) [of _ "map pm_seq (db_public d)" "db_pub_seq d"]
    next_seq_gt(2) [of "db_pub_seq d" "map pm_seq (db_public d)"]
  obtain m where m: "m \<in> set (db_public t)" "pm_group m = g" "pm_client_id m = cid" "pr_seq row = pm_seq m"
    and rows: "if exists_where (\<lambda>m. pm_group m = g \<and> pm_client_id m = cid) (db_public d)
      then db_public t = db_public d
      else db_public t = db_public d @ [m] \<and> pm_sender m = u \<and> pm_content m = content \<and> pm_seq m = ?n"
    using insert_public_ok(1) [OF assms(2)] by blast
  have mark: "db_pub_seq t = ?n" by (rule insert_public_ok(2) [OF assms(2)])
  show ?thesis
  proof (cases "exists_where (\<lambda>m. pm_group m = g \<and> pm_client_id m = cid) (db_public d)")
    case True
    with rows m mark assms(1) new(2) show ?thesis
      by (fastforce simp: public_log_ok_def)
  next
    case False
    have "public_log_ok t"
      using False rows m mark assms(1) new
      by (auto simp: public_log_ok_def sorted_wrt_append intro: order_trans less_imp_le)
    then show ?thesis using False rows m new by auto
  qed
qed

text \<open>Witness: the member sends a first message to the seeded channel.\<close>

theorem public_send_once_in_order_witness:
  "public_log_ok (snd (sq_insert_public_message general_id 3 ''hi'' 77 demo_db)) \<and>
   map pm_content (db_public (snd (sq_insert_public_message general_id 3 ''hi'' 77 demo_db))) = [''hi'']"
proof -
  let ?t = "snd (sq_insert_public_message general_id 3 ''hi'' 77 demo_db)"
  have run: "sq_insert_public_message general_id 3 ''hi'' 77 demo_db = (Inr \<lparr>pr_id = 100, pr_group_id = general_id,
      pr_sender_id = 3, pr_sender_display_name = ''cy'', pr_content = ''hi'', pr_seq = 1, pr_created_at = 0\<rparr>, ?t)"
    by (simp add: sq_insert_public_message_def clock_defs on_env_def read_env_def act_defs upsert_stmt_def demo_env_def
        has_group_def [of _ "demo_db\<lparr>db_env := e\<rparr>" for e] has_user_def find_user_def next_seq_def ms_of_def
        demo_refs(1) [unfolded has_group_def exists_where_iff])
  have "public_log_ok demo_db" by (simp add: public_log_ok_def)
  from public_send_once_in_order [OF this run] show ?thesis by auto
qed

text \<open>
  C17: Key packages are single use: a claim takes, for each device of the user that has one left, the
  oldest unconsumed package, hands out its bytes once, marks exactly the packages it took as consumed
  and changes no other.
\<close>

theorem key_packages_single_use:
  assumes "distinct (map kp_id (db_packages d))"
    and "\<forall>k \<in> set (db_packages d). \<forall>l \<in> set (db_packages d). kp_device k = kp_device l \<longrightarrow> kp_user k = kp_user l"
  shows "\<exists>ks. sq_claim_key_packages_for_user u d =
      (Inr (map (\<lambda>k. \<lparr>ck_device_id = kp_device k, ck_key_package = kp_bytes k\<rparr>) ks),
       d\<lparr>db_packages := map (\<lambda>k. if k \<in> set ks then k\<lparr>kp_consumed := True\<rparr> else k) (db_packages d)\<rparr>) \<and>
    distinct (map kp_device ks) \<and>
    (\<forall>k \<in> set ks. k \<in> set (db_packages d) \<and> kp_user k = u \<and> \<not> kp_consumed k \<and>
      (\<forall>l \<in> set (unconsumed (kp_device k) d). kp_created_at k \<le> kp_created_at l)) \<and>
    (\<forall>k \<in> set (db_packages d). kp_user k = u \<and> \<not> kp_consumed k \<longrightarrow> kp_device k \<in> kp_device ` set ks)"
proof -
  define ks where "ks = map (\<lambda>v. oldest v d) (devices_left u d)"
  have ks: "oldest v d \<in> set (db_packages d)" "kp_device (oldest v d) = v" "\<not> kp_consumed (oldest v d)"
    "kp_user (oldest v d) = u" if v: "v \<in> set (devices_left u d)" for v
  proof -
    have o: "oldest v d \<in> set (unconsumed v d)" using devices_left_nonempty [OF v] by (rule oldest_in)
    then show "oldest v d \<in> set (db_packages d)" "kp_device (oldest v d) = v" "\<not> kp_consumed (oldest v d)"
      by (auto simp: unconsumed_def)
    with v assms(2) show "kp_user (oldest v d) = u" by (fastforce simp: devices_left_def)
  qed
  have devices: "map kp_device ks = devices_left u d" by (simp add: ks_def ks(2) map_idI)
  have "set ks \<subseteq> set (db_packages d)" using ks(1) by (auto simp: ks_def)
  then have "sq_claim_key_packages_for_user u d =
      (Inr (map (\<lambda>k. \<lparr>ck_device_id = kp_device k, ck_key_package = kp_bytes k\<rparr>) ks),
       d\<lparr>db_packages := map (\<lambda>k. if k \<in> set ks then k\<lparr>kp_consumed := True\<rparr> else k) (db_packages d)\<rparr>)"
    using consume_rows [OF assms(1), of ks] claim_user [OF assms(1), of u]
    by (simp add: ks_def ks(2) image_image)
  moreover have "distinct (map kp_device ks)" by (simp only: devices devices_left_def distinct_remdups)
  moreover have "\<forall>k \<in> set ks. k \<in> set (db_packages d) \<and> kp_user k = u \<and> \<not> kp_consumed k \<and>
      (\<forall>l \<in> set (unconsumed (kp_device k) d). kp_created_at k \<le> kp_created_at l)"
    using ks devices_left_nonempty oldest_least by (simp add: ks_def)
  moreover have "kp_device ` set ks = set (devices_left u d)" by (metis devices set_map)
  then have "\<forall>k \<in> set (db_packages d). kp_user k = u \<and> \<not> kp_consumed k \<longrightarrow> kp_device k \<in> kp_device ` set ks"
    by (auto simp: devices_left_def)
  ultimately show ?thesis by blast
qed

text \<open>Witness: a second claim of the same user finds the pool of its one device empty.\<close>

definition one_package :: db where
  "one_package = demo_db\<lparr>db_packages := [\<lparr>kp_id = 50, kp_user = 3, kp_device = 23, kp_bytes = [7],
     kp_consumed = False, kp_created_at = 0\<rparr>]\<rparr>"

theorem key_packages_single_use_witness:
  "\<exists>t. sq_claim_key_packages_for_user 3 one_package = (Inr [\<lparr>ck_device_id = 23, ck_key_package = [7]\<rparr>], t) \<and>
     unconsumed 23 t = []"
proof -
  have "distinct (map kp_id (db_packages one_package))"
    "\<forall>k \<in> set (db_packages one_package). \<forall>l \<in> set (db_packages one_package). kp_device k = kp_device l \<longrightarrow> kp_user k = kp_user l"
    by (simp_all add: one_package_def)
  from key_packages_single_use [OF this, of 3] obtain ks where
    run: "sq_claim_key_packages_for_user 3 one_package =
      (Inr (map (\<lambda>k. \<lparr>ck_device_id = kp_device k, ck_key_package = kp_bytes k\<rparr>) ks),
       one_package\<lparr>db_packages := map (\<lambda>k. if k \<in> set ks then k\<lparr>kp_consumed := True\<rparr> else k) (db_packages one_package)\<rparr>)"
    and ks: "distinct (map kp_device ks)" "\<forall>k \<in> set ks. k \<in> set (db_packages one_package)"
      "\<forall>k \<in> set (db_packages one_package). kp_user k = 3 \<and> \<not> kp_consumed k \<longrightarrow> kp_device k \<in> kp_device ` set ks"
    by blast
  have "ks = db_packages one_package"
  proof (cases ks)
    case (Cons k ls)
    then show ?thesis using ks(1,2) by (cases ls) (simp_all add: one_package_def)
  qed (use ks(3) in \<open>simp add: one_package_def\<close>)
  with run show ?thesis by (simp add: one_package_def unconsumed_def)
qed

text \<open>
  C18: The pool of a device is bounded: after a successful upload at most 30 of its packages are
  unconsumed, and no other device's pool has changed.
\<close>

theorem key_package_pool_bounded:
  assumes "distinct (map kp_id (db_packages d))" and "sq_store_key_packages u v pkgs d = (Inr n, t)"
  shows "length (unconsumed v t) \<le> 30 \<and> n = length pkgs \<and>
    (\<forall>v'. v' \<noteq> v \<longrightarrow> unconsumed v' t = unconsumed v' d)"
proof -
  obtain e where e: "for_each (insert_key_package u v) pkgs d = (Inr (), e)"
    and t: "t = snd (trim_key_packages v e)" and n: "n = length pkgs"
    using assms(2) by (auto simp: sq_store_key_packages_def ok_simps)
  from insert_packages_distinct [OF e assms(1)] trim_packages(1) [of e v] trim_packages(2) [of e _ v] show ?thesis
    by (simp add: t n)
qed

text \<open>Witness: an upload of one package.\<close>

theorem key_package_pool_bounded_witness:
  "\<exists>t. sq_store_key_packages 3 23 [[1]] one_package = (Inr 1, t) \<and> length (unconsumed 23 t) \<le> 30"
proof -
  let ?t = "snd (sq_store_key_packages 3 23 [[1]] one_package)"
  have run: "sq_store_key_packages 3 23 [[1]] one_package = (Inr 1, ?t)"
    by (simp add: sq_store_key_packages_def insert_key_package_def trim_key_packages_def clock_defs on_env_def
        read_env_def act_defs insert_stmt_def one_package_def demo_env_def has_user_def has_device_def)
  have "distinct (map kp_id (db_packages one_package))" by (simp add: one_package_def)
  from key_package_pool_bounded [OF this run] run show ?thesis by blast
qed

end
