(* ===== verification/Server.thy ===== *)
theory Server
  imports Store_Accounts Store_Groups Store_Messages Authz Guardrails Hub
begin

text \<open>
  The state the services share, request authentication (\<open>util.rs\<close>, the access-token half of
  \<open>auth/jwt.rs\<close>), and the small helpers the services repeat.

  An RPC handler is a computation on \<open>server\<close> that ends in a response or a gRPC status.  Handlers are
  run one after another: each \<open>await\<close> of a handler sees the database as the handler left it.
\<close>

section \<open>Shared state\<close>

text \<open>Source addresses: \<open>std::net::IpAddr\<close>.\<close>

datatype ip_addr = V4 "32 word" | V6 "128 word"

record server =
  sv_db :: db
  sv_hub :: hub
  sv_guard :: guardrails
  sv_reg_log :: "(ip_addr \<times> nat list) list"
  sv_require_invite :: bool
  sv_open_dms :: bool
  sv_ttl_secs :: nat

type_synonym 'a svact = "(server, server_error, 'a) act"
type_synonym 'a rpc = "(server, status, 'a) act"

definition on_db :: "'a dbact \<Rightarrow> 'a svact" where
  "on_db = zoom sv_db (\<lambda>d s. s\<lparr>sv_db := d\<rparr>)"

definition on_hub :: "(hub, server_error, 'a) act \<Rightarrow> 'a svact" where
  "on_hub = zoom sv_hub (\<lambda>h s. s\<lparr>sv_hub := h\<rparr>)"

text \<open>The \<open>?\<close> operator in a handler: \<open>From<ServerError> for Status\<close>.\<close>

definition rpc :: "'a svact \<Rightarrow> 'a rpc" where
  "rpc = map_err status_of"

definition call :: "'a dbact \<Rightarrow> 'a rpc" where
  "call m = rpc (on_db m)"

definition hub_do :: "(hub \<Rightarrow> hub) \<Rightarrow> (server, 'e, unit) act" where
  "hub_do f = modify (\<lambda>s. s\<lparr>sv_hub := f (sv_hub s)\<rparr>)"

section \<open>Authentication\<close>

record req_meta =
  rm_authorization :: "string option"
  rm_remote_ip :: "ip_addr option"

definition jwt_verify :: "ext \<Rightarrow> string \<Rightarrow> claims dbact" where
  "jwt_verify E token =
     bnd now_wall (\<lambda>ns. some_or Unauthenticated (jwt_decode E (secs_of ns) token))"

definition authenticate :: "ext \<Rightarrow> req_meta \<Rightarrow> claims dbact" where
  "authenticate E meta =
     bnd (some_or Unauthenticated (rm_authorization meta)) (\<lambda>header.
     jwt_verify E (case strip_prefix ''Bearer '' header of Some token \<Rightarrow> token | None \<Rightarrow> header))"

definition parse_uuid_or :: "ext \<Rightarrow> string \<Rightarrow> string \<Rightarrow> uuid dbact" where
  "parse_uuid_or E message s = some_or (InvalidArgument message) (parse_str E s)"

text \<open>\<open>fn caller\<close> of the role, friend, vault and backup services.\<close>

definition caller :: "ext \<Rightarrow> req_meta \<Rightarrow> uuid dbact" where
  "caller E meta =
     bnd (authenticate E meta) (\<lambda>claims. parse_uuid_or E ''invalid user id in token'' (cl_sub claims))"

text \<open>\<open>fn require_group_id\<close> and \<open>fn require_user_id\<close> of the group, messaging and MLS services.\<close>

definition require_group_id :: "ext \<Rightarrow> string option \<Rightarrow> uuid dbact" where
  "require_group_id E group_id =
     bnd (some_or (InvalidArgument ''group_id is required'') group_id)
       (parse_uuid_or E ''group_id is not a valid UUID'')"

definition require_user_id :: "ext \<Rightarrow> string option \<Rightarrow> uuid dbact" where
  "require_user_id E user_id =
     bnd (some_or (InvalidArgument ''user_id is required'') user_id)
       (parse_uuid_or E ''user_id is not a valid UUID'')"

definition parse_uuid :: "ext \<Rightarrow> string \<Rightarrow> uuid dbact" where
  "parse_uuid E s = parse_uuid_or E ''invalid id in token'' s"

definition to_proto_timestamp :: "int \<Rightarrow> proto_timestamp" where
  "to_proto_timestamp ms = \<lparr>ts_seconds = ms div 1000, ts_nanos = (ms mod 1000) * 1000000\<rparr>"

section \<open>Rules\<close>

lemmas server_defs = on_db_def on_hub_def rpc_def call_def hub_do_def

lemma wp_on_db [wp_simps]:
  "wp (on_db m) Q X = (\<lambda>s. wp m (\<lambda>a d. Q a (s\<lparr>sv_db := d\<rparr>)) (\<lambda>e d. X e (s\<lparr>sv_db := d\<rparr>)) (sv_db s))"
  by (simp add: on_db_def wp_zoom)

lemma wp_call [wp_simps]:
  "wp (call m) Q X =
     (\<lambda>s. wp m (\<lambda>a d. Q a (s\<lparr>sv_db := d\<rparr>)) (\<lambda>e d. X (status_of e) (s\<lparr>sv_db := d\<rparr>)) (sv_db s))"
  by (simp add: call_def rpc_def wp_map_err wp_on_db)

lemma wp_rpc [wp_simps]: "wp (rpc m) Q X = wp m Q (\<lambda>e. X (status_of e))"
  by (simp add: rpc_def wp_map_err)

lemma wp_hub_do [wp_simps]: "wp (hub_do f) Q X = (\<lambda>s. Q () (s\<lparr>sv_hub := f (sv_hub s)\<rparr>))"
  by (simp add: hub_do_def wp_modify)

text \<open>The caller a request speaks for, and the state its authentication leaves.\<close>

definition tick :: "db \<Rightarrow> db" where
  "tick d = d\<lparr>db_env := (db_env d)\<lparr>e_tick := Suc (e_tick (db_env d))\<rparr>\<rparr>"

definition bearer :: "req_meta \<Rightarrow> string option" where
  "bearer meta = map_option (\<lambda>header.
     case strip_prefix ''Bearer '' header of Some token \<Rightarrow> token | None \<Rightarrow> header) (rm_authorization meta)"

definition claims_of :: "ext \<Rightarrow> req_meta \<Rightarrow> db \<Rightarrow> claims option" where
  "claims_of E meta d = (case bearer meta of None \<Rightarrow> None
     | Some token \<Rightarrow> jwt_decode E (secs_of (e_wall (db_env d) (e_tick (db_env d)))) token)"

definition user_of :: "ext \<Rightarrow> req_meta \<Rightarrow> db \<Rightarrow> uuid option" where
  "user_of E meta d = (case claims_of E meta d of None \<Rightarrow> None | Some c \<Rightarrow> parse_str E (cl_sub c))"

lemma wp_authenticate [wp_simps]:
  "wp (authenticate E meta) Q X = (\<lambda>d. case bearer meta of None \<Rightarrow> X Unauthenticated d
     | Some token \<Rightarrow> (case claims_of E meta d of None \<Rightarrow> X Unauthenticated (tick d) | Some c \<Rightarrow> Q c (tick d)))"
  by (auto simp: authenticate_def jwt_verify_def clock_defs wp_simps bearer_def claims_of_def tick_def
      fun_eq_iff split: option.splits)

lemma wp_parse_uuid_or [wp_simps]:
  "wp (parse_uuid_or E m s) Q X =
     (\<lambda>d. case parse_str E s of None \<Rightarrow> X (InvalidArgument m) d | Some u \<Rightarrow> Q u d)"
  by (simp add: parse_uuid_or_def wp_simps)

lemma authenticate_ok [ok_simps]:
  "authenticate E meta d = (Inr c, t) \<longleftrightarrow> claims_of E meta d = Some c \<and> t = tick d"
  by (auto simp: authenticate_def jwt_verify_def clock_defs ok_simps bearer_def claims_of_def tick_def
      split: option.splits)

lemma parse_uuid_or_ok [ok_simps]:
  "parse_uuid_or E m s d = (Inr u, t) \<longleftrightarrow> parse_str E s = Some u \<and> t = d"
  by (auto simp: parse_uuid_or_def ok_simps)

lemma caller_ok [ok_simps]:
  "caller E meta d = (Inr u, t) \<longleftrightarrow> user_of E meta d = Some u \<and> t = tick d"
  by (auto simp: caller_def ok_simps user_of_def split: option.splits)

lemma call_ok [ok_simps]:
  "call m s = (Inr a, t) \<longleftrightarrow> (\<exists>d. m (sv_db s) = (Inr a, d) \<and> t = s\<lparr>sv_db := d\<rparr>)"
  by (auto simp: call_def rpc_def on_db_def ok_simps)

lemma on_db_ok [ok_simps]:
  "on_db m s = (Inr a, t) \<longleftrightarrow> (\<exists>d. m (sv_db s) = (Inr a, d) \<and> t = s\<lparr>sv_db := d\<rparr>)"
  by (auto simp: on_db_def ok_simps)

lemma hub_do_ok [ok_simps]: "hub_do f s = (Inr a, t) \<longleftrightarrow> t = s\<lparr>sv_hub := f (sv_hub s)\<rparr>"
  by (simp add: hub_do_def ok_simps)

lemma views_env [simp]:
  "find_user u (d\<lparr>db_env := e\<rparr>) = find_user u d"
  "owner_of (d\<lparr>db_env := e\<rparr>) = owner_of d"
  "guest_of (d\<lparr>db_env := e\<rparr>) = guest_of d"
  "member_bits u (d\<lparr>db_env := e\<rparr>) = member_bits u d"
  "assigned_roles u (d\<lparr>db_env := e\<rparr>) = assigned_roles u d"
  "perms_of (d\<lparr>db_env := e\<rparr>) = perms_of d"
  "rank_of (d\<lparr>db_env := e\<rparr>) = rank_of d"
  "acts_on (d\<lparr>db_env := e\<rparr>) = acts_on d"
  "has_user u (d\<lparr>db_env := e\<rparr>) = has_user u d"
  "has_group u (d\<lparr>db_env := e\<rparr>) = has_group u d"
  "has_device u (d\<lparr>db_env := e\<rparr>) = has_device u d"
  "banned u (d\<lparr>db_env := e\<rparr>) = banned u d"
  "is_member_of g u (d\<lparr>db_env := e\<rparr>) = is_member_of g u d"
  by (simp_all add: find_user_def owner_of_def guest_of_def member_bits_def assigned_roles_def
      perms_of_def rank_of_def acts_on_def has_user_def has_group_def has_device_def banned_def
      is_member_of_def fun_eq_iff)

text \<open>A clock read changes the oracles only.\<close>

lemma tick_env: "tick d = d\<lparr>db_env := db_env (tick d)\<rparr>"
  by (simp add: tick_def)

lemma tick_fields [simp]:
  "db_users (tick d) = db_users d" "db_devices (tick d) = db_devices d" "db_refresh (tick d) = db_refresh d"
  "db_groups (tick d) = db_groups d" "db_members (tick d) = db_members d" "db_public (tick d) = db_public d"
  "db_private (tick d) = db_private d" "db_packages (tick d) = db_packages d" "db_inbox (tick d) = db_inbox d"
  "db_invites (tick d) = db_invites d" "db_roles (tick d) = db_roles d" "db_member_roles (tick d) = db_member_roles d"
  "db_backups (tick d) = db_backups d" "db_vault (tick d) = db_vault d" "db_friends (tick d) = db_friends d"
  "db_tavern (tick d) = db_tavern d" "db_bans (tick d) = db_bans d" "db_audit (tick d) = db_audit d"
  "db_categories (tick d) = db_categories d" "db_pub_seq (tick d) = db_pub_seq d" "db_priv_seq (tick d) = db_priv_seq d"
  "db_fk (tick d) = db_fk d"
  by (simp_all add: tick_def)

lemma views_tick [simp]:
  "owner_of (tick d) = owner_of d" "guest_of (tick d) = guest_of d" "perms_of (tick d) = perms_of d"
  "rank_of (tick d) = rank_of d" "acts_on (tick d) = acts_on d" "find_user u (tick d) = find_user u d"
  "has_user u (tick d) = has_user u d" "has_group u (tick d) = has_group u d"
  "has_device u (tick d) = has_device u d" "banned u (tick d) = banned u d"
  "is_member_of g u (tick d) = is_member_of g u d"
  by (simp_all add: tick_def)

text \<open>Forward steps of a handler.\<close>

lemma user_of_alt: "user_of E meta d = Some a \<longleftrightarrow>
  (\<exists>c. bearer meta \<noteq> None \<and> claims_of E meta d = Some c \<and> parse_str E (cl_sub c) = Some a)"
  by (auto simp: user_of_def claims_of_def split: option.splits)

lemma authenticate_eq: "claims_of E meta d = Some c \<Longrightarrow> authenticate E meta d = (Inr c, tick d)"
  using authenticate_ok [of E meta d c "tick d"] by simp

lemma caller_eq: "user_of E meta d = Some u \<Longrightarrow> caller E meta d = (Inr u, tick d)"
  using caller_ok [of E meta d u "tick d"] by simp

lemma bnd_caller: "user_of E meta d = Some u \<Longrightarrow> bnd (caller E meta) f d = f u (tick d)"
  by (simp add: bnd_def caller_eq)

lemma call_eq: "m (sv_db s) = (r, d) \<Longrightarrow> call m s = (map_sum status_of id r, s\<lparr>sv_db := d\<rparr>)"
  by (cases r) (simp_all add: call_def rpc_def on_db_def map_err_def zoom_def)

lemma bnd_call [run_simps]:
  "bnd (call m) f s = (case m (sv_db s) of (Inl e, d) \<Rightarrow> (Inl (status_of e), s\<lparr>sv_db := d\<rparr>)
     | (Inr a, d) \<Rightarrow> f a (s\<lparr>sv_db := d\<rparr>))"
  by (simp add: bnd_def call_def rpc_def on_db_def map_err_def zoom_def split: prod.splits sum.splits)

lemma bnd_on_db [run_simps]:
  "bnd (on_db m) f s = (case m (sv_db s) of (Inl e, d) \<Rightarrow> (Inl e, s\<lparr>sv_db := d\<rparr>)
     | (Inr a, d) \<Rightarrow> f a (s\<lparr>sv_db := d\<rparr>))"
  by (simp add: bnd_def on_db_def zoom_def split: prod.splits sum.splits)

lemma bnd_hub_do [run_simps]: "bnd (hub_do g) f s = f () (s\<lparr>sv_hub := g (sv_hub s)\<rparr>)"
  by (simp add: bnd_def hub_do_def modify_def)

lemma parse_uuid_or_eq [run_simps]:
  "parse_uuid_or E m x d = (case parse_str E x of None \<Rightarrow> (Inl (InvalidArgument m), d) | Some u \<Rightarrow> (Inr u, d))"
  by (simp add: parse_uuid_or_def some_or_def ret_def fail_def split: option.splits)

text \<open>Authentication and the permission checks leave every frame alone.\<close>

context db_frame
begin

lemma frame_read: "(\<And>d. snd (m d) = d) \<Longrightarrow> effect R m"
  by (simp add: effect_def eff_refl)

lemma frame_parse: "effect R (parse_uuid_or E msg s)" "effect R (parse_uuid E s)"
  "effect R (require_group_id E x)" "effect R (require_user_id E x)"
  by (auto simp: parse_uuid_or_def parse_uuid_def require_group_id_def require_user_id_def intro!: eff_rules)

lemma frame_authenticate: "effect R (authenticate E meta)"
  by (auto simp: authenticate_def jwt_verify_def intro!: frame_rules)

lemma frame_caller: "effect R (caller E meta)"
  by (auto simp: caller_def intro!: frame_rules frame_authenticate frame_parse)

lemma frame_checks: "effect R (require u p)" "effect R (require_outranks a t)"
  "effect R (require_role_below a n)" "effect R (rank u)" "effect R (effective u)"
  by (simp_all add: require_eq require_outranks_eq require_role_below_eq rank_eq effective_eq
      effect_def eff_refl gets_def)

lemma frame_tick: "R d (tick d)"
  by (simp add: tick_def frame_env)

lemma frame_wp_tick: "effect R m \<Longrightarrow> wp m (\<lambda>_. R d) (\<lambda>_. R d) (tick d)"
  by (rule wp_sndI) (auto simp: effect_def intro: eff_trans frame_tick)

lemma frame_wp_tick_then:
  "effect R m \<Longrightarrow> (\<And>a t. R d t \<Longrightarrow> Q a t) \<Longrightarrow> wp m Q (\<lambda>_. R d) (tick d)"
  by (erule wp_mono [OF frame_wp_tick])

lemmas frame_auth = frame_parse frame_authenticate frame_caller frame_checks

end

section \<open>Concrete requests\<close>

definition demo_meta :: "uuid \<Rightarrow> uuid \<Rightarrow> req_meta" where
  "demo_meta u v = \<lparr>rm_authorization = Some (unary u @ ''.'' @ unary v), rm_remote_ip = None\<rparr>"

definition demo_server :: server where
  "demo_server = \<lparr>sv_db = demo_db, sv_hub = hub_new None True, sv_guard = guardrails_default,
     sv_reg_log = [], sv_require_invite = True, sv_open_dms = True, sv_ttl_secs = 3600\<rparr>"

lemma demo_claims [simp]:
  "claims_of demo_ext (demo_meta u v) d =
     Some \<lparr>cl_sub = unary u, cl_device_id = unary v, cl_exp = 0, cl_iat = 0\<rparr>"
proof -
  have "strip_prefix ''Bearer '' (replicate n CHR ''x'' @ CHR ''.'' # s) = None" for n s
    by (cases n) (simp_all add: strip_prefix_def)
  moreover have "takeWhile (\<lambda>c. c \<noteq> CHR ''.'') (replicate n CHR ''x'' @ CHR ''.'' # s) = replicate n CHR ''x''"
    and "dropWhile (\<lambda>c. c \<noteq> CHR ''.'') (replicate n CHR ''x'' @ CHR ''.'' # s) = CHR ''.'' # s" for n s
    by (induction n) simp_all
  ultimately show ?thesis
    by (simp add: claims_of_def bearer_def demo_meta_def demo_ext_def unary_def)
qed

lemma demo_user_of [simp]: "user_of demo_ext (demo_meta u v) d = Some u"
  by (simp add: user_of_def)

lemma demo_bearer [simp]: "bearer (demo_meta u v) \<noteq> None"
  by (simp add: bearer_def demo_meta_def)

lemma demo_authenticate [simp]:
  "authenticate demo_ext (demo_meta u v) d =
     (Inr \<lparr>cl_sub = unary u, cl_device_id = unary v, cl_exp = 0, cl_iat = 0\<rparr>, tick d)"
  by (simp add: authenticate_ok)

lemma demo_caller [simp]: "caller demo_ext (demo_meta u v) d = (Inr u, tick d)"
  by (simp add: caller_ok)

end
