(* ===== verification/Roles_Service.thy ===== *)
theory Roles_Service
  imports Server
begin

text \<open>
  \<open>crates/accord-server/src/roles/service.rs\<close>: role management.  Every handler is a computation on
  the database (the service holds only the store), lifted to an RPC.
\<close>

record role_proto =
  rp_id :: string
  rp_name :: string
  rp_permissions :: string
  rp_position :: int
  rp_is_default :: bool
  rp_color :: string
  rp_icon :: string
  rp_hoist :: bool
  rp_mentionable :: bool

record create_role_request =
  cq_name :: string
  cq_permissions :: string
  cq_color :: string
  cq_icon :: string
  cq_hoist :: bool
  cq_mentionable :: bool

record update_role_request = create_role_request +
  uq_id :: string

record role_member_request =
  aq_user_id :: "string option"
  aq_role_id :: string

definition role_to_proto :: "ext \<Rightarrow> role_row \<Rightarrow> role_proto" where
  "role_to_proto E r = \<lparr>rp_id = to_str E (rl_id r), rp_name = rl_name r,
     rp_permissions = perms_display (rl_permissions r), rp_position = rl_position r,
     rp_is_default = rl_is_default r, rp_color = rl_color r, rp_icon = rl_icon r,
     rp_hoist = rl_hoist r, rp_mentionable = rl_mentionable r\<rparr>"

definition parse_perms :: "string \<Rightarrow> permissions dbact" where
  "parse_perms s =
     (if trim s = [] then ret perms_empty
      else some_or (InvalidArgument ''bad permissions'') (perms_from_str (trim s)))"

definition role_user_id :: "ext \<Rightarrow> string option \<Rightarrow> uuid dbact" where
  "role_user_id E user_id =
     bnd (some_or (InvalidArgument ''user_id is required'') user_id) (parse_uuid_or E ''invalid user id'')"

definition guard_admin_escalation :: "uuid \<Rightarrow> permissions \<Rightarrow> unit dbact" where
  "guard_admin_escalation actor target =
     (if is_admin target then
        bnd (effective actor) (\<lambda>e. if is_admin e then ret () else fail PermissionDenied)
      else ret ())"

definition the_role :: "uuid \<Rightarrow> role_row dbact" where
  "the_role role_id = bnd (sq_get_role role_id) (some_or (NotFound ''role''))"

definition write_of :: "string \<Rightarrow> permissions \<Rightarrow> ('a) create_role_request_scheme \<Rightarrow> role_write" where
  "write_of name perms req = \<lparr>rw_name = name, rw_permissions = perms, rw_color = cq_color req,
     rw_icon = cq_icon req, rw_hoist = cq_hoist req, rw_mentionable = cq_mentionable req\<rparr>"

definition list_roles :: "ext \<Rightarrow> req_meta \<Rightarrow> role_proto list dbact" where
  "list_roles E meta =
     bnd (caller E meta) (\<lambda>_.
     bnd sq_list_roles (\<lambda>rows. ret (map (role_to_proto E) rows)))"

definition create_role :: "ext \<Rightarrow> req_meta \<Rightarrow> create_role_request \<Rightarrow> role_proto dbact" where
  "create_role E meta req =
     bnd (caller E meta) (\<lambda>actor.
     bnd (require actor MANAGE_ROLES) (\<lambda>_.
     bnd (parse_perms (cq_permissions req)) (\<lambda>perms.
     bnd (guard_admin_escalation actor perms) (\<lambda>_.
     let name = trim (cq_name req) in
     if name = [] then fail (InvalidArgument ''role name is required'') else
     bnd (sq_create_role (write_of name perms req)) (\<lambda>rid.
     bnd (the_role rid) (\<lambda>role.
     ret (role_to_proto E role)))))))"

definition update_role :: "ext \<Rightarrow> req_meta \<Rightarrow> update_role_request \<Rightarrow> role_proto dbact" where
  "update_role E meta req =
     bnd (caller E meta) (\<lambda>actor.
     bnd (require actor MANAGE_ROLES) (\<lambda>_.
     bnd (parse_uuid_or E ''invalid role id'' (uq_id req)) (\<lambda>rid.
     bnd (parse_perms (cq_permissions req)) (\<lambda>perms.
     bnd (guard_admin_escalation actor perms) (\<lambda>_.
     bnd (the_role rid) (\<lambda>existing.
     bnd (require_role_below actor (rl_position existing)) (\<lambda>_.
     bnd (sq_update_role rid (write_of (trim (cq_name req)) perms req)) (\<lambda>_.
     bnd (the_role rid) (\<lambda>role.
     ret (role_to_proto E role))))))))))"

definition delete_role :: "ext \<Rightarrow> req_meta \<Rightarrow> string \<Rightarrow> unit dbact" where
  "delete_role E meta role_id =
     bnd (caller E meta) (\<lambda>actor.
     bnd (require actor MANAGE_ROLES) (\<lambda>_.
     bnd (parse_uuid_or E ''invalid role id'' role_id) (\<lambda>rid.
     bnd (the_role rid) (\<lambda>role.
     if rl_is_default role then fail (InvalidArgument ''cannot delete the @everyone role'') else
     bnd (require_role_below actor (rl_position role)) (\<lambda>_.
     sq_delete_role rid)))))"

definition check_reorder :: "int \<Rightarrow> nat \<Rightarrow> nat \<times> uuid \<Rightarrow> unit dbact" where
  "check_reorder rk n ir = (case ir of (i, rid) \<Rightarrow>
     bnd (the_role rid) (\<lambda>role.
     if rl_is_default role then fail (InvalidArgument ''the @everyone role cannot be reordered'') else
     let new_pos = int n - int i in
     if rk \<le> rl_position role \<or> rk \<le> new_pos then fail PermissionDenied else ret ()))"

definition reorder_roles :: "ext \<Rightarrow> req_meta \<Rightarrow> string list \<Rightarrow> unit dbact" where
  "reorder_roles E meta role_ids =
     bnd (caller E meta) (\<lambda>actor.
     bnd (require actor MANAGE_ROLES) (\<lambda>_.
     bnd (map_each (parse_uuid_or E ''invalid role id'') role_ids) (\<lambda>ids.
     bnd (rank actor) (\<lambda>rk.
     bnd (for_each (check_reorder rk (length ids)) (List.enumerate 0 ids)) (\<lambda>_.
     sq_reorder_roles ids)))))"

definition assign_role :: "ext \<Rightarrow> req_meta \<Rightarrow> role_member_request \<Rightarrow> unit dbact" where
  "assign_role E meta req =
     bnd (caller E meta) (\<lambda>actor.
     bnd (require actor MANAGE_ROLES) (\<lambda>_.
     bnd (role_user_id E (aq_user_id req)) (\<lambda>uid.
     bnd (parse_uuid_or E ''invalid role id'' (aq_role_id req)) (\<lambda>rid.
     bnd (the_role rid) (\<lambda>role.
     bnd (guard_admin_escalation actor (rl_permissions role)) (\<lambda>_.
     bnd (require_role_below actor (rl_position role)) (\<lambda>_.
     bnd (require_outranks actor uid) (\<lambda>_.
     sq_assign_role uid rid))))))))"

definition unassign_role :: "ext \<Rightarrow> req_meta \<Rightarrow> role_member_request \<Rightarrow> unit dbact" where
  "unassign_role E meta req =
     bnd (caller E meta) (\<lambda>actor.
     bnd (require actor MANAGE_ROLES) (\<lambda>_.
     bnd (role_user_id E (aq_user_id req)) (\<lambda>uid.
     bnd (parse_uuid_or E ''invalid role id'' (aq_role_id req)) (\<lambda>rid.
     bnd (the_role rid) (\<lambda>role.
     bnd (require_role_below actor (rl_position role)) (\<lambda>_.
     bnd (require_outranks actor uid) (\<lambda>_.
     sq_unassign_role uid rid)))))))"

definition get_my_permissions :: "ext \<Rightarrow> req_meta \<Rightarrow> (string \<times> bool) dbact" where
  "get_my_permissions E meta =
     bnd (caller E meta) (\<lambda>actor.
     bnd (effective actor) (\<lambda>perms.
     bnd (sq_is_owner actor) (\<lambda>is_owner.
     ret (perms_display perms, is_owner))))"

section \<open>The service as one operation\<close>

datatype role_call =
    RCreate create_role_request
  | RUpdate update_role_request
  | RDelete string
  | RReorder "string list"
  | RAssign role_member_request
  | RUnassign role_member_request

fun role_exec :: "ext \<Rightarrow> req_meta \<Rightarrow> role_call \<Rightarrow> unit dbact" where
  "role_exec E meta (RCreate req) = bnd (create_role E meta req) (\<lambda>_. ret ())"
| "role_exec E meta (RUpdate req) = bnd (update_role E meta req) (\<lambda>_. ret ())"
| "role_exec E meta (RDelete rid) = delete_role E meta rid"
| "role_exec E meta (RReorder ids) = reorder_roles E meta ids"
| "role_exec E meta (RAssign req) = assign_role E meta req"
| "role_exec E meta (RUnassign req) = unassign_role E meta req"

section \<open>Rules for the checks\<close>

lemma wp_caller [wp_simps]:
  "wp (caller E meta) Q X = (\<lambda>d. case bearer meta of None \<Rightarrow> X Unauthenticated d
     | Some token \<Rightarrow> (case claims_of E meta d of None \<Rightarrow> X Unauthenticated (tick d)
       | Some c \<Rightarrow> (case parse_str E (cl_sub c) of
           None \<Rightarrow> X (InvalidArgument ''invalid user id in token'') (tick d) | Some u \<Rightarrow> Q u (tick d))))"
  by (auto simp: caller_def wp_simps fun_eq_iff split: option.splits)

lemma wp_guard_admin [wp_simps]:
  "wp (guard_admin_escalation a p) Q X = (\<lambda>d. if is_admin p \<and> \<not> is_admin (perms_of d a)
     then X PermissionDenied d else Q () d)"
  by (auto simp: guard_admin_escalation_def effective_eq wp_simps fun_eq_iff)

lemma wp_parse_perms [wp_simps]:
  "wp (parse_perms s) Q X = (\<lambda>d. if trim s = [] then Q 0 d
     else case perms_from_str (trim s) of None \<Rightarrow> X (InvalidArgument ''bad permissions'') d | Some p \<Rightarrow> Q p d)"
  by (auto simp: parse_perms_def perms_empty_def wp_simps fun_eq_iff)

lemma wp_the_role [wp_simps]:
  "wp (the_role rid) Q X = (\<lambda>d. case List.find (\<lambda>r. ro_id r = rid) (db_roles d) of
     None \<Rightarrow> X (NotFound ''role'') d | Some r \<Rightarrow> Q (role_from_row r) d)"
  by (auto simp: the_role_def sq_get_role_def wp_simps fun_eq_iff split: option.splits)

lemma wp_role_user_id [wp_simps]:
  "wp (role_user_id E uid) Q X = (\<lambda>d. case uid of None \<Rightarrow> X (InvalidArgument ''user_id is required'') d
     | Some v \<Rightarrow> (case parse_str E v of None \<Rightarrow> X (InvalidArgument ''invalid user id'') d | Some u \<Rightarrow> Q u d))"
  by (auto simp: role_user_id_def wp_simps fun_eq_iff split: option.splits)

lemma role_from_row_fields [simp]:
  "rl_permissions (role_from_row r) = ro_permissions r" "rl_is_default (role_from_row r) = ro_is_default r"
  "rl_position (role_from_row r) = as_i32 (ro_position r)" "rl_id (role_from_row r) = ro_id r"
  by (simp_all add: role_from_row_def)

section \<open>No escalation to administrator\<close>

definition admin_in :: "db \<Rightarrow> uuid \<Rightarrow> bool" where
  "admin_in d u \<longleftrightarrow> is_admin (perms_of d u)"

lemma admin_in_iff:
  "admin_in d u \<longleftrightarrow> owner_of d u \<or> \<not> guest_of d u \<and>
     (\<exists>r \<in> set (db_roles d). bit (ro_permissions r) 0 \<and>
       (ro_is_default r \<or> (\<exists>m \<in> set (db_member_roles d). mr_role m = ro_id r \<and> mr_user m = u)))"
  by (auto simp: admin_in_def perms_of_def is_admin_iff bit_member_bits bit_perms_all)

text \<open>\<open>no_new_admin\<close>: whoever is an administrator afterwards was one before.\<close>

definition no_new_admin :: "db \<Rightarrow> db \<Rightarrow> bool" where
  "no_new_admin s t \<longleftrightarrow> (\<forall>u. admin_in t u \<longrightarrow> admin_in s u)"

interpretation nna: db_frame no_new_admin
  by unfold_locales (auto simp: no_new_admin_def admin_in_def)

lemma no_new_admin_refl [simp]: "no_new_admin d d" "no_new_admin d (tick d)"
  using nna.frame_env by (auto simp: nna.eff_refl tick_def)

lemma same_users_views:
  "db_users t = db_users s \<Longrightarrow> owner_of t = owner_of s \<and> guest_of t = guest_of s"
  by (simp add: owner_of_def guest_of_def find_user_def fun_eq_iff)

lemma nna_roles:
  assumes "db_users t = db_users s"
    and "\<And>r u. r \<in> set (db_roles t) \<Longrightarrow> bit (ro_permissions r) 0 \<Longrightarrow>
      ro_is_default r \<or> (\<exists>m \<in> set (db_member_roles t). mr_role m = ro_id r \<and> mr_user m = u) \<Longrightarrow>
      \<exists>q \<in> set (db_roles s). bit (ro_permissions q) 0 \<and>
        (ro_is_default q \<or> (\<exists>m \<in> set (db_member_roles s). mr_role m = ro_id q \<and> mr_user m = u))"
  shows "no_new_admin s t"
proof -
  have views: "owner_of t = owner_of s" "guest_of t = guest_of s"
    using same_users_views [OF assms(1)] by auto
  show ?thesis
    unfolding no_new_admin_def admin_in_iff views using assms(2) by blast
qed


lemma nna_create:
  assumes "\<not> is_admin (rw_permissions w)"
  shows "wp (sq_create_role w) (\<lambda>_. no_new_admin s) (\<lambda>_. no_new_admin s) s"
proof -
  have "no_new_admin s t" if "db_users t = db_users s" "db_member_roles t = db_member_roles s"
    "db_roles t = db_roles s @ [r]" "ro_permissions r = rw_permissions w" for t r
    by (rule nna_roles) (use that assms in \<open>auto simp: is_admin_iff\<close>)
  moreover have "no_new_admin s (s\<lparr>db_env := e\<rparr>)" for e by (rule nna.frame_env)
  ultimately show ?thesis by (simp add: sq_create_role_def clock_defs wp_simps)
qed

lemma nna_update:
  assumes "\<not> is_admin (rw_permissions w)"
  shows "wp (sq_update_role rid w) (\<lambda>_. no_new_admin s) (\<lambda>_. no_new_admin s) s"
  unfolding sq_update_role_def wp_simps
  by (rule nna_roles) (use assms in \<open>auto simp: is_admin_iff set_upd_where split: if_splits\<close>)

lemma nna_delete: "wp (sq_delete_role rid) (\<lambda>_. no_new_admin s) (\<lambda>_. no_new_admin s) s"
  unfolding sq_delete_role_def wp_simps by (rule nna_roles) auto

lemma nna_unassign: "wp (sq_unassign_role u rid) (\<lambda>_. no_new_admin s) (\<lambda>_. no_new_admin s) s"
  unfolding sq_unassign_role_def wp_simps by (rule nna_roles) auto

lemma nna_assign:
  assumes "\<forall>r \<in> set (db_roles s). ro_id r = rid \<longrightarrow> \<not> is_admin (ro_permissions r)"
  shows "wp (sq_assign_role u rid) (\<lambda>_. no_new_admin s) (\<lambda>_. no_new_admin s) s"
proof -
  have "no_new_admin s (s\<lparr>db_member_roles := db_member_roles s @ [\<lparr>mr_user = u, mr_role = rid\<rparr>]\<rparr>)"
    by (rule nna_roles) (use assms in \<open>auto simp: is_admin_iff\<close>)
  then show ?thesis by (simp add: sq_assign_role_def wp_simps)
qed

lemma nna_reorder: "effect no_new_admin (sq_reorder_roles ids)"
  unfolding sq_reorder_roles_def
proof (intro nna.frame_transaction nna.eff_for_each)
  fix x :: "nat \<times> uuid"
  have "no_new_admin d (d\<lparr>db_roles := upd_where P (\<lambda>r. r\<lparr>ro_position := p\<rparr>) (db_roles d)\<rparr>)" for d p P
    by (rule nna_roles) (force simp: set_upd_where split: if_splits)+
  then show "effect no_new_admin (case x of (i, rid) \<Rightarrow> modify (\<lambda>d. d\<lparr>db_roles :=
      upd_where (\<lambda>r. ro_id r = rid \<and> \<not> ro_is_default r)
        (\<lambda>r. r\<lparr>ro_position := int (length ids) - int i\<rparr>) (db_roles d)\<rparr>))"
    by (auto intro: nna.frame_modify split: prod.splits)
qed

lemma find_role_unique:
  "distinct (map ro_id (db_roles d)) \<Longrightarrow> List.find (\<lambda>r. ro_id r = rid) (db_roles d) = Some q \<Longrightarrow>
   r \<in> set (db_roles d) \<Longrightarrow> ro_id r = rid \<Longrightarrow> r = q"
  using find_unique [of ro_id "db_roles d" r] by simp


lemma nna_tick: "no_new_admin (tick d) t \<longleftrightarrow> no_new_admin d t"
  by (simp add: no_new_admin_def admin_in_def)

lemma wp_nna:
  "wp m (\<lambda>_. no_new_admin (tick d)) (\<lambda>_. no_new_admin (tick d)) (tick d) \<Longrightarrow>
   (\<And>a t. no_new_admin d t \<Longrightarrow> Q a t) \<Longrightarrow> wp m Q (\<lambda>_. no_new_admin d) (tick d)"
  by (erule wp_mono) (simp_all add: nna_tick)

lemma wp_authed: "user_of E meta d = Some a \<Longrightarrow> wp (bnd (caller E meta) f) Q X d = wp (f a) Q X (tick d)"
  by (auto simp: wp_bnd wp_caller user_of_alt)

lemma wp_denied:
  "user_of E meta d = None \<Longrightarrow> (\<And>e. X e d) \<Longrightarrow> (\<And>e. X e (tick d)) \<Longrightarrow> wp (bnd (caller E meta) f) Q X d"
  by (auto simp: wp_bnd wp_caller user_of_def split: option.splits)

lemma nna_create_role:
  assumes who: "user_of E meta d = Some a" and plain: "\<not> is_admin (perms_of d a)"
  shows "wp (create_role E meta req) (\<lambda>_. no_new_admin d) (\<lambda>_. no_new_admin d) d"
proof -
  have step: "wp (sq_create_role (write_of n p req)) (\<lambda>rid. wp (the_role rid)
      (\<lambda>role. wp (ret (role_to_proto E role)) (\<lambda>_. no_new_admin d) (\<lambda>_. no_new_admin d))
      (\<lambda>_. no_new_admin d)) (\<lambda>_. no_new_admin d) (tick d)" if "\<not> is_admin p" for n p
    by (rule wp_nna [OF nna_create]) (use that in \<open>auto simp: write_of_def wp_simps split: option.splits\<close>)
  show ?thesis
    unfolding create_role_def wp_authed [OF who] using plain step
    by (auto simp: wp_simps split: option.splits if_splits)
qed

lemma nna_update_role:
  assumes who: "user_of E meta d = Some a" and plain: "\<not> is_admin (perms_of d a)"
  shows "wp (update_role E meta req) (\<lambda>_. no_new_admin d) (\<lambda>_. no_new_admin d) d"
proof -
  have step: "wp (sq_update_role rid (write_of n p req)) (\<lambda>_. wp (the_role rid)
      (\<lambda>role. wp (ret (role_to_proto E role)) (\<lambda>_. no_new_admin d) (\<lambda>_. no_new_admin d))
      (\<lambda>_. no_new_admin d)) (\<lambda>_. no_new_admin d) (tick d)" if "\<not> is_admin p" for n p rid
    by (rule wp_nna [OF nna_update]) (use that in \<open>auto simp: write_of_def wp_simps split: option.splits\<close>)
  show ?thesis
    unfolding update_role_def wp_authed [OF who] using plain step
    by (auto simp: wp_simps split: option.splits if_splits)
qed

lemma nna_delete_role:
  assumes who: "user_of E meta d = Some a" and plain: "\<not> is_admin (perms_of d a)"
  shows "wp (delete_role E meta rid) (\<lambda>_. no_new_admin d) (\<lambda>_. no_new_admin d) d"
  unfolding delete_role_def wp_authed [OF who]
  using wp_nna [OF nna_delete, of d "\<lambda>_. no_new_admin d"]
  by (auto simp: wp_simps split: option.splits)

lemma nna_unassign_role:
  assumes who: "user_of E meta d = Some a" and plain: "\<not> is_admin (perms_of d a)"
  shows "wp (unassign_role E meta req) (\<lambda>_. no_new_admin d) (\<lambda>_. no_new_admin d) d"
  unfolding unassign_role_def wp_authed [OF who]
  using wp_nna [OF nna_unassign, of d "\<lambda>_. no_new_admin d"]
  by (auto simp: wp_simps split: option.splits)

lemma nna_assign_role:
  assumes who: "user_of E meta d = Some a" and plain: "\<not> is_admin (perms_of d a)"
    and dist: "distinct (map ro_id (db_roles d))"
  shows "wp (assign_role E meta req) (\<lambda>_. no_new_admin d) (\<lambda>_. no_new_admin d) d"
proof -
  have step: "wp (sq_assign_role u rid) (\<lambda>_. no_new_admin d) (\<lambda>_. no_new_admin d) (tick d)"
    if "List.find (\<lambda>r. ro_id r = rid) (db_roles d) = Some q" "\<not> is_admin (ro_permissions q)" for u rid q
    by (rule wp_nna [OF nna_assign]) (use that find_role_unique [OF dist that(1)] in auto)
  show ?thesis
    unfolding assign_role_def wp_authed [OF who] using plain step
    by (auto simp: wp_simps split: option.splits)
qed

lemma nna_reorder_roles: "wp (reorder_roles E meta ids) (\<lambda>_. no_new_admin d) (\<lambda>_. no_new_admin d) d"
proof -
  have "effect no_new_admin (check_reorder rk n ir)" for rk n ir
    by (cases ir) (auto simp: check_reorder_def the_role_def sq_get_role_def Let_def intro!: nna.frame_rules)
  then have "effect no_new_admin (reorder_roles E meta ids)"
    unfolding reorder_roles_def by (intro nna.frame_rules nna.frame_auth nna_reorder)
  then show ?thesis by (intro wp_sndI) (simp add: effect_def)
qed

lemma nna_role_exec:
  assumes "user_of E meta d = Some a" and "\<not> is_admin (perms_of d a)"
    and "distinct (map ro_id (db_roles d))"
  shows "no_new_admin d (snd (role_exec E meta c d))"
proof (rule wp_sndD)
  show "wp (role_exec E meta c) (\<lambda>_. no_new_admin d) (\<lambda>_. no_new_admin d) d"
    using nna_create_role [OF assms(1,2)] nna_update_role [OF assms(1,2)] nna_delete_role [OF assms(1,2)]
      nna_reorder_roles nna_assign_role [OF assms] nna_unassign_role [OF assms(1,2)]
    by (cases c) (simp_all add: wp_simps)
qed

section \<open>Roles at or above the caller\<close>

text \<open>\<open>keep K\<close>: the roles of \<open>K\<close> and their assignments are left as they are.\<close>

definition keep :: "roles_row set \<Rightarrow> db \<Rightarrow> db \<Rightarrow> bool" where
  "keep K s t \<longleftrightarrow> (\<forall>r \<in> K. r \<in> set (db_roles s) \<longrightarrow> r \<in> set (db_roles t) \<and>
     (\<forall>u. \<lparr>mr_user = u, mr_role = ro_id r\<rparr> \<in> set (db_member_roles t) \<longleftrightarrow>
          \<lparr>mr_user = u, mr_role = ro_id r\<rparr> \<in> set (db_member_roles s)))"

interpretation kp: db_frame "keep K" for K
  by unfold_locales (auto simp: keep_def)

lemma keep_create: "effect (keep K) (sq_create_role w)"
  unfolding sq_create_role_def by (intro kp.frame_rules) (auto simp: keep_def)

lemma keep_update: "rid \<notin> ro_id ` K \<Longrightarrow> effect (keep K) (sq_update_role rid w)"
  unfolding sq_update_role_def by (intro kp.frame_rules) (force simp: keep_def set_upd_where image_iff)

lemma keep_delete: "rid \<notin> ro_id ` K \<Longrightarrow> effect (keep K) (sq_delete_role rid)"
  unfolding sq_delete_role_def by (intro kp.frame_rules) (auto simp: keep_def)

lemma keep_assign: "rid \<notin> ro_id ` K \<Longrightarrow> effect (keep K) (sq_assign_role u rid)"
  unfolding sq_assign_role_def by (intro kp.frame_rules) (auto simp: keep_def)

lemma keep_unassign: "rid \<notin> ro_id ` K \<Longrightarrow> effect (keep K) (sq_unassign_role u rid)"
  unfolding sq_unassign_role_def by (intro kp.frame_rules) (auto simp: keep_def)

lemma effect_for_each_in:
  assumes "\<And>x. x \<in> set xs \<Longrightarrow> effect (keep K) (f x)"
  shows "effect (keep K) (for_each f xs)"
  using assms by (induction xs) (auto intro: kp.eff_bnd kp.eff_ret)

lemma keep_reorder:
  assumes "\<forall>rid \<in> set ids. rid \<notin> ro_id ` K"
  shows "effect (keep K) (sq_reorder_roles ids)"
  unfolding sq_reorder_roles_def
proof (intro kp.frame_transaction effect_for_each_in)
  fix x assume "x \<in> set (List.enumerate 0 ids)"
  then have "snd x \<in> set ids" by (metis in_set_zip enumerate_eq_zip nth_mem)
  with assms have "keep K d (d\<lparr>db_roles := upd_where (\<lambda>r. ro_id r = snd x \<and> \<not> ro_is_default r)
      (\<lambda>r. r\<lparr>ro_position := p\<rparr>) (db_roles d)\<rparr>)" for d p
    by (force simp: keep_def set_upd_where image_iff)
  then show "effect (keep K) (case x of (i, rid) \<Rightarrow> modify (\<lambda>d. d\<lparr>db_roles :=
      upd_where (\<lambda>r. ro_id r = rid \<and> \<not> ro_is_default r)
        (\<lambda>r. r\<lparr>ro_position := int (length ids) - int i\<rparr>) (db_roles d)\<rparr>))"
    by (cases x) (auto intro: kp.frame_modify)
qed

text \<open>The protected roles, and what passing the rank check means for them.\<close>

definition at_or_above :: "db \<Rightarrow> uuid \<Rightarrow> roles_row set" where
  "at_or_above d a = {r \<in> set (db_roles d). rank_of d a \<le> as_i32 (ro_position r)}"

lemma below_not_protected:
  assumes "distinct (map ro_id (db_roles d))"
    and "List.find (\<lambda>r. ro_id r = rid) (db_roles d) = Some q" and "as_i32 (ro_position q) < rank_of d a"
  shows "rid \<notin> ro_id ` at_or_above d a"
proof
  assume "rid \<in> ro_id ` at_or_above d a"
  then obtain r where "r \<in> set (db_roles d)" "ro_id r = rid" "rank_of d a \<le> as_i32 (ro_position r)"
    by (auto simp: at_or_above_def)
  moreover from this have "r = q" using find_role_unique [OF assms(1,2)] by blast
  ultimately show False using assms(3) by simp
qed

definition movable :: "db \<Rightarrow> int \<Rightarrow> nat \<Rightarrow> nat \<times> uuid \<Rightarrow> bool" where
  "movable d rk n ir \<longleftrightarrow> (\<exists>q. List.find (\<lambda>r. ro_id r = snd ir) (db_roles d) = Some q \<and>
     \<not> ro_is_default q \<and> as_i32 (ro_position q) < rk \<and> int n - int (fst ir) < rk)"

lemma wp_check_reorder:
  "(movable d rk n x \<Longrightarrow> Q () d) \<Longrightarrow> (\<And>e. X e d) \<Longrightarrow> wp (check_reorder rk n x) Q X d"
  by (cases x) (auto simp: check_reorder_def movable_def wp_simps split: option.splits)

lemma check_reorder_loop:
  "wp (for_each (check_reorder rk n) xs) (\<lambda>_ t. t = d \<and> (\<forall>x \<in> set xs. movable d rk n x)) (\<lambda>_ t. t = d) d"
proof (induction xs)
  case (Cons x xs)
  have "wp (for_each (check_reorder rk n) xs)
     (\<lambda>_ t. t = d \<and> (\<forall>y \<in> set (x # xs). movable d rk n y)) (\<lambda>_ t. t = d) d" if "movable d rk n x"
    by (rule wp_mono [OF Cons]) (use that in auto)
  then show ?case by (auto simp: wp_bnd intro: wp_check_reorder)
qed (simp add: wp_simps)

lemma snd_enumerate: "x \<in> set (List.enumerate 0 xs) \<Longrightarrow> snd x \<in> set xs"
  by (metis in_set_zip enumerate_eq_zip nth_mem)

lemma enumerate_snd: "y \<in> set xs \<Longrightarrow> \<exists>i. (i, y) \<in> set (List.enumerate 0 xs)"
  by (auto simp: in_set_conv_nth enumerate_eq_zip set_zip)

lemma keep_role_exec:
  assumes who: "user_of E meta d = Some a" and dist: "distinct (map ro_id (db_roles d))"
  defines "K \<equiv> at_or_above d a"
  shows "wp (role_exec E meta c) (\<lambda>_. keep K d) (\<lambda>_. keep K d) d"
proof -
  have low: "rid \<notin> ro_id ` K"
    if "List.find (\<lambda>r. ro_id r = rid) (db_roles d) = Some q" "as_i32 (ro_position q) < rank_of d a" for rid q
    unfolding K_def using dist that by (rule below_not_protected)
  have k: "keep K d d" "keep K d (tick d)" by (simp_all add: kp.eff_refl kp.frame_tick)
  show ?thesis
  proof (cases c)
    case (RCreate req)
    have "wp (create_role E meta req) (\<lambda>_. keep K d) (\<lambda>_. keep K d) d"
      unfolding create_role_def wp_authed [OF who] using k kp.frame_wp_tick [OF keep_create]
      by (auto simp: wp_simps split: option.splits)
    then show ?thesis using RCreate by (simp add: wp_simps)
  next
    case (RUpdate req)
    have "wp (update_role E meta req) (\<lambda>_. keep K d) (\<lambda>_. keep K d) d"
      unfolding update_role_def wp_authed [OF who] using k low kp.frame_wp_tick [OF keep_update]
      by (auto simp: wp_simps split: option.splits)
    then show ?thesis using RUpdate by (simp add: wp_simps)
  next
    case (RDelete rid)
    have "wp (delete_role E meta rid) (\<lambda>_. keep K d) (\<lambda>_. keep K d) d"
      unfolding delete_role_def wp_authed [OF who] using k low kp.frame_wp_tick [OF keep_delete]
      by (auto simp: wp_simps split: option.splits)
    then show ?thesis using RDelete by simp
  next
    case (RAssign req)
    have "wp (assign_role E meta req) (\<lambda>_. keep K d) (\<lambda>_. keep K d) d"
      unfolding assign_role_def wp_authed [OF who] using k low kp.frame_wp_tick [OF keep_assign]
      by (auto simp: wp_simps split: option.splits)
    then show ?thesis using RAssign by simp
  next
    case (RUnassign req)
    have "wp (unassign_role E meta req) (\<lambda>_. keep K d) (\<lambda>_. keep K d) d"
      unfolding unassign_role_def wp_authed [OF who] using k low kp.frame_wp_tick [OF keep_unassign]
      by (auto simp: wp_simps split: option.splits)
    then show ?thesis using RUnassign by simp
  next
    case (RReorder ids)
    have loop: "wp (for_each (check_reorder (rank_of d a) (length us)) (List.enumerate 0 us))
        (\<lambda>_. wp (sq_reorder_roles us) (\<lambda>_. keep K d) (\<lambda>_. keep K d)) (\<lambda>_. keep K d) (tick d)" for us
    proof (rule wp_mono [OF check_reorder_loop])
      fix t assume t: "t = tick d \<and> (\<forall>x \<in> set (List.enumerate 0 us). movable (tick d) (rank_of d a) (length us) x)"
      have "rid \<notin> ro_id ` K" if "rid \<in> set us" for rid
      proof -
        obtain i where "(i, rid) \<in> set (List.enumerate 0 us)" using enumerate_snd [OF \<open>rid \<in> set us\<close>] ..
        with t have "movable (tick d) (rank_of d a) (length us) (i, rid)" by blast
        then show ?thesis using low by (auto simp: movable_def)
      qed
      then have "\<forall>rid \<in> set us. rid \<notin> ro_id ` K" by blast
      then show "wp (sq_reorder_roles us) (\<lambda>_. keep K d) (\<lambda>_. keep K d) t"
        using t kp.frame_wp_tick [OF keep_reorder] by simp
    qed (use k in simp)
    have "wp (map_each (parse_uuid_or E m) ids) (\<lambda>us t. t = tick d) (\<lambda>_ t. t = tick d) (tick d)" for m
      by (rule wp_map_each) (auto simp: wp_simps split: option.splits)
    then have "wp (map_each (parse_uuid_or E m) ids) (\<lambda>us. wp (bnd (rank a) (\<lambda>rk.
        bnd (for_each (check_reorder rk (length us)) (List.enumerate 0 us)) (\<lambda>_. sq_reorder_roles us)))
          (\<lambda>_. keep K d) (\<lambda>_. keep K d)) (\<lambda>_. keep K d) (tick d)" for m
      by (rule wp_mono) (use loop k in \<open>auto simp: rank_eq wp_simps\<close>)
    then have "wp (reorder_roles E meta ids) (\<lambda>_. keep K d) (\<lambda>_. keep K d) d"
      unfolding reorder_roles_def wp_authed [OF who] using k by (auto simp: wp_bnd wp_require)
    then show ?thesis using RReorder by simp
  qed
qed

section \<open>The default role and reordering\<close>

definition default_roles :: "db \<Rightarrow> (uuid \<times> int) list" where
  "default_roles d = map (\<lambda>r. (ro_id r, ro_position r)) (filter ro_is_default (db_roles d))"

interpretation dr: db_view default_roles
  by unfold_locales (simp add: default_roles_def)

lemma default_roles_upd:
  "(\<And>r. P r \<Longrightarrow> ro_is_default (f r) = ro_is_default r) \<Longrightarrow>
   (\<And>r. P r \<Longrightarrow> ro_is_default r \<Longrightarrow> ro_id (f r) = ro_id r \<and> ro_position (f r) = ro_position r) \<Longrightarrow>
   map (\<lambda>r. (ro_id r, ro_position r)) (filter ro_is_default (upd_where P f rs)) =
   map (\<lambda>r. (ro_id r, ro_position r)) (filter ro_is_default rs)"
  by (induction rs) (auto simp: upd_where_def)

lemma dr_store:
  "effect dr.same_view (sq_create_role w)" "effect dr.same_view (sq_update_role rid w)"
  "effect dr.same_view (sq_delete_role rid)" "effect dr.same_view (sq_assign_role u rid)"
  "effect dr.same_view (sq_unassign_role u rid)" "effect dr.same_view (sq_reorder_roles ids)"
proof -
  have del: "filter ro_is_default (del_where (\<lambda>r. ro_id r = rid \<and> \<not> ro_is_default r) rs) = filter ro_is_default rs" for rs
    by (induction rs) (auto simp: del_where_def)
  show "effect dr.same_view (sq_create_role w)"
    unfolding sq_create_role_def by (intro dr.frame_rules) (simp add: dr.same_view_def default_roles_def)
  show "effect dr.same_view (sq_update_role rid w)"
    unfolding sq_update_role_def
    by (intro dr.frame_rules) (simp add: dr.same_view_def default_roles_def default_roles_upd)
  show "effect dr.same_view (sq_delete_role rid)"
    unfolding sq_delete_role_def by (intro dr.frame_rules) (simp_all add: dr.same_view_def default_roles_def del)
  show "effect dr.same_view (sq_assign_role u rid)"
    unfolding sq_assign_role_def by (intro dr.frame_rules) (simp add: dr.same_view_def default_roles_def)
  show "effect dr.same_view (sq_unassign_role u rid)"
    unfolding sq_unassign_role_def by (intro dr.frame_rules) (simp add: dr.same_view_def default_roles_def)
  show "effect dr.same_view (sq_reorder_roles ids)"
    unfolding sq_reorder_roles_def
    by (intro dr.frame_rules) (auto simp: dr.same_view_def default_roles_def intro!: default_roles_upd)
qed

lemma dr_role_exec: "effect dr.same_view (role_exec E meta c)"
proof -
  have small: "effect dr.same_view (parse_perms s)" "effect dr.same_view (guard_admin_escalation a p)"
    "effect dr.same_view (the_role rid)" "effect dr.same_view (role_user_id E x)"
    "effect dr.same_view (check_reorder rk n ir)" for s a p rid x rk n ir
    by (auto simp: parse_perms_def guard_admin_escalation_def the_role_def sq_get_role_def role_user_id_def
        check_reorder_def Let_def intro!: dr.frame_rules dr.frame_auth split: prod.splits)
  show ?thesis
    by (cases c)
      (auto simp: create_role_def update_role_def delete_role_def reorder_roles_def assign_role_def
        unassign_role_def intro!: dr.frame_rules dr.frame_auth small dr_store)
qed

text \<open>A whole run of the reordering loop: each listed role gets its descending position.\<close>

definition index_of :: "'a list \<Rightarrow> 'a \<Rightarrow> nat" where
  "index_of xs x = length (takeWhile (\<lambda>y. y \<noteq> x) xs)"

definition reposition :: "int \<Rightarrow> uuid list \<Rightarrow> roles_row \<Rightarrow> roles_row" where
  "reposition n us r = (if ro_id r \<in> set us \<and> \<not> ro_is_default r
     then r\<lparr>ro_position := n - int (index_of us (ro_id r))\<rparr> else r)"

lemma reorder_loop:
  "distinct us \<Longrightarrow>
   for_each (\<lambda>(i, rid). modify (\<lambda>d. d\<lparr>db_roles := upd_where (\<lambda>r. ro_id r = rid \<and> \<not> ro_is_default r)
      (\<lambda>r. r\<lparr>ro_position := n - int i\<rparr>) (db_roles d)\<rparr>)) (List.enumerate k us) d =
   (Inr (), d\<lparr>db_roles := map (reposition (n - int k) us) (db_roles d)\<rparr>)"
proof (induction us arbitrary: k d)
  case (Cons x us)
  have step: "reposition (n - (1 + int k)) us (if ro_id r = x \<and> \<not> ro_is_default r
      then r\<lparr>ro_position := n - int k\<rparr> else r) = reposition (n - int k) (x # us) r" for r
    using Cons.prems by (auto simp: reposition_def index_of_def)
  show ?case
    using Cons by (simp add: bnd_def modify_def upd_where_def step o_def)
next
  case Nil
  have "map (reposition m []) rs = rs" for m rs by (induction rs) (simp_all add: reposition_def)
  then show ?case by (simp add: ret_def)
qed

lemma reorder_store:
  "distinct us \<Longrightarrow> sq_reorder_roles us d =
     (Inr (), d\<lparr>db_roles := map (reposition (int (length us)) us) (db_roles d)\<rparr>)"
  by (simp add: sq_reorder_roles_def transaction_def reorder_loop)

section \<open>Properties\<close>

text \<open>
  C1: No escalation to administrator: whatever role RPC a caller without ADMINISTRATOR makes, and
  whether it succeeds or fails, a user who was not an administrator before is not one afterwards.
  (The role table has unique ids.)
\<close>

theorem no_admin_escalation:
  assumes "user_of E meta d = Some a" and "\<not> is_admin (perms_of d a)"
    and "distinct (map ro_id (db_roles d))" and "\<not> is_admin (perms_of d u)"
  shows "\<not> is_admin (perms_of (snd (role_exec E meta c d)) u)"
  using nna_role_exec [OF assms(1-3), of c] assms(4) by (auto simp: no_new_admin_def admin_in_def)

text \<open>Witness: the moderator, who may manage roles, asks for a role with every bit.\<close>

theorem no_admin_escalation_witness:
  "\<not> is_admin (perms_of (snd (role_exec demo_ext (demo_meta 2 22) (RCreate \<lparr>cq_name = ''boss'',
     cq_permissions = ''16383'', cq_color = [], cq_icon = [], cq_hoist = False, cq_mentionable = False\<rparr>)
     demo_db)) 3)"
proof (rule no_admin_escalation)
  show "user_of demo_ext (demo_meta 2 22) demo_db = Some 2" by simp
  show "\<not> is_admin (perms_of demo_db 2)" "\<not> is_admin (perms_of demo_db 3)"
    by (simp_all add: perms_of_def owner_of_def guest_of_def find_user_def member_bits_def is_admin_iff)
  show "distinct (map ro_id (db_roles demo_db))" by simp
qed

text \<open>
  C5: Rank protects roles: no role RPC, successful or not, changes, removes or reassigns a role
  whose position is at or above the caller's rank.
\<close>

theorem roles_above_untouched:
  assumes "user_of E meta d = Some a" and "distinct (map ro_id (db_roles d))"
    and "r \<in> set (db_roles d)" and "rank_of d a \<le> as_i32 (ro_position r)"
  shows "r \<in> set (db_roles (snd (role_exec E meta c d))) \<and>
    (\<lparr>mr_user = u, mr_role = ro_id r\<rparr> \<in> set (db_member_roles (snd (role_exec E meta c d))) \<longleftrightarrow>
     \<lparr>mr_user = u, mr_role = ro_id r\<rparr> \<in> set (db_member_roles d))"
  using wp_sndD [OF keep_role_exec [OF assms(1,2), of c]] assms(3,4)
  by (auto simp: keep_def at_or_above_def)

text \<open>Witness: the moderator tries to delete the moderator role, which is at its own rank.\<close>

theorem roles_above_untouched_witness:
  "demo_role 11 0x1F0 2 False \<in> set (db_roles (snd (role_exec demo_ext (demo_meta 2 22)
     (RDelete (unary 11)) demo_db)))"
proof -
  have "rank_of demo_db 2 \<le> as_i32 (ro_position (demo_role 11 0x1F0 2 False))"
    by (simp add: rank_of_def owner_of_def find_user_def assigned_roles_def max_or_def as_i32_def)
  then show ?thesis
    using roles_above_untouched [of demo_ext "demo_meta 2 22" demo_db 2 "demo_role 11 0x1F0 2 False"
        "RDelete (unary 11)"] by simp
qed

text \<open>
  The \<open>@everyone\<close> role is permanent: no role RPC adds, removes or moves a default role.
\<close>

theorem default_roles_permanent:
  "map (\<lambda>r. (ro_id r, ro_position r)) (filter ro_is_default (db_roles (snd (role_exec E meta c d)))) =
   map (\<lambda>r. (ro_id r, ro_position r)) (filter ro_is_default (db_roles d))"
  using dr_role_exec [of E meta c] by (simp add: effect_def dr.same_view_def default_roles_def)



end
