(* ===== verification/Groups_Service.thy ===== *)
theory Groups_Service
  imports Server
begin

text \<open>
  \<open>crates/accord-server/src/groups/service.rs\<close>: channels, private groups, membership, tavern identity,
  moderation, categories and profiles, with the guardrail gate in front of privileged mutations.
\<close>

section \<open>The guardrail gate\<close>

definition DEFAULT_PUBLIC_CHANNEL_ID :: string where
  "DEFAULT_PUBLIC_CHANNEL_ID = ''01900000-0000-7000-8000-000000000001''"

definition TAVERN_ID :: string where
  "TAVERN_ID = ''01900000-0000-7000-8000-000000000003''"

definition guardrails_check :: "uuid \<Rightarrow> action_class \<Rightarrow> action_context \<Rightarrow> guardrail_decision svact" where
  "guardrails_check actor action ctx =
     bnd (on_db now_instant) (\<lambda>now. \<lambda>s.
       case check_at actor action ctx now (sv_guard s) of (dec, g) \<Rightarrow> (Inr dec, s\<lparr>sv_guard := g\<rparr>))"

unbundle bit_operations_syntax

definition alert_admins :: "ext \<Rightarrow> uuid \<Rightarrow> string \<Rightarrow> string \<Rightarrow> string \<Rightarrow> severity \<Rightarrow> unit svact" where
  "alert_admins E actor action target reason sev =
     unwrap_or () (bnd (on_db (sq_admin_device_ids (ADMINISTRATOR OR MANAGE_SERVER))) (\<lambda>devices.
     if devices = [] then ret () else
     bnd (on_db now_wall) (\<lambda>ns.
     hub_do (hub_send_mod_alert devices
       \<lparr>ma_actor_id = to_str E actor, ma_action = action, ma_target = target, ma_reason = reason,
        ma_severity = sev,
        ma_timestamp = \<lparr>ts_seconds = int (secs_of ns), ts_nanos = int (ns mod 1000000000)\<rparr>\<rparr>))))"

fun decision_report :: "guardrail_decision \<Rightarrow> string \<times> string \<times> severity" where
  "decision_report (Throttle n reason) = (''throttle'', reason, Hostile)"
| "decision_report (Deny reason) = (''deny'', reason, Hostile)"
| "decision_report (AllowFlagged reason) = (''flagged'', reason, Warn)"
| "decision_report Allow = (''allow'', [], Info)"

fun decision_result :: "guardrail_decision \<Rightarrow> unit rpc" where
  "decision_result Allow = ret ()"
| "decision_result (AllowFlagged reason) = ret ()"
| "decision_result (Throttle n reason) = fail (Status CodeResourceExhausted reason)"
| "decision_result (Deny reason) = fail (Status CodeFailedPrecondition reason)"

definition guard ::
  "ext \<Rightarrow> uuid \<Rightarrow> action_class \<Rightarrow> string \<Rightarrow> string option \<Rightarrow> string list \<Rightarrow> unit rpc" where
  "guard E actor action target name recent_names =
     bnd (rpc (unwrap_or False (on_db (sq_is_owner actor)))) (\<lambda>is_owner.
     bnd (rpc (guardrails_check actor action
       \<lparr>ac_name = name, ac_recent_names = recent_names, ac_is_owner = is_owner\<rparr>)) (\<lambda>decision.
     bnd (if is_notable decision then
            (case decision_report decision of (verdict, reason, sev) \<Rightarrow>
              bnd (rpc (unwrap_or () (on_db
                (sq_record_audit actor (action_as_str action) target verdict reason)))) (\<lambda>_.
              rpc (alert_admins E actor (action_as_str action) target reason sev)))
          else ret ()) (\<lambda>_.
     decision_result decision)))"

section \<open>Channels and private groups\<close>

record create_public_group_request =
  pq_name :: string
  pq_description :: string
  pq_channel_kind :: string
  pq_category_id :: string

record welcome_target =
  wt_device_id :: "string option"
  wt_welcome :: bytes

record create_private_group_request =
  vq_group_id :: "string option"
  vq_name :: string
  vq_member_ids :: "string list"
  vq_welcomes :: "welcome_target list"

record group_members_request =
  mq_group_id :: "string option"
  mq_member_ids :: "string list"

datatype chat_kind = KindPublic | KindPrivate | KindUnspecified

record group_summary =
  sm_group_id :: string
  sm_name :: string
  sm_kind :: chat_kind
  sm_member_count :: int
  sm_channel_kind :: string
  sm_category_id :: string
  sm_position :: int

record member_info =
  mi_user_id :: string
  mi_username :: string
  mi_display_name :: string
  mi_is_owner :: bool
  mi_online :: bool
  mi_role_ids :: "string list"
  mi_avatar_url :: string

definition summary_to_proto :: "ext \<Rightarrow> group_summary_row \<Rightarrow> group_summary" where
  "summary_to_proto E row = \<lparr>sm_group_id = to_str E (gs_id row), sm_name = gs_name row,
     sm_kind = (if gs_kind row = ''public'' then KindPublic
                else if gs_kind row = ''private'' then KindPrivate else KindUnspecified),
     sm_member_count = max (gs_member_count row) 0, sm_channel_kind = gs_channel_kind row,
     sm_category_id = gs_category_id row, sm_position = gs_position row\<rparr>"

definition caller_claims :: "ext \<Rightarrow> req_meta \<Rightarrow> (claims \<times> uuid) dbact" where
  "caller_claims E meta =
     bnd (authenticate E meta) (\<lambda>claims.
     bnd (parse_uuid E (cl_sub claims)) (\<lambda>uid. ret (claims, uid)))"

definition create_public_group :: "ext \<Rightarrow> req_meta \<Rightarrow> create_public_group_request \<Rightarrow> string rpc" where
  "create_public_group E meta req =
     bnd (call (caller_claims E meta)) (\<lambda>(claims, user_id).
     let name = trim (pq_name req) in
     if name = [] then rpc (fail (InvalidArgument ''group name is required'')) else
     let channel_kind = (if trim (pq_channel_kind req) = ''voice'' then ''voice'' else ''text'') in
     bnd (call (require user_id MANAGE_CHANNELS)) (\<lambda>_.
     bnd (rpc (unwrap_or [] (on_db (sq_list_groups_for_user user_id)))) (\<lambda>rows.
     let recent_names = map gs_name (filter (\<lambda>g. gs_kind g = ''public'') rows) in
     bnd (guard E user_id CreateChannel name (Some name) recent_names) (\<lambda>_.
     bnd (call (sq_create_public_group name (trim (pq_description req)) channel_kind
       (trim (pq_category_id req)))) (\<lambda>group_id.
     bnd (call (sq_add_member group_id user_id ''owner'')) (\<lambda>_.
     bnd (case parse_str E (cl_device_id claims) of
            Some device \<Rightarrow> hub_do (hub_subscribe device group_id) | None \<Rightarrow> ret ()) (\<lambda>_.
     ret (to_str E group_id))))))))"

text \<open>The welcome relay, shared in shape with \<open>mls_relay/service.rs\<close>.\<close>

definition relay_welcome :: "ext \<Rightarrow> uuid \<Rightarrow> welcome_target \<Rightarrow> unit svact" where
  "relay_welcome E group_id target =
     bnd (on_db (some_or (InvalidArgument ''welcome target needs device_id'') (wt_device_id target))) (\<lambda>did.
     bnd (on_db (parse_uuid_or E ''bad device id'' did)) (\<lambda>device.
     bnd (on_db (sq_enqueue_inbox device ''welcome'' group_id (wt_welcome target))) (\<lambda>_.
     bnd (on_hub (hub_publish_welcome E device group_id (wt_welcome target))) (\<lambda>_.
     hub_do (hub_subscribe device group_id)))))"

definition create_private_group :: "ext \<Rightarrow> req_meta \<Rightarrow> create_private_group_request \<Rightarrow> string rpc" where
  "create_private_group E meta req =
     bnd (call (caller_claims E meta)) (\<lambda>(claims, creator).
     bnd (call (parse_uuid E (cl_device_id claims))) (\<lambda>creator_device.
     bnd (call (require_group_id E (vq_group_id req))) (\<lambda>group_id.
     let name = (if trim (vq_name req) = [] then ''Direct message'' else trim (vq_name req)) in
     bnd (call (sq_create_private_group_with_id E group_id name)) (\<lambda>_.
     bnd (call (sq_add_member group_id creator ''owner'')) (\<lambda>_.
     bnd (for_each (\<lambda>member.
       bnd (call (parse_uuid_or E ''member id is not a valid UUID'' member)) (\<lambda>uid.
       call (sq_add_member group_id uid ''member''))) (vq_member_ids req)) (\<lambda>_.
     bnd (for_each (\<lambda>w. rpc (relay_welcome E group_id w)) (vq_welcomes req)) (\<lambda>_.
     bnd (hub_do (hub_subscribe creator_device group_id)) (\<lambda>_.
     ret (to_str E group_id)))))))))"

definition add_members :: "ext \<Rightarrow> req_meta \<Rightarrow> group_members_request \<Rightarrow> unit rpc" where
  "add_members E meta req =
     bnd (call (caller_claims E meta)) (\<lambda>(claims, actor).
     bnd (call (sq_is_user_guest actor)) (\<lambda>guest.
     if guest then rpc (fail PermissionDenied) else
     bnd (call (require_group_id E (mq_group_id req))) (\<lambda>group_id.
     bnd (call (sq_get_group E group_id)) (\<lambda>grp.
     if gs_kind grp \<noteq> ''public''
     then fail (Status CodeUnimplemented ''adding members to private groups requires an MLS Commit'') else
     for_each (\<lambda>member.
       bnd (call (parse_uuid_or E ''member id is not a valid UUID'' member)) (\<lambda>uid.
       bnd (call (sq_is_user_guest uid)) (\<lambda>g. if g then rpc (fail PermissionDenied) else
       bnd (call (sq_is_banned uid)) (\<lambda>b.
         if b then fail (Status CodeFailedPrecondition ''user is banned from this server'') else
       call (sq_add_member group_id uid ''member''))))) (mq_member_ids req)))))"

definition remove_members :: "ext \<Rightarrow> req_meta \<Rightarrow> group_members_request \<Rightarrow> unit rpc" where
  "remove_members E meta req =
     bnd (call (caller_claims E meta)) (\<lambda>(claims, actor).
     bnd (call (require_group_id E (mq_group_id req))) (\<lambda>group_id.
     for_each (\<lambda>member.
       bnd (call (parse_uuid_or E ''member id is not a valid UUID'' member)) (\<lambda>uid.
       bnd (if uid \<noteq> actor then
              bnd (call (require actor KICK_MEMBERS)) (\<lambda>_.
              guard E actor KickMember (to_str E uid) None [])
            else ret ()) (\<lambda>_.
       call (sq_remove_member group_id uid)))) (mq_member_ids req)))"

definition list_groups :: "ext \<Rightarrow> req_meta \<Rightarrow> group_summary list rpc" where
  "list_groups E meta =
     bnd (call (caller_claims E meta)) (\<lambda>(claims, user_id).
     bnd (call (sq_list_groups_for_user user_id)) (\<lambda>rows.
     ret (map (summary_to_proto E) rows)))"

definition get_group_info :: "ext \<Rightarrow> req_meta \<Rightarrow> string option \<Rightarrow> (group_summary \<times> string \<times> string list) rpc" where
  "get_group_info E meta gid =
     bnd (call (authenticate E meta)) (\<lambda>_.
     bnd (call (require_group_id E gid)) (\<lambda>group_id.
     bnd (call (sq_get_group E group_id)) (\<lambda>row.
     bnd (call (sq_member_ids group_id)) (\<lambda>ids.
     ret (summary_to_proto E row, gs_description row, map (to_str E) ids)))))"

definition delete_group :: "ext \<Rightarrow> req_meta \<Rightarrow> string option \<Rightarrow> unit rpc" where
  "delete_group E meta gid =
     bnd (call (caller_claims E meta)) (\<lambda>(claims, user_id).
     bnd (call (require_group_id E gid)) (\<lambda>group_id.
     bnd (call (sq_get_group E group_id)) (\<lambda>grp.
     if gs_kind grp \<noteq> ''public''
     then fail (Status CodeFailedPrecondition ''private groups are not deleted through this RPC'') else
     bnd (call (require user_id MANAGE_CHANNELS)) (\<lambda>_.
     bnd (guard E user_id DeleteChannel (gs_name grp) None []) (\<lambda>_.
     call (sq_delete_group group_id))))))"

definition list_members :: "ext \<Rightarrow> req_meta \<Rightarrow> string option \<Rightarrow> member_info list rpc" where
  "list_members E meta gid =
     bnd (call (caller_claims E meta)) (\<lambda>(claims, user_id).
     bnd (call (require_group_id E gid)) (\<lambda>group_id.
     bnd (call (sq_is_member group_id user_id)) (\<lambda>m. if \<not> m then rpc (fail PermissionDenied) else
     bnd (call (sq_list_members group_id)) (\<lambda>rows.
     map_each (\<lambda>m.
       bnd (rpc (unwrap_or [] (on_db (sq_roles_for_user (mb_user_id m))))) (\<lambda>roles.
       bnd (rpc (unwrap_or [] (on_db (sq_device_ids_for_user (mb_user_id m))))) (\<lambda>devices.
       bnd (gets (\<lambda>s. list_ex (\<lambda>dev. hub_is_connected dev (sv_hub s)) devices)) (\<lambda>online.
       ret \<lparr>mi_user_id = to_str E (mb_user_id m), mi_username = mb_username m,
            mi_display_name = mb_display_name m, mi_is_owner = mb_is_owner m, mi_online = online,
            mi_role_ids = map (\<lambda>r. to_str E (rl_id r)) roles, mi_avatar_url = mb_avatar_url m\<rparr>)))) rows))))"

section \<open>Tavern identity and moderation\<close>

record update_tavern_request =
  tq_name :: string
  tq_icon_url :: string
  tq_description :: string
  tq_banner_url :: string

record member_request =
  kq_group_id :: "string option"
  kq_user_id :: "string option"

record ban_request =
  bq_user_id :: "string option"
  bq_reason :: string

definition get_tavern :: "ext \<Rightarrow> req_meta \<Rightarrow> tavern_row rpc" where
  "get_tavern E meta = bnd (call (authenticate E meta)) (\<lambda>_. call sq_get_tavern)"

definition update_tavern :: "ext \<Rightarrow> req_meta \<Rightarrow> update_tavern_request \<Rightarrow> tavern_row rpc" where
  "update_tavern E meta req =
     bnd (call (caller_claims E meta)) (\<lambda>(claims, user_id).
     bnd (call (require user_id MANAGE_SERVER)) (\<lambda>_.
     bnd (guard E user_id UpdateServer ''tavern'' None []) (\<lambda>_.
     bnd (some_or (Status CodeInternal ''bad TAVERN_ID constant'') (parse_str E TAVERN_ID)) (\<lambda>tavern_id.
     bnd (call (sq_upsert_tavern tavern_id (trim (tq_name req)) (trim (tq_icon_url req))
       (trim (tq_description req)) (trim (tq_banner_url req)))) (\<lambda>_.
     call sq_get_tavern)))))"

definition kick_member :: "ext \<Rightarrow> req_meta \<Rightarrow> member_request \<Rightarrow> unit rpc" where
  "kick_member E meta req =
     bnd (call (caller_claims E meta)) (\<lambda>(claims, actor).
     bnd (call (require_group_id E (kq_group_id req))) (\<lambda>group_id.
     bnd (call (require_user_id E (kq_user_id req))) (\<lambda>target.
     bnd (if target \<noteq> actor then
            bnd (call (require actor KICK_MEMBERS)) (\<lambda>_.
            bnd (call (require_outranks actor target)) (\<lambda>_.
            guard E actor KickMember (to_str E target) None []))
          else ret ()) (\<lambda>_.
     call (sq_remove_member group_id target)))))"

definition ban_member :: "ext \<Rightarrow> req_meta \<Rightarrow> ban_request \<Rightarrow> unit rpc" where
  "ban_member E meta req =
     bnd (call (caller_claims E meta)) (\<lambda>(claims, actor).
     bnd (call (require_user_id E (bq_user_id req))) (\<lambda>target.
     bnd (call (require actor BAN_MEMBERS)) (\<lambda>_.
     bnd (call (sq_is_owner target)) (\<lambda>o'.
     if o' then fail (Status CodeFailedPrecondition ''cannot ban the server owner'') else
     bnd (call (require_outranks actor target)) (\<lambda>_.
     bnd (guard E actor BanMember (to_str E target) None []) (\<lambda>_.
     bnd (call (sq_group_ids_for_user target)) (\<lambda>gids.
     bnd (for_each (\<lambda>gid. call (sq_remove_member gid target)) gids) (\<lambda>_.
     call (sq_ban_user target actor (trim (bq_reason req)))))))))))"

definition unban_member :: "ext \<Rightarrow> req_meta \<Rightarrow> string option \<Rightarrow> unit rpc" where
  "unban_member E meta uid =
     bnd (call (caller_claims E meta)) (\<lambda>(claims, actor).
     bnd (call (require_user_id E uid)) (\<lambda>target.
     bnd (call (require actor BAN_MEMBERS)) (\<lambda>_.
     call (sq_unban_user target))))"

definition list_bans :: "ext \<Rightarrow> req_meta \<Rightarrow> ban_row list rpc" where
  "list_bans E meta =
     bnd (call (caller_claims E meta)) (\<lambda>(claims, actor).
     bnd (call (require actor BAN_MEMBERS)) (\<lambda>_.
     call sq_list_bans))"

definition list_audit :: "ext \<Rightarrow> req_meta \<Rightarrow> int \<Rightarrow> audit_row list rpc" where
  "list_audit E meta limit =
     bnd (call (caller_claims E meta)) (\<lambda>(claims, actor).
     bnd (call (require actor MANAGE_SERVER)) (\<lambda>_.
     call (sq_list_audit (max 1 (min 500 limit)))))"

section \<open>Categories\<close>

record category_proto =
  cp_id :: string
  cp_name :: string
  cp_position :: int

definition category_to_proto :: "ext \<Rightarrow> category_row \<Rightarrow> category_proto" where
  "category_to_proto E c = \<lparr>cp_id = to_str E (cr_id c), cp_name = cr_name c, cp_position = cr_position c\<rparr>"

definition list_categories :: "ext \<Rightarrow> req_meta \<Rightarrow> category_proto list rpc" where
  "list_categories E meta =
     bnd (call (authenticate E meta)) (\<lambda>_.
     bnd (call sq_list_categories) (\<lambda>rows. ret (map (category_to_proto E) rows)))"

definition create_category :: "ext \<Rightarrow> req_meta \<Rightarrow> string \<Rightarrow> category_proto rpc" where
  "create_category E meta name0 =
     bnd (call (caller_claims E meta)) (\<lambda>(claims, actor).
     bnd (call (require actor MANAGE_CHANNELS)) (\<lambda>_.
     let name = trim name0 in
     if name = [] then rpc (fail (InvalidArgument ''category name is required'')) else
     bnd (guard E actor CreateChannel name (Some name) []) (\<lambda>_.
     bnd (call (sq_create_category name)) (\<lambda>cid.
     bnd (call sq_list_categories) (\<lambda>rows.
     bnd (rpc (some_or (NotFound ''category'') (List.find (\<lambda>c. cr_id c = cid) rows))) (\<lambda>cat.
     ret (category_to_proto E cat)))))))"

definition delete_category :: "ext \<Rightarrow> req_meta \<Rightarrow> string \<Rightarrow> unit rpc" where
  "delete_category E meta cid0 =
     bnd (call (caller_claims E meta)) (\<lambda>(claims, actor).
     bnd (call (require actor MANAGE_CHANNELS)) (\<lambda>_.
     bnd (call (parse_uuid E cid0)) (\<lambda>cid.
     bnd (guard E actor DeleteChannel (to_str E cid) None []) (\<lambda>_.
     call (sq_delete_category E cid)))))"

definition reorder_categories :: "ext \<Rightarrow> req_meta \<Rightarrow> string list \<Rightarrow> unit rpc" where
  "reorder_categories E meta category_ids =
     bnd (call (caller_claims E meta)) (\<lambda>(claims, actor).
     bnd (call (require actor MANAGE_CHANNELS)) (\<lambda>_.
     bnd (call (map_each (parse_uuid E) category_ids)) (\<lambda>ids.
     call (sq_reorder_categories ids))))"

definition reorder_channels :: "ext \<Rightarrow> req_meta \<Rightarrow> string \<Rightarrow> string list \<Rightarrow> unit rpc" where
  "reorder_channels E meta category_id group_ids =
     bnd (call (caller_claims E meta)) (\<lambda>(claims, actor).
     bnd (call (require actor MANAGE_CHANNELS)) (\<lambda>_.
     bnd (call (map_each (parse_uuid E) group_ids)) (\<lambda>ids.
     call (sq_reorder_channels (trim category_id) ids))))"

section \<open>Profiles\<close>

definition get_my_profile :: "ext \<Rightarrow> req_meta \<Rightarrow> (string \<times> string \<times> string) rpc" where
  "get_my_profile E meta =
     bnd (call (caller_claims E meta)) (\<lambda>(claims, actor).
     bnd (call (sq_user_profile actor)) (\<lambda>p. rpc (some_or (NotFound ''profile'') p)))"

definition update_profile :: "ext \<Rightarrow> req_meta \<Rightarrow> string \<Rightarrow> string \<Rightarrow> (string \<times> string \<times> string) rpc" where
  "update_profile E meta display_name avatar_url =
     bnd (call (caller_claims E meta)) (\<lambda>(claims, actor).
     let name = trim display_name in
     if name = [] then rpc (fail (InvalidArgument ''display name is required'')) else
     bnd (call (sq_update_profile actor name (trim avatar_url))) (\<lambda>_.
     bnd (call (sq_user_profile actor)) (\<lambda>p. rpc (some_or (NotFound ''profile'') p))))"

end
