(* ===== verification/Auth_Service.thy ===== *)
theory Auth_Service
  imports Groups_Service
begin

text \<open>
  \<open>crates/accord-server/src/auth\<close>: token issue and key-login challenges (\<open>jwt.rs\<close>), the password hash
  (\<open>password.rs\<close>) and the registration, login, refresh and device RPCs (\<open>service.rs\<close>).
\<close>

section \<open>Tokens and passwords\<close>

definition jwt_issue :: "ext \<Rightarrow> nat \<Rightarrow> uuid \<Rightarrow> uuid \<Rightarrow> string dbact" where
  "jwt_issue E ttl_secs user device =
     bnd now_wall (\<lambda>ns.
     some_or (Token ''signing failed'') (jwt_encode E
       \<lparr>cl_sub = to_str E user, cl_device_id = to_str E device, cl_exp = secs_of ns + ttl_secs,
        cl_iat = secs_of ns\<rparr>))"

definition CHALLENGE_TTL_SECS :: nat where
  "CHALLENGE_TTL_SECS = 120"

definition issue_challenge :: "ext \<Rightarrow> string \<Rightarrow> string \<Rightarrow> string dbact" where
  "issue_challenge E identity_pubkey_hex nonce =
     bnd now_wall (\<lambda>ns.
     some_or (Token ''signing failed'') (challenge_encode E
       \<lparr>cc_sub = identity_pubkey_hex, cc_purpose = ''challenge'', cc_nonce = nonce,
        cc_exp = secs_of ns + CHALLENGE_TTL_SECS, cc_iat = secs_of ns\<rparr>))"

definition verify_challenge :: "ext \<Rightarrow> string \<Rightarrow> string dbact" where
  "verify_challenge E token =
     bnd now_wall (\<lambda>ns.
     bnd (some_or Unauthenticated (challenge_decode E (secs_of ns) token)) (\<lambda>claims.
     if cc_purpose claims \<noteq> ''challenge'' then fail Unauthenticated else ret (cc_sub claims)))"

definition hash_password :: "ext \<Rightarrow> string \<Rightarrow> string dbact" where
  "hash_password E password =
     bnd (on_env (read_env e_salt)) (\<lambda>salt.
     some_or (PasswordHash ''hashing failed'') (argon2_hash E password salt))"

definition verify_password :: "ext \<Rightarrow> string \<Rightarrow> string \<Rightarrow> bool dbact" where
  "verify_password E password stored_hash =
     (if stored_hash = [] then ret False
      else if \<not> phc_ok E stored_hash then fail (PasswordHash ''unparseable hash'')
      else ret (argon2_verify E password stored_hash))"

section \<open>Registration\<close>

definition REFRESH_TOKEN_TTL_DAYS :: int where "REFRESH_TOKEN_TTL_DAYS = 30"
definition MIN_PASSWORD_LEN :: nat where "MIN_PASSWORD_LEN = 8"
definition MAX_LOCAL_ACCOUNTS :: int where "MAX_LOCAL_ACCOUNTS = 3"
definition MAX_REMOTE_REGISTRATIONS_PER_WINDOW :: nat where "MAX_REMOTE_REGISTRATIONS_PER_WINDOW = 5"
definition REGISTRATION_WINDOW :: nat where "REGISTRATION_WINDOW = 3600 * 1000000000"

definition hex_digit :: "nat \<Rightarrow> char" where
  "hex_digit n = (if n < 10 then char_of (48 + n) else char_of (87 + n))"

definition hex_encode :: "bytes \<Rightarrow> string" where
  "hex_encode bs = concat (map (\<lambda>b. [hex_digit (unat b div 16), hex_digit (unat b mod 16)]) bs)"

definition v4_is_loopback :: "32 word \<Rightarrow> bool" where
  "v4_is_loopback a \<longleftrightarrow> drop_bit 24 a = 127"

definition to_ipv4_mapped :: "128 word \<Rightarrow> 32 word option" where
  "to_ipv4_mapped a = (if drop_bit 32 a = 0xFFFF then Some (ucast a) else None)"

fun is_loopback :: "ip_addr \<Rightarrow> bool" where
  "is_loopback (V4 a) = v4_is_loopback a"
| "is_loopback (V6 a) = (a = 1 \<or> (case to_ipv4_mapped a of None \<Rightarrow> False | Some m \<Rightarrow> v4_is_loopback m))"

definition check_registration_rate :: "ip_addr \<Rightarrow> unit svact" where
  "check_registration_rate ip =
     bnd (on_db now_instant) (\<lambda>now. \<lambda>s.
       let entries = filter (\<lambda>t. now - t < REGISTRATION_WINDOW)
             (case map_of (sv_reg_log s) ip of None \<Rightarrow> [] | Some ts \<Rightarrow> ts)
       in if length entries \<ge> MAX_REMOTE_REGISTRATIONS_PER_WINDOW
          then (Inl (RateLimited ''too many registrations from this address; try again later''),
                s\<lparr>sv_reg_log := AList.update ip entries (sv_reg_log s)\<rparr>)
          else (Inr (), s\<lparr>sv_reg_log := AList.update ip (entries @ [now]) (sv_reg_log s)\<rparr>))"

record register_request =
  rq_username :: string
  rq_display_name :: string
  rq_password :: string
  rq_invite_token :: string
  rq_identity_pubkey :: bytes

definition check_password_rules :: "register_request \<Rightarrow> unit svact" where
  "check_password_rules req =
     (if rq_password req = [] then
        ensure (rq_identity_pubkey req \<noteq> []) (InvalidArgument ''a password or an identity key is required'')
      else
        ensure (MIN_PASSWORD_LEN \<le> length (rq_password req))
          (InvalidArgument (''password must be at least '' @ show_nat MIN_PASSWORD_LEN @ '' characters'')))"

definition check_identity :: "bytes \<Rightarrow> bytes option svact" where
  "check_identity key =
     (if key = [] then ret None
      else if length key \<noteq> 32 then fail (InvalidArgument ''identity key must be 32 bytes'')
      else bnd (on_db (sq_identity_exists key)) (\<lambda>b.
        if b then fail (AlreadyExists ''identity key'') else ret (Some key)))"

definition register :: "ext \<Rightarrow> req_meta \<Rightarrow> register_request \<Rightarrow> string rpc" where
  "register E meta req =
     rpc (let is_local = (case rm_remote_ip meta of None \<Rightarrow> False | Some ip \<Rightarrow> is_loopback ip) in
     bnd (if \<not> is_local then
            (case rm_remote_ip meta of Some ip \<Rightarrow> check_registration_rate ip | None \<Rightarrow> ret ())
          else ret ()) (\<lambda>_.
     let username = trim (rq_username req) in
     if username = [] then fail (InvalidArgument ''username is required'') else
     bnd (check_password_rules req) (\<lambda>_.
     let display_name = (if trim (rq_display_name req) = [] then username else trim (rq_display_name req)) in
     bnd (on_db sq_count_users) (\<lambda>user_count.
     bnd (gets sv_require_invite) (\<lambda>require_invite.
     let is_first_user = (user_count = 0 \<and> is_local) in
     if is_local \<and> require_invite \<and> user_count \<ge> MAX_LOCAL_ACCOUNTS
     then fail (InvalidArgument (''account limit reached ('' @ show_nat (nat MAX_LOCAL_ACCOUNTS) @ '' per device)'')) else
     let token = trim (rq_invite_token req) in
     bnd (if token \<noteq> [] then on_db (sq_is_invite_valid token) else ret False) (\<lambda>has_valid_invite.
     let is_member = (\<not> require_invite \<or> is_first_user \<or> is_local \<or> has_valid_invite) in
     bnd (gets sv_open_dms) (\<lambda>open_dms.
     if \<not> is_member \<and> \<not> open_dms then fail PermissionDenied else
     bnd (check_identity (rq_identity_pubkey req)) (\<lambda>identity_pubkey.
     bnd (if rq_password req = [] then ret [] else on_db (hash_password E (rq_password req))) (\<lambda>password_hash.
     bnd (on_db (sq_create_user username display_name password_hash is_first_user (\<not> is_member)
       identity_pubkey)) (\<lambda>user_id.
     ret (to_str E user_id)))))))))))"

section \<open>Sessions\<close>

record login_response =
  lr_access_token :: string
  lr_refresh_token :: string
  lr_user_id :: string
  lr_device_id :: string

definition in_days :: "nat \<Rightarrow> int \<Rightarrow> int" where
  "in_days ns days = ms_of ns + days * 86400000"

definition issue_session :: "ext \<Rightarrow> nat \<Rightarrow> user_row \<Rightarrow> string \<Rightarrow> login_response dbact" where
  "issue_session E ttl user device_name0 =
     (let device_name = (if trim device_name0 = [] then ''Unknown device'' else trim device_name0) in
     bnd (sq_find_device (ur_id user) device_name) (\<lambda>found.
     bnd (case found of Some existing \<Rightarrow> ret existing
          | None \<Rightarrow> sq_create_device (ur_id user) device_name) (\<lambda>device_id.
     bnd (if \<not> ur_is_guest user then
            (case parse_str E DEFAULT_PUBLIC_CHANNEL_ID of
               Some ch \<Rightarrow> unwrap_or () (sq_add_member ch (ur_id user) ''member'')
             | None \<Rightarrow> ret ())
          else ret ()) (\<lambda>_.
     bnd (jwt_issue E ttl (ur_id user) device_id) (\<lambda>access_token.
     bnd now_v7 (\<lambda>rt.
     bnd now_wall (\<lambda>ns.
     bnd (sq_store_refresh_token (to_str E rt) (ur_id user) device_id
       (in_days ns REFRESH_TOKEN_TTL_DAYS)) (\<lambda>_.
     ret \<lparr>lr_access_token = access_token, lr_refresh_token = to_str E rt,
          lr_user_id = to_str E (ur_id user), lr_device_id = to_str E device_id\<rparr>))))))))"

definition refuse_banned :: "uuid \<Rightarrow> unit rpc" where
  "refuse_banned uid =
     bnd (call (sq_is_banned uid)) (\<lambda>b.
     if b then fail (Status CodePermissionDenied ''this account is banned'') else ret ())"

definition start_session :: "ext \<Rightarrow> user_row \<Rightarrow> string \<Rightarrow> login_response rpc" where
  "start_session E user device_name =
     bnd (gets sv_ttl_secs) (\<lambda>ttl. call (issue_session E ttl user device_name))"

definition login :: "ext \<Rightarrow> string \<Rightarrow> string \<Rightarrow> string \<Rightarrow> login_response rpc" where
  "login E username password device_name =
     bnd (call (sq_find_user_by_username (trim username))) (\<lambda>row.
     bnd (rpc (some_or Unauthenticated row)) (\<lambda>user.
     bnd (call (verify_password E password (ur_password_hash user))) (\<lambda>ok.
     if \<not> ok then rpc (fail Unauthenticated) else
     bnd (refuse_banned (ur_id user)) (\<lambda>_.
     start_session E user device_name))))"

definition request_challenge :: "ext \<Rightarrow> bytes \<Rightarrow> string rpc" where
  "request_challenge E identity_pubkey =
     (if length identity_pubkey \<noteq> 32 then rpc (fail (InvalidArgument ''identity key must be 32 bytes'')) else
      bnd (call now_v7) (\<lambda>nonce.
      call (issue_challenge E (hex_encode identity_pubkey) (to_str E nonce))))"

record key_login_request =
  kl_identity_pubkey :: bytes
  kl_challenge :: string
  kl_signature :: bytes
  kl_device_name :: string

definition login_with_key :: "ext \<Rightarrow> key_login_request \<Rightarrow> login_response rpc" where
  "login_with_key E req =
     bnd (rpc (ensure (length (kl_identity_pubkey req) = 32)
       (InvalidArgument ''identity key must be 32 bytes''))) (\<lambda>_.
     bnd (rpc (ensure (length (kl_signature req) = 64)
       (InvalidArgument ''signature must be 64 bytes''))) (\<lambda>_.
     bnd (call (verify_challenge E (kl_challenge req))) (\<lambda>challenge_for.
     if challenge_for \<noteq> hex_encode (kl_identity_pubkey req) then rpc (fail Unauthenticated) else
     bnd (rpc (ensure (vk_ok E (kl_identity_pubkey req)) Unauthenticated)) (\<lambda>_.
     bnd (rpc (ensure (verify_strict E (kl_identity_pubkey req) (kl_challenge req) (kl_signature req))
       Unauthenticated)) (\<lambda>_.
     bnd (call (sq_find_user_by_identity (kl_identity_pubkey req))) (\<lambda>row.
     bnd (rpc (some_or Unauthenticated row)) (\<lambda>user.
     bnd (refuse_banned (ur_id user)) (\<lambda>_.
     start_session E user (kl_device_name req)))))))))"

definition refresh_token :: "ext \<Rightarrow> string \<Rightarrow> (string \<times> string) rpc" where
  "refresh_token E token =
     bnd (call (sq_lookup_refresh_token token)) (\<lambda>row0.
     bnd (rpc (some_or Unauthenticated row0)) (\<lambda>row.
     bnd (call now_wall) (\<lambda>ns.
     if rr_expires_at row * 1000000 < int ns then rpc (fail Unauthenticated) else
     bnd (gets sv_ttl_secs) (\<lambda>ttl.
     bnd (call (jwt_issue E ttl (rr_user_id row) (rr_device_id row))) (\<lambda>access_token.
     bnd (call now_v7) (\<lambda>rt.
     bnd (call now_wall) (\<lambda>ns2.
     bnd (call (sq_store_refresh_token (to_str E rt) (rr_user_id row) (rr_device_id row)
       (in_days ns2 REFRESH_TOKEN_TTL_DAYS))) (\<lambda>_.
     bnd (call (sq_delete_refresh_token token)) (\<lambda>_.
     ret (access_token, to_str E rt))))))))))"

section \<open>Devices, lookup and invites\<close>

definition register_device :: "ext \<Rightarrow> req_meta \<Rightarrow> bytes \<Rightarrow> string rpc" where
  "register_device E meta mls_credential =
     bnd (call (authenticate E meta)) (\<lambda>claims.
     bnd (call (parse_uuid_or E ''invalid device id in token'' (cl_device_id claims))) (\<lambda>device_id.
     bnd (call (sq_set_device_credential device_id mls_credential)) (\<lambda>_.
     ret (to_str E device_id))))"

definition revoke_device :: "ext \<Rightarrow> req_meta \<Rightarrow> string option \<Rightarrow> unit rpc" where
  "revoke_device E meta device_id =
     bnd (call (caller E meta)) (\<lambda>actor.
     bnd (rpc (some_or (InvalidArgument ''device_id is required'') device_id)) (\<lambda>did.
     bnd (call (parse_uuid_or E ''device_id is not a valid UUID'' did)) (\<lambda>uuid.
     call (sq_revoke_device actor uuid))))"

definition lookup_user :: "ext \<Rightarrow> req_meta \<Rightarrow> string \<Rightarrow> (string \<times> string) rpc" where
  "lookup_user E meta username =
     bnd (call (authenticate E meta)) (\<lambda>_.
     bnd (call (sq_find_user_by_username (trim username))) (\<lambda>row.
     bnd (rpc (some_or (NotFound (''user '' @ [CHR 0x27] @ trim username @ [CHR 0x27])) row)) (\<lambda>user.
     ret (to_str E (ur_id user), ur_display_name user))))"

definition auth_require :: "ext \<Rightarrow> req_meta \<Rightarrow> permissions \<Rightarrow> uuid dbact" where
  "auth_require E meta perm =
     bnd (caller E meta) (\<lambda>user_id.
     bnd (require user_id perm) (\<lambda>_. ret user_id))"

definition create_invite :: "ext \<Rightarrow> req_meta \<Rightarrow> string rpc" where
  "create_invite E meta =
     bnd (call (auth_require E meta CREATE_INVITE)) (\<lambda>user_id.
     bnd (call now_v7) (\<lambda>a.
     bnd (call now_v7) (\<lambda>b.
     let token = simple E a @ simple E b in
     bnd (call (sq_create_invite token user_id)) (\<lambda>_.
     ret token))))"

definition revoke_invite :: "ext \<Rightarrow> req_meta \<Rightarrow> string \<Rightarrow> unit rpc" where
  "revoke_invite E meta token =
     bnd (call (auth_require E meta CREATE_INVITE)) (\<lambda>_.
     call (sq_revoke_invite token))"

end
