(* ===== verification/Friends_Service.thy ===== *)
theory Friends_Service
  imports Server
begin

text \<open>\<open>crates/accord-server/src/friends/service.rs\<close>: friend requests parked on the recipient's node.\<close>

definition MAX_PARKED_REQUESTS :: int where "MAX_PARKED_REQUESTS = 50"
definition MAX_CODE_LEN :: nat where "MAX_CODE_LEN = 8 * 1024"

record send_friend_request_request =
  sf_recipient :: "string option"
  sf_kind :: string
  sf_contact_code :: string

fun contact_error_text :: "code_error \<Rightarrow> string" where
  "contact_error_text BadPrefix = ''not an Accord contact code''"
| "contact_error_text BadBase64 = ''contact code is malformed (base64)''"
| "contact_error_text BadPayload = ''contact code is malformed (payload)''"

definition optional_uuid :: "ext \<Rightarrow> string option \<Rightarrow> uuid option" where
  "optional_uuid E s = (case s of None \<Rightarrow> None | Some v \<Rightarrow> parse_str E v)"

definition parse_contact :: "ext \<Rightarrow> string \<Rightarrow> contact_code dbact" where
  "parse_contact E code =
     (case contact_decode (b64_decode E) (contact_json_decode E) code of
        Inl e \<Rightarrow> fail (InvalidArgument (''bad contact code: '' @ contact_error_text e))
      | Inr c \<Rightarrow> ret c)"

definition send_friend_request :: "ext \<Rightarrow> req_meta \<Rightarrow> send_friend_request_request \<Rightarrow> unit dbact" where
  "send_friend_request E meta req =
     bnd (caller E meta) (\<lambda>_.
     bnd (some_or (InvalidArgument ''recipient id required'') (optional_uuid E (sf_recipient req))) (\<lambda>recipient.
     bnd (ensure (sf_kind req = ''request'' \<or> sf_kind req = ''accept'')
       (InvalidArgument (''kind must be '' @ [CHR 0x27] @ ''request'' @ [CHR 0x27] @ '' or '' @ [CHR 0x27] @
          ''accept'' @ [CHR 0x27]))) (\<lambda>_.
     bnd (ensure (length (sf_contact_code req) \<le> MAX_CODE_LEN)
       (InvalidArgument ''contact code too large'')) (\<lambda>_.
     bnd (parse_contact E (sf_contact_code req)) (\<lambda>parsed.
     bnd (ensure (length (cc_identity_pubkey parsed) = 32)
       (InvalidArgument ''contact code has an invalid identity'')) (\<lambda>_.
     bnd (sq_count_friend_requests recipient) (\<lambda>n.
     if n \<ge> MAX_PARKED_REQUESTS
     then fail (RateLimited ''this user has too many pending friend requests'') else
     sq_upsert_friend_request E recipient (cc_identity_pubkey parsed) (sf_kind req)
       (sf_contact_code req))))))))"

definition list_friend_requests :: "ext \<Rightarrow> req_meta \<Rightarrow> friend_request_row list dbact" where
  "list_friend_requests E meta = bnd (caller E meta) sq_list_friend_requests"

definition delete_friend_request :: "ext \<Rightarrow> req_meta \<Rightarrow> string \<Rightarrow> unit dbact" where
  "delete_friend_request E meta rid =
     bnd (caller E meta) (\<lambda>user_id. sq_delete_friend_request user_id rid)"

definition get_public_profile :: "ext \<Rightarrow> req_meta \<Rightarrow> string option \<Rightarrow> (string \<times> string) dbact" where
  "get_public_profile E meta uid =
     bnd (caller E meta) (\<lambda>_.
     bnd (some_or (InvalidArgument ''user id required'') (optional_uuid E uid)) (\<lambda>user_id.
     bnd (sq_user_profile user_id) (\<lambda>p.
     bnd (some_or (NotFound ''no such user'') p) (\<lambda>(username, display_name, avatar).
     ret (username, display_name)))))"

end
