(* ===== verification/Vault_Backup.thy ===== *)
theory Vault_Backup
  imports Server
begin

text \<open>
  \<open>crates/accord-server/src/vault/service.rs\<close> and \<open>backup/service.rs\<close>: per-account stores of opaque
  bytes.
\<close>

section \<open>Vault\<close>

definition MAX_NAME_LEN :: nat where "MAX_NAME_LEN = 256"

definition check_name :: "string \<Rightarrow> unit dbact" where
  "check_name name = ensure (name \<noteq> [] \<and> length name \<le> MAX_NAME_LEN) (InvalidArgument ''invalid blob name'')"

definition put_blob :: "ext \<Rightarrow> req_meta \<Rightarrow> string \<Rightarrow> bytes \<Rightarrow> unit dbact" where
  "put_blob E meta name blob =
     bnd (caller E meta) (\<lambda>user_id.
     bnd (check_name name) (\<lambda>_.
     bnd (ensure (blob \<noteq> []) (InvalidArgument ''empty blob'')) (\<lambda>_.
     sq_put_vault_blob user_id name blob)))"

definition get_blob :: "ext \<Rightarrow> req_meta \<Rightarrow> string \<Rightarrow> bytes dbact" where
  "get_blob E meta name =
     bnd (caller E meta) (\<lambda>user_id.
     bnd (sq_get_vault_blob user_id name) (some_or (NotFound ''vault blob'')))"

definition list_blobs :: "ext \<Rightarrow> req_meta \<Rightarrow> string \<Rightarrow> string list dbact" where
  "list_blobs E meta prefix = bnd (caller E meta) (\<lambda>user_id. sq_list_vault_blobs user_id prefix)"

definition delete_blob :: "ext \<Rightarrow> req_meta \<Rightarrow> string \<Rightarrow> unit dbact" where
  "delete_blob E meta name = bnd (caller E meta) (\<lambda>user_id. sq_delete_vault_blob user_id name)"

section \<open>Key backup\<close>

record key_backup =
  bu_encrypted_blob :: bytes
  bu_salt :: bytes
  bu_argon2_params :: bytes
  bu_version :: "32 word"

definition store_backup :: "uuid \<Rightarrow> key_backup \<Rightarrow> unit dbact" where
  "store_backup user_id b =
     bnd (ensure (bu_encrypted_blob b \<noteq> [] \<and> bu_salt b \<noteq> [] \<and> bu_argon2_params b \<noteq> [])
       (InvalidArgument ''incomplete backup'')) (\<lambda>_.
     sq_upsert_backup user_id (bu_encrypted_blob b) (bu_salt b) (bu_argon2_params b)
       (as_i32 (uint (bu_version b))))"

definition upload_key_backup :: "ext \<Rightarrow> req_meta \<Rightarrow> key_backup \<Rightarrow> unit dbact" where
  "upload_key_backup E meta b = bnd (caller E meta) (\<lambda>user_id. store_backup user_id b)"

definition download_key_backup :: "ext \<Rightarrow> req_meta \<Rightarrow> key_backup dbact" where
  "download_key_backup E meta =
     bnd (caller E meta) (\<lambda>user_id.
     bnd (sq_get_backup user_id) (\<lambda>r0.
     bnd (some_or (NotFound ''key backup'') r0) (\<lambda>row.
     ret \<lparr>bu_encrypted_blob = bk_encrypted_blob row, bu_salt = bk_salt row,
          bu_argon2_params = bk_argon2_params row, bu_version = word_of_int (bk_version row)\<rparr>)))"

definition update_key_backup :: "ext \<Rightarrow> req_meta \<Rightarrow> key_backup \<Rightarrow> unit dbact" where
  "update_key_backup E meta b = bnd (caller E meta) (\<lambda>user_id. store_backup user_id b)"

definition delete_key_backup :: "ext \<Rightarrow> req_meta \<Rightarrow> unit dbact" where
  "delete_key_backup E meta = bnd (caller E meta) sq_delete_backup"

section \<open>The contract of an account store\<close>

text \<open>
  \<open>account_store\<close> is what both services rely on: entries are found under an account and a key, a
  write never fails and is read back, an erase removes exactly its entry, and nothing a store does to
  one account shows in another.
\<close>

locale account_store =
  fixes entry :: "db \<Rightarrow> uuid \<Rightarrow> 'k \<Rightarrow> 'v option"
    and store_at :: "uuid \<Rightarrow> 'k \<Rightarrow> 'v \<Rightarrow> unit dbact"
    and erase_at :: "uuid \<Rightarrow> 'k \<Rightarrow> unit dbact"
  assumes write_ok: "fst (store_at u k v d) = Inr ()"
    and entry_write: "entry (snd (store_at u k v d)) u' k' = (if u' = u \<and> k' = k then Some v else entry d u' k')"
    and erase_ok: "fst (erase_at u k d) = Inr ()"
    and entry_erase: "entry (snd (erase_at u k d)) u' k' = (if u' = u \<and> k' = k then None else entry d u' k')"
    and entry_env: "entry (d\<lparr>db_env := e\<rparr>) = entry d"
begin

lemma entry_tick [simp]: "entry (tick d) = entry d"
  by (simp add: tick_def entry_env)

lemma write_run: "bnd (store_at u k v) f d = f () (snd (store_at u k v d))"
  using write_ok [of u k v d] by (cases "store_at u k v d") (simp add: bnd_def)

lemma erase_run: "bnd (erase_at u k) f d = f () (snd (erase_at u k d))"
  using erase_ok [of u k d] by (cases "erase_at u k d") (simp add: bnd_def)

text \<open>The requests of a client of the store, and the map they amount to.\<close>

definition apply_op :: "uuid \<times> 'k \<times> 'v option \<Rightarrow> db \<Rightarrow> db" where
  "apply_op op d = (case op of (u, k, Some v) \<Rightarrow> snd (store_at u k v d) | (u, k, None) \<Rightarrow> snd (erase_at u k d))"

lemma entry_apply: "entry (apply_op (u, k, x) d) u' k' = (if u' = u \<and> k' = k then x else entry d u' k')"
  by (cases x) (auto simp: apply_op_def entry_write entry_erase)

lemma entry_history:
  "entry (fold apply_op ops d) u k =
     (case filter (\<lambda>(u', k', x). u' = u \<and> k' = k) ops of [] \<Rightarrow> entry d u k | ws \<Rightarrow> snd (snd (last ws)))"
proof (induction ops rule: rev_induct)
  case (snoc op ops)
  then show ?case by (cases op) (auto simp: entry_apply split: list.splits)
qed simp

text \<open>Other accounts do not matter.\<close>

lemma entry_isolated:
  "entry (fold apply_op ops d) u k = entry (fold apply_op (filter (\<lambda>op. fst op = u) ops) d) u k"
proof -
  have "filter (\<lambda>(u', k', x). u' = u \<and> k' = k) (filter (\<lambda>op. fst op = u) ops) =
      filter (\<lambda>(u', k', x). u' = u \<and> k' = k) ops"
    by (induction ops) auto
  then show ?thesis by (simp add: entry_history)
qed

end

definition vault_entry :: "db \<Rightarrow> uuid \<Rightarrow> string \<Rightarrow> bytes option" where
  "vault_entry d u name = map_option vb_blob (List.find (\<lambda>r. vb_user r = u \<and> vb_name r = name) (db_vault d))"

definition backup_entry :: "db \<Rightarrow> uuid \<Rightarrow> unit \<Rightarrow> key_backup option" where
  "backup_entry d u k = map_option (\<lambda>r. \<lparr>bu_encrypted_blob = kb_blob r, bu_salt = kb_salt r,
     bu_argon2_params = kb_params r, bu_version = word_of_int (as_i32 (kb_version r))\<rparr>)
     (List.find (\<lambda>r. kb_user r = u) (db_backups d))"

definition put_backup :: "uuid \<Rightarrow> unit \<Rightarrow> key_backup \<Rightarrow> unit dbact" where
  "put_backup u k b = sq_upsert_backup u (bu_encrypted_blob b) (bu_salt b) (bu_argon2_params b)
     (as_i32 (uint (bu_version b)))"

lemma put_vault_eq:
  "sq_put_vault_blob u name blob d = (Inr (), (tick d)\<lparr>db_vault :=
     upsert_where (\<lambda>r. vb_user r = u \<and> vb_name r = name)
       \<lparr>vb_user = u, vb_name = name, vb_blob = blob, vb_updated_at = ms_of (e_wall (db_env d) (e_tick (db_env d)))\<rparr>
       (\<lambda>r. r\<lparr>vb_blob := blob, vb_updated_at := ms_of (e_wall (db_env d) (e_tick (db_env d)))\<rparr>) (db_vault d)\<rparr>)"
  by (auto simp: sq_put_vault_blob_def clock_defs on_env_def read_env_def upsert_stmt_def act_defs tick_def
      upsert_where_def)

lemma put_backup_eq:
  "put_backup u k b d = (Inr (), (tick d)\<lparr>db_backups :=
     upsert_where (\<lambda>r. kb_user r = u)
       \<lparr>kb_user = u, kb_blob = bu_encrypted_blob b, kb_salt = bu_salt b, kb_params = bu_argon2_params b,
        kb_version = as_i32 (uint (bu_version b)), kb_updated_at = ms_of (e_wall (db_env d) (e_tick (db_env d)))\<rparr>
       (\<lambda>r. r\<lparr>kb_blob := bu_encrypted_blob b, kb_salt := bu_salt b, kb_params := bu_argon2_params b,
        kb_version := as_i32 (uint (bu_version b)), kb_updated_at := ms_of (e_wall (db_env d) (e_tick (db_env d)))\<rparr>)
       (db_backups d)\<rparr>)"
  by (auto simp: put_backup_def sq_upsert_backup_def clock_defs on_env_def read_env_def upsert_stmt_def act_defs
      tick_def upsert_where_def)

interpretation vault: account_store vault_entry sq_put_vault_blob sq_delete_vault_blob
  by unfold_locales
    (auto simp: put_vault_eq sq_delete_vault_blob_def vault_entry_def modify_def find_upsert_same
      find_del_same fun_eq_iff intro!: arg_cong [where f = "map_option h" for h] find_upsert_other find_del_other)

interpretation backup: account_store backup_entry put_backup "\<lambda>u k. sq_delete_backup u"
  by unfold_locales
    (auto simp: put_backup_eq sq_delete_backup_def backup_entry_def modify_def find_upsert_same
      find_del_same fun_eq_iff intro!: arg_cong [where f = "map_option h" for h] find_upsert_other find_del_other)

section \<open>Refinement of maps\<close>

text \<open>
  The abstract machines: each account has a partial map from names to blobs, and at most one backup.
  A request is answered from the map and changes only the caller's own part of it.
\<close>

datatype vault_call = VPut string bytes | VGet string | VDelete string

fun vault_exec :: "ext \<Rightarrow> req_meta \<Rightarrow> vault_call \<Rightarrow> bytes option dbact" where
  "vault_exec E meta (VPut name blob) = bnd (put_blob E meta name blob) (\<lambda>_. ret None)"
| "vault_exec E meta (VGet name) = bnd (get_blob E meta name) (\<lambda>b. ret (Some b))"
| "vault_exec E meta (VDelete name) = bnd (delete_blob E meta name) (\<lambda>_. ret None)"

fun vault_spec :: "vault_call \<Rightarrow> (string \<rightharpoonup> bytes) \<Rightarrow> (server_error + bytes option) \<times> (string \<rightharpoonup> bytes)" where
  "vault_spec (VPut name blob) m =
     (if name = [] \<or> length name > 256 then (Inl (InvalidArgument ''invalid blob name''), m)
      else if blob = [] then (Inl (InvalidArgument ''empty blob''), m)
      else (Inr None, m(name \<mapsto> blob)))"
| "vault_spec (VGet name) m =
     (case m name of None \<Rightarrow> (Inl (NotFound ''vault blob''), m) | Some b \<Rightarrow> (Inr (Some b), m))"
| "vault_spec (VDelete name) m = (Inr None, m(name := None))"

datatype backup_call = BUpload key_backup | BUpdate key_backup | BDownload | BDelete

fun backup_exec :: "ext \<Rightarrow> req_meta \<Rightarrow> backup_call \<Rightarrow> key_backup option dbact" where
  "backup_exec E meta (BUpload b) = bnd (upload_key_backup E meta b) (\<lambda>_. ret None)"
| "backup_exec E meta (BUpdate b) = bnd (update_key_backup E meta b) (\<lambda>_. ret None)"
| "backup_exec E meta BDownload = bnd (download_key_backup E meta) (\<lambda>b. ret (Some b))"
| "backup_exec E meta BDelete = bnd (delete_key_backup E meta) (\<lambda>_. ret None)"

definition put_backup_spec :: "key_backup \<Rightarrow> key_backup option \<Rightarrow> (server_error + key_backup option) \<times> key_backup option" where
  "put_backup_spec b m =
     (if bu_encrypted_blob b = [] \<or> bu_salt b = [] \<or> bu_argon2_params b = []
      then (Inl (InvalidArgument ''incomplete backup''), m) else (Inr None, Some b))"

fun backup_spec :: "backup_call \<Rightarrow> key_backup option \<Rightarrow> (server_error + key_backup option) \<times> key_backup option" where
  "backup_spec (BUpload b) m = put_backup_spec b m"
| "backup_spec (BUpdate b) m = put_backup_spec b m"
| "backup_spec BDownload m = (case m of None \<Rightarrow> (Inl (NotFound ''key backup''), m) | Some b \<Rightarrow> (Inr (Some b), m))"
| "backup_spec BDelete m = (Inr None, None)"

lemma bnd_store_backup:
  "bnd (store_backup u b) (\<lambda>_. ret None) d =
     (if bu_encrypted_blob b = [] \<or> bu_salt b = [] \<or> bu_argon2_params b = []
      then (Inl (InvalidArgument ''incomplete backup''), d) else (Inr None, snd (put_backup u () b d)))"
  by (auto simp: store_backup_def bnd_assoc bnd_ensure put_backup_def [of u "()" b, symmetric] backup.write_run ret_def)

section \<open>Listing by prefix\<close>

text \<open>What the \<open>LIKE\<close> pattern of a prefix without backslashes matches.\<close>

lemma like_any: "like_match [AnyRun] s"
  by (induction s) auto

lemma like_prefix:
  "CHR 0x5C \<notin> set p \<Longrightarrow>
   like_match (like_tokens (replace_char CHR ''_'' [CHR 0x5C, CHR ''_'']
     (replace_char CHR ''%'' [CHR 0x5C, CHR ''%''] p) @ ''%'')) s \<longleftrightarrow>
   length p \<le> length s \<and> map lower_char (take (length p) s) = map lower_char p"
proof (induction p arbitrary: s)
  case Nil
  then show ?case by (simp add: replace_char_def like_any)
next
  case (Cons c p)
  then show ?case by (cases s) (auto simp: replace_char_def)
qed

section \<open>Properties\<close>





text \<open>
  Whatever writes and deletions the stores see, by any accounts in any order, an entry is the last
  thing its own account wrote under its own name; leaving out the requests of all other accounts
  gives the same answer.
\<close>

theorem account_stores_last_write:
  "vault_entry (fold vault.apply_op ops d) u name =
     (case filter (\<lambda>(u', k', x). u' = u \<and> k' = name) ops of
        [] \<Rightarrow> vault_entry d u name | ws \<Rightarrow> snd (snd (last ws))) \<and>
   backup_entry (fold backup.apply_op bops d) u () =
     (case filter (\<lambda>(u', k', x). u' = u) bops of
        [] \<Rightarrow> backup_entry d u () | ws \<Rightarrow> snd (snd (last ws))) \<and>
   vault_entry (fold vault.apply_op ops d) u =
     vault_entry (fold vault.apply_op (filter (\<lambda>op. fst op = u) ops) d) u"
  using vault.entry_history [of ops d u name] backup.entry_history [of bops d u "()"]
    vault.entry_isolated [of ops d u]
  by (simp add: fun_eq_iff)



end
