(* ===== verification/Mls_Relay.thy ===== *)
theory Mls_Relay
  imports Groups_Service
begin

text \<open>
  \<open>crates/accord-server/src/mls_relay/service.rs\<close>: the opaque MLS relay.  Commits and Welcomes are
  bytes; \<open>relay_welcome\<close> is the one of the group service's theory (the source writes it out in both
  places).
\<close>

record send_commit_request =
  sc_group_id :: "string option"
  sc_commit :: bytes
  sc_welcomes :: "welcome_target list"

definition caller_device :: "ext \<Rightarrow> req_meta \<Rightarrow> (uuid \<times> uuid) dbact" where
  "caller_device E meta =
     bnd (authenticate E meta) (\<lambda>claims.
     bnd (parse_uuid E (cl_sub claims)) (\<lambda>user_id.
     bnd (parse_uuid E (cl_device_id claims)) (\<lambda>device_id.
     ret (user_id, device_id))))"

definition upload_key_packages :: "ext \<Rightarrow> req_meta \<Rightarrow> bytes list \<Rightarrow> nat rpc" where
  "upload_key_packages E meta packages =
     bnd (call (caller_device E meta)) (\<lambda>(user_id, device_id).
     call (sq_store_key_packages user_id device_id packages))"

text \<open>The response's hash map is an association list keyed by the requested id strings.\<close>

definition fetch_key_packages ::
  "ext \<Rightarrow> req_meta \<Rightarrow> string list \<Rightarrow> (string \<times> (string \<times> bytes) list) list rpc" where
  "fetch_key_packages E meta user_ids =
     bnd (call (authenticate E meta)) (\<lambda>_.
     bnd (map_each (\<lambda>user.
       bnd (call (parse_uuid_or E ''bad user id'' user)) (\<lambda>uid.
       bnd (call (sq_claim_key_packages_for_user uid)) (\<lambda>claimed.
       ret (user, map (\<lambda>c. (to_str E (ck_device_id c), ck_key_package c)) claimed)))) user_ids) (\<lambda>all.
     ret (fold (\<lambda>(user, ps) m. if ps = [] then m else AList.update user ps m) all [])))"

definition send_commit :: "ext \<Rightarrow> req_meta \<Rightarrow> send_commit_request \<Rightarrow> unit rpc" where
  "send_commit E meta req =
     bnd (call (caller_device E meta)) (\<lambda>(user_id, device_id).
     bnd (call (require_group_id E (sc_group_id req))) (\<lambda>group_id.
     bnd (call (sq_is_member group_id user_id)) (\<lambda>m. if \<not> m then rpc (fail PermissionDenied) else
     bnd (rpc (on_hub (hub_publish_commit E group_id (sc_commit req) 0 device_id))) (\<lambda>_.
     for_each (\<lambda>w. rpc (relay_welcome E group_id w)) (sc_welcomes req)))))"

definition send_welcome :: "ext \<Rightarrow> req_meta \<Rightarrow> string option \<Rightarrow> welcome_target list \<Rightarrow> unit rpc" where
  "send_welcome E meta gid welcomes =
     bnd (call (authenticate E meta)) (\<lambda>_.
     bnd (call (require_group_id E gid)) (\<lambda>group_id.
     for_each (\<lambda>w. rpc (relay_welcome E group_id w)) welcomes))"

lemma caller_device_ok [ok_simps]:
  "caller_device E meta d = (Inr (u, v), t) \<longleftrightarrow> (\<exists>c. claims_of E meta d = Some c \<and>
     parse_str E (cl_sub c) = Some u \<and> parse_str E (cl_device_id c) = Some v) \<and> t = tick d"
  by (auto simp: caller_device_def parse_uuid_def ok_simps)

lemma caller_device_eq:
  "claims_of E meta d = Some c \<Longrightarrow> parse_str E (cl_sub c) = Some u \<Longrightarrow> parse_str E (cl_device_id c) = Some v \<Longrightarrow>
   caller_device E meta d = (Inr (u, v), tick d)"
  using caller_device_ok [of E meta d u v "tick d"] by simp

end
