(* ===== verification/Messaging_Service.thy ===== *)
theory Messaging_Service
  imports Mls_Relay
begin

text \<open>
  \<open>crates/accord-server/src/messaging/service.rs\<close>: the message stream (opening, the handler of each
  inbound message, closing) and the history RPCs.
\<close>

section \<open>Helpers\<close>

definition DEFAULT_HISTORY_LIMIT :: int where "DEFAULT_HISTORY_LIMIT = 50"
definition MAX_HISTORY_LIMIT :: int where "MAX_HISTORY_LIMIT = 200"

definition clamp_limit :: "nat \<Rightarrow> int" where
  "clamp_limit requested = (if requested = 0 then DEFAULT_HISTORY_LIMIT
     else min (int requested) MAX_HISTORY_LIMIT)"

definition private_row_to_proto :: "ext \<Rightarrow> private_message_row \<Rightarrow> incoming_private" where
  "private_row_to_proto E row = \<lparr>iv_group_id = to_str E (vr_group_id row),
     iv_sender_id = to_str E (vr_sender_id row), iv_mls_ciphertext = vr_ciphertext row,
     iv_epoch = vr_epoch row, iv_timestamp = to_proto_timestamp (vr_created_at row),
     iv_sequence_number = of_int (vr_seq row)\<rparr>"

definition public_row_to_proto :: "ext \<Rightarrow> public_message_row \<Rightarrow> incoming_public" where
  "public_row_to_proto E row = \<lparr>ip_message_id = to_str E (pr_id row),
     ip_group_id = to_str E (pr_group_id row), ip_sender_id = to_str E (pr_sender_id row),
     ip_sender_display_name = pr_sender_display_name row, ip_content = pr_content row,
     ip_timestamp = to_proto_timestamp (pr_created_at row),
     ip_sequence_number = of_int (pr_seq row)\<rparr>"

definition ensure_participant :: "ext \<Rightarrow> uuid \<Rightarrow> uuid \<Rightarrow> bool dbact" where
  "ensure_participant E group_id user_id =
     bnd (sq_is_member group_id user_id) (\<lambda>m. if m then ret True else
     bnd (sq_get_group E group_id) (\<lambda>grp. if gs_kind grp \<noteq> ''public'' then ret False else
     bnd (sq_is_user_guest user_id) (\<lambda>g. if g then ret False else
     bnd (sq_is_banned user_id) (\<lambda>b. if b then ret False else
     bnd (sq_add_member group_id user_id ''member'') (\<lambda>_. ret True)))))"

section \<open>Inbound messages\<close>

record send_public_message =
  sp_group_id :: "string option"
  sp_content :: string
  sp_client_message_id :: "string option"

record send_private_message =
  sv_group_id :: "string option"
  sv_mls_ciphertext :: bytes
  sv_epoch :: "64 word"
  sv_client_message_id :: "string option"

record voice_state_update =
  vu_group_id :: "string option"
  vu_joined :: bool
  vu_muted :: bool
  vu_camera_on :: bool
  vu_screen_on :: bool

datatype client_payload =
    CPublic send_public_message
  | CPrivate send_private_message
  | CTyping
  | CVoiceSignal voice_signal
  | CVoiceState voice_state_update
  | CAck

definition participant_or_denied :: "ext \<Rightarrow> uuid \<Rightarrow> uuid \<Rightarrow> unit svact" where
  "participant_or_denied E group_id user_id =
     bnd (on_db (ensure_participant E group_id user_id)) (\<lambda>b. ensure b PermissionDenied)"

definition handle_voice_signal :: "ext \<Rightarrow> uuid \<Rightarrow> uuid \<Rightarrow> voice_signal \<Rightarrow> unit svact" where
  "handle_voice_signal E user_id device_id signal =
     bnd (on_db (require_group_id E (sg_group_id signal))) (\<lambda>group_id.
     bnd (participant_or_denied E group_id user_id) (\<lambda>_.
     bnd (some_or (InvalidArgument ''voice signal needs a target_device'')
       (case sg_target_device signal of None \<Rightarrow> None | Some v \<Rightarrow> parse_str E v)) (\<lambda>target.
     hub_do (hub_send_to_device target
       (SVoiceSignal (signal\<lparr>sg_from_device := Some (to_str E device_id)\<rparr>))))))"

definition handle_voice_state :: "ext \<Rightarrow> uuid \<Rightarrow> uuid \<Rightarrow> voice_state_update \<Rightarrow> unit svact" where
  "handle_voice_state E user_id device_id update =
     bnd (on_db (require_group_id E (vu_group_id update))) (\<lambda>group_id.
     bnd (participant_or_denied E group_id user_id) (\<lambda>_.
     bnd (hub_do (hub_subscribe device_id group_id)) (\<lambda>_.
     bnd (on_db (sq_user_profile user_id)) (\<lambda>profile.
     let (username, display_name, avatar) = (case profile of None \<Rightarrow> ([], [], []) | Some p \<Rightarrow> p);
         state = \<lparr>vs_user_id = user_id, vs_username = username, vs_display_name = display_name,
           vs_muted = vu_muted update, vs_camera_on = vu_camera_on update,
           vs_screen_on = vu_screen_on update\<rparr>
     in if vu_joined update then
          bnd (\<lambda>s. case hub_voice_join group_id device_id state (sv_hub s) of (ps, h) \<Rightarrow>
                 (Inr ps, s\<lparr>sv_hub := h\<rparr>)) (\<lambda>participants.
          bnd (hub_do (hub_publish_voice_participant group_id
            (voice_participant_msg E group_id device_id state True))) (\<lambda>_.
          for_each (\<lambda>(dev, st). if dev \<noteq> device_id
            then hub_do (hub_send_to_device device_id (voice_participant_msg E group_id dev st True))
            else ret ()) participants))
        else
          bnd (hub_do (\<lambda>h. snd (hub_voice_leave group_id device_id h))) (\<lambda>_.
          hub_do (hub_publish_voice_participant group_id
            (voice_participant_msg E group_id device_id state False)))))))"

definition client_message_id_or_new :: "ext \<Rightarrow> string option \<Rightarrow> uuid dbact" where
  "client_message_id_or_new E cid =
     (case (case cid of None \<Rightarrow> None | Some v \<Rightarrow> parse_str E v) of
        Some u \<Rightarrow> ret u | None \<Rightarrow> now_v7)"

definition handle_public_message :: "ext \<Rightarrow> uuid \<Rightarrow> send_public_message \<Rightarrow> unit svact" where
  "handle_public_message E user_id m =
     bnd (on_db (require_group_id E (sp_group_id m))) (\<lambda>group_id.
     bnd (ensure (trim (sp_content m) \<noteq> []) (InvalidArgument ''message content is empty'')) (\<lambda>_.
     bnd (participant_or_denied E group_id user_id) (\<lambda>_.
     bnd (on_db (client_message_id_or_new E (sp_client_message_id m))) (\<lambda>cid.
     bnd (on_db (sq_insert_public_message group_id user_id (trim (sp_content m)) cid)) (\<lambda>row.
     on_hub (hub_publish_public E
       \<lparr>pb_message_id = to_str E (pr_id row), pb_group_id = to_str E (pr_group_id row),
        pb_sender_id = to_str E (pr_sender_id row),
        pb_sender_display_name = pr_sender_display_name row, pb_content = pr_content row,
        pb_timestamp_secs = ts_seconds (to_proto_timestamp (pr_created_at row)),
        pb_timestamp_nanos = ts_nanos (to_proto_timestamp (pr_created_at row)),
        pb_sequence_number = of_int (pr_seq row)\<rparr>))))))"

definition inbox_payload_of :: "ext \<Rightarrow> private_message_row \<Rightarrow> private_inbox" where
  "inbox_payload_of E row = \<lparr>pi_ciphertext = vr_ciphertext row, pi_sender_id = to_str E (vr_sender_id row),
     pi_epoch = vr_epoch row,
     pi_timestamp_secs = ts_seconds (to_proto_timestamp (vr_created_at row)),
     pi_timestamp_nanos = ts_nanos (to_proto_timestamp (vr_created_at row)),
     pi_sequence_number = of_int (vr_seq row)\<rparr>"

definition queue_for_offline :: "ext \<Rightarrow> uuid \<Rightarrow> uuid \<Rightarrow> bytes \<Rightarrow> uuid \<Rightarrow> unit svact" where
  "queue_for_offline E group_id device_id payload dev =
     bnd (gets (\<lambda>s. hub_is_connected dev (sv_hub s))) (\<lambda>c.
     if dev = device_id \<or> c then ret () else
     unwrap_or () (on_db (sq_enqueue_inbox dev ''private'' group_id payload)))"

definition handle_private_message :: "ext \<Rightarrow> uuid \<Rightarrow> uuid \<Rightarrow> send_private_message \<Rightarrow> unit svact" where
  "handle_private_message E user_id device_id m =
     bnd (on_db (require_group_id E (sv_group_id m))) (\<lambda>group_id.
     bnd (ensure (sv_mls_ciphertext m \<noteq> []) (InvalidArgument ''empty ciphertext'')) (\<lambda>_.
     bnd (on_db (sq_is_member group_id user_id)) (\<lambda>mem.
     bnd (ensure mem PermissionDenied) (\<lambda>_.
     bnd (on_db (client_message_id_or_new E (sv_client_message_id m))) (\<lambda>cid.
     bnd (on_db (sq_store_private_message group_id user_id device_id (sv_mls_ciphertext m)
       (sv_epoch m) cid)) (\<lambda>row.
     let inbox_payload = encode_private_inbox E (inbox_payload_of E row) in
     bnd (on_hub (hub_publish_private E
       \<lparr>vb_group_id = to_str E (vr_group_id row), vb_sender_id = to_str E (vr_sender_id row),
        vb_ciphertext = vr_ciphertext row, vb_epoch = vr_epoch row,
        vb_timestamp_secs = ts_seconds (to_proto_timestamp (vr_created_at row)),
        vb_timestamp_nanos = ts_nanos (to_proto_timestamp (vr_created_at row)),
        vb_sequence_number = of_int (vr_seq row)\<rparr> device_id)) (\<lambda>_.
     bnd (gets (\<lambda>s. hub_is_single_instance (sv_hub s))) (\<lambda>single.
     if \<not> single then ret () else
     bnd (on_db (sq_device_ids_for_group group_id)) (\<lambda>devs.
     for_each (queue_for_offline E group_id device_id inbox_payload) devs)))))))))"

definition handle_client_message :: "ext \<Rightarrow> uuid \<Rightarrow> uuid \<Rightarrow> client_payload option \<Rightarrow> unit svact" where
  "handle_client_message E user_id device_id payload = (case payload of
       Some (CPublic m) \<Rightarrow> handle_public_message E user_id m
     | Some (CPrivate m) \<Rightarrow> handle_private_message E user_id device_id m
     | Some CTyping \<Rightarrow> ret ()
     | Some (CVoiceSignal s) \<Rightarrow> handle_voice_signal E user_id device_id s
     | Some (CVoiceState s) \<Rightarrow> handle_voice_state E user_id device_id s
     | Some CAck \<Rightarrow> ret ()
     | None \<Rightarrow> ret ())"

section \<open>The stream\<close>

definition inbox_message :: "ext \<Rightarrow> inbox_row \<Rightarrow> server_message option" where
  "inbox_message E item =
     (if ir_kind item = ''welcome'' then Some (welcome_notification (to_str E (ir_group_id item)) (ir_payload item))
      else if ir_kind item = ''commit'' then Some (commit_notification (to_str E (ir_group_id item)) (ir_payload item) 0)
      else if ir_kind item = ''private'' then private_notification E (to_str E (ir_group_id item)) (ir_payload item)
      else None)"

definition deliver_inbox :: "ext \<Rightarrow> uuid \<Rightarrow> inbox_row list \<Rightarrow> hub \<Rightarrow> hub" where
  "deliver_inbox E device_id items h =
     fold (\<lambda>item h. case inbox_message E item of
        Some msg \<Rightarrow> hub_send_to_device device_id msg h | None \<Rightarrow> h) items h"

definition message_stream :: "ext \<Rightarrow> req_meta \<Rightarrow> (uuid \<times> uuid \<times> sender) rpc" where
  "message_stream E meta =
     bnd (call (authenticate E meta)) (\<lambda>claims.
     bnd (call (parse_uuid_or E ''invalid user id in token'' (cl_sub claims))) (\<lambda>user_id.
     bnd (call (parse_uuid_or E ''invalid device id in token'' (cl_device_id claims))) (\<lambda>device_id.
     bnd (call (sq_group_ids_for_user user_id)) (\<lambda>groups.
     bnd (\<lambda>s. case hub_register device_id groups (sv_hub s) of (rx, h) \<Rightarrow> (Inr rx, s\<lparr>sv_hub := h\<rparr>)) (\<lambda>rx.
     bnd (rpc (unwrap_or [] (on_db (sq_drain_inbox device_id)))) (\<lambda>items.
     bnd (hub_do (deliver_inbox E device_id items)) (\<lambda>_.
     ret (user_id, device_id, rx))))))))"

text \<open>The reader task: an error of one message is logged and the loop goes on; the guard unregisters
  the device when the loop ends.\<close>

definition reader_step :: "ext \<Rightarrow> uuid \<Rightarrow> uuid \<Rightarrow> client_payload option \<Rightarrow> unit svact" where
  "reader_step E user_id device_id payload = unwrap_or () (handle_client_message E user_id device_id payload)"

definition reader_task :: "ext \<Rightarrow> uuid \<Rightarrow> uuid \<Rightarrow> client_payload option list \<Rightarrow> unit svact" where
  "reader_task E user_id device_id inbound =
     bnd (for_each (reader_step E user_id device_id) inbound) (\<lambda>_.
     hub_do (hub_unregister E device_id))"

section \<open>History\<close>

record fetch_history_request =
  fh_group_id :: "string option"
  fh_before_sequence :: "64 word"
  fh_limit :: nat

definition fetch_public_history :: "ext \<Rightarrow> req_meta \<Rightarrow> fetch_history_request \<Rightarrow> incoming_public list rpc" where
  "fetch_public_history E meta req =
     bnd (call (authenticate E meta)) (\<lambda>claims.
     bnd (call (parse_uuid_or E ''invalid user id in token'' (cl_sub claims))) (\<lambda>user_id.
     bnd (call (require_group_id E (fh_group_id req))) (\<lambda>group_id.
     bnd (call (ensure_participant E group_id user_id)) (\<lambda>b. if \<not> b then rpc (fail PermissionDenied) else
     bnd (call (sq_fetch_public_history group_id (sint (fh_before_sequence req)) (clamp_limit (fh_limit req)))) (\<lambda>rows.
     ret (map (public_row_to_proto E) rows))))))"

definition fetch_private_history :: "ext \<Rightarrow> req_meta \<Rightarrow> fetch_history_request \<Rightarrow> incoming_private list rpc" where
  "fetch_private_history E meta req =
     bnd (call (authenticate E meta)) (\<lambda>claims.
     bnd (call (parse_uuid_or E ''invalid user id in token'' (cl_sub claims))) (\<lambda>user_id.
     bnd (call (require_group_id E (fh_group_id req))) (\<lambda>group_id.
     bnd (call (sq_is_member group_id user_id)) (\<lambda>b. if \<not> b then rpc (fail PermissionDenied) else
     bnd (call (sq_fetch_private_history group_id (sint (fh_before_sequence req)) (clamp_limit (fh_limit req)))) (\<lambda>rows.
     ret (map (private_row_to_proto E) rows))))))"

section \<open>Opening a stream\<close>

lemma send_seq:
  assumes "map_of (hb_device_subs h) v = Some tx" and "tx < length (hb_chans h)" and "ch_open (hb_chans h ! tx)"
    and "length (ch_queue (hb_chans h ! tx)) \<le> CLIENT_BUFFER"
  shows "ch_queue (hb_chans (deliver_inbox E v items h) ! tx) =
    take CLIENT_BUFFER (ch_queue (hb_chans h ! tx) @ List.map_filter (inbox_message E) items)"
  using assms
proof (induction items arbitrary: h)
  case Nil
  then show ?case by (simp add: deliver_inbox_def)
next
  case (Cons item items)
  show ?case
  proof (cases "inbox_message E item")
    case None
    with Cons show ?thesis by (simp add: deliver_inbox_def List.map_filter_simps)
  next
    case (Some msg)
    define k where "k = try_send tx msg h"
    have q: "ch_queue (hb_chans k ! tx) = take CLIENT_BUFFER (ch_queue (hb_chans h ! tx) @ [msg])"
      using Cons.prems by (auto simp: k_def queue_try_send accepts_def)
    have "hb_device_subs k = hb_device_subs h" using tables_fields(2) [of k h] by (simp add: k_def)
    then have "ch_queue (hb_chans (deliver_inbox E v items k) ! tx) =
        take CLIENT_BUFFER (ch_queue (hb_chans k ! tx) @ List.map_filter (inbox_message E) items)"
      using Cons.prems by (intro Cons.IH) (auto simp: q open_try_send, simp_all add: k_def open_try_send)
    then show ?thesis
      using Cons.prems(1) Some by (simp add: deliver_inbox_def hub_send_to_device_def k_def [symmetric] List.map_filter_simps q)
        (cases "length (ch_queue (hb_chans h ! tx)) = CLIENT_BUFFER", use Cons.prems in \<open>auto simp: take_Cons'\<close>)
  qed
qed

lemma register_new:
  "fst (hub_register v gs h) = length (hb_chans h)"
  "map_of (hb_device_subs (snd (hub_register v gs h))) v = Some (length (hb_chans h))"
  "hb_chans (snd (hub_register v gs h)) = hb_chans h @ [\<lparr>ch_queue = [], ch_open = True\<rparr>]"
proof -
  have "hb_chans (fold (\<lambda>g. add_group_sub g v tx) gs k) = hb_chans k" for k tx
    by (induction gs arbitrary: k) (auto simp: add_group_sub_def)
  then show "fst (hub_register v gs h) = length (hb_chans h)"
    "map_of (hb_device_subs (snd (hub_register v gs h))) v = Some (length (hb_chans h))"
    "hb_chans (snd (hub_register v gs h)) = hb_chans h @ [\<lparr>ch_queue = [], ch_open = True\<rparr>]"
    by (simp_all add: hub_register_def Let_def update_conv)
qed

lemma bnd_register [run_simps]:
  "bnd (\<lambda>s. case hub_register v gs (sv_hub s) of (rx, h) \<Rightarrow> (Inr rx, s\<lparr>sv_hub := h\<rparr>)) f s =
   f (fst (hub_register v gs (sv_hub s))) (s\<lparr>sv_hub := snd (hub_register v gs (sv_hub s))\<rparr>)"
  by (simp add: bnd_def split: prod.splits)

lemma bnd_drain [run_simps]:
  "bnd (rpc (unwrap_or [] (on_db (sq_drain_inbox v)))) f s =
   f (map to_inbox_row (filter (\<lambda>i. ib_device i = v) (db_inbox (sv_db s))))
     (s\<lparr>sv_db := (sv_db s)\<lparr>db_inbox := del_where (\<lambda>i. ib_device i = v) (db_inbox (sv_db s))\<rparr>\<rparr>)"
  by (simp add: bnd_def rpc_def map_err_def unwrap_or_def on_db_def zoom_def sq_drain_inbox_def gets_def modify_def ret_def)

section \<open>The mailbox\<close>

text \<open>Fresh ids: the UUIDs of the next \<open>k\<close> reads of the oracles differ from each other and from every queued
  item's.\<close>

definition fresh_ids :: "nat \<Rightarrow> db \<Rightarrow> bool" where
  "fresh_ids k d \<longleftrightarrow> (let n = e_tick (db_env d) in inj_on (e_uuid (db_env d)) {n..<n + k} \<and>
     (\<forall>i \<in> set (db_inbox d). ib_id i \<notin> e_uuid (db_env d) ` {n..<n + k}))"

lemma fresh_ids_head:
  assumes "fresh_ids (Suc k) d"
  shows "\<not> (\<exists>r \<in> set (db_inbox d). ib_id r = e_uuid (db_env d) (e_tick (db_env d)))"
  using assms by (auto simp: fresh_ids_def Let_def image_iff)

lemma fresh_ids_later:
  assumes "fresh_ids (j + k) d" and "e_uuid (db_env t) = e_uuid (db_env d)"
    and "e_tick (db_env d) \<le> e_tick (db_env t)" and "e_tick (db_env t) \<le> e_tick (db_env d) + j"
    and "db_inbox t = db_inbox d"
  shows "fresh_ids k t"
proof -
  let ?n = "e_tick (db_env d)" and ?m = "e_tick (db_env t)"
  have sub: "{?m..<?m + k} \<subseteq> {?n..<?n + (j + k)}" using assms(3,4) by auto
  with assms(1) have "inj_on (e_uuid (db_env d)) {?m..<?m + k}"
    by (auto simp: fresh_ids_def Let_def intro: inj_on_subset)
  then show ?thesis using assms(1,2,5) sub by (fastforce simp: fresh_ids_def Let_def)
qed

lemma fresh_ids_push:
  assumes "fresh_ids (Suc (Suc k)) d" and "db_inbox t = db_inbox d @ [r]" and "ib_id r = e_uuid (db_env d) (e_tick (db_env d))"
    and "db_env t = (db_env d)\<lparr>e_tick := Suc (Suc (e_tick (db_env d)))\<rparr>"
  shows "fresh_ids k t"
proof -
  let ?n = "e_tick (db_env d)"
  have inj: "inj_on (e_uuid (db_env d)) {?n..<?n + Suc (Suc k)}"
    and old: "\<forall>i \<in> set (db_inbox d). ib_id i \<notin> e_uuid (db_env d) ` {?n..<?n + Suc (Suc k)}"
    using assms(1) by (auto simp: fresh_ids_def Let_def)
  have "e_uuid (db_env d) ?n \<notin> e_uuid (db_env d) ` {Suc (Suc ?n)..<Suc (Suc ?n) + k}"
    using inj by (auto dest: inj_onD)
  moreover have "inj_on (e_uuid (db_env d)) {Suc (Suc ?n)..<Suc (Suc ?n) + k}"
    using inj by (rule inj_on_subset) auto
  ultimately show ?thesis using old assms(2-4) by (auto simp: fresh_ids_def Let_def)
qed

definition queued :: "uuid \<Rightarrow> bytes \<Rightarrow> db \<Rightarrow> uuid list \<Rightarrow> db \<Rightarrow> bool" where
  "queued g payload d ws t \<longleftrightarrow> (\<exists>rows. db_inbox t = db_inbox d @ rows \<and> map ib_device rows = ws \<and>
     (\<forall>r \<in> set rows. ib_kind r = ''private'' \<and> ib_group r = g \<and> ib_payload r = payload))"

lemma queued_trans: "queued g p d ws t \<Longrightarrow> queued g p t ws' u \<Longrightarrow> queued g p d (ws @ ws') u"
  unfolding queued_def by fastforce

lemma enqueue_fresh:
  assumes "fresh_ids (Suc (Suc k)) d" and "has_device w d"
  shows "\<exists>t. sq_enqueue_inbox w ''private'' g p d = (Inr (), t) \<and> queued g p d [w] t \<and> fresh_ids k t \<and>
    db_devices t = db_devices d"
proof -
  have dev: "has_device w (d\<lparr>db_env := e\<rparr>)" for e using assms(2) by simp
  note new = fresh_ids_head [OF assms(1)] and push = fresh_ids_push [OF assms(1)]
  show ?thesis
    using new dev
    by (auto simp: sq_enqueue_inbox_def clock_defs on_env_def read_env_def act_defs insert_stmt_def queued_def
        intro!: push)
qed

lemma queue_loop:
  assumes "fresh_ids (2 * length ws) (sv_db s)" and "\<forall>w \<in> set ws. has_device w (sv_db s)"
  shows "\<exists>d. for_each (queue_for_offline E g v p) ws s = (Inr (), s\<lparr>sv_db := d\<rparr>) \<and>
    queued g p (sv_db s) (filter (\<lambda>w. w \<noteq> v \<and> \<not> hub_is_connected w (sv_hub s)) ws) d"
  using assms
proof (induction ws arbitrary: s)
  case Nil
  then show ?case by (auto simp: ret_def queued_def intro!: exI [of _ "sv_db s"])
next
  case (Cons w ws)
  show ?case
  proof (cases "w = v \<or> hub_is_connected w (sv_hub s)")
    case True
    then have "queue_for_offline E g v p w s = (Inr (), s)"
      by (auto simp: queue_for_offline_def run_simps ret_def)
    moreover have "fresh_ids (2 * length ws) (sv_db s)"
      using fresh_ids_later [of 2 "2 * length ws" "sv_db s" "sv_db s"] Cons.prems(1) by simp
    ultimately show ?thesis using Cons True by (auto simp: bnd_eq)
  next
    case False
    obtain d where d: "sq_enqueue_inbox w ''private'' g p (sv_db s) = (Inr (), d)"
      "queued g p (sv_db s) [w] d" "fresh_ids (2 * length ws) d" "db_devices d = db_devices (sv_db s)"
      using enqueue_fresh [of "2 * length ws" "sv_db s" w g p] Cons.prems by auto
    then have "queue_for_offline E g v p w s = (Inr (), s\<lparr>sv_db := d\<rparr>)"
      using False by (simp add: queue_for_offline_def run_simps unwrap_or_def on_db_def zoom_def)
    moreover have "\<forall>w \<in> set ws. has_device w d"
      using Cons.prems(2) d(4) by (simp add: has_device_def)
    then obtain e where "for_each (queue_for_offline E g v p) ws (s\<lparr>sv_db := d\<rparr>) = (Inr (), s\<lparr>sv_db := e\<rparr>)"
      "queued g p d (filter (\<lambda>w. w \<noteq> v \<and> \<not> hub_is_connected w (sv_hub s)) ws) e"
      using Cons.IH [of "s\<lparr>sv_db := d\<rparr>"] d(3) by auto
    ultimately show ?thesis
      using False queued_trans [OF d(2)] by (auto simp: bnd_eq)
  qed
qed

definition group_devices :: "uuid \<Rightarrow> db \<Rightarrow> uuid list" where
  "group_devices g d = [d_id v. v \<leftarrow> db_devices d, m \<leftarrow> db_members d,
     gm_user m = d_user v \<and> gm_group m = g \<and> d_revoked_at v = None]"

text \<open>Minting a message id and storing the message leave the mailbox tables alone.\<close>

definition same_mail :: "nat \<Rightarrow> db \<Rightarrow> db \<Rightarrow> bool" where
  "same_mail j d t \<longleftrightarrow> db_inbox t = db_inbox d \<and> db_devices t = db_devices d \<and> db_members t = db_members d \<and>
     e_uuid (db_env t) = e_uuid (db_env d) \<and> e_tick (db_env d) \<le> e_tick (db_env t) \<and>
     e_tick (db_env t) \<le> e_tick (db_env d) + j"

lemma same_mail_steps:
  "client_message_id_or_new E x d = (Inr c, t) \<Longrightarrow> same_mail 1 d t"
  "sq_store_private_message g u v ct ep c d = (Inr row, t) \<Longrightarrow> same_mail 2 d t \<and> vr_ciphertext row = ct \<and>
     vr_epoch row = ep \<and> vr_sender_id row = u"
proof -
  show "client_message_id_or_new E x d = (Inr c, t) \<Longrightarrow> same_mail 1 d t"
    by (auto simp: client_message_id_or_new_def clock_defs ok_simps same_mail_def split: option.splits)
  show "sq_store_private_message g u v ct ep c d = (Inr row, t) \<Longrightarrow> same_mail 2 d t \<and> vr_ciphertext row = ct \<and>
     vr_epoch row = ep \<and> vr_sender_id row = u"
    by (auto simp: sq_store_private_message_def clock_defs ok_simps same_mail_def Let_def split: if_splits)
qed

lemma same_mail_views:
  assumes "same_mail j d t"
  shows "fresh_ids (j + k) d \<Longrightarrow> fresh_ids k t" "group_devices g t = group_devices g d"
    "queued g p t ws = queued g p d ws"
  using assms fresh_ids_later [of j k d t]
  by (auto simp: same_mail_def group_devices_def queued_def)

lemma same_mail_trans: "same_mail j d t \<Longrightarrow> same_mail k t u \<Longrightarrow> same_mail (j + k) d u"
  by (auto simp: same_mail_def)

lemma group_devices_exist: "w \<in> set (group_devices g d) \<Longrightarrow> has_device w d"
  by (auto simp: group_devices_def has_device_def)

lemma publish_local:
  "hub_publish_private E msg v h = (Inr (), h') \<Longrightarrow> hub_is_single_instance h \<Longrightarrow>
   hub_is_single_instance h' \<and> hub_is_connected w h' = hub_is_connected w h"
  using tables_fields [of h' h]
  by (auto simp: hub_publish_private_def hub_publish_def hub_is_single_instance_def hub_is_connected_def)

lemma publish_private_ok: "hub_is_single_instance h \<Longrightarrow> \<exists>h'. hub_publish_private E msg v h = (Inr (), h')"
  by (simp add: hub_publish_private_def hub_publish_def hub_is_single_instance_def)

lemma private_send_runs:
  assumes "hub_is_single_instance (sv_hub s)" and "sv_group_id m = Some gs" and "parse_str E gs = Some g"
    and "sv_mls_ciphertext m \<noteq> []" and "is_member_of g u (sv_db s)"
    and "client_message_id_or_new E (sv_client_message_id m) (sv_db s) = (Inr cid, d1)"
    and "sq_store_private_message g u v (sv_mls_ciphertext m) (sv_epoch m) cid d1 = (Inr row, d2)"
    and "fresh_ids (2 * length (group_devices g d2)) d2"
  shows "\<exists>t. handle_private_message E u v m s = (Inr (), t)"
proof -
  let ?p = "encode_private_inbox E (inbox_payload_of E row)"
  obtain h where h: "hub_publish_private E \<lparr>vb_group_id = to_str E (vr_group_id row), vb_sender_id = to_str E (vr_sender_id row),
        vb_ciphertext = vr_ciphertext row, vb_epoch = vr_epoch row,
        vb_timestamp_secs = ts_seconds (to_proto_timestamp (vr_created_at row)),
        vb_timestamp_nanos = ts_nanos (to_proto_timestamp (vr_created_at row)),
        vb_sequence_number = of_int (vr_seq row)\<rparr> v (sv_hub s) = (Inr (), h)"
    using publish_private_ok [OF assms(1)] by blast
  obtain d where "for_each (queue_for_offline E g v ?p) (group_devices g d2) (s\<lparr>sv_hub := h, sv_db := d2\<rparr>) =
      (Inr (), s\<lparr>sv_hub := h, sv_db := d2\<rparr>\<lparr>sv_db := d\<rparr>)"
    using queue_loop [of "group_devices g d2" "s\<lparr>sv_hub := h, sv_db := d2\<rparr>" E g v ?p] assms(8) group_devices_exist
    by auto
  then show ?thesis
    using assms(2-7) h publish_local [OF h assms(1)]
    by (auto simp: handle_private_message_def run_simps require_group_id_def sq_is_member_def gets_def
        on_hub_def zoom_def Let_def bnd_eq sq_device_ids_for_group_def group_devices_def)
qed

section \<open>Properties\<close>



text \<open>
  C13: No private message is lost and none doubled: on a single instance, when a send succeeds, the
  sender is a member of the group, one copy is queued in the mailbox for every listed device of the
  group that is not connected (the sending device apart), in their order and after what was queued
  before, and none for a connected device, which was served by the live delivery.
\<close>

theorem private_mailbox_exact:
  assumes "handle_private_message E u v m s = (Inr (), t)" and "hub_is_single_instance (sv_hub s)"
    and "sv_group_id m = Some gs" and "parse_str E gs = Some g" and "fresh_ids (3 + 2 * length (group_devices g (sv_db s))) (sv_db s)"
  shows "is_member_of g u (sv_db s) \<and>
    (\<exists>p. pi_ciphertext p = sv_mls_ciphertext m \<and> pi_epoch p = sv_epoch m \<and> pi_sender_id p = to_str E u \<and>
     queued g (inbox_json_encode E p) (sv_db s)
       (filter (\<lambda>w. w \<noteq> v \<and> \<not> hub_is_connected w (sv_hub s)) (group_devices g (sv_db s))) (sv_db t))"
proof -
  from assms(1,3,4) obtain cid d1 row d2 h msg where
    mem: "is_member_of g u (sv_db s)"
    and d1: "client_message_id_or_new E (sv_client_message_id m) (sv_db s) = (Inr cid, d1)"
    and d2: "sq_store_private_message g u v (sv_mls_ciphertext m) (sv_epoch m) cid d1 = (Inr row, d2)"
    and h: "hub_publish_private E msg v (sv_hub s) = (Inr (), h)"
    and rest: "(if \<not> hub_is_single_instance h then ret () else bnd (on_db (sq_device_ids_for_group g))
      (for_each (queue_for_offline E g v (encode_private_inbox E (inbox_payload_of E row)))))
        (s\<lparr>sv_db := d2, sv_hub := h\<rparr>) = (Inr (), t)"
    by (auto simp: handle_private_message_def ok_simps require_group_id_def sq_is_member_def on_hub_def)
  let ?p = "encode_private_inbox E (inbox_payload_of E row)" and ?s = "s\<lparr>sv_hub := h, sv_db := d2\<rparr>"
  have mail: "same_mail 3 (sv_db s) d2"
    using same_mail_trans [OF same_mail_steps(1) [OF d1], of 2 d2] same_mail_steps(2) [OF d2] by (simp add: eval_nat_numeral)
  have run: "for_each (queue_for_offline E g v ?p) (group_devices g d2) ?s = (Inr (), t)"
    using rest publish_local [OF h assms(2)]
    by (simp add: run_simps sq_device_ids_for_group_def gets_def group_devices_def)
  obtain d where "for_each (queue_for_offline E g v ?p) (group_devices g d2) ?s = (Inr (), ?s\<lparr>sv_db := d\<rparr>)"
    "queued g ?p d2 (filter (\<lambda>w. w \<noteq> v \<and> \<not> hub_is_connected w h) (group_devices g d2)) d"
    using queue_loop [of "group_devices g d2" ?s E g v ?p] same_mail_views(1) [OF mail assms(5)] group_devices_exist
    by (auto simp: same_mail_views(2) [OF mail])
  then have "queued g ?p (sv_db s) (filter (\<lambda>w. w \<noteq> v \<and> \<not> hub_is_connected w (sv_hub s)) (group_devices g (sv_db s))) (sv_db t)"
    using run publish_local [OF h assms(2)] same_mail_views(2,3) [OF mail] by auto
  moreover have "vr_ciphertext row = sv_mls_ciphertext m \<and> vr_epoch row = sv_epoch m \<and> vr_sender_id row = u"
    using same_mail_steps(2) [OF d2] by simp
  ultimately show ?thesis
    using mem by (intro conjI exI [of _ "inbox_payload_of E row"]) (simp_all add: inbox_payload_of_def encode_private_inbox_def)
qed

text \<open>Witness: the moderator writes to a private group while the member is offline.\<close>

definition private_pair :: server where
  "private_pair = demo_server\<lparr>sv_db := demo_db\<lparr>db_groups := [\<lparr>g_id = 8, g_name = [], g_description = [],
     g_kind = ''private'', g_channel_kind = ''text'', g_category = [], g_position = 0, g_created_at = 0\<rparr>],
     db_members := [\<lparr>gm_group = 8, gm_user = 2, gm_role = ''member'', gm_joined_at = 0\<rparr>,
       \<lparr>gm_group = 8, gm_user = 3, gm_role = ''member'', gm_joined_at = 0\<rparr>]\<rparr>\<rparr>"

lemma private_pair_fields [simp]:
  "sv_hub private_pair = hub_new None True" "db_devices (sv_db private_pair) = db_devices demo_db"
  "db_inbox (sv_db private_pair) = []" "db_env (sv_db private_pair) = demo_env" "db_private (sv_db private_pair) = []"
  "db_priv_seq (sv_db private_pair) = 0" "db_users (sv_db private_pair) = db_users demo_db"
  "map gm_user (db_members (sv_db private_pair)) = [2, 3]" "map gm_group (db_members (sv_db private_pair)) = [8, 8]"
  "map g_id (db_groups (sv_db private_pair)) = [8]"
  by (simp_all add: private_pair_def demo_server_def)

lemma private_pair_devices: "group_devices 8 (sv_db private_pair) = [22, 23]"
  by (simp add: group_devices_def private_pair_def demo_server_def)

lemma private_pair_fresh: "k \<le> 100 \<Longrightarrow> fresh_ids k (sv_db private_pair)"
  by (simp add: fresh_ids_def demo_env_def)
    (auto simp: inj_on_def word_of_nat_eq_iff take_bit_eq_mod)

lemma private_pair_runs:
  "\<exists>t. handle_private_message demo_ext 2 22 \<lparr>sv_group_id = Some (unary 8), sv_mls_ciphertext = [9], sv_epoch = 0,
     sv_client_message_id = None\<rparr> private_pair = (Inr (), t)"
proof -
  let ?d = "sv_db private_pair"
  define d2 where "d2 = snd (sq_store_private_message 8 2 22 [9] 0 100 (tick ?d))"
  have cid: "client_message_id_or_new demo_ext None ?d = (Inr 100, tick ?d)"
    by (simp add: client_message_id_or_new_def clock_defs on_env_def zoom_def read_env_def tick_def)
      (simp add: demo_env_def)
  have "has_group 8 ?d" "has_user 2 ?d" "has_device 22 ?d"
    by (simp_all add: has_group_def has_user_def has_device_def private_pair_def demo_server_def)
  then have store: "\<exists>row. sq_store_private_message 8 2 22 [9] 0 100 (tick ?d) = (Inr row, d2)"
    by (simp add: d2_def sq_store_private_message_def clock_defs on_env_def zoom_def read_env_def upsert_stmt_def
        act_defs Let_def)
  then obtain row where store: "sq_store_private_message 8 2 22 [9] 0 100 (tick ?d) = (Inr row, d2)" ..
  have mail: "same_mail 3 ?d d2"
    using same_mail_trans [OF same_mail_steps(1) [OF cid], of 2 d2] same_mail_steps(2) [OF store]
    by (simp add: eval_nat_numeral)
  have "fresh_ids (3 + 2 * length (group_devices 8 d2)) ?d"
    by (rule private_pair_fresh) (simp add: same_mail_views(2) [OF mail] private_pair_devices)
  then have fresh: "fresh_ids (2 * length (group_devices 8 d2)) d2" by (rule same_mail_views(1) [OF mail])
  show ?thesis
    by (rule private_send_runs [where g = 8 and gs = "unary 8" and cid = 100 and ?d2.0 = d2, OF _ _ _ _ _ _ _ fresh])
      (use cid store in \<open>simp_all add: hub_is_single_instance_def hub_new_def is_member_of_def private_pair_def demo_server_def\<close>)
qed

theorem private_mailbox_exact_witness:
  "\<exists>t. handle_private_message demo_ext 2 22 \<lparr>sv_group_id = Some (unary 8), sv_mls_ciphertext = [9], sv_epoch = 0,
     sv_client_message_id = None\<rparr> private_pair = (Inr (), t) \<and> map ib_device (db_inbox (sv_db t)) = [23]"
proof -
  let ?m = "\<lparr>sv_group_id = Some (unary 8), sv_mls_ciphertext = [9], sv_epoch = 0, sv_client_message_id = None\<rparr>"
  obtain t where run: "handle_private_message demo_ext 2 22 ?m private_pair = (Inr (), t)"
    using private_pair_runs by blast
  have "fresh_ids (3 + 2 * length (group_devices 8 (sv_db private_pair))) (sv_db private_pair)"
    by (rule private_pair_fresh) (simp add: private_pair_devices)
  from private_mailbox_exact [OF run _ _ _ this, of "unary 8"] run show ?thesis
    by (auto simp: queued_def private_pair_devices hub_is_connected_def hub_new_def hub_is_single_instance_def)
qed

text \<open>
  C16: A page of public history is the right one: for a member it is the newest messages of the group
  below the requested sequence number (all of them for 0), newest first, at most as many as asked
  for, never more than 200, and 50 when no limit is given; the call changes nothing.
\<close>

theorem public_history_page:
  assumes "user_of E meta (sv_db s) = Some u" and "fh_group_id req = Some gs" and "parse_str E gs = Some g"
    and "is_member_of g u (sv_db s)"
    and "public_log_ok (sv_db s)" and "db_pub_seq (sv_db s) < i64_max"
    and "distinct (map u_id (db_users (sv_db s)))"
    and "\<forall>m \<in> set (db_public (sv_db s)). has_user (pm_sender m) (sv_db s)"
  shows "fetch_public_history E meta req s =
    (Inr (map (public_row_to_proto E) (map (public_row (sv_db s))
       (take (if fh_limit req = 0 then 50 else min (fh_limit req) 200)
         (rev (filter (\<lambda>m. pm_group m = g \<and> (sint (fh_before_sequence req) \<le> 0 \<or> pm_seq m < sint (fh_before_sequence req)))
           (db_public (sv_db s))))))), s\<lparr>sv_db := tick (sv_db s)\<rparr>)"
proof -
  let ?d = "sv_db s" and ?b = "sint (fh_before_sequence req)"
  obtain c where c: "claims_of E meta ?d = Some c" "parse_str E (cl_sub c) = Some u"
    using assms(1) by (auto simp: user_of_alt)
  have limit: "nat (clamp_limit n) = (if n = 0 then 50 else min n 200)" "0 \<le> clamp_limit n" for n
    by (auto simp: clamp_limit_def DEFAULT_HISTORY_LIMIT_def MAX_HISTORY_LIMIT_def)
  have rows: "public_row (tick ?d) = public_row ?d"
    by (simp add: public_row_def sender_of_def fun_eq_iff)
  have "ensure_participant E g u (tick ?d) = (Inr True, tick ?d)"
    using assms(4) by (simp add: ensure_participant_def sq_is_member_def run_simps ret_def)
  moreover have "sq_fetch_public_history g ?b (clamp_limit (fh_limit req)) (tick ?d) =
      (Inr (map (public_row ?d) (take (nat (clamp_limit (fh_limit req)))
        (rev (filter (\<lambda>m. pm_group m = g \<and> (?b \<le> 0 \<or> pm_seq m < ?b)) (db_public ?d))))), tick ?d)"
    using fetch_public_page [of "tick ?d" "clamp_limit (fh_limit req)" g ?b] assms(5-8) limit(2)
    by (simp add: public_log_ok_def rows)
  ultimately show ?thesis
    using c assms(2,3)
    by (simp add: fetch_public_history_def run_simps authenticate_eq require_group_id_def ret_def limit(1) o_def)
qed

text \<open>Witness: the seeded channel with one message, read by a member without a limit.\<close>

definition one_message :: server where
  "one_message = demo_server\<lparr>sv_db := demo_db\<lparr>db_members := [\<lparr>gm_group = 9, gm_user = 3, gm_role = ''member'', gm_joined_at = 0\<rparr>],
     db_pub_seq := 1, db_public := [\<lparr>pm_seq = 1, pm_id = 70, pm_group = 9, pm_sender = 2, pm_content = ''hi'',
       pm_client_id = 71, pm_created_at = 0\<rparr>]\<rparr>\<rparr>"

theorem public_history_page_witness:
  "map ip_content (projr (fst (fetch_public_history demo_ext (demo_meta 3 23)
     \<lparr>fh_group_id = Some (unary 9), fh_before_sequence = 0, fh_limit = 0\<rparr> one_message))) = [''hi'']"
  by (subst public_history_page [where u = 3 and g = 9 and gs = "unary 9"])
    (simp_all add: one_message_def demo_server_def is_member_of_def public_log_ok_def i64_max_def has_user_def
      public_row_def public_row_to_proto_def)



end
