(* ===== verification/Crypto.thy ===== *)
theory Crypto
  imports Accord_Prelude
begin

text \<open>
  \<open>crates/accord-crypto\<close>: password-encrypted backups and sealed blobs (\<open>backup.rs\<close>), identity keys
  (\<open>identity.rs\<close>) and identity anchors (\<open>hashing.rs\<close>).

  The algorithms themselves (Argon2id, XChaCha20-Poly1305, BLAKE3, Ed25519) belong to other crates:
  they are the fields of \<open>prims\<close>, and \<open>OsRng\<close> is an unbounded sequence of bytes that is read in
  order.  \<open>sealing\<close> states the one law of the cipher the crate relies on: decryption undoes
  encryption and accepts nothing else, which is what an authenticated, deterministic cipher
  documents.
\<close>

unbundle bit_operations_syntax

section \<open>Parameters\<close>

record argon2_params =
  memory_kib :: "32 word"
  iterations :: "32 word"
  parallelism :: "32 word"

record prims =
  argon2_new :: "argon2_params \<Rightarrow> nat \<Rightarrow> string option"
  argon2id :: "argon2_params \<Rightarrow> bytes \<Rightarrow> bytes \<Rightarrow> nat \<Rightarrow> string + bytes"
  aead_encrypt :: "bytes \<Rightarrow> bytes \<Rightarrow> bytes \<Rightarrow> bytes option"
  aead_decrypt :: "bytes \<Rightarrow> bytes \<Rightarrow> bytes \<Rightarrow> bytes option"
  blake3 :: "bytes \<Rightarrow> bytes"
  blake3_keyed :: "bytes \<Rightarrow> bytes \<Rightarrow> bytes"
  ed_public :: "bytes \<Rightarrow> bytes"
  ed_sign :: "bytes \<Rightarrow> bytes \<Rightarrow> bytes"
  ed_point :: "bytes \<Rightarrow> string option"
  ed_verify_strict :: "bytes \<Rightarrow> bytes \<Rightarrow> bytes \<Rightarrow> bool"

record rng =
  rng_bytes :: "nat \<Rightarrow> byte"
  rng_pos :: nat

datatype crypto_error = InvalidKey string | BadSignature | KeyDerivation string | Decryption

definition crypto_error_display :: "crypto_error \<Rightarrow> string" where
  "crypto_error_display e = (case e of
     InvalidKey m \<Rightarrow> ''invalid key material: '' @ m
   | BadSignature \<Rightarrow> ''signature verification failed''
   | KeyDerivation m \<Rightarrow> ''key derivation failed: '' @ m
   | Decryption \<Rightarrow> ''decryption failed: wrong password or corrupted backup'')"

definition fill_bytes :: "nat \<Rightarrow> (rng, 'e, bytes) act" where
  "fill_bytes n = (\<lambda>r. (Inr (map (rng_bytes r) [rng_pos r ..< rng_pos r + n]), r\<lparr>rng_pos := rng_pos r + n\<rparr>))"

text \<open>\<open>u32::to_le_bytes\<close> and \<open>u32::from_le_bytes\<close>.\<close>

definition u32_to_le :: "32 word \<Rightarrow> bytes" where
  "u32_to_le w = [ucast w, ucast (drop_bit 8 w), ucast (drop_bit 16 w), ucast (drop_bit 24 w)]"

definition u32_from_le :: "byte \<Rightarrow> byte \<Rightarrow> byte \<Rightarrow> byte \<Rightarrow> 32 word" where
  "u32_from_le a b c d =
     ucast a OR push_bit 8 (ucast b) OR push_bit 16 (ucast c) OR push_bit 24 (ucast d)"

section \<open>backup.rs\<close>

definition NONCE_LEN :: nat where "NONCE_LEN = 24"
definition WRAPPING_KEY_LEN :: nat where "WRAPPING_KEY_LEN = 32"
definition SALT_LEN :: nat where "SALT_LEN = 32"

definition argon2_params_default :: argon2_params where
  "argon2_params_default = \<lparr>memory_kib = 256 * 1024, iterations = 4, parallelism = 4\<rparr>"

definition params_to_bytes :: "argon2_params \<Rightarrow> bytes" where
  "params_to_bytes p =
     u32_to_le (memory_kib p) @ u32_to_le (iterations p) @ u32_to_le (parallelism p)"

definition params_from_bytes :: "bytes \<Rightarrow> crypto_error + argon2_params" where
  "params_from_bytes bs =
     (if length bs \<noteq> 12
      then Inl (KeyDerivation (''argon2_params must be 12 bytes, got '' @ show_nat (length bs)))
      else let read = (\<lambda>k. u32_from_le (bs ! k) (bs ! (k + 1)) (bs ! (k + 2)) (bs ! (k + 3)))
           in Inr \<lparr>memory_kib = read 0, iterations = read 4, parallelism = read 8\<rparr>)"

record encrypted_backup =
  eb_blob :: bytes
  eb_salt :: bytes
  eb_params :: argon2_params

definition generate_salt :: "(rng, 'e, bytes) act" where
  "generate_salt = fill_bytes SALT_LEN"

definition random_key :: "(rng, 'e, bytes) act" where
  "random_key = fill_bytes WRAPPING_KEY_LEN"

definition derive_wrapping_key :: "prims \<Rightarrow> bytes \<Rightarrow> bytes \<Rightarrow> argon2_params \<Rightarrow> crypto_error + bytes" where
  "derive_wrapping_key P password salt params =
     (case argon2_new P params WRAPPING_KEY_LEN of
        Some e \<Rightarrow> Inl (KeyDerivation e)
      | None \<Rightarrow> (case argon2id P params password salt WRAPPING_KEY_LEN of
          Inl e \<Rightarrow> Inl (KeyDerivation e) | Inr key \<Rightarrow> Inr key))"

text \<open>\<open>XChaCha20Poly1305::new_from_slice\<close> accepts a key of its length only.\<close>

definition encrypt_backup ::
  "prims \<Rightarrow> bytes \<Rightarrow> bytes \<Rightarrow> argon2_params \<Rightarrow> (rng, crypto_error, encrypted_backup) act" where
  "encrypt_backup P password plaintext params =
     bnd generate_salt (\<lambda>salt.
     bnd (of_res (derive_wrapping_key P password salt params)) (\<lambda>key.
     bnd (ensure (length key = WRAPPING_KEY_LEN) Decryption) (\<lambda>_.
     bnd (fill_bytes NONCE_LEN) (\<lambda>nonce_bytes.
     bnd (some_or Decryption (aead_encrypt P key nonce_bytes plaintext)) (\<lambda>ciphertext.
     ret \<lparr>eb_blob = nonce_bytes @ ciphertext, eb_salt = salt, eb_params = params\<rparr>)))))"

definition decrypt_backup ::
  "prims \<Rightarrow> bytes \<Rightarrow> bytes \<Rightarrow> bytes \<Rightarrow> argon2_params \<Rightarrow> crypto_error + bytes" where
  "decrypt_backup P password blob salt params =
     (if length blob < NONCE_LEN then Inl Decryption
      else case derive_wrapping_key P password salt params of
        Inl e \<Rightarrow> Inl e
      | Inr key \<Rightarrow>
          (if length key \<noteq> WRAPPING_KEY_LEN then Inl Decryption
           else case aead_decrypt P key (take NONCE_LEN blob) (drop NONCE_LEN blob) of
             None \<Rightarrow> Inl Decryption | Some plaintext \<Rightarrow> Inr plaintext))"

definition seal :: "prims \<Rightarrow> bytes \<Rightarrow> bytes \<Rightarrow> (rng, crypto_error, bytes) act" where
  "seal P key plaintext =
     bnd (ensure (length key = WRAPPING_KEY_LEN) Decryption) (\<lambda>_.
     bnd (fill_bytes NONCE_LEN) (\<lambda>nonce_bytes.
     bnd (some_or Decryption (aead_encrypt P key nonce_bytes plaintext)) (\<lambda>ciphertext.
     ret (nonce_bytes @ ciphertext))))"

definition open_blob :: "prims \<Rightarrow> bytes \<Rightarrow> bytes \<Rightarrow> crypto_error + bytes" where
  "open_blob P key blob =
     (if length blob < NONCE_LEN then Inl Decryption
      else if length key \<noteq> WRAPPING_KEY_LEN then Inl Decryption
      else case aead_decrypt P key (take NONCE_LEN blob) (drop NONCE_LEN blob) of
        None \<Rightarrow> Inl Decryption | Some plaintext \<Rightarrow> Inr plaintext)"

section \<open>identity.rs and hashing.rs\<close>

definition KEY_LEN :: nat where "KEY_LEN = 32"
definition SIGNATURE_LEN :: nat where "SIGNATURE_LEN = 64"
definition DIGEST_LEN :: nat where "DIGEST_LEN = 32"

text \<open>A keypair is its secret, as \<open>SigningKey\<close> is; a public key is its 32 bytes.\<close>

record identity_key_pair =
  signing :: bytes

definition generate_identity :: "(rng, 'e, identity_key_pair) act" where
  "generate_identity = bnd (fill_bytes KEY_LEN) (\<lambda>s. ret \<lparr>signing = s\<rparr>)"

definition from_secret_bytes :: "bytes \<Rightarrow> identity_key_pair" where
  "from_secret_bytes bs = \<lparr>signing = bs\<rparr>"

definition secret_bytes :: "identity_key_pair \<Rightarrow> bytes" where
  "secret_bytes k = signing k"

definition public_of :: "prims \<Rightarrow> identity_key_pair \<Rightarrow> bytes" where
  "public_of P k = ed_public P (signing k)"

definition sign :: "prims \<Rightarrow> identity_key_pair \<Rightarrow> bytes \<Rightarrow> bytes" where
  "sign P k message = ed_sign P (signing k) message"

definition derive_for_context :: "prims \<Rightarrow> identity_key_pair \<Rightarrow> bytes \<Rightarrow> identity_key_pair" where
  "derive_for_context P k context = from_secret_bytes (blake3_keyed P (secret_bytes k) context)"

definition derive_symmetric :: "prims \<Rightarrow> identity_key_pair \<Rightarrow> bytes \<Rightarrow> bytes" where
  "derive_symmetric P k context = blake3_keyed P (secret_bytes k) (ascii ''sym:'' @ context)"

definition public_from_bytes :: "prims \<Rightarrow> bytes \<Rightarrow> crypto_error + bytes" where
  "public_from_bytes P bs = (case ed_point P bs of Some e \<Rightarrow> Inl (InvalidKey e) | None \<Rightarrow> Inr bs)"

definition hex_digit :: "nat \<Rightarrow> char" where
  "hex_digit n = ''0123456789abcdef'' ! n"

definition hex :: "bytes \<Rightarrow> string" where
  "hex bs = concat (map (\<lambda>b. [hex_digit (unat b div 16), hex_digit (unat b mod 16)]) bs)"

definition fingerprint :: "prims \<Rightarrow> bytes \<Rightarrow> string" where
  "fingerprint P pk = hex (take 8 (blake3 P pk))"

definition verify_signature :: "prims \<Rightarrow> bytes \<Rightarrow> bytes \<Rightarrow> bytes \<Rightarrow> crypto_error + unit" where
  "verify_signature P pk message signature =
     (if ed_verify_strict P pk message signature then Inr () else Inl BadSignature)"

definition identity_anchor_hash :: "prims \<Rightarrow> string \<Rightarrow> bytes \<Rightarrow> bytes" where
  "identity_anchor_hash P identifier server_salt = blake3 P (ascii identifier @ server_salt)"

section \<open>Facts on the encodings\<close>

lemma u32_le_roundtrip: "u32_from_le (ucast w) (ucast (drop_bit 8 w)) (ucast (drop_bit 16 w)) (ucast (drop_bit 24 w)) = w"
proof (rule bit_word_eqI)
  fix n assume "n < LENGTH(32)"
  then have "n < 8 \<or> 8 \<le> n \<and> n < 16 \<or> 16 \<le> n \<and> n < 24 \<or> 24 \<le> n \<and> n < 32" by auto
  then show "bit (u32_from_le (ucast w) (ucast (drop_bit 8 w)) (ucast (drop_bit 16 w)) (ucast (drop_bit 24 w))) n = bit w n"
    by (auto simp: u32_from_le_def bit_simps)
qed

lemma length_u32_to_le [simp]: "length (u32_to_le w) = 4"
  by (simp add: u32_to_le_def)

lemma params_roundtrip: "params_from_bytes (params_to_bytes p) = Inr p"
  by (simp add: params_from_bytes_def params_to_bytes_def u32_to_le_def u32_le_roundtrip)

lemma u32_of_le: "u32_to_le w = [a, b, c, d] \<Longrightarrow> u32_from_le a b c d = w"
  by (auto simp: u32_to_le_def u32_le_roundtrip)

lemma length_hex [simp]: "length (hex bs) = 2 * length bs"
  by (induction bs) (simp_all add: hex_def)

lemma hex_digits: "c \<in> set (hex bs) \<Longrightarrow> c \<in> set ''0123456789abcdef''"
proof -
  assume "c \<in> set (hex bs)"
  then obtain b where "c = hex_digit (unat (b :: byte) div 16) \<or> c = hex_digit (unat b mod 16)"
    by (auto simp: hex_def)
  moreover have "unat b < 256" using unsigned_less [of b, where 'a = nat] by simp
  then have "unat b div 16 < 16" "unat b mod 16 < 16" by auto
  ultimately obtain n where "n < 16" "c = hex_digit n" by blast
  then show ?thesis using nth_mem [of n "''0123456789abcdef''"] unfolding hex_digit_def by simp
qed

section \<open>What sealing promises\<close>

text \<open>
  The law of the cipher: a ciphertext is accepted exactly when it is what encryption produces, and
  then gives the plaintext back.
\<close>

definition aead_exact :: "prims \<Rightarrow> bool" where
  "aead_exact P \<longleftrightarrow> (\<forall>k n p c. aead_decrypt P k n c = Some p \<longleftrightarrow> aead_encrypt P k n p = Some c)"

lemma fill_bytes_ok [ok_simps]:
  "fill_bytes n r = (Inr bs, r') \<longleftrightarrow> bs = map (rng_bytes r) [rng_pos r ..< rng_pos r + n] \<and>
     r' = r\<lparr>rng_pos := rng_pos r + n\<rparr>"
  by (auto simp: fill_bytes_def)

definition sealed_as :: "prims \<Rightarrow> bytes \<Rightarrow> bytes \<Rightarrow> bytes \<Rightarrow> bool" where
  "sealed_as P key p blob \<longleftrightarrow> length key = WRAPPING_KEY_LEN \<and>
     (\<exists>nonce c. length nonce = NONCE_LEN \<and> aead_encrypt P key nonce p = Some c \<and> blob = nonce @ c)"

lemma seal_sealed: "seal P key p r = (Inr blob, r') \<Longrightarrow> sealed_as P key p blob"
  by (auto simp: seal_def sealed_as_def ok_simps intro!: exI)

lemma open_sealed: "aead_exact P \<Longrightarrow> open_blob P key blob = Inr p \<longleftrightarrow> sealed_as P key p blob"
proof -
  assume law: "aead_exact P"
  have "sealed_as P key p blob \<longleftrightarrow> length key = WRAPPING_KEY_LEN \<and> NONCE_LEN \<le> length blob \<and>
      aead_encrypt P key (take NONCE_LEN blob) p = Some (drop NONCE_LEN blob)"
    unfolding sealed_as_def
    by (metis append_eq_conv_conj append_take_drop_id length_append le_add1 length_take min.absorb2)
  then show ?thesis
    using law by (simp add: open_blob_def aead_exact_def split: option.splits) (metis linorder_not_less option.inject option.distinct(1))
qed

lemma seal_open: "aead_exact P \<Longrightarrow> seal P key p r = (Inr blob, r') \<Longrightarrow> open_blob P key blob = Inr p"
  by (simp add: open_sealed seal_sealed)

text \<open>A backup is a blob sealed under the derived key.\<close>

lemma decrypt_is_open:
  "decrypt_backup P pw blob salt params =
     (if length blob < NONCE_LEN then Inl Decryption
      else case derive_wrapping_key P pw salt params of Inl e \<Rightarrow> Inl e | Inr key \<Rightarrow> open_blob P key blob)"
  by (auto simp: decrypt_backup_def open_blob_def split: sum.splits)

lemma encrypt_is_seal:
  "encrypt_backup P pw p params =
     bnd generate_salt (\<lambda>salt.
     bnd (of_res (derive_wrapping_key P pw salt params)) (\<lambda>key.
     bnd (seal P key p) (\<lambda>blob. ret \<lparr>eb_blob = blob, eb_salt = salt, eb_params = params\<rparr>)))"
  by (auto simp: encrypt_backup_def seal_def fun_eq_iff act_defs split: sum.splits option.splits prod.splits)

lemma sealed_long: "sealed_as P key p blob \<Longrightarrow> NONCE_LEN \<le> length blob"
  by (auto simp: sealed_as_def)

section \<open>Concrete primitives\<close>

text \<open>
  An instance for concrete runs: a ciphertext carries its key and nonce in front of the plaintext,
  so another key or nonce does not open it; digests are the first 32 bytes.
\<close>

definition pad32 :: "bytes \<Rightarrow> bytes" where
  "pad32 bs = take 32 (bs @ replicate 32 0)"

definition demo_prims :: prims where
  "demo_prims =
     \<lparr>argon2_new = (\<lambda>p n. if memory_kib p = 0 then Some ''memory is too small'' else None),
      argon2id = (\<lambda>p pw salt n. Inr (take n (pw @ salt @ replicate n 0))),
      aead_encrypt = (\<lambda>k n p. Some (k @ n @ p)),
      aead_decrypt = (\<lambda>k n c. if take (length k + length n) c = k @ n then Some (drop (length k + length n) c) else None),
      blake3 = pad32,
      blake3_keyed = (\<lambda>k m. pad32 (m @ k)),
      ed_public = id,
      ed_sign = (\<lambda>k m. k @ k),
      ed_point = (\<lambda>b. None),
      ed_verify_strict = (\<lambda>k m s. s = k @ k)\<rparr>"

lemma demo_aead: "aead_exact demo_prims"
proof -
  have "take n c = x \<and> drop n c = p \<longleftrightarrow> c = x @ p" if "n = length x" for x p c :: bytes and n
    using that by (metis append_eq_conv_conj append_take_drop_id)
  from this [of "length k + length n" "k @ n" for k n] show ?thesis
    by (simp add: aead_exact_def demo_prims_def eq_commute [of "_ @ _"]) metis
qed

definition demo_rng :: rng where
  "demo_rng = \<lparr>rng_bytes = of_nat, rng_pos = 0\<rparr>"

end
