(* ===== verification/Client_Local.thy ===== *)
theory Client_Local
  imports Crypto
begin

text \<open>
  The state the desktop client keeps on one machine and the modules that only touch it:
  \<open>at_rest.rs\<close> (the local data key), \<open>settings.rs\<close>, \<open>identity.rs\<close> (the master key) and
  \<open>commands/accounts.rs\<close>.

  A path is the list of its components below the application data directory.  A file operation may
  fail: \<open>Open_Fails\<close> touches nothing, \<open>Write_Fails\<close> leaves the file with the first \<open>n\<close> of the
  bytes it was to get.  The settings mutex is never poisoned (no holder panics), so locking it is
  not an error here.  The hash maps of the client are association lists: the theorems hold for every
  order of their entries.
\<close>

type_synonym path = "string list"

datatype io_fault = Open_Fails string | Write_Fails string nat

datatype ygg_peer_mode = Authorized | Private | Public

datatype friend_request_policy = Everyone | TavernMembers | FriendsOfFriends | NoOne

record rendezvous_node =
  rn_url :: string
  rn_label :: string
  rn_mine :: bool

record settings =
  encrypt_at_rest :: bool
  set_friend_policy :: friend_request_policy
  mesh_enabled :: bool
  rendezvous_node :: "rendezvous_node option"
  ygg_peer_mode :: ygg_peer_mode
  ygg_private_peers :: "string list"
  max_hosted :: "32 word"

record stored_account =
  sa_username :: string
  sa_main :: bool
  sa_created_at_ms :: int
  sa_avatar :: string

text \<open>One archived private message (\<open>history.rs\<close>) and the pending uploads (\<open>sync.rs\<close>).\<close>

record archived_message =
  am_group_id :: string
  am_sender_id :: string
  am_content :: string
  am_timestamp_ms :: int

record sync =
  sy_mls :: "(string \<times> bytes) list"
  sy_groups :: "(string \<times> string list) list"
  sy_started :: bool

record keyring =
  kr_open :: "string option"
  kr_get :: "string option"
  kr_set :: "string option"
  kr_secret :: "bytes option"

record client =
  c_files :: "(path \<times> bytes) list"
  c_fault :: "path \<Rightarrow> io_fault option"
  c_keyring :: keyring
  c_dek :: "bytes option"
  c_rng :: rng
  c_settings :: settings
  c_sync :: sync

type_synonym 'a clact = "(client, string, 'a) act"

text \<open>
  The JSON encoders of the client's own files and the check of a metadata value (tonic), as
  parameters beside the primitives.
\<close>

record client_ext =
  cx_prims :: prims
  settings_to_json :: "settings \<Rightarrow> string + bytes"
  settings_from_json :: "bytes \<Rightarrow> settings option"
  accounts_to_json :: "stored_account list \<Rightarrow> string + bytes"
  accounts_from_json :: "bytes \<Rightarrow> stored_account list option"
  msg_to_json :: "archived_message \<Rightarrow> string + bytes"
  msg_from_json :: "bytes \<Rightarrow> archived_message option"
  metadata_ok :: "string \<Rightarrow> bool"

section \<open>Files\<close>

fun fault_message :: "io_fault \<Rightarrow> string" where
  "fault_message (Open_Fails e) = e"
| "fault_message (Write_Fails e n) = e"

text \<open>\<open>app_data_dir\<close> and \<open>create_dir_all\<close>.\<close>

definition make_dir :: "path \<Rightarrow> path clact" where
  "make_dir p = (\<lambda>c. case c_fault c p of Some f \<Rightarrow> (Inl (fault_message f), c) | None \<Rightarrow> (Inr p, c))"

definition read_file :: "path \<Rightarrow> client \<Rightarrow> bytes option" where
  "read_file p c = (case c_fault c p of Some (Open_Fails e) \<Rightarrow> None | _ \<Rightarrow> map_of (c_files c) p)"

definition put_file :: "path \<Rightarrow> bytes \<Rightarrow> client \<Rightarrow> client" where
  "put_file p bs c = c\<lparr>c_files := AList.update p bs (c_files c)\<rparr>"

definition write_file :: "path \<Rightarrow> bytes \<Rightarrow> unit clact" where
  "write_file p bs = (\<lambda>c. case c_fault c p of
      Some (Open_Fails e) \<Rightarrow> (Inl e, c)
    | Some (Write_Fails e n) \<Rightarrow> (Inl e, put_file p (take n bs) c)
    | None \<Rightarrow> (Inr (), put_file p bs c))"

definition file_or_empty :: "path \<Rightarrow> client \<Rightarrow> bytes" where
  "file_or_empty p c = (case map_of (c_files c) p of None \<Rightarrow> [] | Some bs \<Rightarrow> bs)"

definition append_file :: "path \<Rightarrow> bytes \<Rightarrow> unit clact" where
  "append_file p bs = (\<lambda>c. case c_fault c p of
      Some (Open_Fails e) \<Rightarrow> (Inl e, c)
    | Some (Write_Fails e n) \<Rightarrow> (Inl e, put_file p (file_or_empty p c @ take n bs) c)
    | None \<Rightarrow> (Inr (), put_file p (file_or_empty p c @ bs) c))"

section \<open>at\_rest.rs\<close>

definition on_rng :: "(rng, crypto_error, 'a) act \<Rightarrow> 'a clact" where
  "on_rng m = map_err crypto_error_display (zoom c_rng (\<lambda>r c. c\<lparr>c_rng := r\<rparr>) m)"

definition dek :: "bytes clact" where
  "dek =
     bnd (gets c_dek) (\<lambda>cached.
     case cached of Some key \<Rightarrow> ret key
     | None \<Rightarrow>
     bnd (gets c_keyring) (\<lambda>kr.
     bnd (case kr_open kr of Some e \<Rightarrow> fail e | None \<Rightarrow> ret ()) (\<lambda>_.
     bnd (case kr_get kr of Some e \<Rightarrow> fail e
          | None \<Rightarrow> (case kr_secret kr of
              Some bs \<Rightarrow> bnd (ensure (length bs = 32) ''keyring DEK has wrong length'') (\<lambda>_. ret bs)
            | None \<Rightarrow>
                bnd (on_rng random_key) (\<lambda>key.
                bnd (case kr_set kr of Some e \<Rightarrow> fail e
                     | None \<Rightarrow> modify (\<lambda>c. c\<lparr>c_keyring := (c_keyring c)\<lparr>kr_secret := Some key\<rparr>\<rparr>)) (\<lambda>_.
                ret key)))) (\<lambda>key.
     bnd (modify (\<lambda>c. if c_dek c = None then c\<lparr>c_dek := Some key\<rparr> else c)) (\<lambda>_.
     ret key)))))"

definition seal_bytes :: "client_ext \<Rightarrow> bytes \<Rightarrow> bytes clact" where
  "seal_bytes X plaintext = bnd dek (\<lambda>key. on_rng (seal (cx_prims X) key plaintext))"

definition open_bytes :: "client_ext \<Rightarrow> bytes \<Rightarrow> (client, 'e, bytes option) act" where
  "open_bytes X blob = or_else None (bnd dek (\<lambda>key.
     ret (case open_blob (cx_prims X) key blob of Inl e \<Rightarrow> None | Inr plaintext \<Rightarrow> Some plaintext)))"

section \<open>settings.rs\<close>

definition DEFAULT_MAX_HOSTED_TAVERNS :: "32 word" where "DEFAULT_MAX_HOSTED_TAVERNS = 16"

definition settings_default :: settings where
  "settings_default = \<lparr>encrypt_at_rest = False, set_friend_policy = Everyone, mesh_enabled = False,
     rendezvous_node = None, ygg_peer_mode = Public, ygg_private_peers = [],
     max_hosted = DEFAULT_MAX_HOSTED_TAVERNS\<rparr>"

definition settings_path :: "path clact" where
  "settings_path = bnd (make_dir []) (\<lambda>d. ret (d @ [''settings.json'']))"

definition load_settings :: "client_ext \<Rightarrow> settings clact" where
  "load_settings X = or_else settings_default (
     bnd settings_path (\<lambda>p.
     bnd (gets (read_file p)) (\<lambda>b.
     ret (case b of None \<Rightarrow> settings_default
          | Some bs \<Rightarrow> (case settings_from_json X bs of None \<Rightarrow> settings_default | Some s \<Rightarrow> s)))))"

definition save_settings :: "client_ext \<Rightarrow> settings \<Rightarrow> unit clact" where
  "save_settings X s =
     bnd (of_res (settings_to_json X s)) (\<lambda>bs.
     bnd settings_path (\<lambda>p. write_file p bs))"

definition persist_settings :: "client_ext \<Rightarrow> unit clact" where
  "persist_settings X = bnd (gets c_settings) (save_settings X)"

definition update_settings :: "(settings \<Rightarrow> settings) \<Rightarrow> unit clact" where
  "update_settings f = modify (\<lambda>c. c\<lparr>c_settings := f (c_settings c)\<rparr>)"

definition ygg_config :: "client \<Rightarrow> ygg_peer_mode \<times> string list" where
  "ygg_config c = (ygg_peer_mode (c_settings c), ygg_private_peers (c_settings c))"

definition store_ygg_config :: "client_ext \<Rightarrow> ygg_peer_mode \<Rightarrow> string list \<Rightarrow> unit clact" where
  "store_ygg_config X mode peers =
     bnd (update_settings (\<lambda>s. s\<lparr>ygg_peer_mode := mode, ygg_private_peers := peers\<rparr>)) (\<lambda>_.
     bnd (gets c_settings) (save_settings X))"

definition friend_request_policy_of :: "client \<Rightarrow> friend_request_policy" where
  "friend_request_policy_of c = set_friend_policy (c_settings c)"

definition is_mesh_enabled :: "client \<Rightarrow> bool" where
  "is_mesh_enabled c = mesh_enabled (c_settings c)"

definition store_mesh_enabled :: "client_ext \<Rightarrow> bool \<Rightarrow> unit clact" where
  "store_mesh_enabled X enabled =
     bnd (update_settings (\<lambda>s. s\<lparr>mesh_enabled := enabled\<rparr>)) (\<lambda>_.
     bnd (gets c_settings) (save_settings X))"

definition is_encrypt_at_rest :: "client \<Rightarrow> bool" where
  "is_encrypt_at_rest c = encrypt_at_rest (c_settings c)"

definition get_settings :: "client \<Rightarrow> settings" where
  "get_settings c = c_settings c"

definition set_encrypt_at_rest :: "client_ext \<Rightarrow> bool \<Rightarrow> unit clact" where
  "set_encrypt_at_rest X enabled =
     bnd (update_settings (\<lambda>s. s\<lparr>encrypt_at_rest := enabled\<rparr>)) (\<lambda>_. persist_settings X)"

definition set_friend_request_policy :: "client_ext \<Rightarrow> friend_request_policy \<Rightarrow> unit clact" where
  "set_friend_request_policy X policy =
     bnd (update_settings (\<lambda>s. s\<lparr>set_friend_policy := policy\<rparr>)) (\<lambda>_. persist_settings X)"

definition max_hosted_taverns :: "client \<Rightarrow> 32 word" where
  "max_hosted_taverns c = max_hosted (c_settings c)"

definition set_max_hosted_taverns :: "client_ext \<Rightarrow> 32 word \<Rightarrow> unit clact" where
  "set_max_hosted_taverns X n =
     bnd (update_settings (\<lambda>s. s\<lparr>max_hosted := max 1 (min 200 n)\<rparr>)) (\<lambda>_. persist_settings X)"

definition set_rendezvous_node :: "client_ext \<Rightarrow> rendezvous_node option \<Rightarrow> unit clact" where
  "set_rendezvous_node X node =
     bnd (update_settings (\<lambda>s. s\<lparr>rendezvous_node := node\<rparr>)) (\<lambda>_. persist_settings X)"

section \<open>identity.rs\<close>

definition key_path :: "path clact" where
  "key_path = bnd (make_dir []) (\<lambda>d. ret (d @ [''identity.key'']))"

definition save_master :: "client_ext \<Rightarrow> identity_key_pair \<Rightarrow> unit clact" where
  "save_master X keypair =
     bnd key_path (\<lambda>p.
     bnd (seal_bytes X (secret_bytes keypair)) (\<lambda>blob.
     map_err (\<lambda>e. ''could not persist identity key: '' @ e) (write_file p blob)))"

text \<open>The \<open>.ok()?\<close> of the source ends the function with \<open>None\<close>.\<close>

definition load_master :: "client_ext \<Rightarrow> (client, 'e, identity_key_pair option) act" where
  "load_master X = or_else None (
     bnd key_path (\<lambda>p.
     bnd (gets (read_file p)) (\<lambda>b.
     case b of None \<Rightarrow> ret None
     | Some bs \<Rightarrow>
     bnd (open_bytes X bs) (\<lambda>plain.
     case plain of
       Some plaintext \<Rightarrow>
         if length plaintext = 32 then ret (Some (from_secret_bytes plaintext))
         else if length bs = 32
           then bnd (or_else () (save_master X (from_secret_bytes bs))) (\<lambda>_. ret (Some (from_secret_bytes bs)))
           else ret None
     | None \<Rightarrow>
         if length bs = 32
           then bnd (or_else () (save_master X (from_secret_bytes bs))) (\<lambda>_. ret (Some (from_secret_bytes bs)))
           else ret None))))"

definition load_or_create_master :: "client_ext \<Rightarrow> identity_key_pair clact" where
  "load_or_create_master X =
     bnd (load_master X) (\<lambda>k.
     case k of Some keypair \<Rightarrow> ret keypair
     | None \<Rightarrow>
     bnd (on_rng generate_identity) (\<lambda>keypair.
     bnd (save_master X keypair) (\<lambda>_. ret keypair)))"

definition CONTACT_IDENTITY_CONTEXT :: bytes where
  "CONTACT_IDENTITY_CONTEXT = ascii ''accord:contact-identity''"

definition contact_identity :: "client_ext \<Rightarrow> identity_key_pair \<Rightarrow> identity_key_pair" where
  "contact_identity X master = derive_for_context (cx_prims X) master CONTACT_IDENTITY_CONTEXT"

definition derive_for :: "client_ext \<Rightarrow> identity_key_pair \<Rightarrow> string option \<Rightarrow> string \<Rightarrow> identity_key_pair" where
  "derive_for X master cert endpoint =
     derive_for_context (cx_prims X) master (ascii (case cert of Some c \<Rightarrow> c | None \<Rightarrow> endpoint))"

definition derived_pubkey_for :: "client_ext \<Rightarrow> identity_key_pair \<Rightarrow> string option \<Rightarrow> string \<Rightarrow> bytes" where
  "derived_pubkey_for X master cert endpoint = public_of (cx_prims X) (derive_for X master cert endpoint)"

definition text_of :: "bytes \<Rightarrow> string option" where
  "text_of bs = (if \<forall>b\<in>set bs. unat b < 128 then Some (map (char_of \<circ> unat) bs) else None)"

definition load_or_create_install_id :: "string clact" where
  "load_or_create_install_id =
     bnd (make_dir []) (\<lambda>d.
     let p = d @ [''install-id''] in
     bnd (gets (\<lambda>c. Option.bind (read_file p c) text_of)) (\<lambda>existing.
     case existing of
       Some s \<Rightarrow> if trim s \<noteq> [] then ret (trim s)
         else bnd (on_rng generate_identity) (\<lambda>k.
              let id = hex (take 4 (secret_bytes k)) in
              bnd (write_file p (ascii id)) (\<lambda>_. ret id))
     | None \<Rightarrow> bnd (on_rng generate_identity) (\<lambda>k.
              let id = hex (take 4 (secret_bytes k)) in
              bnd (write_file p (ascii id)) (\<lambda>_. ret id))))"

definition device_name :: "string \<Rightarrow> (client, 'e, string) act" where
  "device_name label =
     bnd (or_else ''00000000'' load_or_create_install_id) (\<lambda>install_id. ret (label @ ''-'' @ install_id))"

section \<open>commands/accounts.rs\<close>

record account_pill =
  ap_username :: string
  ap_is_main :: bool
  ap_avatar :: string

definition accounts_path :: "path clact" where
  "accounts_path = bnd (make_dir []) (\<lambda>d. ret (d @ [''accounts.bin'']))"

definition load_accounts :: "client_ext \<Rightarrow> (client, 'e, stored_account list) act" where
  "load_accounts X = or_else [] (
     bnd accounts_path (\<lambda>p.
     bnd (gets (read_file p)) (\<lambda>b.
     case b of None \<Rightarrow> ret []
     | Some bs \<Rightarrow>
     bnd (open_bytes X bs) (\<lambda>pt.
     ret (case Option.bind pt (accounts_from_json X) of None \<Rightarrow> [] | Some l \<Rightarrow> l)))))"

definition save_accounts :: "client_ext \<Rightarrow> stored_account list \<Rightarrow> unit clact" where
  "save_accounts X accounts =
     bnd (of_res (accounts_to_json X accounts)) (\<lambda>json.
     bnd (seal_bytes X json) (\<lambda>blob.
     bnd accounts_path (\<lambda>p. write_file p blob)))"

definition record_account :: "client_ext \<Rightarrow> int \<Rightarrow> string \<Rightarrow> (client, 'e, unit) act" where
  "record_account X now_ms username =
     bnd (load_accounts X) (\<lambda>accounts.
     if \<exists>a\<in>set accounts. sa_username a = username then ret ()
     else or_else () (save_accounts X (accounts @
       [\<lparr>sa_username = username, sa_main = (accounts = []), sa_created_at_ms = now_ms, sa_avatar = []\<rparr>])))"

fun set_first_avatar :: "string \<Rightarrow> string \<Rightarrow> stored_account list \<Rightarrow> stored_account list" where
  "set_first_avatar u avatar [] = []"
| "set_first_avatar u avatar (a # as) =
     (if sa_username a = u then a\<lparr>sa_avatar := avatar\<rparr> # as else a # set_first_avatar u avatar as)"

definition set_account_avatar :: "client_ext \<Rightarrow> string \<Rightarrow> string \<Rightarrow> unit clact" where
  "set_account_avatar X username avatar =
     bnd (load_accounts X) (\<lambda>accounts.
     case List.find (\<lambda>a. sa_username a = username) accounts of
       None \<Rightarrow> ret ()
     | Some acct \<Rightarrow> if sa_avatar acct = avatar then ret ()
         else save_accounts X (set_first_avatar username avatar accounts))"

definition list_accounts :: "client_ext \<Rightarrow> account_pill list clact" where
  "list_accounts X =
     bnd (load_accounts X) (\<lambda>accounts.
     ret (map (\<lambda>a. \<lparr>ap_username = sa_username a, ap_is_main = sa_main a, ap_avatar = sa_avatar a\<rparr>) accounts))"

section \<open>An unlocked client\<close>

text \<open>
  Once the data key is cached, sealing and opening use it and nothing of the keyring is touched.
\<close>

definition unlocked :: "bytes \<Rightarrow> client \<Rightarrow> bool" where
  "unlocked k c \<longleftrightarrow> c_dek c = Some k \<and> length k = 32"

lemma dek_unlocked [simp]: "unlocked k c \<Longrightarrow> dek c = (Inr k, c)"
  by (simp add: dek_def unlocked_def act_defs)

lemma open_bytes_unlocked:
  "unlocked k c \<Longrightarrow> open_bytes X blob c =
     (Inr (case open_blob (cx_prims X) k blob of Inl e \<Rightarrow> None | Inr p \<Rightarrow> Some p), c)"
  by (simp add: open_bytes_def or_else_def bnd_def ret_def)

lemma on_rng_ok [ok_simps]:
  "on_rng m c = (Inr a, t) \<longleftrightarrow> (\<exists>r. m (c_rng c) = (Inr a, r) \<and> t = c\<lparr>c_rng := r\<rparr>)"
  by (auto simp: on_rng_def act_defs split: prod.splits sum.splits)

lemma seal_bytes_unlocked:
  "unlocked k c \<Longrightarrow> seal_bytes X p c = (Inr blob, t) \<longleftrightarrow>
     (\<exists>r. seal (cx_prims X) k p (c_rng c) = (Inr blob, r) \<and> t = c\<lparr>c_rng := r\<rparr>)"
  by (simp add: seal_bytes_def ok_simps)

lemma on_rng_snd: "snd (on_rng m c) = c\<lparr>c_rng := snd (m (c_rng c))\<rparr>"
  by (auto simp: on_rng_def act_defs split: prod.splits sum.splits)

lemma seal_bytes_snd: "unlocked k c \<Longrightarrow> snd (seal_bytes X p c) = c\<lparr>c_rng := snd (seal (cx_prims X) k p (c_rng c))\<rparr>"
  by (simp add: seal_bytes_def bnd_def on_rng_snd)

lemma unlocked_simps [simp]:
  "unlocked k (c\<lparr>c_rng := r\<rparr>) = unlocked k c" "unlocked k (c\<lparr>c_files := f\<rparr>) = unlocked k c"
  "unlocked k (c\<lparr>c_sync := y\<rparr>) = unlocked k c" "unlocked k (put_file p b c) = unlocked k c"
  by (simp_all add: unlocked_def put_file_def)

text \<open>The first use of the data key caches it; the keyring then holds the same key.\<close>

lemma dek_establishes:
  assumes "c_dek c = None" "dek c = (Inr k, t)"
  shows "unlocked k t \<and> kr_secret (c_keyring t) = Some k"
  using assms
  by (auto simp: dek_def random_key_def WRAPPING_KEY_LEN_def ok_simps unlocked_def split: option.splits if_splits)

end
