(* ===== verification/Client_History.thy ===== *)
theory Client_History
  imports Client_Local
begin

text \<open>
  \<open>crates/accord-client/src-tauri/src/history.rs\<close>: the archive of private messages a client keeps per
  group, a log of records \<open>[flag][u32 length][payload]\<close>, and the marking of changed groups
  (\<open>sync.rs\<close>).  \<open>usize\<close> is 64 bits, so the index arithmetic of the reader does not wrap; the
  length field is 32 bits and does.
\<close>

section \<open>Marking\<close>

definition mark_mls :: "string \<Rightarrow> bytes \<Rightarrow> (client, 'e, unit) act" where
  "mark_mls user_id bs = modify (\<lambda>c. c\<lparr>c_sync := (c_sync c)\<lparr>sy_mls := AList.update user_id bs (sy_mls (c_sync c))\<rparr>\<rparr>)"

definition dirty_groups :: "string \<Rightarrow> client \<Rightarrow> string list" where
  "dirty_groups user_id c = (case map_of (sy_groups (c_sync c)) user_id of None \<Rightarrow> [] | Some gs \<Rightarrow> gs)"

definition mark_group :: "string \<Rightarrow> string \<Rightarrow> (client, 'e, unit) act" where
  "mark_group user_id group_id = modify (\<lambda>c. c\<lparr>c_sync := (c_sync c)\<lparr>sy_groups :=
     AList.update user_id (List.insert group_id (dirty_groups user_id c)) (sy_groups (c_sync c))\<rparr>\<rparr>)"

section \<open>Records\<close>

definition history_dir :: "string \<Rightarrow> path clact" where
  "history_dir user_id = bnd (make_dir []) (\<lambda>d. make_dir (d @ [''history'', user_id]))"

definition group_path :: "string \<Rightarrow> string \<Rightarrow> path clact" where
  "group_path user_id group_id =
     bnd (history_dir user_id) (\<lambda>d. ret (d @ [group_id @ ''.dmlog'']))"

function read_loop :: "bytes \<Rightarrow> nat \<Rightarrow> (byte \<times> bytes) list \<Rightarrow> (byte \<times> bytes) list" where
  "read_loop data i records =
     (if i + 5 \<le> length data then
        let flag = data ! i;
            len = unat (u32_from_le (data ! (i + 1)) (data ! (i + 2)) (data ! (i + 3)) (data ! (i + 4)));
            j = i + 5
        in if j + len > length data then records
           else read_loop data (j + len) (records @ [(flag, take len (drop j data))])
      else records)"
  by pat_completeness auto
termination by (relation "measure (\<lambda>(data, i, _). length data - i)") auto

declare read_loop.simps [simp del]

definition read_records :: "path \<Rightarrow> client \<Rightarrow> (byte \<times> bytes) list" where
  "read_records p c = (case read_file p c of None \<Rightarrow> [] | Some data \<Rightarrow> read_loop data 0 [])"

definition frame :: "byte \<Rightarrow> bytes \<Rightarrow> bytes" where
  "frame flag payload = flag # u32_to_le (of_nat (length payload)) @ payload"

definition decode :: "client_ext \<Rightarrow> byte \<Rightarrow> bytes \<Rightarrow> (client, 'e, archived_message option) act" where
  "decode X flag payload =
     bnd (if flag = 1 then open_bytes X payload else ret (Some payload)) (\<lambda>json.
     ret (Option.bind json (msg_from_json X)))"

definition encode :: "client_ext \<Rightarrow> string \<Rightarrow> archived_message \<Rightarrow> bytes clact" where
  "encode X user_id msg =
     bnd (of_res (msg_to_json X msg)) (\<lambda>json.
     bnd (gets (\<lambda>c. am_sender_id msg \<noteq> user_id \<or> is_encrypt_at_rest c)) (\<lambda>encrypt.
     if encrypt then bnd (seal_bytes X json) (\<lambda>blob. ret (frame 1 blob))
     else ret (frame 0 json)))"

definition load :: "client_ext \<Rightarrow> string \<Rightarrow> string \<Rightarrow> (client, 'e, archived_message list) act" where
  "load X user_id group_id = or_else [] (
     bnd (group_path user_id group_id) (\<lambda>p.
     bnd (gets (read_records p)) (\<lambda>records.
     bnd (map_each (\<lambda>(f, q). decode X f q) records) (\<lambda>ms.
     ret (List.map_filter id ms)))))"

record raw_entry =
  re_id :: string
  re_flag :: byte
  re_payload :: bytes

definition tail_raw :: "string \<Rightarrow> string \<Rightarrow> nat \<Rightarrow> (client, 'e, raw_entry list) act" where
  "tail_raw user_id group_id limit = or_else [] (
     bnd (group_path user_id group_id) (\<lambda>p.
     bnd (gets (read_records p)) (\<lambda>records.
     ret (map (\<lambda>(index, flag, payload). \<lparr>re_id = group_id @ ''#'' @ show_nat index, re_flag = flag, re_payload = payload\<rparr>)
       (drop (length records - limit) (enumerate 0 records))))))"

definition decode_entry :: "client_ext \<Rightarrow> byte \<Rightarrow> bytes \<Rightarrow> (client, 'e, archived_message option) act" where
  "decode_entry X flag payload = decode X flag payload"

definition jsonl_line :: "client_ext \<Rightarrow> archived_message \<Rightarrow> bytes" where
  "jsonl_line X m = (case msg_to_json X m of Inl e \<Rightarrow> [] | Inr line \<Rightarrow> line @ [10])"

definition plaintext_jsonl :: "client_ext \<Rightarrow> string \<Rightarrow> string \<Rightarrow> (client, 'e, bytes option) act" where
  "plaintext_jsonl X user_id group_id =
     bnd (load X user_id group_id) (\<lambda>messages.
     ret (if messages = [] then None else Some (concat (map (jsonl_line X) messages))))"

definition record_message ::
  "client_ext \<Rightarrow> string \<Rightarrow> string \<Rightarrow> string \<Rightarrow> string \<Rightarrow> int \<Rightarrow> (client, 'e, unit) act" where
  "record_message X user_id group_id sender_id content timestamp_ms =
     (let msg = \<lparr>am_group_id = group_id, am_sender_id = sender_id, am_content = content,
                 am_timestamp_ms = timestamp_ms\<rparr> in
     bnd (or_else () (
       bnd (group_path user_id group_id) (\<lambda>p.
       bnd (encode X user_id msg) (\<lambda>r. append_file p r)))) (\<lambda>_.
     mark_group user_id group_id))"

fun split_nl :: "bytes \<Rightarrow> bytes list" where
  "split_nl [] = [[]]"
| "split_nl (b # bs) = (if b = 10 then [] # split_nl bs
     else (case split_nl bs of [] \<Rightarrow> [[b]] | l # ls \<Rightarrow> (b # l) # ls))"

fun encode_lines :: "client_ext \<Rightarrow> string \<Rightarrow> bytes list \<Rightarrow> bytes \<Rightarrow> bytes clact" where
  "encode_lines X user_id [] buf = ret buf"
| "encode_lines X user_id (line # lines) buf =
     (if line = [] then encode_lines X user_id lines buf
      else case msg_from_json X line of
        None \<Rightarrow> encode_lines X user_id lines buf
      | Some msg \<Rightarrow> bnd (encode X user_id msg) (\<lambda>r. encode_lines X user_id lines (buf @ r)))"

definition write_from_jsonl :: "client_ext \<Rightarrow> string \<Rightarrow> string \<Rightarrow> bytes \<Rightarrow> (client, 'e, unit) act" where
  "write_from_jsonl X user_id group_id jsonl = or_else () (
     bnd (encode_lines X user_id (split_nl jsonl) []) (\<lambda>buf.
     bnd (group_path user_id group_id) (\<lambda>p. write_file p buf)))"

text \<open>The names of the archives in a directory: file stems of the entries with extension \<open>dmlog\<close>.\<close>

definition dmlog_stem :: "string \<Rightarrow> string option" where
  "dmlog_stem name =
     (if 6 < length name \<and> drop (length name - 6) name = ''.dmlog'' then Some (take (length name - 6) name) else None)"

definition entries_of :: "path \<Rightarrow> client \<Rightarrow> string list" where
  "entries_of d c = map last (filter (\<lambda>p. length p = Suc (length d) \<and> take (length d) p = d) (map fst (c_files c)))"

definition mark_all_local_dirty :: "string \<Rightarrow> (client, 'e, unit) act" where
  "mark_all_local_dirty user_id = or_else () (
     bnd (history_dir user_id) (\<lambda>d.
     bnd (gets (entries_of d)) (\<lambda>names.
     for_each (\<lambda>name. case dmlog_stem name of None \<Rightarrow> ret () | Some g \<Rightarrow> mark_group user_id g) names)))"

section \<open>The log is append-only\<close>

lemma read_loop_stop: "length data < i + 5 \<Longrightarrow> read_loop data i acc = acc"
  by (subst read_loop.simps) auto

lemma frame_nth:
  "frame f q ! 0 = f" "u32_from_le (frame f q ! 1) (frame f q ! 2) (frame f q ! 3) (frame f q ! 4) = of_nat (length q)"
  by (simp_all add: frame_def u32_to_le_def u32_le_roundtrip)

lemma length_frame [simp]: "length (frame f q) = 5 + length q"
  by (simp add: frame_def)

lemma drop_frame [simp]: "drop 5 (frame f q) = q"
  by (simp add: frame_def u32_to_le_def)

lemma unat_len: "length q < 2 ^ 32 \<Longrightarrow> unat (of_nat (length q) :: 32 word) = length q"
  by (simp add: unat_of_nat take_bit_nat_eq_self)

text \<open>One step of the reader over a complete frame, and its end at a torn one.\<close>

lemma read_step:
  assumes at: "\<And>k. k < 5 \<Longrightarrow> data ! (i + k) = frame f q ! k"
    and "i + 5 \<le> length data" "length q < 2 ^ 32"
  shows "read_loop data i acc = (if length data < i + 5 + length q then acc
    else read_loop data (i + 5 + length q) (acc @ [(f, take (length q) (drop (i + 5) data))]))"
proof -
  have "data ! i = f" using at [of 0] by (simp add: frame_nth)
  moreover have "u32_from_le (data ! (i + 1)) (data ! (i + 2)) (data ! (i + 3)) (data ! (i + 4)) = of_nat (length q)"
    using frame_nth(2) [of f q] at [of 1] at [of 2] at [of 3] at [of 4] by simp
  ultimately show ?thesis
    using assms(2,3) by (subst read_loop.simps) (simp only: Let_def unat_len if_True)
qed

lemma read_frame:
  assumes "length q < 2 ^ 32"
  shows "read_loop (pre @ frame f q @ rest) (length pre) acc =
    read_loop ((pre @ frame f q) @ rest) (length (pre @ frame f q)) (acc @ [(f, q)])"
  using assms by (subst read_step [of _ _ f q]) (auto simp: nth_append add.assoc)

lemma read_torn:
  assumes "length q < 2 ^ 32" "n < length (frame f q)"
  shows "read_loop (pre @ take n (frame f q)) (length pre) acc = acc"
proof (cases "n < 5")
  case False
  then show ?thesis using assms by (subst read_step [of _ _ f q]) (auto simp: nth_append)
qed (simp add: read_loop_stop)

definition framed :: "(byte \<times> bytes) list \<Rightarrow> bytes" where
  "framed rs = concat (map (\<lambda>(f, q). frame f q) rs)"

lemma framed_simps [simp]: "framed [] = []" "framed ((f, q) # rs) = frame f q @ framed rs"
  "framed (rs @ rs') = framed rs @ framed rs'"
  by (simp_all add: framed_def)

definition short_records :: "(byte \<times> bytes) list \<Rightarrow> bool" where
  "short_records rs \<longleftrightarrow> (\<forall>(f, q) \<in> set rs. length q < 2 ^ 32)"

lemma read_framed:
  "short_records rs \<Longrightarrow> read_loop (pre @ framed rs @ rest) (length pre) acc =
     read_loop ((pre @ framed rs) @ rest) (length (pre @ framed rs)) (acc @ rs)"
proof (induction rs arbitrary: pre acc)
  case (Cons r rs)
  obtain f q where r: "r = (f, q)" by (cases r)
  have "length q < 2 ^ 32" "short_records rs" using Cons.prems by (auto simp: short_records_def r)
  then show ?case
    using Cons.IH [of "pre @ frame f q" "acc @ [(f, q)]"] read_frame [of q pre f "framed rs @ rest" acc]
    by (simp add: r)
qed simp

lemma read_log: "short_records rs \<Longrightarrow> read_loop (framed rs) 0 [] = rs"
  using read_framed [of rs "[]" "[]" "[]"] by (simp add: read_loop_stop)

text \<open>
  On any bytes the reader splits off a maximal sequence of complete frames and stops at what is not
  one.
\<close>

definition incomplete :: "bytes \<Rightarrow> bool" where
  "incomplete bs \<longleftrightarrow> length bs < 5 \<or>
     length bs < 5 + unat (u32_from_le (bs ! 1) (bs ! 2) (bs ! 3) (bs ! 4))"

lemma u32_to_from_le: "u32_to_le (u32_from_le a b c d) = [a, b, c, d]"
proof -
  have "ucast (u32_from_le a b c d) = a" "ucast (drop_bit 8 (u32_from_le a b c d)) = b"
    "ucast (drop_bit 16 (u32_from_le a b c d)) = c" "ucast (drop_bit 24 (u32_from_le a b c d)) = d"
    by (rule bit_word_eqI, auto simp: u32_from_le_def bit_simps dest: bit_imp_le_length)+
  then show ?thesis by (simp add: u32_to_le_def)
qed

lemma take_frame:
  assumes "i + 5 \<le> length data" "j = i + 5"
    and len: "len = unat (u32_from_le (data ! (i + 1)) (data ! (i + 2)) (data ! (i + 3)) (data ! (i + 4)))"
    and "j + len \<le> length data"
  shows "drop i data = frame (data ! i) (take len (drop j data)) @ drop (j + len) data"
    and "length (take len (drop j data)) < 2 ^ 32"
proof -
  let ?n = "u32_from_le (data ! (i + 1)) (data ! (i + 2)) (data ! (i + 3)) (data ! (i + 4))"
  have q: "length (take len (drop j data)) = len" using assms(4) by simp
  then have "u32_to_le (of_nat (length (take len (drop j data)))) = [data ! (i + 1), data ! (i + 2), data ! (i + 3), data ! (i + 4)]"
    by (simp add: len u32_to_from_le del: length_take)
  moreover have "drop i data = data ! i # data ! (i + 1) # data ! (i + 2) # data ! (i + 3) # data ! (i + 4) # drop j data"
    using assms(1,2) by (simp add: Cons_nth_drop_Suc numeral_eq_Suc)
  moreover have "drop j data = take len (drop j data) @ drop (j + len) data"
    by (metis add.commute append_take_drop_id drop_drop)
  ultimately show "drop i data = frame (data ! i) (take len (drop j data)) @ drop (j + len) data"
    unfolding frame_def by (metis append_Cons append_Nil append_assoc)
  show "length (take len (drop j data)) < 2 ^ 32"
    using q unsigned_less [of ?n, where 'a = nat] by (simp add: len del: length_take)
qed

lemma read_loop_sound:
  "i \<le> length data \<Longrightarrow> \<exists>rs rest. read_loop data i acc = acc @ rs \<and> drop i data = framed rs @ rest \<and>
     short_records rs \<and> incomplete rest"
proof (induction data i acc rule: read_loop.induct)
  case (1 data i acc)
  let ?n = "unat (u32_from_le (data ! (i + 1)) (data ! (i + 2)) (data ! (i + 3)) (data ! (i + 4)))"
  show ?case
  proof (cases "i + 5 \<le> length data \<and> i + 5 + ?n \<le> length data")
    case True
    let ?q = "take ?n (drop (i + 5) data)"
    obtain rs rest where ih: "read_loop data (i + 5 + ?n) (acc @ [(data ! i, ?q)]) = (acc @ [(data ! i, ?q)]) @ rs"
      "drop (i + 5 + ?n) data = framed rs @ rest" "short_records rs" "incomplete rest"
      using "1.IH" [OF _ refl refl refl] True by auto
    have d: "drop i data = frame (data ! i) ?q @ drop (i + 5 + ?n) data" "length ?q < 2 ^ 32"
      using take_frame [of i data "i + 5" ?n] True by auto
    have "read_loop data i acc = read_loop data (i + 5 + ?n) (acc @ [(data ! i, ?q)])"
      using True by (subst read_loop.simps) (simp add: Let_def)
    then show ?thesis
      using ih d by (intro exI [of _ "(data ! i, ?q) # rs"] exI [of _ rest])
        (simp add: short_records_def del: length_take)
  next
    case False
    have "read_loop data i acc = acc" using False by (subst read_loop.simps) (auto simp: Let_def)
    moreover have "incomplete (drop i data)" using "1.prems" False by (auto simp: incomplete_def nth_drop)
    ultimately show ?thesis
      by (intro exI [of _ "[]"] exI [of _ "drop i data"]) (simp add: short_records_def)
  qed
qed

section \<open>The archive of an unlocked client\<close>

definition message_of :: "client_ext \<Rightarrow> bytes \<Rightarrow> byte \<times> bytes \<Rightarrow> archived_message option" where
  "message_of X k r = (case r of (f, q) \<Rightarrow>
     if f = 1 then (case open_blob (cx_prims X) k q of Inl e \<Rightarrow> None | Inr p \<Rightarrow> msg_from_json X p)
     else msg_from_json X q)"

abbreviation dmlog :: "string \<Rightarrow> string \<Rightarrow> path" where
  "dmlog u g \<equiv> [''history'', u, g @ ''.dmlog'']"

definition no_faults :: "string \<Rightarrow> string \<Rightarrow> client \<Rightarrow> bool" where
  "no_faults u g c \<longleftrightarrow> c_fault c [] = None \<and> c_fault c [''history'', u] = None \<and> c_fault c (dmlog u g) = None"

lemma decode_unlocked: "unlocked k c \<Longrightarrow> decode X f q c = (Inr (message_of X k (f, q)), c)"
  by (auto simp: decode_def message_of_def bnd_def ret_def open_bytes_unlocked split: sum.splits)

lemma decode_all_unlocked:
  "unlocked k c \<Longrightarrow> map_each (\<lambda>(f, q). decode X f q) rs c = (Inr (map (message_of X k) rs), c)"
  by (induction rs) (auto simp: ret_def bnd_def decode_unlocked)

lemma group_path_ok: "no_faults u g c \<Longrightarrow> group_path u g c = (Inr (dmlog u g), c)"
  by (simp add: group_path_def history_dir_def make_dir_def no_faults_def bnd_def ret_def)

lemma load_unlocked:
  assumes "unlocked k c" "no_faults u g c"
  shows "load X u g c = (Inr (List.map_filter (message_of X k) (read_records (dmlog u g) c)), c)"
  using assms
  by (simp add: load_def or_else_def bnd_def ret_def gets_def group_path_ok decode_all_unlocked map_filter_def
      filter_map comp_def)

lemma read_records_log:
  assumes "c_fault c p = None" "file_or_empty p c = framed rs" "short_records rs"
  shows "read_records p c = rs"
proof (cases "map_of (c_files c) p")
  case None
  then have "framed rs = []" using assms by (simp add: file_or_empty_def)
  then have "rs = []" using read_log [OF assms(3)] by (simp add: read_loop_stop)
  then show ?thesis using None assms by (simp add: read_records_def read_file_def)
next
  case (Some data)
  then show ?thesis using assms by (simp add: read_records_def read_file_def file_or_empty_def read_log)
qed

lemma file_put [simp]: "file_or_empty p (put_file q bs c) = (if p = q then bs else file_or_empty p c)"
  by (auto simp: file_or_empty_def put_file_def update_conv')

lemma no_faults_simps [simp]:
  "no_faults u g (put_file p b c) = no_faults u g c" "no_faults u g (c\<lparr>c_rng := r\<rparr>) = no_faults u g c"
  "no_faults u g (c\<lparr>c_sync := y\<rparr>) = no_faults u g c"
  by (simp_all add: no_faults_def put_file_def)

lemma fault_simps [simp]: "c_fault (put_file p b c) = c_fault c" "c_files (c\<lparr>c_rng := r\<rparr>) = c_files c"
  by (simp_all add: put_file_def)

text \<open>
  What an encoded message is: one record that decodes to it, sealed under the data key unless it is
  the user's own and sealing is off.
\<close>

definition json_law :: "client_ext \<Rightarrow> bool" where
  "json_law X \<longleftrightarrow> (\<forall>m b. msg_to_json X m = Inr b \<longrightarrow> msg_from_json X b = Some m \<and> b \<noteq> [] \<and> 10 \<notin> set b)"

definition sealed_record :: "client_ext \<Rightarrow> bytes \<Rightarrow> archived_message \<Rightarrow> byte \<times> bytes \<Rightarrow> bool" where
  "sealed_record X k m r \<longleftrightarrow> (\<exists>json. msg_to_json X m = Inr json \<and> fst r = 1 \<and> sealed_as (cx_prims X) k json (snd r))"

lemma encode_record:
  assumes "unlocked k c" "aead_exact (cx_prims X)" "json_law X" "encode X u m c = (Inr bs, t)"
  obtains r where "bs = frame (fst r) (snd r)" "message_of X k r = Some m"
    "am_sender_id m \<noteq> u \<or> is_encrypt_at_rest c \<Longrightarrow> sealed_record X k m r"
    "t = c\<lparr>c_rng := c_rng t\<rparr>"
proof -
  obtain json where json: "msg_to_json X m = Inr json" "msg_from_json X json = Some m"
    using assms(3,4) by (auto simp: encode_def ok_simps json_law_def split: if_splits)
  show thesis
  proof (cases "am_sender_id m \<noteq> u \<or> is_encrypt_at_rest c")
    case True
    then obtain blob r where s: "seal (cx_prims X) k json (c_rng c) = (Inr blob, r)" "t = c\<lparr>c_rng := r\<rparr>" "bs = frame 1 blob"
      using assms(1,4) json(1) by (auto simp: encode_def ok_simps seal_bytes_unlocked)
    then show thesis
      using that [of "(1, blob)"] seal_open [OF assms(2) s(1)] seal_sealed [OF s(1)] json
      by (simp add: message_of_def sealed_record_def)
  next
    case False
    then show thesis using that [of "(0, json)"] assms(4) json by (auto simp: encode_def ok_simps message_of_def)
  qed
qed

definition archived :: "string \<Rightarrow> string \<Rightarrow> (byte \<times> bytes) list \<Rightarrow> client \<Rightarrow> bool" where
  "archived u g rs c \<longleftrightarrow> no_faults u g c \<and> file_or_empty (dmlog u g) c = framed rs \<and> short_records rs"

lemma archived_records: "archived u g rs c \<Longrightarrow> read_records (dmlog u g) c = rs"
  by (simp add: archived_def no_faults_def read_records_log)

lemma record_appends:
  assumes "unlocked k c" "archived u g rs c"
    and e: "encode X u \<lparr>am_group_id = g, am_sender_id = s, am_content = txt, am_timestamp_ms = ts\<rparr> c = (Inr (frame f q), c\<lparr>c_rng := r\<rparr>)"
    and q: "length q < 2 ^ 32"
    and c': "c' = snd (record_message X u g s txt ts c)"
  shows "archived u g (rs @ [(f, q)]) c'" "unlocked k c'" "g \<in> set (dirty_groups u c')"
    "p \<noteq> dmlog u g \<Longrightarrow> file_or_empty p c' = file_or_empty p c" "c_settings c' = c_settings c"
proof -
  let ?t = "put_file (dmlog u g) (framed rs @ frame f q) (c\<lparr>c_rng := r\<rparr>)"
  have f: "c_fault c (dmlog u g) = None" "file_or_empty (dmlog u g) (c\<lparr>c_rng := r\<rparr>) = framed rs"
    using assms(2) by (simp_all add: archived_def no_faults_def file_or_empty_def)
  have c'': "c' = ?t\<lparr>c_sync := (c_sync ?t)\<lparr>sy_groups :=
     AList.update u (List.insert g (dirty_groups u ?t)) (sy_groups (c_sync ?t))\<rparr>\<rparr>"
    using group_path_ok [of u g c] assms(2) e f
    by (simp add: c' record_message_def or_else_def bnd_def append_file_def archived_def mark_group_def modify_def)
  show "archived u g (rs @ [(f, q)]) c'"
    using assms(2) q by (auto simp: c'' archived_def file_or_empty_def put_file_def update_conv' short_records_def no_faults_def)
  show "unlocked k c'" using assms(1) by (simp add: c'')
  show "g \<in> set (dirty_groups u c')" by (simp add: c'' dirty_groups_def update_conv')
  show "p \<noteq> dmlog u g \<Longrightarrow> file_or_empty p c' = file_or_empty p c"
    by (simp add: c'' file_or_empty_def put_file_def update_conv')
  show "c_settings c' = c_settings c" by (simp add: c'' put_file_def)
qed

text \<open>A message that can be archived: it serialises, and the cipher and the length field take it.\<close>

definition archivable :: "client_ext \<Rightarrow> bytes \<Rightarrow> archived_message \<Rightarrow> bool" where
  "archivable X k m \<longleftrightarrow> (\<exists>json. msg_to_json X m = Inr json \<and> length json < 2 ^ 32 \<and>
     (\<forall>nonce. length nonce = NONCE_LEN \<longrightarrow>
        (\<exists>ct. aead_encrypt (cx_prims X) k nonce json = Some ct \<and> NONCE_LEN + length ct < 2 ^ 32)))"

lemma seal_succeeds:
  assumes "length k = WRAPPING_KEY_LEN"
    and "\<forall>nonce. length nonce = NONCE_LEN \<longrightarrow> (\<exists>ct. aead_encrypt P k nonce p = Some ct \<and> NONCE_LEN + length ct < b)"
  shows "\<exists>blob r'. seal P k p r = (Inr blob, r') \<and> length blob < b"
proof -
  let ?n = "map (rng_bytes r) [rng_pos r ..< rng_pos r + NONCE_LEN]"
  obtain ct where "aead_encrypt P k ?n p = Some ct" "NONCE_LEN + length ct < b"
    using assms(2) by (metis add_diff_cancel_left' length_map length_upt)
  then have "seal P k p r = (Inr (?n @ ct), r\<lparr>rng_pos := rng_pos r + NONCE_LEN\<rparr>)"
    using assms(1) by (simp add: seal_def ok_simps)
  then show ?thesis using \<open>NONCE_LEN + length ct < b\<close> by simp
qed

lemma encode_succeeds:
  assumes "unlocked k c" "archivable X k m"
  shows "\<exists>f q r. encode X u m c = (Inr (frame f q), c\<lparr>c_rng := r\<rparr>) \<and> length q < 2 ^ 32"
proof -
  obtain json where json: "msg_to_json X m = Inr json" "length json < 2 ^ 32"
    and enc: "\<forall>nonce. length nonce = NONCE_LEN \<longrightarrow>
        (\<exists>ct. aead_encrypt (cx_prims X) k nonce json = Some ct \<and> NONCE_LEN + length ct < 2 ^ 32)"
    using assms(2) by (auto simp: archivable_def)
  have k: "length k = WRAPPING_KEY_LEN" using assms(1) by (simp add: unlocked_def WRAPPING_KEY_LEN_def)
  obtain blob r where "seal (cx_prims X) k json (c_rng c) = (Inr blob, r)" "length blob < 2 ^ 32"
    using seal_succeeds [OF k enc] by blast
  then have "seal_bytes X json c = (Inr blob, c\<lparr>c_rng := r\<rparr>)"
    using assms(1) by (simp add: seal_bytes_unlocked)
  then have "encode X u m c = (if am_sender_id m \<noteq> u \<or> is_encrypt_at_rest c
      then (Inr (frame 1 blob), c\<lparr>c_rng := r\<rparr>) else (Inr (frame 0 json), c\<lparr>c_rng := c_rng c\<rparr>))"
    using json by (simp add: encode_def bnd_def of_res_def gets_def ret_def)
  then show ?thesis using json(2) \<open>length blob < 2 ^ 32\<close> by metis
qed

text \<open>Encoding a message keeps the state up to randomness and yields one good record.\<close>

definition good_record :: "client_ext \<Rightarrow> bytes \<Rightarrow> string \<Rightarrow> bool \<Rightarrow> archived_message \<Rightarrow> byte \<times> bytes \<Rightarrow> bool" where
  "good_record X k u sealing m r \<longleftrightarrow> message_of X k r = Some m \<and> length (snd r) < 2 ^ 32 \<and>
     (am_sender_id m \<noteq> u \<or> sealing \<longrightarrow> sealed_record X k m r)"

lemma u32_wrap_id: "length q < 2 ^ 32 \<Longrightarrow> frame f q = frame f' q' \<Longrightarrow> length q' < 2 ^ 32 \<Longrightarrow> f = f' \<and> q = q'"
  by (auto simp: frame_def u32_to_le_def)

lemma encode_good:
  assumes "unlocked k c" "aead_exact (cx_prims X)" "json_law X" "archivable X k m"
  obtains rec r where "encode X u m c = (Inr (frame (fst rec) (snd rec)), c\<lparr>c_rng := r\<rparr>)"
    "good_record X k u (is_encrypt_at_rest c) m rec"
proof -
  obtain f q r where e: "encode X u m c = (Inr (frame f q), c\<lparr>c_rng := r\<rparr>)" and q: "length q < 2 ^ 32"
    using encode_succeeds [OF assms(1,4)] by blast
  obtain rec where rec: "frame f q = frame (fst rec) (snd rec)" "message_of X k rec = Some m"
    "am_sender_id m \<noteq> u \<or> is_encrypt_at_rest c \<Longrightarrow> sealed_record X k m rec"
    using encode_record [OF assms(1-3) e] by blast
  have "length (snd rec) = length q" using arg_cong [OF rec(1), of length] by simp
  then show thesis using that [of rec r] e rec q by (simp add: good_record_def)
qed

definition append_message :: "client_ext \<Rightarrow> string \<Rightarrow> archived_message \<Rightarrow> client \<Rightarrow> client" where
  "append_message X u m c =
     snd (record_message X u (am_group_id m) (am_sender_id m) (am_content m) (am_timestamp_ms m) c :: (string + unit) \<times> client)"

lemma append_good:
  assumes "unlocked k c" "aead_exact (cx_prims X)" "json_law X" "archivable X k m" "archived u (am_group_id m) rs c"
  obtains r where "good_record X k u (is_encrypt_at_rest c) m r"
    "archived u (am_group_id m) (rs @ [r]) (append_message X u m c)" "unlocked k (append_message X u m c)"
    "is_encrypt_at_rest (append_message X u m c) = is_encrypt_at_rest c"
    "am_group_id m \<in> set (dirty_groups u (append_message X u m c))"
    "\<And>p. p \<noteq> dmlog u (am_group_id m) \<Longrightarrow> file_or_empty p (append_message X u m c) = file_or_empty p c"
proof -
  obtain rec r where e: "encode X u m c = (Inr (frame (fst rec) (snd rec)), c\<lparr>c_rng := r\<rparr>)"
    and g: "good_record X k u (is_encrypt_at_rest c) m rec"
    using encode_good [OF assms(1-4)] by blast
  have e': "encode X u \<lparr>am_group_id = am_group_id m, am_sender_id = am_sender_id m, am_content = am_content m,
      am_timestamp_ms = am_timestamp_ms m\<rparr> c = (Inr (frame (fst rec) (snd rec)), c\<lparr>c_rng := r\<rparr>)"
    using e by (cases m) simp
  have q: "length (snd rec) < 2 ^ 32" using g by (simp add: good_record_def)
  note a = record_appends [OF assms(1,5) e' q append_message_def]
  show thesis
    using that [of rec] a g by (simp add: is_encrypt_at_rest_def)
qed

lemma append_all_good:
  assumes "aead_exact (cx_prims X)" "json_law X" "\<forall>m\<in>set ms. am_group_id m = g \<and> archivable X k m"
    and "unlocked k c" "archived u g rs c"
  shows "\<exists>rs'. list_all2 (good_record X k u (is_encrypt_at_rest c)) ms rs' \<and>
     archived u g (rs @ rs') (fold (append_message X u) ms c) \<and> unlocked k (fold (append_message X u) ms c) \<and>
     (\<forall>p. p \<noteq> dmlog u g \<longrightarrow> file_or_empty p (fold (append_message X u) ms c) = file_or_empty p c)"
  using assms(3-5)
proof (induction ms arbitrary: rs c)
  case Nil
  then show ?case by auto
next
  case (Cons m ms)
  let ?c = "append_message X u m c"
  have m: "am_group_id m = g" "archivable X k m" using Cons.prems by auto
  obtain r where r: "good_record X k u (is_encrypt_at_rest c) m r" "archived u g (rs @ [r]) ?c" "unlocked k ?c"
    "is_encrypt_at_rest ?c = is_encrypt_at_rest c" "\<And>p. p \<noteq> dmlog u g \<Longrightarrow> file_or_empty p ?c = file_or_empty p c"
    using append_good [OF Cons.prems(2) assms(1,2) m(2)] Cons.prems(3) m(1) by metis
  then obtain rs' where "list_all2 (good_record X k u (is_encrypt_at_rest c)) ms rs'"
    "archived u g ((rs @ [r]) @ rs') (fold (append_message X u) ms ?c)" "unlocked k (fold (append_message X u) ms ?c)"
    "\<forall>p. p \<noteq> dmlog u g \<longrightarrow> file_or_empty p (fold (append_message X u) ms ?c) = file_or_empty p ?c"
    using Cons.IH [OF _ r(3,2)] Cons.prems(1) r(4) by auto
  then show ?case using r(1,5) by (intro exI [of _ "r # rs'"]) auto
qed

lemma good_messages:
  "list_all2 (good_record X k u s) ms rs \<Longrightarrow> List.map_filter (message_of X k) rs = ms"
  by (induction rule: list_all2_induct) (simp_all add: good_record_def map_filter_def)

lemma map_filter_append: "List.map_filter f (xs @ ys) = List.map_filter f xs @ List.map_filter f ys"
  by (simp add: map_filter_def)

lemma archived_load:
  "unlocked k c \<Longrightarrow> archived u g rs c \<Longrightarrow> load X u g c = (Inr (List.map_filter (message_of X k) rs), c)"
  using load_unlocked [of k c u g X] archived_records [of u g rs c] by (simp add: archived_def)

section \<open>Restoring from the plaintext copy\<close>

lemma split_nl_line: "10 \<notin> set l \<Longrightarrow> split_nl (l @ 10 # bs) = l # split_nl bs"
  by (induction l) auto

lemma encode_lines_good:
  assumes "aead_exact (cx_prims X)" "json_law X" "\<forall>m\<in>set ms. archivable X k m" "unlocked k c"
  shows "\<exists>rs r. list_all2 (good_record X k u (is_encrypt_at_rest c)) ms rs \<and>
     encode_lines X u (split_nl (concat (map (jsonl_line X) ms))) buf c = (Inr (buf @ framed rs), c\<lparr>c_rng := r\<rparr>)"
  using assms(3,4)
proof (induction ms arbitrary: buf c)
  case Nil
  then show ?case by (auto simp: ret_def intro!: exI [of _ "c_rng c"])
next
  case (Cons m ms)
  obtain json where json: "msg_to_json X m = Inr json" using Cons.prems(1) by (auto simp: archivable_def)
  then have nl: "10 \<notin> set json" "json \<noteq> []" "msg_from_json X json = Some m" using assms(2) by (auto simp: json_law_def)
  obtain rec r where e: "encode X u m c = (Inr (frame (fst rec) (snd rec)), c\<lparr>c_rng := r\<rparr>)"
    and g: "good_record X k u (is_encrypt_at_rest c) m rec"
    using encode_good [OF Cons.prems(2) assms(1,2), of m u] Cons.prems(1) by (metis list.set_intros(1))
  obtain rs r' where ih: "list_all2 (good_record X k u (is_encrypt_at_rest (c\<lparr>c_rng := r\<rparr>))) ms rs"
    "encode_lines X u (split_nl (concat (map (jsonl_line X) ms))) (buf @ frame (fst rec) (snd rec)) (c\<lparr>c_rng := r\<rparr>) =
       (Inr ((buf @ frame (fst rec) (snd rec)) @ framed rs), c\<lparr>c_rng := r\<rparr>\<lparr>c_rng := r'\<rparr>)"
    using Cons.IH [of "c\<lparr>c_rng := r\<rparr>" "buf @ frame (fst rec) (snd rec)"] Cons.prems by auto
  have "split_nl (concat (map (jsonl_line X) (m # ms))) = json # split_nl (concat (map (jsonl_line X) ms))"
    using split_nl_line [OF nl(1)] by (simp add: jsonl_line_def json)
  then show ?case
    using ih g nl e by (intro exI [of _ "rec # rs"] exI [of _ r'])
      (cases rec, simp add: bnd_def is_encrypt_at_rest_def)
qed

lemma short_good: "list_all2 (good_record X k u s) ms rs \<Longrightarrow> short_records rs"
  by (induction rule: list_all2_induct) (auto simp: short_records_def good_record_def)

lemma restore_good:
  assumes "aead_exact (cx_prims X)" "json_law X" "\<forall>m\<in>set ms. archivable X k m" "unlocked k c" "no_faults u g c"
    and c': "(w :: 'e + unit, c') = write_from_jsonl X u g (concat (map (jsonl_line X) ms)) c"
  shows "\<exists>rs. list_all2 (good_record X k u (is_encrypt_at_rest c)) ms rs \<and> archived u g rs c' \<and> unlocked k c'"
proof -
  obtain rs r where rs: "list_all2 (good_record X k u (is_encrypt_at_rest c)) ms rs"
    and e: "encode_lines X u (split_nl (concat (map (jsonl_line X) ms))) [] c = (Inr ([] @ framed rs), c\<lparr>c_rng := r\<rparr>)"
    using encode_lines_good [OF assms(1-4)] by blast
  have "c' = put_file (dmlog u g) (framed rs) (c\<lparr>c_rng := r\<rparr>)"
    using c' e assms(5) group_path_ok [of u g "c\<lparr>c_rng := r\<rparr>"]
    by (simp add: write_from_jsonl_def or_else_def bnd_def write_file_def no_faults_def)
  then show ?thesis
    using rs short_good [OF rs] assms(4,5) by (auto simp: archived_def)
qed

section \<open>A concrete client\<close>

definition demo_received :: archived_message where
  "demo_received = \<lparr>am_group_id = ''g'', am_sender_id = ''bob'', am_content = ''hi'', am_timestamp_ms = 1\<rparr>"

definition demo_sent :: archived_message where
  "demo_sent = \<lparr>am_group_id = ''g'', am_sender_id = ''me'', am_content = ''yo'', am_timestamp_ms = 2\<rparr>"

definition demo_cext :: client_ext where
  "demo_cext = \<lparr>cx_prims = demo_prims,
     settings_to_json = (\<lambda>s. Inl ''none''), settings_from_json = (\<lambda>b. None),
     accounts_to_json = (\<lambda>a. Inl ''none''), accounts_from_json = (\<lambda>b. None),
     msg_to_json = (\<lambda>m. if m = demo_received then Inr [1] else if m = demo_sent then Inr [2] else Inl ''none''),
     msg_from_json = (\<lambda>b. if b = [1] then Some demo_received else if b = [2] then Some demo_sent else None),
     metadata_ok = (\<lambda>v. True)\<rparr>"

definition demo_key :: bytes where
  "demo_key = replicate 32 7"

definition demo_client :: client where
  "demo_client = \<lparr>c_files = [], c_fault = (\<lambda>p. None),
     c_keyring = \<lparr>kr_open = None, kr_get = None, kr_set = None, kr_secret = Some demo_key\<rparr>,
     c_dek = Some demo_key, c_rng = demo_rng, c_settings = settings_default,
     c_sync = \<lparr>sy_mls = [], sy_groups = [], sy_started = False\<rparr>\<rparr>"

lemma demo_distinct: "demo_sent \<noteq> demo_received"
  by (simp add: demo_sent_def demo_received_def)

lemma demo_client_facts:
  "aead_exact (cx_prims demo_cext)" "json_law demo_cext" "unlocked demo_key demo_client"
  "archived ''me'' ''g'' [] demo_client" "archivable demo_cext demo_key demo_received"
  "archivable demo_cext demo_key demo_sent" "am_group_id demo_received = ''g''" "am_group_id demo_sent = ''g''"
  "am_sender_id demo_received = ''bob''" "\<not> is_encrypt_at_rest demo_client"
proof -
  show "aead_exact (cx_prims demo_cext)" by (simp add: demo_cext_def demo_aead)
  have "aead_encrypt (cx_prims demo_cext) demo_key n p = Some (demo_key @ n @ p)" for n p
    by (simp add: demo_cext_def demo_prims_def)
  then show "archivable demo_cext demo_key demo_received" "archivable demo_cext demo_key demo_sent"
    by (simp_all add: archivable_def NONCE_LEN_def demo_key_def) (simp_all add: demo_cext_def demo_distinct)
qed (simp_all add: demo_cext_def json_law_def demo_distinct unlocked_def demo_client_def demo_key_def archived_def
    no_faults_def file_or_empty_def short_records_def is_encrypt_at_rest_def settings_default_def
    demo_received_def demo_sent_def)

section \<open>Properties\<close>

lemma read_incomplete: "incomplete rest \<Longrightarrow> read_loop (pre @ rest) (length pre) acc = acc"
  by (subst read_loop.simps) (auto simp: incomplete_def Let_def nth_append)

lemma framed_size: "5 * length rs \<le> length (framed rs)"
  by (induction rs) (auto simp: framed_def)

text \<open>
  C22: The archive reader stops on every file content: it returns the complete records the bytes
  begin with, at most one per five bytes, and leaves an incomplete rest.  Conversely, whatever
  records were framed, followed by any incomplete rest such as an append cut short, are what it
  returns.
\<close>

theorem history_reader_total:
  "(\<exists>rest. data = framed (read_loop data 0 []) @ rest \<and> incomplete rest) \<and>
   5 * length (read_loop data 0 []) \<le> length data \<and>
   (short_records rs \<longrightarrow> incomplete rest \<longrightarrow> read_loop (framed rs @ rest) 0 [] = rs) \<and>
   (length q < 2 ^ 32 \<longrightarrow> n < length (frame f q) \<longrightarrow> incomplete (take n (frame f q)))"
proof -
  obtain rs' rest' where r: "read_loop data 0 [] = rs'" "data = framed rs' @ rest'" "incomplete rest'"
    using read_loop_sound [of 0 data "[]"] by (metis append_Nil drop_0 le0)
  moreover have "5 * length rs' \<le> length data" using framed_size [of rs'] r(2) by simp
  moreover have "short_records rs \<longrightarrow> incomplete rest \<longrightarrow> read_loop (framed rs @ rest) 0 [] = rs"
    using read_framed [of rs "[]" rest "[]"] read_incomplete [of rest "framed rs" rs] by simp
  moreover have "length q < 2 ^ 32 \<longrightarrow> n < length (frame f q) \<longrightarrow> incomplete (take n (frame f q))"
    using frame_nth(2) [of f q] by (cases "n < 5") (auto simp: incomplete_def unat_len)
  ultimately show ?thesis by blast
qed

theorem history_reader_total_witness:
  "read_loop (framed [(0, [7, 8])] @ take 6 (frame 1 [9, 9])) 0 [] = [(0, [7, 8])]"
  using history_reader_total [of "[]" "[(0, [7, 8])]" "take 6 (frame 1 [9, 9])" "[9, 9]" 6 1]
  by (simp add: short_records_def)

text \<open>
  C23: Archiving is faithful and sealed: after any archivable messages of a group are recorded,
  loading the group gives what it gave before followed by exactly these messages in order; every
  message somebody else sent, and every message at all when sealing is on, lies in the log only as
  ciphertext under the data key; and no other file of the client changes.
\<close>

theorem archive_faithful:
  assumes "aead_exact (cx_prims X)" "json_law X" "unlocked k c" "archived u g rs c"
    and "\<forall>m\<in>set ms. am_group_id m = g \<and> archivable X k m"
  shows "(fst (load X u g (fold (append_message X u) ms c)) :: string + archived_message list) =
      Inr (List.map_filter (message_of X k) rs @ ms) \<and>
    (\<exists>rs'. read_records (dmlog u g) (fold (append_message X u) ms c) = rs @ rs' \<and>
       list_all2 (\<lambda>m r. am_sender_id m \<noteq> u \<or> is_encrypt_at_rest c \<longrightarrow> sealed_record X k m r) ms rs') \<and>
    (\<forall>p. p \<noteq> dmlog u g \<longrightarrow> file_or_empty p (fold (append_message X u) ms c) = file_or_empty p c)"
proof -
  obtain rs' where rs': "list_all2 (good_record X k u (is_encrypt_at_rest c)) ms rs'"
    "archived u g (rs @ rs') (fold (append_message X u) ms c)" "unlocked k (fold (append_message X u) ms c)"
    "\<forall>p. p \<noteq> dmlog u g \<longrightarrow> file_or_empty p (fold (append_message X u) ms c) = file_or_empty p c"
    using append_all_good [OF assms(1,2,5,3,4)] by blast
  have "list_all2 (\<lambda>m r. am_sender_id m \<noteq> u \<or> is_encrypt_at_rest c \<longrightarrow> sealed_record X k m r) ms rs'"
    using rs'(1) by (rule list_all2_mono) (simp add: good_record_def)
  moreover have "(load X u g (fold (append_message X u) ms c) :: (string + archived_message list) \<times> client) =
      (Inr (List.map_filter (message_of X k) (rs @ rs')), fold (append_message X u) ms c)"
    by (rule archived_load [OF rs'(3,2)])
  ultimately show ?thesis
    using archived_records [OF rs'(2)] good_messages [OF rs'(1)] rs'(4)
    by (auto simp: map_filter_append)
qed

theorem archive_faithful_witness:
  "(fst (load demo_cext ''me'' ''g'' (fold (append_message demo_cext ''me'') [demo_received, demo_sent] demo_client)) ::
      string + archived_message list) = Inr [demo_received, demo_sent] \<and>
   (\<exists>r r'. read_records (dmlog ''me'' ''g'') (fold (append_message demo_cext ''me'') [demo_received, demo_sent] demo_client) = [r, r'] \<and>
      sealed_record demo_cext demo_key demo_received r)"
  using archive_faithful [OF demo_client_facts(1-4), of "[demo_received, demo_sent]"] demo_client_facts(5-)
  by (auto simp: list_all2_Cons1 map_filter_def)

end
