(* ===== verification/Client_Sync.thy ===== *)
theory Client_Sync
  imports Client_History Vault_Backup
begin

text \<open>
  The client talking to its servers: sessions (\<open>state.rs\<close>), channels and request metadata
  (\<open>grpc.rs\<close>), the client side of the vault (\<open>vault.rs\<close>), the flusher (\<open>sync.rs\<close>), restoring an
  archive (\<open>history.rs\<close>) and the key backup at login (\<open>commands/auth.rs\<close>).

  A \<open>world\<close> is one client and the servers it can reach, addressed by channel.  An RPC runs the
  server's own handler (theories \<open>Vault_Backup\<close> and below) on that server, or fails with a
  transport status: \<open>w_down ch n\<close> says whether the \<open>n\<close>-th call of the world finds the channel broken.
\<close>

section \<open>state.rs\<close>

text \<open>A session without its background tasks and its MLS engine.\<close>

record session =
  ss_channel :: "nat option"
  ss_endpoint :: "string option"
  ss_cert :: "string option"
  ss_user_id :: "string option"
  ss_device_id :: "string option"
  ss_token :: "string option"
  ss_refresh_token :: "string option"
  ss_outbound :: "nat option"

definition session_default :: session where
  "session_default = \<lparr>ss_channel = None, ss_endpoint = None, ss_cert = None, ss_user_id = None,
     ss_device_id = None, ss_token = None, ss_refresh_token = None, ss_outbound = None\<rparr>"

record sessions =
  se_map :: "(string \<times> session) list"
  se_active :: "string option"

definition sessions_active :: "sessions \<Rightarrow> session option" where
  "sessions_active s = Option.bind (se_active s) (map_of (se_map s))"

definition sessions_active_mut :: "(session \<Rightarrow> session) \<Rightarrow> sessions \<Rightarrow> sessions" where
  "sessions_active_mut f s = (case se_active s of None \<Rightarrow> s
     | Some i \<Rightarrow> s\<lparr>se_map := AList.map_entry i f (se_map s)\<rparr>)"

definition sessions_entry :: "string \<Rightarrow> (session \<Rightarrow> session) \<Rightarrow> sessions \<Rightarrow> sessions" where
  "sessions_entry i f s = s\<lparr>se_map := AList.update i
     (f (case map_of (se_map s) i of None \<Rightarrow> session_default | Some x \<Rightarrow> x)) (se_map s)\<rparr>"

definition both :: "'a option \<Rightarrow> 'b option \<Rightarrow> ('a \<times> 'b) option" where
  "both x y = Option.bind x (\<lambda>a. Option.bind y (\<lambda>b. Some (a, b)))"

definition active_channel_token :: "sessions \<Rightarrow> (nat \<times> string) option" where
  "active_channel_token s = Option.bind (sessions_active s) (\<lambda>x. both (ss_channel x) (ss_token x))"

definition active_channel :: "sessions \<Rightarrow> nat option" where
  "active_channel s = Option.bind (sessions_active s) ss_channel"

definition channel_token_for :: "string \<Rightarrow> sessions \<Rightarrow> (nat \<times> string) option" where
  "channel_token_for i s = Option.bind (map_of (se_map s) i) (\<lambda>x. both (ss_channel x) (ss_token x))"

definition outbound_for :: "string \<Rightarrow> sessions \<Rightarrow> nat option" where
  "outbound_for i s = Option.bind (map_of (se_map s) i) ss_outbound"

definition creds_for_user :: "string \<Rightarrow> sessions \<Rightarrow> (nat \<times> string) option" where
  "creds_for_user user_id s =
     Option.bind (List.find (\<lambda>x. ss_user_id x = Some user_id) (map snd (se_map s)))
       (\<lambda>x. both (ss_channel x) (ss_token x))"

section \<open>The world and grpc.rs\<close>

record world =
  w_client :: client
  w_sessions :: sessions
  w_server :: "nat \<Rightarrow> server"
  w_down :: "nat \<Rightarrow> nat \<Rightarrow> status option"
  w_calls :: nat

definition on_client :: "(client, 'e, 'a) act \<Rightarrow> (world, 'e, 'a) act" where
  "on_client = zoom w_client (\<lambda>c w. w\<lparr>w_client := c\<rparr>)"

definition remote :: "nat \<Rightarrow> 'a rpc \<Rightarrow> (world, status, 'a) act" where
  "remote ch h = (\<lambda>w. case w_down w ch (w_calls w) of
      Some st \<Rightarrow> (Inl st, w\<lparr>w_calls := Suc (w_calls w)\<rparr>)
    | None \<Rightarrow> (case h (w_server w ch) of (r, s) \<Rightarrow>
        (r, w\<lparr>w_calls := Suc (w_calls w), w_server := (w_server w)(ch := s)\<rparr>)))"

definition authed :: "client_ext \<Rightarrow> string \<Rightarrow> string + req_meta" where
  "authed X token =
     (if metadata_ok X (''Bearer '' @ token)
      then Inr \<lparr>rm_authorization = Some (''Bearer '' @ token), rm_remote_ip = None\<rparr>
      else Inl ''invalid token'')"

definition starts_with :: "string \<Rightarrow> string \<Rightarrow> bool" where
  "starts_with p s \<longleftrightarrow> take (length p) s = p"

text \<open>
  \<open>build_channel\<close> is the transport itself (tonic), the argument \<open>dial\<close>: an endpoint and a pinned
  certificate give an error or a channel.
\<close>

fun connect_loop :: "(string \<Rightarrow> string + nat) \<Rightarrow> nat \<Rightarrow> string \<Rightarrow> string list \<Rightarrow> string + string \<times> nat" where
  "connect_loop dial tried prev [] =
     (if tried = 0 then Inl ''this contact has no reachable address yet''
      else Inl (''could not reach this contact (are you both online; is the mesh running?): '' @ prev))"
| "connect_loop dial tried prev (ep # eps) =
     (case dial ep of Inr channel \<Rightarrow> Inr (ep, channel) | Inl e \<Rightarrow> connect_loop dial (Suc tried) e eps)"

definition connect_first ::
  "(string \<Rightarrow> string option \<Rightarrow> string + nat) \<Rightarrow> string list \<Rightarrow> string option \<Rightarrow> string + string \<times> nat" where
  "connect_first dial addresses cert =
     connect_loop (\<lambda>ep. dial ep cert) 0 [] (filter (starts_with ''http'') addresses)"

definition require_channel :: "sessions \<Rightarrow> string + nat" where
  "require_channel s = (case active_channel s of None \<Rightarrow> Inl ''not connected to a server'' | Some c \<Rightarrow> Inr c)"

definition require_session :: "sessions \<Rightarrow> string + nat \<times> string" where
  "require_session s = (case active_channel_token s of
     None \<Rightarrow> Inl ''not connected / not logged in'' | Some c \<Rightarrow> Inr c)"

text \<open>The \<open>connect\<close> command of \<open>commands/auth.rs\<close>.\<close>

definition connect_cmd ::
  "(string \<Rightarrow> string option \<Rightarrow> string + nat) \<Rightarrow> string \<Rightarrow> string \<Rightarrow> string option \<Rightarrow> (world, string, unit) act" where
  "connect_cmd dial server_id endpoint cert =
     bnd (of_res (dial endpoint cert)) (\<lambda>channel.
     modify (\<lambda>w. w\<lparr>w_sessions := (sessions_entry server_id
       (\<lambda>s. s\<lparr>ss_channel := Some channel, ss_endpoint := Some endpoint, ss_cert := cert\<rparr>) (w_sessions w))
       \<lparr>se_active := Some server_id\<rparr>\<rparr>))"

section \<open>vault.rs\<close>

definition MLS_STATE :: string where "MLS_STATE = ''mls-state''"
definition HISTORY_PREFIX :: string where "HISTORY_PREFIX = ''hist/''"

text \<open>Every failure ends the upload without an error.\<close>

definition put_sealed :: "ext \<Rightarrow> client_ext \<Rightarrow> string \<Rightarrow> string \<Rightarrow> bytes \<Rightarrow> (world, string, unit) act" where
  "put_sealed E X user_id name plaintext =
     or_else () (
     bnd (gets (\<lambda>w. creds_for_user user_id (w_sessions w))) (\<lambda>creds.
     case creds of None \<Rightarrow> ret ()
     | Some (channel, token) \<Rightarrow>
     bnd (on_client (load_master X)) (\<lambda>master.
     case master of None \<Rightarrow> ret ()
     | Some master \<Rightarrow>
     bnd (on_client (on_rng (seal (cx_prims X) (derive_symmetric (cx_prims X) master (ascii name)) plaintext))) (\<lambda>blob.
     bnd (of_res (authed X token)) (\<lambda>meta.
     map_err (\<lambda>_. []) (remote channel (call (put_blob E meta name blob))))))))"

definition get_sealed ::
  "ext \<Rightarrow> client_ext \<Rightarrow> nat \<Rightarrow> string \<Rightarrow> identity_key_pair \<Rightarrow> string \<Rightarrow> (world, string, bytes option) act" where
  "get_sealed E X channel token master name =
     or_else None (
     bnd (of_res (authed X token)) (\<lambda>meta.
     bnd (map_err (\<lambda>_. []) (remote channel (call (get_blob E meta name)))) (\<lambda>blob.
     ret (case open_blob (cx_prims X) (derive_symmetric (cx_prims X) master (ascii name)) blob of
       Inl e \<Rightarrow> None | Inr plaintext \<Rightarrow> Some plaintext))))"

definition list_names :: "ext \<Rightarrow> client_ext \<Rightarrow> nat \<Rightarrow> string \<Rightarrow> string \<Rightarrow> (world, string, string list) act" where
  "list_names E X channel token prefix =
     or_else [] (
     bnd (of_res (authed X token)) (\<lambda>meta.
     map_err (\<lambda>_. []) (remote channel (call (list_blobs E meta prefix)))))"

section \<open>sync.rs and the restore of history.rs\<close>

definition flush_group :: "ext \<Rightarrow> client_ext \<Rightarrow> string \<Rightarrow> string \<Rightarrow> (world, string, unit) act" where
  "flush_group E X user_id group_id =
     bnd (on_client (plaintext_jsonl X user_id group_id)) (\<lambda>b.
     case b of None \<Rightarrow> ret ()
     | Some bs \<Rightarrow> put_sealed E X user_id (HISTORY_PREFIX @ group_id) bs)"

definition flush :: "ext \<Rightarrow> client_ext \<Rightarrow> (world, string, unit) act" where
  "flush E X =
     bnd (gets (\<lambda>w. (sy_mls (c_sync (w_client w)), sy_groups (c_sync (w_client w))))) (\<lambda>(mls, groups).
     bnd (on_client (modify (\<lambda>c. c\<lparr>c_sync := (c_sync c)\<lparr>sy_mls := [], sy_groups := []\<rparr>\<rparr>))) (\<lambda>_.
     bnd (for_each (\<lambda>(user_id, bs). put_sealed E X user_id MLS_STATE bs) mls) (\<lambda>_.
     for_each (\<lambda>(user_id, gids). for_each (\<lambda>g. flush_group E X user_id g) gids) groups)))"

definition path_exists :: "path \<Rightarrow> client \<Rightarrow> bool" where
  "path_exists p c \<longleftrightarrow> map_of (c_files c) p \<noteq> None"

definition restore_one ::
  "ext \<Rightarrow> client_ext \<Rightarrow> nat \<Rightarrow> string \<Rightarrow> identity_key_pair \<Rightarrow> string \<Rightarrow> string \<Rightarrow> (world, string, unit) act" where
  "restore_one E X channel token master user_id name =
     (case strip_prefix HISTORY_PREFIX name of None \<Rightarrow> ret ()
      | Some group_id \<Rightarrow>
     bnd (or_else False (on_client (bnd (group_path user_id group_id) (\<lambda>p. gets (path_exists p))))) (\<lambda>present.
     if present then ret ()
     else bnd (get_sealed E X channel token master name) (\<lambda>j.
       case j of None \<Rightarrow> ret ()
       | Some jsonl \<Rightarrow> on_client (write_from_jsonl X user_id group_id jsonl))))"

definition restore_all ::
  "ext \<Rightarrow> client_ext \<Rightarrow> nat \<Rightarrow> string \<Rightarrow> identity_key_pair \<Rightarrow> string \<Rightarrow> (world, string, unit) act" where
  "restore_all E X channel token master user_id =
     bnd (list_names E X channel token HISTORY_PREFIX) (\<lambda>names.
     for_each (restore_one E X channel token master user_id) names)"

section \<open>The key backup at login (commands/auth.rs)\<close>

text \<open>
  tonic's name of a status code, and what it reports for a stream the server broke off, are the
  arguments of \<open>status_to_string\<close>.
\<close>

fun status_to_string :: "(code \<Rightarrow> string) \<Rightarrow> (string \<Rightarrow> string) \<Rightarrow> status \<Rightarrow> string" where
  "status_to_string code_text broken (Status c m) = code_text c @ '': '' @ m"
| "status_to_string code_text broken (Aborted m) = broken m"

definition recover_master :: "client_ext \<Rightarrow> string \<Rightarrow> key_backup \<Rightarrow> (world, string, unit) act" where
  "recover_master X password b =
     bnd (map_err crypto_error_display (of_res (params_from_bytes (bu_argon2_params b)))) (\<lambda>params.
     bnd (map_err (\<lambda>_. ''could not decrypt key backup (wrong password?)'')
       (of_res (decrypt_backup (cx_prims X) (ascii password) (bu_encrypted_blob b) (bu_salt b) params))) (\<lambda>secret.
     bnd (ensure (length secret = 32) ''corrupt key backup'') (\<lambda>_.
     on_client (save_master X (from_secret_bytes secret)))))"

definition sync_key_backup ::
  "ext \<Rightarrow> client_ext \<Rightarrow> (code \<Rightarrow> string) \<Rightarrow> (string \<Rightarrow> string) \<Rightarrow> nat \<Rightarrow> string \<Rightarrow> string \<Rightarrow> (world, string, unit) act" where
  "sync_key_backup E X code_text broken channel token password =
     bnd (of_res (authed X token)) (\<lambda>meta.
     bnd (or_else None (bnd (remote channel (call (download_key_backup E meta))) (\<lambda>b. ret (Some b)))) (\<lambda>downloaded.
     bnd (on_client (load_master X)) (\<lambda>local.
     bnd (case local of Some k \<Rightarrow> ret ()
          | None \<Rightarrow> (case downloaded of
              Some b \<Rightarrow> recover_master X password b
            | None \<Rightarrow> bnd (on_client (load_or_create_master X)) (\<lambda>_. ret ()))) (\<lambda>_.
     case downloaded of Some b \<Rightarrow> ret ()
     | None \<Rightarrow>
     bnd (on_client (load_or_create_master X)) (\<lambda>master.
     bnd (on_client (on_rng (encrypt_backup (cx_prims X) (ascii password) (secret_bytes master) argon2_params_default))) (\<lambda>enc.
     map_err (status_to_string code_text broken) (remote channel (call (upload_key_backup E meta
       \<lparr>bu_encrypted_blob = eb_blob enc, bu_salt = eb_salt enc,
        bu_argon2_params = params_to_bytes (eb_params enc), bu_version = 1\<rparr>)))))))))"

section \<open>Forward steps\<close>

lemma bnd_client: "bnd (on_client m) f w = (case m (w_client w) of (Inl e, c) \<Rightarrow> (Inl e, w\<lparr>w_client := c\<rparr>)
     | (Inr a, c) \<Rightarrow> f a (w\<lparr>w_client := c\<rparr>))"
  by (simp add: on_client_def zoom_def bnd_def split: prod.splits sum.splits)

lemma bnd_of_res: "bnd (of_res r) f s = (case r of Inl e \<Rightarrow> (Inl e, s) | Inr a \<Rightarrow> f a s)"
  by (simp add: bnd_def of_res_def split: sum.splits)

lemma on_client_ok [ok_simps]:
  "on_client m w = (Inr a, t) \<longleftrightarrow> (\<exists>c. m (w_client w) = (Inr a, c) \<and> t = w\<lparr>w_client := c\<rparr>)"
  by (auto simp: on_client_def ok_simps)

text \<open>The network is up, and a token speaks for an account whenever the server looks at it.\<close>

definition online :: "nat \<Rightarrow> world \<Rightarrow> bool" where
  "online ch w \<longleftrightarrow> (\<forall>n. w_down w ch n = None)"

definition session_token :: "ext \<Rightarrow> client_ext \<Rightarrow> string \<Rightarrow> req_meta \<Rightarrow> uuid \<Rightarrow> bool" where
  "session_token E X token meta acct \<longleftrightarrow> authed X token = Inr meta \<and> (\<forall>d. user_of E meta d = Some acct)"

definition server_db :: "nat \<Rightarrow> world \<Rightarrow> db" where
  "server_db ch w = sv_db (w_server w ch)"

definition called :: "nat \<Rightarrow> db \<Rightarrow> world \<Rightarrow> world" where
  "called ch d w = w\<lparr>w_calls := Suc (w_calls w), w_server := (w_server w)(ch := (w_server w ch)\<lparr>sv_db := d\<rparr>)\<rparr>"

lemma remote_online:
  "online ch w \<Longrightarrow> m (server_db ch w) = (r, d) \<Longrightarrow> remote ch (call m) w = (map_sum status_of id r, called ch d w)"
  by (simp add: remote_def online_def server_db_def call_eq called_def)

lemma called_simps [simp]:
  "online ch' (called ch d w) = online ch' w" "server_db ch (called ch d w) = d" "w_client (called ch d w) = w_client w"
  "w_sessions (called ch d w) = w_sessions w" "ch' \<noteq> ch \<Longrightarrow> server_db ch' (called ch d w) = server_db ch' w"
  "online ch' (w\<lparr>w_client := c\<rparr>) = online ch' w" "server_db ch (w\<lparr>w_client := c\<rparr>) = server_db ch w"
  "w_down (called ch d w) = w_down w" "server_db ch' (w\<lparr>w_client := c\<rparr>) = server_db ch' w"
  by (simp_all add: online_def server_db_def called_def)

section \<open>The master key on disk\<close>

abbreviation key_file :: path where "key_file \<equiv> [''identity.key'']"

definition key_disk_ok :: "client \<Rightarrow> bool" where
  "key_disk_ok c \<longleftrightarrow> c_fault c [] = None \<and> c_fault c key_file = None"

lemma key_path_ok: "key_disk_ok c \<Longrightarrow> key_path c = (Inr key_file, c)"
  by (simp add: key_path_def make_dir_def key_disk_ok_def bnd_def ret_def)

lemma save_master_ok:
  assumes "unlocked k c" "key_disk_ok c"
  shows "save_master X m c = (Inr u, t) \<longleftrightarrow>
    (\<exists>blob r. seal (cx_prims X) k (secret_bytes m) (c_rng c) = (Inr blob, r) \<and> t = put_file key_file blob (c\<lparr>c_rng := r\<rparr>))"
proof -
  have "key_path c = (Inr key_file, c)" by (rule key_path_ok [OF assms(2)])
  moreover have "write_file key_file b (c\<lparr>c_rng := r\<rparr>) = (Inr (), put_file key_file b (c\<lparr>c_rng := r\<rparr>))" for b r
    using assms(2) by (simp add: write_file_def key_disk_ok_def)
  ultimately show ?thesis
    by (auto simp: save_master_def ok_simps seal_bytes_unlocked [OF assms(1)])
qed

lemma load_master_sealed:
  assumes "unlocked k c" "key_disk_ok c" "map_of (c_files c) key_file = Some blob"
    and "aead_exact (cx_prims X)" "sealed_as (cx_prims X) k s blob" "length s = 32"
  shows "load_master X c = (Inr (Some (from_secret_bytes s)), c)"
proof -
  have "open_blob (cx_prims X) k blob = Inr s" using assms(4,5) by (simp add: open_sealed)
  then show ?thesis
    using assms by (simp add: load_master_def or_else_def bnd_def key_path_ok gets_def read_file_def key_disk_ok_def
        open_bytes_unlocked ret_def)
qed

lemma load_master_absent:
  assumes "key_disk_ok c" "map_of (c_files c) key_file = None"
  shows "load_master X c = (Inr None, c)"
  using assms by (simp add: load_master_def or_else_def bnd_def key_path_ok gets_def read_file_def key_disk_ok_def ret_def)

section \<open>The key backup\<close>

lemma download_eq:
  "user_of E meta d = Some u \<Longrightarrow> download_key_backup E meta d =
     (case backup_entry d u () of None \<Rightarrow> Inl (NotFound ''key backup'') | Some b \<Rightarrow> Inr b, tick d)"
  by (auto simp: download_key_backup_def caller_eq sq_get_backup_def backup_entry_def act_defs split: option.splits)

lemma upload_ok:
  assumes "user_of E meta d = Some u" "upload_key_backup E meta b d = (Inr x, d')"
  shows "backup_entry d' u () = Some b"
  using assms(2)
  by (auto simp: upload_key_backup_def store_backup_def ok_simps assms(1) put_backup_def [of u "()" b, symmetric]
      backup.entry_write dest!: arg_cong [where f = snd] split: if_splits)

lemma remote_ok [ok_simps]:
  "remote ch (call m) w = (Inr a, t) \<longleftrightarrow> w_down w ch (w_calls w) = None \<and>
     (\<exists>d. m (server_db ch w) = (Inr a, d) \<and> t = called ch d w)"
proof -
  obtain r d where m: "m (server_db ch w) = (r, d)" by (cases "m (server_db ch w)")
  then show ?thesis
    by (cases r) (auto simp: remote_def called_def call_eq [where m = m, OF m [unfolded server_db_def]] split: option.splits)
qed

lemma download_step:
  assumes "session_token E X token meta acct" "online ch w"
  shows "or_else None (bnd (remote ch (call (download_key_backup E meta))) (\<lambda>b. ret (Some b))) w =
    (Inr (backup_entry (server_db ch w) acct ()), called ch (tick (server_db ch w)) w)"
proof -
  have u: "user_of E meta (server_db ch w) = Some acct" using assms(1) by (simp add: session_token_def)
  show ?thesis
    by (simp add: or_else_def bnd_def ret_def remote_online [where m = "download_key_backup E meta", OF assms(2) download_eq [OF u]] split: option.splits)
qed

text \<open>A stored backup that the password opens to a secret.\<close>

definition backs_up :: "client_ext \<Rightarrow> string \<Rightarrow> bytes \<Rightarrow> key_backup \<Rightarrow> bool" where
  "backs_up X password secret b \<longleftrightarrow> (\<exists>params key. bu_argon2_params b = params_to_bytes params \<and>
     derive_wrapping_key (cx_prims X) (ascii password) (bu_salt b) params = Inr key \<and>
     sealed_as (cx_prims X) key secret (bu_encrypted_blob b))"

lemma encrypt_backs_up:
  assumes "encrypt_backup (cx_prims X) (ascii pw) secret params r = (Inr e, r')"
  shows "backs_up X pw secret \<lparr>bu_encrypted_blob = eb_blob e, bu_salt = eb_salt e,
     bu_argon2_params = params_to_bytes (eb_params e), bu_version = v\<rparr>"
  using assms by (auto simp: encrypt_is_seal ok_simps backs_up_def dest!: seal_sealed)

lemma backs_up_decrypt:
  assumes "backs_up X pw secret b" "aead_exact (cx_prims X)"
  obtains params where "params_from_bytes (bu_argon2_params b) = Inr params"
    "decrypt_backup (cx_prims X) (ascii pw) (bu_encrypted_blob b) (bu_salt b) params = Inr secret"
proof -
  obtain params key where p: "bu_argon2_params b = params_to_bytes params"
    "derive_wrapping_key (cx_prims X) (ascii pw) (bu_salt b) params = Inr key"
    "sealed_as (cx_prims X) key secret (bu_encrypted_blob b)"
    using assms(1) by (auto simp: backs_up_def)
  then show thesis
    using that [of params] sealed_long [OF p(3)] assms(2) by (simp add: params_roundtrip decrypt_is_open open_sealed)
qed

lemma sync_uploads:
  assumes tok: "session_token E X token meta acct" and "online ch w"
    and "backup_entry (server_db ch w) acct () = None"
    and m: "load_master X (w_client w) = ((Inr (Some m) :: string + _), w_client w)"
    and s: "sync_key_backup E X ct br ch token pw w = (Inr (), w1)"
  shows "\<exists>b. backup_entry (server_db ch w1) acct () = Some b \<and> backs_up X pw (secret_bytes m) b"
    and "online ch w1"
proof -
  have a: "authed X token = Inr meta" and u: "\<And>d. user_of E meta d = Some acct" using tok by (auto simp: session_token_def)
  let ?w = "called ch (tick (server_db ch w)) w"
  have l: "load_or_create_master X (w_client w) = (Inr m, w_client w)"
    using m by (simp add: load_or_create_master_def bnd_def ret_def)
  obtain enc r d where enc: "encrypt_backup (cx_prims X) (ascii pw) (secret_bytes m) argon2_params_default (c_rng (w_client w)) = (Inr enc, r)"
    and up: "upload_key_backup E meta \<lparr>bu_encrypted_blob = eb_blob enc, bu_salt = eb_salt enc,
        bu_argon2_params = params_to_bytes (eb_params enc), bu_version = 1\<rparr> (tick (server_db ch w)) = (Inr (), d)"
    and w1: "w1 = called ch d (?w\<lparr>w_client := (w_client w)\<lparr>c_rng := r\<rparr>\<rparr>)"
    using s assms(3) l m
    by (auto simp: sync_key_backup_def ok_simps a download_step [OF tok assms(2)])
  show "\<exists>b. backup_entry (server_db ch w1) acct () = Some b \<and> backs_up X pw (secret_bytes m) b"
    using upload_ok [OF u up] encrypt_backs_up [OF enc] by (auto simp: w1)
  show "online ch w1" using assms(2) by (simp add: w1)
qed

lemma sync_recovers:
  assumes tok: "session_token E X token meta acct" and "online ch w"
    and b: "backup_entry (server_db ch w) acct () = Some b" "backs_up X pw secret b" "length secret = 32"
    and "aead_exact (cx_prims X)"
    and c: "unlocked k (w_client w)" "key_disk_ok (w_client w)" "map_of (c_files (w_client w)) key_file = None"
    and s: "sync_key_backup E X ct br ch token pw w = (Inr (), w1)"
  shows "load_master X (w_client w1) = ((Inr (Some (from_secret_bytes secret)) :: 'e + _), w_client w1)"
    and "backup_entry (server_db ch w1) acct () = Some b"
proof -
  have a: "authed X token = Inr meta" using tok by (auto simp: session_token_def)
  obtain params where p: "params_from_bytes (bu_argon2_params b) = Inr params"
    "decrypt_backup (cx_prims X) (ascii pw) (bu_encrypted_blob b) (bu_salt b) params = Inr secret"
    using backs_up_decrypt [OF b(2) assms(6)] .
  have l: "load_master X (w_client w) = (Inr None :: string + _, w_client w)"
    using c by (simp add: load_master_absent)
  obtain blob r where blob: "seal (cx_prims X) k secret (c_rng (w_client w)) = (Inr blob, r)"
    and w1: "w1 = (called ch (tick (server_db ch w)) w)\<lparr>w_client := put_file key_file blob ((w_client w)\<lparr>c_rng := r\<rparr>)\<rparr>"
    using s b(1) l p
    by (auto simp: sync_key_backup_def recover_master_def ok_simps a download_step [OF tok assms(2)]
        save_master_ok [OF c(1,2)] from_secret_bytes_def secret_bytes_def split: option.splits)
  show "load_master X (w_client w1) = ((Inr (Some (from_secret_bytes secret)) :: 'e + _), w_client w1)"
    using c b(3) assms(6) seal_sealed [OF blob]
    by (intro load_master_sealed [of k _ blob])
      (auto simp: w1 key_disk_ok_def put_file_def update_conv' unlocked_def)
  show "backup_entry (server_db ch w1) acct () = Some b"
    using b(1) by (simp add: w1)
qed

text \<open>
  The primitives do their work: the default parameters are accepted, a password gives a key, and
  encryption under a key and a nonce of the right lengths succeeds.
\<close>

definition prims_work :: "prims \<Rightarrow> bool" where
  "prims_work P \<longleftrightarrow> argon2_new P argon2_params_default WRAPPING_KEY_LEN = None \<and>
     (\<forall>pw salt. \<exists>key. argon2id P argon2_params_default pw salt WRAPPING_KEY_LEN = Inr key \<and> length key = WRAPPING_KEY_LEN) \<and>
     (\<forall>k n p. length k = WRAPPING_KEY_LEN \<and> length n = NONCE_LEN \<longrightarrow> aead_encrypt P k n p \<noteq> None)"

lemma seal_total: "prims_work P \<Longrightarrow> length k = WRAPPING_KEY_LEN \<Longrightarrow> \<exists>blob r'. seal P k p r = (Inr blob, r')"
proof -
  assume P: "prims_work P" "length k = WRAPPING_KEY_LEN"
  let ?n = "map (rng_bytes r) [rng_pos r ..< rng_pos r + NONCE_LEN]"
  obtain ct where "aead_encrypt P k ?n p = Some ct" using P by (fastforce simp: prims_work_def)
  then have "seal P k p r = (Inr (?n @ ct), r\<lparr>rng_pos := rng_pos r + NONCE_LEN\<rparr>)"
    using P(2) by (simp add: seal_def ok_simps)
  then show ?thesis by blast
qed

lemma encrypt_total:
  assumes "prims_work P"
  shows "\<exists>e r'. encrypt_backup P pw p argon2_params_default r = (Inr e, r') \<and> eb_blob e \<noteq> [] \<and> eb_salt e \<noteq> []"
proof -
  let ?salt = "map (rng_bytes r) [rng_pos r ..< rng_pos r + SALT_LEN]"
  let ?r = "r\<lparr>rng_pos := rng_pos r + SALT_LEN\<rparr>"
  obtain key where key: "derive_wrapping_key P pw ?salt argon2_params_default = Inr key" "length key = WRAPPING_KEY_LEN"
    using assms unfolding prims_work_def derive_wrapping_key_def by (metis (lifting) option.simps(4) sum.simps(6))
  obtain blob r' where b: "seal P key p ?r = (Inr blob, r')" using seal_total [OF assms key(2)] by blast
  have "blob \<noteq> []" using sealed_long [OF seal_sealed [OF b]] by (auto simp: NONCE_LEN_def)
  then show ?thesis
    using key(1) b by (auto simp: encrypt_is_seal generate_salt_def ok_simps SALT_LEN_def)
qed

lemma upload_run:
  assumes "user_of E meta d = Some u" "bu_encrypted_blob b \<noteq> []" "bu_salt b \<noteq> []" "bu_argon2_params b \<noteq> []"
  shows "\<exists>d'. upload_key_backup E meta b d = (Inr (), d')"
  using assms backup.write_ok [of u "()" b "tick d"]
  by (simp add: upload_key_backup_def store_backup_def bnd_caller [OF assms(1)] bnd_ensure put_backup_def)
    (metis prod.collapse)

lemma params_bytes_ne [simp]: "params_to_bytes p \<noteq> []"
  by (simp add: params_to_bytes_def u32_to_le_def)

lemma sync_upload_run:
  assumes tok: "session_token E X token meta acct" and "online ch w"
    and "backup_entry (server_db ch w) acct () = None"
    and m: "load_master X (w_client w) = ((Inr (Some m) :: string + _), w_client w)"
    and P: "prims_work (cx_prims X)"
  shows "\<exists>w1. sync_key_backup E X ct br ch token pw w = (Inr (), w1)"
proof -
  have a: "authed X token = Inr meta" and u: "\<And>d. user_of E meta d = Some acct" using tok by (auto simp: session_token_def)
  have l: "load_or_create_master X (w_client w) = (Inr m, w_client w)"
    using m by (simp add: load_or_create_master_def bnd_def ret_def)
  obtain enc r where enc: "encrypt_backup (cx_prims X) (ascii pw) (secret_bytes m) argon2_params_default (c_rng (w_client w)) = (Inr enc, r)"
    "eb_blob enc \<noteq> []" "eb_salt enc \<noteq> []"
    using encrypt_total [OF P] by blast
  obtain d where up: "upload_key_backup E meta \<lparr>bu_encrypted_blob = eb_blob enc, bu_salt = eb_salt enc,
        bu_argon2_params = params_to_bytes (eb_params enc), bu_version = 1\<rparr> (tick (server_db ch w)) = (Inr (), d)"
    using upload_run [OF u] enc by force
  show ?thesis
    using assms(2,3) l m enc(1) up
    by (auto simp: sync_key_backup_def ok_simps a download_step [OF tok assms(2)] online_def)
qed

lemma sync_recover_run:
  assumes tok: "session_token E X token meta acct" and "online ch w"
    and b: "backup_entry (server_db ch w) acct () = Some b" "backs_up X pw secret b" "length secret = 32"
    and "aead_exact (cx_prims X)"
    and c: "unlocked k (w_client w)" "key_disk_ok (w_client w)" "map_of (c_files (w_client w)) key_file = None"
    and P: "prims_work (cx_prims X)"
  shows "\<exists>w1. sync_key_backup E X ct br ch token pw w = (Inr (), w1)"
proof -
  have a: "authed X token = Inr meta" using tok by (auto simp: session_token_def)
  obtain params where p: "params_from_bytes (bu_argon2_params b) = Inr params"
    "decrypt_backup (cx_prims X) (ascii pw) (bu_encrypted_blob b) (bu_salt b) params = Inr secret"
    using backs_up_decrypt [OF b(2) assms(6)] .
  have l: "load_master X (w_client w) = (Inr None :: string + _, w_client w)"
    using c by (simp add: load_master_absent)
  have "length k = WRAPPING_KEY_LEN" using c(1) by (simp add: unlocked_def WRAPPING_KEY_LEN_def)
  then obtain blob r where blob: "seal (cx_prims X) k secret (c_rng (w_client w)) = (Inr blob, r)"
    using seal_total [OF P] by blast
  show ?thesis
    using b(1,3) l p blob
    by (auto simp: sync_key_backup_def recover_master_def ok_simps a download_step [OF tok assms(2)]
        save_master_ok [OF c(1,2)] from_secret_bytes_def secret_bytes_def)
qed

section \<open>A concrete world\<close>

definition demo_token :: string where
  "demo_token = ''xxx.xx''"

definition demo_client_meta :: req_meta where
  "demo_client_meta = \<lparr>rm_authorization = Some (''Bearer '' @ demo_token), rm_remote_ip = None\<rparr>"

definition demo_session :: session where
  "demo_session = session_default\<lparr>ss_channel := Some 0, ss_user_id := Some ''me'', ss_token := Some demo_token\<rparr>"

definition demo_master :: identity_key_pair where
  "demo_master = \<lparr>signing = replicate 32 9\<rparr>"

text \<open>A client that has its master key, and the same client reinstalled.\<close>

definition demo_keyed_client :: client where
  "demo_keyed_client = put_file key_file (replicate 24 5 @ demo_key @ replicate 24 5 @ replicate 32 9) demo_client"

definition demo_world :: world where
  "demo_world = \<lparr>w_client = demo_keyed_client, w_sessions = \<lparr>se_map = [(''home'', demo_session)], se_active = Some ''home''\<rparr>,
     w_server = (\<lambda>ch. demo_server), w_down = (\<lambda>ch n. None), w_calls = 0\<rparr>"

lemma demo_session_token: "session_token demo_ext demo_cext demo_token demo_client_meta 3"
proof -
  have "authed demo_cext demo_token = Inr demo_client_meta"
    by (simp add: authed_def demo_cext_def demo_client_meta_def)
  moreover have "user_of demo_ext demo_client_meta d = Some 3" for d
    by (simp add: user_of_def claims_of_def bearer_def demo_client_meta_def demo_token_def demo_ext_def strip_prefix_def)
  ultimately show ?thesis by (simp add: session_token_def)
qed

lemma demo_sealed: "sealed_as (cx_prims demo_cext) demo_key p (replicate 24 5 @ demo_key @ replicate 24 5 @ p)"
  unfolding sealed_as_def
  by (rule conjI, simp add: demo_key_def WRAPPING_KEY_LEN_def, rule exI [of _ "replicate 24 5"],
      rule exI [of _ "demo_key @ replicate 24 5 @ p"], simp add: demo_cext_def demo_prims_def NONCE_LEN_def)

lemma demo_world_facts:
  "online 0 demo_world" "backup_entry (server_db 0 demo_world) 3 () = None" "prims_work (cx_prims demo_cext)"
  "load_master demo_cext (w_client demo_world) = (Inr (Some demo_master) :: 'e + _, w_client demo_world)"
  "key_disk_ok demo_client" "map_of (c_files demo_client) key_file = None" "length (secret_bytes demo_master) = 32"
proof -
  have "sealed_as (cx_prims demo_cext) demo_key (replicate 32 9) (replicate 24 5 @ demo_key @ replicate 24 5 @ replicate 32 9)"
    by (rule demo_sealed)
  moreover have "unlocked demo_key (w_client demo_world)" "key_disk_ok (w_client demo_world)"
    "map_of (c_files (w_client demo_world)) key_file = Some (replicate 24 5 @ demo_key @ replicate 24 5 @ replicate 32 9)"
    using demo_client_facts(3)
    by (simp_all add: demo_world_def demo_keyed_client_def key_disk_ok_def demo_client_def put_file_def unlocked_def)
  ultimately show "load_master demo_cext (w_client demo_world) = (Inr (Some demo_master) :: 'e + _, w_client demo_world)"
    unfolding demo_master_def from_secret_bytes_def [symmetric]
    by - (rule load_master_sealed [OF _ _ _ demo_client_facts(1)], assumption+, simp)
qed (simp_all add: demo_world_def online_def server_db_def demo_server_def backup_entry_def prims_work_def demo_cext_def
    demo_prims_def argon2_params_default_def WRAPPING_KEY_LEN_def key_disk_ok_def demo_client_def demo_master_def
    secret_bytes_def demo_db_def migrated_db_def, (auto simp: min_def)?)

section \<open>Properties\<close>



end
