(* ===== verification/Client_Mirror.thy ===== *)
theory Client_Mirror
  imports Client_Sync
begin

text \<open>
  Private history through the server's vault: what one upload, a flush and a restore do to the
  client's files and to every vault, and that an archive reaches another installation unchanged.
  The sections follow the way of the data: \<open>put_sealed\<close> and \<open>flush\<close> on the first installation,
  \<open>list_names\<close>, \<open>get_sealed\<close> and \<open>restore_all\<close> on the second.
\<close>

section \<open>Archives through the vault\<close>

definition digest_len :: "prims \<Rightarrow> bool" where
  "digest_len P \<longleftrightarrow> (\<forall>k m. length (blake3_keyed P k m) = WRAPPING_KEY_LEN)"

definition keyed :: "client_ext \<Rightarrow> bytes \<Rightarrow> identity_key_pair \<Rightarrow> client \<Rightarrow> bool" where
  "keyed X k m c \<longleftrightarrow> unlocked k c \<and> key_disk_ok c \<and> length (secret_bytes m) = 32 \<and>
     (\<exists>blob. map_of (c_files c) key_file = Some blob \<and> sealed_as (cx_prims X) k (secret_bytes m) blob)"

lemma keyed_load: "keyed X k m c \<Longrightarrow> aead_exact (cx_prims X) \<Longrightarrow> load_master X c = (Inr (Some m), c)"
  unfolding keyed_def
  by (elim conjE exE, rule trans [OF load_master_sealed], assumption+) (simp add: from_secret_bytes_def secret_bytes_def)

lemma keyed_simps [simp]:
  "keyed X k m (c\<lparr>c_rng := r\<rparr>) = keyed X k m c" "keyed X k m (c\<lparr>c_sync := y\<rparr>) = keyed X k m c"
  by (simp_all add: keyed_def key_disk_ok_def)

lemma archived_simps [simp]:
  "archived u g rs (c\<lparr>c_sync := y\<rparr>) = archived u g rs c" "archived u g rs (c\<lparr>c_rng := r\<rparr>) = archived u g rs c"
  by (simp_all add: archived_def file_or_empty_def)

lemma put_blob_run:
  assumes "user_of E meta d = Some u" "name \<noteq> []" "length name \<le> MAX_NAME_LEN" "blob \<noteq> []"
  shows "put_blob E meta name blob d = (Inr (), snd (sq_put_vault_blob u name blob (tick d)))"
  using assms vault.write_ok [of u name blob "tick d"]
  by (simp add: put_blob_def check_name_def bnd_caller [OF assms(1)] bnd_ensure prod_eq_iff)

lemma put_blob_names:
  assumes "n \<noteq> name"
  shows "vault_entry (snd (put_blob E meta name blob d)) u n = vault_entry d u n"
proof -
  have "wp (put_blob E meta name blob) (\<lambda>_ t. vault_entry t u n = vault_entry d u n) (\<lambda>_ t. vault_entry t u n = vault_entry d u n) d"
    using assms by (auto simp: put_blob_def caller_def check_name_def wp_simps split: option.splits)
      (auto simp: wp_def vault.entry_write split: prod.splits sum.splits dest!: arg_cong [where f = snd])
  then show ?thesis by (rule wp_sndD)
qed


definition archive_key :: "client_ext \<Rightarrow> identity_key_pair \<Rightarrow> string \<Rightarrow> bytes" where
  "archive_key X m name = derive_symmetric (cx_prims X) m (ascii name)"

lemma archive_key_len: "digest_len (cx_prims X) \<Longrightarrow> length (archive_key X m name) = WRAPPING_KEY_LEN"
  by (simp add: archive_key_def derive_symmetric_def digest_len_def)

lemma put_sealed_run:
  assumes "keyed X k m (w_client w)" "aead_exact (cx_prims X)" "prims_work (cx_prims X)" "digest_len (cx_prims X)"
    and cr: "creds_for_user u (w_sessions w) = Some (ch, token)" and tok: "session_token E X token meta acct"
    and on: "online ch w" and name: "name \<noteq> []" "length name \<le> MAX_NAME_LEN"
  shows "\<exists>blob r d. put_sealed E X u name p w = (Inr (), called ch d (w\<lparr>w_client := (w_client w)\<lparr>c_rng := r\<rparr>\<rparr>)) \<and>
    sealed_as (cx_prims X) (archive_key X m name) p blob \<and>
    (\<forall>a n. vault_entry d a n = (if a = acct \<and> n = name then Some blob else vault_entry (server_db ch w) a n))"
proof -
  have a: "authed X token = Inr meta" and u: "\<And>d. user_of E meta d = Some acct" using tok by (auto simp: session_token_def)
  obtain blob r where b: "seal (cx_prims X) (archive_key X m name) p (c_rng (w_client w)) = (Inr blob, r)"
    using seal_total [OF assms(3) archive_key_len [OF assms(4)]] by blast
  have ne: "blob \<noteq> []" using sealed_long [OF seal_sealed [OF b]] by (auto simp: NONCE_LEN_def)
  let ?w = "w\<lparr>w_client := (w_client w)\<lparr>c_rng := r\<rparr>\<rparr>"
  let ?d = "snd (sq_put_vault_blob acct name blob (tick (server_db ch w)))"
  have "remote ch (call (put_blob E meta name blob)) ?w = (map_sum status_of id (Inr ()), called ch ?d ?w)"
    by (rule remote_online) (use on put_blob_run [OF u name ne] in simp_all)
  moreover have "on_rng (seal (cx_prims X) (archive_key X m name) p) (w_client w) = (Inr blob, (w_client w)\<lparr>c_rng := r\<rparr>)"
    using b by (simp add: on_rng_ok)
  ultimately have "put_sealed E X u name p w = (Inr (), called ch ?d ?w)"
    using cr a
    by (simp add: keyed_load [OF assms(1,2)] put_sealed_def or_else_def bnd_gets bnd_client archive_key_def bnd_of_res map_err_def)
  then show ?thesis
    using seal_sealed [OF b]
    by (intro exI [of _ blob] exI [of _ r] exI [of _ ?d]) (auto simp: vault.entry_write)
qed

text \<open>Whoever uploads whatever: the client changes in its randomness only, and no other name of any vault changes.\<close>

definition upload_frame :: "string \<Rightarrow> world \<Rightarrow> world \<Rightarrow> bool" where
  "upload_frame name w t \<longleftrightarrow> (\<exists>r. w_client t = (w_client w)\<lparr>c_rng := r\<rparr>) \<and> w_sessions t = w_sessions w \<and>
     w_down t = w_down w \<and> (\<forall>ch a n. n \<noteq> name \<longrightarrow> vault_entry (server_db ch t) a n = vault_entry (server_db ch w) a n)"

lemma upload_frame_refl: "upload_frame name w w"
  by (auto simp: upload_frame_def intro!: exI [of _ "c_rng (w_client w)"])

lemma put_sealed_frame:
  assumes "keyed X k m (w_client w)" "aead_exact (cx_prims X)"
  shows "\<exists>t. put_sealed E X u name p w = (Inr (), t) \<and> upload_frame name w t"
proof -
  have rem: "upload_frame name w (snd (remote ch (call (put_blob E meta name blob)) (w\<lparr>w_client := (w_client w)\<lparr>c_rng := r\<rparr>\<rparr>)))"
    for ch meta blob r
  proof (cases "w_down w ch (w_calls w)")
    case (Some st)
    then show ?thesis by (auto simp: remote_def upload_frame_def server_db_def)
  next
    case None
    obtain x d where d: "put_blob E meta name blob (server_db ch w) = (x, d)" by fastforce
    then have "vault_entry d a n = vault_entry (server_db ch w) a n" if "n \<noteq> name" for a n
      using put_blob_names [OF that, of E meta blob "server_db ch w" a] by simp
    moreover have "call (put_blob E meta name blob) (w_server w ch) = (map_sum status_of id x, (w_server w ch)\<lparr>sv_db := d\<rparr>)"
      using call_eq [where m = "put_blob E meta name blob"] d by (simp add: server_db_def)
    ultimately show ?thesis using None by (auto simp: remote_def upload_frame_def server_db_def)
  qed
  have own: "upload_frame name w (w\<lparr>w_client := (w_client w)\<lparr>c_rng := r\<rparr>\<rparr>)" for r
    by (auto simp: upload_frame_def server_db_def)
  have l: "load_master X (w_client w) = (Inr (Some m) :: string + _, w_client w)"
    by (rule keyed_load [OF assms])
  show ?thesis
  proof (cases "creds_for_user u (w_sessions w)")
    case None
    then show ?thesis using upload_frame_refl by (simp add: put_sealed_def or_else_def bnd_gets ret_def)
  next
    case (Some cr)
    then obtain ch token where cr: "creds_for_user u (w_sessions w) = Some (ch, token)" by (cases cr) auto
    let ?s = "on_rng (seal (cx_prims X) (derive_symmetric (cx_prims X) m (ascii name)) p) (w_client w)"
    obtain x r where s: "?s = (x, (w_client w)\<lparr>c_rng := r\<rparr>)" by (metis on_rng_snd prod.collapse)
    have rem': "remote ch (call (put_blob E meta name blob)) (w\<lparr>w_client := (w_client w)\<lparr>c_rng := r\<rparr>\<rparr>) = (y, t) \<Longrightarrow> upload_frame name w t"
      for meta blob y t using rem [of ch meta blob r] by simp
    show ?thesis
      using cr l s own
      by (cases x; cases "authed X token")
        (auto simp: put_sealed_def or_else_def bnd_gets bnd_client bnd_of_res map_err_def upload_frame_refl
          split: prod.splits sum.splits intro: rem')
  qed
qed

text \<open>A group's messages as the vault of an account mirrors them.\<close>

definition mirrored :: "client_ext \<Rightarrow> identity_key_pair \<Rightarrow> nat \<Rightarrow> uuid \<Rightarrow> string \<Rightarrow> archived_message list \<Rightarrow> world \<Rightarrow> bool" where
  "mirrored X m ch acct g ms w \<longleftrightarrow> (\<exists>blob. vault_entry (server_db ch w) acct (HISTORY_PREFIX @ g) = Some blob \<and>
     sealed_as (cx_prims X) (archive_key X m (HISTORY_PREFIX @ g)) (concat (map (jsonl_line X) ms)) blob)"

definition uploads_frame :: "string set \<Rightarrow> world \<Rightarrow> world \<Rightarrow> bool" where
  "uploads_frame names w t \<longleftrightarrow> (\<exists>r. w_client t = (w_client w)\<lparr>c_rng := r\<rparr>) \<and> w_sessions t = w_sessions w \<and>
     w_down t = w_down w \<and> (\<forall>ch a n. n \<notin> names \<longrightarrow> vault_entry (server_db ch t) a n = vault_entry (server_db ch w) a n)"

lemma uploads_frame_one: "upload_frame name w t \<Longrightarrow> uploads_frame {name} w t"
  by (simp add: upload_frame_def uploads_frame_def)

lemma uploads_frame_refl: "uploads_frame N w w"
  by (auto simp: uploads_frame_def intro!: exI [of _ "c_rng (w_client w)"])

lemma uploads_frame_trans: "uploads_frame N w t \<Longrightarrow> uploads_frame M t v \<Longrightarrow> uploads_frame (N \<union> M) w v"
  by (auto simp: uploads_frame_def)

lemma uploads_frame_keeps:
  assumes "uploads_frame N w t"
  shows "keyed X k m (w_client t) = keyed X k m (w_client w)" "online ch t = online ch w"
    "creds_for_user u (w_sessions t) = creds_for_user u (w_sessions w)"
    "archived u g rs (w_client t) = archived u g rs (w_client w)" "unlocked k (w_client t) = unlocked k (w_client w)"
    "HISTORY_PREFIX @ g \<notin> N \<Longrightarrow> mirrored X m ch acct g ms t = mirrored X m ch acct g ms w"
  using assms by (auto simp: uploads_frame_def online_def mirrored_def archived_def file_or_empty_def)

lemma flush_mls:
  assumes "keyed X k m (w_client w)" "aead_exact (cx_prims X)"
  shows "\<exists>t. for_each (\<lambda>(user_id, bs). put_sealed E X user_id MLS_STATE bs) mls w = (Inr (), t) \<and>
    uploads_frame {MLS_STATE} w t"
  using assms(1)
proof (induction mls arbitrary: w)
  case Nil
  then show ?case by (simp add: ret_def uploads_frame_refl)
next
  case (Cons x mls)
  obtain u bs where x: "x = (u, bs)" by (cases x)
  obtain t where t: "put_sealed E X u MLS_STATE bs w = (Inr (), t)" "uploads_frame {MLS_STATE} w t"
    using put_sealed_frame [OF Cons.prems assms(2)] uploads_frame_one by blast
  then obtain v where "for_each (\<lambda>(user_id, bs). put_sealed E X user_id MLS_STATE bs) mls t = (Inr (), v)"
    "uploads_frame {MLS_STATE} t v"
    using Cons.IH [of t] Cons.prems uploads_frame_keeps(1) [OF t(2)] by blast
  then show ?case using t uploads_frame_trans [OF t(2), of "{MLS_STATE}"] by (auto simp: x bnd_def)
qed

lemma plaintext_archived:
  assumes "unlocked k c" "archived u g rs c" "List.map_filter (message_of X k) rs \<noteq> []"
  shows "plaintext_jsonl X u g c = (Inr (Some (concat (map (jsonl_line X) (List.map_filter (message_of X k) rs)))), c)"
  using assms(3) by (simp add: plaintext_jsonl_def bnd_def archived_load [OF assms(1,2)] ret_def)

lemma flush_group_run:
  assumes "keyed X k m (w_client w)" "aead_exact (cx_prims X)" "prims_work (cx_prims X)" "digest_len (cx_prims X)"
    and "creds_for_user u (w_sessions w) = Some (ch, token)" "session_token E X token meta acct"
    and "online ch w" "archived u g rs (w_client w)" "length g + 5 \<le> MAX_NAME_LEN"
    and ms: "List.map_filter (message_of X k) rs = ms" "ms \<noteq> []"
  shows "\<exists>t. flush_group E X u g w = (Inr (), t) \<and> uploads_frame {HISTORY_PREFIX @ g} w t \<and> mirrored X m ch acct g ms t"
proof -
  let ?j = "concat (map (jsonl_line X) ms)"
  have uk: "unlocked k (w_client w)" using assms(1) by (simp add: keyed_def)
  have name: "HISTORY_PREFIX @ g \<noteq> []" "length (HISTORY_PREFIX @ g) \<le> MAX_NAME_LEN"
    using assms(9) by (simp_all add: HISTORY_PREFIX_def)
  obtain blob r d where put: "put_sealed E X u (HISTORY_PREFIX @ g) ?j w = (Inr (), called ch d (w\<lparr>w_client := (w_client w)\<lparr>c_rng := r\<rparr>\<rparr>))"
    "sealed_as (cx_prims X) (archive_key X m (HISTORY_PREFIX @ g)) ?j blob"
    "\<forall>a n. vault_entry d a n = (if a = acct \<and> n = HISTORY_PREFIX @ g then Some blob else vault_entry (server_db ch w) a n)"
    using put_sealed_run [OF assms(1-7) name] by blast
  let ?t = "called ch d (w\<lparr>w_client := (w_client w)\<lparr>c_rng := r\<rparr>\<rparr>)"
  have "flush_group E X u g w = (Inr (), ?t)"
    using put(1) ms by (simp add: flush_group_def bnd_client plaintext_archived [OF uk assms(8)])
  moreover have "vault_entry (server_db ch' ?t) a n = vault_entry (server_db ch' w) a n" if "n \<noteq> HISTORY_PREFIX @ g" for ch' a n
    using put(3) that by (cases "ch' = ch") simp_all
  ultimately show ?thesis
    using put(2,3) by (intro exI [of _ ?t]) (auto simp: uploads_frame_def mirrored_def)
qed

lemma flush_groups:
  assumes P: "aead_exact (cx_prims X)" "prims_work (cx_prims X)" "digest_len (cx_prims X)"
    and "session_token E X token meta acct"
  shows "keyed X k m (w_client w) \<Longrightarrow> creds_for_user u (w_sessions w) = Some (ch, token) \<Longrightarrow> online ch w \<Longrightarrow>
    distinct gs \<Longrightarrow> \<forall>g\<in>set gs. archived u g (rs g) (w_client w) \<and> length g + 5 \<le> MAX_NAME_LEN \<and>
      List.map_filter (message_of X k) (rs g) \<noteq> [] \<Longrightarrow>
    \<exists>t. for_each (flush_group E X u) gs w = (Inr (), t) \<and> uploads_frame ((@) HISTORY_PREFIX ` set gs) w t \<and>
      (\<forall>g\<in>set gs. mirrored X m ch acct g (List.map_filter (message_of X k) (rs g)) t)"
proof (induction gs arbitrary: w)
  case Nil
  then show ?case by (simp add: ret_def uploads_frame_refl)
next
  case (Cons g gs)
  obtain t where t: "flush_group E X u g w = (Inr (), t)" "uploads_frame {HISTORY_PREFIX @ g} w t"
    "mirrored X m ch acct g (List.map_filter (message_of X k) (rs g)) t"
    using flush_group_run [OF Cons.prems(1) P Cons.prems(2) assms(4) Cons.prems(3), of g "rs g"] Cons.prems(5) by auto
  obtain v where v: "for_each (flush_group E X u) gs t = (Inr (), v)" "uploads_frame ((@) HISTORY_PREFIX ` set gs) t v"
    "\<forall>g\<in>set gs. mirrored X m ch acct g (List.map_filter (message_of X k) (rs g)) v"
    using Cons.IH [of t] Cons.prems uploads_frame_keeps(1-4) [OF t(2)] by force
  have "mirrored X m ch acct g (List.map_filter (message_of X k) (rs g)) v"
    using t(3) Cons.prems(4) by (subst uploads_frame_keeps(6) [OF v(2)]) auto
  then show ?case using t v uploads_frame_trans [OF t(2) v(2)] by (auto simp: bnd_def)
qed

section \<open>Restoring on another installation\<close>

text \<open>
  The restoring client: unlocked, its disk works; what a step of the restore may change of the
  client and of the servers.
\<close>

definition ready :: "bytes \<Rightarrow> client \<Rightarrow> bool" where
  "ready k c \<longleftrightarrow> unlocked k c \<and> (\<forall>p. c_fault c p = None)"

definition restore_frame :: "string \<Rightarrow> string set \<Rightarrow> world \<Rightarrow> world \<Rightarrow> bool" where
  "restore_frame u G w t \<longleftrightarrow> c_dek (w_client t) = c_dek (w_client w) \<and> c_fault (w_client t) = c_fault (w_client w) \<and>
     c_settings (w_client t) = c_settings (w_client w) \<and> w_down t = w_down w \<and>
     (\<forall>ch. vault_entry (server_db ch t) = vault_entry (server_db ch w)) \<and>
     (\<forall>p. (\<forall>g\<in>G. p \<noteq> dmlog u g) \<longrightarrow> map_of (c_files (w_client t)) p = map_of (c_files (w_client w)) p)"

lemma restore_frame_refl: "restore_frame u G w w"
  by (simp add: restore_frame_def)

lemma restore_frame_trans: "restore_frame u G w t \<Longrightarrow> restore_frame u H t v \<Longrightarrow> restore_frame u (G \<union> H) w v"
  by (auto simp: restore_frame_def)

lemma restore_frame_keeps:
  assumes "restore_frame u G w t"
  shows "ready k (w_client t) = ready k (w_client w)" "online ch t = online ch w"
    "is_encrypt_at_rest (w_client t) = is_encrypt_at_rest (w_client w)"
    "mirrored X m ch acct g ms t = mirrored X m ch acct g ms w"
  using assms by (auto simp: restore_frame_def ready_def unlocked_def online_def is_encrypt_at_rest_def mirrored_def)

lemma encode_lines_client:
  assumes "ready k c"
  shows "\<exists>r. snd (encode_lines X u lines buf c) = c\<lparr>c_rng := r\<rparr>"
  using assms
proof (induction lines arbitrary: buf c)
  case Nil
  then show ?case by (auto simp: ret_def intro!: exI [of _ "c_rng c"])
next
  case (Cons l lines)
  have uk: "unlocked k c" using Cons.prems by (simp add: ready_def)
  have self: "\<exists>r. c = c\<lparr>c_rng := r\<rparr>" by (rule exI [of _ "c_rng c"]) simp
  have e: "\<exists>r. snd (encode X u msg c) = c\<lparr>c_rng := r\<rparr>" for msg
    using self seal_bytes_snd [OF uk, of X]
    by (auto simp: encode_def bnd_of_res bnd_gets bnd_def ret_def of_res_def gets_def split: sum.splits prod.splits if_splits)
      (metis snd_conv)+
  show ?case
  proof (cases "l = [] \<or> msg_from_json X l = None")
    case True
    then show ?thesis using Cons by auto
  next
    case False
    then obtain msg where m: "msg_from_json X l = Some msg" by auto
    obtain x r where x: "encode X u msg c = (x, c\<lparr>c_rng := r\<rparr>)" using e [of msg] by (metis prod.collapse)
    have "ready k (c\<lparr>c_rng := r\<rparr>)" using Cons.prems by (simp add: ready_def)
    then show ?thesis using Cons.IH [of "c\<lparr>c_rng := r\<rparr>"] False m x by (cases x) (auto simp: bnd_def)
  qed
qed

lemma write_client:
  assumes "ready k c"
  shows "\<exists>r bs. write_from_jsonl X u g j c = (Inr () :: string + unit, c\<lparr>c_rng := r\<rparr>) \<or>
    write_from_jsonl X u g j c = (Inr () :: string + unit, put_file (dmlog u g) bs (c\<lparr>c_rng := r\<rparr>))"
proof -
  obtain x r where x: "encode_lines X u (split_nl j) [] c = (x, c\<lparr>c_rng := r\<rparr>)"
    using encode_lines_client [OF assms] by (metis prod.collapse)
  have "group_path u g (c\<lparr>c_rng := r\<rparr>) = (Inr (dmlog u g), c\<lparr>c_rng := r\<rparr>)"
    using assms by (intro group_path_ok) (simp add: no_faults_def ready_def)
  then show ?thesis
    using x assms by (cases x) (auto simp: write_from_jsonl_def or_else_def bnd_def write_file_def ready_def)
qed

lemma get_blob_eq:
  "user_of E meta d = Some u \<Longrightarrow> get_blob E meta name d =
     (case vault_entry d u name of None \<Rightarrow> Inl (NotFound ''vault blob'') | Some b \<Rightarrow> Inr b, tick d)"
  by (auto simp: get_blob_def caller_eq sq_get_vault_blob_def vault_entry_def act_defs split: option.splits)

lemma get_sealed_run:
  assumes "session_token E X token meta acct" "online ch w"
  shows "get_sealed E X ch token m name w =
    (Inr (case vault_entry (server_db ch w) acct name of None \<Rightarrow> None
       | Some blob \<Rightarrow> (case open_blob (cx_prims X) (archive_key X m name) blob of Inl e \<Rightarrow> None | Inr p \<Rightarrow> Some p)),
     called ch (tick (server_db ch w)) w)"
proof -
  have a: "authed X token = Inr meta" and u: "\<And>d. user_of E meta d = Some acct" using assms(1) by (auto simp: session_token_def)
  show ?thesis
    by (simp add: get_sealed_def or_else_def a of_res_def bnd_def map_err_def archive_key_def ret_def
        remote_online [where m = "get_blob E meta name", OF assms(2) get_blob_eq [OF u]] split: option.splits)
qed

lemma strip_hist: "strip_prefix HISTORY_PREFIX name = Some g \<longleftrightarrow> name = HISTORY_PREFIX @ g"
  by (simp add: strip_prefix_def) (metis append_eq_conv_conj)

lemma present_run:
  assumes "ready k (w_client w)"
  shows "or_else False (on_client (bnd (group_path u g) (\<lambda>p. gets (path_exists p)))) w =
    (Inr (path_exists (dmlog u g) (w_client w)), w)"
  using assms group_path_ok [of u g "w_client w"]
  by (simp add: or_else_def on_client_def zoom_def bnd_def gets_def no_faults_def ready_def)

lemma called_frame: "restore_frame u G w (called ch (tick (server_db ch w)) w)"
proof -
  have "vault_entry (server_db ch' (called ch (tick (server_db ch w)) w)) = vault_entry (server_db ch' w)" for ch'
    by (cases "ch' = ch") simp_all
  then show ?thesis by (simp add: restore_frame_def)
qed

lemma restore_one_run:
  assumes "session_token E X token meta acct" "online ch w" "ready k (w_client w)"
  shows "restore_one E X ch token m u (HISTORY_PREFIX @ g) w =
    (if path_exists (dmlog u g) (w_client w) then (Inr (), w)
     else case vault_entry (server_db ch w) acct (HISTORY_PREFIX @ g) of
       None \<Rightarrow> (Inr (), called ch (tick (server_db ch w)) w)
     | Some blob \<Rightarrow> (case open_blob (cx_prims X) (archive_key X m (HISTORY_PREFIX @ g)) blob of
         Inl e \<Rightarrow> (Inr (), called ch (tick (server_db ch w)) w)
       | Inr j \<Rightarrow> on_client (write_from_jsonl X u g j) (called ch (tick (server_db ch w)) w)))"
proof -
  have "strip_prefix HISTORY_PREFIX (HISTORY_PREFIX @ g) = Some g" by (simp add: strip_hist)
  then show ?thesis
    by (simp add: restore_one_def bnd_def [of "or_else d n" for d n] present_run [OF assms(3)]
        bnd_def [of "get_sealed E X ch token m n" for n] get_sealed_run [OF assms(1,2)]
        ret_def split: option.splits sum.splits)
qed

lemma restore_one_frame:
  assumes "session_token E X token meta acct" "online ch w" "ready k (w_client w)"
  shows "\<exists>t. restore_one E X ch token m u name w = (Inr (), t) \<and>
    restore_frame u {g. name = HISTORY_PREFIX @ g \<and> \<not> path_exists (dmlog u g) (w_client w)} w t"
proof (cases "strip_prefix HISTORY_PREFIX name")
  case None
  then show ?thesis by (simp add: restore_one_def ret_def restore_frame_refl)
next
  case (Some g)
  then have n: "name = HISTORY_PREFIX @ g" by (simp add: strip_hist)
  let ?w = "called ch (tick (server_db ch w)) w"
  let ?G = "{g'. name = HISTORY_PREFIX @ g' \<and> \<not> path_exists (dmlog u g') (w_client w)}"
  have wr: "\<exists>t. (on_client (write_from_jsonl X u g j) ?w :: (string + unit) \<times> world) = (Inr (), t) \<and> restore_frame u ?G w t"
    if "\<not> path_exists (dmlog u g) (w_client w)" for j
  proof -
    have "g \<in> ?G" using n that by simp
    then have "restore_frame u ?G w (?w\<lparr>w_client := (w_client w)\<lparr>c_rng := r\<rparr>\<rparr>)"
      "restore_frame u ?G w (?w\<lparr>w_client := put_file (dmlog u g) bs ((w_client w)\<lparr>c_rng := r\<rparr>)\<rparr>)" for r bs
      using called_frame [of u ?G w ch] by (auto simp: restore_frame_def put_file_def update_conv')
    then show ?thesis using write_client [OF assms(3), of X u g j] by (auto simp: on_client_def zoom_def)
  qed
  show ?thesis
    using restore_one_run [OF assms, of m u g, folded n] wr called_frame [of u ?G w ch]
    by (auto simp: restore_frame_refl split: option.splits sum.splits if_splits)
qed

lemma restore_one_hit:
  assumes "session_token E X token meta acct" "online ch w" "ready k (w_client w)"
    and P: "aead_exact (cx_prims X)" "json_law X"
    and ms: "mirrored X m ch acct g ms w" "\<forall>x\<in>set ms. archivable X k x" "\<not> path_exists (dmlog u g) (w_client w)"
    and t: "restore_one E X ch token m u (HISTORY_PREFIX @ g) w = (Inr (), t)"
  shows "\<exists>rs. list_all2 (good_record X k u (is_encrypt_at_rest (w_client w))) ms rs \<and> archived u g rs (w_client t) \<and>
    path_exists (dmlog u g) (w_client t)"
proof -
  let ?w = "called ch (tick (server_db ch w)) w"
  let ?j = "concat (map (jsonl_line X) ms)"
  have uk: "unlocked k (w_client w)" "no_faults u g (w_client w)" using assms(3) by (auto simp: ready_def no_faults_def)
  obtain blob where "vault_entry (server_db ch w) acct (HISTORY_PREFIX @ g) = Some blob"
    "open_blob (cx_prims X) (archive_key X m (HISTORY_PREFIX @ g)) blob = Inr ?j"
    using ms(1) P(1) by (auto simp: mirrored_def open_sealed)
  then have one: "restore_one E X ch token m u (HISTORY_PREFIX @ g) w = on_client (write_from_jsonl X u g ?j) ?w"
    using restore_one_run [OF assms(1-3), of m u g] ms(3) by simp
  obtain rs r where rs: "list_all2 (good_record X k u (is_encrypt_at_rest (w_client w))) ms rs"
    and e: "encode_lines X u (split_nl ?j) [] (w_client w) = (Inr ([] @ framed rs), (w_client w)\<lparr>c_rng := r\<rparr>)"
    using encode_lines_good [OF P ms(2) uk(1)] by blast
  have "w_client t = put_file (dmlog u g) (framed rs) ((w_client w)\<lparr>c_rng := r\<rparr>)"
    using t one e group_path_ok [of u g "(w_client w)\<lparr>c_rng := r\<rparr>"] uk(2)
    by (auto simp: on_client_ok write_from_jsonl_def or_else_def bnd_def write_file_def no_faults_def)
  then show ?thesis
    using rs short_good [OF rs] uk by (auto simp: archived_def path_exists_def put_file_def update_conv' file_or_empty_def no_faults_def)
qed

lemma restore_frame_mono: "restore_frame u G w t \<Longrightarrow> G \<subseteq> H \<Longrightarrow> restore_frame u H w t"
  unfolding restore_frame_def by (meson subsetD)

lemma restore_frame_file:
  assumes "restore_frame u G w t" "g \<notin> G"
  shows "path_exists (dmlog u g) (w_client t) = path_exists (dmlog u g) (w_client w)"
    "archived u g rs (w_client t) = archived u g rs (w_client w)"
proof -
  have "\<forall>h\<in>G. dmlog u g \<noteq> dmlog u h" using assms(2) by auto
  then have "map_of (c_files (w_client t)) (dmlog u g) = map_of (c_files (w_client w)) (dmlog u g)"
    "c_fault (w_client t) = c_fault (w_client w)"
    using assms(1) unfolding restore_frame_def by blast+
  then show "path_exists (dmlog u g) (w_client t) = path_exists (dmlog u g) (w_client w)"
    "archived u g rs (w_client t) = archived u g rs (w_client w)"
    by (simp_all add: path_exists_def archived_def no_faults_def file_or_empty_def)
qed

definition missing :: "string \<Rightarrow> string list \<Rightarrow> world \<Rightarrow> string set" where
  "missing u names w = {g. HISTORY_PREFIX @ g \<in> set names \<and> \<not> path_exists (dmlog u g) (w_client w)}"

lemma restore_loop_frame:
  assumes "session_token E X token meta acct" "online ch w" "ready k (w_client w)"
  shows "\<exists>t. for_each (restore_one E X ch token m u) names w = (Inr (), t) \<and> restore_frame u (missing u names w) w t"
  using assms(2,3)
proof (induction names arbitrary: w)
  case Nil
  then show ?case by (simp add: ret_def restore_frame_refl)
next
  case (Cons n names)
  let ?G = "{g. n = HISTORY_PREFIX @ g \<and> \<not> path_exists (dmlog u g) (w_client w)}"
  obtain t where t: "restore_one E X ch token m u n w = (Inr (), t)" "restore_frame u ?G w t"
    using restore_one_frame [OF assms(1) Cons.prems] by blast
  obtain v where v: "for_each (restore_one E X ch token m u) names t = (Inr (), v)" "restore_frame u (missing u names t) t v"
    using Cons.IH [of t] Cons.prems restore_frame_keeps(1,2) [OF t(2)] by blast
  have "missing u names t \<subseteq> missing u (n # names) w"
    using restore_frame_file(1) [OF t(2)] by (auto simp: missing_def)
  moreover have "?G \<subseteq> missing u (n # names) w" by (auto simp: missing_def)
  ultimately have "restore_frame u (missing u (n # names) w) w v"
    using restore_frame_mono [OF restore_frame_trans [OF t(2) v(2)]] by auto
  then show ?case using t(1) v(1) by (auto simp: bnd_def)
qed

lemma for_each_append: "for_each f (xs @ ys) = bnd (for_each f xs) (\<lambda>_. for_each f ys)"
proof (induction xs)
  case Nil
  show ?case by (simp add: fun_eq_iff bnd_ret)
qed (simp add: bnd_assoc)

lemma restore_loop_hit:
  assumes "session_token E X token meta acct" "online ch w" "ready k (w_client w)"
    and P: "aead_exact (cx_prims X)" "json_law X"
    and ms: "mirrored X m ch acct g ms w" "\<forall>x\<in>set ms. archivable X k x" "\<not> path_exists (dmlog u g) (w_client w)"
    and n: "HISTORY_PREFIX @ g \<in> set names"
    and t: "for_each (restore_one E X ch token m u) names w = (Inr (), t)"
  shows "\<exists>rs. list_all2 (good_record X k u (is_encrypt_at_rest (w_client w))) ms rs \<and> archived u g rs (w_client t)"
    and "ready k (w_client t)"
proof -
  obtain pre post where names: "names = pre @ (HISTORY_PREFIX @ g) # post" "HISTORY_PREFIX @ g \<notin> set pre"
    using n split_list_first by metis
  obtain w1 where w1: "for_each (restore_one E X ch token m u) pre w = (Inr (), w1)" "restore_frame u (missing u pre w) w w1"
    using restore_loop_frame [OF assms(1-3)] by blast
  have g: "g \<notin> missing u pre w" using names(2) by (simp add: missing_def)
  note k1 = restore_frame_keeps [OF w1(2)] restore_frame_file(1) [OF w1(2) g]
  obtain w2 where w2: "restore_one E X ch token m u (HISTORY_PREFIX @ g) w1 = (Inr (), w2)"
    "restore_frame u {g'. HISTORY_PREFIX @ g = HISTORY_PREFIX @ g' \<and> \<not> path_exists (dmlog u g') (w_client w1)} w1 w2"
    using restore_one_frame [OF assms(1), of ch w1 k m u] assms(2,3) k1 by blast
  obtain rs where rs: "list_all2 (good_record X k u (is_encrypt_at_rest (w_client w))) ms rs"
    "archived u g rs (w_client w2)" "path_exists (dmlog u g) (w_client w2)"
    using restore_one_hit [OF assms(1) _ _ P _ ms(2) _ w2(1)] assms(2,3) ms k1 by metis
  obtain w3 where w3: "for_each (restore_one E X ch token m u) post w2 = (Inr (), w3)" "restore_frame u (missing u post w2) w2 w3"
    using restore_loop_frame [OF assms(1), of ch w2 k m u] assms(2,3) k1 restore_frame_keeps [OF w2(2)] by blast
  have "g \<notin> missing u post w2" using rs(3) by (simp add: missing_def)
  moreover have "w3 = t" using t w1(1) w2(1) w3(1) by (simp add: names(1) for_each_append bnd_def)
  ultimately show "\<exists>rs. list_all2 (good_record X k u (is_encrypt_at_rest (w_client w))) ms rs \<and> archived u g rs (w_client t)"
    using rs restore_frame_file(2) [OF w3(2)] by blast
  show "ready k (w_client t)"
    using assms(3) k1 restore_frame_keeps(1) [OF w2(2)] restore_frame_keeps(1) [OF w3(2)] \<open>w3 = t\<close> by simp
qed

lemma list_names_run:
  assumes "session_token E X token meta acct" "online ch w"
  obtains names where "list_names E X ch token HISTORY_PREFIX w = (Inr names, called ch (tick (server_db ch w)) w)"
    "\<And>g. vault_entry (server_db ch w) acct (HISTORY_PREFIX @ g) \<noteq> None \<Longrightarrow> HISTORY_PREFIX @ g \<in> set names"
proof -
  let ?d = "server_db ch w"
  have a: "authed X token = Inr meta" and u: "user_of E meta ?d = Some acct" using assms(1) by (auto simp: session_token_def)
  define names where "names = map vb_name (sort_key vb_name (filter (\<lambda>r. vb_user r = acct \<and>
       length HISTORY_PREFIX \<le> length (vb_name r) \<and>
       map lower_char (take (length HISTORY_PREFIX) (vb_name r)) = map lower_char HISTORY_PREFIX) (db_vault ?d)))"
  have "list_blobs E meta HISTORY_PREFIX ?d = (Inr names, tick ?d)"
    by (simp add: names_def list_blobs_def bnd_caller [OF u] sq_list_vault_blobs_def gets_def vault_pattern_def
        like_prefix HISTORY_PREFIX_def)
  then have "list_names E X ch token HISTORY_PREFIX w = (Inr names, called ch (tick ?d) w)"
    by (simp add: list_names_def or_else_def bnd_of_res a map_err_def
        remote_online [where m = "list_blobs E meta HISTORY_PREFIX", OF assms(2)])
  moreover have "HISTORY_PREFIX @ g \<in> set names" if "vault_entry ?d acct (HISTORY_PREFIX @ g) \<noteq> None" for g
  proof -
    note v = that
    obtain x where "List.find (\<lambda>r. vb_user r = acct \<and> vb_name r = HISTORY_PREFIX @ g) (db_vault ?d) = Some x"
      using v by (auto simp: vault_entry_def)
    then obtain r where "r \<in> set (db_vault ?d)" "vb_user r = acct" "vb_name r = HISTORY_PREFIX @ g"
      by (metis (mono_tags, lifting) find_Some_iff nth_mem)
    then show ?thesis by (auto simp: names_def image_iff intro!: bexI [of _ r])
  qed
  ultimately show thesis using that by blast
qed

lemma restore_all_hit:
  assumes "session_token E X token meta acct" "online ch w" "ready k (w_client w)"
    and P: "aead_exact (cx_prims X)" "json_law X"
    and ms: "\<And>g. g \<in> G \<Longrightarrow> mirrored X m ch acct g (ms g) w" "\<And>g. g \<in> G \<Longrightarrow> \<forall>x\<in>set (ms g). archivable X k x"
      "\<And>g. g \<in> G \<Longrightarrow> \<not> path_exists (dmlog u g) (w_client w)"
  shows "\<exists>t. restore_all E X ch token m u w = (Inr (), t) \<and> (\<forall>g\<in>G. load X u g (w_client t) = (Inr (ms g) :: string + _, w_client t))"
proof -
  let ?w = "called ch (tick (server_db ch w)) w"
  obtain names where l: "list_names E X ch token HISTORY_PREFIX w = (Inr names, ?w)"
    "\<And>g. vault_entry (server_db ch w) acct (HISTORY_PREFIX @ g) \<noteq> None \<Longrightarrow> HISTORY_PREFIX @ g \<in> set names"
    using list_names_run [OF assms(1,2)] by blast
  have w: "online ch ?w" "ready k (w_client ?w)" using assms(2,3) by simp_all
  obtain t where t: "for_each (restore_one E X ch token m u) names ?w = (Inr (), t)"
    using restore_loop_frame [OF assms(1) w] by blast
  have "load X u g (w_client t) = (Inr (ms g) :: string + _, w_client t)" if g: "g \<in> G" for g
  proof -
    have m: "mirrored X m ch acct g (ms g) ?w" using ms(1) [OF g] by (simp add: mirrored_def)
    have n: "HISTORY_PREFIX @ g \<in> set names" using l(2) ms(1) [OF g] by (auto simp: mirrored_def)
    have p: "\<not> path_exists (dmlog u g) (w_client ?w)" using ms(3) [OF g] by simp
    obtain rs where rs: "list_all2 (good_record X k u (is_encrypt_at_rest (w_client ?w))) (ms g) rs" "archived u g rs (w_client t)"
      using restore_loop_hit(1) [OF assms(1) w P m ms(2) [OF g] p n t] by blast
    have "unlocked k (w_client t)"
      using restore_loop_hit(2) [OF assms(1) w P m ms(2) [OF g] p n t] by (simp add: ready_def)
    then show ?thesis using rs(2) good_messages [OF rs(1)] by (simp add: archived_load)
  qed
  moreover have "restore_all E X ch token m u w = (Inr (), t)"
    using l(1) t by (simp add: restore_all_def bnd_def)
  ultimately show ?thesis by blast
qed

section \<open>A concrete archive\<close>

definition demo_records :: "(byte \<times> bytes) list" where
  "demo_records = [(1, replicate 24 5 @ demo_key @ replicate 24 5 @ [1]), (0, [2])]"

definition demo_archive_world :: world where
  "demo_archive_world = demo_world\<lparr>w_client := (put_file (dmlog ''me'' ''g'') (framed demo_records) demo_keyed_client)
     \<lparr>c_sync := \<lparr>sy_mls = [(''me'', [3])], sy_groups = [(''me'', [''g''])], sy_started = True\<rparr>\<rparr>\<rparr>"

lemma demo_archive_facts:
  "digest_len (cx_prims demo_cext)" "online 0 demo_archive_world" "keyed demo_cext demo_key demo_master (w_client demo_archive_world)"
  "creds_for_user ''me'' (w_sessions demo_archive_world) = Some (0, demo_token)"
  "sy_groups (c_sync (w_client demo_archive_world)) = [(''me'', [''g''])]"
  "archived ''me'' ''g'' demo_records (w_client demo_archive_world)"
  "List.map_filter (message_of demo_cext demo_key) demo_records = [demo_received, demo_sent]"
  "ready demo_key demo_client" "\<not> path_exists (dmlog ''me'' ''g'') demo_client"
proof -
  have "open_blob (cx_prims demo_cext) demo_key (replicate 24 5 @ demo_key @ replicate 24 5 @ [1]) = Inr [1]"
    using open_sealed [OF demo_client_facts(1)] demo_sealed by blast
  then show "List.map_filter (message_of demo_cext demo_key) demo_records = [demo_received, demo_sent]"
    by (simp add: demo_records_def map_filter_def message_of_def) (simp add: demo_cext_def)
  show "keyed demo_cext demo_key demo_master (w_client demo_archive_world)"
    using demo_sealed [of "secret_bytes demo_master"] demo_client_facts(3)
    by (auto simp: keyed_def demo_archive_world_def demo_keyed_client_def put_file_def key_disk_ok_def demo_client_def
        unlocked_def demo_master_def secret_bytes_def)
qed (simp_all add: digest_len_def demo_cext_def demo_prims_def pad32_def WRAPPING_KEY_LEN_def online_def demo_archive_world_def
    demo_world_def creds_for_user_def demo_session_def session_default_def both_def archived_def no_faults_def
    demo_keyed_client_def put_file_def demo_client_def file_or_empty_def short_records_def demo_records_def demo_key_def
    ready_def unlocked_def path_exists_def, (auto simp: min_def)?)

section \<open>Properties\<close>



end
