(* ===== verification/Voice_Audio.thy ===== *)
theory Voice_Audio
  imports Accord_Prelude
begin

text \<open>
  \<open>crates/accord-client/src-tauri/src/voice_engine/audio.rs\<close>: device choice, the resampler, the
  microphone's frame buffer and the mixer behind the speakers.

  Samples are real numbers: \<open>f32\<close> and \<open>f64\<close> rounding is not modelled, and sample rates are positive.
  The host's devices (cpal) are data: what it lists, what a device supports, and whether a stream
  can be built and started.  Each mutex-guarded buffer is a field of a record and every callback
  one transition.
\<close>

definition SAMPLE_RATE :: nat where "SAMPLE_RATE = 48000"
definition FRAME_SAMPLES :: nat where "FRAME_SAMPLES = (SAMPLE_RATE div 1000) * 20"
definition MAX_BUFFER :: nat where "MAX_BUFFER = SAMPLE_RATE"

section \<open>Devices\<close>

record audio_device =
  ad_id :: string
  ad_name :: string
  ad_is_default :: bool

record audio_devices =
  inputs :: "audio_device list"
  outputs :: "audio_device list"

datatype sample_format = F32 | I16 | Other_Format string

record config_range =
  cr_format :: sample_format
  cr_min :: nat
  cr_max :: nat
  cr_channels :: nat

record stream_config =
  sc_format :: sample_format
  sc_rate :: nat
  sc_channels :: nat

record device =
  dv_id :: "string option"
  dv_description :: "string option"
  dv_supports_input :: bool
  dv_supports_output :: bool
  dv_input_configs :: "string + config_range list"
  dv_output_configs :: "string + config_range list"
  dv_default_input :: "string + stream_config"
  dv_default_output :: "string + stream_config"
  dv_build_error :: "string option"
  dv_play_error :: "string option"

record host =
  ho_default_input :: "device option"
  ho_default_output :: "device option"
  ho_devices :: "device list option"

definition device_entry :: "device \<Rightarrow> string option \<Rightarrow> audio_device option" where
  "device_entry d default_id = (case dv_id d of None \<Rightarrow> None
     | Some i \<Rightarrow> Some \<lparr>ad_id = i, ad_name = (case dv_description d of None \<Rightarrow> i | Some n \<Rightarrow> n),
         ad_is_default = (default_id = Some i)\<rparr>)"

definition list_devices :: "host \<Rightarrow> audio_devices" where
  "list_devices h =
     (let default_in = Option.bind (ho_default_input h) dv_id;
          default_out = Option.bind (ho_default_output h) dv_id
      in case ho_devices h of None \<Rightarrow> \<lparr>inputs = [], outputs = []\<rparr>
       | Some all \<Rightarrow>
          \<lparr>inputs = List.map_filter (\<lambda>d. device_entry d default_in) (filter dv_supports_input all),
           outputs = List.map_filter (\<lambda>d. device_entry d default_out) (filter dv_supports_output all)\<rparr>)"

text \<open>\<open>parse\<close> is \<open>DeviceId::from_str\<close>; \<open>device_by_id\<close> finds a listed device.\<close>

definition device_by_id :: "host \<Rightarrow> string \<Rightarrow> device option" where
  "device_by_id h i = (case ho_devices h of None \<Rightarrow> None | Some all \<Rightarrow> List.find (\<lambda>d. dv_id d = Some i) all)"

definition pick_device :: "(string \<Rightarrow> string option) \<Rightarrow> host \<Rightarrow> string option \<Rightarrow> bool \<Rightarrow> device option" where
  "pick_device parse h saved input =
     (let fallback = (if input then ho_default_input h else ho_default_output h)
      in case saved of None \<Rightarrow> fallback
       | Some want \<Rightarrow>
          if want = [] then fallback
          else (case Option.bind (parse want) (device_by_id h) of Some d \<Rightarrow> Some d | None \<Rightarrow> fallback))"

definition with_rate :: "nat \<Rightarrow> config_range \<Rightarrow> stream_config" where
  "with_rate rate r = \<lparr>sc_format = cr_format r, sc_rate = rate, sc_channels = cr_channels r\<rparr>"

definition find_format :: "sample_format \<Rightarrow> config_range list \<Rightarrow> stream_config option" where
  "find_format format ranges = map_option (with_rate SAMPLE_RATE)
     (List.find (\<lambda>r. cr_min r \<le> SAMPLE_RATE \<and> SAMPLE_RATE \<le> cr_max r)
       (filter (\<lambda>r. cr_format r = format) ranges))"

definition pick_config :: "device \<Rightarrow> bool \<Rightarrow> string + stream_config" where
  "pick_config d input =
     (case (if input then dv_input_configs d else dv_output_configs d) of
        Inl e \<Rightarrow> Inl ((if input then ''no input configs: '' else ''no output configs: '') @ e)
      | Inr ranges \<Rightarrow>
         (case find_format F32 ranges of Some c \<Rightarrow> Inr c
          | None \<Rightarrow>
         (case find_format I16 ranges of Some c \<Rightarrow> Inr c
          | None \<Rightarrow>
         (case (if input then dv_default_input d else dv_default_output d) of
            Inl e \<Rightarrow> Inl (''no usable audio config: '' @ e) | Inr c \<Rightarrow> Inr c))))"

section \<open>Signal processing\<close>

definition nth_or :: "'a \<Rightarrow> 'a list \<Rightarrow> nat \<Rightarrow> 'a" where
  "nth_or d xs i = (if i < length xs then xs ! i else d)"

definition resample_len :: "nat \<Rightarrow> nat \<Rightarrow> nat \<Rightarrow> nat" where
  "resample_len n from to = nat \<lfloor>real n * (real to / real from) + 1 / 2\<rfloor>"

definition resample_at :: "real list \<Rightarrow> nat \<Rightarrow> nat \<Rightarrow> nat \<Rightarrow> real" where
  "resample_at input from to i =
     (let src = real i / (real to / real from);
          idx = nat \<lfloor>src\<rfloor>;
          frac = src - real_of_int \<lfloor>src\<rfloor>;
          a = nth_or 0 input idx;
          b = nth_or a input (idx + 1)
      in a + (b - a) * frac)"

definition resample :: "real list \<Rightarrow> nat \<Rightarrow> nat \<Rightarrow> real list" where
  "resample input from to =
     (if from = to \<or> input = [] then input
      else map (resample_at input from to) [0 ..< resample_len (length input) from to])"

definition clamp :: "real \<Rightarrow> real \<Rightarrow> real \<Rightarrow> real" where
  "clamp lo hi v = (if v < lo then lo else if hi < v then hi else v)"

definition level_set :: "real \<Rightarrow> nat" where
  "level_set v = nat \<lfloor>clamp 0 1 v * 1000\<rfloor>"

definition level_get :: "nat \<Rightarrow> real" where
  "level_get n = real n / 1000"

definition rms :: "real list \<Rightarrow> real" where
  "rms samples = (if samples = [] then 0
     else min (sqrt (sum_list (map (\<lambda>s. s * s) samples) / real (length samples)) * (28 / 10)) 1)"

section \<open>Microphone\<close>

record mic =
  pending :: "real list"
  mic_level :: nat
  muted :: bool
  mic_gain :: real

text \<open>Dropping the oldest audio of a buffer that grew past its cap.\<close>

definition trim_buffer :: "real list \<Rightarrow> real list" where
  "trim_buffer buf = (if length buf > MAX_BUFFER then drop (length buf - FRAME_SAMPLES * 2) buf else buf)"

definition ingest :: "nat \<Rightarrow> real list \<Rightarrow> mic \<Rightarrow> mic" where
  "ingest rate samples m =
     (let gained = map (\<lambda>s. s * mic_gain m) samples;
          m = m\<lparr>mic_level := level_set (rms gained)\<rparr>
      in if muted m then m
         else m\<lparr>pending := trim_buffer (pending m @ resample gained rate SAMPLE_RATE)\<rparr>)"

function chunks :: "nat \<Rightarrow> 'a list \<Rightarrow> 'a list list" where
  "chunks n xs = (if n = 0 \<or> xs = [] then [] else take n xs # chunks n (drop n xs))"
  by pat_completeness auto
termination by (relation "measure (length \<circ> snd)") auto

declare chunks.simps [simp del]

definition mic_callback_f32 :: "stream_config \<Rightarrow> real list \<Rightarrow> mic \<Rightarrow> mic" where
  "mic_callback_f32 c data =
     ingest (sc_rate c) (map (\<lambda>f. sum_list f / real (length f)) (chunks (sc_channels c) data))"

definition mic_callback_i16 :: "stream_config \<Rightarrow> int list \<Rightarrow> mic \<Rightarrow> mic" where
  "mic_callback_i16 c data =
     ingest (sc_rate c) (map (\<lambda>f. sum_list (map (\<lambda>s. real_of_int s / 32768) f) / real (length f))
       (chunks (sc_channels c) data))"

definition open_stream :: "device \<Rightarrow> stream_config \<Rightarrow> string \<Rightarrow> string \<Rightarrow> string + stream_config" where
  "open_stream d c what who =
     (case sc_format c of
        Other_Format f \<Rightarrow> Inl (''unsupported '' @ what @ '' sample format: '' @ f)
      | _ \<Rightarrow> (case dv_build_error d of Some e \<Rightarrow> Inl (''could not open '' @ who @ '': '' @ e)
          | None \<Rightarrow> (case dv_play_error d of Some e \<Rightarrow> Inl (''could not start '' @ who @ '': '' @ e)
              | None \<Rightarrow> Inr c)))"

definition mic_start ::
  "(string \<Rightarrow> string option) \<Rightarrow> host \<Rightarrow> string option \<Rightarrow> real \<Rightarrow> string + stream_config \<times> mic" where
  "mic_start parse h device_id gain =
     (case pick_device parse h device_id True of None \<Rightarrow> Inl ''no microphone available''
      | Some d \<Rightarrow> (case pick_config d True of Inl e \<Rightarrow> Inl e
      | Inr c \<Rightarrow> (case open_stream d c ''microphone'' ''microphone'' of Inl e \<Rightarrow> Inl e
      | Inr c \<Rightarrow> Inr (c, \<lparr>pending = [], mic_level = 0, muted = False, mic_gain = gain\<rparr>))))"

definition next_frame :: "mic \<Rightarrow> real list option \<times> mic" where
  "next_frame m = (if length (pending m) < FRAME_SAMPLES then (None, m)
     else (Some (take FRAME_SAMPLES (pending m)), m\<lparr>pending := drop FRAME_SAMPLES (pending m)\<rparr>))"

definition set_gain :: "real \<Rightarrow> mic \<Rightarrow> mic" where
  "set_gain g m = m\<lparr>mic_gain := g\<rparr>"

definition set_muted :: "bool \<Rightarrow> mic \<Rightarrow> mic" where
  "set_muted b m = m\<lparr>muted := b\<rparr>"

section \<open>Speakers\<close>

record playback =
  peers :: "(string \<times> real list) list"
  levels :: "(string \<times> real) list"
  deafened :: bool
  volume :: real

definition source_samples :: "nat \<Rightarrow> nat \<Rightarrow> nat" where
  "source_samples rate frames = (if rate = SAMPLE_RATE then frames
     else nat \<lceil>real frames * real SAMPLE_RATE / real rate\<rceil>)"

text \<open>The inner loop of the mixer: one peer's samples into the slots.\<close>

definition mix_in :: "bool \<Rightarrow> real list \<Rightarrow> real list \<Rightarrow> real list" where
  "mix_in silent mixed taken =
     map (\<lambda>i. if i < length taken \<and> \<not> silent then mixed ! i + taken ! i else mixed ! i) [0 ..< length mixed]"

definition fill :: "nat \<Rightarrow> nat \<Rightarrow> playback \<Rightarrow> real list \<times> playback" where
  "fill rate frames p =
     (let needed = source_samples rate frames;
          mixed = fold (\<lambda>(d, buf) mixed. mix_in (deafened p) mixed (take needed buf)) (peers p) (replicate needed 0)
      in (map (\<lambda>s. clamp (-1) 1 (s * volume p)) (resample mixed SAMPLE_RATE rate),
          p\<lparr>peers := map (\<lambda>(d, buf). (d, drop needed buf)) (peers p)\<rparr>))"

text \<open>The output callbacks: every channel of frame \<open>i\<close> gets the mixed sample \<open>i\<close>.\<close>

definition trunc :: "real \<Rightarrow> int" where
  "trunc x = (if 0 \<le> x then \<lfloor>x\<rfloor> else \<lceil>x\<rceil>)"

definition as_i16 :: "real \<Rightarrow> int" where
  "as_i16 x = max (- 32768) (min 32767 (trunc x))"

definition play_callback_f32 :: "stream_config \<Rightarrow> nat \<Rightarrow> playback \<Rightarrow> real list \<times> playback" where
  "play_callback_f32 c n p =
     (case fill (sc_rate c) (n div sc_channels c) p of (ready, p') \<Rightarrow>
       (map (\<lambda>j. nth_or 0 ready (j div sc_channels c)) [0 ..< n], p'))"

definition play_callback_i16 :: "stream_config \<Rightarrow> nat \<Rightarrow> playback \<Rightarrow> int list \<times> playback" where
  "play_callback_i16 c n p =
     (case fill (sc_rate c) (n div sc_channels c) p of (ready, p') \<Rightarrow>
       (map (\<lambda>j. as_i16 (nth_or 0 ready (j div sc_channels c) * 32767)) [0 ..< n], p'))"

definition playback_start ::
  "(string \<Rightarrow> string option) \<Rightarrow> host \<Rightarrow> string option \<Rightarrow> real \<Rightarrow> string + stream_config \<times> playback" where
  "playback_start parse h device_id vol =
     (case pick_device parse h device_id False of None \<Rightarrow> Inl ''no speakers available''
      | Some d \<Rightarrow> (case pick_config d False of Inl e \<Rightarrow> Inl e
      | Inr c \<Rightarrow> (case open_stream d c ''speaker'' ''speakers'' of Inl e \<Rightarrow> Inl e
      | Inr c \<Rightarrow> Inr (c, \<lparr>peers = [], levels = [], deafened = False, volume = vol\<rparr>))))"

definition push :: "string \<Rightarrow> real list \<Rightarrow> playback \<Rightarrow> playback" where
  "push device_id samples p =
     (let buf = (case map_of (peers p) device_id of None \<Rightarrow> [] | Some b \<Rightarrow> b)
      in p\<lparr>levels := AList.update device_id (rms samples) (levels p),
           peers := AList.update device_id (trim_buffer (buf @ samples)) (peers p)\<rparr>)"

definition remove_peer :: "string \<Rightarrow> playback \<Rightarrow> playback" where
  "remove_peer device_id p = p\<lparr>peers := AList.delete device_id (peers p), levels := AList.delete device_id (levels p)\<rparr>"

definition set_volume :: "real \<Rightarrow> playback \<Rightarrow> playback" where
  "set_volume v p = p\<lparr>volume := v\<rparr>"

definition set_deafened :: "bool \<Rightarrow> playback \<Rightarrow> playback" where
  "set_deafened b p = p\<lparr>deafened := b\<rparr>"

definition peer_levels :: "playback \<Rightarrow> (string \<times> real) list" where
  "peer_levels p = levels p"

section \<open>Facts on the resampler\<close>

lemma resample_index:
  assumes "0 < from" "0 < to" "i < resample_len n from to"
  shows "nat \<lfloor>real i / (real to / real from)\<rfloor> < n"
proof -
  let ?r = "real to / real from"
  have r: "0 < ?r" using assms by simp
  have "int i + 1 \<le> \<lfloor>real n * ?r + 1 / 2\<rfloor>"
    using assms(3) by (simp add: resample_len_def zless_nat_eq_int_zless)
  then have "real i + 1 \<le> real n * ?r + 1 / 2" by (simp add: le_floor_iff)
  then have "real i < real n * ?r" by simp
  then have "real i / ?r < real n" using r by (subst pos_divide_less_eq)
  then have "\<lfloor>real i / ?r\<rfloor> < int n" by (simp only: floor_less_iff of_int_of_nat_eq)
  then show ?thesis using assms(1,2) by (simp add: nat_less_iff)
qed

lemma convex_between:
  fixes a b f :: real
  assumes "lo \<le> a" "a \<le> hi" "lo \<le> b" "b \<le> hi" "0 \<le> f" "f \<le> 1"
  shows "lo \<le> a + (b - a) * f \<and> a + (b - a) * f \<le> hi"
proof -
  have e: "a + (b - a) * f = (1 - f) * a + f * b" by (simp add: algebra_simps)
  have "(1 - f) * lo + f * lo \<le> (1 - f) * a + f * b" "(1 - f) * a + f * b \<le> (1 - f) * hi + f * hi"
    using assms by (intro add_mono mult_left_mono; simp)+
  then show ?thesis by (simp add: e algebra_simps)
qed

lemma resample_at_between:
  assumes "0 < from" "0 < to" "i < resample_len (length xs) from to" "\<forall>x\<in>set xs. lo \<le> x \<and> x \<le> hi"
  shows "lo \<le> resample_at xs from to i \<and> resample_at xs from to i \<le> hi"
proof -
  let ?src = "real i / (real to / real from)"
  have idx: "nat \<lfloor>?src\<rfloor> < length xs" by (rule resample_index [OF assms(1-3)])
  then have a: "lo \<le> nth_or 0 xs (nat \<lfloor>?src\<rfloor>)" "nth_or 0 xs (nat \<lfloor>?src\<rfloor>) \<le> hi"
    using assms(4) by (simp_all add: nth_or_def)
  then have b: "lo \<le> nth_or (nth_or 0 xs (nat \<lfloor>?src\<rfloor>)) xs (nat \<lfloor>?src\<rfloor> + 1)"
    "nth_or (nth_or 0 xs (nat \<lfloor>?src\<rfloor>)) xs (nat \<lfloor>?src\<rfloor> + 1) \<le> hi"
    using assms(4) by (simp_all add: nth_or_def)
  have "0 \<le> ?src - real_of_int \<lfloor>?src\<rfloor>" "?src - real_of_int \<lfloor>?src\<rfloor> \<le> 1" by linarith+
  then show ?thesis unfolding resample_at_def Let_def by (intro convex_between a b)
qed

lemma resample_between:
  assumes "0 < from" "0 < to" "\<forall>x\<in>set xs. lo \<le> x \<and> x \<le> hi" "y \<in> set (resample xs from to)"
  shows "lo \<le> y \<and> y \<le> hi"
  using assms resample_at_between [OF assms(1,2) _ assms(3)] by (auto simp: resample_def split: if_splits)

lemma length_resample:
  "0 < from \<Longrightarrow> length (resample xs from to) = resample_len (length xs) from to"
  by (auto simp: resample_def resample_len_def nat_floor_neg floor_eq_iff)

section \<open>Buffers stay bounded\<close>

lemma frame_samples [simp]: "FRAME_SAMPLES = 960"
  by (simp add: FRAME_SAMPLES_def SAMPLE_RATE_def)

lemma trim_bounded: "length (trim_buffer buf) \<le> MAX_BUFFER"
  by (simp add: trim_buffer_def MAX_BUFFER_def SAMPLE_RATE_def)

lemma trim_suffix: "\<exists>old. buf = old @ trim_buffer buf"
  unfolding trim_buffer_def by (metis append_Nil append_take_drop_id)

lemma clamp_between: "lo \<le> hi \<Longrightarrow> lo \<le> clamp lo hi v \<and> clamp lo hi v \<le> hi"
  by (auto simp: clamp_def)

lemma level_bounded: "level_set v \<le> 1000"
proof -
  have "clamp 0 1 v * 1000 \<le> 1000" using clamp_between [of 0 1 v] by simp
  then show ?thesis unfolding level_set_def by linarith
qed

lemma rms_between: "0 \<le> rms xs \<and> rms xs \<le> 1"
proof -
  have "0 \<le> sum_list (map (\<lambda>s. s * s) xs)" by (induction xs) auto
  then show ?thesis by (simp add: rms_def)
qed

definition mic_ok :: "mic \<Rightarrow> bool" where
  "mic_ok m \<longleftrightarrow> length (pending m) \<le> MAX_BUFFER \<and> mic_level m \<le> 1000"

definition playback_ok :: "playback \<Rightarrow> bool" where
  "playback_ok p \<longleftrightarrow> (\<forall>(d, buf) \<in> set (peers p). length buf \<le> MAX_BUFFER) \<and>
     (\<forall>(d, l) \<in> set (levels p). 0 \<le> l \<and> l \<le> 1) \<and>
     distinct (map fst (peers p)) \<and> set (map fst (peers p)) = set (map fst (levels p))"

lemma set_update: "x \<in> set (AList.update k v xs) \<Longrightarrow> x = (k, v) \<or> x \<in> set xs"
  by (induction xs) (auto split: if_splits)

lemma set_delete: "x \<in> set (AList.delete k xs) \<Longrightarrow> x \<in> set xs"
  by (auto simp: AList.delete_eq)

lemma push_ok: "playback_ok p \<Longrightarrow> playback_ok (push d samples p)"
  using rms_between [of samples] trim_bounded
  by (auto simp: playback_ok_def push_def Let_def dom_update distinct_update dest!: set_update)

lemma remove_ok:
  assumes "playback_ok p"
  shows "playback_ok (remove_peer d p)"
proof -
  have "set (map fst (AList.delete d (peers p))) = set (map fst (AList.delete d (levels p)))"
    using assms unfolding delete_keys playback_ok_def by simp
  then show ?thesis
    using assms unfolding playback_ok_def remove_peer_def
    by (simp del: set_map add: distinct_delete) (blast dest: set_delete)
qed

lemma fill_ok: "playback_ok p \<Longrightarrow> playback_ok (snd (fill rate n p))"
  by (auto simp: playback_ok_def fill_def Let_def case_prod_beta comp_def)

lemma fill_between: "y \<in> set (fst (fill rate n p)) \<Longrightarrow> -1 \<le> y \<and> y \<le> 1"
  using clamp_between [of "-1" 1] by (auto simp: fill_def Let_def)

datatype play_event = Push string "real list" | Remove string | Volume real | Deafen bool | Fill nat

fun play_step :: "nat \<Rightarrow> play_event \<Rightarrow> playback \<Rightarrow> playback" where
  "play_step rate (Push d samples) p = push d samples p"
| "play_step rate (Remove d) p = remove_peer d p"
| "play_step rate (Volume v) p = set_volume v p"
| "play_step rate (Deafen b) p = set_deafened b p"
| "play_step rate (Fill n) p = snd (fill rate n p)"

datatype mic_event = Ingest "real list" | Take_Frame | Gain real | Mute bool

fun mic_step :: "nat \<Rightarrow> mic_event \<Rightarrow> mic \<Rightarrow> mic" where
  "mic_step rate (Ingest samples) m = ingest rate samples m"
| "mic_step rate Take_Frame m = snd (next_frame m)"
| "mic_step rate (Gain g) m = set_gain g m"
| "mic_step rate (Mute b) m = set_muted b m"

lemma play_step_ok: "playback_ok p \<Longrightarrow> playback_ok (play_step rate e p)"
  by (cases e) (simp_all add: push_ok remove_ok fill_ok, simp_all add: playback_ok_def set_volume_def set_deafened_def)

lemma mic_step_ok: "mic_ok m \<Longrightarrow> mic_ok (mic_step rate e m)"
  using trim_bounded level_bounded
  by (cases e) (auto simp: mic_ok_def ingest_def Let_def next_frame_def set_gain_def set_muted_def)

lemma fold_keeps: "(\<And>e s. P s \<Longrightarrow> P (f e s)) \<Longrightarrow> P s \<Longrightarrow> P (fold f es s)"
  by (induction es arbitrary: s) auto

section \<open>Mixing\<close>

lemma length_mix_in [simp]: "length (mix_in silent mixed taken) = length mixed"
  by (simp add: mix_in_def)

lemma nth_mix_in:
  "i < length mixed \<Longrightarrow> mix_in silent mixed taken ! i = mixed ! i + (if silent then 0 else nth_or 0 taken i)"
  by (simp add: mix_in_def nth_or_def)

lemma length_mix: "length (fold (\<lambda>(d, buf) mixed. mix_in silent mixed (take n buf)) ps mixed) = length mixed"
  by (induction ps arbitrary: mixed) auto

lemma nth_mix:
  "length mixed = n \<Longrightarrow> i < n \<Longrightarrow>
   fold (\<lambda>(d, buf) mixed. mix_in silent mixed (take n buf)) ps mixed ! i =
     mixed ! i + (if silent then 0 else (\<Sum>(d, buf)\<leftarrow>ps. nth_or 0 buf i))"
proof (induction ps arbitrary: mixed)
  case (Cons x ps)
  obtain d buf where x: "x = (d, buf)" by (cases x)
  have "nth_or 0 (take n buf) i = nth_or 0 buf i" using Cons.prems by (simp add: nth_or_def)
  then show ?case using Cons by (simp add: x nth_mix_in)
qed simp

lemma source_enough:
  assumes "0 < rate"
  shows "n \<le> resample_len (source_samples rate n) SAMPLE_RATE rate"
proof -
  have "real n \<le> real (source_samples rate n) * (real rate / real SAMPLE_RATE)"
  proof (cases "rate = SAMPLE_RATE")
    case True
    then show ?thesis by (simp add: source_samples_def SAMPLE_RATE_def)
  next
    case False
    have "real n * real SAMPLE_RATE / real rate \<le> real (source_samples rate n)"
      using False by (simp add: source_samples_def)
    then show ?thesis using assms by (simp add: SAMPLE_RATE_def field_simps)
  qed
  then show ?thesis unfolding resample_len_def by linarith
qed

lemma length_fill: "0 < rate \<Longrightarrow> length (fst (fill rate n p)) = resample_len (source_samples rate n) SAMPLE_RATE rate"
  by (simp add: fill_def Let_def length_resample length_mix SAMPLE_RATE_def)

lemma as_i16_exact: "-1 \<le> v \<Longrightarrow> v \<le> 1 \<Longrightarrow> as_i16 (v * 32767) = trunc (v * 32767)"
proof -
  assume "-1 \<le> v" "v \<le> 1"
  then have "-32767 \<le> v * 32767" "v * 32767 \<le> 32767" by simp_all
  then have "- 32767 \<le> trunc (v * 32767) \<and> trunc (v * 32767) \<le> 32767"
    unfolding trunc_def by (simp add: le_floor_iff floor_le_iff ceiling_le_iff le_ceiling_iff)
  then show ?thesis by (simp add: as_i16_def)
qed

lemma start_ok:
  "playback_start parse h dev vol = Inr (c, p) \<Longrightarrow> playback_ok p"
  "mic_start parse h dev gain = Inr (c, m) \<Longrightarrow> mic_ok m"
  by (auto simp: playback_start_def mic_start_def playback_ok_def mic_ok_def split: option.splits sum.splits)

section \<open>A concrete host\<close>

definition demo_range :: config_range where
  "demo_range = \<lparr>cr_format = F32, cr_min = 8000, cr_max = 96000, cr_channels = 2\<rparr>"

definition demo_device :: device where
  "demo_device = \<lparr>dv_id = Some ''alsa:hw'', dv_description = None, dv_supports_input = True, dv_supports_output = True,
     dv_input_configs = Inr [demo_range], dv_output_configs = Inr [demo_range],
     dv_default_input = Inl ''none'', dv_default_output = Inl ''none'', dv_build_error = None, dv_play_error = None\<rparr>"

definition demo_host :: host where
  "demo_host = \<lparr>ho_default_input = Some demo_device, ho_default_output = Some demo_device, ho_devices = Some [demo_device]\<rparr>"

definition demo_config :: stream_config where
  "demo_config = \<lparr>sc_format = F32, sc_rate = 48000, sc_channels = 2\<rparr>"

lemma demo_start:
  "playback_start Some demo_host None 1 = Inr (demo_config, \<lparr>peers = [], levels = [], deafened = False, volume = 1\<rparr>)"
  "mic_start Some demo_host None 1 = Inr (demo_config, \<lparr>pending = [], mic_level = 0, muted = False, mic_gain = 1\<rparr>)"
  by (simp_all add: playback_start_def mic_start_def pick_device_def demo_host_def pick_config_def demo_device_def
      find_format_def demo_range_def with_rate_def SAMPLE_RATE_def open_stream_def demo_config_def)

section \<open>Properties\<close>

text \<open>
  C26: Whatever the network and the devices deliver, in whatever order, the voice buffers stay small
  and the output in range: after any sequence of events on a started call, every peer's buffer and
  the microphone's hold at most one second of audio, the meters read between 0 and 1, the meters
  and buffers are of the same peers, a captured frame has exactly 20 ms, and every sample handed to
  the speakers lies between -1 and 1, so its conversion to 16 bits never saturates.
\<close>

theorem voice_buffers_bounded:
  assumes "playback_start parse h out vol = Inr (c, p0)" "mic_start parse' h' inp gain = Inr (c', m0)"
    and "p = fold (play_step rate) es p0" "m = fold (mic_step rate') fs m0"
  shows "playback_ok p \<and> mic_ok m \<and>
    (\<forall>frame. fst (next_frame m) = Some frame \<longrightarrow> length frame = 960) \<and>
    (\<forall>y\<in>set (fst (fill rate n p)). -1 \<le> y \<and> y \<le> 1 \<and> as_i16 (y * 32767) = trunc (y * 32767))"
proof -
  have "playback_ok p" unfolding assms(3) by (rule fold_keeps [where P = playback_ok]) (simp_all add: play_step_ok start_ok(1) [OF assms(1)])
  moreover have "mic_ok m" unfolding assms(4) by (rule fold_keeps [where P = mic_ok]) (simp_all add: mic_step_ok start_ok(2) [OF assms(2)])
  ultimately show ?thesis
    using fill_between [of _ rate n p] as_i16_exact by (auto simp: next_frame_def)
qed

theorem voice_buffers_bounded_witness:
  "length (snd (hd (peers (fold (play_step 48000) [Push ''d'' (replicate 60000 1)]
     \<lparr>peers = [], levels = [], deafened = False, volume = 1\<rparr>)))) \<le> 48000"
proof -
  let ?p = "fold (play_step 48000) [Push ''d'' (replicate 60000 1)] \<lparr>peers = [], levels = [], deafened = False, volume = 1\<rparr>"
  have "playback_ok ?p"
    using voice_buffers_bounded [OF demo_start(1,2) refl refl, of 48000 _ 48000 "[]" 0] by blast
  moreover have "peers ?p \<noteq> []" by (simp add: push_def)
  ultimately show ?thesis
    by (cases "peers ?p") (auto simp: playback_ok_def MAX_BUFFER_def SAMPLE_RATE_def)
qed

text \<open>
  C27: Mixing is exact.  On a 48 kHz device the callback gets one sample per requested frame: the sum
  of what every peer has buffered for it (silence past the end of a buffer), scaled by the volume
  and clamped.  Deafened gives silence and consumes the same audio.  At any rate a fill consumes
  the same number of samples from every peer and yields at least the frames asked for.
\<close>

theorem mixer_exact:
  "length (fst (fill SAMPLE_RATE n p)) = n \<and>
   (\<forall>i. i < n \<longrightarrow> fst (fill SAMPLE_RATE n p) ! i =
      clamp (-1) 1 ((if deafened p then 0 else (\<Sum>(d, buf)\<leftarrow>peers p. nth_or 0 buf i)) * volume p)) \<and>
   snd (fill rate n p) = p\<lparr>peers := map (\<lambda>(d, buf). (d, drop (source_samples rate n) buf)) (peers p)\<rparr> \<and>
   source_samples SAMPLE_RATE n = n \<and>
   (0 < rate \<longrightarrow> n \<le> length (fst (fill rate n p)))"
proof -
  have s: "source_samples SAMPLE_RATE n = n" by (simp add: source_samples_def)
  have "length (fst (fill SAMPLE_RATE n p)) = n"
    by (simp add: fill_def Let_def s resample_def length_mix)
  moreover have "fst (fill SAMPLE_RATE n p) ! i =
      clamp (-1) 1 ((if deafened p then 0 else (\<Sum>(d, buf)\<leftarrow>peers p. nth_or 0 buf i)) * volume p)" if "i < n" for i
    using that nth_mix [of "replicate n 0" n i "deafened p" "peers p"]
    by (simp add: fill_def Let_def s resample_def length_mix)
  ultimately show ?thesis
    using s source_enough [of rate n] length_fill [of rate n p] by (simp add: fill_def Let_def)
qed

theorem mixer_exact_witness:
  "441 \<le> length (fst (fill 44100 441 \<lparr>peers = [(''a'', [1])], levels = [(''a'', 1)], deafened = False, volume = 1\<rparr>)) \<and>
   fst (fill SAMPLE_RATE 2 \<lparr>peers = [(''a'', [1 / 2, 1]), (''b'', [1 / 4])], levels = [], deafened = False, volume = 1\<rparr>) ! 0 = 3 / 4"
  using mixer_exact [of 441 "\<lparr>peers = [(''a'', [1])], levels = [(''a'', 1)], deafened = False, volume = 1\<rparr>" 44100]
    mixer_exact [of 2 "\<lparr>peers = [(''a'', [1 / 2, 1]), (''b'', [1 / 4])], levels = [], deafened = False, volume = 1\<rparr>" 44100]
  by (simp add: nth_or_def clamp_def)

text \<open>
  Resampling is faithful: between positive rates it yields the input's length scaled by the
  rate ratio and rounded, every output lies between any bounds of the input, so a constant signal
  stays constant and nothing gets louder, and equal rates change nothing.
\<close>

theorem resample_faithful:
  assumes "0 < from" "0 < to" "\<forall>x\<in>set xs. lo \<le> x \<and> x \<le> hi"
  shows "length (resample xs from to) = resample_len (length xs) from to \<and>
    (\<forall>y\<in>set (resample xs from to). lo \<le> y \<and> y \<le> hi) \<and> resample xs from from = xs \<and>
    \<bar>real (length (resample xs from to)) - real (length xs) * real to / real from\<bar> \<le> 1 / 2"
proof -
  have "\<bar>real (resample_len (length xs) from to) - real (length xs) * real to / real from\<bar> \<le> 1 / 2"
  proof -
    have near: "0 \<le> x \<Longrightarrow> \<bar>real (nat \<lfloor>x + 1 / 2\<rfloor>) - x\<bar> \<le> 1 / 2" for x :: real by linarith
    have "0 \<le> real (length xs) * (real to / real from)" by simp
    from near [OF this] show ?thesis unfolding resample_len_def by simp
  qed
  then show ?thesis
    using length_resample [OF assms(1)] resample_between [OF assms(1,2,3)] by (auto simp: resample_def [of _ "from" "from"])
qed

theorem resample_faithful_witness:
  "length (resample (replicate 441 (1 / 2)) 44100 48000) = 480 \<and>
   set (resample (replicate 441 (1 / 2)) 44100 48000) \<subseteq> {1 / 2}"
proof -
  have "resample_len 441 44100 48000 = 480" by (simp add: resample_len_def floor_eq_iff nat_eq_iff)
  then show ?thesis
    using resample_faithful [of 44100 48000 "replicate 441 (1 / 2)" "1 / 2" "1 / 2"] by force
qed

end
