(* ===== verification/Store_Postgres.thy ===== *)
theory Store_Postgres
  imports Store_Accounts Store_Groups Store_Messages
begin

text \<open>
  \<open>store/postgres.rs\<close>: the second implementation of the \<open>Store\<close> trait, one definition per method with
  the prefix \<open>pg_\<close>, over the same tables as the SQLite store.  What differs from SQLite:

  \<^item> PostgreSQL always enforces \<open>REFERENCES\<close>, and its schema (\<open>migrations/postgres\<close>) has more of them
    (\<open>invites\<close>, \<open>member_roles\<close>, \<open>key_backups\<close>, \<open>vault_blobs\<close>, \<open>bans\<close>); \<open>delete_role\<close> and
    \<open>delete_group\<close> rely on \<open>ON DELETE CASCADE\<close>;
  \<^item> \<open>position\<close> and \<open>version\<close> columns are \<open>INTEGER\<close>, read and written as \<open>i32\<close>, with wrap-around
    arithmetic in between;
  \<^item> \<open>ORDER BY\<close> on text follows the database's collation, a parameter \<open>coll\<close> (the sort key of a
    string; the identity for the bytewise collation \<open>C\<close>);
  \<^item> \<open>LIKE\<close> is case-sensitive, a negative \<open>LIMIT\<close> is an error, and \<open>BIGSERIAL\<close> draws a number for
    every attempted insert, a failed one included;
  \<^item> a repeated message answers with the stored row's id (\<open>RETURNING id\<close>).

  Timestamps stay in milliseconds, the unit of the shared row types; \<open>DEFAULT now()\<close> is one read of the
  clock per statement.  A query without \<open>ORDER BY\<close> yields rows in table order, as in the SQLite model;
  no lemma here depends on that order.
\<close>

section \<open>Statements\<close>

definition pg_insert :: "(db \<Rightarrow> bool) \<Rightarrow> (db \<Rightarrow> bool) \<Rightarrow> (db \<Rightarrow> db) \<Rightarrow> unit dbact" where
  "pg_insert conflict refs f = (\<lambda>d.
     if conflict d then (Inl (Database UniqueViolation), d)
     else if \<not> refs d then (Inl (Database ForeignKeyViolation), d)
     else (Inr (), f d))"

definition pg_insert_or_nothing :: "(db \<Rightarrow> bool) \<Rightarrow> (db \<Rightarrow> bool) \<Rightarrow> (db \<Rightarrow> db) \<Rightarrow> unit dbact" where
  "pg_insert_or_nothing conflict refs f = (\<lambda>d.
     if conflict d then (Inr (), d)
     else if \<not> refs d then (Inl (Database ForeignKeyViolation), d)
     else (Inr (), f d))"

definition pg_upsert ::
  "(db \<Rightarrow> bool) \<Rightarrow> (db \<Rightarrow> bool) \<Rightarrow> (db \<Rightarrow> bool) \<Rightarrow> (db \<Rightarrow> db) \<Rightarrow> (db \<Rightarrow> db) \<Rightarrow> unit dbact" where
  "pg_upsert conflict other refs f g = (\<lambda>d.
     if conflict d then (Inr (), g d)
     else if other d then (Inl (Database UniqueViolation), d)
     else if \<not> refs d then (Inl (Database ForeignKeyViolation), d)
     else (Inr (), f d))"

definition pg_limit :: "int \<Rightarrow> 'a list \<Rightarrow> 'a list dbact" where
  "pg_limit n rows = (if n < 0 then fail (Database InvalidRowCount) else ret (sql_limit n rows))"

text \<open>\<open>LIKE\<close> compares literals exactly; the escape is the backslash by default.\<close>

fun pg_like_match :: "like_token list \<Rightarrow> string \<Rightarrow> bool" where
  "pg_like_match [] s = (s = [])"
| "pg_like_match (AnyRun # ts) [] = pg_like_match ts []"
| "pg_like_match (AnyRun # ts) (c # s) = (pg_like_match ts (c # s) \<or> pg_like_match (AnyRun # ts) s)"
| "pg_like_match (AnyOne # ts) [] = False"
| "pg_like_match (AnyOne # ts) (c # s) = pg_like_match ts s"
| "pg_like_match (Lit l # ts) [] = False"
| "pg_like_match (Lit l # ts) (c # s) = (l = c \<and> pg_like_match ts s)"
| "pg_like_match (Never # ts) s = False"

section \<open>Users\<close>

definition pg_create_user ::
  "string \<Rightarrow> string \<Rightarrow> string \<Rightarrow> bool \<Rightarrow> bool \<Rightarrow> bytes option \<Rightarrow> uuid dbact" where
  "pg_create_user username display_name password_hash is_owner is_guest identity_pubkey =
     bnd now_v7 (\<lambda>id.
     bnd now_ms (\<lambda>now.
     bnd (on_unique (AlreadyExists ''username or identity'')
       (pg_insert
         (\<lambda>d. exists_where (\<lambda>r. u_id r = id \<or> u_username r = username \<or>
                 identity_pubkey \<noteq> None \<and> u_identity_key r = identity_pubkey) (db_users d))
         (\<lambda>d. True)
         (\<lambda>d. d\<lparr>db_users := db_users d @
            [\<lparr>u_id = id, u_username = username, u_display_name = display_name,
              u_password_hash = password_hash, u_created_at = now, u_is_owner = is_owner,
              u_is_guest = is_guest, u_identity_key = identity_pubkey, u_avatar_url = ''''\<rparr>]\<rparr>))) (\<lambda>_.
     ret id)))"

definition pg_identity_exists :: "bytes \<Rightarrow> bool dbact" where
  "pg_identity_exists key = gets (\<lambda>d. exists_where (\<lambda>r. u_identity_key r = Some key) (db_users d))"

definition pg_find_user_by_username :: "string \<Rightarrow> user_row option dbact" where
  "pg_find_user_by_username username = gets (\<lambda>d.
     map_option to_user_row (List.find (\<lambda>r. u_username r = username) (db_users d)))"

definition pg_find_user_by_identity :: "bytes \<Rightarrow> user_row option dbact" where
  "pg_find_user_by_identity key = gets (\<lambda>d.
     map_option to_user_row (List.find (\<lambda>r. u_identity_key r = Some key) (db_users d)))"

definition pg_is_user_guest :: "uuid \<Rightarrow> bool dbact" where
  "pg_is_user_guest user_id = gets (\<lambda>d.
     case find_user user_id d of None \<Rightarrow> False | Some r \<Rightarrow> u_is_guest r)"

definition pg_user_profile :: "uuid \<Rightarrow> (string \<times> string \<times> string) option dbact" where
  "pg_user_profile user_id = gets (\<lambda>d.
     map_option (\<lambda>r. (u_username r, u_display_name r, u_avatar_url r)) (find_user user_id d))"

definition pg_update_profile :: "uuid \<Rightarrow> string \<Rightarrow> string \<Rightarrow> unit dbact" where
  "pg_update_profile user_id display_name avatar_url = modify (\<lambda>d. d\<lparr>db_users :=
     upd_where (\<lambda>r. u_id r = user_id)
       (\<lambda>r. r\<lparr>u_display_name := display_name, u_avatar_url := avatar_url\<rparr>) (db_users d)\<rparr>)"

definition pg_count_users :: "int dbact" where
  "pg_count_users = gets (\<lambda>d. int (length (db_users d)))"

definition pg_is_owner :: "uuid \<Rightarrow> bool dbact" where
  "pg_is_owner user_id = gets (\<lambda>d.
     case find_user user_id d of None \<Rightarrow> False | Some r \<Rightarrow> u_is_owner r)"

section \<open>Invites\<close>

definition pg_create_invite :: "string \<Rightarrow> uuid \<Rightarrow> unit dbact" where
  "pg_create_invite token created_by =
     bnd now_ms (\<lambda>now.
     pg_insert (\<lambda>d. exists_where (\<lambda>r. in_token r = token) (db_invites d)) (has_user created_by)
       (\<lambda>d. d\<lparr>db_invites := db_invites d @
          [\<lparr>in_token = token, in_created_by = created_by, in_revoked = False,
            in_created_at = now\<rparr>]\<rparr>))"

definition pg_is_invite_valid :: "string \<Rightarrow> bool dbact" where
  "pg_is_invite_valid token = gets (\<lambda>d.
     map_option in_revoked (List.find (\<lambda>r. in_token r = token) (db_invites d)) = Some False)"

definition pg_revoke_invite :: "string \<Rightarrow> unit dbact" where
  "pg_revoke_invite token = modify (\<lambda>d. d\<lparr>db_invites :=
     upd_where (\<lambda>r. in_token r = token) (\<lambda>r. r\<lparr>in_revoked := True\<rparr>) (db_invites d)\<rparr>)"

section \<open>Roles\<close>

definition pg_ensure_default_role :: "uuid \<Rightarrow> string \<Rightarrow> permissions \<Rightarrow> unit dbact" where
  "pg_ensure_default_role role_id name permissions =
     bnd now_ms (\<lambda>now.
     pg_insert_or_nothing (\<lambda>d. exists_where (\<lambda>r. ro_id r = role_id) (db_roles d)) (\<lambda>d. True)
       (\<lambda>d. d\<lparr>db_roles := db_roles d @
          [\<lparr>ro_id = role_id, ro_name = name, ro_permissions = permissions, ro_position = 0,
            ro_is_default = True, ro_color = '''', ro_icon = '''', ro_hoist = False,
            ro_mentionable = False, ro_created_at = now\<rparr>]\<rparr>))"

definition pg_create_role :: "role_write \<Rightarrow> uuid dbact" where
  "pg_create_role w =
     bnd now_v7 (\<lambda>id.
     bnd (gets (\<lambda>d. max_or 0 (map ro_position (db_roles d)))) (\<lambda>max_pos.
     bnd now_ms (\<lambda>now.
     bnd (pg_insert (\<lambda>d. exists_where (\<lambda>r. ro_id r = id) (db_roles d)) (\<lambda>d. True)
       (\<lambda>d. d\<lparr>db_roles := db_roles d @
          [\<lparr>ro_id = id, ro_name = rw_name w, ro_permissions = rw_permissions w,
            ro_position = as_i32 (max_pos + 1), ro_is_default = False, ro_color = rw_color w,
            ro_icon = rw_icon w, ro_hoist = rw_hoist w, ro_mentionable = rw_mentionable w,
            ro_created_at = now\<rparr>]\<rparr>)) (\<lambda>_.
     ret id))))"

definition pg_role_row :: "roles_row \<Rightarrow> role_row" where
  "pg_role_row r = \<lparr>rl_id = ro_id r, rl_name = ro_name r, rl_permissions = ro_permissions r,
     rl_position = ro_position r, rl_is_default = ro_is_default r, rl_color = ro_color r,
     rl_icon = ro_icon r, rl_hoist = ro_hoist r, rl_mentionable = ro_mentionable r\<rparr>"

definition pg_list_roles :: "(string \<Rightarrow> string) \<Rightarrow> role_row list dbact" where
  "pg_list_roles coll = gets (\<lambda>d.
     map pg_role_row (sort_key (\<lambda>r. - ro_position r) (sort_key (\<lambda>r. coll (ro_name r)) (db_roles d))))"

definition pg_get_role :: "uuid \<Rightarrow> role_row option dbact" where
  "pg_get_role role_id = gets (\<lambda>d. map_option pg_role_row (List.find (\<lambda>r. ro_id r = role_id) (db_roles d)))"

definition pg_update_role :: "uuid \<Rightarrow> role_write \<Rightarrow> unit dbact" where
  "pg_update_role role_id w = modify (\<lambda>d. d\<lparr>db_roles :=
     upd_where (\<lambda>r. ro_id r = role_id)
       (\<lambda>r. r\<lparr>ro_name := rw_name w, ro_permissions := rw_permissions w, ro_color := rw_color w,
             ro_icon := rw_icon w, ro_hoist := rw_hoist w, ro_mentionable := rw_mentionable w\<rparr>)
       (db_roles d)\<rparr>)"

text \<open>One statement: the role goes unless it is a default one, and the assignments of a role that went
  go with it.\<close>

definition pg_delete_role :: "uuid \<Rightarrow> unit dbact" where
  "pg_delete_role role_id = modify (\<lambda>d.
     d\<lparr>db_roles := del_where (\<lambda>r. ro_id r = role_id \<and> \<not> ro_is_default r) (db_roles d),
       db_member_roles := del_where
         (\<lambda>m. mr_role m = role_id \<and>
              exists_where (\<lambda>r. ro_id r = role_id \<and> \<not> ro_is_default r) (db_roles d))
         (db_member_roles d)\<rparr>)"

definition pg_reorder_roles :: "uuid list \<Rightarrow> unit dbact" where
  "pg_reorder_roles ids = transaction (for_each
     (\<lambda>(i, id). modify (\<lambda>d. d\<lparr>db_roles :=
        upd_where (\<lambda>r. ro_id r = id \<and> \<not> ro_is_default r)
          (\<lambda>r. r\<lparr>ro_position := as_i32 (as_i32 (int (length ids)) - as_i32 (int i))\<rparr>) (db_roles d)\<rparr>))
     (List.enumerate 0 ids))"

definition has_role :: "uuid \<Rightarrow> db \<Rightarrow> bool" where
  "has_role r d = exists_where (\<lambda>x. ro_id x = r) (db_roles d)"

definition pg_assign_role :: "uuid \<Rightarrow> uuid \<Rightarrow> unit dbact" where
  "pg_assign_role user_id role_id =
     pg_insert_or_nothing
       (\<lambda>d. exists_where (\<lambda>m. mr_user m = user_id \<and> mr_role m = role_id) (db_member_roles d))
       (\<lambda>d. has_user user_id d \<and> has_role role_id d)
       (\<lambda>d. d\<lparr>db_member_roles := db_member_roles d @ [\<lparr>mr_user = user_id, mr_role = role_id\<rparr>]\<rparr>)"

definition pg_unassign_role :: "uuid \<Rightarrow> uuid \<Rightarrow> unit dbact" where
  "pg_unassign_role user_id role_id = modify (\<lambda>d. d\<lparr>db_member_roles :=
     del_where (\<lambda>m. mr_user m = user_id \<and> mr_role m = role_id) (db_member_roles d)\<rparr>)"

text \<open>The query selects five columns; \<open>RoleRow\<close> has nine, so decoding any row is an error.\<close>

definition pg_roles_for_user :: "uuid \<Rightarrow> role_row list dbact" where
  "pg_roles_for_user user_id =
     bnd (gets (assigned_roles user_id)) (\<lambda>rows.
     if rows = [] then ret [] else fail (Database (ColumnNotFound ''color'')))"

definition pg_highest_role_position :: "uuid \<Rightarrow> int dbact" where
  "pg_highest_role_position user_id =
     gets (\<lambda>d. max_or 0 (map ro_position (assigned_roles user_id d)))"

unbundle bit_operations_syntax

definition bit_or_agg :: "permissions list \<Rightarrow> permissions option" where
  "bit_or_agg bs = (if bs = [] then None else Some (fold (OR) bs 0))"

definition pg_member_permissions :: "uuid \<Rightarrow> permissions dbact" where
  "pg_member_permissions user_id = gets (\<lambda>d.
     case bit_or_agg (map ro_permissions (filter
       (\<lambda>r. ro_is_default r \<or> ro_id r \<in> mr_role ` set (filter (\<lambda>m. mr_user m = user_id) (db_member_roles d)))
       (db_roles d))) of None \<Rightarrow> 0 | Some bits \<Rightarrow> bits)"

section \<open>Key backups and vault blobs\<close>

definition pg_upsert_backup :: "uuid \<Rightarrow> bytes \<Rightarrow> bytes \<Rightarrow> bytes \<Rightarrow> int \<Rightarrow> unit dbact" where
  "pg_upsert_backup user_id blob salt params version =
     bnd now_ms (\<lambda>now.
     pg_upsert (\<lambda>d. exists_where (\<lambda>r. kb_user r = user_id) (db_backups d)) (\<lambda>d. False) (has_user user_id)
       (\<lambda>d. d\<lparr>db_backups := db_backups d @
          [\<lparr>kb_user = user_id, kb_blob = blob, kb_salt = salt, kb_params = params,
            kb_version = version, kb_updated_at = now\<rparr>]\<rparr>)
       (\<lambda>d. d\<lparr>db_backups := upd_where (\<lambda>r. kb_user r = user_id)
          (\<lambda>r. r\<lparr>kb_blob := blob, kb_salt := salt, kb_params := params, kb_version := version,
                kb_updated_at := now\<rparr>) (db_backups d)\<rparr>))"

definition pg_get_backup :: "uuid \<Rightarrow> backup_row option dbact" where
  "pg_get_backup user_id = gets (\<lambda>d.
     map_option (\<lambda>r. \<lparr>bk_encrypted_blob = kb_blob r, bk_salt = kb_salt r,
         bk_argon2_params = kb_params r, bk_version = kb_version r\<rparr>)
       (List.find (\<lambda>r. kb_user r = user_id) (db_backups d)))"

definition pg_delete_backup :: "uuid \<Rightarrow> unit dbact" where
  "pg_delete_backup user_id = modify (\<lambda>d. d\<lparr>db_backups :=
     del_where (\<lambda>r. kb_user r = user_id) (db_backups d)\<rparr>)"

definition pg_put_vault_blob :: "uuid \<Rightarrow> string \<Rightarrow> bytes \<Rightarrow> unit dbact" where
  "pg_put_vault_blob user_id name blob =
     bnd now_ms (\<lambda>now.
     pg_upsert (\<lambda>d. exists_where (\<lambda>r. vb_user r = user_id \<and> vb_name r = name) (db_vault d)) (\<lambda>d. False)
       (has_user user_id)
       (\<lambda>d. d\<lparr>db_vault := db_vault d @
          [\<lparr>vb_user = user_id, vb_name = name, vb_blob = blob, vb_updated_at = now\<rparr>]\<rparr>)
       (\<lambda>d. d\<lparr>db_vault := upd_where (\<lambda>r. vb_user r = user_id \<and> vb_name r = name)
          (\<lambda>r. r\<lparr>vb_blob := blob, vb_updated_at := now\<rparr>) (db_vault d)\<rparr>))"

definition pg_get_vault_blob :: "uuid \<Rightarrow> string \<Rightarrow> bytes option dbact" where
  "pg_get_vault_blob user_id name = gets (\<lambda>d.
     map_option vb_blob (List.find (\<lambda>r. vb_user r = user_id \<and> vb_name r = name) (db_vault d)))"

definition pg_list_vault_blobs :: "(string \<Rightarrow> string) \<Rightarrow> uuid \<Rightarrow> string \<Rightarrow> string list dbact" where
  "pg_list_vault_blobs coll user_id prefix = gets (\<lambda>d.
     map vb_name (sort_key (\<lambda>r. coll (vb_name r)) (filter
       (\<lambda>r. vb_user r = user_id \<and> pg_like_match (like_tokens (vault_pattern prefix)) (vb_name r))
       (db_vault d))))"

definition pg_delete_vault_blob :: "uuid \<Rightarrow> string \<Rightarrow> unit dbact" where
  "pg_delete_vault_blob user_id name = modify (\<lambda>d. d\<lparr>db_vault :=
     del_where (\<lambda>r. vb_user r = user_id \<and> vb_name r = name) (db_vault d)\<rparr>)"

section \<open>Devices and refresh tokens\<close>

definition pg_create_device :: "uuid \<Rightarrow> string \<Rightarrow> uuid dbact" where
  "pg_create_device user_id name =
     bnd now_v7 (\<lambda>id.
     bnd now_ms (\<lambda>now.
     bnd (pg_insert (has_device id) (has_user user_id)
       (\<lambda>d. d\<lparr>db_devices := db_devices d @
          [\<lparr>d_id = id, d_user = user_id, d_name = name, d_created_at = now, d_revoked_at = None,
            d_mls_credential = None\<rparr>]\<rparr>)) (\<lambda>_.
     ret id)))"

definition pg_find_device :: "uuid \<Rightarrow> string \<Rightarrow> uuid option dbact" where
  "pg_find_device user_id name = gets (\<lambda>d.
     case order_desc d_id
       (filter (\<lambda>r. d_user r = user_id \<and> d_name r = name \<and> d_revoked_at r = None) (db_devices d)) of
       [] \<Rightarrow> None | r # _ \<Rightarrow> Some (d_id r))"

definition pg_revoke_device :: "uuid \<Rightarrow> uuid \<Rightarrow> unit dbact" where
  "pg_revoke_device user_id device_id =
     bnd now_ms (\<lambda>now.
     modify (\<lambda>d. d\<lparr>db_devices :=
       upd_where (\<lambda>r. d_id r = device_id \<and> d_user r = user_id \<and> d_revoked_at r = None)
         (\<lambda>r. r\<lparr>d_revoked_at := Some now\<rparr>) (db_devices d)\<rparr>))"

definition pg_set_device_credential :: "uuid \<Rightarrow> bytes \<Rightarrow> unit dbact" where
  "pg_set_device_credential device_id credential = modify (\<lambda>d. d\<lparr>db_devices :=
     upd_where (\<lambda>r. d_id r = device_id) (\<lambda>r. r\<lparr>d_mls_credential := Some credential\<rparr>) (db_devices d)\<rparr>)"

definition pg_store_refresh_token :: "string \<Rightarrow> uuid \<Rightarrow> uuid \<Rightarrow> int \<Rightarrow> unit dbact" where
  "pg_store_refresh_token token user_id device_id expires_at =
     bnd now_ms (\<lambda>now.
     pg_insert (\<lambda>d. exists_where (\<lambda>r. rt_token r = token) (db_refresh d))
       (\<lambda>d. has_user user_id d \<and> has_device device_id d)
       (\<lambda>d. d\<lparr>db_refresh := db_refresh d @
          [\<lparr>rt_token = token, rt_user = user_id, rt_device = device_id, rt_expires_at = expires_at,
            rt_created_at = now\<rparr>]\<rparr>))"

definition pg_lookup_refresh_token :: "string \<Rightarrow> refresh_row option dbact" where
  "pg_lookup_refresh_token token = gets (\<lambda>d.
     map_option (\<lambda>r. \<lparr>rr_user_id = rt_user r, rr_device_id = rt_device r,
         rr_expires_at = rt_expires_at r\<rparr>)
       (List.find (\<lambda>r. rt_token r = token) (db_refresh d)))"

definition pg_delete_refresh_token :: "string \<Rightarrow> unit dbact" where
  "pg_delete_refresh_token token = modify (\<lambda>d. d\<lparr>db_refresh :=
     del_where (\<lambda>r. rt_token r = token) (db_refresh d)\<rparr>)"

section \<open>Groups and members\<close>

definition pg_create_public_group :: "string \<Rightarrow> string \<Rightarrow> string \<Rightarrow> string \<Rightarrow> uuid dbact" where
  "pg_create_public_group name description channel_kind category_id =
     bnd now_v7 (\<lambda>id.
     bnd (gets (\<lambda>d. max_or (- 1)
       (map g_position (filter (\<lambda>g. g_category g = category_id) (db_groups d))))) (\<lambda>max_pos.
     bnd now_ms (\<lambda>now.
     bnd (pg_insert (has_group id) (\<lambda>d. True)
       (\<lambda>d. d\<lparr>db_groups := db_groups d @
          [\<lparr>g_id = id, g_name = name, g_description = description, g_kind = ''public'',
            g_channel_kind = channel_kind, g_category = category_id,
            g_position = as_i32 (max_pos + 1), g_created_at = now\<rparr>]\<rparr>)) (\<lambda>_.
     ret id))))"

definition pg_create_private_group_with_id :: "ext \<Rightarrow> uuid \<Rightarrow> string \<Rightarrow> unit dbact" where
  "pg_create_private_group_with_id E gid name =
     bnd now_ms (\<lambda>now.
     on_unique (AlreadyExists (''group '' @ to_str E gid))
       (pg_insert (has_group gid) (\<lambda>d. True)
         (\<lambda>d. d\<lparr>db_groups := db_groups d @
            [\<lparr>g_id = gid, g_name = name, g_description = '''', g_kind = ''private'',
              g_channel_kind = ''text'', g_category = '''', g_position = 0,
              g_created_at = now\<rparr>]\<rparr>)))"

definition pg_add_member :: "uuid \<Rightarrow> uuid \<Rightarrow> string \<Rightarrow> unit dbact" where
  "pg_add_member group_id user_id role =
     bnd now_ms (\<lambda>now.
     pg_insert_or_nothing
       (\<lambda>d. exists_where (\<lambda>m. gm_group m = group_id \<and> gm_user m = user_id) (db_members d))
       (\<lambda>d. has_group group_id d \<and> has_user user_id d)
       (\<lambda>d. d\<lparr>db_members := db_members d @
          [\<lparr>gm_group = group_id, gm_user = user_id, gm_role = role, gm_joined_at = now\<rparr>]\<rparr>))"

definition pg_remove_member :: "uuid \<Rightarrow> uuid \<Rightarrow> unit dbact" where
  "pg_remove_member group_id user_id = modify (\<lambda>d. d\<lparr>db_members :=
     del_where (\<lambda>m. gm_group m = group_id \<and> gm_user m = user_id) (db_members d)\<rparr>)"

text \<open>One statement; the cascades of \<open>group_members\<close>, \<open>public_messages\<close> and \<open>private_messages\<close> belong
  to it.\<close>

definition pg_delete_group :: "uuid \<Rightarrow> unit dbact" where
  "pg_delete_group group_id = modify (\<lambda>d. if has_group group_id d then
     d\<lparr>db_groups := del_where (\<lambda>g. g_id g = group_id) (db_groups d),
       db_members := del_where (\<lambda>m. gm_group m = group_id) (db_members d),
       db_public := del_where (\<lambda>m. pm_group m = group_id) (db_public d),
       db_private := del_where (\<lambda>m. vm_group m = group_id) (db_private d)\<rparr> else d)"

definition pg_is_member :: "uuid \<Rightarrow> uuid \<Rightarrow> bool dbact" where
  "pg_is_member group_id user_id = gets (\<lambda>d.
     exists_where (\<lambda>m. gm_group m = group_id \<and> gm_user m = user_id) (db_members d))"

definition pg_group_ids_for_user :: "uuid \<Rightarrow> uuid list dbact" where
  "pg_group_ids_for_user user_id =
     gets (\<lambda>d. map gm_group (filter (\<lambda>m. gm_user m = user_id) (db_members d)))"

definition pg_group_summary :: "db \<Rightarrow> groups_row \<Rightarrow> group_summary_row" where
  "pg_group_summary d g = \<lparr>gs_id = g_id g, gs_name = g_name g, gs_description = g_description g,
     gs_kind = g_kind g, gs_channel_kind = g_channel_kind g,
     gs_member_count = int (length (filter (\<lambda>m. gm_group m = g_id g) (db_members d))),
     gs_category_id = g_category g, gs_position = g_position g\<rparr>"

definition pg_list_groups_for_user :: "(string \<Rightarrow> string) \<Rightarrow> uuid \<Rightarrow> group_summary_row list dbact" where
  "pg_list_groups_for_user coll user_id = gets (\<lambda>d.
     map (pg_group_summary d) (sort_key g_position (sort_key (\<lambda>g. coll (g_name g))
       [g. g \<leftarrow> db_groups d, m \<leftarrow> db_members d, gm_group m = g_id g \<and> gm_user m = user_id])))"

definition pg_get_group :: "ext \<Rightarrow> uuid \<Rightarrow> group_summary_row dbact" where
  "pg_get_group E group_id =
     bnd (gets (\<lambda>d. map_option (pg_group_summary d) (List.find (\<lambda>g. g_id g = group_id) (db_groups d))))
       (some_or (NotFound (''group '' @ to_str E group_id)))"

section \<open>Categories\<close>

definition pg_insert_category :: "uuid \<Rightarrow> string \<Rightarrow> int \<Rightarrow> unit dbact" where
  "pg_insert_category cid name pos =
     bnd now_ms (\<lambda>now.
     pg_insert (\<lambda>d. exists_where (\<lambda>c. ca_id c = cid) (db_categories d)) (\<lambda>d. True)
       (\<lambda>d. d\<lparr>db_categories := db_categories d @
          [\<lparr>ca_id = cid, ca_name = name, ca_position = pos, ca_created_at = now\<rparr>]\<rparr>))"

definition pg_ensure_default_categories :: "ext \<Rightarrow> unit dbact" where
  "pg_ensure_default_categories E =
     bnd (gets (\<lambda>d. length (db_categories d))) (\<lambda>count.
     if count > 0 then ret () else
     bnd now_v7 (\<lambda>text_id.
     bnd now_v7 (\<lambda>voice_id.
     bnd (for_each (\<lambda>(cid, name, pos). pg_insert_category cid name pos)
       [(text_id, ''Text Channels'', 0), (voice_id, ''Voice Channels'', 1)]) (\<lambda>_.
     bnd (modify (\<lambda>d. d\<lparr>db_groups :=
       upd_where (\<lambda>g. g_kind g = ''public'' \<and> g_channel_kind g = ''voice'' \<and> g_category g = '''')
         (\<lambda>g. g\<lparr>g_category := to_str E voice_id\<rparr>) (db_groups d)\<rparr>)) (\<lambda>_.
     modify (\<lambda>d. d\<lparr>db_groups :=
       upd_where (\<lambda>g. g_kind g = ''public'' \<and> g_channel_kind g \<noteq> ''voice'' \<and> g_category g = '''')
         (\<lambda>g. g\<lparr>g_category := to_str E text_id\<rparr>) (db_groups d)\<rparr>))))))"

definition pg_category_row :: "categories_row \<Rightarrow> category_row" where
  "pg_category_row c = \<lparr>cr_id = ca_id c, cr_name = ca_name c, cr_position = ca_position c\<rparr>"

definition pg_list_categories :: "(string \<Rightarrow> string) \<Rightarrow> category_row list dbact" where
  "pg_list_categories coll = gets (\<lambda>d.
     map pg_category_row (sort_key ca_position (sort_key (\<lambda>c. coll (ca_name c)) (db_categories d))))"

definition pg_create_category :: "string \<Rightarrow> uuid dbact" where
  "pg_create_category name =
     bnd now_v7 (\<lambda>id.
     bnd (gets (\<lambda>d. max_or (- 1) (map ca_position (db_categories d)))) (\<lambda>max_pos.
     bnd (pg_insert_category id name (as_i32 (max_pos + 1))) (\<lambda>_.
     ret id)))"

definition pg_delete_category :: "ext \<Rightarrow> uuid \<Rightarrow> unit dbact" where
  "pg_delete_category E cid =
     bnd (modify (\<lambda>d. d\<lparr>db_groups :=
       upd_where (\<lambda>g. g_category g = to_str E cid) (\<lambda>g. g\<lparr>g_category := ''''\<rparr>) (db_groups d)\<rparr>)) (\<lambda>_.
     modify (\<lambda>d. d\<lparr>db_categories := del_where (\<lambda>c. ca_id c = cid) (db_categories d)\<rparr>))"

definition pg_reorder_categories :: "uuid list \<Rightarrow> unit dbact" where
  "pg_reorder_categories ordered = transaction (for_each
     (\<lambda>(i, cid). modify (\<lambda>d. d\<lparr>db_categories :=
        upd_where (\<lambda>c. ca_id c = cid) (\<lambda>c. c\<lparr>ca_position := as_i32 (int i)\<rparr>) (db_categories d)\<rparr>))
     (List.enumerate 0 ordered))"

definition pg_reorder_channels :: "string \<Rightarrow> uuid list \<Rightarrow> unit dbact" where
  "pg_reorder_channels category_id ordered = transaction (for_each
     (\<lambda>(i, gid). modify (\<lambda>d. d\<lparr>db_groups :=
        upd_where (\<lambda>g. g_id g = gid)
          (\<lambda>g. g\<lparr>g_category := category_id, g_position := as_i32 (int i)\<rparr>) (db_groups d)\<rparr>))
     (List.enumerate 0 ordered))"

section \<open>Member and device lists\<close>

definition pg_member_ids :: "uuid \<Rightarrow> uuid list dbact" where
  "pg_member_ids group_id =
     gets (\<lambda>d. map gm_user (filter (\<lambda>m. gm_group m = group_id) (db_members d)))"

definition pg_device_ids_for_group :: "uuid \<Rightarrow> uuid list dbact" where
  "pg_device_ids_for_group group_id = gets (\<lambda>d.
     [d_id v. v \<leftarrow> db_devices d, m \<leftarrow> db_members d,
        gm_user m = d_user v \<and> gm_group m = group_id \<and> d_revoked_at v = None])"

definition pg_device_ids_for_user :: "uuid \<Rightarrow> uuid list dbact" where
  "pg_device_ids_for_user user_id = gets (\<lambda>d.
     map d_id (filter (\<lambda>v. d_user v = user_id \<and> d_revoked_at v = None) (db_devices d)))"

definition pg_list_members :: "(string \<Rightarrow> string) \<Rightarrow> uuid \<Rightarrow> member_row list dbact" where
  "pg_list_members coll group_id = gets (\<lambda>d.
     map (\<lambda>u. \<lparr>mb_user_id = u_id u, mb_username = u_username u, mb_display_name = u_display_name u,
          mb_is_owner = u_is_owner u, mb_avatar_url = u_avatar_url u\<rparr>)
       (sort_key (\<lambda>u. coll (u_display_name u))
         [u. u \<leftarrow> db_users d, m \<leftarrow> db_members d, gm_user m = u_id u \<and> gm_group m = group_id]))"

section \<open>Tavern identity\<close>

definition pg_ensure_tavern :: "uuid \<Rightarrow> unit dbact" where
  "pg_ensure_tavern tid =
     pg_insert_or_nothing (\<lambda>d. exists_where (\<lambda>t. ti_id t = tid) (db_tavern d)) (\<lambda>d. True)
       (\<lambda>d. d\<lparr>db_tavern := db_tavern d @
          [\<lparr>ti_id = tid, ti_name = '''', ti_icon_url = '''', ti_description = '''',
            ti_linking = False, ti_banner_url = ''''\<rparr>]\<rparr>)"

definition pg_get_tavern :: "tavern_row dbact" where
  "pg_get_tavern = gets (\<lambda>d. case sql_limit 1 (db_tavern d) of
       t # _ \<Rightarrow> \<lparr>tr_name = ti_name t, tr_icon_url = ti_icon_url t, tr_description = ti_description t,
              tr_linking_enabled = ti_linking t, tr_banner_url = ti_banner_url t\<rparr>
     | [] \<Rightarrow> \<lparr>tr_name = '''', tr_icon_url = '''', tr_description = '''', tr_linking_enabled = False,
              tr_banner_url = ''''\<rparr>)"

definition pg_upsert_tavern :: "uuid \<Rightarrow> string \<Rightarrow> string \<Rightarrow> string \<Rightarrow> string \<Rightarrow> unit dbact" where
  "pg_upsert_tavern tid name icon_url description banner_url =
     pg_upsert (\<lambda>d. exists_where (\<lambda>t. ti_id t = tid) (db_tavern d)) (\<lambda>d. False) (\<lambda>d. True)
       (\<lambda>d. d\<lparr>db_tavern := db_tavern d @
          [\<lparr>ti_id = tid, ti_name = name, ti_icon_url = icon_url, ti_description = description,
            ti_linking = False, ti_banner_url = banner_url\<rparr>]\<rparr>)
       (\<lambda>d. d\<lparr>db_tavern := upd_where (\<lambda>t. ti_id t = tid)
          (\<lambda>t. t\<lparr>ti_name := name, ti_icon_url := icon_url, ti_description := description,
                ti_banner_url := banner_url\<rparr>) (db_tavern d)\<rparr>)"

section \<open>Bans and the audit log\<close>

definition pg_ban_user :: "uuid \<Rightarrow> uuid \<Rightarrow> string \<Rightarrow> unit dbact" where
  "pg_ban_user user_id banned_by reason =
     bnd now_ms (\<lambda>now.
     pg_upsert (\<lambda>d. exists_where (\<lambda>b. bn_user b = user_id) (db_bans d)) (\<lambda>d. False) (has_user user_id)
       (\<lambda>d. d\<lparr>db_bans := db_bans d @
          [\<lparr>bn_user = user_id, bn_by = banned_by, bn_reason = reason, bn_created_at = now\<rparr>]\<rparr>)
       (\<lambda>d. d\<lparr>db_bans := upd_where (\<lambda>b. bn_user b = user_id)
          (\<lambda>b. b\<lparr>bn_by := banned_by, bn_reason := reason\<rparr>) (db_bans d)\<rparr>))"

definition pg_unban_user :: "uuid \<Rightarrow> unit dbact" where
  "pg_unban_user user_id = modify (\<lambda>d. d\<lparr>db_bans :=
     del_where (\<lambda>b. bn_user b = user_id) (db_bans d)\<rparr>)"

definition pg_is_banned :: "uuid \<Rightarrow> bool dbact" where
  "pg_is_banned user_id = gets (\<lambda>d. exists_where (\<lambda>b. bn_user b = user_id) (db_bans d))"

definition pg_list_bans :: "ban_row list dbact" where
  "pg_list_bans = gets (\<lambda>d.
     map (\<lambda>b. \<lparr>br_user_id = bn_user b, br_reason = bn_reason b, br_banned_by = bn_by b,
          br_created_at_ms = bn_created_at b\<rparr>)
       (order_desc bn_created_at (db_bans d)))"

definition pg_record_audit :: "uuid \<Rightarrow> string \<Rightarrow> string \<Rightarrow> string \<Rightarrow> string \<Rightarrow> unit dbact" where
  "pg_record_audit actor_id action target verdict reason =
     bnd now_v7 (\<lambda>id.
     bnd now_ms (\<lambda>now.
     pg_insert (\<lambda>d. exists_where (\<lambda>a. al_id a = id) (db_audit d)) (\<lambda>d. True)
       (\<lambda>d. d\<lparr>db_audit := db_audit d @
          [\<lparr>al_id = id, al_actor = actor_id, al_action = action, al_target = target,
            al_verdict = verdict, al_reason = reason, al_created_at = now\<rparr>]\<rparr>)))"

definition pg_list_audit :: "int \<Rightarrow> audit_row list dbact" where
  "pg_list_audit limit =
     bnd (gets (\<lambda>d. order_desc al_created_at (db_audit d))) (\<lambda>rows.
     bnd (pg_limit limit rows) (\<lambda>rows.
     ret (map (\<lambda>a. \<lparr>ar_actor_id = al_actor a, ar_action = al_action a, ar_target = al_target a,
          ar_verdict = al_verdict a, ar_reason = al_reason a, ar_created_at_ms = al_created_at a\<rparr>) rows)))"

definition pg_admin_device_ids :: "permissions \<Rightarrow> uuid list dbact" where
  "pg_admin_device_ids perm_mask = gets (\<lambda>d.
     remdups (map d_id (filter
       (\<lambda>v. d_revoked_at v = None \<and>
          ((case find_user (d_user v) d of None \<Rightarrow> False | Some u \<Rightarrow> u_is_owner u) \<or>
           d_user v \<in> set [mr_user m. m \<leftarrow> db_member_roles d, r \<leftarrow> db_roles d,
             ro_id r = mr_role m \<and> ro_permissions r AND perm_mask \<noteq> 0]))
       (db_devices d))))"

section \<open>Messages\<close>

text \<open>\<open>nextval\<close> of the column's sequence: drawn before the row is checked, never given back.\<close>

definition pg_pub_nextval :: "int dbact" where
  "pg_pub_nextval =
     bnd (modify (\<lambda>d. d\<lparr>db_pub_seq := db_pub_seq d + 1\<rparr>)) (\<lambda>_. gets db_pub_seq)"

definition pg_priv_nextval :: "int dbact" where
  "pg_priv_nextval =
     bnd (modify (\<lambda>d. d\<lparr>db_priv_seq := db_priv_seq d + 1\<rparr>)) (\<lambda>_. gets db_priv_seq)"

definition pg_insert_public_message :: "uuid \<Rightarrow> uuid \<Rightarrow> string \<Rightarrow> uuid \<Rightarrow> public_message_row dbact" where
  "pg_insert_public_message group_id sender_id content client_message_id =
     bnd now_v7 (\<lambda>id.
     bnd now_ms (\<lambda>now.
     bnd pg_pub_nextval (\<lambda>n.
     bnd (pg_upsert
       (\<lambda>d. exists_where (\<lambda>m. pm_group m = group_id \<and> pm_client_id m = client_message_id) (db_public d))
       (\<lambda>d. exists_where (\<lambda>m. pm_id m = id) (db_public d))
       (\<lambda>d. has_group group_id d \<and> has_user sender_id d)
       (\<lambda>d. d\<lparr>db_public := db_public d @
            [\<lparr>pm_seq = n, pm_id = id, pm_group = group_id, pm_sender = sender_id, pm_content = content,
              pm_client_id = client_message_id, pm_created_at = now\<rparr>]\<rparr>)
       (\<lambda>d. d)) (\<lambda>_.
     bnd (gets (\<lambda>d. List.find (\<lambda>m. pm_group m = group_id \<and> pm_client_id m = client_message_id)
       (db_public d))) (\<lambda>row.
     bnd (some_or (Database RowNotFound) row) (\<lambda>r.
     bnd (gets (find_user sender_id)) (\<lambda>u.
     bnd (some_or (Database RowNotFound) u) (\<lambda>name_row.
     ret \<lparr>pr_id = pm_id r, pr_group_id = group_id, pr_sender_id = sender_id,
          pr_sender_display_name = u_display_name name_row, pr_content = content, pr_seq = pm_seq r,
          pr_created_at = pm_created_at r\<rparr>))))))))"

definition pg_fetch_public_history :: "uuid \<Rightarrow> int \<Rightarrow> int \<Rightarrow> public_message_row list dbact" where
  "pg_fetch_public_history group_id before_seq limit =
     (let upper = (if before_seq \<le> 0 then i64_max else before_seq) in
     bnd (gets (\<lambda>d. order_desc (\<lambda>(m, u). pm_seq m)
         [(m, u). m \<leftarrow> db_public d, u \<leftarrow> db_users d,
            u_id u = pm_sender m \<and> pm_group m = group_id \<and> pm_seq m < upper])) (\<lambda>rows.
     bnd (pg_limit limit rows) (\<lambda>rows.
     ret (map (\<lambda>(m, u). \<lparr>pr_id = pm_id m, pr_group_id = pm_group m, pr_sender_id = pm_sender m,
          pr_sender_display_name = u_display_name u, pr_content = pm_content m, pr_seq = pm_seq m,
          pr_created_at = pm_created_at m\<rparr>) rows))))"

definition pg_store_private_message ::
  "uuid \<Rightarrow> uuid \<Rightarrow> uuid \<Rightarrow> bytes \<Rightarrow> 64 word \<Rightarrow> uuid \<Rightarrow> private_message_row dbact" where
  "pg_store_private_message group_id sender_id sender_device_id ciphertext epoch client_message_id =
     bnd now_v7 (\<lambda>id.
     bnd now_ms (\<lambda>now.
     bnd pg_priv_nextval (\<lambda>n.
     bnd (pg_upsert
       (\<lambda>d. exists_where (\<lambda>m. vm_group m = group_id \<and> vm_client_id m = client_message_id) (db_private d))
       (\<lambda>d. exists_where (\<lambda>m. vm_id m = id) (db_private d))
       (\<lambda>d. has_group group_id d \<and> has_user sender_id d \<and> has_device sender_device_id d)
       (\<lambda>d. d\<lparr>db_private := db_private d @
            [\<lparr>vm_seq = n, vm_id = id, vm_group = group_id, vm_sender = sender_id,
              vm_device = sender_device_id, vm_ciphertext = ciphertext, vm_epoch = epoch,
              vm_client_id = client_message_id, vm_created_at = now\<rparr>]\<rparr>)
       (\<lambda>d. d)) (\<lambda>_.
     bnd (gets (\<lambda>d. List.find (\<lambda>m. vm_group m = group_id \<and> vm_client_id m = client_message_id)
       (db_private d))) (\<lambda>row.
     bnd (some_or (Database RowNotFound) row) (\<lambda>r.
     ret \<lparr>vr_id = vm_id r, vr_group_id = group_id, vr_sender_id = sender_id,
          vr_sender_device_id = sender_device_id, vr_ciphertext = ciphertext, vr_epoch = epoch,
          vr_seq = vm_seq r, vr_created_at = vm_created_at r\<rparr>))))))"

definition pg_fetch_private_history :: "uuid \<Rightarrow> int \<Rightarrow> int \<Rightarrow> private_message_row list dbact" where
  "pg_fetch_private_history group_id before_seq limit =
     (let upper = (if before_seq \<le> 0 then i64_max else before_seq) in
     bnd (gets (\<lambda>d. order_desc vm_seq
         (filter (\<lambda>m. vm_group m = group_id \<and> vm_seq m < upper) (db_private d)))) (\<lambda>rows.
     bnd (pg_limit limit rows) (\<lambda>rows.
     ret (map (\<lambda>m. \<lparr>vr_id = vm_id m, vr_group_id = vm_group m, vr_sender_id = vm_sender m,
          vr_sender_device_id = vm_device m, vr_ciphertext = vm_ciphertext m, vr_epoch = vm_epoch m,
          vr_seq = vm_seq m, vr_created_at = vm_created_at m\<rparr>) rows))))"

section \<open>Key packages\<close>

definition pg_insert_key_package :: "uuid \<Rightarrow> uuid \<Rightarrow> bytes \<Rightarrow> unit dbact" where
  "pg_insert_key_package user_id device_id pkg =
     bnd now_v7 (\<lambda>id.
     bnd now_ms (\<lambda>now.
     pg_insert (\<lambda>d. exists_where (\<lambda>k. kp_id k = id) (db_packages d))
       (\<lambda>d. has_user user_id d \<and> has_device device_id d)
       (\<lambda>d. d\<lparr>db_packages := db_packages d @
          [\<lparr>kp_id = id, kp_user = user_id, kp_device = device_id, kp_bytes = pkg,
            kp_consumed = False, kp_created_at = now\<rparr>]\<rparr>)))"

definition pg_store_key_packages :: "uuid \<Rightarrow> uuid \<Rightarrow> bytes list \<Rightarrow> nat dbact" where
  "pg_store_key_packages user_id device_id packages =
     bnd (for_each (pg_insert_key_package user_id device_id) packages) (\<lambda>_.
     bnd (modify (\<lambda>d.
       let live = filter (\<lambda>k. kp_device k = device_id \<and> \<not> kp_consumed k) (db_packages d);
           keep = map kp_id (sql_limit MAX_UNCONSUMED_KEY_PACKAGES (order_desc kp_id live))
       in d\<lparr>db_packages := del_where
            (\<lambda>k. kp_device k = device_id \<and> \<not> kp_consumed k \<and> kp_id k \<notin> set keep) (db_packages d)\<rparr>)) (\<lambda>_.
     ret (length packages)))"

definition pg_claim_one :: "uuid \<Rightarrow> claimed_key_package option dbact" where
  "pg_claim_one device_id =
     bnd (gets (\<lambda>d. sql_limit 1 (sort_key kp_created_at
       (filter (\<lambda>k. kp_device k = device_id \<and> \<not> kp_consumed k) (db_packages d))))) (\<lambda>picked.
     case picked of
       [] \<Rightarrow> ret None
     | p # _ \<Rightarrow>
         bnd (modify (\<lambda>d. d\<lparr>db_packages :=
           upd_where (\<lambda>k. kp_id k = kp_id p) (\<lambda>k. k\<lparr>kp_consumed := True\<rparr>) (db_packages d)\<rparr>)) (\<lambda>_.
         ret (Some \<lparr>ck_device_id = device_id, ck_key_package = kp_bytes p\<rparr>)))"

definition pg_claim_key_packages_for_user :: "uuid \<Rightarrow> claimed_key_package list dbact" where
  "pg_claim_key_packages_for_user user_id =
     bnd (gets (\<lambda>d. remdups (map kp_device
       (filter (\<lambda>k. kp_user k = user_id \<and> \<not> kp_consumed k) (db_packages d))))) (\<lambda>device_ids.
     bnd (map_each pg_claim_one device_ids) (\<lambda>claimed.
     ret (List.map_filter id claimed)))"

section \<open>Offline inbox and friend requests\<close>

definition pg_enqueue_inbox :: "uuid \<Rightarrow> string \<Rightarrow> uuid \<Rightarrow> bytes \<Rightarrow> unit dbact" where
  "pg_enqueue_inbox device_id kind group_id payload =
     bnd now_v7 (\<lambda>id.
     bnd now_ms (\<lambda>now.
     bnd (ensure (kind \<in> {''welcome'', ''commit'', ''private''}) (Database CheckViolation)) (\<lambda>_.
     pg_insert (\<lambda>d. exists_where (\<lambda>i. ib_id i = id) (db_inbox d)) (has_device device_id)
       (\<lambda>d. d\<lparr>db_inbox := db_inbox d @
          [\<lparr>ib_id = id, ib_device = device_id, ib_kind = kind, ib_group = group_id,
            ib_payload = payload, ib_created_at = now\<rparr>]\<rparr>))))"

definition pg_drain_inbox :: "uuid \<Rightarrow> inbox_row list dbact" where
  "pg_drain_inbox device_id =
     bnd (gets (\<lambda>d. filter (\<lambda>i. ib_device i = device_id) (db_inbox d))) (\<lambda>rows.
     bnd (modify (\<lambda>d. d\<lparr>db_inbox := del_where (\<lambda>i. ib_device i = device_id) (db_inbox d)\<rparr>)) (\<lambda>_.
     ret (map to_inbox_row rows)))"

definition pg_upsert_friend_request :: "ext \<Rightarrow> uuid \<Rightarrow> bytes \<Rightarrow> string \<Rightarrow> string \<Rightarrow> unit dbact" where
  "pg_upsert_friend_request E recipient sender_identity kind contact_code =
     bnd now_v7 (\<lambda>id.
     bnd now_ms (\<lambda>now.
     bnd (ensure (kind \<in> {''request'', ''accept''}) (Database CheckViolation)) (\<lambda>_.
     pg_upsert
       (\<lambda>d. exists_where (\<lambda>f. fq_recipient f = recipient \<and> fq_sender f = sender_identity \<and>
              fq_kind f = kind) (db_friends d))
       (\<lambda>d. exists_where (\<lambda>f. fq_id f = to_str E id) (db_friends d))
       (has_user recipient)
       (\<lambda>d. d\<lparr>db_friends := db_friends d @
          [\<lparr>fq_id = to_str E id, fq_recipient = recipient, fq_sender = sender_identity, fq_kind = kind,
            fq_code = contact_code, fq_created_at = now\<rparr>]\<rparr>)
       (\<lambda>d. d\<lparr>db_friends := upd_where
          (\<lambda>f. fq_recipient f = recipient \<and> fq_sender f = sender_identity \<and> fq_kind f = kind)
          (\<lambda>f. f\<lparr>fq_code := contact_code\<rparr>) (db_friends d)\<rparr>))))"

definition pg_list_friend_requests :: "uuid \<Rightarrow> friend_request_row list dbact" where
  "pg_list_friend_requests recipient = gets (\<lambda>d.
     map (\<lambda>f. \<lparr>fe_id = fq_id f, fe_kind = fq_kind f, fe_contact_code = fq_code f,
          fe_created_at_ms = fq_created_at f\<rparr>)
       (sort_key fq_created_at (filter (\<lambda>f. fq_recipient f = recipient) (db_friends d))))"

definition pg_delete_friend_request :: "uuid \<Rightarrow> string \<Rightarrow> unit dbact" where
  "pg_delete_friend_request recipient rid = modify (\<lambda>d. d\<lparr>db_friends :=
     del_where (\<lambda>f. fq_id f = rid \<and> fq_recipient f = recipient) (db_friends d)\<rparr>)"

definition pg_count_friend_requests :: "uuid \<Rightarrow> int dbact" where
  "pg_count_friend_requests recipient =
     gets (\<lambda>d. int (length (filter (\<lambda>f. fq_recipient f = recipient) (db_friends d))))"

end
