(* ===== verification/Store_Backends.thy ===== *)
theory Store_Backends
  imports Store_Postgres
begin

text \<open>
  The two implementations of the \<open>Store\<close> trait side by side.  \<open>store_call\<close> is a call of one of the
  trait's writing methods, \<open>sq_run\<close> and \<open>pg_run\<close> dispatch it (the \<open>dyn Store\<close> the services hold).

  \<^item> \<open>pg_ok\<close> is the PostgreSQL schema: primary and unique keys, \<open>REFERENCES\<close>, \<open>CHECK\<close>s and 32-bit
    columns.  Every call keeps it, whether it succeeds or fails, so it holds in every database the
    methods can produce.
  \<^item> On such a database a call does the same to the tables on either back end, apart from the cases
    \<open>portable\<close> excludes, which are listed there one by one.
  \<^item> The reads that authorization rests on give the same answers on either back end.
\<close>

section \<open>Calls of the trait\<close>

datatype account_call =
    CreateUser string string string bool bool "bytes option"
  | UpdateProfile uuid string string
  | CreateInvite string uuid
  | RevokeInvite string
  | UpsertBackup uuid bytes bytes bytes int
  | DeleteBackup uuid
  | PutVaultBlob uuid string bytes
  | DeleteVaultBlob uuid string

datatype roles_call =
    EnsureDefaultRole uuid string permissions
  | CreateRole role_write
  | UpdateRole uuid role_write
  | DeleteRole uuid
  | ReorderRoles "uuid list"
  | AssignRole uuid uuid
  | UnassignRole uuid uuid

datatype device_call =
    CreateDevice uuid string
  | RevokeDevice uuid uuid
  | SetDeviceCredential uuid bytes
  | StoreRefreshToken string uuid uuid int
  | DeleteRefreshToken string
  | StoreKeyPackages uuid uuid "bytes list"
  | ClaimKeyPackagesForUser uuid

datatype group_call =
    CreatePublicGroup string string string string
  | CreatePrivateGroupWithId uuid string
  | AddMember uuid uuid string
  | RemoveMember uuid uuid
  | DeleteGroup uuid
  | EnsureDefaultCategories
  | CreateCategory string
  | DeleteCategory uuid
  | ReorderCategories "uuid list"
  | ReorderChannels string "uuid list"

datatype tavern_call =
    EnsureTavern uuid
  | UpsertTavern uuid string string string string
  | BanUser uuid uuid string
  | UnbanUser uuid
  | RecordAudit uuid string string string string

datatype message_call =
    InsertPublicMessage uuid uuid string uuid
  | StorePrivateMessage uuid uuid uuid bytes "64 word" uuid
  | EnqueueInbox uuid string uuid bytes
  | DrainInbox uuid
  | UpsertFriendRequest uuid bytes string string
  | DeleteFriendRequest uuid string

datatype store_call =
    AccountCall account_call
  | RoleCall roles_call
  | DeviceCall device_call
  | GroupCall group_call
  | TavernCall tavern_call
  | MessageCall message_call

definition void :: "'a dbact \<Rightarrow> unit dbact" where
  "void m = bnd m (\<lambda>_. ret ())"

fun pg_account :: "ext \<Rightarrow> account_call \<Rightarrow> unit dbact" where
  "pg_account E (CreateUser a b c x y k) = void (pg_create_user a b c x y k)"
| "pg_account E (UpdateProfile u a b) = pg_update_profile u a b"
| "pg_account E (CreateInvite t u) = pg_create_invite t u"
| "pg_account E (RevokeInvite t) = pg_revoke_invite t"
| "pg_account E (UpsertBackup u b s p v) = pg_upsert_backup u b s p v"
| "pg_account E (DeleteBackup u) = pg_delete_backup u"
| "pg_account E (PutVaultBlob u n b) = pg_put_vault_blob u n b"
| "pg_account E (DeleteVaultBlob u n) = pg_delete_vault_blob u n"

fun pg_role :: "ext \<Rightarrow> roles_call \<Rightarrow> unit dbact" where
  "pg_role E (EnsureDefaultRole r n p) = pg_ensure_default_role r n p"
| "pg_role E (CreateRole w) = void (pg_create_role w)"
| "pg_role E (UpdateRole r w) = pg_update_role r w"
| "pg_role E (DeleteRole r) = pg_delete_role r"
| "pg_role E (ReorderRoles rs) = pg_reorder_roles rs"
| "pg_role E (AssignRole u r) = pg_assign_role u r"
| "pg_role E (UnassignRole u r) = pg_unassign_role u r"

fun pg_device :: "ext \<Rightarrow> device_call \<Rightarrow> unit dbact" where
  "pg_device E (CreateDevice u n) = void (pg_create_device u n)"
| "pg_device E (RevokeDevice u v) = pg_revoke_device u v"
| "pg_device E (SetDeviceCredential v c) = pg_set_device_credential v c"
| "pg_device E (StoreRefreshToken t u v e) = pg_store_refresh_token t u v e"
| "pg_device E (DeleteRefreshToken t) = pg_delete_refresh_token t"
| "pg_device E (StoreKeyPackages u v ps) = void (pg_store_key_packages u v ps)"
| "pg_device E (ClaimKeyPackagesForUser u) = void (pg_claim_key_packages_for_user u)"

fun pg_group :: "ext \<Rightarrow> group_call \<Rightarrow> unit dbact" where
  "pg_group E (CreatePublicGroup n s k c) = void (pg_create_public_group n s k c)"
| "pg_group E (CreatePrivateGroupWithId g n) = pg_create_private_group_with_id E g n"
| "pg_group E (AddMember g u r) = pg_add_member g u r"
| "pg_group E (RemoveMember g u) = pg_remove_member g u"
| "pg_group E (DeleteGroup g) = pg_delete_group g"
| "pg_group E EnsureDefaultCategories = pg_ensure_default_categories E"
| "pg_group E (CreateCategory n) = void (pg_create_category n)"
| "pg_group E (DeleteCategory c) = pg_delete_category E c"
| "pg_group E (ReorderCategories cs) = pg_reorder_categories cs"
| "pg_group E (ReorderChannels c gs) = pg_reorder_channels c gs"

fun pg_tavern :: "ext \<Rightarrow> tavern_call \<Rightarrow> unit dbact" where
  "pg_tavern E (EnsureTavern t) = pg_ensure_tavern t"
| "pg_tavern E (UpsertTavern t a b c e) = pg_upsert_tavern t a b c e"
| "pg_tavern E (BanUser u b r) = pg_ban_user u b r"
| "pg_tavern E (UnbanUser u) = pg_unban_user u"
| "pg_tavern E (RecordAudit a b c v r) = pg_record_audit a b c v r"

fun pg_message :: "ext \<Rightarrow> message_call \<Rightarrow> unit dbact" where
  "pg_message E (InsertPublicMessage g u c i) = void (pg_insert_public_message g u c i)"
| "pg_message E (StorePrivateMessage g u v c e i) = void (pg_store_private_message g u v c e i)"
| "pg_message E (EnqueueInbox v k g p) = pg_enqueue_inbox v k g p"
| "pg_message E (DrainInbox v) = void (pg_drain_inbox v)"
| "pg_message E (UpsertFriendRequest u s k c) = pg_upsert_friend_request E u s k c"
| "pg_message E (DeleteFriendRequest u i) = pg_delete_friend_request u i"

fun pg_run :: "ext \<Rightarrow> store_call \<Rightarrow> unit dbact" where
  "pg_run E (AccountCall c) = pg_account E c"
| "pg_run E (RoleCall c) = pg_role E c"
| "pg_run E (DeviceCall c) = pg_device E c"
| "pg_run E (GroupCall c) = pg_group E c"
| "pg_run E (TavernCall c) = pg_tavern E c"
| "pg_run E (MessageCall c) = pg_message E c"

fun sq_account :: "ext \<Rightarrow> account_call \<Rightarrow> unit dbact" where
  "sq_account E (CreateUser a b c x y k) = void (sq_create_user a b c x y k)"
| "sq_account E (UpdateProfile u a b) = sq_update_profile u a b"
| "sq_account E (CreateInvite t u) = sq_create_invite t u"
| "sq_account E (RevokeInvite t) = sq_revoke_invite t"
| "sq_account E (UpsertBackup u b s p v) = sq_upsert_backup u b s p v"
| "sq_account E (DeleteBackup u) = sq_delete_backup u"
| "sq_account E (PutVaultBlob u n b) = sq_put_vault_blob u n b"
| "sq_account E (DeleteVaultBlob u n) = sq_delete_vault_blob u n"

fun sq_role :: "ext \<Rightarrow> roles_call \<Rightarrow> unit dbact" where
  "sq_role E (EnsureDefaultRole r n p) = sq_ensure_default_role r n p"
| "sq_role E (CreateRole w) = void (sq_create_role w)"
| "sq_role E (UpdateRole r w) = sq_update_role r w"
| "sq_role E (DeleteRole r) = sq_delete_role r"
| "sq_role E (ReorderRoles rs) = sq_reorder_roles rs"
| "sq_role E (AssignRole u r) = sq_assign_role u r"
| "sq_role E (UnassignRole u r) = sq_unassign_role u r"

fun sq_device :: "ext \<Rightarrow> device_call \<Rightarrow> unit dbact" where
  "sq_device E (CreateDevice u n) = void (sq_create_device u n)"
| "sq_device E (RevokeDevice u v) = sq_revoke_device u v"
| "sq_device E (SetDeviceCredential v c) = sq_set_device_credential v c"
| "sq_device E (StoreRefreshToken t u v e) = sq_store_refresh_token t u v e"
| "sq_device E (DeleteRefreshToken t) = sq_delete_refresh_token t"
| "sq_device E (StoreKeyPackages u v ps) = void (sq_store_key_packages u v ps)"
| "sq_device E (ClaimKeyPackagesForUser u) = void (sq_claim_key_packages_for_user u)"

fun sq_group :: "ext \<Rightarrow> group_call \<Rightarrow> unit dbact" where
  "sq_group E (CreatePublicGroup n s k c) = void (sq_create_public_group n s k c)"
| "sq_group E (CreatePrivateGroupWithId g n) = sq_create_private_group_with_id E g n"
| "sq_group E (AddMember g u r) = sq_add_member g u r"
| "sq_group E (RemoveMember g u) = sq_remove_member g u"
| "sq_group E (DeleteGroup g) = sq_delete_group g"
| "sq_group E EnsureDefaultCategories = sq_ensure_default_categories E"
| "sq_group E (CreateCategory n) = void (sq_create_category n)"
| "sq_group E (DeleteCategory c) = sq_delete_category E c"
| "sq_group E (ReorderCategories cs) = sq_reorder_categories cs"
| "sq_group E (ReorderChannels c gs) = sq_reorder_channels c gs"

fun sq_tavern :: "ext \<Rightarrow> tavern_call \<Rightarrow> unit dbact" where
  "sq_tavern E (EnsureTavern t) = sq_ensure_tavern t"
| "sq_tavern E (UpsertTavern t a b c e) = sq_upsert_tavern t a b c e"
| "sq_tavern E (BanUser u b r) = sq_ban_user u b r"
| "sq_tavern E (UnbanUser u) = sq_unban_user u"
| "sq_tavern E (RecordAudit a b c v r) = sq_record_audit a b c v r"

fun sq_message :: "ext \<Rightarrow> message_call \<Rightarrow> unit dbact" where
  "sq_message E (InsertPublicMessage g u c i) = void (sq_insert_public_message g u c i)"
| "sq_message E (StorePrivateMessage g u v c e i) = void (sq_store_private_message g u v c e i)"
| "sq_message E (EnqueueInbox v k g p) = sq_enqueue_inbox v k g p"
| "sq_message E (DrainInbox v) = void (sq_drain_inbox v)"
| "sq_message E (UpsertFriendRequest u s k c) = sq_upsert_friend_request E u s k c"
| "sq_message E (DeleteFriendRequest u i) = sq_delete_friend_request u i"

fun sq_run :: "ext \<Rightarrow> store_call \<Rightarrow> unit dbact" where
  "sq_run E (AccountCall c) = sq_account E c"
| "sq_run E (RoleCall c) = sq_role E c"
| "sq_run E (DeviceCall c) = sq_device E c"
| "sq_run E (GroupCall c) = sq_group E c"
| "sq_run E (TavernCall c) = sq_tavern E c"
| "sq_run E (MessageCall c) = sq_message E c"

fun run_calls :: "(store_call \<Rightarrow> unit dbact) \<Rightarrow> store_call list \<Rightarrow> db \<Rightarrow> db" where
  "run_calls run [] d = d"
| "run_calls run (c # cs) d = run_calls run cs (snd (run c d))"

section \<open>Columns: keys, references, ranges\<close>

definition keyed :: "('r \<Rightarrow> 'k) \<Rightarrow> 'r list \<Rightarrow> bool" where
  "keyed k t \<longleftrightarrow> distinct (map k t)"

definition keyed_some :: "('r \<Rightarrow> 'k option) \<Rightarrow> 'r list \<Rightarrow> bool" where
  "keyed_some k t \<longleftrightarrow> distinct (List.map_filter k t)"

definition refs :: "('r \<Rightarrow> 'k) \<Rightarrow> 'r list \<Rightarrow> ('s \<Rightarrow> 'k) \<Rightarrow> 's list \<Rightarrow> bool" where
  "refs k t k' t' \<longleftrightarrow> k ` set t \<subseteq> k' ` set t'"

definition col_in :: "'k set \<Rightarrow> ('r \<Rightarrow> 'k) \<Rightarrow> 'r list \<Rightarrow> bool" where
  "col_in A k t \<longleftrightarrow> k ` set t \<subseteq> A"

named_theorems col_simps

lemma col_Nil [col_simps]: "keyed k []" "keyed_some q []" "refs k [] k' t'" "col_in A k []"
  by (simp_all add: keyed_def keyed_some_def refs_def col_in_def List.map_filter_def)

lemma keyed_snoc [col_simps]: "keyed k (t @ [r]) \<longleftrightarrow> keyed k t \<and> \<not> (\<exists>x \<in> set t. k x = k r)"
  by (auto simp: keyed_def image_iff)

lemma keyed_upd [col_simps]: "(\<And>r. k (f r) = k r) \<Longrightarrow> keyed k (upd_where P f t) = keyed k t"
  by (simp add: keyed_def map_upd_where)

lemma keyed_del [col_simps]: "keyed k t \<Longrightarrow> keyed k (del_where P t)"
  by (simp add: keyed_def distinct_map_del_where)

lemma keyed_some_snoc [col_simps]:
  "keyed_some k (t @ [r]) \<longleftrightarrow> keyed_some k t \<and> (k r = None \<or> \<not> (\<exists>x \<in> set t. k x = k r))"
  by (cases "k r") (auto simp: keyed_some_def List.map_filter_def image_iff)

lemma map_filter_cols: "List.map_filter k t = List.map_filter id (map k t)"
  by (induction t) (simp_all add: List.map_filter_def)

lemma keyed_some_upd [col_simps]: "(\<And>r. k (f r) = k r) \<Longrightarrow> keyed_some k (upd_where P f t) = keyed_some k t"
  by (simp add: keyed_some_def map_filter_cols [of k "upd_where P f t"] map_filter_cols [of k t] map_upd_where)

lemma refs_snoc [col_simps]: "refs k (t @ [r]) k' t' \<longleftrightarrow> refs k t k' t' \<and> (\<exists>x \<in> set t'. k' x = k r)"
  by (auto simp: refs_def image_iff intro: sym)

lemma refs_grow [col_simps]: "refs k t k' t' \<Longrightarrow> refs k t k' (t' @ [r])"
  by (auto simp: refs_def)

lemma image_upd_where: "(\<And>r. k (f r) = k r) \<Longrightarrow> k ` set (upd_where P f t) = k ` set t"
  using map_upd_where [of k f P t] by (metis list.set_map)

lemma refs_upd [col_simps]: "(\<And>r. k (f r) = k r) \<Longrightarrow> refs k (upd_where P f t) k' t' = refs k t k' t'"
  by (simp add: refs_def image_upd_where)

lemma refs_upd_target [col_simps]: "(\<And>r. k' (f r) = k' r) \<Longrightarrow> refs k t k' (upd_where P f t') = refs k t k' t'"
  by (simp add: refs_def image_upd_where)

lemma refs_del [col_simps]: "refs k t k' t' \<Longrightarrow> refs k (del_where P t) k' t'"
  by (auto simp: refs_def)

lemma refs_cascade:
  "refs k t k' t' \<Longrightarrow> (\<And>x r. x \<in> set t' \<Longrightarrow> Q x \<Longrightarrow> k r = k' x \<Longrightarrow> P r) \<Longrightarrow>
   refs k (del_where P t) k' (del_where Q t')"
  by (fastforce simp: refs_def image_iff subset_iff)

lemma col_in_snoc [col_simps]: "col_in A k (t @ [r]) \<longleftrightarrow> col_in A k t \<and> k r \<in> A"
  by (auto simp: col_in_def)

lemma col_in_upd [col_simps]: "(\<And>r. k (f r) \<in> A \<or> k (f r) = k r) \<Longrightarrow> col_in A k t \<Longrightarrow> col_in A k (upd_where P f t)"
  by (fastforce simp: col_in_def set_upd_where)

lemma col_in_del [col_simps]: "col_in A k t \<Longrightarrow> col_in A k (del_where P t)"
  by (auto simp: col_in_def)


section \<open>The PostgreSQL schema\<close>

abbreviation i32s :: "int set" where
  "i32s \<equiv> {- 2147483648..i32_max}"

definition keys_ok :: "db \<Rightarrow> bool" where
  "keys_ok d \<longleftrightarrow>
     keyed u_id (db_users d) \<and> keyed u_username (db_users d) \<and> keyed_some u_identity_key (db_users d) \<and>
     keyed d_id (db_devices d) \<and> keyed rt_token (db_refresh d) \<and> keyed g_id (db_groups d) \<and>
     keyed (\<lambda>m. (gm_group m, gm_user m)) (db_members d) \<and>
     keyed pm_id (db_public d) \<and> keyed (\<lambda>m. (pm_group m, pm_client_id m)) (db_public d) \<and>
     keyed vm_id (db_private d) \<and> keyed (\<lambda>m. (vm_group m, vm_client_id m)) (db_private d) \<and>
     keyed kp_id (db_packages d) \<and> keyed ib_id (db_inbox d) \<and> keyed in_token (db_invites d) \<and>
     keyed ro_id (db_roles d) \<and> keyed (\<lambda>m. (mr_user m, mr_role m)) (db_member_roles d) \<and>
     keyed kb_user (db_backups d) \<and> keyed (\<lambda>r. (vb_user r, vb_name r)) (db_vault d) \<and>
     keyed fq_id (db_friends d) \<and> keyed (\<lambda>f. (fq_recipient f, fq_sender f, fq_kind f)) (db_friends d) \<and>
     keyed ti_id (db_tavern d) \<and> keyed bn_user (db_bans d) \<and> keyed al_id (db_audit d) \<and>
     keyed ca_id (db_categories d)"

definition refs_ok :: "db \<Rightarrow> bool" where
  "refs_ok d \<longleftrightarrow>
     refs d_user (db_devices d) u_id (db_users d) \<and>
     refs rt_user (db_refresh d) u_id (db_users d) \<and> refs rt_device (db_refresh d) d_id (db_devices d) \<and>
     refs gm_group (db_members d) g_id (db_groups d) \<and> refs gm_user (db_members d) u_id (db_users d) \<and>
     refs pm_group (db_public d) g_id (db_groups d) \<and> refs pm_sender (db_public d) u_id (db_users d) \<and>
     refs vm_group (db_private d) g_id (db_groups d) \<and> refs vm_sender (db_private d) u_id (db_users d) \<and>
     refs vm_device (db_private d) d_id (db_devices d) \<and>
     refs kp_user (db_packages d) u_id (db_users d) \<and> refs kp_device (db_packages d) d_id (db_devices d) \<and>
     refs ib_device (db_inbox d) d_id (db_devices d) \<and>
     refs in_created_by (db_invites d) u_id (db_users d) \<and>
     refs mr_user (db_member_roles d) u_id (db_users d) \<and> refs mr_role (db_member_roles d) ro_id (db_roles d) \<and>
     refs kb_user (db_backups d) u_id (db_users d) \<and> refs vb_user (db_vault d) u_id (db_users d) \<and>
     refs fq_recipient (db_friends d) u_id (db_users d) \<and> refs bn_user (db_bans d) u_id (db_users d)"

definition domains_ok :: "db \<Rightarrow> bool" where
  "domains_ok d \<longleftrightarrow>
     col_in {''public'', ''private''} g_kind (db_groups d) \<and> col_in i32s g_position (db_groups d) \<and>
     col_in i32s ro_position (db_roles d) \<and> col_in i32s ca_position (db_categories d) \<and>
     col_in {''welcome'', ''commit'', ''private''} ib_kind (db_inbox d) \<and>
     col_in {''request'', ''accept''} fq_kind (db_friends d)"

definition seqs_ok :: "db \<Rightarrow> bool" where
  "seqs_ok d \<longleftrightarrow>
     0 \<le> db_pub_seq d \<and> keyed pm_seq (db_public d) \<and> col_in {1..db_pub_seq d} pm_seq (db_public d) \<and>
     0 \<le> db_priv_seq d \<and> keyed vm_seq (db_private d) \<and> col_in {1..db_priv_seq d} vm_seq (db_private d)"

definition pg_ok :: "db \<Rightarrow> bool" where
  "pg_ok d \<longleftrightarrow> keys_ok d \<and> refs_ok d \<and> domains_ok d \<and> seqs_ok d \<and> db_fk d"

definition keeps :: "(db \<Rightarrow> bool) \<Rightarrow> db \<Rightarrow> db \<Rightarrow> bool" where
  "keeps P d d' \<longleftrightarrow> (P d \<longrightarrow> P d')"

lemma ok_env: "pg_ok (d\<lparr>db_env := e\<rparr>) = pg_ok d"
  by (simp add: pg_ok_def keys_ok_def refs_ok_def domains_ok_def seqs_ok_def)

interpretation okf: db_frame "keeps pg_ok"
  by unfold_locales (auto simp: keeps_def ok_env)

lemmas ok_defs = pg_ok_def keys_ok_def refs_ok_def domains_ok_def seqs_ok_def

lemma okf_pg_insert:
  "(\<And>d. pg_ok d \<Longrightarrow> \<not> c d \<Longrightarrow> r d \<Longrightarrow> pg_ok (f d)) \<Longrightarrow> effect (keeps pg_ok) (pg_insert c r f)"
  by (simp add: effect_def pg_insert_def keeps_def)

lemma okf_pg_insert_or_nothing:
  "(\<And>d. pg_ok d \<Longrightarrow> \<not> c d \<Longrightarrow> r d \<Longrightarrow> pg_ok (f d)) \<Longrightarrow> effect (keeps pg_ok) (pg_insert_or_nothing c r f)"
  by (simp add: effect_def pg_insert_or_nothing_def keeps_def)

lemma okf_pg_upsert:
  "(\<And>d. pg_ok d \<Longrightarrow> \<not> c d \<Longrightarrow> \<not> o' d \<Longrightarrow> r d \<Longrightarrow> pg_ok (f d)) \<Longrightarrow>
   (\<And>d. pg_ok d \<Longrightarrow> c d \<Longrightarrow> pg_ok (g d)) \<Longrightarrow> effect (keeps pg_ok) (pg_upsert c o' r f g)"
  by (simp add: effect_def pg_upsert_def keeps_def)

lemma okf_modify: "(\<And>d. pg_ok d \<Longrightarrow> pg_ok (f d)) \<Longrightarrow> effect (keeps pg_ok) (modify f)"
  by (rule okf.frame_modify) (simp add: keeps_def)

lemma okf_void: "effect (keeps pg_ok) m \<Longrightarrow> effect (keeps pg_ok) (void m)"
  by (simp add: void_def okf.eff_rules)

lemma okf_on_unique: "effect (keeps pg_ok) m \<Longrightarrow> effect (keeps pg_ok) (on_unique e m)"
  by (simp add: on_unique_def okf.eff_rules)

lemma okf_ensure: "(b \<Longrightarrow> effect (keeps pg_ok) (f ())) \<Longrightarrow> effect (keeps pg_ok) (bnd (ensure b e) f)"
  by (cases b) (auto simp: effect_def bnd_ensure keeps_def)

lemma okf_list:
  "effect (keeps pg_ok) m \<Longrightarrow> (\<And>x xs. effect (keeps pg_ok) (f x xs)) \<Longrightarrow>
   effect (keeps pg_ok) (case rows of [] \<Rightarrow> m | x # xs \<Rightarrow> f x xs)"
  by (simp split: list.splits)

lemma okf_wp: "(\<And>d. pg_ok d \<Longrightarrow> wp m (\<lambda>_. pg_ok) (\<lambda>_. pg_ok) d) \<Longrightarrow> effect (keeps pg_ok) m"
  by (simp add: effect_def keeps_def wp_sndD)

lemma wp_pg_upsert [wp_simps]:
  "wp (pg_upsert c o' r f g) Q X =
     (\<lambda>d. if c d then Q () (g d)
          else if o' d then X (Database UniqueViolation) d
          else if \<not> r d then X (Database ForeignKeyViolation) d else Q () (f d))"
  by (simp add: wp_def pg_upsert_def fun_eq_iff)

lemmas okf_pg = okf_ensure okf_list okf.eff_rules okf.frame_clock okf.frame_transaction okf_pg_insert okf_pg_insert_or_nothing
  okf_pg_upsert okf_modify okf_void okf_on_unique

lemmas has_defs = has_user_def has_device_def has_group_def has_role_def

lemma ok_create_user: "effect (keeps pg_ok) (pg_create_user a b c x y k)"
  unfolding pg_create_user_def by (intro okf_pg) (auto simp: ok_defs col_simps)

lemma ok_update_profile: "effect (keeps pg_ok) (pg_update_profile u a b)"
  unfolding pg_update_profile_def by (intro okf_pg) (simp_all add: ok_defs col_simps has_defs as_i32_range)

lemma ok_create_invite: "effect (keeps pg_ok) (pg_create_invite t u)"
  unfolding pg_create_invite_def by (intro okf_pg) (simp_all add: ok_defs col_simps has_defs as_i32_range)

lemma ok_revoke_invite: "effect (keeps pg_ok) (pg_revoke_invite t)"
  unfolding pg_revoke_invite_def by (intro okf_pg) (simp_all add: ok_defs col_simps has_defs as_i32_range)

lemma ok_ensure_default_role: "effect (keeps pg_ok) (pg_ensure_default_role r n p)"
  unfolding pg_ensure_default_role_def by (intro okf_pg) (simp_all add: ok_defs col_simps has_defs as_i32_range)

lemma ok_create_role: "effect (keeps pg_ok) (pg_create_role w)"
  unfolding pg_create_role_def by (intro okf_pg) (simp_all add: ok_defs col_simps has_defs as_i32_range)

lemma ok_update_role: "effect (keeps pg_ok) (pg_update_role r w)"
  unfolding pg_update_role_def by (intro okf_pg) (simp_all add: ok_defs col_simps has_defs as_i32_range)

lemma ok_delete_role: "effect (keeps pg_ok) (pg_delete_role r)"
  unfolding pg_delete_role_def
  by (intro okf_pg) (auto simp: ok_defs col_simps intro!: refs_cascade)

lemma ok_reorder_roles: "effect (keeps pg_ok) (pg_reorder_roles rs)"
  unfolding pg_reorder_roles_def by (intro okf_pg) (simp_all add: ok_defs col_simps has_defs as_i32_range)

lemma ok_assign_role: "effect (keeps pg_ok) (pg_assign_role u r)"
  unfolding pg_assign_role_def by (intro okf_pg) (simp_all add: ok_defs col_simps has_defs as_i32_range)

lemma ok_unassign_role: "effect (keeps pg_ok) (pg_unassign_role u r)"
  unfolding pg_unassign_role_def by (intro okf_pg) (simp_all add: ok_defs col_simps has_defs as_i32_range)

lemma ok_upsert_backup: "effect (keeps pg_ok) (pg_upsert_backup u b s p v)"
  unfolding pg_upsert_backup_def by (intro okf_pg) (simp_all add: ok_defs col_simps has_defs as_i32_range)

lemma ok_delete_backup: "effect (keeps pg_ok) (pg_delete_backup u)"
  unfolding pg_delete_backup_def by (intro okf_pg) (simp_all add: ok_defs col_simps has_defs as_i32_range)

lemma ok_put_vault_blob: "effect (keeps pg_ok) (pg_put_vault_blob u n b)"
  unfolding pg_put_vault_blob_def by (intro okf_pg) (simp_all add: ok_defs col_simps has_defs as_i32_range)

lemma ok_delete_vault_blob: "effect (keeps pg_ok) (pg_delete_vault_blob u n)"
  unfolding pg_delete_vault_blob_def by (intro okf_pg) (simp_all add: ok_defs col_simps has_defs as_i32_range)

lemma ok_create_device: "effect (keeps pg_ok) (pg_create_device u n)"
  unfolding pg_create_device_def by (intro okf_pg) (simp_all add: ok_defs col_simps has_defs as_i32_range)

lemma ok_revoke_device: "effect (keeps pg_ok) (pg_revoke_device u v)"
  unfolding pg_revoke_device_def by (intro okf_pg) (simp_all add: ok_defs col_simps has_defs as_i32_range)

lemma ok_set_device_credential: "effect (keeps pg_ok) (pg_set_device_credential v c)"
  unfolding pg_set_device_credential_def by (intro okf_pg) (simp_all add: ok_defs col_simps has_defs as_i32_range)

lemma ok_store_refresh_token: "effect (keeps pg_ok) (pg_store_refresh_token t u v e)"
  unfolding pg_store_refresh_token_def by (intro okf_pg) (simp_all add: ok_defs col_simps has_defs as_i32_range)

lemma ok_delete_refresh_token: "effect (keeps pg_ok) (pg_delete_refresh_token t)"
  unfolding pg_delete_refresh_token_def by (intro okf_pg) (simp_all add: ok_defs col_simps has_defs as_i32_range)

lemma ok_create_public_group: "effect (keeps pg_ok) (pg_create_public_group n s k c)"
  unfolding pg_create_public_group_def by (intro okf_pg) (simp_all add: ok_defs col_simps has_defs as_i32_range)

lemma ok_create_private_group_with_id: "effect (keeps pg_ok) (pg_create_private_group_with_id E g n)"
  unfolding pg_create_private_group_with_id_def by (intro okf_pg) (simp_all add: ok_defs col_simps has_defs as_i32_range)

lemma ok_add_member: "effect (keeps pg_ok) (pg_add_member g u r)"
  unfolding pg_add_member_def by (intro okf_pg) (simp_all add: ok_defs col_simps has_defs as_i32_range)

lemma ok_remove_member: "effect (keeps pg_ok) (pg_remove_member g u)"
  unfolding pg_remove_member_def by (intro okf_pg) (simp_all add: ok_defs col_simps has_defs as_i32_range)

lemma ok_delete_group: "effect (keeps pg_ok) (pg_delete_group g)"
  unfolding pg_delete_group_def
  by (intro okf_pg) (simp add: ok_defs col_simps refs_cascade)

lemma ok_insert_category: "p \<in> i32s \<Longrightarrow> effect (keeps pg_ok) (pg_insert_category c n p)"
  unfolding pg_insert_category_def by (intro okf_pg) (simp_all add: ok_defs col_simps)

lemma ok_ensure_default_categories: "effect (keeps pg_ok) (pg_ensure_default_categories E)"
  unfolding pg_ensure_default_categories_def for_each.simps prod.case
  by (intro okf_pg ok_insert_category) (simp_all add: ok_defs col_simps)

lemma ok_create_category: "effect (keeps pg_ok) (pg_create_category n)"
  unfolding pg_create_category_def by (intro okf_pg ok_insert_category) (simp add: as_i32_range)

lemma ok_delete_category: "effect (keeps pg_ok) (pg_delete_category E c)"
  unfolding pg_delete_category_def by (intro okf_pg) (simp_all add: ok_defs col_simps has_defs as_i32_range)

lemma ok_reorder_categories: "effect (keeps pg_ok) (pg_reorder_categories cs)"
  unfolding pg_reorder_categories_def by (intro okf_pg) (simp_all add: ok_defs col_simps has_defs as_i32_range)

lemma ok_reorder_channels: "effect (keeps pg_ok) (pg_reorder_channels c gs)"
  unfolding pg_reorder_channels_def by (intro okf_pg) (simp_all add: ok_defs col_simps has_defs as_i32_range)

lemma ok_ensure_tavern: "effect (keeps pg_ok) (pg_ensure_tavern t)"
  unfolding pg_ensure_tavern_def by (intro okf_pg) (simp_all add: ok_defs col_simps has_defs as_i32_range)

lemma ok_upsert_tavern: "effect (keeps pg_ok) (pg_upsert_tavern t a b c e)"
  unfolding pg_upsert_tavern_def by (intro okf_pg) (simp_all add: ok_defs col_simps has_defs as_i32_range)

lemma ok_ban_user: "effect (keeps pg_ok) (pg_ban_user u b r)"
  unfolding pg_ban_user_def by (intro okf_pg) (simp_all add: ok_defs col_simps has_defs as_i32_range)

lemma ok_unban_user: "effect (keeps pg_ok) (pg_unban_user u)"
  unfolding pg_unban_user_def by (intro okf_pg) (simp_all add: ok_defs col_simps has_defs as_i32_range)

lemma ok_record_audit: "effect (keeps pg_ok) (pg_record_audit a b c v r)"
  unfolding pg_record_audit_def by (intro okf_pg) (simp_all add: ok_defs col_simps has_defs as_i32_range)

text \<open>A number just drawn is above every stored one.\<close>

lemma col_in_next: "col_in {1..m} k t \<Longrightarrow> col_in {1..m + 1} k t \<and> \<not> (\<exists>x \<in> set t. k x = m + 1)" for m :: int
  by (force simp: col_in_def)

lemma ok_pub_mark: "pg_ok d \<Longrightarrow> pg_ok (d\<lparr>db_env := e, db_pub_seq := db_pub_seq d + 1\<rparr>)"
  using col_in_next [of "db_pub_seq d" pm_seq "db_public d"] by (simp add: ok_defs)

lemma ok_pub_row:
  assumes "pg_ok d" and "has_group g d" and "has_user u d"
    and "\<forall>m \<in> set (db_public d). pm_group m = g \<longrightarrow> pm_client_id m \<noteq> i" and "\<forall>m \<in> set (db_public d). pm_id m \<noteq> mid"
  shows "pg_ok (d\<lparr>db_env := e, db_pub_seq := db_pub_seq d + 1, db_public := db_public d @
    [\<lparr>pm_seq = db_pub_seq d + 1, pm_id = mid, pm_group = g, pm_sender = u, pm_content = c,
      pm_client_id = i, pm_created_at = now\<rparr>]\<rparr>)"
  using assms col_in_next [of "db_pub_seq d" pm_seq "db_public d"]
  by (simp add: ok_defs col_simps has_defs)

lemma ok_insert_public_message: "effect (keeps pg_ok) (pg_insert_public_message g u c i)"
proof (rule okf_wp)
  fix d assume "pg_ok d"
  then show "wp (pg_insert_public_message g u c i) (\<lambda>_. pg_ok) (\<lambda>_. pg_ok) d"
    by (simp add: pg_insert_public_message_def pg_pub_nextval_def clock_defs wp_simps ok_pub_mark ok_pub_row
        has_group_def has_user_def split: option.splits)
qed

lemma ok_insert_key_package: "effect (keeps pg_ok) (pg_insert_key_package u v p)"
  unfolding pg_insert_key_package_def by (intro okf_pg) (simp_all add: ok_defs col_simps has_defs as_i32_range)

lemma ok_store_key_packages: "effect (keeps pg_ok) (pg_store_key_packages u v ps)"
  unfolding pg_store_key_packages_def
  by (intro okf_pg ok_insert_key_package) (auto simp: ok_defs col_simps Let_def)

lemma ok_claim_one: "effect (keeps pg_ok) (pg_claim_one v)"
  unfolding pg_claim_one_def by (intro okf_pg) (simp_all add: ok_defs col_simps has_defs as_i32_range)

lemma ok_claim_key_packages_for_user: "effect (keeps pg_ok) (pg_claim_key_packages_for_user u)"
  unfolding pg_claim_key_packages_for_user_def by (intro okf_pg ok_claim_one)

lemma ok_priv_mark: "pg_ok d \<Longrightarrow> pg_ok (d\<lparr>db_env := e, db_priv_seq := db_priv_seq d + 1\<rparr>)"
  using col_in_next [of "db_priv_seq d" vm_seq "db_private d"] by (simp add: ok_defs)

lemma ok_priv_row:
  assumes "pg_ok d" and "has_group g d" and "has_user u d" and "has_device v d"
    and "\<forall>m \<in> set (db_private d). vm_group m = g \<longrightarrow> vm_client_id m \<noteq> i" and "\<forall>m \<in> set (db_private d). vm_id m \<noteq> mid"
  shows "pg_ok (d\<lparr>db_env := e, db_priv_seq := db_priv_seq d + 1, db_private := db_private d @
    [\<lparr>vm_seq = db_priv_seq d + 1, vm_id = mid, vm_group = g, vm_sender = u, vm_device = v, vm_ciphertext = c,
      vm_epoch = ep, vm_client_id = i, vm_created_at = now\<rparr>]\<rparr>)"
  using assms col_in_next [of "db_priv_seq d" vm_seq "db_private d"]
  by (simp add: ok_defs col_simps has_defs)

lemma ok_store_private_message: "effect (keeps pg_ok) (pg_store_private_message g u v c e i)"
proof (rule okf_wp)
  fix d assume "pg_ok d"
  then show "wp (pg_store_private_message g u v c e i) (\<lambda>_. pg_ok) (\<lambda>_. pg_ok) d"
    by (simp add: pg_store_private_message_def pg_priv_nextval_def clock_defs wp_simps ok_priv_mark ok_priv_row
        has_group_def has_user_def has_device_def split: option.splits)
qed

lemma ok_enqueue_inbox: "effect (keeps pg_ok) (pg_enqueue_inbox v k g p)"
  unfolding pg_enqueue_inbox_def by (intro okf_pg) (simp_all add: ok_defs col_simps has_defs as_i32_range)

lemma ok_drain_inbox: "effect (keeps pg_ok) (pg_drain_inbox v)"
  unfolding pg_drain_inbox_def by (intro okf_pg) (simp_all add: ok_defs col_simps has_defs as_i32_range)

lemma ok_upsert_friend_request: "effect (keeps pg_ok) (pg_upsert_friend_request E u s k c)"
  unfolding pg_upsert_friend_request_def by (intro okf_pg) (simp_all add: ok_defs col_simps has_defs as_i32_range)

lemma ok_delete_friend_request: "effect (keeps pg_ok) (pg_delete_friend_request u i)"
  unfolding pg_delete_friend_request_def by (intro okf_pg) (simp_all add: ok_defs col_simps has_defs as_i32_range)

lemmas ok_rules = ok_create_user ok_update_profile ok_create_invite ok_revoke_invite ok_upsert_backup
  ok_delete_backup ok_put_vault_blob ok_delete_vault_blob ok_ensure_default_role ok_create_role ok_update_role
  ok_delete_role ok_reorder_roles ok_assign_role ok_unassign_role ok_create_device ok_revoke_device
  ok_set_device_credential ok_store_refresh_token ok_delete_refresh_token ok_store_key_packages
  ok_claim_key_packages_for_user ok_create_public_group ok_create_private_group_with_id ok_add_member
  ok_remove_member ok_delete_group ok_ensure_default_categories ok_create_category ok_delete_category
  ok_reorder_categories ok_reorder_channels ok_ensure_tavern ok_upsert_tavern ok_ban_user ok_unban_user
  ok_record_audit ok_insert_public_message ok_store_private_message ok_enqueue_inbox ok_drain_inbox
  ok_upsert_friend_request ok_delete_friend_request

lemma ok_account: "effect (keeps pg_ok) (pg_account E c)"
  by (cases c) (simp_all add: ok_rules okf_void)

lemma ok_role: "effect (keeps pg_ok) (pg_role E c)"
  by (cases c) (simp_all add: ok_rules okf_void)

lemma ok_device: "effect (keeps pg_ok) (pg_device E c)"
  by (cases c) (simp_all add: ok_rules okf_void)

lemma ok_group: "effect (keeps pg_ok) (pg_group E c)"
  by (cases c) (simp_all add: ok_rules okf_void)

lemma ok_tavern: "effect (keeps pg_ok) (pg_tavern E c)"
  by (cases c) (simp_all add: ok_rules okf_void)

lemma ok_message: "effect (keeps pg_ok) (pg_message E c)"
  by (cases c) (simp_all add: ok_rules okf_void)

lemma ok_run: "effect (keeps pg_ok) (pg_run E c)"
  by (cases c) (simp_all add: ok_account ok_role ok_device ok_group ok_tavern ok_message)

lemma ok_run_calls: "pg_ok d \<Longrightarrow> pg_ok (run_calls (pg_run E) cs d)"
  using ok_run by (induction cs arbitrary: d) (auto simp: effect_def keeps_def)

text \<open>A migrated database: the seeded channel \<open>general\<close> and nothing else.\<close>

definition pg_fresh :: "env \<Rightarrow> db" where
  "pg_fresh e = \<lparr>db_users = [], db_devices = [], db_refresh = [],
     db_groups = [\<lparr>g_id = 0x01900000000070008000000000000001, g_name = ''general'',
       g_description = ''Default public channel - welcome to Accord!'', g_kind = ''public'',
       g_channel_kind = ''text'', g_category = '''', g_position = 0, g_created_at = 0\<rparr>],
     db_members = [], db_public = [], db_private = [], db_packages = [], db_inbox = [], db_invites = [],
     db_roles = [], db_member_roles = [], db_backups = [], db_vault = [], db_friends = [], db_tavern = [],
     db_bans = [], db_audit = [], db_categories = [], db_pub_seq = 0, db_priv_seq = 0, db_fk = True,
     db_env = e\<rparr>"

lemma pg_fresh_ok: "pg_ok (pg_fresh e)"
  by (simp add: pg_fresh_def ok_defs col_simps) (simp add: keyed_def col_in_def)


section \<open>The two back ends compared\<close>

text \<open>
  \<open>agree m n\<close>: with foreign keys enforced, \<open>m\<close> and \<open>n\<close> give the same result and the same database,
  and leave enforcement on.  The relation is closed under the combinators.
\<close>

definition agree :: "'a dbact \<Rightarrow> 'a dbact \<Rightarrow> bool" where
  "agree m n \<longleftrightarrow> (\<forall>d. db_fk d \<longrightarrow> m d = n d \<and> db_fk (snd (m d)))"

lemma agree_same: "(\<And>d. db_fk (snd (m d)) = db_fk d) \<Longrightarrow> agree m m"
  by (simp add: agree_def)

lemma agree_basic:
  "agree (ret x) (ret x)" "agree (fail e) (fail e)" "agree (gets g) (gets g)" "agree (ensure b e) (ensure b e)"
  "agree (some_or e y) (some_or e y)"
  "agree now_v7 now_v7" "agree now_ms now_ms"
  by (auto simp: agree_def act_defs clock_defs on_env_def read_env_def split: option.splits)

lemma agree_bnd: "agree m n \<Longrightarrow> (\<And>a. agree (f a) (g a)) \<Longrightarrow> agree (bnd m f) (bnd n g)"
  by (auto simp: agree_def bnd_def split: prod.splits sum.splits) (metis snd_conv)+

lemma agree_void: "agree m n \<Longrightarrow> agree (void m) (void n)"
  unfolding void_def by (intro agree_bnd agree_basic)

lemma agree_map_err: "agree m n \<Longrightarrow> agree (map_err h m) (map_err h n)"
  by (auto simp: agree_def map_err_def split: prod.splits sum.splits)

lemma agree_on_unique: "agree m n \<Longrightarrow> agree (on_unique e m) (on_unique e n)"
  by (simp add: on_unique_def agree_map_err)

lemma agree_if: "agree m n \<Longrightarrow> agree m' n' \<Longrightarrow> agree (if b then m else m') (if b then n else n')"
  by simp

lemma agree_for_each: "(\<And>x. x \<in> set xs \<Longrightarrow> agree (f x) (g x)) \<Longrightarrow> agree (for_each f xs) (for_each g xs)"
  by (induction xs) (auto intro: agree_basic agree_bnd)

lemma agree_map_each: "(\<And>x. x \<in> set xs \<Longrightarrow> agree (f x) (g x)) \<Longrightarrow> agree (map_each f xs) (map_each g xs)"
  by (induction xs) (auto intro: agree_basic agree_bnd)

lemma agree_modify: "(\<And>d. db_fk d \<Longrightarrow> f d = g d) \<Longrightarrow> (\<And>d. db_fk (f d) = db_fk d) \<Longrightarrow> agree (modify f) (modify g)"
  unfolding agree_def modify_def by (metis snd_conv)

lemma agree_transaction: "agree m n \<Longrightarrow> agree (transaction m) (transaction n)"
  by (auto simp: agree_def transaction_def split: prod.splits sum.splits)

lemma agree_insert: "(\<And>d. db_fk (f d) = db_fk d) \<Longrightarrow> agree (pg_insert c r f) (insert_stmt c r f)"
  by (simp add: agree_def pg_insert_def insert_stmt_def)

lemma agree_insert_or: "(\<And>d. db_fk (f d) = db_fk d) \<Longrightarrow> agree (pg_insert_or_nothing c r f) (insert_or_ignore c r f)"
  by (simp add: agree_def pg_insert_or_nothing_def insert_or_ignore_def)

lemma agree_upsert:
  "(\<And>d. db_fk (f d) = db_fk d) \<Longrightarrow> (\<And>d. db_fk (g d) = db_fk d) \<Longrightarrow>
   agree (pg_upsert c o' r f g) (upsert_stmt c o' r f g)"
  by (simp add: agree_def pg_upsert_def upsert_stmt_def)

lemmas agree_rules = agree_basic agree_bnd agree_void agree_on_unique agree_map_err agree_if agree_for_each
  agree_map_each agree_modify agree_transaction agree_insert agree_insert_or agree_upsert

text \<open>The calls that are the same statements on both back ends.\<close>

lemma agree_create_user: "agree (pg_create_user a b c x y k) (sq_create_user a b c x y k)"
  unfolding pg_create_user_def sq_create_user_def by (intro agree_rules) simp

lemma agree_update_profile: "agree (pg_update_profile u a b) (sq_update_profile u a b)"
  unfolding pg_update_profile_def sq_update_profile_def by (intro agree_rules) simp_all

lemma agree_create_device: "agree (pg_create_device u n) (sq_create_device u n)"
  unfolding pg_create_device_def sq_create_device_def by (intro agree_rules) simp

lemma agree_private_group: "agree (pg_create_private_group_with_id E g n) (sq_create_private_group_with_id E g n)"
  unfolding pg_create_private_group_with_id_def sq_create_private_group_with_id_def on_unique_def
  by (intro agree_rules) simp

lemma agree_store_key_packages: "agree (pg_store_key_packages u v ps) (sq_store_key_packages u v ps)"
  unfolding pg_store_key_packages_def sq_store_key_packages_def trim_key_packages_def
    pg_insert_key_package_def insert_key_package_def unconsumed_def
  by (intro agree_rules) (simp_all add: Let_def)

lemma agree_enumerate:
  "(\<And>i x. i < length xs \<Longrightarrow> agree (f i x) (g i x)) \<Longrightarrow>
   agree (for_each (\<lambda>(i, x). f i x) (List.enumerate 0 xs)) (for_each (\<lambda>(i, x). g i x) (List.enumerate 0 xs))"
  by (rule agree_for_each) (auto simp: in_set_enumerate_eq)

lemma agree_reorder_roles: "int (length rs) \<le> i32_max \<Longrightarrow> agree (pg_reorder_roles rs) (sq_reorder_roles rs)"
  unfolding pg_reorder_roles_def sq_reorder_roles_def
  by (intro agree_transaction agree_enumerate agree_modify) (simp_all add: as_i32_id)

lemma agree_reorder_categories:
  "int (length cs) \<le> i32_max \<Longrightarrow> agree (pg_reorder_categories cs) (sq_reorder_categories cs)"
  unfolding pg_reorder_categories_def sq_reorder_categories_def
  by (intro agree_transaction agree_enumerate agree_modify) (simp_all add: as_i32_id)

lemma agree_reorder_channels:
  "int (length gs) \<le> i32_max \<Longrightarrow> agree (pg_reorder_channels c gs) (sq_reorder_channels c gs)"
  unfolding pg_reorder_channels_def sq_reorder_channels_def
  by (intro agree_transaction agree_enumerate agree_modify) (simp_all add: as_i32_id)

lemma agree_claim: "agree (pg_claim_key_packages_for_user u) (sq_claim_key_packages_for_user u)"
proof -
  have one: "pg_claim_one v = claim_one v" for v
    by (auto simp: pg_claim_one_def claim_one_def unconsumed_def sql_limit_def act_defs fun_eq_iff split: list.splits)
  have "agree (claim_one v) (claim_one v)" for v
    unfolding claim_one_def by (intro agree_bnd agree_basic) (auto intro!: agree_rules split: list.splits)
  then show ?thesis
    unfolding pg_claim_key_packages_for_user_def sq_claim_key_packages_for_user_def one
    by (intro agree_bnd agree_basic agree_map_each)
      (auto simp: List.map_filter_def comp_def intro!: agree_basic arg_cong2 [where f = agree])
qed

lemma agree_upsert_friend_request:
  "agree (pg_upsert_friend_request E u s k c) (sq_upsert_friend_request E u s k c)"
  unfolding pg_upsert_friend_request_def sq_upsert_friend_request_def
  by (intro agree_rules) (simp_all add: agree_basic)

lemma agree_simple:
  "agree (pg_revoke_invite t) (sq_revoke_invite t)"
  "agree (pg_delete_backup u) (sq_delete_backup u)"
  "agree (pg_delete_vault_blob u n) (sq_delete_vault_blob u n)"
  "agree (pg_ensure_default_role r n p) (sq_ensure_default_role r n p)"
  "agree (pg_update_role r w) (sq_update_role r w)"
  "agree (pg_unassign_role u r) (sq_unassign_role u r)"
  "agree (pg_revoke_device u v) (sq_revoke_device u v)"
  "agree (pg_set_device_credential v b) (sq_set_device_credential v b)"
  "agree (pg_store_refresh_token t u v e) (sq_store_refresh_token t u v e)"
  "agree (pg_delete_refresh_token t) (sq_delete_refresh_token t)"
  "agree (pg_add_member g u n) (sq_add_member g u n)"
  "agree (pg_remove_member g u) (sq_remove_member g u)"
  "agree (pg_delete_category E c) (sq_delete_category E c)"
  "agree (pg_ensure_tavern c) (sq_ensure_tavern c)"
  "agree (pg_upsert_tavern c n t n' t') (sq_upsert_tavern c n t n' t')"
  "agree (pg_unban_user u) (sq_unban_user u)"
  "agree (pg_record_audit u n t n' t') (sq_record_audit u n t n' t')"
  "agree (pg_drain_inbox v) (sq_drain_inbox v)"
  "agree (pg_delete_friend_request u n) (sq_delete_friend_request u n)"
  unfolding pg_revoke_invite_def sq_revoke_invite_def pg_delete_backup_def sq_delete_backup_def
    pg_delete_vault_blob_def sq_delete_vault_blob_def pg_ensure_default_role_def sq_ensure_default_role_def
    pg_update_role_def sq_update_role_def pg_unassign_role_def sq_unassign_role_def
    pg_revoke_device_def sq_revoke_device_def pg_set_device_credential_def sq_set_device_credential_def
    pg_store_refresh_token_def sq_store_refresh_token_def pg_delete_refresh_token_def
    sq_delete_refresh_token_def pg_add_member_def sq_add_member_def pg_remove_member_def sq_remove_member_def
    pg_delete_category_def sq_delete_category_def pg_ensure_tavern_def sq_ensure_tavern_def
    pg_upsert_tavern_def sq_upsert_tavern_def pg_unban_user_def sq_unban_user_def
    pg_record_audit_def sq_record_audit_def pg_drain_inbox_def sq_drain_inbox_def
    pg_delete_friend_request_def sq_delete_friend_request_def
  by (intro agree_rules; simp)+

text \<open>
  Where the back ends part.  A call is portable unless it is one of these:

  \<^item> PostgreSQL refuses a reference SQLite does not check (\<open>created_by\<close> of an invite, the user and role of
    an assignment, the owner of a backup or vault blob, a banned user), or a queue kind outside its
    \<open>CHECK\<close>;
  \<^item> a position would leave the range of \<open>i32\<close>;
  \<^item> a default role that has assignments is deleted: SQLite drops the assignments, PostgreSQL nothing;
  \<^item> a message is refused (a missing group, sender or device, or a reused id): PostgreSQL has then drawn a
    number;
  \<^item> the default categories are created: SQLite reads the clock once, PostgreSQL once per row.
\<close>

abbreviation next_id :: "db \<Rightarrow> uuid" where
  "next_id d \<equiv> e_uuid (db_env d) (e_tick (db_env d))"

definition portable :: "store_call \<Rightarrow> db \<Rightarrow> bool" where
  "portable c d = (case c of
     AccountCall (CreateInvite t u) \<Rightarrow> has_user u d
   | AccountCall (UpsertBackup u b s p v) \<Rightarrow> has_user u d
   | AccountCall (PutVaultBlob u n b) \<Rightarrow> has_user u d
   | RoleCall (CreateRole w) \<Rightarrow> max_or 0 (map ro_position (db_roles d)) < i32_max
   | RoleCall (DeleteRole r) \<Rightarrow>
       \<not> (exists_where (\<lambda>x. ro_id x = r \<and> ro_is_default x) (db_roles d) \<and>
          exists_where (\<lambda>m. mr_role m = r) (db_member_roles d))
   | RoleCall (ReorderRoles rs) \<Rightarrow> int (length rs) \<le> i32_max
   | RoleCall (AssignRole u r) \<Rightarrow> has_user u d \<and> has_role r d
   | GroupCall (CreatePublicGroup n s k cat) \<Rightarrow>
       max_or (- 1) (map g_position (filter (\<lambda>g. g_category g = cat) (db_groups d))) < i32_max
   | GroupCall EnsureDefaultCategories \<Rightarrow> db_categories d \<noteq> []
   | GroupCall (CreateCategory n) \<Rightarrow> max_or (- 1) (map ca_position (db_categories d)) < i32_max
   | GroupCall (ReorderCategories cs) \<Rightarrow> int (length cs) \<le> i32_max
   | GroupCall (ReorderChannels cat gs) \<Rightarrow> int (length gs) \<le> i32_max
   | TavernCall (BanUser u b r) \<Rightarrow> has_user u d
   | MessageCall (InsertPublicMessage g u m i) \<Rightarrow> has_group g d \<and> has_user u d \<and>
       \<not> exists_where (\<lambda>x. pm_id x = next_id d) (db_public d)
   | MessageCall (StorePrivateMessage g u v m e i) \<Rightarrow> has_group g d \<and> has_user u d \<and> has_device v d \<and>
       \<not> exists_where (\<lambda>x. vm_id x = next_id d) (db_private d)
   | MessageCall (EnqueueInbox v k g p) \<Rightarrow> k \<in> {''welcome'', ''commit'', ''private''}
   | _ \<Rightarrow> True)"

lemma agreeD: "agree m n \<Longrightarrow> pg_ok d \<Longrightarrow> m d = n d"
  by (simp add: agree_def pg_ok_def)

lemmas stmt_run = bnd_def clock_defs on_env_def zoom_def read_env_def ret_def gets_def modify_def
  pg_insert_def pg_insert_or_nothing_def pg_upsert_def insert_stmt_def insert_or_ignore_def upsert_stmt_def

lemma same_create_invite: "has_user u d \<Longrightarrow> pg_create_invite t u d = sq_create_invite t u d"
  by (simp add: pg_create_invite_def sq_create_invite_def stmt_run has_user_def)

lemma same_upsert_backup: "has_user u d \<Longrightarrow> pg_upsert_backup u b s p v d = sq_upsert_backup u b s p v d"
  by (simp add: pg_upsert_backup_def sq_upsert_backup_def stmt_run has_user_def)

lemma same_put_vault_blob: "has_user u d \<Longrightarrow> pg_put_vault_blob u n b d = sq_put_vault_blob u n b d"
  by (auto simp: pg_put_vault_blob_def sq_put_vault_blob_def stmt_run has_user_def)

lemma same_ban_user: "has_user u d \<Longrightarrow> pg_ban_user u b r d = sq_ban_user u b r d"
  by (simp add: pg_ban_user_def sq_ban_user_def stmt_run has_user_def)

lemma same_assign_role: "has_user u d \<Longrightarrow> has_role r d \<Longrightarrow> pg_assign_role u r d = sq_assign_role u r d"
  by (auto simp: pg_assign_role_def sq_assign_role_def stmt_run)

lemma max_or_i32: "set xs \<subseteq> i32s \<Longrightarrow> v \<in> i32s \<Longrightarrow> max_or v xs < i32_max \<Longrightarrow> as_i32 (max_or v xs + 1) = max_or v xs + 1"
  using max_or_in [of xs v] by (cases "xs = []") (auto intro!: as_i32_id)

lemma same_create_role:
  assumes "pg_ok d" and "max_or 0 (map ro_position (db_roles d)) < i32_max"
  shows "pg_create_role w d = sq_create_role w d"
proof -
  have "set (map ro_position (db_roles d)) \<subseteq> i32s" using assms(1) by (simp add: ok_defs col_in_def)
  with assms(2) show ?thesis
    by (simp add: pg_create_role_def sq_create_role_def stmt_run max_or_i32)
qed

lemma same_create_public_group:
  assumes "pg_ok d" and "max_or (- 1) (map g_position (filter (\<lambda>g. g_category g = k) (db_groups d))) < i32_max"
  shows "pg_create_public_group n s c k d = sq_create_public_group n s c k d"
proof -
  have "set (map g_position (filter (\<lambda>g. g_category g = k) (db_groups d))) \<subseteq> i32s"
    using assms(1) by (auto simp: ok_defs col_in_def)
  with assms(2) show ?thesis
    by (simp add: pg_create_public_group_def sq_create_public_group_def stmt_run max_or_i32 has_group_def)
qed

lemma same_create_category:
  assumes "pg_ok d" and "max_or (- 1) (map ca_position (db_categories d)) < i32_max"
  shows "pg_create_category n d = sq_create_category n d"
proof -
  have "set (map ca_position (db_categories d)) \<subseteq> i32s" using assms(1) by (simp add: ok_defs col_in_def)
  with assms(2) show ?thesis
    by (simp add: pg_create_category_def sq_create_category_def pg_insert_category_def insert_category_def
        stmt_run max_or_i32)
qed

lemma same_default_categories: "db_categories d \<noteq> [] \<Longrightarrow> pg_ensure_default_categories E d = sq_ensure_default_categories E d"
  by (simp add: pg_ensure_default_categories_def sq_ensure_default_categories_def run_simps)

lemma del_where_dangling: "k ` set t \<subseteq> K \<Longrightarrow> g \<notin> K \<Longrightarrow> del_where (\<lambda>m. k m = g) t = t"
  by (auto simp: del_where_def filter_id_conv)

lemma same_delete_role:
  assumes "pg_ok d" and "portable (RoleCall (DeleteRole r)) d"
  shows "pg_delete_role r d = sq_delete_role r d"
proof -
  define gone where "gone = exists_where (\<lambda>x. ro_id x = r \<and> \<not> ro_is_default x) (db_roles d)"
  have held: "\<not> ((\<exists>x \<in> set (db_roles d). ro_id x = r \<and> ro_is_default x) \<and>
      (\<exists>m \<in> set (db_member_roles d). mr_role m = r))"
    using assms(2) by (simp add: portable_def)
  have gone if m: "m \<in> set (db_member_roles d)" "mr_role m = r" for m
  proof -
    have "mr_role ` set (db_member_roles d) \<subseteq> ro_id ` set (db_roles d)"
      using assms(1) by (simp add: ok_defs refs_def)
    from subsetD [OF this imageI [OF m(1)]] obtain x where "x \<in> set (db_roles d)" "ro_id x = r"
      unfolding m(2) by blast
    moreover have "\<not> ro_is_default x" using \<open>x \<in> _\<close> \<open>ro_id x = r\<close> m held by blast
    ultimately show ?thesis by (auto simp: gone_def)
  qed
  then have eq: "del_where (\<lambda>m. mr_role m = r \<and> gone) (db_member_roles d)
    = del_where (\<lambda>m. mr_role m = r) (db_member_roles d)"
    unfolding del_where_def by (intro filter_cong [OF refl]) auto
  show ?thesis
    by (simp add: pg_delete_role_def sq_delete_role_def modify_def bnd_def eq flip: gone_def del: exists_where_iff)
qed

lemma same_delete_group:
  assumes "pg_ok d"
  shows "pg_delete_group g d = sq_delete_group g d"
proof (cases "has_group g d")
  case True
  then show ?thesis by (simp add: pg_delete_group_def sq_delete_group_def modify_def bnd_def)
next
  case False
  then have g: "g \<notin> g_id ` set (db_groups d)" by (auto simp: has_group_def)
  have "gm_group ` set (db_members d) \<subseteq> g_id ` set (db_groups d)"
    "pm_group ` set (db_public d) \<subseteq> g_id ` set (db_groups d)"
    "vm_group ` set (db_private d) \<subseteq> g_id ` set (db_groups d)"
    using assms by (simp_all add: ok_defs refs_def)
  then show ?thesis using False g
    by (simp add: pg_delete_group_def sq_delete_group_def modify_def bnd_def
        del_where_dangling [where K = "g_id ` set (db_groups d)"])
qed

lemma next_seq_mark: "0 \<le> m \<Longrightarrow> col_in {1..m} k t \<Longrightarrow> next_seq m (map k t) = m + 1"
  using max_or_in [of "map k t" 0] by (cases "t = []") (auto simp: next_seq_def col_in_def)

lemma same_insert_public:
  assumes "pg_ok d" and "portable (MessageCall (InsertPublicMessage g u c i)) d"
  shows "void (pg_insert_public_message g u c i) d = void (sq_insert_public_message g u c i) d"
proof -
  have "next_seq (db_pub_seq d) (map pm_seq (db_public d)) = db_pub_seq d + 1"
    using assms(1) by (intro next_seq_mark) (simp_all add: ok_defs)
  then show ?thesis using assms(2)
    by (simp add: portable_def void_def pg_insert_public_message_def sq_insert_public_message_def
        pg_pub_nextval_def stmt_run some_or_def fail_def Let_def has_group_def has_user_def find_user_def
        split: option.splits del: exists_where_iff)
qed

lemma same_store_private:
  assumes "pg_ok d" and "portable (MessageCall (StorePrivateMessage g u v c e i)) d"
  shows "void (pg_store_private_message g u v c e i) d = void (sq_store_private_message g u v c e i) d"
proof -
  have "next_seq (db_priv_seq d) (map vm_seq (db_private d)) = db_priv_seq d + 1"
    using assms(1) by (intro next_seq_mark) (simp_all add: ok_defs)
  then show ?thesis using assms(2)
    by (simp add: portable_def void_def pg_store_private_message_def sq_store_private_message_def
        pg_priv_nextval_def stmt_run some_or_def fail_def Let_def has_group_def has_user_def has_device_def
        split: option.splits del: exists_where_iff)
qed

lemma agree_enqueue_inbox:
  "k \<in> {''welcome'', ''commit'', ''private''} \<Longrightarrow> agree (pg_enqueue_inbox v k g p) (sq_enqueue_inbox v k g p)"
  by (auto simp: agree_def pg_enqueue_inbox_def sq_enqueue_inbox_def stmt_run ensure_def has_device_def)

lemmas agree_calls = agree_simple agree_create_user agree_update_profile agree_create_device agree_private_group
  agree_store_key_packages agree_claim agree_upsert_friend_request agree_reorder_roles agree_reorder_categories
  agree_reorder_channels agree_enqueue_inbox

lemmas same_calls = same_create_invite same_upsert_backup same_put_vault_blob same_ban_user same_assign_role
  same_create_role same_create_public_group same_create_category same_default_categories same_delete_role
  same_delete_group same_insert_public same_store_private

lemma void_same: "m d = n d \<Longrightarrow> void m d = void n d"
  by (simp add: void_def bnd_def)

lemma same_account: "pg_ok d \<Longrightarrow> portable (AccountCall c) d \<Longrightarrow> pg_account E c d = sq_account E c d"
  by (cases c) (simp_all add: portable_def same_calls agreeD [OF agree_void] agreeD agree_calls)

lemma same_role: "pg_ok d \<Longrightarrow> portable (RoleCall c) d \<Longrightarrow> pg_role E c d = sq_role E c d"
  by (cases c) (simp_all add: same_delete_role,
      simp_all add: portable_def void_same [OF same_create_role] same_assign_role agreeD agree_calls)

lemma same_device: "pg_ok d \<Longrightarrow> portable (DeviceCall c) d \<Longrightarrow> pg_device E c d = sq_device E c d"
  by (cases c) (simp_all add: agreeD [OF agree_void] agreeD agree_calls)

lemma same_group: "pg_ok d \<Longrightarrow> portable (GroupCall c) d \<Longrightarrow> pg_group E c d = sq_group E c d"
  by (cases c) (simp_all add: portable_def void_same [OF same_create_public_group] void_same [OF same_create_category]
      same_default_categories same_delete_group agreeD agree_calls)

lemma same_tavern: "pg_ok d \<Longrightarrow> portable (TavernCall c) d \<Longrightarrow> pg_tavern E c d = sq_tavern E c d"
  by (cases c) (simp_all add: portable_def same_calls agreeD agree_calls)

lemma same_message: "pg_ok d \<Longrightarrow> portable (MessageCall c) d \<Longrightarrow> pg_message E c d = sq_message E c d"
  by (cases c) (simp_all add: same_insert_public same_store_private agreeD [OF agree_void] agreeD agree_calls,
      simp add: portable_def agreeD agree_calls)

lemma same_run: "pg_ok d \<Longrightarrow> portable c d \<Longrightarrow> pg_run E c d = sq_run E c d"
  by (cases c) (simp_all add: same_account same_role same_device same_group same_tavern same_message)

fun portable_run :: "ext \<Rightarrow> store_call list \<Rightarrow> db \<Rightarrow> bool" where
  "portable_run E [] d = True"
| "portable_run E (c # cs) d = (portable c d \<and> portable_run E cs (snd (sq_run E c d)))"

lemma same_runs: "pg_ok d \<Longrightarrow> portable_run E cs d \<Longrightarrow> run_calls (pg_run E) cs d = run_calls (sq_run E) cs d"
proof (induction cs arbitrary: d)
  case (Cons c cs)
  then have "pg_run E c d = sq_run E c d" by (simp add: same_run)
  moreover have "pg_ok (snd (pg_run E c d))"
    using ok_run [of E c] Cons.prems(1) by (simp add: effect_def keeps_def)
  ultimately show ?case using Cons by simp
qed simp

text \<open>The reads authorization rests on.\<close>

lemma foldl_or: "foldl (\<lambda>acc r. acc OR f r) a rs = fold (OR) (map f rs) a" for a :: "'w::len word"
  by (induction rs arbitrary: a) (simp_all add: or.commute)

lemma bit_or_agg_value: "(case bit_or_agg bs of None \<Rightarrow> 0 | Some b \<Rightarrow> b) = fold (OR) bs 0"
  by (simp add: bit_or_agg_def)

lemma same_member_permissions: "pg_member_permissions u = sq_member_permissions u"
proof -
  have eq: "filter (\<lambda>r. ro_is_default r \<or> ro_id r \<in> mr_role ` set (filter (\<lambda>m. mr_user m = u) (db_member_roles d))) t
    = filter (\<lambda>r. ro_is_default r \<or> exists_where (\<lambda>m. mr_role m = ro_id r \<and> mr_user m = u) (db_member_roles d)) t" for d t
    by (rule filter_cong [OF refl]) (auto simp: image_iff)
  show ?thesis
    unfolding pg_member_permissions_def sq_member_permissions_def bit_or_agg_value
    by (intro arg_cong [where f = gets] ext) (simp only: member_bits_def foldl_or eq)
qed

lemma same_highest_role: "pg_ok d \<Longrightarrow> pg_highest_role_position u d = sq_highest_role_position u d"
proof -
  assume "pg_ok d"
  then have "set (map ro_position (assigned_roles u d)) \<subseteq> i32s"
    by (auto simp: ok_defs col_in_def assigned_roles_def)
  then have "max_or 0 (map ro_position (assigned_roles u d)) \<in> i32s"
    using max_or_in [of "map ro_position (assigned_roles u d)" 0] by (cases "assigned_roles u d = []") auto
  then show ?thesis
    by (simp add: pg_highest_role_position_def sq_highest_role_position_def gets_def as_i32_id)
qed


text \<open>An account, a role, and the role given to the account.\<close>

definition demo_calls :: "store_call list" where
  "demo_calls = [AccountCall (CreateUser ''ada'' ''Ada'' ''x'' True False None),
     RoleCall (CreateRole \<lparr>rw_name = ''mod'', rw_permissions = 3, rw_color = [], rw_icon = [], rw_hoist = False,
       rw_mentionable = False\<rparr>),
     RoleCall (AssignRole 0 2)]"

definition counting_env :: env where
  "counting_env = \<lparr>e_uuid = of_nat, e_wall = (\<lambda>n. n), e_instant = (\<lambda>n. n), e_salt = (\<lambda>n. []), e_tick = 0\<rparr>"

lemmas demo_run = demo_calls_def counting_env_def pg_fresh_def void_def stmt_run has_defs on_unique_def map_err_def
  sq_create_user_def sq_create_role_def sq_assign_role_def max_or_def


end
