(* ===== verification/Store_Migrations.thy ===== *)
theory Store_Migrations
  imports Errors
begin

text \<open>
  Opening a store: the choice of the back end and \<open>migrate\<close> (\<open>store/mod.rs\<close>, \<open>connect\<close>, \<open>migrate\<close> and
  \<open>repair_line_ending_checksums\<close> of \<open>store/sqlite.rs\<close> and \<open>store/postgres.rs\<close>).

  The database is seen through sqlx's table \<open>_sqlx_migrations\<close>: the checksum recorded for each version, or no
  such table yet.  Each statement may fail (\<open>mt_fault\<close>, by running number).  \<open>mt_elsewhere\<close> says whether another
  schema of a PostgreSQL server has a table of that name, which the test for the table also finds.  The
  migrations compiled into the binary, SHA-384 and sqlx's own \<open>Migrator::run\<close> are parameters.
\<close>

record migration =
  mg_version :: int
  mg_sql :: string
  mg_checksum :: bytes

record mig_db =
  mt_rows :: "(int \<times> bytes) list option"
  mt_elsewhere :: bool
  mt_fault :: "nat \<Rightarrow> sqlx_error option"
  mt_ticks :: nat

type_synonym 'a mgact = "(mig_db, server_error, 'a) act"

section \<open>Line endings\<close>

text \<open>\<open>replace("\r\n", "\n")\<close> and \<open>replace('\n', "\r\n")\<close>.\<close>

fun to_lf :: "string \<Rightarrow> string" where
  "to_lf [] = []"
| "to_lf [c] = [c]"
| "to_lf (c # d # s) = (if c = CHR 0x0D \<and> d = CHR 0x0A then d # to_lf s else c # to_lf (d # s))"

definition to_crlf :: "string \<Rightarrow> string" where
  "to_crlf s = concat (map (\<lambda>c. if c = CHR 0x0A then [CHR 0x0D, CHR 0x0A] else [c]) s)"

definition line_ending_variant_checksums :: "(bytes \<Rightarrow> bytes) \<Rightarrow> string \<Rightarrow> bytes list" where
  "line_ending_variant_checksums sha sql =
     (let lf = to_lf sql; crlf = to_crlf lf in [sha (ascii lf), sha (ascii crlf)])"

section \<open>Statements\<close>

text \<open>One round trip to the database.\<close>

definition statement :: "(mig_db \<Rightarrow> 'a) \<Rightarrow> (mig_db \<Rightarrow> mig_db) \<Rightarrow> 'a mgact" where
  "statement read write = (\<lambda>d. let t = d\<lparr>mt_ticks := Suc (mt_ticks d)\<rparr> in
     case mt_fault d (mt_ticks d) of Some e \<Rightarrow> (Inl (Database e), t) | None \<Rightarrow> (Inr (read d), write t))"

definition stored :: "mig_db \<Rightarrow> int \<Rightarrow> bytes option" where
  "stored d v = (case mt_rows d of None \<Rightarrow> None | Some rows \<Rightarrow> map_of rows v)"

text \<open>A query on a missing table is an error of the database (on PostgreSQL, when only \<open>mt_elsewhere\<close> holds).\<close>

definition select_checksum :: "int \<Rightarrow> bytes option mgact" where
  "select_checksum v = bnd (statement (\<lambda>d. mt_rows d \<noteq> None) id) (\<lambda>present.
     bnd (ensure present (Database (ColumnNotFound ''_sqlx_migrations''))) (\<lambda>_.
     gets (\<lambda>d. stored d v)))"

definition update_checksum :: "int \<Rightarrow> bytes \<Rightarrow> unit mgact" where
  "update_checksum v c = statement (\<lambda>d. ())
     (\<lambda>d. d\<lparr>mt_rows := map_option (map (\<lambda>(w, x). (w, if w = v then c else x))) (mt_rows d)\<rparr>)"

section \<open>Repair and migration\<close>

definition repair_one :: "(bytes \<Rightarrow> bytes) \<Rightarrow> migration \<Rightarrow> unit mgact" where
  "repair_one sha m =
     bnd (select_checksum (mg_version m)) (\<lambda>r.
     case r of None \<Rightarrow> ret ()
     | Some c \<Rightarrow>
       if c = mg_checksum m then ret ()
       else if c \<in> set (line_ending_variant_checksums sha (mg_sql m))
         then update_checksum (mg_version m) (mg_checksum m) else ret ())"

definition sq_repair_line_ending_checksums :: "(bytes \<Rightarrow> bytes) \<Rightarrow> migration list \<Rightarrow> unit mgact" where
  "sq_repair_line_ending_checksums sha ms =
     bnd (statement (\<lambda>d. mt_rows d \<noteq> None) id) (\<lambda>table.
     if \<not> table then ret () else for_each (repair_one sha) ms)"

definition pg_repair_line_ending_checksums :: "(bytes \<Rightarrow> bytes) \<Rightarrow> migration list \<Rightarrow> unit mgact" where
  "pg_repair_line_ending_checksums sha ms =
     bnd (statement (\<lambda>d. mt_rows d \<noteq> None \<or> mt_elsewhere d) id) (\<lambda>exists.
     if \<not> exists then ret () else for_each (repair_one sha) ms)"

text \<open>\<open>sqlx::migrate::MigrateError\<close>, as far as its kinds matter, and the migrator as a parameter.\<close>

datatype migrate_error = VersionMismatch int | OtherMigrateError string

type_synonym migrator = "migration list \<Rightarrow> (mig_db, migrate_error, unit) act"

definition run_migrator :: "(migrate_error \<Rightarrow> string) \<Rightarrow> migrator \<Rightarrow> migration list \<Rightarrow> unit mgact" where
  "run_migrator show run ms = map_err (\<lambda>e. Migration (show e)) (run ms)"

definition sq_migrate :: "(bytes \<Rightarrow> bytes) \<Rightarrow> (migrate_error \<Rightarrow> string) \<Rightarrow> migrator \<Rightarrow> migration list \<Rightarrow> unit mgact" where
  "sq_migrate sha show run ms = bnd (sq_repair_line_ending_checksums sha ms) (\<lambda>_. run_migrator show run ms)"

definition pg_migrate :: "(bytes \<Rightarrow> bytes) \<Rightarrow> (migrate_error \<Rightarrow> string) \<Rightarrow> migrator \<Rightarrow> migration list \<Rightarrow> unit mgact" where
  "pg_migrate sha show run ms = bnd (pg_repair_line_ending_checksums sha ms) (\<lambda>_. run_migrator show run ms)"

text \<open>
  Opening a connection pool is sqlx's: the two arguments answer with the database found behind a URL.  Each
  back end has its own migrations and its own migrator.
\<close>

datatype backend = Sqlite_Store mig_db | Postgres_Store mig_db

record opener =
  op_sqlite :: "string \<Rightarrow> server_error + mig_db"
  op_postgres :: "string \<Rightarrow> 32 word \<Rightarrow> server_error + mig_db"
  op_sha384 :: "bytes \<Rightarrow> bytes"
  op_show :: "migrate_error \<Rightarrow> string"
  op_sq_migrations :: "migration list"
  op_pg_migrations :: "migration list"
  op_sq_run :: migrator
  op_pg_run :: migrator

definition store_connect :: "opener \<Rightarrow> string \<Rightarrow> 32 word \<Rightarrow> server_error + backend" where
  "store_connect P url max_connections =
     (if take 6 url = ''sqlite'' then
        (case op_sqlite P url of Inl e \<Rightarrow> Inl e
         | Inr d \<Rightarrow> (case sq_migrate (op_sha384 P) (op_show P) (op_sq_run P) (op_sq_migrations P) d of
             (Inl e, _) \<Rightarrow> Inl e | (Inr _, d') \<Rightarrow> Inr (Sqlite_Store d')))
      else
        (case op_postgres P url max_connections of Inl e \<Rightarrow> Inl e
         | Inr d \<Rightarrow> (case pg_migrate (op_sha384 P) (op_show P) (op_pg_run P) (op_pg_migrations P) d of
             (Inl e, _) \<Rightarrow> Inl e | (Inr _, d') \<Rightarrow> Inr (Postgres_Store d'))))"

section \<open>What the repair accepts\<close>

text \<open>Swapping line endings loses nothing: the CRLF form of a text goes back to it.\<close>

lemma to_crlf_simps [simp]: "to_crlf [] = []"
  "to_crlf (c # s) = (if c = CHR 0x0A then CHR 0x0D # CHR 0x0A # to_crlf s else c # to_crlf s)"
  by (simp_all add: to_crlf_def)

lemma to_crlf_head: "to_crlf s \<noteq> CHR 0x0A # t"
  by (cases s) auto

lemma to_lf_step: "c \<noteq> CHR 0x0D \<or> (\<forall>t. s \<noteq> CHR 0x0A # t) \<Longrightarrow> to_lf (c # s) = c # to_lf s"
  by (cases s) auto

lemma to_lf_to_crlf: "to_lf (to_crlf s) = s"
  by (induction s) (auto simp: to_lf_step to_crlf_head)

lemma ascii_inject: "ascii s = ascii t \<longleftrightarrow> s = t"
proof -
  have "inj (of_nat \<circ> of_char :: char \<Rightarrow> 8 word)"
    by (rule inj_on_inverseI [of _ "char_of \<circ> unat"]) (simp add: unat_of_nat)
  then show ?thesis by (simp add: ascii_def inj_map_eq_map)
qed

text \<open>Two texts of a migration that the repair takes for the same: the recorded one is the embedded one, or its LF
  or its CRLF form.\<close>

definition same_migration :: "string \<Rightarrow> string \<Rightarrow> bool" where
  "same_migration applied sql \<longleftrightarrow> applied = sql \<or> applied = to_lf sql \<or> applied = to_crlf (to_lf sql)"

definition fault_free :: "mig_db \<Rightarrow> bool" where
  "fault_free d \<longleftrightarrow> (\<forall>n. mt_fault d n = None)"

definition restamped :: "(bytes \<Rightarrow> bytes) \<Rightarrow> migration \<Rightarrow> bytes \<Rightarrow> bytes" where
  "restamped sha m c = (if c \<in> set (line_ending_variant_checksums sha (mg_sql m)) then mg_checksum m else c)"

lemma statement_run: "fault_free d \<Longrightarrow> statement f g d = (Inr (f d), g (d\<lparr>mt_ticks := Suc (mt_ticks d)\<rparr>))"
  by (simp add: statement_def fault_free_def)

lemma stored_tick [simp]: "stored (d\<lparr>mt_ticks := k\<rparr>) = stored d"
  by (simp add: stored_def fun_eq_iff)

lemma map_of_restamp:
  "map_of (map (\<lambda>(w, x). (w, if w = v then c else x)) rows) w = (if w = v then map_option (\<lambda>_. c) (map_of rows w) else map_of rows w)"
  by (induction rows) auto

lemma update_run:
  assumes "fault_free d"
  shows "\<exists>e. update_checksum v c d = (Inr (), e) \<and> fault_free e \<and> (mt_rows e = None \<longleftrightarrow> mt_rows d = None) \<and>
    (\<forall>w. stored e w = (if w = v then map_option (\<lambda>_. c) (stored d w) else stored d w))"
  using assms by (auto simp: update_checksum_def statement_run fault_free_def stored_def map_of_restamp split: option.splits)

lemma repair_one_run:
  assumes "fault_free d" "mt_rows d \<noteq> None"
  shows "\<exists>e. repair_one sha m d = (Inr (), e) \<and> fault_free e \<and> mt_rows e \<noteq> None \<and>
    (\<forall>v. stored e v = (if v = mg_version m then map_option (restamped sha m) (stored d v) else stored d v))"
proof -
  let ?t = "d\<lparr>mt_ticks := Suc (mt_ticks d)\<rparr>"
  have s: "select_checksum (mg_version m) d = (Inr (stored d (mg_version m)), ?t)"
    using assms by (simp add: select_checksum_def bnd_def statement_run ensure_def ret_def gets_def)
  have f: "fault_free ?t" using assms(1) by (simp add: fault_free_def)
  show ?thesis
  proof (cases "stored d (mg_version m)")
    case None
    then show ?thesis using s f assms(2) by (auto simp: repair_one_def bnd_def ret_def)
  next
    case (Some c)
    show ?thesis
    proof (cases "c \<noteq> mg_checksum m \<and> c \<in> set (line_ending_variant_checksums sha (mg_sql m))")
      case True
      obtain e where e: "update_checksum (mg_version m) (mg_checksum m) ?t = (Inr (), e)" "fault_free e" "mt_rows e \<noteq> None"
        "\<forall>w. stored e w = (if w = mg_version m then map_option (\<lambda>_. mg_checksum m) (stored d w) else stored d w)"
        using update_run [OF f, of "mg_version m" "mg_checksum m"] assms(2) by auto
      have "repair_one sha m d = (Inr (), e)" using s Some True e(1) by (simp add: repair_one_def bnd_def)
      moreover have "restamped sha m c = mg_checksum m" using True by (simp add: restamped_def)
      ultimately show ?thesis using e(2-4) Some by auto
    next
      case False
      then have r: "repair_one sha m d = (Inr (), ?t)" "restamped sha m c = c"
        using s Some by (auto simp: repair_one_def bnd_def ret_def restamped_def)
      then show ?thesis using f assms(2) Some by auto
    qed
  qed
qed

lemma repair_all_run:
  assumes "fault_free d" "mt_rows d \<noteq> None" "distinct (map mg_version ms)"
  shows "\<exists>e. for_each (repair_one sha) ms d = (Inr (), e) \<and>
    (\<forall>v. v \<notin> mg_version ` set ms \<longrightarrow> stored e v = stored d v) \<and>
    (\<forall>m\<in>set ms. stored e (mg_version m) = map_option (restamped sha m) (stored d (mg_version m)))"
  using assms
proof (induction ms arbitrary: d)
  case (Cons m ms)
  obtain d1 where d1: "repair_one sha m d = (Inr (), d1)" "fault_free d1" "mt_rows d1 \<noteq> None"
    "\<forall>v. stored d1 v = (if v = mg_version m then map_option (restamped sha m) (stored d v) else stored d v)"
    using repair_one_run [OF Cons.prems(1,2)] by blast
  obtain e where e: "for_each (repair_one sha) ms d1 = (Inr (), e)"
    "\<forall>v. v \<notin> mg_version ` set ms \<longrightarrow> stored e v = stored d1 v"
    "\<forall>m\<in>set ms. stored e (mg_version m) = map_option (restamped sha m) (stored d1 (mg_version m))"
    using Cons.IH [OF d1(2,3)] Cons.prems(3) by auto
  have "mg_version m \<notin> mg_version ` set ms" using Cons.prems(3) by simp
  moreover have "mg_version x \<noteq> mg_version m" if "x \<in> set ms" for x using calculation that by (metis imageI)
  ultimately show ?case using d1(1,4) e by (intro exI [of _ e]) (auto simp: bnd_def)
qed (simp add: ret_def)

lemma restamped_text:
  assumes "inj sha" "mg_checksum m = sha (ascii (mg_sql m))"
  shows "restamped sha m (sha (ascii t)) = (if same_migration t (mg_sql m) then mg_checksum m else sha (ascii t))"
    and "restamped sha m (sha (ascii t)) = mg_checksum m \<longleftrightarrow> same_migration t (mg_sql m)"
  using assms by (auto simp: restamped_def line_ending_variant_checksums_def Let_def same_migration_def inj_eq ascii_inject)

section \<open>Migrating\<close>

text \<open>
  The part of sqlx's documented behaviour the server relies on: \<open>Migrator::run\<close> succeeds only if every version
  that is recorded has the checksum compiled in, and reports \<open>VersionMismatch\<close> only for a version that has not.
\<close>

definition checks_versions :: "migrator \<Rightarrow> bool" where
  "checks_versions run \<longleftrightarrow> (\<forall>ms d.
     (fst (run ms d) = Inr () \<longrightarrow> (\<forall>m\<in>set ms. \<forall>c. stored d (mg_version m) = Some c \<longrightarrow> c = mg_checksum m)) \<and>
     (\<forall>v. fst (run ms d) = Inl (VersionMismatch v) \<longrightarrow>
        (\<exists>m\<in>set ms. mg_version m = v \<and> (\<exists>c. stored d v = Some c \<and> c \<noteq> mg_checksum m))))"

lemma repaired:
  assumes "mig = sq_migrate \<or> mig = pg_migrate \<and> (mt_elsewhere d \<longrightarrow> mt_rows d \<noteq> None)"
    and "fault_free d" "distinct (map mg_version ms)"
  shows "\<exists>e. mig sha show run ms d = run_migrator show run ms e \<and>
    (\<forall>v. v \<notin> mg_version ` set ms \<longrightarrow> stored e v = stored d v) \<and>
    (\<forall>m\<in>set ms. stored e (mg_version m) = map_option (restamped sha m) (stored d (mg_version m)))"
proof (cases "mt_rows d = None")
  case True
  then have "mig sha show run ms d = run_migrator show run ms (d\<lparr>mt_ticks := Suc (mt_ticks d)\<rparr>)"
    using assms(1,2)
    by (auto simp: sq_migrate_def pg_migrate_def sq_repair_line_ending_checksums_def pg_repair_line_ending_checksums_def bnd_def
        statement_run ret_def)
  moreover have "stored d v = None" for v using True by (simp add: stored_def)
  ultimately show ?thesis by (intro exI [of _ "d\<lparr>mt_ticks := Suc (mt_ticks d)\<rparr>"]) simp
next
  case False
  let ?t = "d\<lparr>mt_ticks := Suc (mt_ticks d)\<rparr>"
  have "fault_free ?t" "mt_rows ?t \<noteq> None" using assms(2) False by (simp_all add: fault_free_def)
  from repair_all_run [OF this assms(3), of sha] obtain e where e: "for_each (repair_one sha) ms ?t = (Inr (), e)"
    "\<forall>v. v \<notin> mg_version ` set ms \<longrightarrow> stored e v = stored d v"
    "\<forall>m\<in>set ms. stored e (mg_version m) = map_option (restamped sha m) (stored d (mg_version m))"
    by auto
  then have "mig sha show run ms d = run_migrator show run ms e"
    using assms(1,2) False
    by (auto simp: sq_migrate_def pg_migrate_def sq_repair_line_ending_checksums_def pg_repair_line_ending_checksums_def bnd_def
        statement_run)
  then show ?thesis using e(2,3) by blast
qed


text \<open>A database that a binary from a CRLF checkout migrated, opened by one from an LF checkout.\<close>

definition demo_migration :: migration where
  "demo_migration = \<lparr>mg_version = 1, mg_sql = [CHR ''a'', CHR 0x0A], mg_checksum = ascii [CHR ''a'', CHR 0x0A]\<rparr>"

definition demo_migrated :: mig_db where
  "demo_migrated = \<lparr>mt_rows = Some [(1, ascii [CHR ''a'', CHR 0x0D, CHR 0x0A])], mt_elsewhere = False, mt_fault = (\<lambda>n. None), mt_ticks = 0\<rparr>"

definition demo_migrator :: migrator where
  "demo_migrator ms d = (case find (\<lambda>m. stored d (mg_version m) \<noteq> None \<and> stored d (mg_version m) \<noteq> Some (mg_checksum m)) ms of
     None \<Rightarrow> (Inr (), d) | Some m \<Rightarrow> (Inl (VersionMismatch (mg_version m)), d))"

lemma demo_migrator_checks: "checks_versions demo_migrator"
  unfolding checks_versions_def demo_migrator_def
  by (auto simp: find_None_iff dest!: find_SomeD split: option.splits)


text \<open>
  On PostgreSQL the test for the table looks into every schema: next to another application's table of that
  name a fresh database cannot be opened.
\<close>

lemma pg_other_schema:
  assumes "fault_free d" "mt_rows d = None" "mt_elsewhere d" "ms \<noteq> []"
  shows "\<exists>x. fst (pg_migrate sha show run ms d) = Inl (Database x)"
  using assms
  by (cases ms) (auto simp: pg_migrate_def pg_repair_line_ending_checksums_def repair_one_def select_checksum_def bnd_def ensure_def
      fail_def statement_def fault_free_def)

end
