(* ===== verification/Mls_Engine.thy ===== *)
theory Mls_Engine
  imports Client_Sync
begin

text \<open>
  \<open>crates/accord-mls/src/engine.rs\<close>, the device's MLS state machine, and \<open>mls_persist.rs\<close>, its copy on
  disk.

  OpenMLS and serde\_json are the parameter \<open>mls_lib\<close>.  OpenMLS keeps everything in its provider's
  storage, a map from bytes to bytes, so each of its operations is a computation on that map; the values
  the engine only passes around (groups, messages, commits, welcomes) are opaque, written as bytes.  The
  storage lock is never poisoned (no holder panics).
\<close>

type_synonym mls_store = "(bytes \<times> bytes) list"
type_synonym 'a mls_op = "(mls_store, string, 'a) act"

datatype processed = ApplicationMessage bytes | StagedCommitMessage bytes | OtherContent

record persisted_engine =
  pe_storage :: mls_store
  pe_identity :: bytes
  pe_public_key :: bytes

record mls_lib =
  ml_store_signer :: "bytes \<times> bytes \<Rightarrow> unit mls_op"
  ml_read_signer :: "mls_store \<Rightarrow> bytes \<Rightarrow> (bytes \<times> bytes) option"
  ml_build_key_package :: "bytes \<times> bytes \<Rightarrow> bytes \<times> bytes \<Rightarrow> bytes mls_op"
  ml_key_package_bytes :: "bytes \<Rightarrow> string + bytes"
  ml_new_group :: "bytes \<times> bytes \<Rightarrow> bytes \<Rightarrow> bytes \<times> bytes \<Rightarrow> unit mls_op"
  ml_load :: "mls_store \<Rightarrow> bytes \<Rightarrow> string + bytes option"
  ml_parse_key_package :: "bytes \<Rightarrow> string + bytes"
  ml_validate :: "bytes \<Rightarrow> string + bytes"
  ml_add_members :: "bytes \<times> bytes \<Rightarrow> bytes \<Rightarrow> bytes \<Rightarrow> (bytes \<times> bytes \<times> bytes) mls_op"
  ml_merge_pending :: "bytes \<Rightarrow> unit mls_op"
  ml_message_bytes :: "bytes \<Rightarrow> string + bytes"
  ml_parse_message :: "bytes \<Rightarrow> string + bytes"
  ml_as_welcome :: "bytes \<Rightarrow> bytes option"
  ml_stage_welcome :: "bytes \<Rightarrow> bytes mls_op"
  ml_into_group :: "bytes \<Rightarrow> bytes mls_op"
  ml_create_message :: "bytes \<times> bytes \<Rightarrow> bytes \<Rightarrow> bytes \<Rightarrow> bytes mls_op"
  ml_as_protocol :: "bytes \<Rightarrow> string + bytes"
  ml_process :: "bytes \<Rightarrow> bytes \<Rightarrow> (processed \<times> bytes) mls_op"
  ml_merge_staged :: "bytes \<Rightarrow> bytes \<Rightarrow> unit mls_op"
  ml_members :: "bytes \<Rightarrow> bytes option list"
  ml_to_json :: "persisted_engine \<Rightarrow> string + bytes"
  ml_from_json :: "bytes \<Rightarrow> string + persisted_engine"

section \<open>The engine\<close>

datatype mls_error = Protocol string | Codec string | UnknownGroup | State string

fun mls_error_display :: "mls_error \<Rightarrow> string" where
  "mls_error_display (Protocol e) = ''mls protocol error: '' @ e"
| "mls_error_display (Codec e) = ''mls codec error: '' @ e"
| "mls_error_display UnknownGroup = ''unknown group''"
| "mls_error_display (State e) = ''engine state (de)serialization failed: '' @ e"

datatype decrypt_outcome = Application bytes | CommitApplied | Other

record engine =
  en_storage :: mls_store
  en_signer :: "bytes \<times> bytes"
  en_credential :: "bytes \<times> bytes"
  en_identity :: bytes

type_synonym 'a mlact = "(engine, mls_error, 'a) act"

definition on_store :: "(string \<Rightarrow> mls_error) \<Rightarrow> 'a mls_op \<Rightarrow> 'a mlact" where
  "on_store e m = map_err e (zoom en_storage (\<lambda>t x. x\<lparr>en_storage := t\<rparr>) m)"

definition pure_op :: "(string \<Rightarrow> mls_error) \<Rightarrow> string + 'a \<Rightarrow> 'a mlact" where
  "pure_op e r = map_err e (of_res r)"

definition engine_new :: "prims \<Rightarrow> mls_lib \<Rightarrow> identity_key_pair \<Rightarrow> mls_error + engine" where
  "engine_new P L kp =
     (let public = public_of P kp; signer = (secret_bytes kp, public) in
      case ml_store_signer L signer [] of
        (Inl e, _) \<Rightarrow> Inl (State (''store signer: '' @ e))
      | (Inr _, st) \<Rightarrow> Inr \<lparr>en_storage = st, en_signer = signer, en_credential = (public, public), en_identity = public\<rparr>)"

definition credential_identity :: "engine \<Rightarrow> bytes" where
  "credential_identity = en_identity"

definition serialize :: "mls_lib \<Rightarrow> engine \<Rightarrow> mls_error + bytes" where
  "serialize L x = map_sum State id (ml_to_json L
     \<lparr>pe_storage = en_storage x, pe_identity = en_identity x, pe_public_key = snd (en_signer x)\<rparr>)"

text \<open>Collecting pairs into a hash map: the last pair of a key wins.\<close>

definition collect :: "(bytes \<times> bytes) list \<Rightarrow> mls_store" where
  "collect kvs = foldl (\<lambda>m (k, v). AList.update k v m) [] kvs"

definition from_serialized :: "mls_lib \<Rightarrow> bytes \<Rightarrow> mls_error + engine" where
  "from_serialized L bs =
     (case ml_from_json L bs of Inl e \<Rightarrow> Inl (State e)
      | Inr persisted \<Rightarrow>
        let storage = collect (pe_storage persisted) in
        (case ml_read_signer L storage (pe_public_key persisted) of
           None \<Rightarrow> Inl (State ''signer not found in restored storage'')
         | Some signer \<Rightarrow> Inr \<lparr>en_storage = storage, en_signer = signer,
             en_credential = (pe_identity persisted, pe_public_key persisted), en_identity = pe_identity persisted\<rparr>))"

definition build_one :: "mls_lib \<Rightarrow> bytes mlact" where
  "build_one L =
     bnd (gets (\<lambda>x. (en_signer x, en_credential x))) (\<lambda>(signer, cred).
     bnd (on_store (\<lambda>e. Protocol (''build key package: '' @ e)) (ml_build_key_package L signer cred)) (\<lambda>bundle.
     pure_op Codec (ml_key_package_bytes L bundle)))"

definition generate_key_packages :: "mls_lib \<Rightarrow> nat \<Rightarrow> bytes list mlact" where
  "generate_key_packages L n = map_each (\<lambda>_. build_one L) [0..<n]"

definition create_group :: "mls_lib \<Rightarrow> bytes \<Rightarrow> unit mlact" where
  "create_group L group_id =
     bnd (gets (\<lambda>x. (en_signer x, en_credential x))) (\<lambda>(signer, cred).
     on_store (\<lambda>e. Protocol (''create group: '' @ e)) (ml_new_group L signer group_id cred))"

definition load_group :: "mls_lib \<Rightarrow> bytes \<Rightarrow> bytes mlact" where
  "load_group L group_id =
     bnd (gets (\<lambda>x. ml_load L (en_storage x) group_id)) (\<lambda>r.
     bnd (pure_op State r) (some_or UnknownGroup))"

definition add_member :: "mls_lib \<Rightarrow> bytes \<Rightarrow> bytes \<Rightarrow> (bytes \<times> bytes) mlact" where
  "add_member L group_id key_package =
     bnd (load_group L group_id) (\<lambda>group.
     bnd (pure_op Codec (ml_parse_key_package L key_package)) (\<lambda>kp_in.
     bnd (pure_op (\<lambda>e. Protocol (''invalid key package: '' @ e)) (ml_validate L kp_in)) (\<lambda>kp.
     bnd (gets en_signer) (\<lambda>signer.
     bnd (on_store (\<lambda>e. Protocol (''add member: '' @ e)) (ml_add_members L signer group kp)) (\<lambda>(commit, welcome, group).
     bnd (on_store (\<lambda>e. Protocol (''merge commit: '' @ e)) (ml_merge_pending L group)) (\<lambda>_.
     bnd (pure_op Codec (ml_message_bytes L commit)) (\<lambda>commit_bytes.
     bnd (pure_op Codec (ml_message_bytes L welcome)) (\<lambda>welcome_bytes.
     ret (commit_bytes, welcome_bytes)))))))))"

definition join_from_welcome :: "mls_lib \<Rightarrow> bytes \<Rightarrow> bytes mlact" where
  "join_from_welcome L welcome =
     bnd (pure_op Codec (ml_parse_message L welcome)) (\<lambda>msg.
     bnd (some_or (Protocol ''message was not a Welcome'') (ml_as_welcome L msg)) (\<lambda>w.
     bnd (on_store (\<lambda>e. Protocol (''staged welcome: '' @ e)) (ml_stage_welcome L w)) (\<lambda>staged.
     on_store (\<lambda>e. Protocol (''join group: '' @ e)) (ml_into_group L staged))))"

definition encrypt :: "mls_lib \<Rightarrow> bytes \<Rightarrow> bytes \<Rightarrow> bytes mlact" where
  "encrypt L group_id plaintext =
     bnd (load_group L group_id) (\<lambda>group.
     bnd (gets en_signer) (\<lambda>signer.
     bnd (on_store (\<lambda>e. Protocol (''encrypt: '' @ e)) (ml_create_message L signer group plaintext)) (\<lambda>out.
     pure_op Codec (ml_message_bytes L out))))"

definition process_incoming :: "mls_lib \<Rightarrow> bytes \<Rightarrow> bytes \<Rightarrow> decrypt_outcome mlact" where
  "process_incoming L group_id message =
     bnd (load_group L group_id) (\<lambda>group.
     bnd (pure_op Codec (ml_parse_message L message)) (\<lambda>msg.
     bnd (pure_op (\<lambda>e. Protocol (''not a protocol message: '' @ e)) (ml_as_protocol L msg)) (\<lambda>protocol.
     bnd (on_store (\<lambda>e. Protocol (''process message: '' @ e)) (ml_process L group protocol)) (\<lambda>(content, group).
     case content of
       ApplicationMessage app \<Rightarrow> ret (Application app)
     | StagedCommitMessage staged \<Rightarrow>
         bnd (on_store (\<lambda>e. Protocol (''merge staged commit: '' @ e)) (ml_merge_staged L group staged)) (\<lambda>_.
         ret CommitApplied)
     | OtherContent \<Rightarrow> ret Other))))"

definition group_member_identities :: "mls_lib \<Rightarrow> bytes \<Rightarrow> bytes list mlact" where
  "group_member_identities L group_id =
     bnd (load_group L group_id) (\<lambda>group. ret (List.map_filter id (ml_members L group)))"

section \<open>mls\_persist.rs\<close>

definition mls_path :: "string \<Rightarrow> path clact" where
  "mls_path user_id = bnd (make_dir [''mls'']) (\<lambda>d. ret (d @ [user_id @ ''.bin'']))"

definition mls_load :: "mls_lib \<Rightarrow> client_ext \<Rightarrow> string \<Rightarrow> (client, 'e, engine option) act" where
  "mls_load L X user_id =
     or_else None (
     bnd (mls_path user_id) (\<lambda>p.
     bnd (gets (read_file p)) (\<lambda>f.
     case f of None \<Rightarrow> ret None
     | Some bs \<Rightarrow>
       bnd (open_bytes X bs) (\<lambda>o'.
       ret (case from_serialized L (case o' of None \<Rightarrow> bs | Some pt \<Rightarrow> pt) of
         Inl e \<Rightarrow> None | Inr engine \<Rightarrow> Some engine)))))"

text \<open>
  \<open>persist\<close>: path and sealed blob are both computed before either is looked at; a failure is logged.
  The snapshot is marked for upload whether or not the file was written.
\<close>

definition persist :: "mls_lib \<Rightarrow> client_ext \<Rightarrow> engine \<Rightarrow> string \<Rightarrow> (client, 'e, unit) act" where
  "persist L X engine user_id = (case serialize L engine of
      Inl e \<Rightarrow> ret ()
    | Inr bs \<Rightarrow>
      bnd (or_else None (bnd (mls_path user_id) (\<lambda>p. ret (Some p)))) (\<lambda>p.
      bnd (or_else None (bnd (seal_bytes X bs) (\<lambda>b. ret (Some b)))) (\<lambda>blob.
      bnd (case (p, blob) of
             (Some p, Some blob) \<Rightarrow> or_else () (write_file p blob)
           | _ \<Rightarrow> ret ()) (\<lambda>_.
      mark_mls user_id bs))))"

section \<open>The library's contract\<close>

text \<open>
  \<open>signer_kept\<close> is what the engine relies on from OpenMLS's storage: no operation loses a stored
  signature key, and the storage stays a map (one value per key).  \<open>store_law\<close> states it of every
  operation, with storing a key making it readable; \<open>json_exact\<close> is serde\_json reading back what it wrote.
\<close>

definition signer_kept :: "mls_lib \<Rightarrow> mls_store \<Rightarrow> mls_store \<Rightarrow> bool" where
  "signer_kept L s t \<longleftrightarrow> (distinct (map fst s) \<longrightarrow> distinct (map fst t)) \<and>
     (\<forall>pk sg. ml_read_signer L s pk = Some sg \<longrightarrow> ml_read_signer L t pk = Some sg)"

definition signer_stored :: "mls_lib \<Rightarrow> bool" where
  "signer_stored L \<longleftrightarrow> (\<forall>sg s t. distinct (map fst s) \<and> ml_store_signer L sg s = (Inr (), t) \<longrightarrow>
     distinct (map fst t) \<and> ml_read_signer L t (snd sg) = Some sg)"

definition store_law :: "mls_lib \<Rightarrow> bool" where
  "store_law L \<longleftrightarrow> signer_stored L \<and>
     (\<forall>sg cr. effect (signer_kept L) (ml_build_key_package L sg cr)) \<and>
     (\<forall>sg g cr. effect (signer_kept L) (ml_new_group L sg g cr)) \<and>
     (\<forall>sg g kp. effect (signer_kept L) (ml_add_members L sg g kp)) \<and>
     (\<forall>g. effect (signer_kept L) (ml_merge_pending L g)) \<and>
     (\<forall>w. effect (signer_kept L) (ml_stage_welcome L w)) \<and>
     (\<forall>w. effect (signer_kept L) (ml_into_group L w)) \<and>
     (\<forall>sg g p. effect (signer_kept L) (ml_create_message L sg g p)) \<and>
     (\<forall>g p. effect (signer_kept L) (ml_process L g p)) \<and>
     (\<forall>g p. effect (signer_kept L) (ml_merge_staged L g p))"

definition json_exact :: "mls_lib \<Rightarrow> bool" where
  "json_exact L \<longleftrightarrow> (\<forall>p bs. ml_to_json L p = Inr bs \<longrightarrow> ml_from_json L bs = Inr p)"

section \<open>Engines stay restorable\<close>

definition engine_ok :: "mls_lib \<Rightarrow> engine \<Rightarrow> bool" where
  "engine_ok L x \<longleftrightarrow> distinct (map fst (en_storage x)) \<and>
     en_credential x = (en_identity x, snd (en_signer x)) \<and>
     ml_read_signer L (en_storage x) (snd (en_signer x)) = Some (en_signer x)"

definition engine_kept :: "mls_lib \<Rightarrow> engine \<Rightarrow> engine \<Rightarrow> bool" where
  "engine_kept L x y \<longleftrightarrow> signer_kept L (en_storage x) (en_storage y) \<and> en_signer y = en_signer x \<and>
     en_credential y = en_credential x \<and> en_identity y = en_identity x"

interpretation kept: effect_order "engine_kept L" for L
  by unfold_locales (auto simp: engine_kept_def signer_kept_def)

lemma kept_ok: "engine_kept L x y \<Longrightarrow> engine_ok L x \<Longrightarrow> engine_ok L y"
  unfolding engine_kept_def engine_ok_def signer_kept_def by metis

lemma kept_on_store: "effect (signer_kept L) m \<Longrightarrow> effect (engine_kept L) (on_store e m)"
  unfolding on_store_def
  by (rule kept.eff_map_err) (auto simp: effect_def zoom_def engine_kept_def split: prod.splits, metis snd_conv)

lemma kept_pure: "effect (engine_kept L) (pure_op e r)"
  unfolding pure_op_def by (intro kept.eff_rules)

lemma kept_load: "effect (engine_kept L) (load_group L g)"
  unfolding load_group_def by (intro kept.eff_rules kept_pure)

lemmas kept_rules = kept.eff_rules kept_on_store kept_pure kept_load

text \<open>The engine's operations, as one.\<close>

datatype mls_call =
    GenerateKeyPackages nat
  | CreateGroup bytes
  | AddMember bytes bytes
  | JoinFromWelcome bytes
  | Encrypt bytes bytes
  | ProcessIncoming bytes bytes

fun mls_exec :: "mls_lib \<Rightarrow> mls_call \<Rightarrow> engine \<Rightarrow> engine" where
  "mls_exec L (GenerateKeyPackages n) x = snd (generate_key_packages L n x)"
| "mls_exec L (CreateGroup g) x = snd (create_group L g x)"
| "mls_exec L (AddMember g kp) x = snd (add_member L g kp x)"
| "mls_exec L (JoinFromWelcome w) x = snd (join_from_welcome L w x)"
| "mls_exec L (Encrypt g p) x = snd (encrypt L g p x)"
| "mls_exec L (ProcessIncoming g m) x = snd (process_incoming L g m x)"

lemma kept_ops:
  assumes "store_law L"
  shows "effect (engine_kept L) (generate_key_packages L n)" "effect (engine_kept L) (create_group L g)"
    "effect (engine_kept L) (add_member L g kp)" "effect (engine_kept L) (join_from_welcome L w)"
    "effect (engine_kept L) (encrypt L g p)" "effect (engine_kept L) (process_incoming L g m)"
  unfolding generate_key_packages_def build_one_def create_group_def add_member_def join_from_welcome_def
    encrypt_def process_incoming_def
  using assms by (auto simp: store_law_def intro!: kept_rules split: processed.splits)

lemma kept_exec: "store_law L \<Longrightarrow> engine_kept L x (mls_exec L c x)"
  using kept_ops by (cases c) (auto simp: effect_def)

lemma engine_ok_exec: "store_law L \<Longrightarrow> engine_ok L x \<Longrightarrow> engine_ok L (fold (mls_exec L) cs x)"
  by (induction cs arbitrary: x) (simp_all add: kept_ok [OF kept_exec])

lemma engine_ok_new:
  assumes "store_law L" "engine_new P L kp = Inr x"
  shows "engine_ok L x"
proof -
  let ?sg = "(secret_bytes kp, public_of P kp)"
  obtain r st where m: "ml_store_signer L ?sg [] = (r, st)" by (cases "ml_store_signer L ?sg []")
  have r: "r = Inr ()" using assms(2) m by (cases r) (simp_all add: engine_new_def Let_def)
  have x: "x = \<lparr>en_storage = st, en_signer = ?sg, en_credential = (public_of P kp, public_of P kp),
      en_identity = public_of P kp\<rparr>"
    using assms(2) m r by (simp add: engine_new_def Let_def)
  have "signer_stored L" using assms(1) by (simp add: store_law_def)
  then have "distinct (map fst st) \<and> ml_read_signer L st (snd ?sg) = Some ?sg"
    unfolding signer_stored_def using m r by (metis distinct.simps(1) list.map(1))
  then show ?thesis by (simp add: engine_ok_def x)
qed

section \<open>Across a restart\<close>

lemma collect_append: "collect (xs @ [(k, v)]) = AList.update k v (collect xs)"
  by (simp add: collect_def)

lemma update_new: "k \<notin> fst ` set m \<Longrightarrow> AList.update k v m = m @ [(k, v)]"
  by (induction m) auto

lemma collect_distinct: "distinct (map fst kvs) \<Longrightarrow> collect kvs = kvs"
  by (induction kvs rule: rev_induct) (auto simp: collect_append update_new, simp add: collect_def)

lemma restore_exact:
  assumes "json_exact L" "engine_ok L x" "serialize L x = Inr bs"
  shows "from_serialized L bs = Inr x"
proof -
  obtain j where "ml_to_json L \<lparr>pe_storage = en_storage x, pe_identity = en_identity x,
      pe_public_key = snd (en_signer x)\<rparr> = Inr j" "bs = j"
    using assms(3) by (auto simp: serialize_def map_sum_def split: sum.splits)
  then have "ml_from_json L bs = Inr \<lparr>pe_storage = en_storage x, pe_identity = en_identity x,
      pe_public_key = snd (en_signer x)\<rparr>"
    using assms(1) by (simp add: json_exact_def)
  then show ?thesis using assms(2)
    by (simp add: from_serialized_def engine_ok_def collect_distinct)
qed

abbreviation mls_file :: "string \<Rightarrow> path" where
  "mls_file u \<equiv> [''mls'', u @ ''.bin'']"

definition mls_disk_ok :: "string \<Rightarrow> client \<Rightarrow> bool" where
  "mls_disk_ok u c \<longleftrightarrow> c_fault c [''mls''] = None \<and> c_fault c (mls_file u) = None"

lemma mls_path_ok: "mls_disk_ok u c \<Longrightarrow> mls_path u c = (Inr (mls_file u), c)"
  by (simp add: mls_path_def make_dir_def mls_disk_ok_def bnd_def ret_def)

lemma persist_writes:
  assumes "prims_work (cx_prims X)" "unlocked k c" "mls_disk_ok u c" "serialize L x = Inr bs"
  shows "\<exists>blob r. sealed_as (cx_prims X) k bs blob \<and>
    persist L X x u c = (Inr () :: string + unit, (put_file (mls_file u) blob (c\<lparr>c_rng := r\<rparr>))
      \<lparr>c_sync := (c_sync c)\<lparr>sy_mls := AList.update u bs (sy_mls (c_sync c))\<rparr>\<rparr>)"
proof -
  have "length k = WRAPPING_KEY_LEN" using assms(2) by (simp add: unlocked_def WRAPPING_KEY_LEN_def)
  then obtain blob r where s: "seal (cx_prims X) k bs (c_rng c) = (Inr blob, r)"
    using seal_total [OF assms(1)] by blast
  then have "seal_bytes X bs c = (Inr blob, c\<lparr>c_rng := r\<rparr>)"
    using seal_bytes_unlocked [OF assms(2)] by blast
  moreover have "write_file (mls_file u) blob (c\<lparr>c_rng := r\<rparr>) = (Inr (), put_file (mls_file u) blob (c\<lparr>c_rng := r\<rparr>))"
    using assms(3) by (simp add: write_file_def mls_disk_ok_def)
  ultimately show ?thesis using seal_sealed [OF s] assms(3,4)
    by (intro exI [of _ blob] exI [of _ r])
      (simp add: persist_def bnd_def or_else_def ret_def mls_path_ok mark_mls_def modify_def put_file_def)
qed

lemma mls_load_sealed:
  assumes "json_exact L" "engine_ok L x" "serialize L x = Inr bs" "aead_exact (cx_prims X)"
    and "unlocked k c" "mls_disk_ok u c" "map_of (c_files c) (mls_file u) = Some blob"
    and "sealed_as (cx_prims X) k bs blob"
  shows "mls_load L X u c = (Inr (Some x), c)"
proof -
  have "open_blob (cx_prims X) k blob = Inr bs" using assms(4,8) by (simp add: open_sealed)
  moreover have "read_file (mls_file u) c = Some blob" using assms(6,7) by (simp add: read_file_def mls_disk_ok_def)
  ultimately show ?thesis using restore_exact [OF assms(1,2,3)] assms(5,6)
    by (simp add: mls_load_def or_else_def bnd_def gets_def ret_def mls_path_ok open_bytes_unlocked)
qed


text \<open>A library that sends messages in the clear and keeps nothing but signature keys.\<close>

definition demo_engine :: engine where
  "demo_engine = \<lparr>en_storage = [(public_of demo_prims demo_master, secret_bytes demo_master)],
     en_signer = (secret_bytes demo_master, public_of demo_prims demo_master),
     en_credential = (public_of demo_prims demo_master, public_of demo_prims demo_master),
     en_identity = public_of demo_prims demo_master\<rparr>"

definition demo_persisted :: persisted_engine where
  "demo_persisted = \<lparr>pe_storage = en_storage demo_engine, pe_identity = en_identity demo_engine,
     pe_public_key = snd (en_signer demo_engine)\<rparr>"

definition demo_lib :: mls_lib where
  "demo_lib = \<lparr>ml_store_signer = (\<lambda>sg. modify (AList.update (snd sg) (fst sg))),
     ml_read_signer = (\<lambda>st pk. map_option (\<lambda>s. (s, pk)) (map_of st pk)),
     ml_build_key_package = (\<lambda>sg cr. ret []), ml_key_package_bytes = Inr,
     ml_new_group = (\<lambda>sg g cr. ret ()), ml_load = (\<lambda>st g. Inr (Some g)),
     ml_parse_key_package = Inr, ml_validate = Inr, ml_add_members = (\<lambda>sg g kp. ret ([], [], g)),
     ml_merge_pending = (\<lambda>g. ret ()), ml_message_bytes = Inr, ml_parse_message = Inr, ml_as_welcome = Some,
     ml_stage_welcome = ret, ml_into_group = ret, ml_create_message = (\<lambda>sg g p. ret p), ml_as_protocol = Inr,
     ml_process = (\<lambda>g p. ret (ApplicationMessage p, g)), ml_merge_staged = (\<lambda>g s. ret ()),
     ml_members = (\<lambda>g. []),
     ml_to_json = (\<lambda>p. if p = demo_persisted then Inr [1] else Inl ''none''),
     ml_from_json = (\<lambda>bs. if bs = [1] then Inr demo_persisted else Inl ''none'')\<rparr>"

lemma demo_lib_laws: "store_law demo_lib" "json_exact demo_lib"
proof -
  have "distinct (map fst (AList.update k v s))" if "distinct (map fst s)" for k v and s :: mls_store
    using that by (rule distinct_update)
  then show "store_law demo_lib"
    by (auto simp: store_law_def signer_stored_def signer_kept_def effect_def demo_lib_def act_defs update_conv')
  show "json_exact demo_lib" by (auto simp: json_exact_def demo_lib_def split: if_splits)
qed

lemma demo_engine_new: "engine_new demo_prims demo_lib demo_master = Inr demo_engine"
  by (simp add: engine_new_def demo_lib_def modify_def demo_engine_def Let_def)

lemma demo_engine_runs: "fold (mls_exec demo_lib) [CreateGroup [9], Encrypt [9] [1]] demo_engine = demo_engine"
  by (simp add: create_group_def encrypt_def load_group_def pure_op_def on_store_def act_defs demo_lib_def)

lemma demo_serialize: "serialize demo_lib demo_engine = Inr [1]"
  by (simp add: serialize_def demo_lib_def demo_persisted_def)


end
