(* ===== verification/Voice_Link.thy ===== *)
theory Voice_Link
  imports Accord_Prelude
begin

text \<open>
  \<open>voice_engine/peer.rs\<close>: one WebRTC connection to one remote device.

  webrtc-rs and the JSON encoders are the parameter \<open>rtc\<close>.  A peer connection is an opaque value that
  its operations transform; descriptions and candidates are opaque too, written as bytes.  What the code
  relies on is only the order in which it calls them, so a link keeps the calls made on its connection.
\<close>

type_synonym 'a pc_op = "(bytes, string, 'a) act"

record rtc =
  rt_codecs :: "nat \<Rightarrow> string option"
  rt_interceptors :: "nat \<Rightarrow> string option"
  rt_connection :: "nat \<Rightarrow> string + bytes"
  rt_add_track :: "bytes \<Rightarrow> string + bytes"
  rt_create_offer :: "bytes pc_op"
  rt_create_answer :: "bytes pc_op"
  rt_set_local :: "bytes \<Rightarrow> unit pc_op"
  rt_local :: "bytes \<Rightarrow> bytes option"
  rt_set_remote :: "bytes \<Rightarrow> unit pc_op"
  rt_add_candidate :: "bytes \<Rightarrow> unit pc_op"
  rt_write_sample :: "bytes \<Rightarrow> unit pc_op"
  rt_close :: "unit pc_op"
  rt_sdp_to_json :: "bytes \<Rightarrow> string + string"
  rt_sdp_from_json :: "string \<Rightarrow> string + bytes"
  rt_candidate_init :: "bytes \<Rightarrow> string + bytes"
  rt_init_to_json :: "bytes \<Rightarrow> string + string"
  rt_init_from_json :: "string \<Rightarrow> string + bytes"

datatype pc_call = Set_Local bytes | Set_Remote bytes | Add_Candidate bytes | Write_Sample bytes | Close

record link =
  lk_remote_device :: string
  lk_pc :: bytes
  lk_pending_ice :: "bytes list"
  lk_has_remote :: bool
  lk_calls :: "(pc_call \<times> bool) list"

text \<open>A signalling envelope: target device, kind, payload.\<close>

type_synonym envelope = "string \<times> string \<times> string"

type_synonym 'a lact = "(link, string, 'a) act"

text \<open>A library call on the connection, recorded with whether it succeeded.\<close>

definition pc_do :: "pc_call \<Rightarrow> (string \<Rightarrow> string) \<Rightarrow> 'a pc_op \<Rightarrow> 'a lact" where
  "pc_do what e m = (\<lambda>l. case m (lk_pc l) of (r, pc) \<Rightarrow>
     (map_sum e id r, l\<lparr>lk_pc := pc, lk_calls := lk_calls l @ [(what, \<not> isl r)]\<rparr>))"

definition pc_make :: "(string \<Rightarrow> string) \<Rightarrow> 'a pc_op \<Rightarrow> 'a lact" where
  "pc_make e m = map_err e (zoom lk_pc (\<lambda>pc l. l\<lparr>lk_pc := pc\<rparr>) m)"

definition link_new :: "rtc \<Rightarrow> nat \<Rightarrow> string \<Rightarrow> string + link" where
  "link_new W n remote_device =
     (case rt_codecs W n of Some e \<Rightarrow> Inl (''codec registration failed: '' @ e)
      | None \<Rightarrow>
     (case rt_interceptors W n of Some e \<Rightarrow> Inl (''interceptor registration failed: '' @ e)
      | None \<Rightarrow>
     (case rt_connection W n of Inl e \<Rightarrow> Inl (''could not create peer connection: '' @ e)
      | Inr pc \<Rightarrow>
     (case rt_add_track W pc of Inl e \<Rightarrow> Inl (''could not add audio track: '' @ e)
      | Inr pc \<Rightarrow> Inr \<lparr>lk_remote_device = remote_device, lk_pc = pc, lk_pending_ice = [], lk_has_remote = False,
          lk_calls = []\<rparr>))))"

definition set_and_read_local :: "rtc \<Rightarrow> string \<Rightarrow> bytes \<Rightarrow> string lact" where
  "set_and_read_local W what desc =
     bnd (pc_do (Set_Local desc) (\<lambda>e. ''could not set local '' @ what @ '': '' @ e) (rt_set_local W desc)) (\<lambda>_.
     bnd (gets (\<lambda>l. rt_local W (lk_pc l))) (\<lambda>d.
     bnd (some_or ''local description missing after set'' d) (\<lambda>local.
     map_err (\<lambda>e. ''could not encode '' @ what @ '': '' @ e) (of_res (rt_sdp_to_json W local)))))"

definition start_offer :: "rtc \<Rightarrow> envelope lact" where
  "start_offer W =
     bnd (pc_make (\<lambda>e. ''could not create offer: '' @ e) (rt_create_offer W)) (\<lambda>offer.
     bnd (set_and_read_local W ''offer'' offer) (\<lambda>json.
     bnd (gets lk_remote_device) (\<lambda>device.
     ret (device, ''offer'', json))))"

definition flush_pending_ice :: "rtc \<Rightarrow> unit lact" where
  "flush_pending_ice W =
     bnd (modify (\<lambda>l. l\<lparr>lk_has_remote := True\<rparr>)) (\<lambda>_.
     bnd (gets lk_pending_ice) (\<lambda>queued.
     bnd (modify (\<lambda>l. l\<lparr>lk_pending_ice := []\<rparr>)) (\<lambda>_.
     for_each (\<lambda>i. or_else () (pc_do (Add_Candidate i) (\<lambda>e. e) (rt_add_candidate W i))) queued)))"

definition accept_offer :: "rtc \<Rightarrow> string \<Rightarrow> envelope lact" where
  "accept_offer W sdp_json =
     bnd (map_err (\<lambda>e. ''malformed offer: '' @ e) (of_res (rt_sdp_from_json W sdp_json))) (\<lambda>offer.
     bnd (pc_do (Set_Remote offer) (\<lambda>e. ''could not apply offer: '' @ e) (rt_set_remote W offer)) (\<lambda>_.
     bnd (flush_pending_ice W) (\<lambda>_.
     bnd (pc_make (\<lambda>e. ''could not create answer: '' @ e) (rt_create_answer W)) (\<lambda>answer.
     bnd (set_and_read_local W ''answer'' answer) (\<lambda>json.
     bnd (gets lk_remote_device) (\<lambda>device.
     ret (device, ''answer'', json)))))))"

definition accept_answer :: "rtc \<Rightarrow> string \<Rightarrow> unit lact" where
  "accept_answer W sdp_json =
     bnd (map_err (\<lambda>e. ''malformed answer: '' @ e) (of_res (rt_sdp_from_json W sdp_json))) (\<lambda>answer.
     bnd (pc_do (Set_Remote answer) (\<lambda>e. ''could not apply answer: '' @ e) (rt_set_remote W answer)) (\<lambda>_.
     flush_pending_ice W))"

definition add_ice :: "rtc \<Rightarrow> string \<Rightarrow> unit lact" where
  "add_ice W candidate_json =
     bnd (map_err (\<lambda>e. ''malformed ICE candidate: '' @ e) (of_res (rt_init_from_json W candidate_json))) (\<lambda>i.
     bnd (gets lk_has_remote) (\<lambda>has_remote.
     if \<not> has_remote then modify (\<lambda>l. l\<lparr>lk_pending_ice := lk_pending_ice l @ [i]\<rparr>)
     else pc_do (Add_Candidate i) (\<lambda>e. ''could not add ICE candidate: '' @ e) (rt_add_candidate W i)))"

text \<open>The callback that trickles our own candidates: \<open>None\<close> when gathering has finished.\<close>

definition on_ice_candidate :: "rtc \<Rightarrow> string \<Rightarrow> bytes option \<Rightarrow> envelope option" where
  "on_ice_candidate W target candidate = (case candidate of None \<Rightarrow> None
     | Some c \<Rightarrow> (case rt_candidate_init W c of Inl e \<Rightarrow> None
     | Inr i \<Rightarrow> (case rt_init_to_json W i of Inl e \<Rightarrow> None | Inr json \<Rightarrow> Some (target, ''ice'', json))))"

definition send_frame :: "rtc \<Rightarrow> bytes \<Rightarrow> link \<Rightarrow> link" where
  "send_frame W f l = snd (pc_do (Write_Sample f) (\<lambda>e. e) (rt_write_sample W f) l)"

definition link_close :: "rtc \<Rightarrow> link \<Rightarrow> link" where
  "link_close W l = snd (pc_do Close (\<lambda>e. e) (rt_close W) l)"

section \<open>Candidates are neither lost nor early\<close>

text \<open>Everything that happens to a link.\<close>

datatype link_event = Ev_Start_Offer | Ev_Offer string | Ev_Answer string | Ev_Ice string | Ev_Frame bytes | Ev_Close

fun link_step :: "rtc \<Rightarrow> link_event \<Rightarrow> link \<Rightarrow> link" where
  "link_step W Ev_Start_Offer l = snd (start_offer W l)"
| "link_step W (Ev_Offer s) l = snd (accept_offer W s l)"
| "link_step W (Ev_Answer s) l = snd (accept_answer W s l)"
| "link_step W (Ev_Ice s) l = snd (add_ice W s l)"
| "link_step W (Ev_Frame f) l = send_frame W f l"
| "link_step W Ev_Close l = link_close W l"

fun candidate_of :: "rtc \<Rightarrow> link_event \<Rightarrow> bytes option" where
  "candidate_of W (Ev_Ice s) = (case rt_init_from_json W s of Inl e \<Rightarrow> None | Inr i \<Rightarrow> Some i)"
| "candidate_of W ev = None"

fun added :: "pc_call \<times> bool \<Rightarrow> bytes option" where
  "added (Add_Candidate i, ok) = Some i"
| "added (c, ok) = None"

definition remote_set :: "(pc_call \<times> bool) list \<Rightarrow> bool" where
  "remote_set calls \<longleftrightarrow> (\<exists>d. (Set_Remote d, True) \<in> set calls)"

definition none_early :: "(pc_call \<times> bool) list \<Rightarrow> bool" where
  "none_early calls \<longleftrightarrow> (\<forall>xs c ys. calls = xs @ c # ys \<and> added c \<noteq> None \<longrightarrow> remote_set xs)"

definition link_ok :: "bytes list \<Rightarrow> link \<Rightarrow> bool" where
  "link_ok cs l \<longleftrightarrow> List.map_filter added (lk_calls l) @ lk_pending_ice l = cs \<and>
     lk_has_remote l = remote_set (lk_calls l) \<and> (lk_has_remote l \<longrightarrow> lk_pending_ice l = []) \<and>
     none_early (lk_calls l)"

lemma map_filter_snoc: "List.map_filter f (xs @ [x]) = List.map_filter f xs @ (case f x of None \<Rightarrow> [] | Some y \<Rightarrow> [y])"
  by (induction xs) (simp_all add: List.map_filter_simps split: option.splits)

lemma remote_set_snoc: "remote_set (cs @ [c]) \<longleftrightarrow> remote_set cs \<or> (\<exists>d. c = (Set_Remote d, True))"
  by (auto simp: remote_set_def)

lemma none_early_snoc: "none_early (cs @ [c]) \<longleftrightarrow> none_early cs \<and> (added c \<noteq> None \<longrightarrow> remote_set cs)"
proof
  assume e: "none_early (cs @ [c])"
  have "remote_set xs" if "cs = xs @ d # ys" "added d \<noteq> None" for xs d ys
    using e that unfolding none_early_def by (metis append.assoc append_Cons)
  then show "none_early cs \<and> (added c \<noteq> None \<longrightarrow> remote_set cs)"
    using e unfolding none_early_def by blast
next
  assume e: "none_early cs \<and> (added c \<noteq> None \<longrightarrow> remote_set cs)"
  have "remote_set xs" if "cs @ [c] = xs @ d # ys" "added d \<noteq> None" for xs d ys
  proof (cases ys rule: rev_cases)
    case (snoc zs z)
    then have "cs = xs @ d # zs" using that(1) by simp
    then show ?thesis using e that(2) unfolding none_early_def by blast
  qed (use e that in simp)
  then show "none_early (cs @ [c])" unfolding none_early_def by blast
qed

lemma wp_pc_do [wp_simps]:
  "wp (pc_do c e m) Q X = (\<lambda>l. case m (lk_pc l) of
      (Inl x, pc) \<Rightarrow> X (e x) (l\<lparr>lk_pc := pc, lk_calls := lk_calls l @ [(c, False)]\<rparr>)
    | (Inr a, pc) \<Rightarrow> Q a (l\<lparr>lk_pc := pc, lk_calls := lk_calls l @ [(c, True)]\<rparr>))"
  by (auto simp: wp_def pc_do_def fun_eq_iff split: prod.splits sum.splits)

lemma wp_any: "wp m (\<lambda>_. I) (\<lambda>_. I) l \<longleftrightarrow> I (snd (m l))"
  by (simp add: wp_def split: prod.splits sum.splits)

text \<open>A call that neither adds a candidate nor sets the remote description keeps the state.\<close>

definition neutral :: "link \<Rightarrow> link \<Rightarrow> bool" where
  "neutral l l' \<longleftrightarrow> lk_pending_ice l' = lk_pending_ice l \<and> lk_has_remote l' = lk_has_remote l \<and>
     (\<exists>cs. lk_calls l' = lk_calls l @ cs \<and> (\<forall>c\<in>set cs. added c = None \<and> (\<forall>d. c \<noteq> (Set_Remote d, True))))"

interpretation neutral: effect_order neutral
proof
  show "neutral s s" for s by (simp add: neutral_def)
  show "neutral s t \<Longrightarrow> neutral t u \<Longrightarrow> neutral s u" for s t u unfolding neutral_def by fastforce
qed

lemma neutral_do: "added (c, True) = None \<Longrightarrow> added (c, False) = None \<Longrightarrow> \<forall>d. c \<noteq> Set_Remote d \<Longrightarrow> effect neutral (pc_do c e m)"
  by (auto simp: effect_def neutral_def pc_do_def split: prod.splits) (metis (full_types))+

lemma neutral_make: "effect neutral (pc_make e m)"
  unfolding pc_make_def
  by (rule neutral.eff_map_err) (auto simp: effect_def neutral_def zoom_def split: prod.splits)

lemma neutral_ok: "neutral l l' \<Longrightarrow> link_ok cs l \<Longrightarrow> link_ok cs l'"
proof -
  assume n: "neutral l l'" and ok: "link_ok cs l"
  obtain ds where ds: "lk_calls l' = lk_calls l @ ds" "\<forall>c\<in>set ds. added c = None \<and> (\<forall>d. c \<noteq> (Set_Remote d, True))"
    using n by (auto simp: neutral_def)
  have "List.map_filter added (calls @ ds) = List.map_filter added calls \<and> remote_set (calls @ ds) = remote_set calls
      \<and> none_early (calls @ ds) = none_early calls" for calls
    using ds(2) by (induction ds rule: rev_induct)
      (auto simp: map_filter_snoc remote_set_snoc none_early_snoc simp flip: append_assoc)
  then show ?thesis using n ok ds(1) by (simp add: link_ok_def neutral_def)
qed

lemma neutral_local: "effect neutral (set_and_read_local W what d)"
  unfolding set_and_read_local_def by (intro neutral.eff_rules neutral_do) simp_all

lemma neutral_offer: "effect neutral (start_offer W)"
  unfolding start_offer_def by (intro neutral.eff_rules neutral_make neutral_local)

lemma add_step:
  assumes "link_ok cs l" "lk_has_remote l"
  shows "link_ok (cs @ [i]) (snd (pc_do (Add_Candidate i) e m l))" "lk_has_remote (snd (pc_do (Add_Candidate i) e m l))"
  using assms
  by (auto simp: link_ok_def pc_do_def map_filter_snoc remote_set_snoc none_early_snoc split: prod.splits)

lemma flush_loop:
  assumes "link_ok cs l" "lk_has_remote l"
  shows "\<exists>l'. for_each (\<lambda>i. or_else () (pc_do (Add_Candidate i) (\<lambda>e. e) (rt_add_candidate W i))) qs l = (Inr () :: string + unit, l') \<and>
    link_ok (cs @ qs) l'"
  using assms
proof (induction qs arbitrary: cs l)
  case (Cons i qs)
  let ?l = "snd (pc_do (Add_Candidate i) (\<lambda>e. e) (rt_add_candidate W i) l)"
  have "or_else () (pc_do (Add_Candidate i) (\<lambda>e. e) (rt_add_candidate W i)) l = (Inr () :: string + unit, ?l)"
    by (simp add: or_else_def split: prod.splits sum.splits)
  then show ?case using Cons.IH [OF add_step [OF Cons.prems]] by (simp add: bnd_def)
qed (simp add: ret_def)

text \<open>Flushing right after the remote description was set.\<close>

lemma flush_ok:
  assumes "link_ok cs l" "remote_set calls" "lk_calls l' = lk_calls l @ calls" "List.map_filter added calls = []"
    and "lk_pending_ice l' = lk_pending_ice l" "none_early (lk_calls l')"
  shows "\<exists>t. flush_pending_ice W l' = (Inr (), t) \<and> link_ok cs t"
proof -
  let ?l = "l'\<lparr>lk_has_remote := True, lk_pending_ice := []\<rparr>"
  have "link_ok (List.map_filter added (lk_calls l)) ?l"
    using assms by (auto simp: link_ok_def remote_set_def List.map_filter_def)
  then obtain t where "for_each (\<lambda>i. or_else () (pc_do (Add_Candidate i) (\<lambda>e. e) (rt_add_candidate W i))) (lk_pending_ice l') ?l
      = (Inr () :: string + unit, t)" "link_ok (List.map_filter added (lk_calls l) @ lk_pending_ice l') t"
    using flush_loop [where W = W and l = ?l and qs = "lk_pending_ice l'"] by auto
  then show ?thesis using assms(1,5) by (simp add: flush_pending_ice_def bnd_def modify_def gets_def link_ok_def)
qed

lemma bnd_runs: "m s = (Inr a, t) \<Longrightarrow> bnd m f s = f a t" "m s = (Inl e, t) \<Longrightarrow> bnd m f s = (Inl e, t)"
  by (simp_all add: bnd_def)

lemma map_sum_Inl: "map_sum f g x = Inl y \<longleftrightarrow> (\<exists>z. x = Inl z \<and> y = f z)"
  by (cases x) auto

lemma map_sum_Inr: "map_sum f g x = Inr y \<longleftrightarrow> (\<exists>z. x = Inr z \<and> y = g z)"
  by (cases x) auto

lemma set_remote_ok:
  assumes "link_ok cs l" "pc_do (Set_Remote d) e m l = (r, l')"
  shows "case r of Inl _ \<Rightarrow> link_ok cs l' | Inr _ \<Rightarrow> (\<exists>t. flush_pending_ice W l' = (Inr (), t) \<and> link_ok cs t)"
proof (cases r)
  case (Inl x)
  then show ?thesis using assms
    by (auto simp: link_ok_def pc_do_def map_sum_Inl map_filter_snoc remote_set_snoc none_early_snoc split: prod.splits)
next
  case (Inr a)
  then have "lk_calls l' = lk_calls l @ [(Set_Remote d, True)]" "lk_pending_ice l' = lk_pending_ice l"
    using assms(2) by (auto simp: pc_do_def map_sum_Inr split: prod.splits)
  then have "\<exists>t. flush_pending_ice W l' = (Inr (), t) \<and> link_ok cs t" using assms(1)
    by (intro flush_ok [of cs l "[(Set_Remote d, True)]"])
      (auto simp: remote_set_def none_early_snoc link_ok_def List.map_filter_simps)
  then show ?thesis using Inr by simp
qed

lemma answer_ok: "link_ok cs l \<Longrightarrow> link_ok cs (snd (accept_answer W s l))"
proof (cases "rt_sdp_from_json W s")
  case (Inr d)
  assume ok: "link_ok cs l"
  obtain r l' where d: "pc_do (Set_Remote d) (\<lambda>e. ''could not apply answer: '' @ e) (rt_set_remote W d) l = (r, l')"
    by (meson surj_pair)
  then show ?thesis using set_remote_ok [OF ok d, of W] Inr
    by (auto simp: accept_answer_def bnd_def map_err_def of_res_def split: sum.splits)
qed (simp add: accept_answer_def bnd_def map_err_def of_res_def)

lemma neutral_snd: "effect neutral m \<Longrightarrow> link_ok cs l \<Longrightarrow> link_ok cs (snd (m l))"
  by (auto simp: effect_def intro: neutral_ok)

lemma offer_ok: "link_ok cs l \<Longrightarrow> link_ok cs (snd (accept_offer W s l))"
proof (cases "rt_sdp_from_json W s")
  case (Inr d)
  assume ok: "link_ok cs l"
  let ?rest = "bnd (pc_make (\<lambda>e. ''could not create answer: '' @ e) (rt_create_answer W)) (\<lambda>answer.
     bnd (set_and_read_local W ''answer'' answer) (\<lambda>json.
     bnd (gets lk_remote_device) (\<lambda>device.
     ret (device, ''answer'', json))))"
  obtain r l' where d: "pc_do (Set_Remote d) (\<lambda>e. ''could not apply offer: '' @ e) (rt_set_remote W d) l = (r, l')"
    by (meson surj_pair)
  have "effect neutral ?rest" by (intro neutral.eff_rules neutral_make neutral_local)
  then have rest: "link_ok cs t \<Longrightarrow> link_ok cs (snd (?rest t))" for t by (rule neutral_snd)
  show ?thesis
  proof (cases r)
    case (Inl e)
    then show ?thesis using set_remote_ok [OF ok d, of W] \<open>rt_sdp_from_json W s = Inr d\<close> d
      by (simp add: accept_offer_def bnd_def map_err_def of_res_def)
  next
    case (Inr a)
    then obtain t where "flush_pending_ice W l' = (Inr (), t)" "link_ok cs t"
      using set_remote_ok [OF ok d, of W] by auto
    moreover have "map_err (\<lambda>e. ''malformed offer: '' @ e) (of_res (rt_sdp_from_json W s)) l = (Inr d, l)"
      using \<open>rt_sdp_from_json W s = Inr d\<close> by (simp add: map_err_def of_res_def)
    ultimately have "accept_offer W s l = ?rest t" using d Inr unfolding accept_offer_def by (simp only: bnd_runs)
    then show ?thesis using rest [OF \<open>link_ok cs t\<close>] by simp
  qed
qed (simp add: accept_offer_def bnd_def map_err_def of_res_def)

lemma ice_ok: "link_ok cs l \<Longrightarrow> link_ok (cs @ (case candidate_of W (Ev_Ice s) of None \<Rightarrow> [] | Some i \<Rightarrow> [i])) (snd (add_ice W s l))"
proof (cases "rt_init_from_json W s")
  case (Inr i)
  assume ok: "link_ok cs l"
  show ?thesis
  proof (cases "lk_has_remote l")
    case True
    then show ?thesis using add_step(1) [OF ok True] Inr
      by (simp add: add_ice_def bnd_def map_err_def of_res_def gets_def)
  next
    case False
    then show ?thesis using ok Inr
      by (auto simp: add_ice_def bnd_def map_err_def of_res_def gets_def modify_def link_ok_def)
  qed
qed (simp add: add_ice_def bnd_def map_err_def of_res_def)

lemma step_ok: "link_ok cs l \<Longrightarrow> link_ok (cs @ (case candidate_of W ev of None \<Rightarrow> [] | Some i \<Rightarrow> [i])) (link_step W ev l)"
  using ice_ok [of cs l W]
  by (cases ev) (auto simp: offer_ok answer_ok send_frame_def link_close_def intro!: neutral_snd neutral_offer neutral_do)

lemma steps_ok: "link_ok cs l \<Longrightarrow> link_ok (cs @ List.map_filter (candidate_of W) evs) (fold (link_step W) evs l)"
proof (induction evs arbitrary: cs l)
  case (Cons ev evs)
  then show ?case using Cons.IH [OF step_ok [OF Cons.prems, of W ev]]
    by (auto simp: List.map_filter_simps split: option.splits)
qed (simp add: List.map_filter_simps)

text \<open>
  C33: No ICE candidate is lost and none is handed to the connection too early.  Whatever offers, answers,
  candidates, frames and closes arrive, in any order and failing or not, on a new link: the well-formed
  candidates, in the order they arrived, are those passed to the connection followed by those still
  waiting; nothing waits once a remote description was accepted; and every candidate passed was passed
  after one.
\<close>

theorem ice_buffered_exactly:
  assumes "link_new W n device = Inr l" and "t = fold (link_step W) evs l"
  shows "List.map_filter added (lk_calls t) @ lk_pending_ice t = List.map_filter (candidate_of W) evs \<and>
    (remote_set (lk_calls t) \<longrightarrow> lk_pending_ice t = []) \<and>
    (\<forall>xs i ok ys. lk_calls t = xs @ (Add_Candidate i, ok) # ys \<longrightarrow> remote_set xs)"
proof -
  have "link_ok [] l" using assms(1)
    by (auto simp: link_new_def link_ok_def List.map_filter_simps remote_set_def none_early_def split: option.splits sum.splits)
  then have ok: "link_ok (List.map_filter (candidate_of W) evs) t" using steps_ok [of "[]" l W evs] assms(2) by simp
  have "remote_set xs" if "lk_calls t = xs @ (Add_Candidate i, ok) # ys" for xs i ok ys
    using ok that unfolding link_ok_def none_early_def by (metis added.simps(1) option.distinct(1))
  then show ?thesis using ok by (auto simp: link_ok_def)
qed

text \<open>A stack that accepts everything.\<close>

definition demo_rtc :: rtc where
  "demo_rtc = \<lparr>rt_codecs = (\<lambda>n. None), rt_interceptors = (\<lambda>n. None), rt_connection = (\<lambda>n. Inr []),
     rt_add_track = Inr, rt_create_offer = ret [1], rt_create_answer = ret [2], rt_set_local = (\<lambda>d. modify (\<lambda>_. d)),
     rt_local = Some, rt_set_remote = (\<lambda>d. ret ()), rt_add_candidate = (\<lambda>c. ret ()), rt_write_sample = (\<lambda>f. ret ()),
     rt_close = ret (), rt_sdp_to_json = (\<lambda>d. Inr ''sdp''), rt_sdp_from_json = (\<lambda>s. Inr [3]),
     rt_candidate_init = Inr, rt_init_to_json = (\<lambda>i. Inr ''ice''),
     rt_init_from_json = (\<lambda>s. if s = [] then Inl ''empty'' else Inr (map (of_nat \<circ> of_char) s))\<rparr>"

theorem ice_buffered_exactly_witness:
  "\<exists>l. link_new demo_rtc 0 ''d'' = Inr l \<and>
    List.map_filter added (lk_calls (fold (link_step demo_rtc) [Ev_Ice ''a'', Ev_Ice [], Ev_Offer ''o'', Ev_Ice ''b''] l)) =
      [[97], [98]] \<and>
    lk_pending_ice (fold (link_step demo_rtc) [Ev_Ice ''a'', Ev_Ice [], Ev_Offer ''o'', Ev_Ice ''b''] l) = []"
proof -
  let ?evs = "[Ev_Ice ''a'', Ev_Ice [], Ev_Offer ''o'', Ev_Ice ''b'']"
  obtain l where l: "link_new demo_rtc 0 ''d'' = Inr l" by (simp add: link_new_def demo_rtc_def)
  let ?t = "fold (link_step demo_rtc) ?evs l"
  have "remote_set (lk_calls ?t)" using l
    by (auto simp: link_new_def demo_rtc_def remote_set_def add_ice_def accept_offer_def flush_pending_ice_def
        set_and_read_local_def pc_make_def pc_do_def act_defs)
  moreover have "List.map_filter (candidate_of demo_rtc) ?evs = [[97], [98]]"
    by (simp add: demo_rtc_def List.map_filter_simps)
  ultimately show ?thesis using ice_buffered_exactly [OF l refl, of ?evs] l by auto
qed

end
