(* ===== verification/Voice_Ringtone.thy ===== *)
theory Voice_Ringtone
  imports Voice_Audio
begin

text \<open>
  \<open>voice_engine/ringtone.rs\<close>: the ringtones, their decoding, and the callbacks that loop one on a speaker.

  The bundled files are generated by the build and are an argument.  The audio decoder (symphonia) is the
  parameter \<open>probe\<close>: for the bytes of a file, the container with its default track, its codec and the
  sequence of packets read from it, each with what decoding it gives.  Samples are real numbers.
\<close>

record bundled_ringtone =
  bu_id :: string
  bu_name :: string
  bu_bytes :: bytes

record ringtone_info =
  ri_id :: string
  ri_name :: string

definition DEFAULT_ID :: string where "DEFAULT_ID = ''classic''"

definition ringtone_list :: "bundled_ringtone list \<Rightarrow> ringtone_info list" where
  "ringtone_list B = \<lparr>ri_id = DEFAULT_ID, ri_name = ''Classic''\<rparr>
     # map (\<lambda>r. \<lparr>ri_id = bu_id r, ri_name = bu_name r\<rparr>) B"

section \<open>Decoding\<close>

datatype decoded_packet = Buffer nat nat "real list" | Damaged | Reset_Required | Decode_Fails string

datatype next_packet = End_Of_Stream | Unexpected_Eof | Read_Fails string | Packet nat decoded_packet

record codec_params =
  co_channels :: "nat option"
  co_rate :: "nat option"

record media =
  me_track :: "(nat \<times> codec_params option) option"
  me_decoder_error :: "string option"
  me_packets :: "next_packet list"

text \<open>\<open>count() as u16\<close>.\<close>

definition as_u16 :: "nat \<Rightarrow> nat" where
  "as_u16 n = n mod 65536"

fun decode_loop :: "nat \<Rightarrow> next_packet list \<Rightarrow> real list \<times> nat \<times> nat \<Rightarrow> string + real list \<times> nat \<times> nat" where
  "decode_loop track [] acc = Inr acc"
| "decode_loop track (End_Of_Stream # ps) acc = Inr acc"
| "decode_loop track (Unexpected_Eof # ps) acc = Inr acc"
| "decode_loop track (Read_Fails e # ps) acc = Inl (''could not read audio: '' @ e)"
| "decode_loop track (Packet i d # ps) (interleaved, channels, rate) =
     (if i \<noteq> track then decode_loop track ps (interleaved, channels, rate)
      else case d of
        Buffer r c scratch \<Rightarrow>
          if scratch = [] then decode_loop track ps (interleaved, channels, rate)
          else decode_loop track ps (interleaved @ scratch, as_u16 c, r)
      | Damaged \<Rightarrow> decode_loop track ps (interleaved, channels, rate)
      | Reset_Required \<Rightarrow> decode_loop track ps (interleaved, channels, rate)
      | Decode_Fails e \<Rightarrow> Inl (''could not decode audio: '' @ e))"

definition audio_track :: "media \<Rightarrow> string + nat \<times> codec_params" where
  "audio_track m = (case me_track m of None \<Rightarrow> Inl ''file has no audio track''
     | Some (i, None) \<Rightarrow> Inl ''audio track has no codec parameters''
     | Some (i, Some p) \<Rightarrow> Inr (i, p))"

definition ringtone_decode :: "(bytes \<Rightarrow> string + media) \<Rightarrow> bytes \<Rightarrow> string + real list" where
  "ringtone_decode probe bs =
     (case probe bs of Inl e \<Rightarrow> Inl (''unrecognised audio file: '' @ e)
      | Inr m \<Rightarrow>
     (case audio_track m of Inl e \<Rightarrow> Inl e
      | Inr (track_id, params) \<Rightarrow>
     (case me_decoder_error m of Some e \<Rightarrow> Inl (''no decoder for this audio: '' @ e)
      | None \<Rightarrow>
     (case decode_loop track_id (me_packets m)
             ([], as_u16 (case_option 0 id (co_channels params)), case_option 0 id (co_rate params)) of
        Inl e \<Rightarrow> Inl e
      | Inr (interleaved, channels, rate) \<Rightarrow>
          if interleaved = [] \<or> channels = 0 \<or> rate = 0 then Inl ''file contained no audio''
          else Inr (resample (map (\<lambda>f. sum_list f / real (length f)) (chunks channels interleaved))
                 rate SAMPLE_RATE)))))"

definition beep :: "nat \<Rightarrow> nat \<Rightarrow> real" where
  "beep per_ms i =
     (let t = real i / real SAMPLE_RATE;
          tone = sin (2 * pi * 660 * t) * (1 / 2) + sin (2 * pi * 880 * t) * (3 / 10);
          fade = clamp 0 1 (min (real i / (20 * real per_ms)) (real (380 * per_ms - i) / (20 * real per_ms)))
      in tone * fade * (6 / 10))"

definition synthesise :: "real list" where
  "synthesise =
     (let per_ms = SAMPLE_RATE div 1000;
          ring = map (beep per_ms) [0 ..< 380 * per_ms] @ replicate (200 * per_ms) 0
      in ring @ ring @ replicate (2200 * per_ms) 0)"

type_synonym ringtone_cache = "(string \<times> real list) list"

definition ringtone_samples ::
  "(bytes \<Rightarrow> string + media) \<Rightarrow> bundled_ringtone list \<Rightarrow> string \<Rightarrow> ringtone_cache \<Rightarrow> real list \<times> ringtone_cache" where
  "ringtone_samples probe B i cache =
     (case map_of cache i of Some hit \<Rightarrow> (hit, cache)
      | None \<Rightarrow>
        let decoded = (case List.find (\<lambda>r. bu_id r = i) B of
              None \<Rightarrow> synthesise
            | Some r \<Rightarrow> (case ringtone_decode probe (bu_bytes r) of Inl e \<Rightarrow> synthesise | Inr s \<Rightarrow> s))
        in (decoded, AList.update i decoded cache))"

section \<open>Playing\<close>

record ringing =
  rg_config :: stream_config
  rg_buf :: "real list"
  rg_at :: nat
  rg_volume :: real

definition ringtone_start ::
  "(bytes \<Rightarrow> string + media) \<Rightarrow> bundled_ringtone list \<Rightarrow> (string \<Rightarrow> string option) \<Rightarrow> host \<Rightarrow>
    string \<Rightarrow> string option \<Rightarrow> real \<Rightarrow> (ringtone_cache, string, ringing) act" where
  "ringtone_start probe B parse h i device_id vol = (\<lambda>cache.
     case ringtone_samples probe B i cache of (samples, cache) \<Rightarrow>
     (case pick_device parse h device_id False of None \<Rightarrow> Inl ''no speakers available''
      | Some d \<Rightarrow>
     (case pick_config d False of Inl e \<Rightarrow> Inl e
      | Inr c \<Rightarrow>
     (case sc_format c of
        Other_Format f \<Rightarrow> Inl (''unsupported speaker sample format: '' @ f)
      | _ \<Rightarrow>
     (case dv_build_error d of Some e \<Rightarrow> Inl (''could not open speakers: '' @ e)
      | None \<Rightarrow>
     (case dv_play_error d of Some e \<Rightarrow> Inl (''could not start ringtone: '' @ e)
      | None \<Rightarrow> Inr \<lparr>rg_config = c,
          rg_buf = (if sc_rate c = SAMPLE_RATE then samples else resample samples SAMPLE_RATE (sc_rate c)),
          rg_at = 0, rg_volume = vol\<rparr>)))), cache))"

text \<open>The closure \<open>next\<close>: \<open>% buf.len()\<close> panics on an empty buffer (\<open>None\<close>).\<close>

definition ring_next :: "nat \<Rightarrow> ringing \<Rightarrow> (real list \<times> ringing) option" where
  "ring_next n r = (if rg_buf r = [] then None
     else Some (map (\<lambda>i. rg_buf r ! ((rg_at r + i) mod length (rg_buf r))) [0 ..< n],
       r\<lparr>rg_at := (rg_at r + n) mod length (rg_buf r)\<rparr>))"

definition ring_callback_f32 :: "nat \<Rightarrow> ringing \<Rightarrow> (real list \<times> ringing) option" where
  "ring_callback_f32 n r = map_option (\<lambda>(frames, r').
     (map (\<lambda>j. nth_or 0 frames (j div sc_channels (rg_config r)) * rg_volume r) [0 ..< n], r'))
     (ring_next (n div sc_channels (rg_config r)) r)"

definition ring_callback_i16 :: "nat \<Rightarrow> ringing \<Rightarrow> (int list \<times> ringing) option" where
  "ring_callback_i16 n r = map_option (\<lambda>(frames, r').
     (map (\<lambda>j. as_i16 (clamp (-1) 1 (nth_or 0 frames (j div sc_channels (rg_config r)) * rg_volume r) * 32767))
        [0 ..< n], r'))
     (ring_next (n div sc_channels (rg_config r)) r)"

section \<open>The ring loops seamlessly\<close>

text \<open>A sequence of callbacks of the given sizes, the output they write one after another.\<close>

fun ring_run :: "nat list \<Rightarrow> ringing \<Rightarrow> (real list \<times> ringing) option" where
  "ring_run [] r = Some ([], r)"
| "ring_run (n # ns) r = (case ring_callback_f32 n r of None \<Rightarrow> None
     | Some (out, r') \<Rightarrow> map_option (\<lambda>(rest, r''). (out @ rest, r'')) (ring_run ns r'))"

definition ring_at :: "ringing \<Rightarrow> nat \<Rightarrow> real" where
  "ring_at r k = rg_buf r ! ((rg_at r + k) mod length (rg_buf r)) * rg_volume r"

lemma ring_callback_eq:
  assumes "rg_buf r \<noteq> []" "0 < sc_channels (rg_config r)" "sc_channels (rg_config r) dvd n"
  shows "ring_callback_f32 n r = Some (map (\<lambda>j. ring_at r (j div sc_channels (rg_config r))) [0 ..< n],
    r\<lparr>rg_at := (rg_at r + n div sc_channels (rg_config r)) mod length (rg_buf r)\<rparr>)"
proof -
  have "j div sc_channels (rg_config r) < n div sc_channels (rg_config r)" if "j < n" for j
    using that assms(2,3) by (simp add: dvd_div_mult_self less_mult_imp_div_less)
  then show ?thesis using assms(1)
    by (simp add: ring_callback_f32_def ring_next_def nth_or_def ring_at_def)
qed

lemma ring_at_moved: "ring_at (r\<lparr>rg_at := (rg_at r + m) mod length (rg_buf r)\<rparr>) k = ring_at r (m + k)"
  by (simp add: ring_at_def mod_add_left_eq add.assoc)

lemma ring_run_eq:
  assumes "rg_buf r \<noteq> []" "0 < sc_channels (rg_config r)" "\<forall>n\<in>set ns. sc_channels (rg_config r) dvd n"
  shows "\<exists>r'. ring_run ns r = Some (map (\<lambda>j. ring_at r (j div sc_channels (rg_config r))) [0 ..< sum_list ns], r')"
  using assms
proof (induction ns arbitrary: r)
  case (Cons n ns)
  let ?c = "sc_channels (rg_config r)"
  let ?r = "r\<lparr>rg_at := (rg_at r + n div ?c) mod length (rg_buf r)\<rparr>"
  obtain r' where r': "ring_run ns ?r = Some (map (\<lambda>j. ring_at ?r (j div ?c)) [0 ..< sum_list ns], r')"
    using Cons.IH [of ?r] Cons.prems by auto
  have "?c dvd n" using Cons.prems by simp
  then have "ring_at ?r (j div ?c) = ring_at r ((j + n) div ?c)" for j
    by (simp add: ring_at_moved div_plus_div_distrib_dvd_right add.commute)
  then have "map (\<lambda>j. ring_at ?r (j div ?c)) [0 ..< sum_list ns] =
      map (\<lambda>j. ring_at r (j div ?c)) [n ..< n + sum_list ns]"
    by (intro nth_equalityI) (simp_all add: add.commute)
  then show ?case using r' Cons.prems
    by (simp add: ring_callback_eq upt_add_eq_append [of 0])
qed simp

lemma synthesise_length: "length synthesise = 161280"
  by (simp add: synthesise_def Let_def SAMPLE_RATE_def)

lemma resample_nonempty:
  "xs \<noteq> [] \<Longrightarrow> 0 < from \<Longrightarrow> from \<le> 2 * (to * length xs) \<Longrightarrow> resample xs from to \<noteq> []"
proof -
  assume a: "xs \<noteq> []" "0 < from" "from \<le> 2 * (to * length xs)"
  have "real from \<le> 2 * (real to * real (length xs))" using a(3) by (metis of_nat_le_iff of_nat_mult of_nat_numeral)
  then have "1 / 2 \<le> real (length xs) * (real to / real from)" using a(2) by (simp add: field_simps)
  then have "1 \<le> real (length xs) * (real to / real from) + 1 / 2" by linarith
  then have "1 \<le> \<lfloor>real (length xs) * (real to / real from) + 1 / 2\<rfloor>" by (simp only: one_le_floor)
  then have "0 < length (resample xs from to)" using a(2) by (simp add: length_resample resample_len_def)
  then show ?thesis by simp
qed

text \<open>
  An incoming call always rings.  For an id that is not a bundled file, and for a bundled file that
  does not decode, the tone is the built-in one; started on a speaker with a real sample rate it never
  panics, and however the sound card slices its requests the concatenated output is that tone, repeated
  end to end and scaled, every channel alike.
\<close>

theorem unknown_ringtone_rings:
  assumes "map_of cache i = None"
    and "\<forall>r\<in>set B. bu_id r = i \<longrightarrow> (\<exists>e. ringtone_decode probe (bu_bytes r) = Inl e)"
    and "ringtone_start probe B parse h i device vol cache = (Inr r, cache')"
    and "0 < sc_rate (rg_config r)" "0 < sc_channels (rg_config r)"
    and "\<forall>n\<in>set sizes. sc_channels (rg_config r) dvd n"
  shows "\<exists>tone r'. tone = (if sc_rate (rg_config r) = SAMPLE_RATE then synthesise
        else resample synthesise SAMPLE_RATE (sc_rate (rg_config r))) \<and> tone \<noteq> [] \<and>
    ring_run sizes r = Some (map (\<lambda>j. tone ! (j div sc_channels (rg_config r) mod length tone) * vol)
      [0 ..< sum_list sizes], r')"
proof -
  have s: "ringtone_samples probe B i cache = (synthesise, AList.update i synthesise cache)"
    using assms(1,2) by (auto simp: ringtone_samples_def find_Some_iff nth_mem split: option.splits sum.splits)
  define tone where "tone = (if sc_rate (rg_config r) = SAMPLE_RATE then synthesise
        else resample synthesise SAMPLE_RATE (sc_rate (rg_config r)))"
  have r: "rg_buf r = tone" "rg_at r = 0" "rg_volume r = vol"
    using assms(3) by (auto simp: ringtone_start_def s tone_def split: option.splits sum.splits sample_format.splits)
  have ne: "synthesise \<noteq> []" using synthesise_length by auto
  have "resample synthesise SAMPLE_RATE (sc_rate (rg_config r)) \<noteq> []"
    by (rule resample_nonempty [OF ne]) (use assms(4) in \<open>simp_all add: synthesise_length SAMPLE_RATE_def\<close>)
  then have "tone \<noteq> []" using ne by (simp add: tone_def)
  then show ?thesis using ring_run_eq [of r sizes] assms(5,6) r
    unfolding tone_def [symmetric] ring_at_def by auto
qed

theorem unknown_ringtone_rings_witness:
  "\<exists>r r'. ringtone_start (\<lambda>_. Inl ''bad'') [\<lparr>bu_id = ''old'', bu_name = [], bu_bytes = []\<rparr>] Some demo_host
      ''old'' None (1 / 2) [] = (Inr r, [(''old'', synthesise)]) \<and>
    ring_run [4, 2] r = Some (map (\<lambda>j. synthesise ! (j div 2 mod length synthesise) * (1 / 2)) [0 ..< 6], r')"
proof -
  let ?B = "[\<lparr>bu_id = ''old'', bu_name = [], bu_bytes = []\<rparr>] :: bundled_ringtone list"
  let ?r = "\<lparr>rg_config = demo_config, rg_buf = synthesise, rg_at = 0, rg_volume = 1 / 2\<rparr>"
  have "ringtone_start (\<lambda>_. Inl ''bad'') ?B Some demo_host ''old'' None (1 / 2) [] = (Inr ?r, [(''old'', synthesise)])"
    by (simp add: ringtone_start_def ringtone_samples_def ringtone_decode_def pick_device_def demo_host_def
        pick_config_def demo_device_def find_format_def demo_range_def with_rate_def SAMPLE_RATE_def demo_config_def)
  then show ?thesis
    using unknown_ringtone_rings [of "[]" "''old''" ?B "\<lambda>_. Inl ''bad''" Some demo_host None "1 / 2" ?r _ "[4, 2]"]
    by (auto simp: ringtone_decode_def demo_config_def SAMPLE_RATE_def)
qed

end
