(* ===== verification/Client_Commands.thy ===== *)
theory Client_Commands
  imports Client_Sync Roles_Service Groups_Service Messaging_Service
begin

text \<open>
  The desktop client's server commands (\<open>commands/messaging.rs\<close>, with the structures of
  \<open>commands/dto.rs\<close> they return): each takes the active session's channel and token, calls one RPC with
  the token in the request metadata, and turns the reply into the structure the front end shows.  The
  RPC runs the server's own handler, so a command is the composition of client and server.

  The argument \<open>S\<close> is \<open>status_to_string\<close> with its texts, the way a refused call reaches the user.
\<close>

section \<open>Structures for the front end\<close>

record group_dto =
  gd_id :: string
  gd_name :: string
  gd_kind :: string
  gd_channel_kind :: string
  gd_member_count :: int
  gd_category_id :: string
  gd_position :: int

record category_dto =
  cd_id :: string
  cd_name :: string
  cd_position :: int

record member_dto =
  md_user_id :: string
  md_username :: string
  md_display_name :: string
  md_is_owner :: bool
  md_online :: bool
  md_role_ids :: "string list"
  md_avatar_url :: string

record profile_dto =
  pd_username :: string
  pd_display_name :: string
  pd_avatar_url :: string

record tavern_dto =
  td_name :: string
  td_icon_url :: string
  td_description :: string
  td_linking_enabled :: bool
  td_banner_url :: string

record my_perms_dto =
  yp_permissions :: string
  yp_is_owner :: bool

record audit_dto =
  ad_actor_id :: string
  ad_action :: string
  ad_target :: string
  ad_verdict :: string
  ad_reason :: string
  ad_created_at_ms :: int

record role_dto =
  rd_id :: string
  rd_name :: string
  rd_permissions :: string
  rd_position :: int
  rd_is_default :: bool
  rd_color :: string
  rd_icon :: string
  rd_hoist :: bool
  rd_mentionable :: bool

record ban_dto =
  bd_user_id :: string
  bd_reason :: string
  bd_banned_by :: string
  bd_created_at_ms :: int

record message_dto =
  xd_server_id :: string
  xd_id :: string
  xd_group_id :: string
  xd_sender_id :: string
  xd_sender_display_name :: string
  xd_content :: string
  xd_timestamp_ms :: int
  xd_sequence_number :: "64 word"

fun kind_text :: "chat_kind \<Rightarrow> string" where
  "kind_text KindPublic = ''public''"
| "kind_text KindPrivate = ''private''"
| "kind_text KindUnspecified = ''unknown''"

definition from_summary :: "group_summary \<Rightarrow> group_dto" where
  "from_summary s = \<lparr>gd_id = sm_group_id s, gd_name = sm_name s, gd_kind = kind_text (sm_kind s),
     gd_channel_kind = (if sm_channel_kind s = [] then ''text'' else sm_channel_kind s),
     gd_member_count = sm_member_count s, gd_category_id = sm_category_id s, gd_position = sm_position s\<rparr>"

text \<open>\<open>t.seconds * 1000 + i64::from(t.nanos) / 1_000_000\<close>: the division truncates, and \<open>nanos\<close> is never
  negative in what the server sends.\<close>

definition timestamp_ms_of :: "proto_timestamp \<Rightarrow> int" where
  "timestamp_ms_of t = ts_seconds t * 1000 + ts_nanos t div 1000000"

definition from_incoming_public :: "incoming_public \<Rightarrow> message_dto" where
  "from_incoming_public m = \<lparr>xd_server_id = [], xd_id = ip_message_id m, xd_group_id = ip_group_id m,
     xd_sender_id = ip_sender_id m, xd_sender_display_name = ip_sender_display_name m,
     xd_content = ip_content m, xd_timestamp_ms = timestamp_ms_of (ip_timestamp m),
     xd_sequence_number = ip_sequence_number m\<rparr>"

definition category_dto_of :: "category_proto \<Rightarrow> category_dto" where
  "category_dto_of c = \<lparr>cd_id = cp_id c, cd_name = cp_name c, cd_position = cp_position c\<rparr>"

definition profile_dto_of :: "string \<times> string \<times> string \<Rightarrow> profile_dto" where
  "profile_dto_of p = (case p of (u, n, a) \<Rightarrow> \<lparr>pd_username = u, pd_display_name = n, pd_avatar_url = a\<rparr>)"

definition tavern_dto_of :: "tavern_row \<Rightarrow> tavern_dto" where
  "tavern_dto_of t = \<lparr>td_name = tr_name t, td_icon_url = tr_icon_url t, td_description = tr_description t,
     td_linking_enabled = tr_linking_enabled t, td_banner_url = tr_banner_url t\<rparr>"

definition role_to_dto :: "role_proto \<Rightarrow> role_dto" where
  "role_to_dto r = \<lparr>rd_id = rp_id r, rd_name = rp_name r, rd_permissions = rp_permissions r,
     rd_position = rp_position r, rd_is_default = rp_is_default r, rd_color = rp_color r, rd_icon = rp_icon r,
     rd_hoist = rp_hoist r, rd_mentionable = rp_mentionable r\<rparr>"

section \<open>Calling the active server\<close>

definition session_rpc ::
  "(status \<Rightarrow> string) \<Rightarrow> client_ext \<Rightarrow> (req_meta \<Rightarrow> 'a rpc) \<Rightarrow> nat \<times> string \<Rightarrow> (world, string, 'a) act" where
  "session_rpc S X h = (\<lambda>(channel, token).
     bnd (of_res (authed X token)) (\<lambda>meta.
     map_err S (remote channel (h meta))))"

definition active_rpc :: "(status \<Rightarrow> string) \<Rightarrow> client_ext \<Rightarrow> (req_meta \<Rightarrow> 'a rpc) \<Rightarrow> (world, string, 'a) act" where
  "active_rpc S X h =
     bnd (gets (\<lambda>w. require_session (w_sessions w))) (\<lambda>r.
     bnd (of_res r) (session_rpc S X h))"

definition set_active_server :: "string \<Rightarrow> (world, string, unit) act" where
  "set_active_server server_id = (\<lambda>w.
     if server_id \<in> fst ` set (se_map (w_sessions w))
     then (Inr (), w\<lparr>w_sessions := (w_sessions w)\<lparr>se_active := Some server_id\<rparr>\<rparr>)
     else (Inl ''not connected to that server'', w))"

definition get_my_device_id :: "(world, string, string) act" where
  "get_my_device_id =
     bnd (gets (\<lambda>w. Option.bind (sessions_active (w_sessions w)) ss_device_id)) (\<lambda>d.
     some_or ''this session has no device id - reconnect and try again''
       (case d of None \<Rightarrow> None | Some i \<Rightarrow> if i = [] then None else Some i))"

section \<open>Channels and categories\<close>

definition cmd_list_groups :: "(status \<Rightarrow> string) \<Rightarrow> ext \<Rightarrow> client_ext \<Rightarrow> (world, string, group_dto list) act" where
  "cmd_list_groups S E X =
     bnd (active_rpc S X (list_groups E)) (\<lambda>groups.
     ret (map from_summary groups))"

definition cmd_create_channel ::
  "(status \<Rightarrow> string) \<Rightarrow> ext \<Rightarrow> client_ext \<Rightarrow> string \<Rightarrow> string option \<Rightarrow> string option \<Rightarrow> string option \<Rightarrow>
    (world, string, group_dto) act" where
  "cmd_create_channel S E X name description channel_kind category_id =
     bnd (active_rpc S X (\<lambda>meta. create_public_group E meta
       \<lparr>pq_name = name, pq_description = case_option [] id description,
        pq_channel_kind = case_option ''text'' id channel_kind,
        pq_category_id = case_option [] id category_id\<rparr>)) (\<lambda>gid.
     ret \<lparr>gd_id = gid, gd_name = [], gd_kind = ''public'', gd_channel_kind = ''text'', gd_member_count = 1,
          gd_category_id = [], gd_position = 0\<rparr>)"

definition cmd_list_categories :: "(status \<Rightarrow> string) \<Rightarrow> ext \<Rightarrow> client_ext \<Rightarrow> (world, string, category_dto list) act" where
  "cmd_list_categories S E X =
     bnd (active_rpc S X (list_categories E)) (\<lambda>cats. ret (map category_dto_of cats))"

definition cmd_create_category ::
  "(status \<Rightarrow> string) \<Rightarrow> ext \<Rightarrow> client_ext \<Rightarrow> string \<Rightarrow> (world, string, category_dto) act" where
  "cmd_create_category S E X name =
     bnd (active_rpc S X (\<lambda>meta. create_category E meta name)) (\<lambda>c. ret (category_dto_of c))"

definition cmd_delete_category :: "(status \<Rightarrow> string) \<Rightarrow> ext \<Rightarrow> client_ext \<Rightarrow> string \<Rightarrow> (world, string, unit) act" where
  "cmd_delete_category S E X cid = active_rpc S X (\<lambda>meta. delete_category E meta cid)"

definition cmd_reorder_categories ::
  "(status \<Rightarrow> string) \<Rightarrow> ext \<Rightarrow> client_ext \<Rightarrow> string list \<Rightarrow> (world, string, unit) act" where
  "cmd_reorder_categories S E X category_ids = active_rpc S X (\<lambda>meta. reorder_categories E meta category_ids)"

definition cmd_reorder_channels ::
  "(status \<Rightarrow> string) \<Rightarrow> ext \<Rightarrow> client_ext \<Rightarrow> string \<Rightarrow> string list \<Rightarrow> (world, string, unit) act" where
  "cmd_reorder_channels S E X category_id group_ids =
     active_rpc S X (\<lambda>meta. reorder_channels E meta category_id group_ids)"

definition cmd_delete_channel :: "(status \<Rightarrow> string) \<Rightarrow> ext \<Rightarrow> client_ext \<Rightarrow> string \<Rightarrow> (world, string, unit) act" where
  "cmd_delete_channel S E X group_id = active_rpc S X (\<lambda>meta. delete_group E meta (Some group_id))"

definition cmd_list_members ::
  "(status \<Rightarrow> string) \<Rightarrow> ext \<Rightarrow> client_ext \<Rightarrow> string \<Rightarrow> (world, string, member_dto list) act" where
  "cmd_list_members S E X group_id =
     bnd (active_rpc S X (\<lambda>meta. list_members E meta (Some group_id))) (\<lambda>members.
     ret (map (\<lambda>m. \<lparr>md_user_id = mi_user_id m, md_username = mi_username m,
       md_display_name = mi_display_name m, md_is_owner = mi_is_owner m, md_online = mi_online m,
       md_role_ids = mi_role_ids m, md_avatar_url = mi_avatar_url m\<rparr>) members))"

section \<open>Profile and permissions\<close>

definition cmd_get_my_profile :: "(status \<Rightarrow> string) \<Rightarrow> ext \<Rightarrow> client_ext \<Rightarrow> (world, string, profile_dto) act" where
  "cmd_get_my_profile S E X =
     bnd (active_rpc S X (get_my_profile E)) (\<lambda>p. ret (profile_dto_of p))"

definition cmd_update_profile ::
  "(status \<Rightarrow> string) \<Rightarrow> ext \<Rightarrow> client_ext \<Rightarrow> string \<Rightarrow> string \<Rightarrow> (world, string, profile_dto) act" where
  "cmd_update_profile S E X display_name avatar_url =
     bnd (active_rpc S X (\<lambda>meta. update_profile E meta display_name avatar_url)) (\<lambda>p. ret (profile_dto_of p))"

definition cmd_get_my_permissions :: "(status \<Rightarrow> string) \<Rightarrow> ext \<Rightarrow> client_ext \<Rightarrow> (world, string, my_perms_dto) act" where
  "cmd_get_my_permissions S E X =
     bnd (active_rpc S X (\<lambda>meta. call (get_my_permissions E meta))) (\<lambda>(perms, is_owner).
     ret \<lparr>yp_permissions = perms, yp_is_owner = is_owner\<rparr>)"

section \<open>Roles\<close>

definition cmd_list_roles :: "(status \<Rightarrow> string) \<Rightarrow> ext \<Rightarrow> client_ext \<Rightarrow> (world, string, role_dto list) act" where
  "cmd_list_roles S E X =
     bnd (active_rpc S X (\<lambda>meta. call (list_roles E meta))) (\<lambda>roles. ret (map role_to_dto roles))"

definition cmd_create_role ::
  "(status \<Rightarrow> string) \<Rightarrow> ext \<Rightarrow> client_ext \<Rightarrow> string \<Rightarrow> string \<Rightarrow> string \<Rightarrow> string \<Rightarrow> bool \<Rightarrow> bool \<Rightarrow>
    (world, string, role_dto) act" where
  "cmd_create_role S E X name permissions color icon hoist mentionable =
     bnd (active_rpc S X (\<lambda>meta. call (create_role E meta \<lparr>cq_name = name, cq_permissions = permissions,
       cq_color = color, cq_icon = icon, cq_hoist = hoist, cq_mentionable = mentionable\<rparr>))) (\<lambda>r.
     ret (role_to_dto r))"

definition cmd_update_role ::
  "(status \<Rightarrow> string) \<Rightarrow> ext \<Rightarrow> client_ext \<Rightarrow> string \<Rightarrow> string \<Rightarrow> string \<Rightarrow> string \<Rightarrow> string \<Rightarrow> bool \<Rightarrow> bool \<Rightarrow>
    (world, string, role_dto) act" where
  "cmd_update_role S E X rid name permissions color icon hoist mentionable =
     bnd (active_rpc S X (\<lambda>meta. call (update_role E meta \<lparr>cq_name = name, cq_permissions = permissions,
       cq_color = color, cq_icon = icon, cq_hoist = hoist, cq_mentionable = mentionable, uq_id = rid\<rparr>))) (\<lambda>r.
     ret (role_to_dto r))"

definition cmd_reorder_roles :: "(status \<Rightarrow> string) \<Rightarrow> ext \<Rightarrow> client_ext \<Rightarrow> string list \<Rightarrow> (world, string, unit) act" where
  "cmd_reorder_roles S E X role_ids = active_rpc S X (\<lambda>meta. call (reorder_roles E meta role_ids))"

definition cmd_delete_role :: "(status \<Rightarrow> string) \<Rightarrow> ext \<Rightarrow> client_ext \<Rightarrow> string \<Rightarrow> (world, string, unit) act" where
  "cmd_delete_role S E X rid = active_rpc S X (\<lambda>meta. call (delete_role E meta rid))"

definition cmd_assign_role :: "(status \<Rightarrow> string) \<Rightarrow> ext \<Rightarrow> client_ext \<Rightarrow> string \<Rightarrow> string \<Rightarrow> (world, string, unit) act" where
  "cmd_assign_role S E X user_id role_id =
     active_rpc S X (\<lambda>meta. call (assign_role E meta \<lparr>aq_user_id = Some user_id, aq_role_id = role_id\<rparr>))"

definition cmd_unassign_role :: "(status \<Rightarrow> string) \<Rightarrow> ext \<Rightarrow> client_ext \<Rightarrow> string \<Rightarrow> string \<Rightarrow> (world, string, unit) act" where
  "cmd_unassign_role S E X user_id role_id =
     active_rpc S X (\<lambda>meta. call (unassign_role E meta \<lparr>aq_user_id = Some user_id, aq_role_id = role_id\<rparr>))"

section \<open>Tavern and moderation\<close>

definition cmd_get_tavern :: "(status \<Rightarrow> string) \<Rightarrow> ext \<Rightarrow> client_ext \<Rightarrow> (world, string, tavern_dto) act" where
  "cmd_get_tavern S E X =
     bnd (active_rpc S X (get_tavern E)) (\<lambda>t. ret (tavern_dto_of t))"

definition cmd_get_tavern_for ::
  "(status \<Rightarrow> string) \<Rightarrow> ext \<Rightarrow> client_ext \<Rightarrow> string \<Rightarrow> (world, string, tavern_dto) act" where
  "cmd_get_tavern_for S E X server_id =
     bnd (gets (\<lambda>w. channel_token_for server_id (w_sessions w))) (\<lambda>c.
     bnd (some_or ''no session for server'' c) (\<lambda>creds.
     bnd (session_rpc S X (get_tavern E) creds) (\<lambda>t.
     ret (tavern_dto_of t))))"

definition cmd_update_tavern ::
  "(status \<Rightarrow> string) \<Rightarrow> ext \<Rightarrow> client_ext \<Rightarrow> string \<Rightarrow> string option \<Rightarrow> string option \<Rightarrow> string option \<Rightarrow>
    (world, string, tavern_dto) act" where
  "cmd_update_tavern S E X name icon_url description banner_url =
     bnd (active_rpc S X (\<lambda>meta. update_tavern E meta \<lparr>tq_name = name, tq_icon_url = case_option [] id icon_url,
       tq_description = case_option [] id description, tq_banner_url = case_option [] id banner_url\<rparr>)) (\<lambda>t.
     ret (tavern_dto_of t))"

definition cmd_kick_member :: "(status \<Rightarrow> string) \<Rightarrow> ext \<Rightarrow> client_ext \<Rightarrow> string \<Rightarrow> string \<Rightarrow> (world, string, unit) act" where
  "cmd_kick_member S E X group_id user_id =
     active_rpc S X (\<lambda>meta. kick_member E meta \<lparr>kq_group_id = Some group_id, kq_user_id = Some user_id\<rparr>)"

definition cmd_ban_member ::
  "(status \<Rightarrow> string) \<Rightarrow> ext \<Rightarrow> client_ext \<Rightarrow> string \<Rightarrow> string option \<Rightarrow> (world, string, unit) act" where
  "cmd_ban_member S E X user_id reason =
     active_rpc S X (\<lambda>meta. ban_member E meta \<lparr>bq_user_id = Some user_id, bq_reason = case_option [] id reason\<rparr>)"

definition cmd_unban_member :: "(status \<Rightarrow> string) \<Rightarrow> ext \<Rightarrow> client_ext \<Rightarrow> string \<Rightarrow> (world, string, unit) act" where
  "cmd_unban_member S E X user_id = active_rpc S X (\<lambda>meta. unban_member E meta (Some user_id))"

definition cmd_list_audit ::
  "(status \<Rightarrow> string) \<Rightarrow> ext \<Rightarrow> client_ext \<Rightarrow> int option \<Rightarrow> (world, string, audit_dto list) act" where
  "cmd_list_audit S E X limit =
     bnd (active_rpc S X (\<lambda>meta. list_audit E meta (case_option 100 id limit))) (\<lambda>entries.
     ret (map (\<lambda>e. \<lparr>ad_actor_id = to_str E (ar_actor_id e), ad_action = ar_action e, ad_target = ar_target e,
       ad_verdict = ar_verdict e, ad_reason = ar_reason e, ad_created_at_ms = ar_created_at_ms e\<rparr>) entries))"

definition cmd_list_bans :: "(status \<Rightarrow> string) \<Rightarrow> ext \<Rightarrow> client_ext \<Rightarrow> (world, string, ban_dto list) act" where
  "cmd_list_bans S E X =
     bnd (active_rpc S X (list_bans E)) (\<lambda>bans.
     ret (map (\<lambda>b. \<lparr>bd_user_id = to_str E (br_user_id b), bd_reason = br_reason b,
       bd_banned_by = to_str E (br_banned_by b), bd_created_at_ms = br_created_at_ms b\<rparr>) bans))"

definition cmd_fetch_public_history ::
  "(status \<Rightarrow> string) \<Rightarrow> ext \<Rightarrow> client_ext \<Rightarrow> string \<Rightarrow> (world, string, message_dto list) act" where
  "cmd_fetch_public_history S E X group_id =
     bnd (active_rpc S X (\<lambda>meta. fetch_public_history E meta
       \<lparr>fh_group_id = Some group_id, fh_before_sequence = 0, fh_limit = 50\<rparr>)) (\<lambda>messages.
     ret (map from_incoming_public messages))"

end
