(* ===== verification/Client_Events.thy ===== *)
theory Client_Events
  imports Client_Commands
begin

text \<open>
  What the backend pushes to the webview: the payloads of \<open>commands/dto.rs\<close> and the sequence of events
  emitted so far.  \<open>emit\<close> fails once the webview is gone.
\<close>

record private_message_dto =
  pm_server_id :: string
  pm_group_id :: string
  pm_sender_id :: string
  pm_mine :: bool
  pm_content :: string
  pm_timestamp_ms :: int

record history_entry =
  he_id :: string
  he_message :: "private_message_dto option"

record decrypted_history =
  dh_id :: string
  dh_message :: private_message_dto

record connection_status =
  cs_server_id :: string
  cs_connected :: bool

record joined_group =
  jg_server_id :: string
  jg_group_id :: string

record voice_participant_dto =
  vd_server_id :: string
  vd_group_id :: string
  vd_user_id :: string
  vd_device_id :: string
  vd_joined :: bool
  vd_muted :: bool
  vd_camera_on :: bool
  vd_screen_on :: bool
  vd_username :: string
  vd_display_name :: string

record mod_alert_dto =
  mo_server_id :: string
  mo_actor_id :: string
  mo_action :: string
  mo_target :: string
  mo_reason :: string
  mo_severity :: string
  mo_timestamp_ms :: int

record levels_event =
  le_local :: real
  le_peers :: "(string \<times> real) list"

datatype ui_event =
    Incoming_Public message_dto
  | Incoming_Private private_message_dto
  | History_Decrypted decrypted_history
  | Joined_Group joined_group
  | Voice_Participant voice_participant_dto
  | Mod_Alert mod_alert_dto
  | Connection_Status connection_status
  | Voice_Levels levels_event

record ui =
  ui_open :: bool
  ui_events :: "ui_event list"

definition emit :: "ui_event \<Rightarrow> (ui, string, unit) act" where
  "emit e = (\<lambda>u. if ui_open u then (Inr (), u\<lparr>ui_events := ui_events u @ [e]\<rparr>) else (Inl ''webview gone'', u))"

text \<open>\<open>let _ = app.emit(...)\<close>.\<close>

definition emit_quietly :: "ui_event \<Rightarrow> ui \<Rightarrow> ui" where
  "emit_quietly e u = snd (emit e u)"

definition to_private_dto :: "archived_message \<Rightarrow> string \<Rightarrow> string \<Rightarrow> private_message_dto" where
  "to_private_dto m server_id own_user_id =
     \<lparr>pm_server_id = server_id, pm_group_id = am_group_id m, pm_sender_id = am_sender_id m,
      pm_mine = (am_sender_id m = own_user_id), pm_content = am_content m, pm_timestamp_ms = am_timestamp_ms m\<rparr>"

text \<open>The 16 bytes of a UUID, most significant first.\<close>

definition uuid_bytes :: "uuid \<Rightarrow> bytes" where
  "uuid_bytes u = map (\<lambda>i. ucast (drop_bit (8 * i) u)) (rev [0 ..< 16])"

definition mls_id :: "ext \<Rightarrow> string \<Rightarrow> bytes" where
  "mls_id E group_id = (case parse_str E group_id of None \<Rightarrow> [] | Some u \<Rightarrow> uuid_bytes u)"

lemma length_uuid_bytes [simp]: "length (uuid_bytes u) = 16"
  by (simp add: uuid_bytes_def)

lemma uuid_bytes_inj: "uuid_bytes u = uuid_bytes v \<Longrightarrow> u = v"
proof (rule bit_word_eqI)
  fix n assume eq: "uuid_bytes u = uuid_bytes v" and n: "n < LENGTH(128)"
  have r: "rev [0 ..< 16] ! (15 - n div 8) = n div 8" using n by (subst rev_nth) auto
  have "uuid_bytes w ! (15 - n div 8) = ucast (drop_bit (8 * (rev [0 ..< 16] ! (15 - n div 8))) w)" for w :: uuid
    unfolding uuid_bytes_def by (subst nth_map) simp_all
  then have "uuid_bytes w ! (15 - n div 8) = ucast (drop_bit (8 * (n div 8)) w)" for w :: uuid
    unfolding r by blast
  then have "(ucast (drop_bit (8 * (n div 8)) u) :: byte) = ucast (drop_bit (8 * (n div 8)) v)"
    using eq by (metis (no_types, lifting))
  then have "bit (ucast (drop_bit (8 * (n div 8)) u) :: byte) (n mod 8) =
      bit (ucast (drop_bit (8 * (n div 8)) v) :: byte) (n mod 8)" by simp
  then show "bit u n = bit v n" using n by (simp add: bit_ucast_iff bit_drop_bit_eq)
qed

end
