(* ===== verification/Voice_Engine.thy ===== *)
theory Voice_Engine
  imports Voice_Link Voice_Ringtone Client_Events "HOL-Library.Sublist"
begin

text \<open>
  \<open>voice_engine/mod.rs\<close>: calls, ringing, the mic test, and the mesh of peer links of a call.

  Links, calls and spawned tasks are shared by reference in the source, so the state keeps every link
  made so far (\<open>ve_cells\<close>, addressed by index) with the index of its call, the calls begun so far
  (\<open>ve_calls\<close>: server, group, own device, which is all a \<open>SessionSignaler\<close> holds), and the spawned tasks
  that have not run.  A task may run at any later time and in any order.  Opus is the parameter of the
  codec fields of \<open>voice_lib\<close>, webrtc the field \<open>vl_rtc\<close>; the host's audio devices are the argument \<open>h\<close>.
\<close>

record voice_prefs =
  vp_mic_device_id :: string
  vp_speaker_device_id :: string
  vp_mic_gain :: real
  vp_output_volume :: real
  vp_ringtone_id :: string

definition prefs_default :: voice_prefs where
  "prefs_default = \<lparr>vp_mic_device_id = [], vp_speaker_device_id = [], vp_mic_gain = 100, vp_output_volume = 100,
     vp_ringtone_id = DEFAULT_ID\<rparr>"

definition prefs_mic :: "voice_prefs \<Rightarrow> string option" where
  "prefs_mic p = (if vp_mic_device_id p = [] then None else Some (vp_mic_device_id p))"

definition prefs_speaker :: "voice_prefs \<Rightarrow> string option" where
  "prefs_speaker p = (if vp_speaker_device_id p = [] then None else Some (vp_speaker_device_id p))"

record voice_lib =
  vl_rtc :: rtc
  vl_probe :: "bytes \<Rightarrow> string + media"
  vl_bundled :: "bundled_ringtone list"
  vl_parse :: "string \<Rightarrow> string option"
  vl_encoder :: "string + bytes"
  vl_encode :: "real list \<Rightarrow> (bytes, string, bytes) act"
  vl_decoder :: "string + bytes"
  vl_decode :: "bytes \<Rightarrow> (bytes, string, real list) act"

record link_cell =
  lc_link :: link
  lc_call :: nat

record call_info =
  ci_server_id :: string
  ci_group_id :: string
  ci_my_device :: string

text \<open>A peer: its link, and the position of its sender task in the broadcast of encoded frames.\<close>

record connected_peer =
  cp_link :: nat
  cp_next :: nat

record active_call =
  ac_id :: nat
  ac_in :: stream_config
  ac_mic :: mic
  ac_out :: stream_config
  ac_playback :: playback
  ac_peers :: "(string \<times> connected_peer) list"
  ac_frames :: "bytes list"
  ac_encoder :: "bytes option"
  ac_reporting :: bool

datatype voice_task =
    Start_Offer nat
  | Close_Peer nat string
  | Send_Signal nat envelope
  | Ring_Timeout nat

record voice =
  ve_call :: "active_call option"
  ve_test :: "(stream_config \<times> mic \<times> bool) option"
  ve_prefs :: voice_prefs
  ve_ring :: "(ringing \<times> nat) option"
  ve_rings :: nat
  ve_cells :: "link_cell list"
  ve_made :: nat
  ve_calls :: "call_info list"
  ve_pumps :: "(nat \<times> bytes option) list"
  ve_tasks :: "voice_task list"
  ve_cache :: ringtone_cache
  ve_ui :: ui

definition voice_new :: "ui \<Rightarrow> voice" where
  "voice_new u = \<lparr>ve_call = None, ve_test = None, ve_prefs = prefs_default, ve_ring = None, ve_rings = 0,
     ve_cells = [], ve_made = 0, ve_calls = [], ve_pumps = [], ve_tasks = [], ve_cache = [], ve_ui = u\<rparr>"

definition spawn :: "voice_task \<Rightarrow> voice \<Rightarrow> voice" where
  "spawn t v = v\<lparr>ve_tasks := ve_tasks v @ [t]\<rparr>"

definition no_levels :: ui_event where
  "no_levels = Voice_Levels \<lparr>le_local = 0, le_peers = []\<rparr>"

definition tell_ui :: "ui_event \<Rightarrow> voice \<Rightarrow> voice" where
  "tell_ui e v = v\<lparr>ve_ui := emit_quietly e (ve_ui v)\<rparr>"

definition on_link :: "nat \<Rightarrow> 'a lact \<Rightarrow> (voice, string, 'a) act" where
  "on_link c m = zoom (\<lambda>v. lc_link (ve_cells v ! c))
     (\<lambda>l v. v\<lparr>ve_cells := (ve_cells v)[c := (ve_cells v ! c)\<lparr>lc_link := l\<rparr>]\<rparr>) m"

section \<open>Ringing\<close>

definition stop_ring :: "voice \<Rightarrow> voice" where
  "stop_ring v = (case ve_ring v of None \<Rightarrow> v
     | Some (sound, n) \<Rightarrow> v\<lparr>ve_ring := None, ve_tasks := removeAll (Ring_Timeout n) (ve_tasks v)\<rparr>)"

definition ring_now :: "voice_lib \<Rightarrow> host \<Rightarrow> string \<Rightarrow> (voice, string, unit) act" where
  "ring_now L h i = (\<lambda>v.
     case ringtone_start (vl_probe L) (vl_bundled L) (vl_parse L) h i (prefs_speaker (ve_prefs v))
            (vp_output_volume (ve_prefs v) / 100) (ve_cache v) of
       (Inl e, cache) \<Rightarrow> (Inl e, v\<lparr>ve_cache := cache\<rparr>)
     | (Inr sound, cache) \<Rightarrow> (Inr (), spawn (Ring_Timeout (ve_rings v))
         (v\<lparr>ve_cache := cache, ve_ring := Some (sound, ve_rings v), ve_rings := Suc (ve_rings v)\<rparr>)))"

definition start_ring :: "voice_lib \<Rightarrow> host \<Rightarrow> (voice, string, unit) act" where
  "start_ring L h =
     bnd (gets ve_call) (\<lambda>cl.
     if cl \<noteq> None then ret ()
     else bnd (modify stop_ring) (\<lambda>_.
       bnd (gets (\<lambda>v. vp_ringtone_id (ve_prefs v))) (\<lambda>i.
       ring_now L h (if i = [] then DEFAULT_ID else i))))"

definition preview_ring :: "voice_lib \<Rightarrow> host \<Rightarrow> string \<Rightarrow> (voice, string, unit) act" where
  "preview_ring L h i = bnd (modify stop_ring) (\<lambda>_. ring_now L h i)"

section \<open>Preferences, mute, mic test\<close>

definition set_prefs :: "voice_prefs \<Rightarrow> voice \<Rightarrow> voice" where
  "set_prefs p v = v\<lparr>
     ve_call := map_option (\<lambda>c. c\<lparr>ac_mic := set_gain (vp_mic_gain p / 100) (ac_mic c),
       ac_playback := set_volume (vp_output_volume p / 100) (ac_playback c)\<rparr>) (ve_call v),
     ve_test := map_option (\<lambda>(c, m, b). (c, set_gain (vp_mic_gain p / 100) m, b)) (ve_test v),
     ve_prefs := p\<rparr>"

definition engine_set_muted :: "bool \<Rightarrow> voice \<Rightarrow> voice" where
  "engine_set_muted b v = v\<lparr>ve_call := map_option (\<lambda>c. c\<lparr>ac_mic := set_muted b (ac_mic c)\<rparr>) (ve_call v)\<rparr>"

definition engine_set_deafened :: "bool \<Rightarrow> voice \<Rightarrow> voice" where
  "engine_set_deafened b v =
     v\<lparr>ve_call := map_option (\<lambda>c. c\<lparr>ac_playback := set_deafened b (ac_playback c)\<rparr>) (ve_call v)\<rparr>"

definition stop_mic_test :: "voice \<Rightarrow> voice" where
  "stop_mic_test v = (case ve_test v of None \<Rightarrow> v | Some t \<Rightarrow> tell_ui no_levels (v\<lparr>ve_test := None\<rparr>))"

definition start_mic_test :: "voice_lib \<Rightarrow> host \<Rightarrow> (voice, string, unit) act" where
  "start_mic_test L h =
     bnd (gets ve_call) (\<lambda>cl.
     bnd (ensure (cl = None) ''already in a call - leave it to test your microphone'') (\<lambda>_.
     bnd (modify stop_mic_test) (\<lambda>_.
     bnd (gets ve_prefs) (\<lambda>p.
     bnd (of_res (mic_start (vl_parse L) h (prefs_mic p) (vp_mic_gain p / 100))) (\<lambda>(c, m).
     modify (\<lambda>v. v\<lparr>ve_test := Some (c, m, True)\<rparr>))))))"

section \<open>Calls\<close>

definition close_peers :: "voice_lib \<Rightarrow> (string \<times> connected_peer) list \<Rightarrow> voice \<Rightarrow> voice" where
  "close_peers L ps v = fold (\<lambda>(d, p) v. v\<lparr>ve_cells := (ve_cells v)[cp_link p :=
     (ve_cells v ! cp_link p)\<lparr>lc_link := link_close (vl_rtc L) (lc_link (ve_cells v ! cp_link p))\<rparr>]\<rparr>) ps v"

definition leave :: "voice_lib \<Rightarrow> voice \<Rightarrow> voice" where
  "leave L v = (case ve_call v of None \<Rightarrow> v
     | Some cl \<Rightarrow> tell_ui no_levels (close_peers L (ac_peers cl) (v\<lparr>ve_call := None\<rparr>)))"

definition join_call :: "voice_lib \<Rightarrow> host \<Rightarrow> string \<Rightarrow> string \<Rightarrow> string \<Rightarrow> (voice, string, unit) act" where
  "join_call L h server_id group_id my_device =
     bnd (ensure (my_device \<noteq> []) ''this session has no device id - reconnect and try again'') (\<lambda>_.
     bnd (modify (stop_mic_test \<circ> leave L \<circ> stop_ring)) (\<lambda>_.
     bnd (gets ve_prefs) (\<lambda>p.
     bnd (of_res (playback_start (vl_parse L) h (prefs_speaker p) (vp_output_volume p / 100))) (\<lambda>(out, playback).
     bnd (of_res (mic_start (vl_parse L) h (prefs_mic p) (vp_mic_gain p / 100))) (\<lambda>(inp, mic).
     modify (\<lambda>v. v\<lparr>
       ve_calls := ve_calls v @ [\<lparr>ci_server_id = server_id, ci_group_id = group_id, ci_my_device = my_device\<rparr>],
       ve_call := Some \<lparr>ac_id = length (ve_calls v), ac_in = inp, ac_mic = mic, ac_out = out, ac_playback = playback,
         ac_peers = [], ac_frames = [],
         ac_encoder = (case vl_encoder L of Inl e \<Rightarrow> None | Inr s \<Rightarrow> Some s), ac_reporting = True\<rparr>\<rparr>))))))"

text \<open>\<open>PeerLink::new\<close> and the insertion into the call's peers, with its sender task.\<close>

definition add_peer :: "voice_lib \<Rightarrow> string \<Rightarrow> active_call \<Rightarrow> voice \<Rightarrow> nat option \<times> voice" where
  "add_peer L device cl v =
     (case link_new (vl_rtc L) (ve_made v) device of
        Inl e \<Rightarrow> (None, v\<lparr>ve_made := Suc (ve_made v)\<rparr>)
      | Inr l \<Rightarrow> (Some (length (ve_cells v)),
          v\<lparr>ve_made := Suc (ve_made v), ve_cells := ve_cells v @ [\<lparr>lc_link = l, lc_call = ac_id cl\<rparr>],
            ve_call := Some (cl\<lparr>ac_peers := AList.update device
              \<lparr>cp_link = length (ve_cells v), cp_next = length (ac_frames cl)\<rparr> (ac_peers cl)\<rparr>)\<rparr>))"

definition in_call :: "voice \<Rightarrow> string \<Rightarrow> string \<Rightarrow> active_call option" where
  "in_call v server_id group_id = (case ve_call v of None \<Rightarrow> None
     | Some cl \<Rightarrow> let i = ve_calls v ! ac_id cl in
         if ci_server_id i \<noteq> server_id \<or> ci_group_id i \<noteq> group_id then None else Some cl)"

definition on_participant :: "voice_lib \<Rightarrow> string \<Rightarrow> string \<Rightarrow> string \<Rightarrow> bool \<Rightarrow> voice \<Rightarrow> voice" where
  "on_participant L server_id group_id device_id joined v =
     (case in_call v server_id group_id of None \<Rightarrow> v
      | Some cl \<Rightarrow>
        let my_device = ci_my_device (ve_calls v ! ac_id cl) in
        if device_id = my_device \<or> device_id = [] then v
        else if \<not> joined then
          (case map_of (ac_peers cl) device_id of None \<Rightarrow> v
           | Some p \<Rightarrow> spawn (Close_Peer (cp_link p) device_id)
               (v\<lparr>ve_call := Some (cl\<lparr>ac_peers := AList.delete device_id (ac_peers cl)\<rparr>)\<rparr>))
        else if map_of (ac_peers cl) device_id \<noteq> None then v
        else (case add_peer L device_id cl v of
            (None, v) \<Rightarrow> v
          | (Some c, v) \<Rightarrow> if my_device < device_id then spawn (Start_Offer c) v else v))"

definition signal_peer :: "voice_lib \<Rightarrow> string \<Rightarrow> string \<Rightarrow> active_call \<Rightarrow> voice \<Rightarrow> nat option \<times> voice" where
  "signal_peer L from_device kind cl v =
     (case map_of (ac_peers cl) from_device of
        Some p \<Rightarrow> (Some (cp_link p), v)
      | None \<Rightarrow> if kind = ''offer'' then add_peer L from_device cl v else (None, v))"

definition apply_signal :: "voice_lib \<Rightarrow> nat \<Rightarrow> string \<Rightarrow> string \<Rightarrow> voice \<Rightarrow> voice" where
  "apply_signal L c kind payload v =
     (if kind = ''offer'' then
        (case on_link c (accept_offer (vl_rtc L) payload) v of
           (Inl e, v) \<Rightarrow> v | (Inr env, v) \<Rightarrow> spawn (Send_Signal (lc_call (ve_cells v ! c)) env) v)
      else if kind = ''answer'' then snd (on_link c (accept_answer (vl_rtc L) payload) v)
      else if kind = ''ice'' then snd (on_link c (add_ice (vl_rtc L) payload) v)
      else v)"

definition on_signal :: "voice_lib \<Rightarrow> string \<Rightarrow> string \<Rightarrow> string \<Rightarrow> string \<Rightarrow> bytes \<Rightarrow> voice \<Rightarrow> voice" where
  "on_signal L server_id group_id from_device kind data v =
     (case text_of data of None \<Rightarrow> v
      | Some payload \<Rightarrow>
     (case in_call v server_id group_id of None \<Rightarrow> v
      | Some cl \<Rightarrow>
     (case signal_peer L from_device kind cl v of
        (None, v) \<Rightarrow> v
      | (Some c, v) \<Rightarrow> apply_signal L c kind payload v)))"

section \<open>Background tasks\<close>

text \<open>A spawned task runs.  \<open>Send_Signal\<close> needs the session table and runs outside the engine.\<close>

fun run_task :: "voice_lib \<Rightarrow> voice_task \<Rightarrow> voice \<Rightarrow> voice" where
  "run_task L (Start_Offer c) v =
     (case on_link c (start_offer (vl_rtc L)) v of
        (Inl e, v) \<Rightarrow> v | (Inr env, v) \<Rightarrow> spawn (Send_Signal (lc_call (ve_cells v ! c)) env) v)"
| "run_task L (Close_Peer c device) v =
     (let v = v\<lparr>ve_cells := (ve_cells v)[c := (ve_cells v ! c)\<lparr>lc_link := link_close (vl_rtc L) (lc_link (ve_cells v ! c))\<rparr>]\<rparr>
      in case ve_call v of
           None \<Rightarrow> v
         | Some cl \<Rightarrow> if ac_id cl = lc_call (ve_cells v ! c)
             then v\<lparr>ve_call := Some (cl\<lparr>ac_playback := remove_peer device (ac_playback cl)\<rparr>)\<rparr> else v)"
| "run_task L (Send_Signal c env) v = v"
| "run_task L (Ring_Timeout n) v = stop_ring v"

text \<open>\<open>spawn_encoder\<close>: every whole frame the microphone has, encoded once.\<close>

function encode_loop :: "voice_lib \<Rightarrow> mic \<Rightarrow> bytes \<Rightarrow> bytes list \<Rightarrow> mic \<times> bytes \<times> bytes list" where
  "encode_loop L m enc frames =
     (case next_frame m of
        (None, m') \<Rightarrow> (m', enc, frames)
      | (Some f, m') \<Rightarrow> (case vl_encode L f enc of
          (Inl e, enc') \<Rightarrow> encode_loop L m' enc' frames
        | (Inr bs, enc') \<Rightarrow> encode_loop L m' enc' (frames @ [bs])))"
  by pat_completeness auto
termination
  by (relation "measure (\<lambda>(L, m, enc, frames). length (pending m))") (auto simp: next_frame_def split: if_splits)

declare encode_loop.simps [simp del]

definition encoder_tick :: "voice_lib \<Rightarrow> voice \<Rightarrow> voice" where
  "encoder_tick L v = (case ve_call v of None \<Rightarrow> v
     | Some cl \<Rightarrow> (case ac_encoder cl of None \<Rightarrow> v
     | Some enc \<Rightarrow> (case encode_loop L (ac_mic cl) enc (ac_frames cl) of (m, enc', frames) \<Rightarrow>
         v\<lparr>ve_call := Some (cl\<lparr>ac_mic := m, ac_encoder := Some enc', ac_frames := frames\<rparr>)\<rparr>)))"

text \<open>
  \<open>spawn_peer_sender\<close>: one turn of a peer's loop.  The broadcast channel keeps 32 frames; a receiver that
  fell further behind is moved to the oldest one kept.
\<close>

definition FRAME_SLACK :: nat where "FRAME_SLACK = 32"

definition sender_turn :: "voice_lib \<Rightarrow> string \<Rightarrow> voice \<Rightarrow> voice" where
  "sender_turn L device v = (case ve_call v of None \<Rightarrow> v
     | Some cl \<Rightarrow> (case map_of (ac_peers cl) device of None \<Rightarrow> v
     | Some p \<Rightarrow>
        let n = length (ac_frames cl);
            move = (\<lambda>k. cl\<lparr>ac_peers := AList.update device (p\<lparr>cp_next := k\<rparr>) (ac_peers cl)\<rparr>)
        in if cp_next p + FRAME_SLACK < n then v\<lparr>ve_call := Some (move (n - FRAME_SLACK))\<rparr>
           else if cp_next p < n then
             v\<lparr>ve_call := Some (move (Suc (cp_next p))), ve_cells := (ve_cells v)[cp_link p := (ve_cells v ! cp_link p)
               \<lparr>lc_link := send_frame (vl_rtc L) (ac_frames cl ! cp_next p) (lc_link (ve_cells v ! cp_link p))\<rparr>]\<rparr>
           else v))"

definition level_tick :: "voice \<Rightarrow> voice" where
  "level_tick v = (case ve_call v of None \<Rightarrow> v
     | Some cl \<Rightarrow> if \<not> ac_reporting cl then v
        else (case emit (Voice_Levels \<lparr>le_local = level_get (mic_level (ac_mic cl)), le_peers = peer_levels (ac_playback cl)\<rparr>)
                (ve_ui v) of
           (Inl e, u) \<Rightarrow> v\<lparr>ve_ui := u, ve_call := Some (cl\<lparr>ac_reporting := False\<rparr>)\<rparr>
         | (Inr _, u) \<Rightarrow> v\<lparr>ve_ui := u\<rparr>))"

function drain_mic :: "mic \<Rightarrow> mic" where
  "drain_mic m = (case next_frame m of (None, m') \<Rightarrow> m' | (Some f, m') \<Rightarrow> drain_mic m')"
  by pat_completeness auto
termination by (relation "measure (\<lambda>m. length (pending m))") (auto simp: next_frame_def split: if_splits)

declare drain_mic.simps [simp del]

definition test_tick :: "voice \<Rightarrow> voice" where
  "test_tick v = (case ve_test v of None \<Rightarrow> v
     | Some (c, m, metering) \<Rightarrow> if \<not> metering then v
        else (case emit (Voice_Levels \<lparr>le_local = level_get (mic_level (drain_mic m)), le_peers = []\<rparr>) (ve_ui v) of
           (Inl e, u) \<Rightarrow> v\<lparr>ve_ui := u, ve_test := Some (c, drain_mic m, False)\<rparr>
         | (Inr _, u) \<Rightarrow> v\<lparr>ve_ui := u, ve_test := Some (c, drain_mic m, True)\<rparr>))"

text \<open>The callbacks of a connection (\<open>PeerLink::new\<close>) and \<open>pump_remote_audio\<close>, one track per pump.\<close>

definition candidate_found :: "voice_lib \<Rightarrow> nat \<Rightarrow> bytes option \<Rightarrow> voice \<Rightarrow> voice" where
  "candidate_found L c candidate v =
     (case on_ice_candidate (vl_rtc L) (lk_remote_device (lc_link (ve_cells v ! c))) candidate of
        None \<Rightarrow> v | Some env \<Rightarrow> spawn (Send_Signal (lc_call (ve_cells v ! c)) env) v)"

definition pump_start :: "voice_lib \<Rightarrow> nat \<Rightarrow> voice \<Rightarrow> voice" where
  "pump_start L c v = v\<lparr>ve_pumps := ve_pumps v @ [(c, case vl_decoder L of Inl e \<Rightarrow> None | Inr d \<Rightarrow> Some d)]\<rparr>"

definition on_playback :: "nat \<Rightarrow> (string \<Rightarrow> playback \<Rightarrow> playback) \<Rightarrow> voice \<Rightarrow> voice" where
  "on_playback c f v = (case ve_call v of None \<Rightarrow> v
     | Some cl \<Rightarrow> if ac_id cl = lc_call (ve_cells v ! c)
         then v\<lparr>ve_call := Some (cl\<lparr>ac_playback := f (lk_remote_device (lc_link (ve_cells v ! c))) (ac_playback cl)\<rparr>)\<rparr> else v)"

definition pump_packet :: "voice_lib \<Rightarrow> nat \<Rightarrow> bytes \<Rightarrow> voice \<Rightarrow> voice" where
  "pump_packet L n payload v = (case ve_pumps v ! n of
      (c, None) \<Rightarrow> v
    | (c, Some d) \<Rightarrow> if payload = [] then v
        else (case vl_decode L payload d of
            (Inl e, d') \<Rightarrow> v\<lparr>ve_pumps := (ve_pumps v)[n := (c, Some d')]\<rparr>
          | (Inr pcm, d') \<Rightarrow> on_playback c (\<lambda>device. push device pcm) (v\<lparr>ve_pumps := (ve_pumps v)[n := (c, Some d')]\<rparr>)))"

definition pump_end :: "nat \<Rightarrow> voice \<Rightarrow> voice" where
  "pump_end n v = (case ve_pumps v ! n of (c, None) \<Rightarrow> v
    | (c, Some d) \<Rightarrow> on_playback c remove_peer (v\<lparr>ve_pumps := (ve_pumps v)[n := (c, None)]\<rparr>))"

text \<open>The sound card's callbacks on a call's streams.\<close>

definition mic_data :: "real list \<Rightarrow> voice \<Rightarrow> voice" where
  "mic_data samples v = v\<lparr>ve_call := map_option (\<lambda>c. c\<lparr>ac_mic := mic_callback_f32 (ac_in c) samples (ac_mic c)\<rparr>) (ve_call v)\<rparr>"

definition mic_data_i16 :: "int list \<Rightarrow> voice \<Rightarrow> voice" where
  "mic_data_i16 samples v = v\<lparr>ve_call := map_option (\<lambda>c. c\<lparr>ac_mic := mic_callback_i16 (ac_in c) samples (ac_mic c)\<rparr>) (ve_call v)\<rparr>"

definition speaker_wants :: "nat \<Rightarrow> voice \<Rightarrow> voice" where
  "speaker_wants n v =
     v\<lparr>ve_call := map_option (\<lambda>c. c\<lparr>ac_playback := snd (play_callback_f32 (ac_out c) n (ac_playback c))\<rparr>) (ve_call v)\<rparr>"

section \<open>The engine as a transition system\<close>

datatype voice_event =
    Join host string string string
  | Leave
  | Ring host
  | Preview host string
  | Stop_Ring
  | Prefs voice_prefs
  | Mute bool
  | Deafen bool
  | Start_Test host
  | Stop_Test
  | Participant string string string bool
  | Signal string string string string bytes
  | Run_Task nat
  | Background bg_event
and bg_event =
    Encode
  | Sender string
  | Levels
  | Test_Levels
  | Candidate nat "bytes option"
  | Track nat
  | Rtp nat bytes
  | Track_End nat
  | Mic_Data "real list"
  | Mic_Data_I16 "int list"
  | Speaker_Wants nat

fun background :: "voice_lib \<Rightarrow> bg_event \<Rightarrow> voice \<Rightarrow> voice" where
  "background L Encode v = encoder_tick L v"
| "background L (Sender d) v = sender_turn L d v"
| "background L Levels v = level_tick v"
| "background L Test_Levels v = test_tick v"
| "background L (Candidate c i) v = (if c < length (ve_cells v) then candidate_found L c i v else v)"
| "background L (Track c) v = (if c < length (ve_cells v) then pump_start L c v else v)"
| "background L (Rtp n p) v = (if n < length (ve_pumps v) then pump_packet L n p v else v)"
| "background L (Track_End n) v = (if n < length (ve_pumps v) then pump_end n v else v)"
| "background L (Mic_Data s) v = mic_data s v"
| "background L (Mic_Data_I16 s) v = mic_data_i16 s v"
| "background L (Speaker_Wants n) v = speaker_wants n v"

fun voice_exec :: "voice_lib \<Rightarrow> voice_event \<Rightarrow> voice \<Rightarrow> voice" where
  "voice_exec L (Join h s g d) v = snd (join_call L h s g d v)"
| "voice_exec L Leave v = leave L v"
| "voice_exec L (Ring h) v = snd (start_ring L h v)"
| "voice_exec L (Preview h i) v = snd (preview_ring L h i v)"
| "voice_exec L Stop_Ring v = stop_ring v"
| "voice_exec L (Prefs p) v = set_prefs p v"
| "voice_exec L (Mute b) v = engine_set_muted b v"
| "voice_exec L (Deafen b) v = engine_set_deafened b v"
| "voice_exec L (Start_Test h) v = snd (start_mic_test L h v)"
| "voice_exec L Stop_Test v = stop_mic_test v"
| "voice_exec L (Participant s g d j) v = on_participant L s g d j v"
| "voice_exec L (Signal s g d k b) v = on_signal L s g d k b v"
| "voice_exec L (Run_Task i) v = (if i < length (ve_tasks v)
     then run_task L (ve_tasks v ! i) (v\<lparr>ve_tasks := take i (ve_tasks v) @ drop (Suc i) (ve_tasks v)\<rparr>) else v)"
| "voice_exec L (Background b) v = background L b v"

section \<open>The mesh invariant\<close>

fun frame_of :: "pc_call \<times> bool \<Rightarrow> bytes option" where
  "frame_of (Write_Sample f, ok) = Some f"
| "frame_of (c, ok) = None"

definition written :: "link \<Rightarrow> bytes list" where
  "written l = List.map_filter frame_of (lk_calls l)"

definition peer_ok :: "link_cell list \<Rightarrow> nat \<Rightarrow> bytes list \<Rightarrow> string \<times> connected_peer \<Rightarrow> bool" where
  "peer_ok cells k frames x \<longleftrightarrow> (case x of (d, p) \<Rightarrow>
     cp_link p < length cells \<and> lc_call (cells ! cp_link p) = k \<and> lk_remote_device (lc_link (cells ! cp_link p)) = d \<and>
     cp_next p \<le> length frames \<and> subseq (written (lc_link (cells ! cp_link p))) (take (cp_next p) frames))"

definition call_ok :: "link_cell list \<Rightarrow> nat \<Rightarrow> nat \<Rightarrow> (string \<times> connected_peer) list \<Rightarrow> bytes list \<Rightarrow> bool" where
  "call_ok cells n k ps frames \<longleftrightarrow> k < n \<and> distinct (map fst ps) \<and> distinct (map (cp_link \<circ> snd) ps) \<and>
     (\<forall>x\<in>set ps. peer_ok cells k frames x)"

fun task_ok :: "link_cell list \<Rightarrow> call_info list \<Rightarrow> voice_task \<Rightarrow> bool" where
  "task_ok cells calls (Start_Offer c) \<longleftrightarrow> c < length cells \<and>
     ci_my_device (calls ! lc_call (cells ! c)) < lk_remote_device (lc_link (cells ! c))"
| "task_ok cells calls (Close_Peer c d) \<longleftrightarrow> c < length cells"
| "task_ok cells calls (Send_Signal k env) \<longleftrightarrow> k < length calls \<and>
     (fst (snd env) = ''offer'' \<longrightarrow> ci_my_device (calls ! k) < fst env)"
| "task_ok cells calls (Ring_Timeout n) \<longleftrightarrow> True"

definition voice_inv :: "voice \<Rightarrow> bool" where
  "voice_inv v \<longleftrightarrow> (\<forall>x\<in>set (ve_cells v). lc_call x < length (ve_calls v)) \<and>
     (\<forall>x\<in>set (ve_pumps v). fst x < length (ve_cells v)) \<and>
     (\<forall>cl. ve_call v = Some cl \<longrightarrow>
       call_ok (ve_cells v) (length (ve_calls v)) (ac_id cl) (ac_peers cl) (ac_frames cl)) \<and>
     (\<forall>t\<in>set (ve_tasks v). task_ok (ve_cells v) (ve_calls v) t)"

text \<open>Operations that leave the mesh alone, and operations on one link.\<close>

lemma inv_frame:
  assumes "voice_inv v" "ve_cells v' = ve_cells v" "ve_calls v' = ve_calls v" "fst ` set (ve_pumps v') \<subseteq> {..<length (ve_cells v)}"
    and "\<And>cl. ve_call v' = Some cl \<Longrightarrow> \<exists>cl0. ve_call v = Some cl0 \<and> ac_id cl = ac_id cl0 \<and> ac_peers cl = ac_peers cl0 \<and>
       ac_frames cl = ac_frames cl0"
    and "\<And>t. t \<in> set (ve_tasks v') \<Longrightarrow> t \<in> set (ve_tasks v) \<or> task_ok (ve_cells v) (ve_calls v) t"
  shows "voice_inv v'"
proof -
  have "call_ok (ve_cells v) (length (ve_calls v)) (ac_id cl) (ac_peers cl) (ac_frames cl)" if "ve_call v' = Some cl" for cl
    using assms(1) assms(5) [OF that] by (auto simp: voice_inv_def)
  moreover have "task_ok (ve_cells v) (ve_calls v) t" if "t \<in> set (ve_tasks v')" for t
    using assms(1) assms(6) [OF that] by (auto simp: voice_inv_def)
  ultimately show ?thesis using assms(1-4) by (auto simp: voice_inv_def)
qed

definition quiet :: "link \<Rightarrow> link \<Rightarrow> bool" where
  "quiet l l' \<longleftrightarrow> lk_remote_device l' = lk_remote_device l \<and> written l' = written l"

interpretation quiet: effect_order quiet
  by unfold_locales (auto simp: quiet_def)

lemma quiet_do: "(\<And>ok. frame_of (c, ok) = None) \<Longrightarrow> effect quiet (pc_do c e m)"
  by (simp add: effect_def quiet_def pc_do_def written_def map_filter_snoc split: prod.splits)

lemma quiet_make: "effect quiet (pc_make e m)"
  unfolding pc_make_def by (rule quiet.eff_map_err) (auto simp: effect_def quiet_def zoom_def written_def split: prod.splits)

lemma quiet_modify: "effect quiet (modify (\<lambda>l. l\<lparr>lk_has_remote := b\<rparr>))" "effect quiet (modify (\<lambda>l. l\<lparr>lk_pending_ice := f l\<rparr>))"
  by (auto simp: effect_def modify_def quiet_def written_def)

lemma quiet_ops:
  "effect quiet (set_and_read_local W what d)" "effect quiet (start_offer W)" "effect quiet (flush_pending_ice W)"
  "effect quiet (accept_offer W s)" "effect quiet (accept_answer W s)" "effect quiet (add_ice W s)"
proof -
  show l: "effect quiet (set_and_read_local W what d)" for what d
    unfolding set_and_read_local_def by (intro quiet.eff_rules quiet_do) simp_all
  show "effect quiet (start_offer W)" unfolding start_offer_def by (intro quiet.eff_rules quiet_make l)
  show f: "effect quiet (flush_pending_ice W)"
    unfolding flush_pending_ice_def by (intro quiet.eff_rules quiet_modify quiet_do) simp_all
  show "effect quiet (accept_offer W s)"
    unfolding accept_offer_def by (intro quiet.eff_rules quiet_do quiet_make l f) simp_all
  show "effect quiet (accept_answer W s)" unfolding accept_answer_def by (intro quiet.eff_rules quiet_do f) simp_all
  show "effect quiet (add_ice W s)" unfolding add_ice_def by (intro quiet.eff_rules quiet_modify quiet_do) simp_all
qed

lemma quiet_close: "quiet l (link_close W l)"
  using quiet_do [of Close "\<lambda>e. e" "rt_close W"] by (simp add: effect_def link_close_def)

lemma quiet_cell:
  assumes "quiet (lc_link (cells ! c)) l" "c < length cells"
  shows "peer_ok (cells[c := (cells ! c)\<lparr>lc_link := l\<rparr>]) k frames x = peer_ok cells k frames x"
    "task_ok (cells[c := (cells ! c)\<lparr>lc_link := l\<rparr>]) calls t = task_ok cells calls t"
proof -
  have q: "lc_call (cells[c := (cells ! c)\<lparr>lc_link := l\<rparr>] ! i) = lc_call (cells ! i) \<and>
      quiet (lc_link (cells ! i)) (lc_link (cells[c := (cells ! c)\<lparr>lc_link := l\<rparr>] ! i))" for i
    using assms by (cases "i = c") (simp_all add: quiet.eff_refl)
  show "peer_ok (cells[c := (cells ! c)\<lparr>lc_link := l\<rparr>]) k frames x = peer_ok cells k frames x"
    using q by (cases x) (simp add: peer_ok_def quiet_def)
  show "task_ok (cells[c := (cells ! c)\<lparr>lc_link := l\<rparr>]) calls t = task_ok cells calls t"
    using q by (cases t) (simp_all add: quiet_def)
qed

lemma inv_cell:
  assumes "voice_inv v" "quiet (lc_link (ve_cells v ! c)) l" "c < length (ve_cells v)"
  shows "voice_inv (v\<lparr>ve_cells := (ve_cells v)[c := (ve_cells v ! c)\<lparr>lc_link := l\<rparr>]\<rparr>)"
proof -
  have "lc_call x < length (ve_calls v)" if "x \<in> set ((ve_cells v)[c := (ve_cells v ! c)\<lparr>lc_link := l\<rparr>])" for x
    using that assms(1,3) set_update_subset_insert [of "ve_cells v" c] by (fastforce simp: voice_inv_def)
  then show ?thesis using assms(1) quiet_cell [OF assms(2,3)] by (auto simp: voice_inv_def call_ok_def)
qed

lemma inv_on_link:
  assumes "voice_inv v" "effect quiet m" "c < length (ve_cells v)"
  shows "voice_inv (snd (on_link c m v))"
  using inv_cell [OF assms(1) _ assms(3), of "snd (m (lc_link (ve_cells v ! c)))"] assms(2)
  by (simp add: on_link_def zoom_def effect_def split: prod.splits) (metis snd_conv)

lemma on_link_simps [simp]:
  "ve_call (snd (on_link c m v)) = ve_call v" "ve_calls (snd (on_link c m v)) = ve_calls v"
  "ve_tasks (snd (on_link c m v)) = ve_tasks v" "length (ve_cells (snd (on_link c m v))) = length (ve_cells v)"
  by (simp_all add: on_link_def zoom_def split: prod.splits)

lemma inv_spawn: "voice_inv v \<Longrightarrow> task_ok (ve_cells v) (ve_calls v) t \<Longrightarrow> voice_inv (spawn t v)"
  by (auto simp: voice_inv_def spawn_def)

lemma inv_tell: "voice_inv v \<Longrightarrow> voice_inv (tell_ui e v)"
  by (simp add: voice_inv_def tell_ui_def)

section \<open>Every transition keeps it\<close>

lemma inv_stop_ring: "voice_inv v \<Longrightarrow> voice_inv (stop_ring v)"
  by (auto simp: stop_ring_def voice_inv_def split: option.splits)

lemma inv_stop_test: "voice_inv v \<Longrightarrow> voice_inv (stop_mic_test v)"
  by (auto simp: stop_mic_test_def voice_inv_def tell_ui_def split: option.splits)

lemma inv_ring_now: "voice_inv v \<Longrightarrow> voice_inv (snd (ring_now L h i v))"
  by (auto simp: ring_now_def spawn_def voice_inv_def split: prod.splits sum.splits)

lemma inv_rings: "voice_inv v \<Longrightarrow> voice_inv (snd (start_ring L h v))" "voice_inv v \<Longrightarrow> voice_inv (snd (preview_ring L h i v))"
  by (auto simp: start_ring_def preview_ring_def bnd_def gets_def modify_def ret_def intro: inv_ring_now inv_stop_ring)

lemma inv_start_test: "voice_inv v \<Longrightarrow> voice_inv (snd (start_mic_test L h v))"
proof -
  assume v: "voice_inv v"
  then have "voice_inv (stop_mic_test v\<lparr>ve_test := t\<rparr>)" for t
    using inv_stop_test [OF v] by (simp add: voice_inv_def)
  then show ?thesis using v inv_stop_test [OF v]
    by (auto simp: start_mic_test_def bnd_def gets_def modify_def ensure_def fail_def ret_def of_res_def split: sum.splits)
qed

lemma inv_settings:
  "voice_inv v \<Longrightarrow> voice_inv (set_prefs p v)" "voice_inv v \<Longrightarrow> voice_inv (engine_set_muted b v)"
  "voice_inv v \<Longrightarrow> voice_inv (engine_set_deafened b v)" "voice_inv v \<Longrightarrow> voice_inv (mic_data s v)"
  "voice_inv v \<Longrightarrow> voice_inv (mic_data_i16 s' v)" "voice_inv v \<Longrightarrow> voice_inv (speaker_wants n v)"
  by (auto simp: voice_inv_def set_prefs_def engine_set_muted_def engine_set_deafened_def mic_data_def mic_data_i16_def
      speaker_wants_def)

lemma inv_leave: "voice_inv v \<Longrightarrow> voice_inv (leave L v)"
proof -
  assume v: "voice_inv v"
  have "voice_inv (close_peers L ps w)" if "voice_inv w" "\<forall>x\<in>set ps. cp_link (snd x) < length (ve_cells w)" for ps w
    using that
  proof (induction ps arbitrary: w)
    case (Cons x ps)
    obtain d p where x: "x = (d, p)" by (cases x)
    let ?w = "w\<lparr>ve_cells := (ve_cells w)[cp_link p := (ve_cells w ! cp_link p)
      \<lparr>lc_link := link_close (vl_rtc L) (lc_link (ve_cells w ! cp_link p))\<rparr>]\<rparr>"
    have "voice_inv ?w" using Cons.prems x by (intro inv_cell quiet_close) auto
    then show ?case using Cons.IH [of ?w] Cons.prems(2) by (simp add: close_peers_def x)
  qed (simp add: close_peers_def)
  moreover have "voice_inv (v\<lparr>ve_call := None\<rparr>)" using v by (simp add: voice_inv_def)
  moreover have "\<forall>x\<in>set (ac_peers cl). cp_link (snd x) < length (ve_cells v)" if "ve_call v = Some cl" for cl
    using v that by (fastforce simp: voice_inv_def call_ok_def peer_ok_def)
  ultimately show ?thesis using v by (auto simp: leave_def inv_tell split: option.splits)
qed

lemma inv_join: "voice_inv v \<Longrightarrow> voice_inv (snd (join_call L h s g d v))"
proof -
  assume v: "voice_inv v"
  let ?v = "stop_mic_test (leave L (stop_ring v))"
  have i: "voice_inv ?v" by (intro inv_stop_test inv_leave inv_stop_ring v)
  have "voice_inv (?v\<lparr>ve_calls := ve_calls ?v @ [ci], ve_call := Some cl\<rparr>)"
    if "ac_id cl = length (ve_calls ?v)" "ac_peers cl = []" for ci cl
  proof -
    have "task_ok (ve_cells ?v) (ve_calls ?v @ [ci]) t" if "t \<in> set (ve_tasks ?v)" for t
      using i that by (cases t) (auto simp: voice_inv_def nth_append dest!: bspec [of _ _ t])
    then show ?thesis using i that by (auto simp: voice_inv_def call_ok_def less_Suc_eq)
  qed
  then show ?thesis using v i
    by (auto simp: join_call_def bnd_def gets_def modify_def ensure_def fail_def ret_def of_res_def split: sum.splits)
qed

lemma peer_ok_append: "peer_ok cells k frames x \<Longrightarrow> peer_ok (cells @ cs) k frames x"
  by (auto simp: peer_ok_def nth_append)

lemma task_ok_append: "task_ok cells calls t \<Longrightarrow> task_ok (cells @ cs) calls t"
  by (cases t) (auto simp: nth_append)

lemma link_new_fields:
  "link_new W n d = Inr l \<Longrightarrow> lk_remote_device l = d \<and> written l = []"
  by (auto simp: link_new_def written_def List.map_filter_simps split: option.splits sum.splits)

lemma update_fresh: "d \<notin> fst ` set ps \<Longrightarrow> AList.update d p ps = ps @ [(d, p)]"
  by (induction ps) auto

text \<open>Adding a peer that is not there yet.\<close>

lemma inv_add_peer:
  assumes v: "voice_inv v" and cl: "ve_call v = Some cl" and new: "map_of (ac_peers cl) d = None"
    and r: "add_peer L d cl v = (r, w)"
  shows "voice_inv w" "ve_calls w = ve_calls v"
    "\<And>c. r = Some c \<Longrightarrow> c < length (ve_cells w) \<and> lc_call (ve_cells w ! c) = ac_id cl \<and>
       lk_remote_device (lc_link (ve_cells w ! c)) = d \<and> ve_tasks w = ve_tasks v \<and>
       ve_call w = Some (cl\<lparr>ac_peers := ac_peers cl @ [(d, \<lparr>cp_link = c, cp_next = length (ac_frames cl)\<rparr>)]\<rparr>)"
proof -
  have d: "d \<notin> fst ` set (ac_peers cl)" using new by (simp add: map_of_eq_None_iff)
  have ok: "call_ok (ve_cells v) (length (ve_calls v)) (ac_id cl) (ac_peers cl) (ac_frames cl)"
    using v cl by (simp add: voice_inv_def)
  then have below: "cp_link (snd x) < length (ve_cells v)" if "x \<in> set (ac_peers cl)" for x
    using that by (cases x) (auto simp: call_ok_def peer_ok_def)
  show "voice_inv w"
  proof (cases "link_new (vl_rtc L) (ve_made v) d")
    case (Inl e)
    then have "w = v\<lparr>ve_made := Suc (ve_made v)\<rparr>" using r by (simp add: add_peer_def)
    then show ?thesis using v by (simp add: voice_inv_def)
  next
    case (Inr l)
    note l = link_new_fields [OF Inr]
    let ?cells = "ve_cells v @ [\<lparr>lc_link = l, lc_call = ac_id cl\<rparr>]"
    let ?ps = "ac_peers cl @ [(d, \<lparr>cp_link = length (ve_cells v), cp_next = length (ac_frames cl)\<rparr>)]"
    have "\<forall>x\<in>set (ac_peers cl). peer_ok ?cells (ac_id cl) (ac_frames cl) x"
      using ok by (simp add: call_ok_def peer_ok_append)
    moreover have "peer_ok ?cells (ac_id cl) (ac_frames cl) (d, \<lparr>cp_link = length (ve_cells v), cp_next = length (ac_frames cl)\<rparr>)"
      using l by (simp add: peer_ok_def)
    moreover have "length (ve_cells v) \<notin> (cp_link \<circ> snd) ` set (ac_peers cl)" using below by fastforce
    ultimately have "call_ok ?cells (length (ve_calls v)) (ac_id cl) ?ps (ac_frames cl)"
      using ok d by (simp add: call_ok_def)
    moreover have "w = v\<lparr>ve_made := Suc (ve_made v), ve_cells := ?cells, ve_call := Some (cl\<lparr>ac_peers := ?ps\<rparr>)\<rparr>"
      using r Inr by (simp add: add_peer_def update_fresh [OF d])
    moreover have "ac_id cl < length (ve_calls v)" using ok by (simp add: call_ok_def)
    ultimately show ?thesis using v by (simp add: voice_inv_def task_ok_append less_SucI)
  qed
  show "ve_calls w = ve_calls v" using r by (auto simp: add_peer_def split: sum.splits)
  show "c < length (ve_cells w) \<and> lc_call (ve_cells w ! c) = ac_id cl \<and>
       lk_remote_device (lc_link (ve_cells w ! c)) = d \<and> ve_tasks w = ve_tasks v \<and>
       ve_call w = Some (cl\<lparr>ac_peers := ac_peers cl @ [(d, \<lparr>cp_link = c, cp_next = length (ac_frames cl)\<rparr>)]\<rparr>)"
    if "r = Some c" for c
    using r that by (auto simp: add_peer_def update_fresh [OF d] link_new_fields split: sum.splits)
qed

lemma in_call_some:
  "in_call v s g = Some cl \<Longrightarrow> ve_call v = Some cl \<and> ci_server_id (ve_calls v ! ac_id cl) = s \<and> ci_group_id (ve_calls v ! ac_id cl) = g"
  by (auto simp: in_call_def Let_def split: option.splits if_splits)

lemma call_ok_delete: "call_ok cells n k ps frames \<Longrightarrow> call_ok cells n k (AList.delete d ps) frames"
proof -
  have e: "AList.delete d ps = filter (\<lambda>x. d \<noteq> fst x) ps" by (simp add: AList.delete_eq split_def)
  show "call_ok cells n k ps frames \<Longrightarrow> call_ok cells n k (AList.delete d ps) frames"
    unfolding e call_ok_def by (auto simp: distinct_map inj_on_def)
qed

lemma inv_participant: "voice_inv v \<Longrightarrow> voice_inv (on_participant L s g d j v)"
proof (cases "in_call v s g")
  case (Some cl)
  assume v: "voice_inv v"
  note cl = conjunct1 [OF in_call_some [OF Some]]
  let ?me = "ci_my_device (ve_calls v ! ac_id cl)"
  have ok: "call_ok (ve_cells v) (length (ve_calls v)) (ac_id cl) (ac_peers cl) (ac_frames cl)"
    using v cl by (simp add: voice_inv_def)
  have leave: "voice_inv (spawn (Close_Peer (cp_link p) d)
      (v\<lparr>ve_call := Some (cl\<lparr>ac_peers := AList.delete d (ac_peers cl)\<rparr>)\<rparr>))" if "map_of (ac_peers cl) d = Some p" for p
  proof (rule inv_spawn)
    show "voice_inv (v\<lparr>ve_call := Some (cl\<lparr>ac_peers := AList.delete d (ac_peers cl)\<rparr>)\<rparr>)"
      using v ok by (simp add: voice_inv_def call_ok_delete)
    show "task_ok (ve_cells (v\<lparr>ve_call := Some (cl\<lparr>ac_peers := AList.delete d (ac_peers cl)\<rparr>)\<rparr>))
        (ve_calls (v\<lparr>ve_call := Some (cl\<lparr>ac_peers := AList.delete d (ac_peers cl)\<rparr>)\<rparr>)) (Close_Peer (cp_link p) d)"
      using ok map_of_SomeD [OF that] by (auto simp: call_ok_def peer_ok_def)
  qed
  have join: "voice_inv (case add_peer L d cl v of (None, w) \<Rightarrow> w
      | (Some c, w) \<Rightarrow> if ?me < d then spawn (Start_Offer c) w else w)" if "map_of (ac_peers cl) d = None"
  proof -
    obtain r w where a: "add_peer L d cl v = (r, w)" by (meson surj_pair)
    show ?thesis using inv_add_peer [OF v cl that a] by (cases r) (auto simp: a intro!: inv_spawn)
  qed
  show ?thesis using v leave join Some by (auto simp: on_participant_def Let_def split: option.splits)
qed (simp add: on_participant_def)

lemma offer_kind:
  assumes "start_offer W l = (Inr env, l')"
  shows "env = (lk_remote_device l', ''offer'', snd (snd env))" "lk_remote_device l' = lk_remote_device l"
proof -
  show "env = (lk_remote_device l', ''offer'', snd (snd env))" using assms by (auto simp: start_offer_def ok_simps)
  show "lk_remote_device l' = lk_remote_device l" using effectD [OF quiet_ops(2) assms] by (simp add: quiet_def)
qed

lemma answer_kind: "accept_offer W s l = (Inr env, l') \<Longrightarrow> fst (snd env) = ''answer''"
  by (auto simp: accept_offer_def ok_simps)

lemma on_link_cell: "c < length (ve_cells v) \<Longrightarrow> on_link c m v = (r, w) \<Longrightarrow>
    m (lc_link (ve_cells v ! c)) = (r, lc_link (ve_cells w ! c)) \<and> lc_call (ve_cells w ! c) = lc_call (ve_cells v ! c) \<and>
    ve_calls w = ve_calls v \<and> length (ve_cells w) = length (ve_cells v)"
  by (auto simp: on_link_def zoom_def split: prod.splits)

lemma cell_call: "voice_inv v \<Longrightarrow> c < length (ve_cells v) \<Longrightarrow> lc_call (ve_cells v ! c) < length (ve_calls v)"
  by (simp add: voice_inv_def)

lemma inv_apply_signal:
  assumes v: "voice_inv v" and c: "c < length (ve_cells v)"
  shows "voice_inv (apply_signal L c kind payload v)"
proof -
  obtain r w where o: "on_link c (accept_offer (vl_rtc L) payload) v = (r, w)" by (meson surj_pair)
  have w: "voice_inv w" using inv_on_link [OF v quiet_ops(4) c, of "vl_rtc L" payload] o by simp
  have "task_ok (ve_cells w) (ve_calls w) (Send_Signal (lc_call (ve_cells w ! c)) env)" if "r = Inr env" for env
  proof -
    have "accept_offer (vl_rtc L) payload (lc_link (ve_cells v ! c)) = (Inr env, lc_link (ve_cells w ! c))"
      using on_link_cell [OF c o] that by simp
    then have "fst (snd env) = ''answer''" by (rule answer_kind)
    then show ?thesis using on_link_cell [OF c o] cell_call [OF v c] by simp
  qed
  then have "voice_inv (case on_link c (accept_offer (vl_rtc L) payload) v of
      (Inl e, v) \<Rightarrow> v | (Inr env, v) \<Rightarrow> spawn (Send_Signal (lc_call (ve_cells v ! c)) env) v)"
    using w o by (cases r) (simp_all add: inv_spawn)
  then show ?thesis unfolding apply_signal_def using v
    by (simp add: inv_on_link [OF v _ c] quiet_ops)
qed

lemma inv_signal: "voice_inv v \<Longrightarrow> voice_inv (on_signal L s g d k data v)"
proof -
  assume v: "voice_inv v"
  have "voice_inv (case signal_peer L d k cl v of (None, w) \<Rightarrow> w | (Some c, w) \<Rightarrow> apply_signal L c k payload w)"
    if cl: "ve_call v = Some cl" for cl payload
  proof (cases "map_of (ac_peers cl) d")
    case None
    obtain r w where a: "add_peer L d cl v = (r, w)" by (meson surj_pair)
    show ?thesis using inv_add_peer [OF v cl None a] v None
      by (cases r) (auto simp: signal_peer_def a intro!: inv_apply_signal)
  next
    case (Some p)
    then have "cp_link p < length (ve_cells v)" using v cl map_of_SomeD [OF Some]
      by (auto simp: voice_inv_def call_ok_def peer_ok_def)
    then show ?thesis using v Some by (simp add: signal_peer_def inv_apply_signal)
  qed
  then show ?thesis using v in_call_some [of v s g] by (auto simp: on_signal_def split: option.splits)
qed

lemma inv_same_call:
  "voice_inv v \<Longrightarrow> ve_call v = Some cl \<Longrightarrow> ac_id cl' = ac_id cl \<Longrightarrow> ac_peers cl' = ac_peers cl \<Longrightarrow> ac_frames cl' = ac_frames cl
    \<Longrightarrow> voice_inv (v\<lparr>ve_call := Some cl'\<rparr>)"
  by (simp add: voice_inv_def)

lemma inv_playback: "voice_inv v \<Longrightarrow> voice_inv (on_playback c f v)"
  by (auto simp: on_playback_def intro: inv_same_call split: option.splits)

lemma inv_run_task:
  assumes v: "voice_inv v" and t: "task_ok (ve_cells v) (ve_calls v) t"
  shows "voice_inv (run_task L t v)"
proof (cases t)
  case (Start_Offer c)
  then have c: "c < length (ve_cells v)" using t by simp
  obtain r w where o: "on_link c (start_offer (vl_rtc L)) v = (r, w)" by (meson surj_pair)
  have w: "voice_inv w" using inv_on_link [OF v quiet_ops(2) c, of "vl_rtc L"] o by simp
  have "task_ok (ve_cells w) (ve_calls w) (Send_Signal (lc_call (ve_cells w ! c)) env)" if "r = Inr env" for env
  proof -
    have s: "start_offer (vl_rtc L) (lc_link (ve_cells v ! c)) = (Inr env, lc_link (ve_cells w ! c))"
      using on_link_cell [OF c o] that by simp
    have "fst env = lk_remote_device (lc_link (ve_cells v ! c))"
      using offer_kind [OF s] by (metis fst_conv)
    then show ?thesis using on_link_cell [OF c o] cell_call [OF v c] t Start_Offer by simp
  qed
  then show ?thesis using w o Start_Offer by (cases r) (simp_all add: inv_spawn)
next
  case (Close_Peer c d)
  let ?v = "v\<lparr>ve_cells := (ve_cells v)[c := (ve_cells v ! c)
      \<lparr>lc_link := link_close (vl_rtc L) (lc_link (ve_cells v ! c))\<rparr>]\<rparr>"
  have i: "voice_inv ?v" using v t Close_Peer by (intro inv_cell quiet_close) simp_all
  then have "voice_inv (?v\<lparr>ve_call := Some (cl\<lparr>ac_playback := p\<rparr>)\<rparr>)" if "ve_call ?v = Some cl" for cl p
    using that by (rule inv_same_call) simp_all
  then show ?thesis using i Close_Peer by (simp add: Let_def split: option.splits)
qed (use v in \<open>simp_all add: inv_stop_ring\<close>)

lemma encode_extends: "\<exists>new. snd (snd (encode_loop L m enc frames)) = frames @ new"
proof (induction L m enc frames rule: encode_loop.induct)
  case (1 L m enc frames)
  then show ?case by (subst encode_loop.simps) (fastforce split: prod.splits option.splits sum.splits)
qed

lemma inv_encoder: "voice_inv v \<Longrightarrow> voice_inv (encoder_tick L v)"
proof -
  have ext: "call_ok cells n k ps frames \<Longrightarrow> call_ok cells n k ps (frames @ new)" for cells n k ps frames new
    by (auto simp: call_ok_def peer_ok_def)
  have "call_ok cells n k ps f'"
    if "encode_loop L m enc frames = (m', e', f')" "call_ok cells n k ps frames" for cells n k ps frames f' m enc m' e'
    using encode_extends [of L m enc frames] that ext by auto
  then show "voice_inv v \<Longrightarrow> voice_inv (encoder_tick L v)"
    by (auto simp: encoder_tick_def voice_inv_def split: option.splits prod.splits)
qed

lemma subseq_take_Suc: "i < length ys \<Longrightarrow> subseq xs (take i ys) \<Longrightarrow> subseq (xs @ [ys ! i]) (take (Suc i) ys)"
  by (simp add: take_Suc_conv_app_nth)

lemma subseq_take_mono: "i \<le> j \<Longrightarrow> subseq xs (take i ys) \<Longrightarrow> subseq xs (take j ys)"
  using prefix_imp_subseq [OF take_is_prefix [of i "take j ys"]] by (simp add: min.absorb1 subseq_order.trans)

lemma written_send: "written (send_frame W f l) = written l @ [f]" "lk_remote_device (send_frame W f l) = lk_remote_device l"
  by (simp_all add: send_frame_def pc_do_def written_def map_filter_snoc split: prod.splits)

text \<open>Moving one peer of a call, with its link.\<close>

lemma update_in: "distinct (map fst ps) \<Longrightarrow> (d, p) \<in> set ps \<Longrightarrow> x \<in> set (AList.update d q ps) \<longleftrightarrow> x = (d, q) \<or> (x \<in> set ps \<and> fst x \<noteq> d)"
  by (induction ps) force+

lemma update_links: "(d, p) \<in> set ps \<Longrightarrow> distinct (map fst ps) \<Longrightarrow> cp_link q = cp_link p \<Longrightarrow>
    map (cp_link \<circ> snd) (AList.update d q ps) = map (cp_link \<circ> snd) ps \<and> map fst (AList.update d q ps) = map fst ps"
  by (induction ps) force+

lemma call_ok_move:
  assumes ok: "call_ok cells n k ps frames" and p: "(d, p) \<in> set ps" and q: "cp_link q = cp_link p"
    and cells: "length cells' = length cells" "\<And>i. i \<noteq> cp_link p \<Longrightarrow> cells' ! i = cells ! i"
    and new: "peer_ok cells' k frames (d, q)"
  shows "call_ok cells' n k (AList.update d q ps) frames"
proof -
  have dist: "distinct (map fst ps)" "distinct (map (cp_link \<circ> snd) ps)" using ok by (simp_all add: call_ok_def)
  have "peer_ok cells' k frames x" if "x \<in> set ps" "fst x \<noteq> d" for x
  proof -
    have "cp_link (snd x) \<noteq> cp_link p" using dist(2) that p by (auto simp: distinct_map inj_on_def)
    then show ?thesis using ok that(1) cells by (cases x) (auto simp: call_ok_def peer_ok_def)
  qed
  then have "peer_ok cells' k frames x" if "x \<in> set (AList.update d q ps)" for x
    using that new unfolding update_in [OF dist(1) p] by blast
  then show ?thesis using ok update_links [OF p dist(1) q] by (simp add: call_ok_def)
qed

lemma inv_sender: "voice_inv v \<Longrightarrow> voice_inv (sender_turn L d v)"
proof (cases "ve_call v")
  case (Some cl)
  assume v: "voice_inv v"
  show ?thesis
  proof (cases "map_of (ac_peers cl) d")
    case p: (Some p)
    let ?n = "length (ac_frames cl)" and ?c = "cp_link p"
    let ?l = "lc_link (ve_cells v ! ?c)"
    have ok: "call_ok (ve_cells v) (length (ve_calls v)) (ac_id cl) (ac_peers cl) (ac_frames cl)"
      using v Some by (simp add: voice_inv_def)
    note mem = map_of_SomeD [OF p]
    have pk: "peer_ok (ve_cells v) (ac_id cl) (ac_frames cl) (d, p)" using ok mem by (auto simp: call_ok_def)
    have lag: "call_ok (ve_cells v) (length (ve_calls v)) (ac_id cl)
        (AList.update d (p\<lparr>cp_next := ?n - FRAME_SLACK\<rparr>) (ac_peers cl)) (ac_frames cl)"
      if "cp_next p + FRAME_SLACK < ?n"
      using pk that subseq_take_mono [of "cp_next p" "?n - FRAME_SLACK" "written ?l" "ac_frames cl"]
      by (intro call_ok_move [OF ok mem]) (auto simp: peer_ok_def)
    let ?cells = "(ve_cells v)[?c := (ve_cells v ! ?c)\<lparr>lc_link := send_frame (vl_rtc L) (ac_frames cl ! cp_next p) ?l\<rparr>]"
    have "call_ok ?cells (length (ve_calls v)) (ac_id cl)
        (AList.update d (p\<lparr>cp_next := Suc (cp_next p)\<rparr>) (ac_peers cl)) (ac_frames cl)" if "cp_next p < ?n"
      using pk that subseq_take_Suc [OF that]
      by (intro call_ok_move [OF ok mem]) (auto simp: peer_ok_def written_send)
    moreover have "task_ok ?cells (ve_calls v) t = task_ok (ve_cells v) (ve_calls v) t" for t
      using pk by (cases t) (auto simp: peer_ok_def nth_list_update written_send)
    moreover have "lc_call x < length (ve_calls v)" if "x \<in> set ?cells" for x
    proof -
      have "lc_call (ve_cells v ! ?c) < length (ve_calls v)" using pk by (intro cell_call [OF v]) (simp add: peer_ok_def)
      then show ?thesis using v subsetD [OF set_update_subset_insert that] by (auto simp: voice_inv_def)
    qed
    ultimately show ?thesis using v lag Some p
      by (simp add: sender_turn_def Let_def voice_inv_def)
  qed (use v Some in \<open>simp add: sender_turn_def\<close>)
qed (simp add: sender_turn_def)

lemma inv_ticks: "voice_inv v \<Longrightarrow> voice_inv (level_tick v)" "voice_inv v \<Longrightarrow> voice_inv (test_tick v)"
proof -
  have "voice_inv (v\<lparr>ve_ui := u, ve_call := Some (cl\<lparr>ac_reporting := b\<rparr>)\<rparr>)" if "voice_inv v" "ve_call v = Some cl" for u cl b
    using that by (simp add: voice_inv_def)
  then show "voice_inv v \<Longrightarrow> voice_inv (level_tick v)"
    by (auto simp: level_tick_def split: option.splits prod.splits sum.splits) (simp add: voice_inv_def)
  show "voice_inv v \<Longrightarrow> voice_inv (test_tick v)"
    by (auto simp: test_tick_def split: option.splits prod.splits sum.splits) (simp_all add: voice_inv_def)
qed

lemma inv_candidate: "voice_inv v \<Longrightarrow> c < length (ve_cells v) \<Longrightarrow> voice_inv (candidate_found L c i v)"
  using cell_call [of v c]
  by (auto simp: candidate_found_def on_ice_candidate_def intro!: inv_spawn split: option.splits sum.splits)

lemma inv_pump:
  assumes "voice_inv v"
  shows "c < length (ve_cells v) \<Longrightarrow> voice_inv (pump_start L c v)"
    "n < length (ve_pumps v) \<Longrightarrow> voice_inv (pump_packet L n p v)" "n < length (ve_pumps v) \<Longrightarrow> voice_inv (pump_end n v)"
proof -
  have u: "voice_inv (v\<lparr>ve_pumps := (ve_pumps v)[n := (fst (ve_pumps v ! n), d)]\<rparr>)" if "n < length (ve_pumps v)" for d
    using assms that set_update_subset_insert [of "ve_pumps v" n] by (fastforce simp: voice_inv_def)
  show "c < length (ve_cells v) \<Longrightarrow> voice_inv (pump_start L c v)" using assms by (auto simp: voice_inv_def pump_start_def)
  show "voice_inv (pump_packet L n p v)" if "n < length (ve_pumps v)"
    using assms u [OF that] by (auto simp: pump_packet_def intro!: inv_playback split: prod.splits option.splits sum.splits)
  show "voice_inv (pump_end n v)" if "n < length (ve_pumps v)"
    using assms u [OF that] by (auto simp: pump_end_def intro!: inv_playback split: prod.splits option.splits)
qed

lemma inv_background: "voice_inv v \<Longrightarrow> voice_inv (background L b v)"
  by (cases b) (auto simp: inv_encoder inv_sender inv_ticks inv_candidate inv_pump inv_settings)

lemma inv_exec: "voice_inv v \<Longrightarrow> voice_inv (voice_exec L e v)"
proof (cases e)
  case (Run_Task i)
  assume v: "voice_inv v"
  have "voice_inv (v\<lparr>ve_tasks := take i (ve_tasks v) @ drop (Suc i) (ve_tasks v)\<rparr>)"
    using v by (auto simp: voice_inv_def dest: in_set_takeD in_set_dropD)
  moreover have "i < length (ve_tasks v) \<Longrightarrow> task_ok (ve_cells v) (ve_calls v) (ve_tasks v ! i)"
    using v by (simp add: voice_inv_def)
  ultimately show ?thesis using v Run_Task by (simp add: inv_run_task)
qed (simp_all add: inv_join inv_leave inv_rings inv_stop_ring inv_settings inv_start_test inv_stop_test inv_participant
    inv_signal inv_background)

lemma inv_new: "voice_inv (voice_new u)"
  by (simp add: voice_new_def voice_inv_def)

interpretation mesh: inductive_invariant "\<lambda>v. \<exists>u. v = voice_new u" "\<lambda>v e w. w = voice_exec L e v" voice_inv for L
  by unfold_locales (auto intro: inv_exec inv_new)

section \<open>Properties\<close>

abbreviation voice_reach :: "voice_lib \<Rightarrow> voice \<Rightarrow> bool" where
  "voice_reach L \<equiv> reach (\<lambda>v. \<exists>u. v = voice_new u) (\<lambda>v e w. w = voice_exec L e v)"

lemma offer_runs:
  assumes "in_call v s g = Some cl" "ci_my_device (ve_calls v ! ac_id cl) < d"
    and "map_of (ac_peers cl) d = None" "link_new (vl_rtc L) (ve_made v) d = Inr l"
    and "start_offer (vl_rtc L) l = (Inr env, l')"
  shows "Start_Offer (length (ve_cells v)) \<in> set (ve_tasks (on_participant L s g d True v))"
    and "Send_Signal (ac_id cl) env \<in> set (ve_tasks (run_task L (Start_Offer (length (ve_cells v)))
      (on_participant L s g d True v)))"
  using assms
  by (auto simp: on_participant_def add_peer_def spawn_def on_link_def zoom_def Let_def)

text \<open>
  C31: Of two devices in a call exactly one offers.  In every reachable state of an engine, whatever calls,
  signals, tasks and media events led there, an offer waiting to be relayed, or an offer task waiting to
  run, is addressed to a device with a larger id than the own one; so two engines never have offers for
  each other.  And the smaller one does offer: a participant event for a new peer spawns the task, and
  the task sends the offer, whenever the WebRTC stack makes a connection and an offer.
\<close>

theorem one_side_offers:
  assumes "voice_reach L v" "voice_reach L w"
  shows "(\<forall>k d p. Send_Signal k (d, ''offer'', p) \<in> set (ve_tasks v) \<longrightarrow> ci_my_device (ve_calls v ! k) < d) \<and>
    \<not> (\<exists>a b i j p q. Send_Signal i (b, ''offer'', p) \<in> set (ve_tasks v) \<and> ci_my_device (ve_calls v ! i) = a \<and>
      Send_Signal j (a, ''offer'', q) \<in> set (ve_tasks w) \<and> ci_my_device (ve_calls w ! j) = b) \<and>
    (\<forall>s g cl d l env l'. in_call v s g = Some cl \<and> ci_my_device (ve_calls v ! ac_id cl) < d \<and>
      map_of (ac_peers cl) d = None \<and> link_new (vl_rtc L) (ve_made v) d = Inr l \<and>
      start_offer (vl_rtc L) l = (Inr env, l') \<longrightarrow>
      Start_Offer (length (ve_cells v)) \<in> set (ve_tasks (on_participant L s g d True v)) \<and>
      Send_Signal (ac_id cl) env \<in> set (ve_tasks (run_task L (Start_Offer (length (ve_cells v)))
        (on_participant L s g d True v))))"
proof -
  have off: "ci_my_device (ve_calls x ! k) < d"
    if "voice_reach L x" "Send_Signal k (d, ''offer'', p) \<in> set (ve_tasks x)" for x k d p
    using mesh.inv_reach [OF that(1)] that(2) by (auto simp: voice_inv_def dest!: bspec)
  have "\<not> (\<exists>a b i j p q. Send_Signal i (b, ''offer'', p) \<in> set (ve_tasks v) \<and> ci_my_device (ve_calls v ! i) = a \<and>
      Send_Signal j (a, ''offer'', q) \<in> set (ve_tasks w) \<and> ci_my_device (ve_calls w ! j) = b)"
    using off [OF assms(1)] off [OF assms(2)] by (metis order.asym)
  then show ?thesis using off [OF assms(1)] by (auto intro: offer_runs simp del: run_task.simps)
qed

text \<open>
  C32: Every peer hears the microphone in order.  In every reachable state of a call, each peer is
  connected by one link of its own, made for that device and that call, and the frames handed to that
  link so far are, in order and without repetition, among the frames the call has encoded up to the
  peer's position.  A turn of a peer's sender that is at most 32 frames behind hands over exactly the
  next frame.
\<close>

theorem frames_in_order:
  assumes "voice_reach L v" "ve_call v = Some cl" "map_of (ac_peers cl) d = Some p"
  shows "lk_remote_device (lc_link (ve_cells v ! cp_link p)) = d \<and> lc_call (ve_cells v ! cp_link p) = ac_id cl \<and>
    (\<forall>d' p'. map_of (ac_peers cl) d' = Some p' \<and> d' \<noteq> d \<longrightarrow> cp_link p' \<noteq> cp_link p) \<and>
    subseq (written (lc_link (ve_cells v ! cp_link p))) (take (cp_next p) (ac_frames cl)) \<and>
    (cp_next p < length (ac_frames cl) \<and> length (ac_frames cl) \<le> cp_next p + 32 \<longrightarrow>
      written (lc_link (ve_cells (sender_turn L d v) ! cp_link p)) =
        written (lc_link (ve_cells v ! cp_link p)) @ [ac_frames cl ! cp_next p])"
proof -
  have ok: "call_ok (ve_cells v) (length (ve_calls v)) (ac_id cl) (ac_peers cl) (ac_frames cl)"
    using mesh.inv_reach [OF assms(1)] assms(2) by (simp add: voice_inv_def)
  then have pk: "peer_ok (ve_cells v) (ac_id cl) (ac_frames cl) (d, p)"
    using map_of_SomeD [OF assms(3)] by (auto simp: call_ok_def)
  have "cp_link p' \<noteq> cp_link p" if "map_of (ac_peers cl) d' = Some p'" "d' \<noteq> d" for d' p'
  proof
    assume "cp_link p' = cp_link p"
    moreover have "inj_on (cp_link \<circ> snd) (set (ac_peers cl))" using ok by (simp add: call_ok_def distinct_map)
    ultimately have "(d', p') = (d, p)"
      using map_of_SomeD [OF that(1)] map_of_SomeD [OF assms(3)]
      by (intro inj_onD [of "cp_link \<circ> snd" "set (ac_peers cl)"]) simp_all
    then show False using that(2) by simp
  qed
  then show ?thesis using pk assms(2,3)
    by (auto simp: peer_ok_def sender_turn_def Let_def FRAME_SLACK_def written_send)
qed

section \<open>A call of two\<close>

lemma reach_run: "voice_reach L (fold (voice_exec L) evs (voice_new u))"
proof (induction evs rule: rev_induct)
  case (snoc e evs)
  then show ?case by (auto intro: reach_step)
qed (auto intro: reach_init)

definition demo_voice :: voice_lib where
  "demo_voice = \<lparr>vl_rtc = demo_rtc, vl_probe = (\<lambda>_. Inl ''none''), vl_bundled = [], vl_parse = Some,
     vl_encoder = Inr [], vl_encode = (\<lambda>f. ret [7]), vl_decoder = Inr [], vl_decode = (\<lambda>p. ret [])\<rparr>"

definition demo_events :: "voice_event list" where
  "demo_events = [Join demo_host ''s'' ''g'' ''a'', Participant ''s'' ''g'' ''b'' True]"

definition demo_call :: active_call where
  "demo_call = \<lparr>ac_id = 0, ac_in = demo_config, ac_mic = \<lparr>pending = [], mic_level = 0, muted = False, mic_gain = 1\<rparr>,
     ac_out = demo_config, ac_playback = \<lparr>peers = [], levels = [], deafened = False, volume = 1\<rparr>,
     ac_peers = [], ac_frames = [], ac_encoder = Some [], ac_reporting = True\<rparr>"

definition demo_link :: link where
  "demo_link = \<lparr>lk_remote_device = ''b'', lk_pc = [], lk_pending_ice = [], lk_has_remote = False, lk_calls = []\<rparr>"

lemma demo_join:
  "snd (join_call demo_voice demo_host ''s'' ''g'' ''a'' (voice_new u)) =
    (voice_new u)\<lparr>ve_calls := [\<lparr>ci_server_id = ''s'', ci_group_id = ''g'', ci_my_device = ''a''\<rparr>], ve_call := Some demo_call\<rparr>"
proof -
  have "(stop_mic_test \<circ> leave demo_voice \<circ> stop_ring) (voice_new u) = voice_new u"
    by (simp add: voice_new_def stop_ring_def leave_def stop_mic_test_def)
  moreover have "prefs_speaker (ve_prefs (voice_new u)) = None" "prefs_mic (ve_prefs (voice_new u)) = None"
    "vp_output_volume (ve_prefs (voice_new u)) / 100 = 1" "vp_mic_gain (ve_prefs (voice_new u)) / 100 = 1"
    "vl_parse demo_voice = Some" "vl_encoder demo_voice = Inr []" "ve_calls (voice_new u) = []"
    by (simp_all add: voice_new_def prefs_default_def prefs_speaker_def prefs_mic_def demo_voice_def)
  ultimately show ?thesis by (simp add: join_call_def bnd_def ensure_def ret_def gets_def of_res_def modify_def demo_start demo_call_def)
qed

lemma demo_link_new: "link_new (vl_rtc demo_voice) n ''b'' = Inr demo_link"
  by (simp add: link_new_def demo_voice_def demo_rtc_def demo_link_def)

lemma demo_offer: "fst (start_offer (vl_rtc demo_voice) demo_link) = Inr (''b'', ''offer'', ''sdp'')"
  by (simp add: demo_voice_def demo_rtc_def demo_link_def start_offer_def pc_make_def set_and_read_local_def pc_do_def act_defs)

definition demo_state :: voice where
  "demo_state = fold (voice_exec demo_voice) demo_events (voice_new \<lparr>ui_open = True, ui_events = []\<rparr>)"

lemma demo_state_facts:
  "ve_call demo_state = Some (demo_call\<lparr>ac_peers := [(''b'', \<lparr>cp_link = 0, cp_next = 0\<rparr>)]\<rparr>)"
  "ve_tasks demo_state = [Start_Offer 0]" "ve_cells demo_state = [\<lparr>lc_link = demo_link, lc_call = 0\<rparr>]"
proof -
  have "ve_made (voice_new u) = 0" "ve_cells (voice_new u) = []" "ve_tasks (voice_new u) = []" for u
    by (simp_all add: voice_new_def)
  then show "ve_call demo_state = Some (demo_call\<lparr>ac_peers := [(''b'', \<lparr>cp_link = 0, cp_next = 0\<rparr>)]\<rparr>)"
    "ve_tasks demo_state = [Start_Offer 0]" "ve_cells demo_state = [\<lparr>lc_link = demo_link, lc_call = 0\<rparr>]"
    by (simp_all add: demo_state_def demo_events_def demo_join on_participant_def in_call_def add_peer_def demo_link_new
        demo_call_def spawn_def Let_def)
qed

lemma demo_offered: "ve_tasks (voice_exec demo_voice (Run_Task 0) demo_state) = [Send_Signal 0 (''b'', ''offer'', ''sdp'')]"
  using demo_offer by (auto simp: demo_state_facts on_link_def zoom_def spawn_def split: prod.splits)

theorem one_side_offers_witness:
  "\<exists>v. voice_reach demo_voice v \<and> Send_Signal 0 (''b'', ''offer'', ''sdp'') \<in> set (ve_tasks v) \<and>
    ci_my_device (ve_calls v ! 0) < ''b''"
proof -
  let ?v = "voice_exec demo_voice (Run_Task 0) demo_state"
  have "?v = fold (voice_exec demo_voice) (demo_events @ [Run_Task 0]) (voice_new \<lparr>ui_open = True, ui_events = []\<rparr>)"
    by (simp add: demo_state_def del: voice_exec.simps)
  then have r: "voice_reach demo_voice ?v" using reach_run by metis
  have s: "Send_Signal 0 (''b'', ''offer'', ''sdp'') \<in> set (ve_tasks ?v)" unfolding demo_offered by simp
  from conjunct1 [OF one_side_offers [OF r r]] have "ci_my_device (ve_calls ?v ! 0) < ''b''"
    by (elim allE [where x = 0] allE [where x = "''b''"] allE [where x = "''sdp''"] mp) (rule s)
  with r s show ?thesis by (intro exI [of _ ?v] conjI)
qed

theorem frames_in_order_witness:
  "\<exists>v cl p. voice_reach demo_voice v \<and> ve_call v = Some cl \<and> map_of (ac_peers cl) ''b'' = Some p \<and>
    lk_remote_device (lc_link (ve_cells v ! cp_link p)) = ''b'' \<and>
    subseq (written (lc_link (ve_cells v ! cp_link p))) (take (cp_next p) (ac_frames cl))"
proof -
  have r: "voice_reach demo_voice demo_state" unfolding demo_state_def by (rule reach_run)
  then show ?thesis using frames_in_order [OF r demo_state_facts(1), of "''b''"] demo_state_facts(1)
    by (intro exI [of _ demo_state]) auto
qed

end
