(* ===== verification/Client_Chat.thy ===== *)
theory Client_Chat
  imports Mls_Engine Voice_Engine Auth_Service
begin

text \<open>
  The live session of the desktop client: the message stream and the chat commands of
  \<open>commands/messaging.rs\<close>, and \<open>commands/voice.rs\<close>.

  The state \<open>app\<close> joins the world (client files, session table, servers), the MLS engines (by handle, as
  the sessions share them by reference), the voice engine with the event log, and the outbound channels
  by number: what was queued on each and whether its receiver is gone.  A send on a channel waits when
  its 32 slots are full and fails only when the receiver is gone; waiting is not a step of the model.
  Message ids and the clock are oracles of a run.
\<close>

record app =
  ap_world :: world
  ap_handles :: "(string \<times> nat) list"
  ap_engine :: "nat \<Rightarrow> engine"
  ap_voice :: voice
  ap_queue :: "nat \<Rightarrow> client_payload list"
  ap_closed :: "nat \<Rightarrow> bool"
  ap_channels :: nat
  ap_uuid :: "nat \<Rightarrow> uuid"
  ap_clock :: "nat \<Rightarrow> int"
  ap_ticks :: nat

definition on_world :: "(world, 'e, 'a) act \<Rightarrow> (app, 'e, 'a) act" where
  "on_world = zoom ap_world (\<lambda>w a. a\<lparr>ap_world := w\<rparr>)"

definition on_files :: "(client, 'e, 'a) act \<Rightarrow> (app, 'e, 'a) act" where
  "on_files m = on_world (on_client m)"

definition on_engine :: "nat \<Rightarrow> 'a mlact \<Rightarrow> (app, mls_error, 'a) act" where
  "on_engine h = zoom (\<lambda>a. ap_engine a h) (\<lambda>x a. a\<lparr>ap_engine := (ap_engine a)(h := x)\<rparr>)"

definition persist_engine :: "mls_lib \<Rightarrow> client_ext \<Rightarrow> nat \<Rightarrow> string \<Rightarrow> (app, 'e, unit) act" where
  "persist_engine L X h user_id = bnd (gets (\<lambda>a. ap_engine a h)) (\<lambda>x. on_files (persist L X x user_id))"

definition on_voice :: "(voice \<Rightarrow> voice) \<Rightarrow> (app, 'e, unit) act" where
  "on_voice f = modify (\<lambda>a. a\<lparr>ap_voice := f (ap_voice a)\<rparr>)"

definition app_emit :: "ui_event \<Rightarrow> (app, string, unit) act" where
  "app_emit e = zoom (\<lambda>a. ve_ui (ap_voice a)) (\<lambda>u a. a\<lparr>ap_voice := (ap_voice a)\<lparr>ve_ui := u\<rparr>\<rparr>) (emit e)"

definition sessions_of :: "app \<Rightarrow> sessions" where
  "sessions_of a = w_sessions (ap_world a)"

definition fresh_uuid :: "(app, 'e, uuid) act" where
  "fresh_uuid = (\<lambda>a. (Inr (ap_uuid a (ap_ticks a)), a\<lparr>ap_ticks := Suc (ap_ticks a)\<rparr>))"

definition clock_ms :: "(app, 'e, int) act" where
  "clock_ms = (\<lambda>a. (Inr (ap_clock a (ap_ticks a)), a\<lparr>ap_ticks := Suc (ap_ticks a)\<rparr>))"

definition queue_send :: "nat \<Rightarrow> client_payload \<Rightarrow> (app, string, unit) act" where
  "queue_send tx m = (\<lambda>a. if ap_closed a tx then (Inl ''stream closed'', a)
     else (Inr (), a\<lparr>ap_queue := (ap_queue a)(tx := ap_queue a tx @ [m])\<rparr>))"

section \<open>Incoming messages\<close>

datatype control_flow = Continue | Break

definition break_if_gone :: "(app, string, unit) act \<Rightarrow> app \<Rightarrow> control_flow \<times> app" where
  "break_if_gone m a = (case m a of (Inl e, a') \<Rightarrow> (Break, a') | (Inr _, a') \<Rightarrow> (Continue, a'))"

text \<open>\<open>String::from_utf8_lossy\<close> on ASCII text; a byte that is not ASCII becomes a replacement mark.\<close>

definition from_utf8_lossy :: "bytes \<Rightarrow> string" where
  "from_utf8_lossy bs = map (\<lambda>b. if unat b < 128 then char_of (unat b) else CHR 0xFF) bs"

definition signal_kind :: "int \<Rightarrow> string" where
  "signal_kind k = (if k = 1 then ''offer'' else if k = 2 then ''answer'' else if k = 3 then ''ice'' else ''unknown'')"

fun severity_text :: "severity \<Rightarrow> string" where
  "severity_text Info = ''info''"
| "severity_text Warn = ''warn''"
| "severity_text Hostile = ''hostile''"

definition on_private ::
  "ext \<Rightarrow> mls_lib \<Rightarrow> client_ext \<Rightarrow> string \<Rightarrow> nat \<Rightarrow> string \<Rightarrow> incoming_private \<Rightarrow> app \<Rightarrow> control_flow \<times> app" where
  "on_private E L X server_id h user_id m a =
     (case on_engine h (process_incoming L (mls_id E (iv_group_id m)) (iv_mls_ciphertext m)) a of (decrypted, a) \<Rightarrow>
      let a = snd (persist_engine L X h user_id a :: (string + unit) \<times> app) in
      case decrypted of
        Inr (Application plaintext) \<Rightarrow>
          let timestamp_ms = timestamp_ms_of (iv_timestamp m);
              content = from_utf8_lossy plaintext;
              a = snd (on_files (record_message X user_id (iv_group_id m) (iv_sender_id m) content timestamp_ms) a
                    :: (string + unit) \<times> app)
          in break_if_gone (app_emit (Incoming_Private \<lparr>pm_server_id = server_id, pm_group_id = iv_group_id m,
               pm_sender_id = iv_sender_id m, pm_mine = (iv_sender_id m = user_id), pm_content = content,
               pm_timestamp_ms = timestamp_ms\<rparr>)) a
      | _ \<Rightarrow> (Continue, a))"

definition on_welcome :: "mls_lib \<Rightarrow> client_ext \<Rightarrow> string \<Rightarrow> nat \<Rightarrow> string \<Rightarrow> string \<Rightarrow> bytes \<Rightarrow> app \<Rightarrow> app" where
  "on_welcome L X server_id h user_id group_id welcome a =
     (case on_engine h (join_from_welcome L welcome) a of
        (Inl e, a) \<Rightarrow> a
      | (Inr _, a) \<Rightarrow> snd (app_emit (Joined_Group \<lparr>jg_server_id = server_id, jg_group_id = group_id\<rparr>)
           (snd (persist_engine L X h user_id a :: (string + unit) \<times> app))))"

definition on_commit :: "ext \<Rightarrow> mls_lib \<Rightarrow> client_ext \<Rightarrow> nat \<Rightarrow> string \<Rightarrow> string \<Rightarrow> bytes \<Rightarrow> app \<Rightarrow> app" where
  "on_commit E L X h user_id group_id commit a =
     snd (persist_engine L X h user_id (snd (on_engine h (process_incoming L (mls_id E group_id) commit) a))
       :: (string + unit) \<times> app)"

definition on_participant_msg :: "voice_lib \<Rightarrow> string \<Rightarrow> voice_participant \<Rightarrow> app \<Rightarrow> control_flow \<times> app" where
  "on_participant_msg V server_id p a =
     (let dto = \<lparr>vd_server_id = server_id, vd_group_id = vp_group_id p, vd_user_id = vp_user_id p,
            vd_device_id = vp_device_id p, vd_joined = vp_joined p, vd_muted = vp_muted p,
            vd_camera_on = vp_camera_on p, vd_screen_on = vp_screen_on p, vd_username = vp_username p,
            vd_display_name = vp_display_name p\<rparr>;
          a = a\<lparr>ap_voice := on_participant V server_id (vp_group_id p) (vp_device_id p) (vp_joined p) (ap_voice a)\<rparr>
      in break_if_gone (app_emit (Voice_Participant dto)) a)"

fun handle_server_message ::
  "ext \<Rightarrow> mls_lib \<Rightarrow> client_ext \<Rightarrow> voice_lib \<Rightarrow> string \<Rightarrow> nat \<Rightarrow> string \<Rightarrow> server_message \<Rightarrow> app \<Rightarrow> control_flow \<times> app" where
  "handle_server_message E L X V server_id h user_id (SPublic m) a =
     break_if_gone (app_emit (Incoming_Public ((from_incoming_public m)\<lparr>xd_server_id := server_id\<rparr>))) a"
| "handle_server_message E L X V server_id h user_id (SPrivate m) a = on_private E L X server_id h user_id m a"
| "handle_server_message E L X V server_id h user_id (SWelcome g w) a =
     (Continue, on_welcome L X server_id h user_id g w a)"
| "handle_server_message E L X V server_id h user_id (SCommit g c ep) a = (Continue, on_commit E L X h user_id g c a)"
| "handle_server_message E L X V server_id h user_id (SVoiceParticipant p) a = on_participant_msg V server_id p a"
| "handle_server_message E L X V server_id h user_id (SVoiceSignal s) a =
     (Continue, a\<lparr>ap_voice := on_signal V server_id (case_option [] id (sg_group_id s)) (case_option [] id (sg_from_device s))
        (signal_kind (sg_kind s)) (sg_data s) (ap_voice a)\<rparr>)"
| "handle_server_message E L X V server_id h user_id (SModAlert m) a =
     break_if_gone (app_emit (Mod_Alert \<lparr>mo_server_id = server_id, mo_actor_id = ma_actor_id m, mo_action = ma_action m,
       mo_target = ma_target m, mo_reason = ma_reason m, mo_severity = severity_text (ma_severity m),
       mo_timestamp_ms = timestamp_ms_of (ma_timestamp m)\<rparr>)) a"

section \<open>The stream supervisor\<close>

definition current_token :: "string \<Rightarrow> app \<Rightarrow> string option" where
  "current_token server_id a = Option.bind (map_of (se_map (sessions_of a)) server_id) ss_token"

definition with_session :: "string \<Rightarrow> (session \<Rightarrow> session) \<Rightarrow> app \<Rightarrow> app" where
  "with_session server_id f a = a\<lparr>ap_world := (ap_world a)\<lparr>w_sessions :=
     (sessions_of a)\<lparr>se_map := AList.map_entry server_id f (se_map (sessions_of a))\<rparr>\<rparr>\<rparr>"

definition refresh_access_token :: "ext \<Rightarrow> string \<Rightarrow> nat \<Rightarrow> app \<Rightarrow> app" where
  "refresh_access_token E server_id ch a =
     (case Option.bind (map_of (se_map (sessions_of a)) server_id) ss_refresh_token of
        None \<Rightarrow> a
      | Some refresh \<Rightarrow>
        (case on_world (remote ch (refresh_token E refresh)) a of
           (Inl e, a) \<Rightarrow> a
         | (Inr (access, rotated), a) \<Rightarrow> with_session server_id (\<lambda>s. s\<lparr>ss_token := Some access,
               ss_refresh_token := (if rotated \<noteq> [] then Some rotated else ss_refresh_token s)\<rparr>) a))"

text \<open>The inner loop: messages until the stream ends; \<open>True\<close> when the webview went away.\<close>

fun read_stream ::
  "(server_message \<Rightarrow> app \<Rightarrow> control_flow \<times> app) \<Rightarrow> server_message list \<Rightarrow> app \<Rightarrow> bool \<times> app" where
  "read_stream handle [] a = (False, a)"
| "read_stream handle (m # ms) a = (case handle m a of (Break, a) \<Rightarrow> (True, a) | (Continue, a) \<Rightarrow> read_stream handle ms a)"

datatype turn = Retry_In nat | Stopped

definition backoff_secs :: "32 word \<Rightarrow> nat" where
  "backoff_secs attempt = min (2 ^ unat (min attempt 5)) 30"

text \<open>\<open>saturating_add\<close> on \<open>u32\<close>.\<close>

definition next_attempt :: "32 word \<Rightarrow> 32 word" where
  "next_attempt n = (if n = - 1 then n else n + 1)"

text \<open>
  One turn of the supervisor's loop, up to its next sleep.  \<open>inbound\<close> is what the stream carries before
  it ends.  The receiving end of the outbound channel goes with the request, so it is gone when the turn
  is over.
\<close>

definition open_channel :: "string \<Rightarrow> app \<Rightarrow> nat \<times> app" where
  "open_channel server_id a = (ap_channels a,
     with_session server_id (\<lambda>s. s\<lparr>ss_outbound := Some (ap_channels a)\<rparr>) (a\<lparr>ap_channels := Suc (ap_channels a)\<rparr>))"

definition status_event :: "string \<Rightarrow> bool \<Rightarrow> app \<Rightarrow> app" where
  "status_event server_id up a =
     snd (app_emit (Connection_Status \<lparr>cs_server_id = server_id, cs_connected = up\<rparr>) a)"

definition supervisor_turn ::
  "ext \<Rightarrow> mls_lib \<Rightarrow> client_ext \<Rightarrow> voice_lib \<Rightarrow> string \<Rightarrow> nat \<Rightarrow> string \<Rightarrow> nat \<Rightarrow> server_message list \<Rightarrow> 32 word \<Rightarrow> app \<Rightarrow>
    turn \<times> 32 word \<times> app" where
  "supervisor_turn E L X V server_id ch user_id h inbound attempt a =
     (case current_token server_id a of
        None \<Rightarrow> (Retry_In 2, attempt, a)
      | Some token \<Rightarrow>
        (case open_channel server_id a of (tx, a) \<Rightarrow>
         let gone = (\<lambda>a. a\<lparr>ap_closed := (ap_closed a)(tx := True)\<rparr>);
             retry = (\<lambda>attempt a. (Retry_In (backoff_secs (next_attempt attempt)), next_attempt attempt,
               status_event server_id False (gone a)))
         in case authed X token of
              Inl e \<Rightarrow> (Stopped, attempt, gone a)
            | Inr meta \<Rightarrow>
              (case on_world (remote ch (message_stream E meta)) a of
                 (Inl st, a) \<Rightarrow> retry attempt (if status_code st = Some CodeUnauthenticated then refresh_access_token E server_id ch a else a)
               | (Inr _, a) \<Rightarrow>
                   (case read_stream (handle_server_message E L X V server_id h user_id) inbound
                           (status_event server_id True a) of
                      (True, a) \<Rightarrow> (Stopped, 0, gone a)
                    | (False, a) \<Rightarrow> retry 0 a))))"

section \<open>Commands\<close>

definition active_outbound :: "app \<Rightarrow> string + nat" where
  "active_outbound a = (case Option.bind (sessions_active (sessions_of a)) ss_outbound of
     None \<Rightarrow> Inl ''message stream is not open'' | Some tx \<Rightarrow> Inr tx)"

definition send_public_cmd :: "ext \<Rightarrow> string \<Rightarrow> string \<Rightarrow> (app, string, unit) act" where
  "send_public_cmd E group_id content =
     bnd (gets active_outbound) (\<lambda>r.
     bnd (of_res r) (\<lambda>tx.
     bnd fresh_uuid (\<lambda>u.
     queue_send tx (CPublic \<lparr>sp_group_id = Some group_id, sp_content = content,
       sp_client_message_id = Some (to_str E u)\<rparr>))))"

definition chat_session :: "app \<Rightarrow> string + nat \<times> nat \<times> string" where
  "chat_session a = (case sessions_active (sessions_of a) of
      None \<Rightarrow> Inl ''not connected''
    | Some s \<Rightarrow> (case Option.bind (se_active (sessions_of a)) (map_of (ap_handles a)) of
        None \<Rightarrow> Inl ''MLS engine not initialized''
      | Some h \<Rightarrow> (case ss_outbound s of
          None \<Rightarrow> Inl ''message stream is not open''
        | Some tx \<Rightarrow> Inr (h, tx, case_option [] id (ss_user_id s)))))"

definition send_private_cmd ::
  "ext \<Rightarrow> mls_lib \<Rightarrow> client_ext \<Rightarrow> string \<Rightarrow> string \<Rightarrow> (app, string, unit) act" where
  "send_private_cmd E L X group_id content =
     bnd (gets chat_session) (\<lambda>r.
     bnd (of_res r) (\<lambda>(h, tx, user_id).
     bnd (map_err mls_error_display (on_engine h (encrypt L (mls_id E group_id) (ascii content)))) (\<lambda>ciphertext.
     bnd (persist_engine L X h user_id) (\<lambda>_.
     bnd clock_ms (\<lambda>now_ms.
     bnd (on_files (record_message X user_id group_id user_id content now_ms)) (\<lambda>_.
     bnd fresh_uuid (\<lambda>u.
     queue_send tx (CPrivate \<lparr>sv_group_id = Some group_id, sv_mls_ciphertext = ciphertext, sv_epoch = 0,
       sv_client_message_id = Some (to_str E u)\<rparr>))))))))"

definition history_slot ::
  "client_ext \<Rightarrow> string \<Rightarrow> string \<Rightarrow> raw_entry \<Rightarrow> (client, string, (history_entry \<times> (string \<times> bytes) list) option) act" where
  "history_slot X server_id user_id r =
     (if re_flag r = 0 then
        bnd (decode_entry X (re_flag r) (re_payload r)) (\<lambda>m.
        ret (map_option (\<lambda>m. (\<lparr>he_id = re_id r, he_message = Some (to_private_dto m server_id user_id)\<rparr>, [])) m))
      else ret (Some (\<lparr>he_id = re_id r, he_message = None\<rparr>, [(re_id r, re_payload r)])))"

definition decrypt_slot :: "client_ext \<Rightarrow> string \<Rightarrow> string \<Rightarrow> string \<times> bytes \<Rightarrow> (app, string, unit) act" where
  "decrypt_slot X server_id user_id = (\<lambda>(i, payload).
     bnd (on_files (decode_entry X 1 payload)) (\<lambda>m.
     case m of None \<Rightarrow> ret ()
     | Some m \<Rightarrow> or_else () (app_emit (History_Decrypted \<lparr>dh_id = i, dh_message = to_private_dto m server_id user_id\<rparr>))))"

text \<open>The spawned decryption task runs to its end after the entries are collected.\<close>

definition fetch_private_history ::
  "client_ext \<Rightarrow> string \<Rightarrow> nat option \<Rightarrow> (app, string, history_entry list) act" where
  "fetch_private_history X group_id limit =
     bnd (gets sessions_of) (\<lambda>ss.
     let server_id = case_option [] id (se_active ss);
         user_id = case_option [] id (Option.bind (sessions_active ss) ss_user_id) in
     bnd (on_files (tail_raw user_id group_id (case_option 200 id limit))) (\<lambda>raws.
     bnd (on_files (map_each (history_slot X server_id user_id) raws)) (\<lambda>slots.
     let kept = List.map_filter id slots in
     bnd (for_each (decrypt_slot X server_id user_id) (concat (map snd kept))) (\<lambda>_.
     ret (map fst kept)))))"

section \<open>commands/voice.rs\<close>

definition active_server_id :: "app \<Rightarrow> string + string" where
  "active_server_id a = (case se_active (sessions_of a) of None \<Rightarrow> Inl ''not connected to a server'' | Some i \<Rightarrow> Inr i)"

definition send_state :: "string \<Rightarrow> string \<Rightarrow> bool \<Rightarrow> bool \<Rightarrow> bool \<Rightarrow> bool \<Rightarrow> (app, string, unit) act" where
  "send_state server_id group_id joined mute camera_on screen_on =
     bnd (gets (\<lambda>a. outbound_for server_id (sessions_of a))) (\<lambda>o'.
     bnd (some_or ''message stream is not open'' o') (\<lambda>tx.
     queue_send tx (CVoiceState \<lparr>vu_group_id = Some group_id, vu_joined = joined, vu_muted = mute,
       vu_camera_on = camera_on, vu_screen_on = screen_on\<rparr>)))"

definition in_voice_engine :: "(voice, string, 'a) act \<Rightarrow> (app, string, 'a) act" where
  "in_voice_engine = zoom ap_voice (\<lambda>v a. a\<lparr>ap_voice := v\<rparr>)"

definition join_voice :: "voice_lib \<Rightarrow> host \<Rightarrow> string \<Rightarrow> string \<Rightarrow> (app, string, unit) act" where
  "join_voice V h group_id device_id =
     bnd (gets active_server_id) (\<lambda>r.
     bnd (of_res r) (\<lambda>server_id.
     bnd (in_voice_engine (join_call V h server_id group_id device_id)) (\<lambda>_.
     (\<lambda>a. case send_state server_id group_id True False False False a of
        (Inl e, a) \<Rightarrow> (Inl e, snd (on_voice (leave V) a :: (string + unit) \<times> app))
      | (Inr _, a) \<Rightarrow> (Inr (), a)))))"

definition leave_voice :: "voice_lib \<Rightarrow> string \<Rightarrow> (app, string, unit) act" where
  "leave_voice V group_id =
     bnd (gets active_server_id) (\<lambda>r.
     bnd (of_res r) (\<lambda>server_id.
     bnd (on_voice (leave V)) (\<lambda>_.
     send_state server_id group_id False False False False)))"

definition set_voice_state :: "string \<Rightarrow> bool \<Rightarrow> bool \<Rightarrow> bool \<Rightarrow> (app, string, unit) act" where
  "set_voice_state group_id mute camera_on screen_on =
     bnd (gets active_server_id) (\<lambda>r.
     bnd (of_res r) (\<lambda>server_id.
     send_state server_id group_id True mute camera_on screen_on))"

text \<open>The commands that only drive the engine.\<close>

definition set_voice_muted :: "bool \<Rightarrow> (app, string, unit) act" where
  "set_voice_muted b = on_voice (engine_set_muted b)"

definition set_voice_deafened :: "bool \<Rightarrow> (app, string, unit) act" where
  "set_voice_deafened b = on_voice (engine_set_deafened b)"

definition set_voice_prefs :: "voice_prefs \<Rightarrow> (app, string, unit) act" where
  "set_voice_prefs p = on_voice (set_prefs p)"

definition start_ringtone :: "voice_lib \<Rightarrow> host \<Rightarrow> (app, string, unit) act" where
  "start_ringtone V h = in_voice_engine (start_ring V h)"

definition stop_ringtone :: "(app, string, unit) act" where
  "stop_ringtone = on_voice stop_ring"

definition preview_ringtone :: "voice_lib \<Rightarrow> host \<Rightarrow> string \<Rightarrow> (app, string, unit) act" where
  "preview_ringtone V h i = in_voice_engine (preview_ring V h i)"

definition cmd_start_mic_test :: "voice_lib \<Rightarrow> host \<Rightarrow> (app, string, unit) act" where
  "cmd_start_mic_test V h = in_voice_engine (start_mic_test V h)"

definition cmd_stop_mic_test :: "(app, string, unit) act" where
  "cmd_stop_mic_test = on_voice stop_mic_test"

text \<open>\<open>SessionSignaler::send\<close>: the envelope goes to the session that hosts the call.\<close>

definition kind_code :: "string \<Rightarrow> int" where
  "kind_code k = (if k = ''offer'' then 1 else if k = ''answer'' then 2 else if k = ''ice'' then 3 else 0)"

definition relay_signal :: "nat \<Rightarrow> envelope \<Rightarrow> (app, string, unit) act" where
  "relay_signal c = (\<lambda>(device, kind, payload).
     bnd (gets (\<lambda>a. ve_calls (ap_voice a) ! c)) (\<lambda>i.
     bnd (gets (\<lambda>a. outbound_for (ci_server_id i) (sessions_of a))) (\<lambda>o'.
     case o' of None \<Rightarrow> ret ()
     | Some tx \<Rightarrow> or_else () (queue_send tx (CVoiceSignal \<lparr>sg_group_id = Some (ci_group_id i),
         sg_target_device = Some device, sg_from_device = None, sg_kind = kind_code kind, sg_data = ascii payload\<rparr>)))))"

section \<open>Facts on the steps\<close>

abbreviation files_of :: "app \<Rightarrow> client" where
  "files_of a \<equiv> w_client (ap_world a)"

abbreviation events_of :: "app \<Rightarrow> ui_event list" where
  "events_of a \<equiv> ui_events (ve_ui (ap_voice a))"

definition put_files :: "client \<Rightarrow> app \<Rightarrow> app" where
  "put_files c a = a\<lparr>ap_world := (ap_world a)\<lparr>w_client := c\<rparr>\<rparr>"

lemma put_files_simps [simp]:
  "files_of (put_files c a) = c" "ap_voice (put_files c a) = ap_voice a" "ap_engine (put_files c a) = ap_engine a"
  "ap_queue (put_files c a) = ap_queue a" "ap_closed (put_files c a) = ap_closed a" "sessions_of (put_files c a) = sessions_of a"
  "ap_handles (put_files c a) = ap_handles a"
  by (simp_all add: put_files_def sessions_of_def)

lemma on_files_run: "on_files m a = (fst (m (files_of a)), put_files (snd (m (files_of a))) a)"
  by (simp add: on_files_def on_world_def on_client_def zoom_def put_files_def split: prod.splits)

lemma on_engine_run:
  "m (ap_engine a h) = (r, x) \<Longrightarrow> on_engine h m a = (r, a\<lparr>ap_engine := (ap_engine a)(h := x)\<rparr>)"
  by (simp add: on_engine_def zoom_def)

lemma persist_total: "fst (persist L X x u c :: (string + unit) \<times> client) = Inr ()"
  by (simp add: persist_def bnd_def or_else_def ret_def mark_mls_def modify_def split: sum.splits prod.splits option.splits)

lemma record_total: "fst (record_message X u g s t ts c :: (string + unit) \<times> client) = Inr ()"
  by (simp add: record_message_def Let_def bnd_def or_else_def mark_group_def modify_def split: prod.splits)

lemma persist_engine_run:
  "(persist_engine L X h u a :: (string + unit) \<times> app) =
     (Inr (), put_files (snd (persist L X (ap_engine a h) u (files_of a) :: (string + unit) \<times> client)) a)"
  by (simp add: persist_engine_def bnd_gets on_files_run persist_total)

lemma record_run:
  "(on_files (record_message X u (am_group_id m) (am_sender_id m) (am_content m) (am_timestamp_ms m)) a :: (string + unit) \<times> app) =
     (Inr (), put_files (append_message X u m (files_of a)) a)"
  by (simp add: on_files_run record_total append_message_def)

lemma emit_run:
  "ui_open (ve_ui (ap_voice a)) \<Longrightarrow> app_emit e a = (Inr (), a\<lparr>ap_voice := (ap_voice a)\<lparr>ve_ui := (ve_ui (ap_voice a))
     \<lparr>ui_events := events_of a @ [e]\<rparr>\<rparr>\<rparr>)"
  by (simp add: app_emit_def zoom_def emit_def)

text \<open>Persisting the engine touches its own file and the upload marks only.\<close>

definition only_file :: "path \<Rightarrow> client \<Rightarrow> client \<Rightarrow> bool" where
  "only_file p c c' \<longleftrightarrow> c_fault c' = c_fault c \<and> c_settings c' = c_settings c \<and> c_dek c' = c_dek c \<and>
     (\<forall>q. q \<noteq> p \<longrightarrow> map_of (c_files c') q = map_of (c_files c) q)"

interpretation only_file: effect_order "only_file p" for p
  by unfold_locales (auto simp: only_file_def)

lemma only_file_write: "effect (only_file p) (write_file p bs)"
  by (auto simp: effect_def only_file_def write_file_def put_file_def update_conv' split: option.splits io_fault.splits)

lemma only_file_mark: "effect (only_file p) (mark_mls u bs)"
  by (auto simp: effect_def only_file_def mark_mls_def modify_def)

lemma only_file_dir: "effect (only_file p) (make_dir d)"
  by (auto simp: effect_def only_file_def make_dir_def split: option.splits)

lemma persist_only:
  assumes "unlocked k c"
  shows "only_file (mls_file u) c (snd (persist L X x u c :: (string + unit) \<times> client))"
proof (cases "serialize L x")
  case (Inl e)
  then show ?thesis by (simp add: persist_def ret_def only_file_def)
next
  case (Inr bs)
  let ?c = "snd (or_else None (bnd (seal_bytes X bs) (\<lambda>b. ret (Some b))) c :: (string + bytes option) \<times> client)"
  have s: "?c = c\<lparr>c_rng := snd (seal (cx_prims X) k bs (c_rng c))\<rparr>"
    using seal_bytes_snd [OF assms, of X bs]
    by (cases "seal_bytes X bs c") (auto simp: or_else_def bnd_def ret_def split: sum.splits)
  then have 1: "only_file (mls_file u) c ?c" by (simp add: only_file_def)
  have p: "(or_else None (bnd (mls_path u) (\<lambda>p. ret (Some p))) c :: (string + path option) \<times> client) =
      (Inr (if c_fault c [''mls''] = None then Some (mls_file u) else None), c)"
    by (simp add: mls_path_def make_dir_def or_else_def bnd_def ret_def split: option.splits)
  let ?rest = "\<lambda>p blob. bnd (case (p, blob) of (Some p, Some blob) \<Rightarrow> or_else () (write_file p blob) | _ \<Rightarrow> ret ())
    (\<lambda>_. mark_mls u bs) :: (client, string, unit) act"
  have 2: "effect (only_file (mls_file u)) (?rest (if b then Some (mls_file u) else None) blob)" for b blob
    by (cases b; cases blob) (auto intro!: only_file.eff_rules only_file_write only_file_mark)
  obtain blob where b: "(or_else None (bnd (seal_bytes X bs) (\<lambda>b. ret (Some b))) c :: (string + bytes option) \<times> client) = (Inr blob, ?c)"
    by (cases "or_else None (bnd (seal_bytes X bs) (\<lambda>b. ret (Some b))) c :: (string + bytes option) \<times> client")
      (auto simp: or_else_def split: prod.splits)
  have "persist L X x u c = ?rest (if c_fault c [''mls''] = None then Some (mls_file u) else None) blob ?c"
    unfolding persist_def Inr sum.case 
    by (simp only: bnd_runs(1) [of "or_else None (bnd (mls_path u) (\<lambda>p. ret (Some p)))" c, OF p]
        bnd_runs(1) [of "or_else None (bnd (seal_bytes X bs) (\<lambda>b. ret (Some b)))" c, OF b])
  then show ?thesis using 1 2 [of "c_fault c [''mls''] = None" blob] only_file.eff_trans
    by (simp add: effect_def)
qed

lemma dmlog_not_mls: "dmlog u g \<noteq> mls_file v"
  by simp

lemma only_file_archive:
  assumes "only_file (mls_file v) c c'"
  shows "unlocked k c' = unlocked k c" "archived u g rs c' = archived u g rs c" "is_encrypt_at_rest c' = is_encrypt_at_rest c"
  using assms dmlog_not_mls
  by (simp_all add: only_file_def unlocked_def archived_def no_faults_def file_or_empty_def is_encrypt_at_rest_def)

section \<open>A private message from one device to another\<close>

definition is_ascii :: "string \<Rightarrow> bool" where
  "is_ascii s \<longleftrightarrow> list_all (\<lambda>c. (of_char c :: nat) < 128) s"

lemma lossy_ascii: "is_ascii s \<Longrightarrow> from_utf8_lossy (ascii s) = s"
  by (induction s) (simp_all add: from_utf8_lossy_def ascii_def is_ascii_def unat_of_nat)

text \<open>
  What OpenMLS promises to two members of a group: a message the one encrypts, the other decrypts.
\<close>

definition in_sync :: "mls_lib \<Rightarrow> bytes \<Rightarrow> engine \<Rightarrow> engine \<Rightarrow> bool" where
  "in_sync L g x y \<longleftrightarrow> (\<forall>p ct x'. encrypt L g p x = (Inr ct, x') \<longrightarrow>
     (\<exists>y'. process_incoming L g ct y = (Inr (Application p), y')))"

text \<open>A device ready to archive one message of a group.\<close>

definition can_archive :: "client_ext \<Rightarrow> bytes \<Rightarrow> string \<Rightarrow> (byte \<times> bytes) list \<Rightarrow> archived_message \<Rightarrow> client \<Rightarrow> bool" where
  "can_archive X k u rs m c \<longleftrightarrow> aead_exact (cx_prims X) \<and> json_law X \<and> unlocked k c \<and> archivable X k m \<and>
     archived u (am_group_id m) rs c"

text \<open>The message is archived: everything before, then it; sealed if somebody else sent it.\<close>

definition archived_one :: "client_ext \<Rightarrow> bytes \<Rightarrow> string \<Rightarrow> (byte \<times> bytes) list \<Rightarrow> archived_message \<Rightarrow> client \<Rightarrow> bool" where
  "archived_one X k u rs m c \<longleftrightarrow>
     (fst (load X u (am_group_id m) c) :: string + archived_message list) = Inr (List.map_filter (message_of X k) rs @ [m]) \<and>
     (\<exists>r. read_records (dmlog u (am_group_id m)) c = rs @ [r] \<and> (am_sender_id m \<noteq> u \<longrightarrow> sealed_record X k m r))"

lemma archives:
  assumes "can_archive X k u rs m c"
  shows "archived_one X k u rs m (append_message X u m (snd (persist L X x v c :: (string + unit) \<times> client)))"
proof -
  let ?c = "snd (persist L X x v c :: (string + unit) \<times> client)"
  have a: "aead_exact (cx_prims X)" "json_law X" "archivable X k m" "unlocked k c" "archived u (am_group_id m) rs c"
    using assms by (simp_all add: can_archive_def)
  have c: "unlocked k ?c" "archived u (am_group_id m) rs ?c"
    using only_file_archive [OF persist_only [OF a(4)]] a(4,5) by simp_all
  obtain r where r: "good_record X k u (is_encrypt_at_rest ?c) m r"
    "archived u (am_group_id m) (rs @ [r]) (append_message X u m ?c)" "unlocked k (append_message X u m ?c)"
    using append_good [OF c(1) a(1-3) c(2)] by metis
  have "List.map_filter (message_of X k) [r] = [m]" using r(1) by (simp add: good_record_def List.map_filter_simps)
  moreover have "(load X u (am_group_id m) (append_message X u m ?c) :: (string + archived_message list) \<times> client) =
      (Inr (List.map_filter (message_of X k) (rs @ [r])), append_message X u m ?c)"
    by (rule archived_load [OF r(3,2)])
  ultimately show ?thesis unfolding archived_one_def
    using archived_records [OF r(2)] r(1) by (auto simp: map_filter_append good_record_def)
qed

lemma private_received:
  assumes dec: "process_incoming L (mls_id E (iv_group_id m)) (iv_mls_ciphertext m) (ap_engine b h) =
      (Inr (Application (ascii content)), y)"
    and "is_ascii content" "ui_open (ve_ui (ap_voice b))"
    and msg: "am = \<lparr>am_group_id = iv_group_id m, am_sender_id = iv_sender_id m, am_content = content,
      am_timestamp_ms = timestamp_ms_of (iv_timestamp m)\<rparr>"
    and arch: "can_archive X k u rs am (files_of b)"
  shows "\<exists>b'. on_private E L X s h u m b = (Continue, b') \<and> ap_engine b' = (ap_engine b)(h := y) \<and>
    events_of b' = events_of b @ [Incoming_Private (to_private_dto am s u)] \<and> archived_one X k u rs am (files_of b')"
proof -
  let ?b = "b\<lparr>ap_engine := (ap_engine b)(h := y)\<rparr>"
  let ?c = "append_message X u am (snd (persist L X y u (files_of b) :: (string + unit) \<times> client))"
  have r: "on_files (record_message X u (iv_group_id m) (iv_sender_id m) content (timestamp_ms_of (iv_timestamp m)))
      (put_files (snd (persist L X y u (files_of b) :: (string + unit) \<times> client)) ?b) =
      (Inr () :: string + unit, put_files ?c (put_files (snd (persist L X y u (files_of b) :: (string + unit) \<times> client)) ?b))"
    using record_run [of X u am "put_files (snd (persist L X y u (files_of b) :: (string + unit) \<times> client)) ?b"] by (simp add: msg)
  show ?thesis using archives [OF arch, of L y u] assms(3) r
    by (simp add: on_private_def on_engine_run [of "process_incoming L (mls_id E (iv_group_id m)) (iv_mls_ciphertext m)", OF dec]
        persist_engine_run lossy_ascii [OF assms(2)] break_if_gone_def
        emit_run to_private_dto_def msg Let_def)
qed

lemma private_sent:
  assumes ses: "chat_session a = Inr (h, tx, u)" and "\<not> ap_closed a tx"
    and enc: "encrypt L (mls_id E g) (ascii content) (ap_engine a h) = (Inr ct, x)"
    and msg: "am = \<lparr>am_group_id = g, am_sender_id = u, am_content = content, am_timestamp_ms = ap_clock a (ap_ticks a)\<rparr>"
    and arch: "can_archive X k u rs am (files_of a)"
  shows "\<exists>a'. send_private_cmd E L X g content a = (Inr (), a') \<and> ap_engine a' = (ap_engine a)(h := x) \<and>
    ap_queue a' = (ap_queue a)(tx := ap_queue a tx @ [CPrivate \<lparr>sv_group_id = Some g, sv_mls_ciphertext = ct, sv_epoch = 0,
      sv_client_message_id = Some (to_str E (ap_uuid a (Suc (ap_ticks a))))\<rparr>]) \<and>
    archived_one X k u rs am (files_of a')"
proof -
  let ?a = "a\<lparr>ap_engine := (ap_engine a)(h := x)\<rparr>"
  let ?c = "snd (persist L X x u (files_of a) :: (string + unit) \<times> client)"
  let ?a1 = "put_files ?c ?a\<lparr>ap_ticks := Suc (ap_ticks a)\<rparr>"
  have e: "map_err mls_error_display (on_engine h (encrypt L (mls_id E g) (ascii content))) a = (Inr ct, ?a)"
    by (simp add: map_err_def on_engine_run [of "encrypt L (mls_id E g) (ascii content)", OF enc])
  have p: "persist_engine L X h u ?a = (Inr () :: string + unit, put_files ?c ?a)" by (simp add: persist_engine_run)
  have t: "clock_ms (put_files ?c ?a) = (Inr (ap_clock a (ap_ticks a)) :: string + int, ?a1)"
    by (simp add: clock_ms_def put_files_def)
  have r: "on_files (record_message X u g u content (ap_clock a (ap_ticks a))) ?a1 =
      (Inr () :: string + unit, put_files (append_message X u am ?c) ?a1)"
    using record_run [of X u am ?a1] by (simp add: msg put_files_def)
  have "send_private_cmd E L X g content a = (Inr (),
      (put_files (append_message X u am ?c) ?a1)\<lparr>ap_ticks := Suc (Suc (ap_ticks a)),
        ap_queue := (ap_queue a)(tx := ap_queue a tx @ [CPrivate \<lparr>sv_group_id = Some g, sv_mls_ciphertext = ct, sv_epoch = 0,
          sv_client_message_id = Some (to_str E (ap_uuid a (Suc (ap_ticks a))))\<rparr>])\<rparr>)"
    unfolding send_private_cmd_def using assms(2)
    by (simp add: run_simps ses bnd_of_res bnd_def [of "map_err _ _"] e bnd_def [of "persist_engine _ _ _ _"] p
        bnd_def [of clock_ms] t bnd_def [of "on_files _"] r)
      (simp add: bnd_def fresh_uuid_def queue_send_def put_files_def)
  then show ?thesis using archives [OF arch, of L x u] by (simp add: put_files_def)
qed


section \<open>Two concrete devices\<close>

definition demo_app :: app where
  "demo_app = \<lparr>ap_world = demo_world\<lparr>w_client := demo_client, w_sessions := \<lparr>se_map = [(''home'', demo_session\<lparr>ss_outbound := Some 5\<rparr>)],
       se_active = Some ''home''\<rparr>\<rparr>,
     ap_handles = [(''home'', 0)], ap_engine = (\<lambda>h. demo_engine), ap_voice = voice_new \<lparr>ui_open = True, ui_events = []\<rparr>,
     ap_queue = (\<lambda>_. []), ap_closed = (\<lambda>_. False), ap_channels = 6, ap_uuid = (\<lambda>n. 1), ap_clock = (\<lambda>n. 2), ap_ticks = 0\<rparr>"

definition demo_incoming :: incoming_private where
  "demo_incoming = \<lparr>iv_group_id = ''g'', iv_sender_id = ''me'', iv_mls_ciphertext = ascii ''yo'', iv_epoch = 0,
     iv_timestamp = \<lparr>ts_seconds = 0, ts_nanos = 2000000\<rparr>, iv_sequence_number = 1\<rparr>"

lemma demo_mls:
  "encrypt demo_lib g p x = (Inr p, x)" "process_incoming demo_lib g p x = (Inr (Application p), x)"
  by (simp_all add: encrypt_def process_incoming_def load_group_def pure_op_def on_store_def act_defs demo_lib_def)

lemma demo_archives: "can_archive demo_cext demo_key u [] demo_sent demo_client"
  using demo_client_facts
  by (simp add: can_archive_def archived_def no_faults_def demo_client_def file_or_empty_def short_records_def)


end
