(* ===== verification/Client_Node.thy ===== *)
theory Client_Node
  imports Client_Local Server_Startup
begin

text \<open>
  The desktop client as a node of the network: the state that \<open>hosting.rs\<close>, \<open>taverns.rs\<close> and \<open>mesh.rs\<close>
  keep beside the files of \<open>Client_Local\<close>, and the peer selection of \<open>peers.rs\<close>.

  What the operating system and the network answer is the record \<open>os\<close>; each question takes one tick, so a
  later question may be answered otherwise.  A server task is a number; \<open>n_tasks\<close> holds the embedded
  servers that run, with their configuration.
\<close>

record local_server =
  ls_shutdown :: "nat option"
  ls_handle :: "nat option"
  ls_starting :: bool
  ls_addr :: "string option"
  ls_host :: "string option"
  ls_port :: "16 word option"
  ls_private :: bool
  ls_cert :: "string option"

record running_tavern =
  rt_shutdown :: "nat option"
  rt_handle :: nat
  rt_port :: "16 word"

record mesh_state =
  mh_core :: bool
  mh_tun :: bool
  mh_address :: "string option"
  mh_current_peers :: "string list"
  mh_starting :: bool
  mh_watchdog_gen :: "64 word"

record mesh_status =
  mt_running :: bool
  mt_address :: "string option"
  mt_available :: bool
  mt_enabled :: bool

datatype node_event =
    Dev_Server bool "string option"
  | Dev_Mesh mesh_status
  | Mesh_Connect_Status string string
  | Friends_Changed
  | Dms_Changed

datatype task_signal = Task_Failed string | Task_Closed | Task_Silent

datatype tun_outcome = Tun_Up | Tun_Error string | Tun_Crashed string | Tun_Timeout

record os =
  os_mesh :: bool
  os_bind4 :: "nat \<Rightarrow> 16 word \<Rightarrow> bool"
  os_bind6 :: "nat \<Rightarrow> 16 word \<Rightarrow> string option"
  os_signal :: "nat \<Rightarrow> task_signal"
  os_connect :: "nat \<Rightarrow> 16 word \<Rightarrow> bool"
  os_lan_ip :: "nat \<Rightarrow> string option"
  os_self_signed :: "nat \<Rightarrow> string + string \<times> string"
  os_uuid :: "nat \<Rightarrow> string"
  os_env_peers :: "string option"
  os_utc_offset :: "nat \<Rightarrow> int"
  os_http :: "nat \<Rightarrow> string option"
  os_listing :: "nat \<Rightarrow> string \<Rightarrow> string option list option"
  os_page :: "nat \<Rightarrow> string \<Rightarrow> string option"
  os_probe :: "nat \<Rightarrow> string \<Rightarrow> nat option"
  os_tun :: "nat \<Rightarrow> tun_outcome"
  os_mesh_address :: "bytes \<Rightarrow> string"

record node =
  n_client :: client
  n_local :: local_server
  n_taverns :: "(string \<times> running_tavern) list"
  n_mesh :: mesh_state
  n_tasks :: "(nat \<times> server_config) list"
  n_events :: "node_event list"
  n_os :: os
  n_ticks :: nat

type_synonym 'a noact = "(node, string, 'a) act"

definition ask :: "(os \<Rightarrow> nat \<Rightarrow> 'a) \<Rightarrow> (node, 'e, 'a) act" where
  "ask q = (\<lambda>n. (Inr (q (n_os n) (n_ticks n)), n\<lparr>n_ticks := Suc (n_ticks n)\<rparr>))"

definition on_disk :: "(client, 'e, 'a) act \<Rightarrow> (node, 'e, 'a) act" where
  "on_disk = zoom n_client (\<lambda>c n. n\<lparr>n_client := c\<rparr>)"

definition node_emit :: "node_event \<Rightarrow> (node, 'e, unit) act" where
  "node_emit e = modify (\<lambda>n. n\<lparr>n_events := n_events n @ [e]\<rparr>)"

definition attempt :: "('s, 'e, 'a) act \<Rightarrow> ('s, 'f, 'e + 'a) act" where
  "attempt m = (\<lambda>s. case m s of (r, t) \<Rightarrow> (Inr r, t))"

section \<open>peers.rs\<close>

definition AUTHORIZED_PEERS :: "string list" where "AUTHORIZED_PEERS = []"

definition PEERS_API :: string where
  "PEERS_API = ''https://api.github.com/repos/yggdrasil-network/public-peers/contents''"

definition ALL_REGIONS :: "string list" where
  "ALL_REGIONS = [''africa'', ''asia'', ''australia'', ''europe'', ''mena'', ''north-america'', ''south-america'']"

definition SELECT_COUNT :: nat where "SELECT_COUNT = 4"

definition PEER_CACHE_FILE :: string where "PEER_CACHE_FILE = ''public-peers-cache.txt''"

text \<open>\<open>str::lines\<close>: the pieces between newlines, the last one only if it is not empty, each without a final carriage
  return.\<close>

definition strip_cr :: "string \<Rightarrow> string" where
  "strip_cr l = (if l \<noteq> [] \<and> last l = CHR 0x0D then butlast l else l)"

fun lines_acc :: "string \<Rightarrow> string \<Rightarrow> string list" where
  "lines_acc acc [] = (if acc = [] then [] else [acc])"
| "lines_acc acc (c # cs) = (if c = CHR 0x0A then strip_cr acc # lines_acc [] cs else lines_acc (acc @ [c]) cs)"

definition lines :: "string \<Rightarrow> string list" where
  "lines s = lines_acc [] s"

definition read_to_string :: "path \<Rightarrow> client \<Rightarrow> string option" where
  "read_to_string p c = Option.bind (read_file p c) text_of"

definition read_cached_peers :: "path option \<Rightarrow> client \<Rightarrow> string list" where
  "read_cached_peers cache_dir c = (case cache_dir of None \<Rightarrow> []
     | Some dir \<Rightarrow> (case read_to_string (dir @ [PEER_CACHE_FILE]) c of
         Some text \<Rightarrow> filter (\<lambda>l. l \<noteq> []) (map trim (lines text))
       | None \<Rightarrow> []))"

definition write_cached_peers :: "path option \<Rightarrow> string list \<Rightarrow> (client, 'e, unit) act" where
  "write_cached_peers cache_dir peers = (case cache_dir of None \<Rightarrow> ret ()
     | Some dir \<Rightarrow> or_else () (write_file (dir @ [PEER_CACHE_FILE]) (ascii (join_with [CHR 0x0A] peers))))"

text \<open>Integer division truncates: an offset of minus 90 minutes is hour minus one.\<close>

definition regions_for_offset :: "int \<Rightarrow> string list" where
  "regions_for_offset secs =
     (let h = (if secs < 0 then - (- secs div 3600) else secs div 3600) in
      if - 12 \<le> h \<and> h \<le> - 3 then [''north-america'', ''south-america'']
      else if - 2 \<le> h \<and> h \<le> 2 then [''europe'', ''africa'']
      else if 3 \<le> h \<and> h \<le> 5 then [''europe'', ''mena'', ''asia'']
      else if 6 \<le> h \<and> h \<le> 14 then [''asia'', ''australia'']
      else ALL_REGIONS)"

definition uri_end :: "char \<Rightarrow> bool" where
  "uri_end c \<longleftrightarrow> is_ws c \<or> c = CHR ''`'' \<or> c = CHR ''<'' \<or> c = CHR '')'' \<or> c = CHR 0x22"

definition is_ascii_digit :: "char \<Rightarrow> bool" where
  "is_ascii_digit c \<longleftrightarrow> 48 \<le> (of_char c :: nat) \<and> (of_char c :: nat) \<le> 57"

definition before_query :: "string \<Rightarrow> string" where
  "before_query s = takeWhile (\<lambda>c. c \<noteq> CHR ''?'') s"

definition after_last_colon :: "string \<Rightarrow> string" where
  "after_last_colon s = rev (takeWhile (\<lambda>c. c \<noteq> CHR '':'') (rev s))"

definition has_port :: "string \<Rightarrow> bool" where
  "has_port uri \<longleftrightarrow> (let p = before_query (after_last_colon uri) in list_all is_ascii_digit p \<and> p \<noteq> [])"

definition peer_uri :: "string \<Rightarrow> string list" where
  "peer_uri tail = (let uri = takeWhile (\<lambda>c. \<not> uri_end c) tail in if has_port uri then [before_query uri] else [])"

fun scheme_uris :: "string \<Rightarrow> string \<Rightarrow> string list" where
  "scheme_uris scheme [] = []"
| "scheme_uris scheme (c # cs) =
     (if take (length scheme) (c # cs) = scheme
      then peer_uri (c # cs) @ scheme_uris scheme (drop (length scheme - 1) cs)
      else scheme_uris scheme cs)"

definition extract_peer_uris :: "string \<Rightarrow> string list" where
  "extract_peer_uris text = remdups_adj (sort (concat (map (\<lambda>s. scheme_uris s text) [''tls://'', ''tcp://''])))"

text \<open>The text before and after the first occurrence of a separator.\<close>

fun split_first :: "string \<Rightarrow> string \<Rightarrow> (string \<times> string) option" where
  "split_first sep [] = None"
| "split_first sep (c # cs) =
     (if take (length sep) (c # cs) = sep then Some ([], drop (length sep) (c # cs))
      else map_option (\<lambda>(a, b). (c # a, b)) (split_first sep cs))"

definition socket_addr_of :: "string \<Rightarrow> string option" where
  "socket_addr_of uri = (case split_first ''://'' uri of None \<Rightarrow> None
     | Some (_, t) \<Rightarrow>
       let rest = (case split_first ''://'' t of None \<Rightarrow> t | Some (r, _) \<Rightarrow> r) in
       if take 1 rest = ''['' then (if split_first '']:'' rest \<noteq> None then Some rest else None)
       else if CHR '':'' \<in> set rest
         then Some (take (length rest - length (after_last_colon rest) - 1) rest @ '':'' @ after_last_colon rest)
         else None)"

text \<open>One file of a region's listing; a failed fetch is only logged.\<close>

definition fetch_file :: "string option \<Rightarrow> (node, 'e, string list) act" where
  "fetch_file entry = (case entry of None \<Rightarrow> ret []
     | Some url \<Rightarrow> if \<not> (length url \<ge> 3 \<and> drop (length url - 3) url = ''.md'') then ret []
         else bnd (ask (\<lambda>o' t. os_page o' t url)) (\<lambda>page.
              ret (case page of None \<Rightarrow> [] | Some text \<Rightarrow> extract_peer_uris text)))"

definition fetch_region :: "string \<Rightarrow> (node, 'e, string list) act" where
  "fetch_region region =
     bnd (ask (\<lambda>o' t. os_listing o' t (PEERS_API @ ''/'' @ region))) (\<lambda>listing.
     case listing of None \<Rightarrow> ret []
     | Some entries \<Rightarrow> bnd (map_each fetch_file entries) (\<lambda>u. ret (concat u)))"

definition fetch_public_peers :: "string list \<Rightarrow> string list noact" where
  "fetch_public_peers regions =
     bnd (ask os_http) (\<lambda>client.
     bnd (case client of Some e \<Rightarrow> fail e | None \<Rightarrow> ret ()) (\<lambda>_.
     bnd (map_each fetch_region regions) (\<lambda>u.
     let uris = remdups_adj (sort (concat u)) in
     if uris = [] then fail ''could not fetch any public peers (offline, or GitHub unreachable)'' else ret uris)))"

definition probe :: "string \<Rightarrow> (node, 'e, (string \<times> nat) option) act" where
  "probe uri = (case socket_addr_of uri of None \<Rightarrow> ret None
     | Some addr \<Rightarrow> bnd (ask (\<lambda>o' t. os_probe o' t addr)) (\<lambda>latency. ret (map_option (\<lambda>l. (uri, l)) latency)))"

definition probe_many :: "string list \<Rightarrow> (node, 'e, (string \<times> nat) list) act" where
  "probe_many uris = bnd (map_each probe uris) (\<lambda>rs. ret (sort_key snd (List.map_filter id rs)))"

definition any_reachable :: "string list \<Rightarrow> (node, 'e, bool) act" where
  "any_reachable uris = bnd (probe_many uris) (\<lambda>r. ret (r \<noteq> []))"

definition DEFAULT_MESH_PEERS :: "string list" where
  "DEFAULT_MESH_PEERS = [''tls://ygg.mkg20001.io:443'', ''tls://yggdrasil.su:62586'', ''tls://s2.i2pd.xyz:39575'',
     ''tls://ygg-nl.incognet.io:8884'']"

definition default_peers :: "string list" where "default_peers = DEFAULT_MESH_PEERS"

definition candidate_peers :: "path option \<Rightarrow> (node, 'e, string list) act" where
  "candidate_peers cache_dir =
     bnd (ask os_utc_offset) (\<lambda>off.
     bnd (or_else [] (fetch_public_peers (regions_for_offset off))) (\<lambda>found.
     bnd (if length found < 5 then or_else found (fetch_public_peers ALL_REGIONS) else ret found) (\<lambda>candidates.
     if candidates = [] then
       bnd (gets (\<lambda>n. read_cached_peers cache_dir (n_client n))) (\<lambda>cached.
       ret (if cached = [] then default_peers else cached))
     else ret candidates)))"

definition select_public_peers :: "path option \<Rightarrow> string list noact" where
  "select_public_peers cache_dir =
     bnd (candidate_peers cache_dir) (\<lambda>candidates.
     bnd (probe_many candidates) (\<lambda>ranked.
     if ranked = [] then fail ''no public peer is reachable from this network'' else
     let selected = map fst (take SELECT_COUNT ranked) in
     bnd (on_disk (write_cached_peers cache_dir selected)) (\<lambda>_.
     ret selected)))"

section \<open>The selection survives in the cache\<close>

text \<open>A line that \<open>lines\<close> and \<open>trim\<close> give back as it was.\<close>

definition clean_line :: "string \<Rightarrow> bool" where
  "clean_line l \<longleftrightarrow> l \<noteq> [] \<and> CHR 0x0A \<notin> set l \<and> trim l = l"

definition ascii_text :: "string \<Rightarrow> bool" where
  "ascii_text l \<longleftrightarrow> list_all (\<lambda>c. (of_char c :: nat) < 128) l"

lemma trim_last: "trim l = l \<Longrightarrow> l \<noteq> [] \<Longrightarrow> \<not> is_ws (last l)"
  using hd_dropWhile_ws [of "rev (dropWhile is_ws l)"] by (metis trim_def last_rev rev_is_Nil_conv)

lemma strip_cr_clean: "clean_line l \<Longrightarrow> strip_cr l = l"
  using trim_last [of l] by (auto simp: clean_line_def strip_cr_def is_ws_def)

lemma lines_acc_word: "CHR 0x0A \<notin> set w \<Longrightarrow> lines_acc acc (w @ rest) = lines_acc (acc @ w) rest"
  by (induction w arbitrary: acc) auto

lemma lines_join: "list_all clean_line ls \<Longrightarrow> lines (join_with [CHR 0x0A] ls) = ls"
proof (induction "[CHR 0x0A]" ls rule: join_with.induct)
  case (2 x)
  then show ?case using lines_acc_word [of x "[]" "[]"] by (simp add: lines_def clean_line_def)
next
  case (3 x y xs)
  then show ?case using lines_acc_word [of x "[]" "CHR 0x0A # join_with [CHR 0x0A] (y # xs)"]
    by (simp add: lines_def clean_line_def strip_cr_clean [unfolded clean_line_def])
qed (simp add: lines_def)

lemma text_of_ascii: "ascii_text s \<Longrightarrow> text_of (ascii s) = Some s"
  by (induction s) (auto simp: ascii_text_def text_of_def ascii_def unat_of_nat split: if_splits)

lemma ascii_join: "list_all ascii_text ls \<Longrightarrow> ascii_text (join_with [CHR 0x0A] ls)"
  by (induction "[CHR 0x0A]" ls rule: join_with.induct) (simp_all add: ascii_text_def)

lemma clean_filter: "list_all clean_line ls \<Longrightarrow> filter (\<lambda>l. l \<noteq> []) (map trim ls) = ls"
  by (induction ls) (simp_all add: clean_line_def)

lemma cache_roundtrip:
  assumes "list_all clean_line ps" "list_all ascii_text ps" "c_fault c (dir @ [PEER_CACHE_FILE]) = None"
  shows "read_cached_peers (Some dir) (snd (write_cached_peers (Some dir) ps c :: (string + unit) \<times> client)) = ps"
  using assms
  by (simp add: read_cached_peers_def write_cached_peers_def or_else_def write_file_def put_file_def read_to_string_def
      read_file_def update_conv' text_of_ascii ascii_join lines_join clean_filter)

text \<open>Whatever comes from a peer list, the cache or the seed is such a line.\<close>

lemma no_ws_clean: "l \<noteq> [] \<Longrightarrow> list_all (\<lambda>c. \<not> is_ws c) l \<Longrightarrow> clean_line l"
  by (auto simp: clean_line_def list_all_iff is_ws_def [of "CHR 0x0A"] intro!: trim_noop)

lemma takeWhile_all: "list_all P (takeWhile P xs)"
  by (simp add: list_all_iff) (meson set_takeWhileD)

lemma before_query_nonempty: "s = p # ps \<Longrightarrow> p \<noteq> CHR ''?'' \<Longrightarrow> before_query s \<noteq> []"
  by (simp add: before_query_def)

lemma list_all_before: "list_all P s \<Longrightarrow> list_all P (before_query s)"
  by (auto simp: before_query_def list_all_iff dest: set_takeWhileD)

lemma peer_uri_clean:
  assumes u: "u \<in> set (peer_uri (c # cs))" "c \<noteq> CHR ''?''" "\<not> uri_end c"
  shows "clean_line u"
proof -
  let ?w = "takeWhile (\<lambda>c. \<not> uri_end c) (c # cs)"
  have 1: "u = before_query ?w" using u(1) by (simp only: peer_uri_def Let_def split: if_splits) simp_all
  have "list_all (\<lambda>c. \<not> is_ws c) ?w"
    using takeWhile_all [of "\<lambda>c. \<not> uri_end c" "c # cs"] unfolding list_all_iff uri_end_def by blast
  then have "list_all (\<lambda>c. \<not> is_ws c) u" unfolding 1 by (rule list_all_before)
  moreover have "u \<noteq> []" unfolding 1 using u(2,3) by (simp add: before_query_def)
  ultimately show ?thesis by (rule no_ws_clean [rotated])
qed

lemma scheme_clean: "u \<in> set (scheme_uris (t # ''cp://'') s) \<or> u \<in> set (scheme_uris (t # ''ls://'') s) \<Longrightarrow>
  t \<noteq> CHR ''?'' \<Longrightarrow> \<not> uri_end t \<Longrightarrow> clean_line u"
proof -
  have "u \<in> set (scheme_uris (t # r) s) \<Longrightarrow> t \<noteq> CHR ''?'' \<Longrightarrow> \<not> uri_end t \<Longrightarrow> clean_line u" for r
    by (induction "t # r" s rule: scheme_uris.induct) (auto split: if_splits dest: peer_uri_clean)
  then show "u \<in> set (scheme_uris (t # ''cp://'') s) \<or> u \<in> set (scheme_uris (t # ''ls://'') s) \<Longrightarrow>
  t \<noteq> CHR ''?'' \<Longrightarrow> \<not> uri_end t \<Longrightarrow> clean_line u" by blast
qed

lemma extract_clean: "u \<in> set (extract_peer_uris s) \<Longrightarrow> clean_line u"
  using scheme_clean [of u "CHR ''t''" s] by (auto simp: extract_peer_uris_def uri_end_def is_ws_def)

lemma distinct_remdups_adj: "sorted xs \<Longrightarrow> distinct (remdups_adj (xs :: 'a :: linorder list))"
  by (induction xs rule: remdups_adj.induct) (auto simp: order.antisym)

lemma extract_sorted_distinct: "sorted (extract_peer_uris s)" "distinct (extract_peer_uris s)"
  by (simp_all add: extract_peer_uris_def distinct_remdups_adj)

section \<open>Results of the selection\<close>

lemma ask_ok [ok_simps]: "ask q n = (Inr a, m) \<longleftrightarrow> a = q (n_os n) (n_ticks n) \<and> m = n\<lparr>n_ticks := Suc (n_ticks n)\<rparr>"
  by (auto simp: ask_def)

lemma bnd_attempt [run_simps]: "bnd (attempt m) f s = (case m s of (r, t) \<Rightarrow> f r t)"
  by (simp add: bnd_def attempt_def split: prod.splits)

lemma bnd_ask [run_simps]: "bnd (ask q) f n = f (q (n_os n) (n_ticks n)) (n\<lparr>n_ticks := Suc (n_ticks n)\<rparr>)"
  by (simp add: bnd_def ask_def)

lemma map_each_concat:
  assumes "map_each f xs s = (Inr ys, t)" "\<And>x s y t. f x s = (Inr y, t) \<Longrightarrow> list_all P y"
  shows "list_all P (concat ys)"
  using assms by (induction xs arbitrary: s ys) (auto simp: ok_simps)

lemma or_else_result: "or_else d m s = (Inr a, t) \<Longrightarrow> a = d \<or> m s = (Inr a, t)"
  by (auto simp: or_else_def split: prod.splits sum.splits)

definition same_machine :: "node \<Rightarrow> node \<Rightarrow> bool" where
  "same_machine n m \<longleftrightarrow> n_os m = n_os n \<and> n_client m = n_client n \<and> n_local m = n_local n \<and> n_taverns m = n_taverns n \<and>
     n_mesh m = n_mesh n \<and> n_tasks m = n_tasks n \<and> n_events m = n_events n"

interpretation look: effect_order same_machine
  by unfold_locales (simp_all add: same_machine_def)

lemma look_ask: "effect same_machine (ask q)"
  by (simp add: effect_def ask_def same_machine_def)

lemma look_fetch: "effect same_machine (fetch_public_peers rs)"
  unfolding fetch_public_peers_def fetch_region_def fetch_file_def by (intro look.eff_rules look_ask)

lemma look_probe: "effect same_machine (probe_many us)"
  unfolding probe_many_def probe_def by (intro look.eff_rules look_ask)

lemma look_candidates: "effect same_machine (candidate_peers cd)"
  unfolding candidate_peers_def by (intro look.eff_rules look_ask look_fetch)

lemma fetched_clean:
  assumes "fetch_public_peers rs n = (Inr us, m)"
  shows "list_all clean_line us"
proof -
  have f: "fetch_file e n = (Inr ls, m) \<Longrightarrow> list_all clean_line ls" for e :: "string option" and n m :: node and ls
    using extract_clean by (auto simp: fetch_file_def ok_simps list_all_iff split: option.splits if_splits)
  have g: "fetch_region r n = (Inr ls, m) \<Longrightarrow> list_all clean_line ls" for r and n m :: node and ls
    using map_each_concat [where f = fetch_file, OF _ f] by (auto simp: fetch_region_def ok_simps split: option.splits)
  show ?thesis
    using assms map_each_concat [where f = fetch_region, OF _ g]
    by (fastforce simp: fetch_public_peers_def ok_simps Let_def list_all_iff split: option.splits if_splits)
qed

lemma lines_no_newline: "l \<in> set (lines_acc acc s) \<Longrightarrow> CHR 0x0A \<notin> set acc \<Longrightarrow> CHR 0x0A \<notin> set l"
  by (induction acc s rule: lines_acc.induct) (auto simp: strip_cr_def split: if_splits dest: in_set_butlastD)

lemma set_trim: "set (trim l) \<subseteq> set l"
  by (auto simp: trim_def dest!: set_dropWhileD)

lemma cached_clean: "list_all clean_line (read_cached_peers cd c)"
  using lines_no_newline set_trim
  by (fastforce simp: read_cached_peers_def list_all_iff clean_line_def lines_def trim_idem split: option.splits)

lemma default_clean: "list_all clean_line default_peers"
  by (simp add: default_peers_def DEFAULT_MESH_PEERS_def clean_line_def trim_noop is_ws_def)

lemma candidates_clean:
  assumes "(candidate_peers cd n :: (string + _) \<times> _) = (Inr us, m)"
  shows "list_all clean_line us"
  using assms cached_clean default_clean
  by (auto simp: candidate_peers_def ok_simps split: if_splits dest!: or_else_result intro: fetched_clean)

lemma probed:
  assumes "(probe_many us n :: (string + _) \<times> _) = (Inr rs, m)"
  shows "sorted (map snd rs)" "set (map fst rs) \<subseteq> set us"
    "\<forall>(u, l)\<in>set rs. \<exists>t a. socket_addr_of u = Some a \<and> os_probe (n_os n) t a = Some l"
proof -
  obtain xs where xs: "map_each probe us n = (Inr xs :: string + _, m)" "rs = sort_key snd (List.map_filter id xs)"
    using assms by (auto simp: probe_many_def ok_simps)
  have 1: "list_all2 (\<lambda>u x. \<forall>v l. x = Some (v, l) \<longrightarrow> v = u \<and> (\<exists>t a. socket_addr_of u = Some a \<and> os_probe (n_os n) t a = Some l)) us xs"
    using xs(1)
  proof (induction us arbitrary: n xs)
    case (Cons u us)
    then obtain x ys n' where p: "probe u n = (Inr x :: string + _, n')" "map_each probe us n' = (Inr ys :: string + _, m)" "xs = x # ys"
      by (auto simp: ok_simps)
    have "n_os n' = n_os n \<and> (\<forall>v l. x = Some (v, l) \<longrightarrow> v = u \<and> (\<exists>t a. socket_addr_of u = Some a \<and> os_probe (n_os n) t a = Some l))"
      using p(1) by (auto simp: probe_def ok_simps split: option.splits)
    then show ?case using Cons.IH [OF p(2)] p(3) by auto
  qed (simp add: ok_simps)
  have 2: "r \<in> set rs \<longleftrightarrow> Some r \<in> set xs" for r using xs(2) by (force simp: List.map_filter_def)
  show "sorted (map snd rs)" using xs(2) by simp
  show "set (map fst rs) \<subseteq> set us" using 1 2 by (auto simp: list_all2_conv_all_nth in_set_conv_nth) metis
  show "\<forall>(u, l)\<in>set rs. \<exists>t a. socket_addr_of u = Some a \<and> os_probe (n_os n) t a = Some l"
    using 1 2 by (auto simp: list_all2_conv_all_nth in_set_conv_nth) metis
qed

theorem selection_is_reachable_and_cached:
  assumes "select_public_peers (Some dir) n = (Inr ps, m)"
    and "c_fault (n_client n) (dir @ [PEER_CACHE_FILE]) = None" "list_all ascii_text ps"
  shows "ps \<noteq> [] \<and> length ps \<le> 4 \<and>
    (\<forall>p\<in>set ps. \<exists>t a l. socket_addr_of p = Some a \<and> os_probe (n_os n) t a = Some l) \<and>
    read_cached_peers (Some dir) (n_client m) = ps"
proof -
  obtain us n1 rs n2 where r: "candidate_peers (Some dir) n = (Inr us :: string + _, n1)"
    "probe_many us n1 = (Inr rs :: string + _, n2)" "rs \<noteq> []" "ps = map fst (take 4 rs)"
    "n_client m = snd (write_cached_peers (Some dir) ps (n_client n2) :: (string + unit) \<times> client)"
    using assms(1) by (auto simp: select_public_peers_def ok_simps on_disk_def SELECT_COUNT_def Let_def split: if_splits)
  have s: "same_machine n n1" "same_machine n1 n2"
    using effectD [OF look_candidates r(1)] effectD [OF look_probe r(2)] by simp_all
  have sub: "set ps \<subseteq> set (map fst rs)" unfolding r(4) by (metis set_take_subset take_map)
  have "list_all clean_line us" by (rule candidates_clean [OF r(1)])
  then have "list_all clean_line ps" using sub probed(2) [OF r(2)] by (auto simp: list_all_iff)
  then have c: "read_cached_peers (Some dir) (n_client m) = ps"
    unfolding r(5) using assms(2,3) s by (intro cache_roundtrip) (simp_all add: same_machine_def)
  have "\<forall>p\<in>set ps. \<exists>t a l. socket_addr_of p = Some a \<and> os_probe (n_os n) t a = Some l"
    using sub probed(3) [OF r(2)] s by (fastforce simp: same_machine_def)
  then show ?thesis using r(3,4) c by simp
qed

section \<open>Starts that work unlocked\<close>

text \<open>
  The mesh and the home server are started in the same way: under a short lock the start is claimed, the slow
  work runs unlocked, and its result is stored under a second lock.  The locked steps of any number of
  starts and stops in any order; the number counts the starts between their claim and their end.
\<close>

datatype 'r start_op = Op_Claim | Op_Finish 'r | Op_Stop

fun start_step :: "('n \<Rightarrow> 'n option) \<Rightarrow> ('r \<Rightarrow> 'n \<Rightarrow> 'n) \<Rightarrow> ('n \<Rightarrow> 'n) \<Rightarrow> 'r start_op \<Rightarrow> 'n \<times> nat \<Rightarrow> 'n \<times> nat" where
  "start_step claim finish stop Op_Claim (n, k) = (case claim n of None \<Rightarrow> (n, k) | Some m \<Rightarrow> (m, Suc k))"
| "start_step claim finish stop (Op_Finish r) (n, k) = (if k = 0 then (n, k) else (finish r n, k - 1))"
| "start_step claim finish stop Op_Stop (n, k) = (stop n, k)"

text \<open>What makes the flag safe: only an idle node can be claimed, a stop leaves a start in flight alone and brings nothing up.\<close>

locale guarded_start =
  fixes claim :: "'n \<Rightarrow> 'n option" and finish :: "'r \<Rightarrow> 'n \<Rightarrow> 'n" and stop :: "'n \<Rightarrow> 'n"
    and starting up ok :: "'n \<Rightarrow> bool"
  assumes claim: "claim n = Some m \<Longrightarrow> \<not> starting n \<and> \<not> up n \<and> starting m \<and> \<not> up m"
    and finish: "\<not> starting (finish r n)"
    and stop: "starting (stop n) = starting n" "up (stop n) \<Longrightarrow> up n"
    and keeps: "ok n \<Longrightarrow> claim n = Some m \<Longrightarrow> ok m" "ok n \<Longrightarrow> ok (finish r n)" "ok n \<Longrightarrow> ok (stop n)"
begin

lemma one_at_a_time:
  assumes "k = (if starting n then 1 else 0)" "starting n \<Longrightarrow> \<not> up n" "ok n"
    and "foldl (\<lambda>s c. start_step claim finish stop c s) (n, k) cs = (m, j)"
  shows "j = (if starting m then 1 else 0) \<and> (starting m \<longrightarrow> \<not> up m) \<and> ok m"
  using assms
proof (induction cs arbitrary: n k)
  case (Cons c cs)
  obtain n' k' where s: "start_step claim finish stop c (n, k) = (n', k')" by (cases "start_step claim finish stop c (n, k)")
  have "k' = (if starting n' then 1 else 0) \<and> (starting n' \<longrightarrow> \<not> up n') \<and> ok n'"
    using s Cons.prems(1-3) claim finish stop keeps by (cases c) (auto split: option.splits if_splits)
  then show ?case using Cons.IH [of k' n'] Cons.prems(4) s by simp
qed simp

end

end
