(* ===== verification/Client_Mesh.thy ===== *)
theory Client_Mesh
  imports Client_Node
begin

text \<open>
  \<open>mesh.rs\<close>: the embedded mesh node, with the \<open>mesh\<close> feature compiled in or not.

  A start claims the state under a short lock, does its slow work unlocked and then stores the result, so
  other commands may run in between: \<open>mesh_claim\<close>, \<open>mesh_start_inner\<close> and \<open>mesh_finish\<close> are the three
  steps, \<open>mesh_start\<close> a start nothing interferes with.  The node software (yggdrasil) is the address of a key,
  and the outcome of creating the network interface.
\<close>

definition on_mesh :: "(mesh_state \<Rightarrow> mesh_state) \<Rightarrow> (node, 'e, unit) act" where
  "on_mesh f = modify (\<lambda>n. n\<lparr>n_mesh := f (n_mesh n)\<rparr>)"

definition current_address :: "mesh_state \<Rightarrow> string option" where
  "current_address m = mh_address m"

definition is_available :: "node \<Rightarrow> bool" where
  "is_available n = os_mesh (n_os n)"

definition get_mesh_status :: "node \<Rightarrow> mesh_status" where
  "get_mesh_status n = \<lparr>mt_running = (current_address (n_mesh n) \<noteq> None), mt_address = current_address (n_mesh n),
     mt_available = is_available n, mt_enabled = is_mesh_enabled (n_client n)\<rparr>"

definition emit_status :: "string \<Rightarrow> string \<Rightarrow> (node, 'e, unit) act" where
  "emit_status state message = node_emit (Mesh_Connect_Status state message)"

text \<open>The pieces of \<open>str::split\<close> at any of the given characters.\<close>

fun split_at :: "(char \<Rightarrow> bool) \<Rightarrow> string \<Rightarrow> string list" where
  "split_at p [] = [[]]"
| "split_at p (c # cs) = (if p c then [] # split_at p cs else (case split_at p cs of w # ws \<Rightarrow> (c # w) # ws | [] \<Rightarrow> [[c]]))"

definition peer_separator :: "char \<Rightarrow> bool" where
  "peer_separator c \<longleftrightarrow> c \<in> {CHR '' '', CHR '','', CHR 0x09, CHR ''['', CHR '']''}"

definition is_peer_uri :: "string \<Rightarrow> bool" where
  "is_peer_uri s \<longleftrightarrow> take 6 s = ''tcp://'' \<or> take 6 s = ''tls://''"

definition parse_private_peers :: "string list \<Rightarrow> string list" where
  "parse_private_peers text_lines =
     remdups_adj (sort (filter is_peer_uri (map trim (concat (map (split_at peer_separator) text_lines)))))"

definition resolve_peers :: "ygg_peer_mode \<Rightarrow> string list \<Rightarrow> string list noact" where
  "resolve_peers mode private_peers = (case mode of
      Authorized \<Rightarrow> if AUTHORIZED_PEERS = []
        then fail ''no authorized peers are published yet - they arrive with our hosted infrastructure; use Public or Private peers for now''
        else ret AUTHORIZED_PEERS
    | Private \<Rightarrow> (let parsed = parse_private_peers private_peers in
        if parsed = [] then fail ''no peer URIs found - enter at least one tcp:// or tls:// peer'' else ret parsed)
    | Public \<Rightarrow> bnd (emit_status ''connecting'' ''Finding the best public peers for your region...'') (\<lambda>_.
        select_public_peers (Some [])))"

section \<open>The node\<close>

definition mesh_key_path :: path where "mesh_key_path = [''mesh.key'']"

definition fresh_mesh_key :: "client_ext \<Rightarrow> bytes clact" where
  "fresh_mesh_key X =
     bnd (on_rng (fill_bytes 32)) (\<lambda>key.
     bnd (seal_bytes X key) (\<lambda>blob.
     bnd (write_file mesh_key_path blob) (\<lambda>_. ret key)))"

definition load_or_create_mesh_key :: "client_ext \<Rightarrow> bytes clact" where
  "load_or_create_mesh_key X =
     bnd (make_dir []) (\<lambda>_.
     bnd (gets (read_file mesh_key_path)) (\<lambda>b.
     case b of None \<Rightarrow> fresh_mesh_key X
     | Some bs \<Rightarrow>
       bnd (open_bytes X bs) (\<lambda>plain.
       if plain \<noteq> None \<and> length (the plain) = 32 then ret (the plain)
       else if length bs = 32 then
         bnd (seal_bytes X bs) (\<lambda>blob.
         bnd (write_file mesh_key_path blob) (\<lambda>_. ret bs))
       else fresh_mesh_key X)))"

definition load_peers :: "node \<Rightarrow> string list" where
  "load_peers n =
     (let env = (case os_env_peers (n_os n) of None \<Rightarrow> []
            | Some e \<Rightarrow> filter (\<lambda>s. s \<noteq> []) (map trim (split_at (\<lambda>c. c = CHR '','') e)));
          from_file = (case read_to_string [''mesh-peers.txt''] (n_client n) of None \<Rightarrow> []
            | Some text \<Rightarrow> filter (\<lambda>l. l \<noteq> [] \<and> take 1 l \<noteq> ''#'') (map trim (lines text)));
          cached = read_cached_peers (Some []) (n_client n)
      in if env \<noteq> [] then env else if from_file \<noteq> [] then from_file else if cached \<noteq> [] then cached else default_peers)"

text \<open>The slow part: everything up to the network interface; it touches no state of the mesh.\<close>

definition mesh_start_inner :: "client_ext \<Rightarrow> string list option \<Rightarrow> (string \<times> string list) noact" where
  "mesh_start_inner X peers_override =
     bnd (on_disk (load_or_create_mesh_key X)) (\<lambda>signing.
     bnd (gets (\<lambda>n. case peers_override of Some p \<Rightarrow> p | None \<Rightarrow> load_peers n)) (\<lambda>peers.
     bnd (gets (\<lambda>n. os_mesh_address (n_os n) signing)) (\<lambda>address.
     bnd (ask os_tun) (\<lambda>tun.
     case tun of
       Tun_Up \<Rightarrow> ret (address, peers)
     | Tun_Error e \<Rightarrow> fail (''could not create TUN interface (run as admin?): '' @ e)
     | Tun_Crashed e \<Rightarrow> fail (''TUN setup crashed: '' @ e)
     | Tun_Timeout \<Rightarrow> fail (''TUN setup timed out after 30s - make sure the app is running as administrator; if it keeps '' @
         ''happening, remove the stale '' @ [CHR 0x27] @ ''Yggdrasil'' @ [CHR 0x27] @ '' network adapter in Device Manager and try again'')))))"

datatype claim_result = Already_Up string | Claimed

definition mesh_claim :: "claim_result noact" where
  "mesh_claim = bnd (gets n_mesh) (\<lambda>m.
     case mh_address m of Some addr \<Rightarrow> ret (Already_Up addr)
     | None \<Rightarrow> if mh_starting m then fail ''the mesh is already starting''
         else bnd (on_mesh (\<lambda>m. m\<lparr>mh_starting := True\<rparr>)) (\<lambda>_. ret Claimed))"

definition mesh_finish :: "string + string \<times> string list \<Rightarrow> string noact" where
  "mesh_finish result =
     bnd (on_mesh (\<lambda>m. m\<lparr>mh_starting := False\<rparr>)) (\<lambda>_.
     case result of Inl e \<Rightarrow> fail e
     | Inr (address, peers) \<Rightarrow>
       bnd (on_mesh (\<lambda>m. m\<lparr>mh_core := True, mh_tun := True, mh_address := Some address, mh_current_peers := peers\<rparr>)) (\<lambda>_.
       bnd (gets (\<lambda>n. is_mesh_enabled (n_client n))) (\<lambda>enabled.
       bnd (node_emit (Dev_Mesh \<lparr>mt_running = True, mt_address = Some address, mt_available = True, mt_enabled = enabled\<rparr>)) (\<lambda>_.
       ret address))))"

definition mesh_start :: "client_ext \<Rightarrow> string list option \<Rightarrow> string noact" where
  "mesh_start X peers =
     bnd mesh_claim (\<lambda>c.
     case c of Already_Up addr \<Rightarrow> ret addr
     | Claimed \<Rightarrow> bnd (attempt (mesh_start_inner X peers)) mesh_finish)"

definition start_with_peers :: "client_ext \<Rightarrow> string list option \<Rightarrow> string noact" where
  "start_with_peers X peers = bnd (gets is_available) (\<lambda>a.
     if a then mesh_start X peers
     else fail ''mesh networking not compiled in - rebuild with `--features mesh`'')"

definition mesh_stop :: "(node, 'e, unit) act" where
  "mesh_stop = bnd (gets is_available) (\<lambda>a. if \<not> a then ret () else
     bnd (on_mesh (\<lambda>m. m\<lparr>mh_tun := False, mh_core := False, mh_address := None, mh_current_peers := []\<rparr>)) (\<lambda>_.
     bnd (gets (\<lambda>n. is_mesh_enabled (n_client n))) (\<lambda>enabled.
     node_emit (Dev_Mesh \<lparr>mt_running = False, mt_address = None, mt_available = True, mt_enabled = enabled\<rparr>))))"

section \<open>Commands\<close>

text \<open>Retiring the watchdogs that run: a new generation.\<close>

definition bump_watchdog :: "(node, 'e, 64 word) act" where
  "bump_watchdog = bnd (on_mesh (\<lambda>m. m\<lparr>mh_watchdog_gen := mh_watchdog_gen m + 1\<rparr>)) (\<lambda>_.
     gets (\<lambda>n. mh_watchdog_gen (n_mesh n)))"

definition report_failure :: "'a noact \<Rightarrow> 'a noact" where
  "report_failure m = bnd (attempt m) (\<lambda>r. case r of
      Inl e \<Rightarrow> bnd (emit_status ''error'' e) (\<lambda>_. fail e) | Inr a \<Rightarrow> ret a)"

definition mesh_connect :: "client_ext \<Rightarrow> ygg_peer_mode \<Rightarrow> string list \<Rightarrow> mesh_status noact" where
  "mesh_connect X mode private_peers =
     bnd (on_disk (store_ygg_config X mode private_peers)) (\<lambda>_.
     bnd (gets is_available) (\<lambda>a.
     if \<not> a then report_failure (fail ''mesh networking is not compiled into this build'') else
     bnd (emit_status ''connecting'' ''Resolving peers...'') (\<lambda>_.
     bnd (report_failure (resolve_peers mode private_peers)) (\<lambda>peers.
     bnd (emit_status ''connecting'' (''Connecting via '' @ show_nat (length peers) @ '' peer(s)...'')) (\<lambda>_.
     bnd mesh_stop (\<lambda>_.
     bnd (report_failure (start_with_peers X (Some peers))) (\<lambda>address.
     bnd (or_else () (on_disk (store_mesh_enabled X True))) (\<lambda>_.
     bnd bump_watchdog (\<lambda>_.
     bnd (emit_status ''connected'' (''Connected - mesh address '' @ address)) (\<lambda>_.
     gets get_mesh_status))))))))))"

definition mesh_disconnect :: "client_ext \<Rightarrow> mesh_status noact" where
  "mesh_disconnect X =
     bnd (or_else () (on_disk (store_mesh_enabled X False))) (\<lambda>_.
     bnd bump_watchdog (\<lambda>_.
     bnd mesh_stop (\<lambda>_.
     bnd (emit_status ''idle'' ''Disconnected'') (\<lambda>_.
     gets get_mesh_status))))"

definition set_mesh_enabled :: "client_ext \<Rightarrow> bool \<Rightarrow> mesh_status noact" where
  "set_mesh_enabled X enabled =
     (if enabled then bnd (gets (\<lambda>n. ygg_config (n_client n))) (\<lambda>(mode, private). mesh_connect X mode private)
      else mesh_disconnect X)"

definition auto_start_if_enabled :: "client_ext \<Rightarrow> (node, 'e, unit) act" where
  "auto_start_if_enabled X =
     bnd (gets (\<lambda>n. is_mesh_enabled (n_client n))) (\<lambda>on.
     if on then bnd (gets (\<lambda>n. ygg_config (n_client n))) (\<lambda>(mode, private).
       bnd (attempt (mesh_connect X mode private)) (\<lambda>_. ret ()))
     else ret ())"

text \<open>One turn of the watchdog of a generation, after its sleep; \<open>False\<close> ends it.\<close>

definition watchdog_turn :: "client_ext \<Rightarrow> 64 word \<Rightarrow> (node, 'e, bool) act" where
  "watchdog_turn X generation =
     bnd (gets n_mesh) (\<lambda>m.
     let peers = mh_current_peers m in
     if mh_watchdog_gen m \<noteq> generation \<or> mh_address m = None then ret False
     else if peers = [] then ret False else
     bnd (any_reachable peers) (\<lambda>alive.
     if alive then ret True else
     bnd (emit_status ''connecting'' ''Mesh peers unreachable - migrating...'') (\<lambda>_.
     bnd (gets (\<lambda>n. ygg_config (n_client n))) (\<lambda>(mode, private).
     bnd (attempt (resolve_peers mode private)) (\<lambda>r.
     case r of
       Inl e \<Rightarrow> bnd (emit_status ''error'' (''could not find new peers: '' @ e)) (\<lambda>_. ret True)
     | Inr next \<Rightarrow>
       bnd mesh_stop (\<lambda>_.
       bnd (attempt (start_with_peers X (Some next))) (\<lambda>r.
       case r of
         Inr address \<Rightarrow> bnd (emit_status ''connected'' (''Reconnected - mesh address '' @ address)) (\<lambda>_. ret True)
       | Inl e \<Rightarrow> bnd (emit_status ''error'' (''mesh restart failed: '' @ e)) (\<lambda>_. ret True))))))))"

section \<open>Starts that overlap with other commands\<close>

definition claim_mesh :: "node \<Rightarrow> node option" where
  "claim_mesh n = (case mesh_claim n of (Inr Claimed, n') \<Rightarrow> Some n' | _ \<Rightarrow> None)"

definition mesh_ok :: "mesh_state \<Rightarrow> bool" where
  "mesh_ok m \<longleftrightarrow> mh_core m = mh_tun m \<and> mh_tun m = (mh_address m \<noteq> None) \<and> (mh_address m = None \<longrightarrow> mh_current_peers m = [])"

lemma mesh_claim_run: "mesh_claim n = (case mh_address (n_mesh n) of Some a \<Rightarrow> (Inr (Already_Up a), n)
   | None \<Rightarrow> if mh_starting (n_mesh n) then (Inl ''the mesh is already starting'', n)
       else (Inr Claimed, n\<lparr>n_mesh := (n_mesh n)\<lparr>mh_starting := True\<rparr>\<rparr>))"
  by (simp add: mesh_claim_def run_simps on_mesh_def ret_def fail_def split: option.splits)

lemma mesh_finish_state: "n_mesh (snd (mesh_finish r n)) = (case r of Inl e \<Rightarrow> (n_mesh n)\<lparr>mh_starting := False\<rparr>
   | Inr (a, ps) \<Rightarrow> (n_mesh n)\<lparr>mh_starting := False, mh_core := True, mh_tun := True, mh_address := Some a, mh_current_peers := ps\<rparr>)"
  by (simp add: mesh_finish_def run_simps on_mesh_def node_emit_def ret_def fail_def split: sum.splits prod.splits)

lemma mesh_stop_state: "n_mesh (snd (mesh_stop n)) = (if os_mesh (n_os n)
   then (n_mesh n)\<lparr>mh_tun := False, mh_core := False, mh_address := None, mh_current_peers := []\<rparr> else n_mesh n)"
  by (simp add: mesh_stop_def run_simps on_mesh_def node_emit_def is_available_def ret_def) (simp add: modify_def)

interpretation mesh_start: guarded_start claim_mesh "\<lambda>r n. snd (mesh_finish r n)" "\<lambda>n. snd (mesh_stop n :: (string + unit) \<times> node)"
  "\<lambda>n. mh_starting (n_mesh n)" "\<lambda>n. mh_address (n_mesh n) \<noteq> None" "\<lambda>n. mesh_ok (n_mesh n)"
  by unfold_locales
    (auto simp: claim_mesh_def mesh_claim_run mesh_finish_state mesh_stop_state mesh_ok_def split: option.splits sum.splits if_splits)

text \<open>
  Whatever starts and stops of the mesh overlap, at most one start is in flight; while it is, no node is up, so
  storing its result never overwrites (and leaks) a running one; and the parts of the state agree.
\<close>

theorem one_mesh_start:
  assumes "\<not> mh_starting (n_mesh n)" "mesh_ok (n_mesh n)"
    and "foldl (\<lambda>s c. start_step claim_mesh (\<lambda>r n. snd (mesh_finish r n)) (\<lambda>n. snd (mesh_stop n :: (string + unit) \<times> node)) c s)
      (n, 0) cs = (m, k)"
  shows "k \<le> 1 \<and> (k = 1 \<longrightarrow> mh_address (n_mesh m) = None \<and> \<not> mh_tun (n_mesh m)) \<and> mesh_ok (n_mesh m)"
  using mesh_start.one_at_a_time [OF _ _ _ assms(3)] assms(1,2) by (auto simp: mesh_ok_def split: if_splits)

text \<open>A watchdog of an older generation ends without doing anything; connecting and disconnecting make all of
  them older.\<close>

lemma stale_watchdog: "mh_watchdog_gen (n_mesh n) \<noteq> g \<Longrightarrow> watchdog_turn X g n = (Inr False, n)"
  by (simp add: watchdog_turn_def run_simps ret_def Let_def)

lemma bump_gen: "bump_watchdog n = (Inr g, m) \<Longrightarrow> mh_watchdog_gen (n_mesh m) = mh_watchdog_gen (n_mesh n) + 1"
  by (auto simp: bump_watchdog_def on_mesh_def ok_simps)

lemma stopped_watchdog: "mh_address (n_mesh n) = None \<Longrightarrow> watchdog_turn X g n = (Inr False, n)"
  by (simp add: watchdog_turn_def run_simps ret_def Let_def)

text \<open>
  A disconnect that runs while a start is in flight is lost: the start then stores its node, and the mesh is
  up again although the command reported it down.
\<close>

theorem disconnect_lost:
  assumes "mesh_claim n = (Inr Claimed, n1)" "mesh_disconnect X n1 = (Inr st, n2)" "os_mesh (n_os n)"
  shows "mt_running st = False \<and> (\<exists>n3. mesh_finish (Inr (a, ps)) n2 = (Inr a, n3) \<and> mh_address (n_mesh n3) = Some a)"
proof -
  have os: "n_os n1 = n_os n" using assms(1)
    by (auto simp: mesh_claim_def ok_simps on_mesh_def split: option.splits if_splits)
  have k: "effect (\<lambda>x y. n_os y = n_os x) (or_else () (on_disk (store_mesh_enabled X False)))"
    by (simp add: effect_def or_else_def on_disk_def zoom_def split: prod.splits sum.splits)
  obtain u where u: "or_else () (on_disk (store_mesh_enabled X False)) n1 = (Inr () :: string + unit, u)"
    by (cases "or_else () (on_disk (store_mesh_enabled X False)) n1 :: (string + unit) \<times> node")
      (auto simp: or_else_def split: prod.splits)
  have "os_mesh (n_os u)" using assms(3) os effectD [OF k u] by simp
  then have "\<not> mt_running st" using assms(2) u
    by (auto simp: mesh_disconnect_def ok_simps bump_watchdog_def mesh_stop_def on_mesh_def node_emit_def emit_status_def
        get_mesh_status_def current_address_def is_available_def)
  then show ?thesis
    by (simp add: mesh_finish_def run_simps on_mesh_def node_emit_def ret_def)
qed

end
