(* ===== verification/Client_Hosting.thy ===== *)
theory Client_Hosting
  imports Client_Mesh Client_History
begin

text \<open>
  \<open>hosting.rs\<close> (the server the client runs for its own user) and \<open>taverns.rs\<close> (the further servers it hosts).

  The record \<open>host_ext\<close> adds the JSON of the tavern list and the text of an absolute path to the client's
  parameters.  A start of the home server claims the state, works unlocked and stores the result, as in
  \<open>Client_Mesh\<close>; the tavern commands hold their lock throughout.  The arrow in the text of the tavern limit is
  written in ASCII.
\<close>

record tavern_meta =
  tv_id :: string
  tv_name :: string
  tv_port :: "16 word"

record tavern_connect =
  tc_id :: string
  tc_name :: string
  tc_endpoint :: string
  tc_cert :: "string option"

record host_ext =
  hx_client :: client_ext
  hx_path_text :: "path \<Rightarrow> string"
  metas_to_json :: "tavern_meta list \<Rightarrow> string + bytes"
  metas_from_json :: "bytes \<Rightarrow> tavern_meta list option"

section \<open>hosting.rs\<close>

definition DEFAULT_HOST_PORT :: "16 word" where "DEFAULT_HOST_PORT = 50051"

definition host_cert :: "local_server \<Rightarrow> string option" where
  "host_cert l = ls_cert l"

definition port_text :: "16 word \<Rightarrow> string" where
  "port_text p = show_nat (unat p)"

definition local_connect_info :: "local_server \<Rightarrow> (string \<times> string option) option" where
  "local_connect_info l = (case ls_port l of None \<Rightarrow> None
     | Some port \<Rightarrow> Some ((if ls_cert l \<noteq> None then ''https'' else ''http'') @ ''://127.0.0.1:'' @ port_text port,
         ls_cert l))"

definition shareable :: "local_server \<Rightarrow> (string \<times> 16 word \<times> bool) option" where
  "shareable l = (case (ls_host l, ls_port l) of
      (Some h, Some p) \<Rightarrow> Some (h, p, ls_private l) | _ \<Rightarrow> None)"

definition fresh_jwt_secret :: "client_ext \<Rightarrow> path \<Rightarrow> string clact" where
  "fresh_jwt_secret X p =
     bnd (on_rng generate_identity) (\<lambda>random.
     let secret = hex (secret_bytes random) in
     bnd (seal_bytes X (ascii secret)) (\<lambda>blob.
     bnd (map_err (\<lambda>e. ''could not persist JWT secret: '' @ e) (write_file p blob)) (\<lambda>_.
     ret secret)))"

definition load_or_create_jwt_secret :: "client_ext \<Rightarrow> path \<Rightarrow> string clact" where
  "load_or_create_jwt_secret X dir =
     (let p = dir @ [''host-jwt.secret''] in
      bnd (gets (read_file p)) (\<lambda>b.
      case b of None \<Rightarrow> fresh_jwt_secret X p
      | Some bs \<Rightarrow>
        bnd (open_bytes X bs) (\<lambda>plain.
        case Option.bind plain text_of of
          Some secret \<Rightarrow> if secret \<noteq> [] then ret secret else fresh_jwt_secret X p
        | None \<Rightarrow> fresh_jwt_secret X p)))"

definition load_or_create_cert :: "path \<Rightarrow> (string \<times> string) noact" where
  "load_or_create_cert dir =
     (let cert_path = dir @ [''cert.pem'']; key_path = dir @ [''key.pem''] in
      bnd (gets (\<lambda>n. (read_to_string cert_path (n_client n), read_to_string key_path (n_client n)))) (\<lambda>found.
      case found of (Some cert, Some key) \<Rightarrow> ret (cert, key)
      | _ \<Rightarrow>
        bnd (ask os_self_signed) (\<lambda>made.
        bnd (of_res made) (\<lambda>(cert, key).
        bnd (map_err (\<lambda>e. ''could not write cert: '' @ e) (on_disk (write_file cert_path (ascii cert)))) (\<lambda>_.
        bnd (map_err (\<lambda>e. ''could not write key: '' @ e) (on_disk (write_file key_path (ascii key)))) (\<lambda>_.
        ret (cert, key)))))))"

text \<open>At most 200 rounds: has the task reported a failure, and does the port answer?\<close>

fun wait_rounds :: "nat \<Rightarrow> 16 word \<Rightarrow> unit noact" where
  "wait_rounds 0 port = fail ''embedded server did not start in time''"
| "wait_rounds (Suc k) port =
     bnd (ask os_signal) (\<lambda>s.
     case s of
       Task_Failed e \<Rightarrow> fail (''embedded server failed to start: '' @ e)
     | Task_Closed \<Rightarrow> fail ''embedded server exited during startup''
     | Task_Silent \<Rightarrow>
       bnd (ask (\<lambda>o' t. os_connect o' t port)) (\<lambda>up.
       if up then ret () else wait_rounds k port))"

definition wait_until_listening :: "16 word \<Rightarrow> unit noact" where
  "wait_until_listening port = wait_rounds 200 port"

definition spawn_server :: "server_config \<Rightarrow> (node, 'e, nat) act" where
  "spawn_server cfg = (\<lambda>n. (Inr (n_ticks n), n\<lparr>n_ticks := Suc (n_ticks n), n_tasks := n_tasks n @ [(n_ticks n, cfg)]\<rparr>))"

definition kill_task :: "nat \<Rightarrow> (node, 'e, unit) act" where
  "kill_task t = modify (\<lambda>n. n\<lparr>n_tasks := filter (\<lambda>x. fst x \<noteq> t) (n_tasks n)\<rparr>)"

definition sqlite_url :: "host_ext \<Rightarrow> path \<Rightarrow> string" where
  "sqlite_url H dir = ''sqlite:'' @ map (\<lambda>c. if c = CHR 0x5C then CHR ''/'' else c) (hx_path_text H (dir @ [''accord-host.db'']))"

definition embedded_config :: "host_ext \<Rightarrow> path \<Rightarrow> 16 word \<Rightarrow> string \<Rightarrow> bool \<Rightarrow> (string \<times> string) option \<Rightarrow> server_config" where
  "embedded_config H dir port secret invite tls = \<lparr>bind_ip = V6 0, bind_port = port, database_url = sqlite_url H dir,
     redis_url = [], jwt_secret = secret, access_token_ttl_secs = 3600, db_max_connections = 5, require_invite = invite,
     open_dms = True, tls_cert_pem = map_option fst tls, tls_key_pem = map_option snd tls\<rparr>"

text \<open>Spawning a server and waiting for it; a server that does not come up is aborted.\<close>

definition run_embedded :: "server_config \<Rightarrow> nat noact" where
  "run_embedded cfg =
     bnd (spawn_server cfg) (\<lambda>task.
     bnd (attempt (wait_until_listening (bind_port cfg))) (\<lambda>r.
     case r of Inl e \<Rightarrow> bnd (kill_task task) (\<lambda>_. fail e) | Inr _ \<Rightarrow> ret task))"

record started_server =
  sd_task :: nat
  sd_addr :: string
  sd_host :: string
  sd_cert :: "string option"

definition host_start_inner :: "host_ext \<Rightarrow> 16 word \<Rightarrow> bool \<Rightarrow> bool \<Rightarrow> started_server noact" where
  "host_start_inner H port invite tls =
     bnd (ask (\<lambda>o' t. os_bind4 o' t port)) (\<lambda>free4.
     bnd (ensure free4 (''port '' @ port_text port @ '' is already in use - is another Accord server running '' @
       ''(e.g. the standalone Server)? Stop it and try again.'')) (\<lambda>_.
     bnd (ask (\<lambda>o' t. os_bind6 o' t port)) (\<lambda>busy6.
     bnd (case busy6 of Some e \<Rightarrow> fail (''port '' @ port_text port @ '' unavailable: '' @ e) | None \<Rightarrow> ret ()) (\<lambda>_.
     bnd (map_err (\<lambda>e. ''could not create data dir: '' @ e) (on_disk (make_dir []))) (\<lambda>dir.
     bnd (if tls then bnd (load_or_create_cert dir) (\<lambda>c. ret (Some c)) else ret None) (\<lambda>cert.
     bnd (on_disk (load_or_create_jwt_secret (hx_client H) dir)) (\<lambda>secret.
     bnd (run_embedded (embedded_config H dir port secret invite cert)) (\<lambda>task.
     bnd (ask os_lan_ip) (\<lambda>ip.
     let lan_ip = case_option ''<your-LAN-ip>'' id ip in
     ret \<lparr>sd_task = task, sd_addr = (if tls then ''https'' else ''http'') @ ''://'' @ lan_ip @ '':'' @ port_text port,
          sd_host = lan_ip, sd_cert = map_option fst cert\<rparr>)))))))))"

definition on_local :: "(local_server \<Rightarrow> local_server) \<Rightarrow> (node, 'e, unit) act" where
  "on_local f = modify (\<lambda>n. n\<lparr>n_local := f (n_local n)\<rparr>)"

definition host_claim :: "string option noact" where
  "host_claim = bnd (gets n_local) (\<lambda>l.
     case ls_addr l of Some addr \<Rightarrow> ret (Some addr)
     | None \<Rightarrow> if ls_starting l then fail ''the embedded server is already starting''
         else bnd (on_local (\<lambda>l. l\<lparr>ls_starting := True\<rparr>)) (\<lambda>_. ret None))"

definition host_finish :: "16 word \<Rightarrow> bool \<Rightarrow> string + started_server \<Rightarrow> string noact" where
  "host_finish port invite result =
     bnd (on_local (\<lambda>l. l\<lparr>ls_starting := False\<rparr>)) (\<lambda>_.
     bnd (of_res result) (\<lambda>started.
     bnd (on_local (\<lambda>l. l\<lparr>ls_shutdown := Some (sd_task started), ls_handle := Some (sd_task started),
       ls_addr := Some (sd_addr started), ls_host := Some (sd_host started), ls_port := Some port,
       ls_private := invite, ls_cert := sd_cert started\<rparr>)) (\<lambda>_.
     bnd (node_emit (Dev_Server True (Some (sd_addr started)))) (\<lambda>_.
     ret (sd_addr started)))))"

definition host_start :: "host_ext \<Rightarrow> 16 word \<Rightarrow> bool \<Rightarrow> bool \<Rightarrow> string noact" where
  "host_start H port invite tls =
     bnd host_claim (\<lambda>c.
     case c of Some addr \<Rightarrow> ret addr
     | None \<Rightarrow> bnd (attempt (host_start_inner H port invite tls)) (host_finish port invite))"

definition host_stop :: "(node, 'e, unit) act" where
  "host_stop =
     bnd (gets (\<lambda>n. ls_shutdown (n_local n))) (\<lambda>tx.
     bnd (case tx of Some t \<Rightarrow> kill_task t | None \<Rightarrow> ret ()) (\<lambda>_.
     bnd (on_local (\<lambda>l. l\<lparr>ls_shutdown := None, ls_handle := None, ls_addr := None, ls_host := None, ls_port := None,
       ls_private := False, ls_cert := None\<rparr>)) (\<lambda>_.
     node_emit (Dev_Server False None))))"

definition dev_start_local_server :: "host_ext \<Rightarrow> 16 word option \<Rightarrow> string noact" where
  "dev_start_local_server H port = host_start H (case_option DEFAULT_HOST_PORT id port) False False"

section \<open>taverns.rs\<close>

definition tavern_ports :: "16 word list" where
  "tavern_ports = map of_nat [50052..<50308]"

definition meta_path :: path where "meta_path = [''hosted-taverns.json'']"

definition load_meta :: "host_ext \<Rightarrow> client \<Rightarrow> tavern_meta list" where
  "load_meta H c = (case Option.bind (read_file meta_path c) (metas_from_json H) of None \<Rightarrow> [] | Some ms \<Rightarrow> ms)"

definition save_meta :: "host_ext \<Rightarrow> tavern_meta list \<Rightarrow> unit clact" where
  "save_meta H metas =
     bnd (of_res (metas_to_json H metas)) (\<lambda>json.
     map_err (\<lambda>e. ''could not persist taverns: '' @ e) (write_file meta_path json))"

definition taverns_root :: "path noact" where
  "taverns_root = map_err (\<lambda>e. ''could not create taverns dir: '' @ e) (on_disk (make_dir [''taverns'']))"

definition port_is_free :: "16 word \<Rightarrow> (node, 'e, bool) act" where
  "port_is_free port =
     bnd (ask (\<lambda>o' t. os_bind4 o' t port)) (\<lambda>free4.
     if \<not> free4 then ret False else
     bnd (ask (\<lambda>o' t. os_bind6 o' t port)) (\<lambda>busy6. ret (busy6 = None)))"

fun first_free_port :: "16 word set \<Rightarrow> 16 word list \<Rightarrow> (node, 'e, 16 word option) act" where
  "first_free_port taken [] = ret None"
| "first_free_port taken (p # ps) =
     (if p \<in> taken then first_free_port taken ps
      else bnd (port_is_free p) (\<lambda>free. if free then ret (Some p) else first_free_port taken ps))"

definition spawn_tavern :: "host_ext \<Rightarrow> tavern_meta \<Rightarrow> (running_tavern \<times> tavern_connect) noact" where
  "spawn_tavern H meta =
     bnd taverns_root (\<lambda>root.
     bnd (map_err (\<lambda>e. ''could not create tavern dir: '' @ e) (on_disk (make_dir (root @ [tv_id meta])))) (\<lambda>dir.
     bnd (port_is_free (tv_port meta)) (\<lambda>free.
     bnd (ensure free (''port '' @ port_text (tv_port meta) @ '' is already in use'')) (\<lambda>_.
     bnd (load_or_create_cert dir) (\<lambda>cert.
     bnd (on_disk (load_or_create_jwt_secret (hx_client H) dir)) (\<lambda>secret.
     bnd (run_embedded (embedded_config H dir (tv_port meta) secret True (Some cert))) (\<lambda>task.
     ret (\<lparr>rt_shutdown = Some task, rt_handle = task, rt_port = tv_port meta\<rparr>,
          \<lparr>tc_id = tv_id meta, tc_name = tv_name meta, tc_endpoint = ''https://127.0.0.1:'' @ port_text (tv_port meta),
           tc_cert = Some (fst cert)\<rparr>))))))))"

definition add_running :: "string \<Rightarrow> running_tavern \<Rightarrow> (node, 'e, unit) act" where
  "add_running i r = modify (\<lambda>n. n\<lparr>n_taverns := AList.update i r (n_taverns n)\<rparr>)"

definition known_ids :: "host_ext \<Rightarrow> node \<Rightarrow> string list" where
  "known_ids H n = remdups (map tv_id (load_meta H (n_client n)) @ map fst (n_taverns n))"

definition create_tavern :: "host_ext \<Rightarrow> string \<Rightarrow> tavern_connect noact" where
  "create_tavern H name0 =
     (let name = trim name0 in
      if name = [] then fail ''tavern name is required'' else
      bnd (gets (\<lambda>n. load_meta H (n_client n))) (\<lambda>metas.
      bnd (gets (\<lambda>n. (length (known_ids H n), max_hosted_taverns (n_client n)))) (\<lambda>(count, max).
      bnd (ensure (\<not> (of_nat count :: 32 word) \<ge> max) (''hosted-tavern limit reached ('' @ show_nat (unat max) @
        ''). Raise it in Settings -> Network (each hosted tavern uses a port from 50052 up).'')) (\<lambda>_.
      bnd (gets (\<lambda>n. set (map (rt_port \<circ> snd) (n_taverns n)) \<union> set (map tv_port metas))) (\<lambda>taken.
      bnd (first_free_port taken tavern_ports) (\<lambda>p.
      bnd (some_or ''no free port available for a new tavern'' p) (\<lambda>port.
      bnd (ask os_uuid) (\<lambda>i.
      let meta = \<lparr>tv_id = i, tv_name = name, tv_port = port\<rparr> in
      bnd (spawn_tavern H meta) (\<lambda>(running, connect).
      bnd (add_running i running) (\<lambda>_.
      bnd (or_else () (on_disk (save_meta H (metas @ [meta])))) (\<lambda>_.
      ret connect)))))))))))"

definition resume_one :: "host_ext \<Rightarrow> tavern_meta \<Rightarrow> (node, 'e, tavern_connect list) act" where
  "resume_one H meta =
     bnd (gets (\<lambda>n. map_of (n_taverns n) (tv_id meta))) (\<lambda>r.
     if r \<noteq> None then ret [] else
     bnd (attempt (spawn_tavern H meta)) (\<lambda>s.
     case s of Inl e \<Rightarrow> ret []
     | Inr (running, connect) \<Rightarrow> bnd (add_running (tv_id meta) running) (\<lambda>_. ret [connect])))"

definition resume_hosted_taverns :: "host_ext \<Rightarrow> tavern_connect list noact" where
  "resume_hosted_taverns H =
     bnd (gets (\<lambda>n. load_meta H (n_client n))) (\<lambda>metas.
     bnd (map_each (resume_one H) metas) (\<lambda>out. ret (concat out)))"

definition stop_tavern :: "running_tavern \<Rightarrow> (node, 'e, unit) act" where
  "stop_tavern r =
     bnd (case rt_shutdown r of Some t \<Rightarrow> kill_task t | None \<Rightarrow> ret ()) (\<lambda>_. kill_task (rt_handle r))"

definition remove_dir_all :: "path \<Rightarrow> (client, 'e, unit) act" where
  "remove_dir_all dir = modify (\<lambda>c. if c_fault c dir \<noteq> None then c
     else c\<lparr>c_files := filter (\<lambda>(p, _). take (length dir) p \<noteq> dir) (c_files c)\<rparr>)"

definition delete_tavern :: "host_ext \<Rightarrow> string \<Rightarrow> unit noact" where
  "delete_tavern H i =
     bnd (gets (\<lambda>n. map_of (n_taverns n) i)) (\<lambda>r.
     case r of None \<Rightarrow> fail (''you don'' @ [CHR 0x27] @ ''t host this tavern (only the host can delete it)'')
     | Some running \<Rightarrow>
       bnd (modify (\<lambda>n. n\<lparr>n_taverns := AList.delete i (n_taverns n)\<rparr>)) (\<lambda>_.
       bnd (stop_tavern running) (\<lambda>_.
       bnd (gets (\<lambda>n. filter (\<lambda>m. tv_id m \<noteq> i) (load_meta H (n_client n)))) (\<lambda>metas.
       bnd (or_else () (on_disk (save_meta H metas))) (\<lambda>_.
       bnd (attempt taverns_root) (\<lambda>root.
       case root of Inl e \<Rightarrow> ret () | Inr d \<Rightarrow> on_disk (remove_dir_all (d @ [i]))))))))"

definition stop_all :: "(node, 'e, unit) act" where
  "stop_all =
     bnd (gets (\<lambda>n. map snd (n_taverns n))) (\<lambda>rs.
     bnd (modify (\<lambda>n. n\<lparr>n_taverns := []\<rparr>)) (\<lambda>_.
     for_each stop_tavern rs))"

section \<open>Hosted taverns do not collide\<close>

text \<open>Everything a start does leaves the tavern list on disk and the registry alone.\<close>

definition meta_kept :: "client \<Rightarrow> client \<Rightarrow> bool" where
  "meta_kept c c' \<longleftrightarrow> c_fault c' = c_fault c \<and> map_of (c_files c') meta_path = map_of (c_files c) meta_path \<and>
     c_settings c' = c_settings c"

interpretation mk: effect_order meta_kept
  by unfold_locales (simp_all add: meta_kept_def)

lemma mk_rng: "effect meta_kept (on_rng m)"
  by (auto simp: effect_def on_rng_snd meta_kept_def)

lemma mk_modify: "(\<And>c. c_fault (f c) = c_fault c \<and> c_files (f c) = c_files c \<and> c_settings (f c) = c_settings c) \<Longrightarrow> effect meta_kept (modify f)"
  by (simp add: effect_def modify_def meta_kept_def)

lemma mk_dek: "effect meta_kept dek"
  unfolding dek_def by (intro mk.eff_rules mk_rng mk_modify) simp_all

lemma mk_seal: "effect meta_kept (seal_bytes X b)" "effect meta_kept (open_bytes X b)"
  unfolding seal_bytes_def open_bytes_def by (intro mk.eff_rules mk_rng mk_dek)+

lemma mk_write: "last p \<noteq> last meta_path \<Longrightarrow> effect meta_kept (write_file p bs)"
  by (auto simp: effect_def write_file_def put_file_def meta_kept_def update_conv' split: option.splits io_fault.splits)

lemma mk_dir: "effect meta_kept (make_dir p)"
  by (simp add: effect_def make_dir_def meta_kept_def split: option.splits)

lemma mk_secret: "effect meta_kept (load_or_create_jwt_secret X dir)"
proof -
  have "effect meta_kept (fresh_jwt_secret X (dir @ [''host-jwt.secret'']))"
    unfolding fresh_jwt_secret_def by (intro mk.eff_rules mk_rng mk_seal mk_write) (simp add: meta_path_def)
  then show ?thesis
    unfolding load_or_create_jwt_secret_def Let_def by (intro mk.eff_rules mk_seal)
qed

definition calm :: "host_ext \<Rightarrow> node \<Rightarrow> node \<Rightarrow> bool" where
  "calm H n m \<longleftrightarrow> n_taverns m = n_taverns n \<and> n_os m = n_os n \<and> n_ticks n \<le> n_ticks m \<and>
     load_meta H (n_client m) = load_meta H (n_client n) \<and> c_settings (n_client m) = c_settings (n_client n)"

interpretation calm: effect_order "calm H" for H
  by unfold_locales (auto simp: calm_def)

lemma meta_kept_load: "meta_kept c c' \<Longrightarrow> load_meta H c' = load_meta H c"
  by (simp add: meta_kept_def load_meta_def read_file_def split: option.splits io_fault.splits)

lemma calm_disk:
  assumes "effect meta_kept m"
  shows "effect (calm H) (on_disk m)"
  unfolding effect_def
proof
  fix n :: node
  have "meta_kept (n_client n) (snd (m (n_client n)))" using assms by (simp add: effect_def)
  then show "calm H n (snd (on_disk m n))"
    using meta_kept_load [of "n_client n" "snd (m (n_client n))" H]
    by (cases "m (n_client n)") (simp add: calm_def on_disk_def zoom_def meta_kept_def)
qed

lemma calm_ask: "effect (calm H) (ask q)"
  by (simp add: effect_def ask_def calm_def)

lemma calm_attempt: "effect (calm H) m \<Longrightarrow> effect (calm H) (attempt m)"
  by (auto simp: effect_def attempt_def split: prod.splits) (metis snd_conv)

lemma calm_wait: "effect (calm H) (wait_rounds k p)"
proof (induction k)
  case (Suc k)
  have "effect (calm H) (case s of Task_Failed e \<Rightarrow> fail (''embedded server failed to start: '' @ e)
     | Task_Closed \<Rightarrow> fail ''embedded server exited during startup''
     | Task_Silent \<Rightarrow> bnd (ask (\<lambda>o' t. os_connect o' t p)) (\<lambda>up. if up then ret () else wait_rounds k p))" for s
    by (cases s) (auto intro!: calm.eff_rules calm_ask Suc simp del: wait_rounds.simps)
  then show ?case unfolding wait_rounds.simps by (intro calm.eff_bnd calm_ask)
qed (simp add: calm.eff_fail)

lemma calm_run: "effect (calm H) (run_embedded cfg)"
proof -
  have s: "effect (calm H) (spawn_server cfg)" "\<And>t. effect (calm H) (kill_task t)"
    by (simp_all add: effect_def spawn_server_def kill_task_def modify_def calm_def)
  show ?thesis unfolding run_embedded_def wait_until_listening_def
    by (intro calm.eff_bnd s calm_attempt calm_wait)
      (simp add: calm.eff_bnd calm.eff_ret calm.eff_fail s split: sum.splits)
qed

lemma calm_cert: "effect (calm H) (load_or_create_cert dir)"
proof -
  have w: "effect (calm H) (on_disk (write_file (dir @ [''cert.pem'']) b))" "effect (calm H) (on_disk (write_file (dir @ [''key.pem'']) b))" for b
    by (intro calm_disk mk_write, simp add: meta_path_def)+
  show ?thesis unfolding load_or_create_cert_def Let_def
    by (intro calm.eff_bnd calm.eff_gets)
      (auto split: option.splits intro!: calm.eff_rules calm_ask w)
qed

lemma calm_free: "effect (calm H) (port_is_free p)" "effect (calm H) (first_free_port taken ps)"
proof -
  show 1: "effect (calm H) (port_is_free p)" for p unfolding port_is_free_def by (intro calm.eff_rules calm_ask)
  show "effect (calm H) (first_free_port taken ps)" by (induction ps) (auto intro!: calm.eff_rules 1)
qed

lemma calm_root: "effect (calm H) taverns_root"
  unfolding taverns_root_def by (intro calm.eff_rules calm_disk mk_dir)

lemma calm_spawn: "effect (calm H) (spawn_tavern H' meta)"
  unfolding spawn_tavern_def
  by (intro calm.eff_rules calm_root calm_disk mk_dir mk_secret calm_cert calm_free calm_run)

text \<open>
  A tavern is known by its identifier and its port, from the registry or from disk; identifiers come from a
  generator that never repeats itself.  The laws of \<open>serde_json\<close>
  the proofs use: what was written is read back, and a truncated array is not JSON.
\<close>

definition known :: "host_ext \<Rightarrow> node \<Rightarrow> (string \<times> 16 word) set" where
  "known H n = set (map (\<lambda>(i, r). (i, rt_port r)) (n_taverns n)) \<union>
     set (map (\<lambda>m. (tv_id m, tv_port m)) (load_meta H (n_client n)))"

definition metas_law :: "host_ext \<Rightarrow> bool" where
  "metas_law H \<longleftrightarrow> (\<forall>ms bs. metas_to_json H ms = Inr bs \<longrightarrow>
     metas_from_json H bs = Some ms \<and> (\<forall>k<length bs. metas_from_json H (take k bs) = None))"

definition hosted_ok :: "host_ext \<Rightarrow> node \<Rightarrow> bool" where
  "hosted_ok H n \<longleftrightarrow> distinct (map fst (n_taverns n)) \<and> inj (os_uuid (n_os n)) \<and>
     (\<forall>i p. (i, p) \<in> known H n \<longrightarrow> p \<in> set tavern_ports \<and> (\<exists>t<n_ticks n. i = os_uuid (n_os n) t) \<and>
       (\<forall>j q. (j, q) \<in> known H n \<longrightarrow> (i = j) = (p = q)))"

text \<open>What a command may do to the registry besides adding one tavern.\<close>

definition shrinks :: "host_ext \<Rightarrow> node \<Rightarrow> node \<Rightarrow> bool" where
  "shrinks H n m \<longleftrightarrow> n_os m = n_os n \<and> n_ticks n \<le> n_ticks m \<and> known H m \<subseteq> known H n \<and>
     (distinct (map fst (n_taverns n)) \<longrightarrow> distinct (map fst (n_taverns m)))"

interpretation shr: effect_order "shrinks H" for H
  by unfold_locales (auto simp: shrinks_def)

lemma calm_shrinks: "calm H n m \<Longrightarrow> shrinks H n m"
  by (simp add: calm_def shrinks_def known_def)

lemma shrinks_effect: "effect (calm H) m \<Longrightarrow> effect (shrinks H) m"
  by (simp add: effect_def calm_shrinks)

lemma hosted_shrinks: "hosted_ok H n \<Longrightarrow> shrinks H n m \<Longrightarrow> hosted_ok H m"
  unfolding hosted_ok_def shrinks_def by (metis (no_types, lifting) order_less_le_trans subsetD)

lemma save_meta_load:
  assumes "metas_law H"
  shows "set (load_meta H (snd (save_meta H ms c))) \<subseteq> set ms \<union> set (load_meta H c)"
proof (cases "metas_to_json H ms")
  case (Inr bs)
  then have law: "metas_from_json H bs = Some ms" "\<And>k. k < length bs \<Longrightarrow> metas_from_json H (take k bs) = None"
    using assms by (simp_all add: metas_law_def)
  have e: "set (case metas_from_json H (take k bs) of None \<Rightarrow> [] | Some xs \<Rightarrow> xs) \<subseteq> set ms" for k
    using law by (cases "k < length bs") simp_all
  have w: "save_meta H ms c = (case write_file meta_path bs c of (Inl e, d) \<Rightarrow> (Inl (''could not persist taverns: '' @ e), d) | (Inr u, d) \<Rightarrow> (Inr u, d))"
    by (simp add: save_meta_def Inr bnd_def of_res_def map_err_def split: prod.splits sum.splits)
  show ?thesis
  proof (cases "c_fault c meta_path")
    case None
    then show ?thesis using law(1) by (simp add: w write_file_def put_file_def load_meta_def read_file_def update_conv')
  next
    case (Some f)
    then show ?thesis using e
      by (cases f) (auto simp: w write_file_def put_file_def load_meta_def read_file_def update_conv')
  qed
qed (simp add: save_meta_def bnd_def of_res_def)

lemma bnd_or_else_disk [run_simps]:
  "bnd (or_else () (on_disk m)) f n = f () (n\<lparr>n_client := snd (m (n_client n))\<rparr>)"
  by (simp add: bnd_def or_else_def on_disk_def zoom_def split: prod.splits sum.splits)

lemma saved:
  assumes "metas_law H"
  shows "known H (n\<lparr>n_client := snd (save_meta H ms (n_client n))\<rparr>) \<subseteq> known H n \<union> set (map (\<lambda>m. (tv_id m, tv_port m)) ms)"
  using save_meta_load [OF assms, of ms "n_client n"] by (auto simp: known_def)

lemma shr_kill: "effect (shrinks H) (kill_task t)" "effect (shrinks H) (stop_tavern r)"
proof -
  show k: "effect (shrinks H) (kill_task t)" for t
    by (simp add: effect_def kill_task_def modify_def shrinks_def known_def)
  show "effect (shrinks H) (stop_tavern r)" unfolding stop_tavern_def by (intro shr.eff_rules k)
qed

lemma shr_stop_all: "effect (shrinks H) stop_all"
proof -
  have "effect (shrinks H) (modify (\<lambda>n. n\<lparr>n_taverns := []\<rparr>))"
    by (auto simp: effect_def modify_def shrinks_def known_def)
  then show ?thesis unfolding stop_all_def by (intro shr.eff_rules shr_kill)
qed

lemma shr_remove_dir: "effect (shrinks H) (on_disk (remove_dir_all d))"
proof -
  have f: "map_of (filter (\<lambda>(p, _). take (length d) p \<noteq> d) xs) q = (if take (length d) q \<noteq> d then map_of xs q else None)"
    for xs :: "(path \<times> bytes) list" and q by (induction xs) auto
  have "load_meta H (c\<lparr>c_files := filter (\<lambda>(p, _). take (length d) p \<noteq> d) (c_files c)\<rparr>) \<in> {load_meta H c, []}" for c
    by (auto simp: load_meta_def read_file_def f split: option.splits io_fault.splits)
  then have "set (load_meta H (c\<lparr>c_files := filter (\<lambda>(p, _). take (length d) p \<noteq> d) (c_files c)\<rparr>)) \<subseteq> set (load_meta H c)" for c
    by (metis empty_iff empty_set insertE order_refl empty_subsetI)
  then show ?thesis
    by (auto simp: effect_def on_disk_def zoom_def remove_dir_all_def modify_def shrinks_def known_def)
qed

lemma shr_delete:
  assumes "metas_law H"
  shows "effect (shrinks H) (delete_tavern H i)"
proof -
  have d: "effect (shrinks H) (modify (\<lambda>n. n\<lparr>n_taverns := AList.delete i (n_taverns n)\<rparr>))"
    by (auto simp: effect_def modify_def shrinks_def known_def AList.delete_eq distinct_map_filter)
  have s: "effect (shrinks H) (bnd (gets (\<lambda>n. filter (\<lambda>m. tv_id m \<noteq> i) (load_meta H (n_client n))))
      (\<lambda>metas. bnd (or_else () (on_disk (save_meta H metas))) f))"
    if "\<And>x. effect (shrinks H) (f x)" for f :: "unit \<Rightarrow> unit noact"
    unfolding effect_def
  proof
    fix n :: node
    let ?ms = "filter (\<lambda>m. tv_id m \<noteq> i) (load_meta H (n_client n))"
    let ?m = "n\<lparr>n_client := snd (save_meta H ?ms (n_client n))\<rparr>"
    have 1: "shrinks H n ?m" using saved [OF assms, where n = n and ms = ?ms] by (auto simp: shrinks_def known_def)
    have "bnd (gets (\<lambda>n. filter (\<lambda>m. tv_id m \<noteq> i) (load_meta H (n_client n))))
      (\<lambda>metas. bnd (or_else () (on_disk (save_meta H metas))) f) n = f () ?m"
      by (simp add: run_simps)
    then show "shrinks H n (snd (bnd (gets (\<lambda>n. filter (\<lambda>m. tv_id m \<noteq> i) (load_meta H (n_client n))))
      (\<lambda>metas. bnd (or_else () (on_disk (save_meta H metas))) f) n))"
      using that [of "()"] 1 shr.eff_trans by (simp add: effect_def)
  qed
  have r: "effect (shrinks H) (case root of Inl e \<Rightarrow> ret () | Inr d \<Rightarrow> on_disk (remove_dir_all (d @ [i])))" for root :: "string + path"
    by (cases root) (simp_all add: shr.eff_ret shr_remove_dir)
  show ?thesis unfolding delete_tavern_def
    by (intro shr.eff_option shr.eff_bnd shr.eff_gets shr.eff_fail d shr_kill s r shrinks_effect [OF calm_attempt [OF calm_root]])
qed

lemma shr_add:
  assumes "spawn_tavern H meta n = (Inr (r, c), m)"
  shows "rt_port r = tv_port meta" "tc_endpoint c = ''https://127.0.0.1:'' @ port_text (tv_port meta)"
  using assms by (auto simp: spawn_tavern_def ok_simps)

lemma known_add: "known H (m\<lparr>n_taverns := AList.update i r (n_taverns m)\<rparr>) \<subseteq> insert (i, rt_port r) (known H m)"
proof -
  have "set (AList.update i r xs) \<subseteq> insert (i, r) (set xs)" for xs by (induction xs) auto
  from image_mono [OF this [of "n_taverns m"], of "\<lambda>(i, r). (i, rt_port r)"] show ?thesis
    unfolding known_def set_map by auto
qed

text \<open>One more tavern, under an identifier and a port nobody has.\<close>

lemma hosted_add:
  assumes "hosted_ok H n" "n_os m = n_os n" "n_ticks n \<le> n_ticks m" "distinct (map fst (n_taverns m))"
    and "known H m \<subseteq> insert (i, p) (known H n)" "p \<in> set tavern_ports" "\<exists>t<n_ticks m. i = os_uuid (n_os m) t"
    and "\<forall>j q. (j, q) \<in> known H n \<longrightarrow> j \<noteq> i \<and> q \<noteq> p"
  shows "hosted_ok H m"
  unfolding hosted_ok_def
proof (intro conjI allI impI)
  show "inj (os_uuid (n_os m))" using assms(1,2) by (simp add: hosted_ok_def)
  have k: "x \<in> known H m \<Longrightarrow> x = (i, p) \<or> x \<in> known H n" for x using assms(5) by auto
  fix j q assume jq: "(j, q) \<in> known H m"
  show "q \<in> set tavern_ports" using k [OF jq] assms(1,6) unfolding hosted_ok_def by blast
  show "\<exists>t<n_ticks m. j = os_uuid (n_os m) t"
    using k [OF jq] assms(1,2,3,7) unfolding hosted_ok_def by (metis order_less_le_trans prod.inject)
  fix j' q' assume jq': "(j', q') \<in> known H m"
  show "(j = j') = (q = q')" using k [OF jq] k [OF jq'] assms(1,8) unfolding hosted_ok_def by (metis prod.inject)
qed (rule assms(4))

lemma resume_ok:
  assumes "hosted_ok H n" "set ms \<subseteq> set (load_meta H (n_client n))"
  shows "hosted_ok H (snd (map_each (resume_one H) ms n :: (string + _) \<times> node))"
  using assms
proof (induction ms arbitrary: n)
  case (Cons meta ms)
  let ?r = "resume_one H meta n :: (string + tavern_connect list) \<times> node"
  have step: "hosted_ok H (snd ?r) \<and> load_meta H (n_client (snd ?r)) = load_meta H (n_client n)"
  proof (cases "map_of (n_taverns n) (tv_id meta)")
    case (Some x)
    then show ?thesis using Cons.prems by (simp add: resume_one_def run_simps ret_def)
  next
    case None
    obtain s n1 where s: "spawn_tavern H meta n = (s, n1)" by (cases "spawn_tavern H meta n")
    have c: "calm H n n1" by (rule effectD [OF calm_spawn s])
    then have ok: "hosted_ok H n1" using hosted_shrinks [OF Cons.prems(1)] calm_shrinks by blast
    show ?thesis
    proof (cases s)
      case (Inl e)
      then show ?thesis using s None c ok by (simp add: resume_one_def run_simps ret_def calm_def)
    next
      case (Inr rc)
      obtain r cn where rc: "rc = (r, cn)" by (cases rc)
      let ?m = "n1\<lparr>n_taverns := AList.update (tv_id meta) r (n_taverns n1)\<rparr>"
      have m: "snd ?r = ?m" using s Inr rc None
        by (simp add: resume_one_def run_simps add_running_def ret_def)
      have "(tv_id meta, rt_port r) \<in> known H n1"
        using shr_add(1) [of H meta n r cn n1] s Inr rc Cons.prems(2) c by (auto simp: known_def calm_def)
      then have "shrinks H n1 ?m" using known_add [where H = H and m = n1 and i = "tv_id meta" and r = r]
        by (auto simp: shrinks_def distinct_update)
      then show ?thesis unfolding m using hosted_shrinks [OF ok] c by (simp add: calm_def)
    qed
  qed
  obtain x n' where x: "?r = (x, n')" by (cases ?r)
  show ?case
  proof (cases x)
    case (Inr a)
    have "hosted_ok H (snd (map_each (resume_one H) ms n' :: (string + _) \<times> node))"
      using Cons.IH [of n'] step Cons.prems(2) x by auto
    then show ?thesis using x Inr
      by (cases "map_each (resume_one H) ms n' :: (string + _) \<times> node") (auto simp: bnd_def ret_def split: sum.splits)
  qed (use x step in \<open>simp add: bnd_def\<close>)
qed (simp add: ret_def)

lemma free_port_result:
  "(first_free_port taken ps n :: (string + _) \<times> _) = (Inr (Some p), m) \<Longrightarrow> p \<in> set ps \<and> p \<notin> taken"
  by (induction ps arbitrary: n) (auto simp: ok_simps split: if_splits)

lemma free_port_total: "\<exists>p m. first_free_port taken ps n = (Inr p, m)"
  by (induction ps arbitrary: n) (auto simp: port_is_free_def run_simps bnd_assoc ret_def [of "None"] ret_def [of "Some _"])

lemma known_ids_count:
  assumes "hosted_ok H n"
  shows "length (known_ids H n) \<le> 256" "card (fst ` known H n) = length (known_ids H n)" "finite (known H n)"
proof -
  show fin: "finite (known H n)" by (simp add: known_def)
  have s: "fst ` known H n = set (known_ids H n)" by (force simp: known_def known_ids_def)
  then show c: "card (fst ` known H n) = length (known_ids H n)" by (simp add: known_ids_def length_remdups_card_conv)
  have inj: "inj_on snd (known H n)" using assms by (auto simp: inj_on_def hosted_ok_def)
  have "snd ` known H n \<subseteq> set tavern_ports" using assms by (auto simp: hosted_ok_def)
  then have "card (known H n) \<le> card (set tavern_ports)" using inj by (metis card_inj_on_le finite_set)
  also have "\<dots> \<le> length tavern_ports" by (rule card_length)
  finally have "card (known H n) \<le> 256" by (simp add: tavern_ports_def)
  then show "length (known_ids H n) \<le> 256" using c card_image_le [OF fin, of fst] by simp
qed

lemma create_ok:
  assumes ok: "hosted_ok H n" and law: "metas_law H" and run: "create_tavern H name n = (r, m)"
  shows "hosted_ok H m \<and> (\<forall>c. r = Inr c \<longrightarrow> card (fst ` known H m) \<le> unat (max_hosted_taverns (n_client n)))"
proof -
  let ?ms = "load_meta H (n_client n)" and ?max = "max_hosted_taverns (n_client n)"
  let ?taken = "set (map (rt_port \<circ> snd) (n_taverns n)) \<union> set (map tv_port ?ms)"
  show ?thesis
  proof (cases "trim name = [] \<or> (of_nat (length (known_ids H n)) :: 32 word) \<ge> ?max")
    case True
    then have "m = n \<and> (\<forall>c. r \<noteq> Inr c)" using run by (auto simp: create_tavern_def run_simps fail_def Let_def split: if_splits)
    then show ?thesis using ok by simp
  next
    case False
    obtain p n1 where p: "first_free_port ?taken tavern_ports n = (Inr p :: string + _, n1)"
      using free_port_total by blast
    have c1: "calm H n n1" by (rule effectD [OF calm_free(2) p])
    then have ok1: "hosted_ok H n1" using hosted_shrinks [OF ok] calm_shrinks by blast
    have g: "\<not> ?max \<le> word_of_nat (length (known_ids H n))" "trim name \<noteq> []" using False by simp_all
    note run = run [unfolded create_tavern_def Let_def] 
    show ?thesis
    proof (cases p)
      case None
      then have "m = n1 \<and> (\<forall>c. r \<noteq> Inr c)" using run p g by (auto simp: run_simps bnd_def [of "first_free_port _ _"])
      then show ?thesis using ok1 by simp
    next
      case (Some port)
      let ?i = "os_uuid (n_os n1) (n_ticks n1)" and ?n2 = "n1\<lparr>n_ticks := Suc (n_ticks n1)\<rparr>"
      let ?meta = "\<lparr>tv_id = ?i, tv_name = trim name, tv_port = port\<rparr>"
      obtain s n3 where s: "spawn_tavern H ?meta ?n2 = (s, n3)" by (cases "spawn_tavern H ?meta ?n2")
      have c3: "calm H n n3" using c1 effectD [OF calm_spawn s, of H] by (auto simp: calm_def)
      show ?thesis
      proof (cases s)
        case (Inl e)
        then have "m = n3 \<and> (\<forall>c. r \<noteq> Inr c)" using run p g Some s
          by (auto simp: run_simps bnd_def [of "first_free_port _ _"] bnd_def [of "spawn_tavern _ _"])
        then show ?thesis using hosted_shrinks [OF ok calm_shrinks [OF c3]] by simp
      next
        case (Inr rc)
        obtain rt cn where rc: "rc = (rt, cn)" by (cases rc)
        let ?n4 = "n3\<lparr>n_taverns := AList.update ?i rt (n_taverns n3)\<rparr>"
        let ?m = "?n4\<lparr>n_client := snd (save_meta H (?ms @ [?meta]) (n_client ?n4))\<rparr>"
        have m: "m = ?m" using run p g Some s Inr rc
          by (auto simp: run_simps bnd_def [of "first_free_port _ _"] bnd_def [of "spawn_tavern _ _"] add_running_def ret_def)
        have rp: "rt_port rt = port" using shr_add(1) [of H ?meta ?n2 rt cn n3] s Inr rc by simp
        have k: "known H m \<subseteq> insert (?i, port) (known H n)"
        proof -
          have "known H ?n4 \<subseteq> insert (?i, port) (known H n)"
            using known_add [where H = H and m = n3 and i = ?i and r = rt] rp c3 by (auto simp: known_def calm_def)
          moreover have "set (map (\<lambda>m. (tv_id m, tv_port m)) (?ms @ [?meta])) \<subseteq> insert (?i, port) (known H n)"
            by (auto simp: known_def)
          ultimately show ?thesis unfolding m using saved [OF law, where n = ?n4 and ms = "?ms @ [?meta]"] by blast
        qed
        have new: "\<forall>j q. (j, q) \<in> known H n \<longrightarrow> j \<noteq> ?i \<and> q \<noteq> port"
        proof (intro allI impI conjI)
          fix j q assume jq: "(j, q) \<in> known H n"
          then obtain t where "t < n_ticks n" "j = os_uuid (n_os n) t" using ok unfolding hosted_ok_def by blast
          moreover have "inj (os_uuid (n_os n))" using ok by (simp add: hosted_ok_def)
          ultimately show "j \<noteq> ?i" using injD [of "os_uuid (n_os n)" t "n_ticks n1"] c1 by (auto simp: calm_def)
          show "q \<noteq> port" using free_port_result [OF p [unfolded Some]] jq by (force simp: known_def)
        qed
        have "hosted_ok H m"
        proof (rule hosted_add [OF ok _ _ _ k _ _ new])
          show "n_os m = n_os n" "n_ticks n \<le> n_ticks m" "distinct (map fst (n_taverns m))"
            using c3 ok unfolding m by (simp_all add: calm_def hosted_ok_def distinct_update)
          show "port \<in> set tavern_ports" using free_port_result [OF p [unfolded Some]] by simp
          show "\<exists>t<n_ticks m. ?i = os_uuid (n_os m) t"
            using c1 c3 effectD [OF calm_spawn s, of H] unfolding m by (intro exI [of _ "n_ticks n1"]) (simp add: calm_def)
        qed
        moreover have "card (fst ` known H m) \<le> unat ?max"
        proof -
          have f: "finite (known H n)" by (rule known_ids_count(3) [OF ok])
          have "card (fst ` known H m) \<le> card (insert ?i (fst ` known H n))" using k f by (intro card_mono) auto
          also have "\<dots> \<le> Suc (length (known_ids H n))"
            using known_ids_count(2) [OF ok] by (metis card_insert_le_m1 card_insert_if le_SucI f finite_imageI order_refl)
          also have "\<dots> \<le> unat ?max"
            using g(1) known_ids_count(1) [OF ok] by (simp add: not_le word_less_nat_alt unat_of_nat)
          finally show ?thesis .
        qed
        ultimately show ?thesis by simp
      qed
    qed
  qed
qed

text \<open>The tavern commands in any order.\<close>

datatype tavern_command = Create_Tavern string | Resume_Taverns | Delete_Tavern string | Stop_All

fun tavern_exec :: "host_ext \<Rightarrow> tavern_command \<Rightarrow> node \<Rightarrow> node" where
  "tavern_exec H (Create_Tavern name) n = snd (create_tavern H name n)"
| "tavern_exec H Resume_Taverns n = snd (resume_hosted_taverns H n)"
| "tavern_exec H (Delete_Tavern i) n = snd (delete_tavern H i n)"
| "tavern_exec H Stop_All n = snd (stop_all n :: (string + unit) \<times> node)"

lemma tavern_exec_ok: "metas_law H \<Longrightarrow> hosted_ok H n \<Longrightarrow> hosted_ok H (tavern_exec H c n)"
proof (cases c)
  case (Create_Tavern name)
  assume "metas_law H" "hosted_ok H n"
  then show ?thesis using create_ok [of H n name "fst (create_tavern H name n)" "snd (create_tavern H name n)"]
    by (simp add: Create_Tavern)
next
  case Resume_Taverns
  assume ok: "hosted_ok H n"
  have "snd (resume_hosted_taverns H n) = snd (map_each (resume_one H) (load_meta H (n_client n)) n :: (string + _) \<times> node)"
    by (simp add: resume_hosted_taverns_def run_simps)
      (cases "map_each (resume_one H) (load_meta H (n_client n)) n :: (string + _) \<times> node", auto simp: bnd_def ret_def split: sum.splits)
  then show ?thesis using resume_ok [OF ok, of "load_meta H (n_client n)"] by (simp add: Resume_Taverns)
next
  case (Delete_Tavern i)
  assume "metas_law H" "hosted_ok H n"
  then show ?thesis using shr_delete [of H i] hosted_shrinks by (auto simp: Delete_Tavern effect_def)
next
  case Stop_All
  assume "hosted_ok H n"
  then show ?thesis using shr_stop_all [of H] hosted_shrinks by (auto simp: Stop_All effect_def)
qed

lemma tavern_run_ok: "metas_law H \<Longrightarrow> hosted_ok H n \<Longrightarrow> hosted_ok H (foldl (\<lambda>n c. tavern_exec H c n) n cs)"
  by (induction cs arbitrary: n) (simp_all add: tavern_exec_ok)

lemma running_ports: "hosted_ok H n \<Longrightarrow> distinct (map (rt_port \<circ> snd) (n_taverns n))"
proof -
  assume ok: "hosted_ok H n"
  have "x \<in> set (n_taverns n) \<Longrightarrow> (fst x, rt_port (snd x)) \<in> known H n" for x by (force simp: known_def)
  then have "inj_on (rt_port \<circ> snd) (set (n_taverns n))"
    using ok unfolding hosted_ok_def inj_on_def by (metis comp_apply distinct_map inj_on_def)
  then show ?thesis using ok by (auto simp: distinct_map hosted_ok_def)
qed


section \<open>The home server\<close>

definition claim_host :: "node \<Rightarrow> node option" where
  "claim_host n = (case host_claim n of (Inr None, n') \<Rightarrow> Some n' | _ \<Rightarrow> None)"

definition host_ok :: "local_server \<Rightarrow> bool" where
  "host_ok l \<longleftrightarrow> ls_handle l = ls_shutdown l \<and> (ls_shutdown l = None) = (ls_addr l = None) \<and>
     (ls_port l = None) = (ls_addr l = None) \<and> (ls_host l = None) = (ls_addr l = None) \<and> (ls_addr l = None \<longrightarrow> ls_cert l = None)"

lemma host_claim_run: "host_claim n = (case ls_addr (n_local n) of Some a \<Rightarrow> (Inr (Some a), n)
   | None \<Rightarrow> if ls_starting (n_local n) then (Inl ''the embedded server is already starting'', n)
       else (Inr None, n\<lparr>n_local := (n_local n)\<lparr>ls_starting := True\<rparr>\<rparr>))"
  by (simp add: host_claim_def run_simps on_local_def ret_def fail_def split: option.splits)

lemma host_finish_state: "n_local (snd (host_finish p b r n)) = (case r of Inl e \<Rightarrow> (n_local n)\<lparr>ls_starting := False\<rparr>
   | Inr d \<Rightarrow> (n_local n)\<lparr>ls_starting := False, ls_shutdown := Some (sd_task d), ls_handle := Some (sd_task d),
       ls_addr := Some (sd_addr d), ls_host := Some (sd_host d), ls_port := Some p, ls_private := b, ls_cert := sd_cert d\<rparr>)"
  by (cases r) (simp_all add: host_finish_def run_simps on_local_def node_emit_def bnd_def [of "of_res _"], simp_all add: of_res_def run_simps ret_def)

lemma host_stop_run: "host_stop n = (Inr (), n\<lparr>
     n_tasks := (case ls_shutdown (n_local n) of Some t \<Rightarrow> filter (\<lambda>x. fst x \<noteq> t) (n_tasks n) | None \<Rightarrow> n_tasks n),
     n_local := (n_local n)\<lparr>ls_shutdown := None, ls_handle := None, ls_addr := None, ls_host := None, ls_port := None,
       ls_private := False, ls_cert := None\<rparr>,
     n_events := n_events n @ [Dev_Server False None]\<rparr>)"
  by (simp add: host_stop_def run_simps on_local_def node_emit_def kill_task_def split: option.splits) (simp add: modify_def)

interpretation host_start: guarded_start claim_host "\<lambda>(p, b, r) n. snd (host_finish p b r n)" "\<lambda>n. snd (host_stop n :: (string + unit) \<times> node)"
  "\<lambda>n. ls_starting (n_local n)" "\<lambda>n. ls_addr (n_local n) \<noteq> None" "\<lambda>n. host_ok (n_local n)"
proof (unfold_locales, goal_cases)
  case (1 n m)
  then show ?case by (auto simp: claim_host_def host_claim_run split: option.splits if_splits)
next
  case (2 r n)
  show ?case by (cases r) (simp add: host_finish_state split: sum.splits)
next
  case (5 n m)
  then show ?case by (auto simp: claim_host_def host_claim_run host_ok_def split: option.splits if_splits)
next
  case (6 n r)
  then show ?case by (cases r) (simp add: host_finish_state host_ok_def split: sum.splits)
qed (simp_all add: host_stop_run host_ok_def)

text \<open>
  Whatever starts and stops of the home server overlap, at most one start is in flight; while it is, no server
  is up, so a finished start never overwrites a running server, and whenever one is up its task can be stopped
  and its address, host and port are known.
\<close>

theorem one_host_start:
  assumes "\<not> ls_starting (n_local n)" "host_ok (n_local n)"
    and "foldl (\<lambda>s c. start_step claim_host (\<lambda>(p, b, r) n. snd (host_finish p b r n)) (\<lambda>n. snd (host_stop n :: (string + unit) \<times> node)) c s)
      (n, 0) cs = (m, k)"
  shows "k \<le> 1 \<and> (k = 1 \<longrightarrow> ls_addr (n_local m) = None \<and> ls_shutdown (n_local m) = None) \<and> host_ok (n_local m)"
  proof -
  have 1: "k = (if ls_starting (n_local m) then 1 else 0)" "ls_starting (n_local m) \<longrightarrow> ls_addr (n_local m) = None" "host_ok (n_local m)"
    using host_start.one_at_a_time [OF _ _ _ assms(3)] assms(1,2) by simp_all
  then show ?thesis by (simp add: host_ok_def split: if_splits)
qed

text \<open>The embedded servers pass the start-up check: their address is public, so the secret must be their own.\<close>

lemma embedded_validates: "secret \<noteq> DEV_JWT_SECRET \<Longrightarrow> validate P (embedded_config H dir port secret invite tls) = Inr ()"
  by (simp add: validate_ok embedded_config_def sqlite_url_def DEV_DATABASE_URL_def)

lemma hex_no_dash: "CHR ''-'' \<notin> set (hex bs)"
  using hex_digits [of "CHR ''-''" bs] by auto

lemma fresh_secret_validates:
  assumes "fresh_jwt_secret X p c = (Inr secret, c')"
  shows "validate P (embedded_config H dir port secret invite tls) = Inr ()"
proof (rule embedded_validates)
  obtain k where "secret = hex (secret_bytes k)" using assms by (auto simp: fresh_jwt_secret_def ok_simps Let_def)
  then have "CHR ''-'' \<notin> set secret" using hex_no_dash by simp
  then show "secret \<noteq> DEV_JWT_SECRET" by (auto simp: DEV_JWT_SECRET_def)
qed

section \<open>A concrete host\<close>

definition demo_meta :: tavern_meta where
  "demo_meta = \<lparr>tv_id = ''a'', tv_name = ''Inn'', tv_port = 50052\<rparr>"

definition demo_hext :: host_ext where
  "demo_hext = \<lparr>hx_client = demo_cext, hx_path_text = (\<lambda>p. join_with ''/'' p),
     metas_to_json = (\<lambda>ms. if ms = [] then Inr [91, 93] else if ms = [demo_meta] then Inr [91, 49, 93] else Inl ''too long''),
     metas_from_json = (\<lambda>bs. if bs = [91, 93] then Some [] else if bs = [91, 49, 93] then Some [demo_meta] else None)\<rparr>"

definition demo_os :: os where
  "demo_os = \<lparr>os_mesh = True, os_bind4 = (\<lambda>t p. True), os_bind6 = (\<lambda>t p. None), os_signal = (\<lambda>t. Task_Silent),
     os_connect = (\<lambda>t p. True), os_lan_ip = (\<lambda>t. None), os_self_signed = (\<lambda>t. Inr (''cert'', ''key'')),
     os_uuid = (\<lambda>t. replicate t (CHR ''a'')), os_env_peers = None, os_utc_offset = (\<lambda>t. 0), os_http = (\<lambda>t. None),
     os_listing = (\<lambda>t u. None), os_page = (\<lambda>t u. None), os_probe = (\<lambda>t a. Some 5), os_tun = (\<lambda>t. Tun_Up),
     os_mesh_address = (\<lambda>k. ''200::1'')\<rparr>"

definition demo_node :: node where
  "demo_node = \<lparr>n_client = demo_client\<lparr>c_files := [(meta_path, [91, 49, 93])]\<rparr>,
     n_local = \<lparr>ls_shutdown = None, ls_handle = None, ls_starting = False, ls_addr = None, ls_host = None, ls_port = None,
       ls_private = False, ls_cert = None\<rparr>,
     n_taverns = [(''a'', \<lparr>rt_shutdown = Some 0, rt_handle = 0, rt_port = 50052\<rparr>)],
     n_mesh = \<lparr>mh_core = False, mh_tun = False, mh_address = None, mh_current_peers = [], mh_starting = False, mh_watchdog_gen = 0\<rparr>,
     n_tasks = [], n_events = [], n_os = demo_os, n_ticks = 2\<rparr>"

lemma demo_metas_law: "metas_law demo_hext"
  by (auto simp: metas_law_def demo_hext_def less_Suc_eq split: if_splits)

lemma demo_hosted: "hosted_ok demo_hext demo_node"
proof -
  have k: "known demo_hext demo_node = {(''a'', 50052)}"
    by (simp add: known_def demo_node_def load_meta_def read_file_def demo_client_def demo_hext_def demo_meta_def)
  have "(50052 :: 16 word) \<in> set tavern_ports"
    unfolding tavern_ports_def set_map by (rule image_eqI [of _ _ 50052]) simp_all
  moreover have "inj (os_uuid demo_os)" by (simp add: demo_os_def inj_def)
  moreover have "\<exists>t<n_ticks demo_node. ''a'' = os_uuid (n_os demo_node) t"
    by (rule exI [of _ 1]) (simp add: demo_node_def demo_os_def)
  ultimately show ?thesis unfolding hosted_ok_def k by (simp add: demo_node_def)
qed


end
