(* ===== verification/Client_Contacts.thy ===== *)
theory Client_Contacts
  imports Client_Chat Client_Hosting Friends_Service
begin

text \<open>
  The address book of the desktop client: \<open>commands/contacts.rs\<close> and \<open>commands/blocks.rs\<close>.

  Each list is a file sealed under the local data key.  Its JSON is a parameter, collected with the client's and
  the server's in \<open>social_ext\<close>.  The state \<open>shell\<close> joins the live session (\<open>app\<close>) with the home server's and the
  mesh's state, which a contact code quotes.
\<close>

record stored_contact =
  kc_pubkey :: bytes
  kc_name :: string
  kc_addresses :: "string list"
  kc_cert :: "string option"
  kc_host_user_id :: "string option"
  kc_verified :: bool

record contact_target =
  ct_name :: string
  ct_addresses :: "string list"
  ct_cert :: "string option"
  ct_host_user_id :: "string option"

record contact_dto =
  kd_id :: string
  kd_name :: string
  kd_fingerprint :: string
  kd_addresses :: "string list"
  kd_verified :: bool

record stored_block =
  bk_id :: string
  bk_name :: string
  bk_blocked_at_ms :: int

record outbox_entry =
  ob_peer_id :: string
  ob_peer_code :: string
  ob_peer_name :: string
  ob_kind :: string
  ob_my_display :: string
  ob_sent_at_ms :: int
  ob_delivered :: bool
  ob_peer_username :: "string option"
  ob_peer_display :: "string option"

type_synonym 'a codec = "('a \<Rightarrow> string + bytes) \<times> (bytes \<Rightarrow> 'a option)"

record social_ext =
  so_ext :: ext
  so_client :: client_ext
  contacts_json :: "stored_contact list codec"
  blocks_json :: "stored_block list codec"
  outbox_json :: "outbox_entry list codec"
  targets_json :: "string list codec"
  code_to_json :: "contact_code \<Rightarrow> bytes"
  b64_encode :: "bytes \<Rightarrow> string"

section \<open>Sealed lists\<close>

definition load_sealed :: "client_ext \<Rightarrow> string \<Rightarrow> 'a list codec \<Rightarrow> (client, 'e, 'a list) act" where
  "load_sealed X file J = or_else [] (
     bnd (make_dir []) (\<lambda>d.
     bnd (gets (read_file (d @ [file]))) (\<lambda>b.
     case b of None \<Rightarrow> ret []
     | Some bs \<Rightarrow> bnd (open_bytes X bs) (\<lambda>pt.
         ret (case Option.bind pt (snd J) of None \<Rightarrow> [] | Some l \<Rightarrow> l)))))"

definition save_sealed :: "client_ext \<Rightarrow> string \<Rightarrow> 'a list codec \<Rightarrow> 'a list \<Rightarrow> unit clact" where
  "save_sealed X file J l =
     bnd (of_res (fst J l)) (\<lambda>json.
     bnd (seal_bytes X json) (\<lambda>blob.
     bnd (make_dir []) (\<lambda>d. write_file (d @ [file]) blob)))"

section \<open>commands/contacts.rs\<close>

definition CONTACTS_FILE :: string where "CONTACTS_FILE = ''contacts.bin''"

definition load_contacts :: "social_ext \<Rightarrow> (client, 'e, stored_contact list) act" where
  "load_contacts S = load_sealed (so_client S) CONTACTS_FILE (contacts_json S)"

definition save_contacts :: "social_ext \<Rightarrow> stored_contact list \<Rightarrow> unit clact" where
  "save_contacts S = save_sealed (so_client S) CONTACTS_FILE (contacts_json S)"

definition to_hex :: "bytes \<Rightarrow> string" where
  "to_hex bs = hex bs"

definition contact_fingerprint :: "social_ext \<Rightarrow> bytes \<Rightarrow> string" where
  "contact_fingerprint S pubkey =
     (if length pubkey \<noteq> 32 then [] else
      case public_from_bytes (cx_prims (so_client S)) pubkey of Inl e \<Rightarrow> [] | Inr pk \<Rightarrow> fingerprint (cx_prims (so_client S)) pk)"

definition to_target :: "stored_contact \<Rightarrow> contact_target" where
  "to_target c = \<lparr>ct_name = kc_name c, ct_addresses = kc_addresses c, ct_cert = kc_cert c, ct_host_user_id = kc_host_user_id c\<rparr>"

definition lookup_contact :: "social_ext \<Rightarrow> string \<Rightarrow> (client, 'e, contact_target option) act" where
  "lookup_contact S i = bnd (load_contacts S) (\<lambda>cs.
     ret (map_option to_target (List.find (\<lambda>c. to_hex (kc_pubkey c) = i) cs)))"

definition to_contact_dto :: "social_ext \<Rightarrow> stored_contact \<Rightarrow> contact_dto" where
  "to_contact_dto S c = \<lparr>kd_id = to_hex (kc_pubkey c), kd_name = kc_name c, kd_fingerprint = contact_fingerprint S (kc_pubkey c),
     kd_addresses = kc_addresses c, kd_verified = kc_verified c\<rparr>"

definition decode_contact :: "social_ext \<Rightarrow> string \<Rightarrow> string + contact_code" where
  "decode_contact S code =
     (case contact_decode (b64_decode (so_ext S)) (contact_json_decode (so_ext S)) code of
        Inl e \<Rightarrow> Inl (contact_error_text e)
      | Inr parsed \<Rightarrow> if length (cc_identity_pubkey parsed) \<noteq> 32 then Inl ''contact code has an invalid identity key''
          else Inr parsed)"

definition code_name :: "contact_code \<Rightarrow> string" where
  "code_name parsed = case_option ''Unknown'' id (cc_name parsed)"

text \<open>The first contact with the key is refreshed from the code; otherwise a new one, not verified, is pushed.\<close>

fun upsert_contact :: "contact_code \<Rightarrow> stored_contact list \<Rightarrow> stored_contact list \<times> stored_contact" where
  "upsert_contact p [] =
     (let c = \<lparr>kc_pubkey = cc_identity_pubkey p, kc_name = code_name p, kc_addresses = cc_addresses p, kc_cert = cc_cert p,
        kc_host_user_id = cc_host_user_id p, kc_verified = False\<rparr> in ([c], c))"
| "upsert_contact p (c # cs) =
     (if kc_pubkey c = cc_identity_pubkey p
      then (let c' = c\<lparr>kc_name := code_name p, kc_addresses := cc_addresses p, kc_cert := cc_cert p,
              kc_host_user_id := cc_host_user_id p\<rparr> in (c' # cs, c'))
      else (case upsert_contact p cs of (cs', c') \<Rightarrow> (c # cs', c')))"

definition add_contact :: "social_ext \<Rightarrow> string \<Rightarrow> contact_dto clact" where
  "add_contact S code =
     bnd (of_res (decode_contact S code)) (\<lambda>parsed.
     bnd (load_contacts S) (\<lambda>contacts.
     case upsert_contact parsed contacts of (contacts', c) \<Rightarrow>
     bnd (save_contacts S contacts') (\<lambda>_.
     ret (to_contact_dto S c))))"

definition list_contacts :: "social_ext \<Rightarrow> contact_dto list clact" where
  "list_contacts S = bnd (load_contacts S) (\<lambda>cs. ret (map (to_contact_dto S) cs))"

definition remove_contact :: "social_ext \<Rightarrow> string \<Rightarrow> unit clact" where
  "remove_contact S i = bnd (load_contacts S) (\<lambda>cs.
     save_contacts S (filter (\<lambda>c. to_hex (kc_pubkey c) \<noteq> i) cs))"

fun set_first_verified :: "string \<Rightarrow> bool \<Rightarrow> stored_contact list \<Rightarrow> stored_contact list" where
  "set_first_verified i v [] = []"
| "set_first_verified i v (c # cs) =
     (if to_hex (kc_pubkey c) = i then c\<lparr>kc_verified := v\<rparr> # cs else c # set_first_verified i v cs)"

definition set_contact_verified :: "social_ext \<Rightarrow> string \<Rightarrow> bool \<Rightarrow> unit clact" where
  "set_contact_verified S i v = bnd (load_contacts S) (\<lambda>cs. save_contacts S (set_first_verified i v cs))"

section \<open>This device's own code\<close>

record shell =
  sh_app :: app
  sh_local :: local_server
  sh_mesh :: mesh_state
  sh_events :: "node_event list"
  sh_tries :: nat

type_synonym 'a shact = "(shell, string, 'a) act"

definition in_app :: "(app, 'e, 'a) act \<Rightarrow> (shell, 'e, 'a) act" where
  "in_app = zoom sh_app (\<lambda>a h. h\<lparr>sh_app := a\<rparr>)"

definition in_files :: "(client, 'e, 'a) act \<Rightarrow> (shell, 'e, 'a) act" where
  "in_files m = in_app (on_files m)"

definition shell_emit :: "node_event \<Rightarrow> (shell, 'e, unit) act" where
  "shell_emit e = modify (\<lambda>h. h\<lparr>sh_events := sh_events h @ [e]\<rparr>)"

definition my_addresses :: "shell \<Rightarrow> string list" where
  "my_addresses h =
     (let scheme = (if host_cert (sh_local h) \<noteq> None then ''https'' else ''http'');
          port = (case shareable (sh_local h) of Some (_, p, _) \<Rightarrow> p | None \<Rightarrow> DEFAULT_HOST_PORT)
      in (case shareable (sh_local h) of Some (host, p, _) \<Rightarrow> [scheme @ ''://'' @ host @ '':'' @ port_text p] | None \<Rightarrow> []) @
         (case current_address (sh_mesh h) of Some addr \<Rightarrow> [scheme @ ''://['' @ addr @ '']:'' @ port_text port] | None \<Rightarrow> []))"

definition my_contact_code :: "social_ext \<Rightarrow> string option \<Rightarrow> string shact" where
  "my_contact_code S name =
     bnd (in_files (load_or_create_master (so_client S))) (\<lambda>master.
     let pubkey = public_of (cx_prims (so_client S)) (contact_identity (so_client S) master) in
     bnd (gets (\<lambda>h. (my_addresses h, host_cert (sh_local h),
       Option.bind (map_of (se_map (sessions_of (sh_app h))) ''home'') ss_user_id))) (\<lambda>(addresses, cert, host_user_id).
     ret (contact_encode (b64_encode S) (code_to_json S)
       (contact_with_host_user_id host_user_id (contact_with_cert cert (contact_with_addresses addresses
         (contact_with_name name (contact_new pubkey))))))))"

section \<open>commands/blocks.rs\<close>

definition load_blocks :: "social_ext \<Rightarrow> (client, 'e, stored_block list) act" where
  "load_blocks S = load_sealed (so_client S) ''blocks.bin'' (blocks_json S)"

definition save_blocks :: "social_ext \<Rightarrow> stored_block list \<Rightarrow> unit clact" where
  "save_blocks S = save_sealed (so_client S) ''blocks.bin'' (blocks_json S)"

definition block_contact :: "social_ext \<Rightarrow> int \<Rightarrow> string \<Rightarrow> string \<Rightarrow> unit clact" where
  "block_contact S now i name = bnd (load_blocks S) (\<lambda>blocks.
     if \<exists>b\<in>set blocks. bk_id b = i then ret ()
     else save_blocks S (blocks @ [\<lparr>bk_id = i, bk_name = name, bk_blocked_at_ms = now\<rparr>]))"

definition unblock_contact :: "social_ext \<Rightarrow> string \<Rightarrow> unit clact" where
  "unblock_contact S i = bnd (load_blocks S) (\<lambda>blocks. save_blocks S (filter (\<lambda>b. bk_id b \<noteq> i) blocks))"

definition list_blocks :: "social_ext \<Rightarrow> (string \<times> string) list clact" where
  "list_blocks S = bnd (load_blocks S) (\<lambda>blocks. ret (map (\<lambda>b. (bk_id b, bk_name b)) blocks))"

section \<open>What a sealed list holds\<close>

definition list_codec :: "'a list codec \<Rightarrow> bool" where
  "list_codec J \<longleftrightarrow> (\<forall>l bs. fst J l = Inr bs \<longrightarrow> snd J bs = Some l)"

lemma bnd_make_dir: "bnd (make_dir p) f c = (case c_fault c p of Some e \<Rightarrow> (Inl (fault_message e), c) | None \<Rightarrow> f p c)"
  by (simp add: bnd_def make_dir_def split: option.splits)

lemma bnd_open: "unlocked k c \<Longrightarrow> bnd (open_bytes X b) f c =
   f (case open_blob (cx_prims X) k b of Inl e \<Rightarrow> None | Inr p \<Rightarrow> Some p) c"
  by (simp add: bnd_def open_bytes_unlocked)

lemma load_sealed_run:
  assumes "unlocked k c"
  shows "load_sealed X f J c = (Inr (if c_fault c [] \<noteq> None then [] else
     case Option.bind (read_file [f] c) (\<lambda>bs. case open_blob (cx_prims X) k bs of Inl e \<Rightarrow> None | Inr p \<Rightarrow> snd J p) of
       None \<Rightarrow> [] | Some l \<Rightarrow> l), c)"
proof (cases "c_fault c []")
  case None
  then show ?thesis
    by (cases "read_file [f] c")
      (simp_all add: load_sealed_def or_else_def bnd_make_dir run_simps ret_def [of "[]"] bnd_open [OF assms],
       simp add: ret_def split: sum.splits)
qed (simp add: load_sealed_def or_else_def bnd_make_dir)

lemma sealed_roundtrip:
  assumes "aead_exact (cx_prims X)" "list_codec J" "unlocked k c" "save_sealed X f J l c = (Inr u, c')"
  shows "load_sealed X f J c' = (Inr l, c')" "unlocked k c'" "c_fault c' = c_fault c"
    "p \<noteq> [f] \<Longrightarrow> read_file p c' = read_file p c"
proof -
  obtain json blob r where w: "fst J l = Inr json" "seal (cx_prims X) k json (c_rng c) = (Inr blob, r)"
    "c_fault c [] = None" "write_file [f] blob (c\<lparr>c_rng := r\<rparr>) = (Inr (), c')"
    using assms(3,4) by (auto simp: save_sealed_def ok_simps seal_bytes_unlocked make_dir_def split: option.splits)
  have c': "c' = put_file [f] blob (c\<lparr>c_rng := r\<rparr>)" "c_fault c [f] = None"
    using w(4) by (auto simp: write_file_def split: option.splits io_fault.splits)
  show u: "unlocked k c'" using assms(3) by (simp add: c')
  show "c_fault c' = c_fault c" by (simp add: c' put_file_def)
  have "read_file [f] c' = Some blob" using c'(2) by (simp add: c'(1) put_file_def read_file_def update_conv')
  moreover have "open_blob (cx_prims X) k blob = Inr json" using seal_open [OF assms(1) w(2)] .
  moreover have "snd J json = Some l" using assms(2) w(1) by (simp add: list_codec_def)
  moreover have "c_fault c' [] = None" using w(3) by (simp add: c' put_file_def)
  ultimately show "load_sealed X f J c' = (Inr l, c')" by (simp add: load_sealed_run [OF u])
  show "p \<noteq> [f] \<Longrightarrow> read_file p c' = read_file p c" by (simp add: c'(1) put_file_def read_file_def update_conv' split: option.splits io_fault.splits)
qed

definition find_contact :: "bytes \<Rightarrow> stored_contact list \<Rightarrow> stored_contact option" where
  "find_contact q cs = List.find (\<lambda>c. kc_pubkey c = q) cs"

definition refreshed :: "contact_code \<Rightarrow> bool \<Rightarrow> stored_contact" where
  "refreshed p v = \<lparr>kc_pubkey = cc_identity_pubkey p, kc_name = code_name p, kc_addresses = cc_addresses p, kc_cert = cc_cert p,
     kc_host_user_id = cc_host_user_id p, kc_verified = v\<rparr>"

lemma upsert_keys: "set (map kc_pubkey (fst (upsert_contact p cs))) = insert (cc_identity_pubkey p) (set (map kc_pubkey cs))"
  by (induction cs) (auto simp: Let_def split: prod.splits)

lemma upsert_find:
  "find_contact q (fst (upsert_contact p cs)) =
     (if q = cc_identity_pubkey p then Some (snd (upsert_contact p cs)) else find_contact q cs)"
  by (induction cs) (auto simp: find_contact_def Let_def split: prod.splits)

lemma upsert_new:
  "snd (upsert_contact p cs) = refreshed p (case find_contact (cc_identity_pubkey p) cs of None \<Rightarrow> False | Some c \<Rightarrow> kc_verified c)"
  by (induction cs) (auto simp: find_contact_def refreshed_def Let_def split: prod.splits)

lemma upsert_distinct: "distinct (map kc_pubkey cs) \<Longrightarrow> distinct (map kc_pubkey (fst (upsert_contact p cs)))"
proof (induction cs)
  case (Cons c cs)
  then show ?case using upsert_keys [of p cs] by (auto simp: Let_def split: prod.splits)
qed (simp add: Let_def)

lemma add_contact_result:
  assumes "aead_exact (cx_prims (so_client S))" "list_codec (contacts_json S)" "unlocked k c"
    and "load_contacts S c = (Inr cs :: string + _, c)" "distinct (map kc_pubkey cs)" "add_contact S code c = (Inr dto, c')"
  shows "\<exists>p cs'. decode_contact S code = Inr p \<and> load_contacts S c' = (Inr cs' :: string + _, c') \<and> distinct (map kc_pubkey cs') \<and>
    find_contact (cc_identity_pubkey p) cs' =
      Some (refreshed p (case find_contact (cc_identity_pubkey p) cs of None \<Rightarrow> False | Some old \<Rightarrow> kc_verified old)) \<and>
    (\<forall>q. q \<noteq> cc_identity_pubkey p \<longrightarrow> find_contact q cs' = find_contact q cs) \<and>
    dto = to_contact_dto S (the (find_contact (cc_identity_pubkey p) cs'))"
proof -
  obtain p where p: "decode_contact S code = Inr p" using assms(6) by (auto simp: add_contact_def ok_simps)
  let ?cs = "fst (upsert_contact p cs)"
  have s: "save_contacts S ?cs c = (Inr (), c')" "dto = to_contact_dto S (snd (upsert_contact p cs))"
    using assms(4,6) p by (auto simp: add_contact_def ok_simps split: prod.splits)
  have "load_contacts S c' = (Inr ?cs :: string + _, c')"
    unfolding load_contacts_def by (rule sealed_roundtrip(1) [OF assms(1,2,3) s(1) [unfolded save_contacts_def]])
  then show ?thesis using p s(2) upsert_distinct [OF assms(5)] by (auto simp: upsert_find upsert_new intro!: exI [of _ ?cs])
qed

text \<open>
  C40: Adding a contact.  When the command succeeds, the contact list on disk holds exactly one contact with
  the key of the pasted code, with the name, addresses, certificate and host user id of that code; it is
  marked verified exactly if a contact with this key was marked verified before (so the mark of a verified
  contact survives whatever the new code says about where to reach them), a new contact never is; and the
  contacts with other keys are what they were.
\<close>

theorem add_contact_spec:
  assumes "aead_exact (cx_prims (so_client S))" "list_codec (contacts_json S)" "unlocked k c"
    and "load_contacts S c = (Inr cs :: string + _, c)" "distinct (map kc_pubkey cs)" "add_contact S code c = (Inr dto, c')"
  shows "\<exists>p cs'. decode_contact S code = Inr p \<and> load_contacts S c' = (Inr cs' :: string + _, c') \<and> distinct (map kc_pubkey cs') \<and>
    find_contact (cc_identity_pubkey p) cs' =
      Some (refreshed p (case find_contact (cc_identity_pubkey p) cs of None \<Rightarrow> False | Some old \<Rightarrow> kc_verified old)) \<and>
    (\<forall>q. q \<noteq> cc_identity_pubkey p \<longrightarrow> find_contact q cs' = find_contact q cs) \<and>
    dto = to_contact_dto S (the (find_contact (cc_identity_pubkey p) cs'))"
  by (rule add_contact_result [OF assms])

section \<open>A concrete address book\<close>

definition demo_code :: contact_code where
  "demo_code = \<lparr>cc_v = 1, cc_identity_pubkey = replicate 32 9, cc_name = Some ''Bob'', cc_addresses = [''http://new''],
     cc_cert = None, cc_host_user_id = Some ''u''\<rparr>"

definition demo_old :: stored_contact where
  "demo_old = \<lparr>kc_pubkey = replicate 32 9, kc_name = ''Bob'', kc_addresses = [''http://old''], kc_cert = Some ''pem'',
     kc_host_user_id = None, kc_verified = True\<rparr>"

definition demo_social :: social_ext where
  "demo_social = \<lparr>
     so_ext = demo_ext\<lparr>b64_decode := (\<lambda>s. Some (ascii s)),
       contact_json_decode := (\<lambda>b. if b = ascii ''b'' then Some demo_code else None)\<rparr>,
     so_client = demo_cext,
     contacts_json = (\<lambda>l. if l = [demo_old] then Inr [1] else if l = [refreshed demo_code True] then Inr [2] else Inl ''none'',
       \<lambda>b. if b = [1] then Some [demo_old] else if b = [2] then Some [refreshed demo_code True] else None),
     blocks_json = (\<lambda>l. Inl ''none'', \<lambda>b. None), outbox_json = (\<lambda>l. if l = [] then Inr [] else Inl ''none'', \<lambda>b. Some []),
     targets_json = (\<lambda>l. Inl ''none'', \<lambda>b. None), code_to_json = (\<lambda>c. ascii ''b''), b64_encode = (\<lambda>b. ''b'')\<rparr>"

definition demo_book :: client where
  "demo_book = demo_client\<lparr>c_files := [([''contacts.bin''], replicate 24 0 @ demo_key @ replicate 24 0 @ [1])]\<rparr>"

lemma demo_book_facts:
  "aead_exact (cx_prims (so_client demo_social))" "list_codec (contacts_json demo_social)" "unlocked demo_key demo_book"
  "load_contacts demo_social demo_book = (Inr [demo_old] :: string + _, demo_book)" "distinct (map kc_pubkey [demo_old])"
  "decode_contact demo_social ''accordc:b'' = Inr demo_code"
proof -
  show "aead_exact (cx_prims (so_client demo_social))" using demo_client_facts(1) by (simp add: demo_social_def)
  have "demo_old \<noteq> refreshed demo_code True" by (simp add: demo_old_def refreshed_def demo_code_def)
  then show "list_codec (contacts_json demo_social)" by (auto simp: list_codec_def demo_social_def split: if_splits)
  show u: "unlocked demo_key demo_book" using demo_client_facts(3) by (simp add: demo_book_def)
  have "open_blob demo_prims demo_key (replicate 24 0 @ demo_key @ replicate 24 0 @ [1]) = Inr [1]"
    by (simp add: open_blob_def demo_prims_def NONCE_LEN_def WRAPPING_KEY_LEN_def demo_key_def)
  then show "load_contacts demo_social demo_book = (Inr [demo_old] :: string + _, demo_book)"
    unfolding load_contacts_def load_sealed_run [OF u]
    by (simp add: demo_social_def CONTACTS_FILE_def demo_book_def demo_client_def read_file_def demo_cext_def)
  show "decode_contact demo_social ''accordc:b'' = Inr demo_code"
    by (simp add: decode_contact_def contact_decode_def envelope_decode_def CONTACT_PREFIX_def demo_social_def strip_prefix_def
        trim_noop is_ws_def demo_code_def)
qed simp

lemma demo_add: "\<exists>dto c'. add_contact demo_social ''accordc:b'' demo_book = (Inr dto, c')"
proof -
  have u: "upsert_contact demo_code [demo_old] = ([refreshed demo_code True], refreshed demo_code True)"
    by (simp add: demo_code_def demo_old_def refreshed_def code_name_def Let_def)
  have n: "refreshed demo_code True \<noteq> demo_old" by (simp add: demo_old_def refreshed_def demo_code_def)
  obtain blob r where s: "seal (cx_prims demo_cext) demo_key [2] (c_rng demo_book) = (Inr blob, r)"
    by (simp add: seal_def demo_cext_def demo_prims_def ok_simps demo_key_def WRAPPING_KEY_LEN_def bnd_def fill_bytes_def act_defs)
  have b: "seal_bytes demo_cext [2] demo_book = (Inr blob, demo_book\<lparr>c_rng := r\<rparr>)"
    using seal_bytes_unlocked [OF demo_book_facts(3)] s by simp
  have f: "c_fault (demo_book\<lparr>c_rng := r\<rparr>) = (\<lambda>p. None)" by (simp add: demo_book_def demo_client_def)
  have j: "contacts_json demo_social = (fst (contacts_json demo_social), snd (contacts_json demo_social))"
    "fst (contacts_json demo_social) [refreshed demo_code True] = Inr [2]" "so_client demo_social = demo_cext"
    using n by (simp_all add: demo_social_def)
  have "save_contacts demo_social [refreshed demo_code True] demo_book =
      (Inr (), put_file [''contacts.bin''] blob (demo_book\<lparr>c_rng := r\<rparr>))"
    by (simp add: save_contacts_def save_sealed_def j(2,3) bnd_of_res bnd_def [of "seal_bytes _ _"] b bnd_make_dir f write_file_def
        CONTACTS_FILE_def)
  then show ?thesis
    by (simp add: add_contact_def bnd_of_res demo_book_facts(6) bnd_def [of "load_contacts _"] demo_book_facts(4) u
        bnd_def [of "save_contacts _ _"] ret_def del: upsert_contact.simps)
qed

theorem add_contact_spec_witness:
  "\<exists>dto c' cs'. add_contact demo_social ''accordc:b'' demo_book = (Inr dto, c') \<and>
     load_contacts demo_social c' = (Inr cs' :: string + _, c') \<and>
     find_contact (replicate 32 9) cs' = Some (refreshed demo_code True)"
proof -
  obtain dto c' where a: "add_contact demo_social ''accordc:b'' demo_book = (Inr dto, c')" using demo_add by blast
  show ?thesis using add_contact_spec [OF demo_book_facts(1-5) a] a demo_book_facts(6)
    by (auto simp: demo_code_def find_contact_def demo_old_def)
qed

end
