(* ===== verification/Client_Dms.thy ===== *)
theory Client_Dms
  imports Client_Contacts Mls_Relay
begin

text \<open>
  Direct messages across servers: \<open>commands/mls.rs\<close>, and the opening of a session's stream
  (\<open>start_session\<close> of \<open>commands/messaging.rs\<close>).

  \<open>sh_tries\<close> is how many connection attempts the supervisor makes in the twenty seconds that \<open>start_session\<close>
  waits.  The dialling of an address is the argument \<open>dial\<close>, as in \<open>Client_Sync\<close>.
\<close>

record opened_dm =
  od_server_id :: string
  od_group :: group_dto

record dm_conversation =
  dc_server_id :: string
  dc_group_id :: string
  dc_peer_id :: string
  dc_peer_name :: string
  dc_fingerprint :: string

record guest_session =
  gu_channel :: nat
  gu_endpoint :: string
  gu_token :: string
  gu_refresh_token :: string
  gu_user_id :: string
  gu_device_id :: string

text \<open>The outside of one run: dialling, the text of a status, MLS, the address a server sees, and the JSON parameters.\<close>

record net =
  nt_dial :: "string \<Rightarrow> string option \<Rightarrow> string + nat"
  nt_status :: "status \<Rightarrow> string"
  nt_mls :: mls_lib
  nt_my_ip :: "ip_addr option"
  nt_social :: social_ext

definition nt_ext :: "net \<Rightarrow> ext" where "nt_ext N = so_ext (nt_social N)"
definition nt_client :: "net \<Rightarrow> client_ext" where "nt_client N = so_client (nt_social N)"

definition in_world :: "(world, 'e, 'a) act \<Rightarrow> (shell, 'e, 'a) act" where
  "in_world m = in_app (on_world m)"

definition rpc_at :: "net \<Rightarrow> (req_meta \<Rightarrow> 'a rpc) \<Rightarrow> nat \<times> string \<Rightarrow> 'a shact" where
  "rpc_at N h creds = in_world (session_rpc (nt_status N) (nt_client N) h creds)"

section \<open>Opening a session's stream\<close>

datatype attempt_result = Opened | Try_Again | Gave_Up

definition stream_attempt :: "ext \<Rightarrow> client_ext \<Rightarrow> string \<Rightarrow> nat \<Rightarrow> app \<Rightarrow> attempt_result \<times> app" where
  "stream_attempt E X server_id ch a =
     (case current_token server_id a of
        None \<Rightarrow> (Try_Again, a)
      | Some token \<Rightarrow>
        (case open_channel server_id a of (tx, a) \<Rightarrow>
         let gone = (\<lambda>a. a\<lparr>ap_closed := (ap_closed a)(tx := True)\<rparr>)
         in case authed X token of
              Inl e \<Rightarrow> (Gave_Up, gone a)
            | Inr meta \<Rightarrow>
              (case on_world (remote ch (message_stream E meta)) a of
                 (Inl st, a) \<Rightarrow> (Try_Again, status_event server_id False
                   (gone (if status_code st = Some CodeUnauthenticated then refresh_access_token E server_id ch a else a)))
               | (Inr _, a) \<Rightarrow> (Opened, status_event server_id True a))))"

fun await_ready :: "nat \<Rightarrow> ext \<Rightarrow> client_ext \<Rightarrow> string \<Rightarrow> nat \<Rightarrow> (app, string, unit) act" where
  "await_ready 0 E X server_id ch = fail ''could not open the message stream''"
| "await_ready (Suc k) E X server_id ch = (\<lambda>a.
     case stream_attempt E X server_id ch a of
       (Opened, a) \<Rightarrow> (Inr (), a)
     | (Try_Again, a) \<Rightarrow> await_ready k E X server_id ch a
     | (Gave_Up, a) \<Rightarrow> (Inl ''could not open the message stream'', a))"

definition start_stream :: "net \<Rightarrow> string \<Rightarrow> nat \<Rightarrow> unit shact" where
  "start_stream N server_id ch = bnd (gets sh_tries) (\<lambda>k.
     in_app (await_ready k (nt_ext N) (nt_client N) server_id ch))"

section \<open>Small helpers\<close>

definition hex16 :: "bytes \<Rightarrow> string" where "hex16 bs = hex (take 8 bs)"

definition hex_full :: "bytes \<Rightarrow> string" where "hex_full bs = hex bs"

text \<open>\<open>u8::from_str_radix\<close> at base 16 on two characters: a leading plus sign is accepted.\<close>

definition hex_val :: "char \<Rightarrow> nat option" where
  "hex_val c = (let n = (of_char c :: nat) in
     if 48 \<le> n \<and> n \<le> 57 then Some (n - 48) else if 97 \<le> n \<and> n \<le> 102 then Some (n - 87)
     else if 65 \<le> n \<and> n \<le> 70 then Some (n - 55) else None)"

definition hex_pair :: "char \<Rightarrow> char \<Rightarrow> byte option" where
  "hex_pair a b = (if a = CHR ''+'' then map_option of_nat (hex_val b)
     else Option.bind (hex_val a) (\<lambda>x. map_option (\<lambda>y. of_nat (16 * x + y)) (hex_val b)))"

fun hex_bytes :: "string \<Rightarrow> bytes option" where
  "hex_bytes [] = Some []"
| "hex_bytes [c] = None"
| "hex_bytes (a # b # cs) = Option.bind (hex_pair a b) (\<lambda>x. map_option (\<lambda>xs. x # xs) (hex_bytes cs))"

definition hex_decode :: "string \<Rightarrow> bytes option" where
  "hex_decode s = (if length s mod 2 \<noteq> 0 then None else hex_bytes s)"

definition private_group_dto :: "string \<Rightarrow> string \<Rightarrow> group_dto" where
  "private_group_dto i name = \<lparr>gd_id = i, gd_name = name, gd_kind = ''private'', gd_channel_kind = ''text'',
     gd_member_count = 2, gd_category_id = [], gd_position = 0\<rparr>"

section \<open>The persisted targets\<close>

definition dm_targets :: "social_ext \<Rightarrow> (client, 'e, string list) act" where
  "dm_targets S = load_sealed (so_client S) ''dm-targets.bin'' (targets_json S)"

definition record_dm_target :: "social_ext \<Rightarrow> string \<Rightarrow> (client, 'e, unit) act" where
  "record_dm_target S contact_id =
     bnd (dm_targets S) (\<lambda>targets.
     if contact_id \<in> set targets then ret ()
     else or_else () (save_sealed (so_client S) ''dm-targets.bin'' (targets_json S) (targets @ [contact_id])))"

section \<open>Creating a group\<close>

definition engine_do :: "nat \<Rightarrow> 'a mlact \<Rightarrow> 'a shact" where
  "engine_do h m = map_err mls_error_display (in_app (on_engine h m))"

text \<open>One group for all devices of the peer: a commit and a welcome each; only the last commit is kept.\<close>

definition add_devices ::
  "mls_lib \<Rightarrow> bytes \<Rightarrow> nat \<Rightarrow> (string \<times> bytes) list \<Rightarrow> (welcome_target list \<times> bytes) shact" where
  "add_devices L group_id h devices =
     bnd (map_each (\<lambda>(device_id, key_package).
       bnd (engine_do h (add_member L group_id key_package)) (\<lambda>(commit, welcome).
       ret (\<lparr>wt_device_id = Some device_id, wt_welcome = welcome\<rparr>, commit))) devices) (\<lambda>added.
     ret (map fst added, if added = [] then [] else snd (last added)))"

definition create_dm_with ::
  "net \<Rightarrow> nat \<times> string \<Rightarrow> nat \<Rightarrow> string \<Rightarrow> string \<Rightarrow> string \<Rightarrow> group_dto shact" where
  "create_dm_with N creds h user_id peer_user_id peer_display =
     bnd (rpc_at N (\<lambda>meta. fetch_key_packages (nt_ext N) meta [peer_user_id]) creds) (\<lambda>packages.
     bnd (some_or ''peer has no published KeyPackages (have they logged in?)'' (map_of packages peer_user_id)) (\<lambda>devices.
     bnd (ensure (devices \<noteq> []) ''peer has no devices to add'') (\<lambda>_.
     bnd (in_app fresh_uuid) (\<lambda>u.
     let group_id = to_str (nt_ext N) u; gid = uuid_bytes u in
     bnd (engine_do h (create_group (nt_mls N) gid)) (\<lambda>_.
     bnd (add_devices (nt_mls N) gid h devices) (\<lambda>(welcomes, last_commit).
     bnd (in_app (persist_engine (nt_mls N) (nt_client N) h user_id)) (\<lambda>_.
     bnd (rpc_at N (\<lambda>meta. create_private_group (nt_ext N) meta \<lparr>vq_group_id = Some group_id, vq_name = peer_display,
       vq_member_ids = [peer_user_id], vq_welcomes = welcomes\<rparr>) creds) (\<lambda>_.
     ret (private_group_dto group_id peer_display)))))))))"

definition dm_session :: "app \<Rightarrow> string + nat \<times> string" where
  "dm_session a = (case sessions_active (sessions_of a) of None \<Rightarrow> Inl ''not connected''
     | Some s \<Rightarrow> (case Option.bind (se_active (sessions_of a)) (map_of (ap_handles a)) of
         None \<Rightarrow> Inl ''MLS engine not initialized'' | Some h \<Rightarrow> Inr (h, case_option [] id (ss_user_id s))))"

definition start_dm :: "net \<Rightarrow> string \<Rightarrow> group_dto shact" where
  "start_dm N username =
     bnd (gets (\<lambda>s. require_session (sessions_of (sh_app s)))) (\<lambda>r.
     bnd (of_res r) (\<lambda>creds.
     bnd (gets (\<lambda>s. dm_session (sh_app s))) (\<lambda>r.
     bnd (of_res r) (\<lambda>(h, user_id).
     bnd (rpc_at N (\<lambda>meta. lookup_user (nt_ext N) meta username) creds) (\<lambda>(peer_user_id, display).
     create_dm_with N creds h user_id peer_user_id (if display = [] then username else display))))))"

section \<open>Guest sessions on a contact's host\<close>

definition guest_context :: "contact_target \<Rightarrow> string \<Rightarrow> bytes" where
  "guest_context target host_user_id = ascii (''accord:dm-guest-pw:'' @ (case ct_cert target of Some c \<Rightarrow> c | None \<Rightarrow> host_user_id))"

definition guest_credentials :: "client_ext \<Rightarrow> identity_key_pair \<Rightarrow> contact_target \<Rightarrow> string \<Rightarrow> string \<times> string \<times> bytes" where
  "guest_credentials X master target host_user_id =
     (let pk = public_of (cx_prims X) (contact_identity X master) in
      (''dm-'' @ hex16 pk,
       hex_full (secret_bytes (derive_for_context (cx_prims X) master (guest_context target host_user_id))), pk))"

text \<open>A call without a token; the server sees the address it comes from.\<close>

definition no_auth :: "net \<Rightarrow> req_meta" where
  "no_auth N = \<lparr>rm_authorization = None, rm_remote_ip = nt_my_ip N\<rparr>"

definition guest_login :: "net \<Rightarrow> contact_target \<Rightarrow> string \<Rightarrow> guest_session shact" where
  "guest_login N target my_display =
     bnd (some_or ''this contact code has no host info - ask them for an updated code'' (ct_host_user_id target)) (\<lambda>host_user_id.
     bnd (of_res (connect_first (nt_dial N) (ct_addresses target) (ct_cert target))) (\<lambda>(endpoint, channel).
     bnd (in_files (load_or_create_master (nt_client N))) (\<lambda>master.
     case guest_credentials (nt_client N) master target host_user_id of (guest_user, guest_pass, pk) \<Rightarrow>
     bnd (or_else [] (in_world (remote channel (register (nt_ext N) (no_auth N)
       \<lparr>rq_username = guest_user, rq_display_name = my_display, rq_password = guest_pass, rq_invite_token = [],
        rq_identity_pubkey = pk\<rparr>)))) (\<lambda>_.
     bnd (in_files (device_name ''Desktop'')) (\<lambda>device.
     bnd (map_err (nt_status N) (in_world (remote channel (login (nt_ext N) guest_user guest_pass device)))) (\<lambda>lr.
     ret \<lparr>gu_channel = channel, gu_endpoint = endpoint, gu_token = lr_access_token lr,
          gu_refresh_token = lr_refresh_token lr, gu_user_id = lr_user_id lr, gu_device_id = lr_device_id lr\<rparr>))))))"

definition member_identities :: "mls_lib \<Rightarrow> nat \<Rightarrow> bytes \<Rightarrow> (shell, 'e, bytes list option) act" where
  "member_identities L h gid = or_else None (bnd (in_app (on_engine h (group_member_identities L gid))) (\<lambda>ms. ret (Some ms)))"

text \<open>The first private group of the list that the engine still knows and the peer is a member of.\<close>

fun find_dm :: "net \<Rightarrow> nat \<Rightarrow> bytes \<Rightarrow> string \<Rightarrow> group_summary list \<Rightarrow> (shell, 'e, group_dto option) act" where
  "find_dm N h peer_pub peer_name [] = ret None"
| "find_dm N h peer_pub peer_name (g # gs) =
     (if sm_kind g \<noteq> KindPrivate then find_dm N h peer_pub peer_name gs
      else bnd (member_identities (nt_mls N) h (mls_id (nt_ext N) (sm_group_id g))) (\<lambda>ms.
           if (case ms of None \<Rightarrow> False | Some l \<Rightarrow> peer_pub \<in> set l) then ret (Some (private_group_dto (sm_group_id g) peer_name))
           else find_dm N h peer_pub peer_name gs))"

definition find_existing_dm :: "net \<Rightarrow> nat \<times> string \<Rightarrow> nat \<Rightarrow> string \<Rightarrow> string \<Rightarrow> (shell, 'e, group_dto option) act" where
  "find_existing_dm N creds h contact_id peer_name =
     (case hex_decode contact_id of None \<Rightarrow> ret None
      | Some peer_pub \<Rightarrow>
        bnd (or_else None (bnd (rpc_at N (list_groups (nt_ext N)) creds) (\<lambda>gs. ret (Some gs)))) (\<lambda>groups.
        case groups of None \<Rightarrow> ret None | Some gs \<Rightarrow> find_dm N h peer_pub peer_name gs))"

definition KEY_PACKAGE_BATCH :: nat where "KEY_PACKAGE_BATCH = 5"

text \<open>A new engine under a new handle: the handles in use are the keys of the sessions.\<close>

definition fresh_handle :: "app \<Rightarrow> nat" where
  "fresh_handle a = Suc (foldr max (map snd (ap_handles a)) 0)"

definition attach_engine :: "string \<Rightarrow> engine \<Rightarrow> (app, 'e, nat) act" where
  "attach_engine server_id x = (\<lambda>a. let h = fresh_handle a in
     (Inr h, a\<lparr>ap_handles := AList.update server_id h (ap_handles a), ap_engine := (ap_engine a)(h := x)\<rparr>))"

definition dm_engine :: "net \<Rightarrow> string \<Rightarrow> engine shact" where
  "dm_engine N user_id =
     bnd (in_files (load_or_create_master (nt_client N))) (\<lambda>master.
     bnd (in_files (mls_load (nt_mls N) (nt_client N) user_id)) (\<lambda>cached.
     case cached of Some x \<Rightarrow> ret x
     | None \<Rightarrow> map_err mls_error_display (of_res (engine_new (cx_prims (nt_client N)) (nt_mls N)
         (contact_identity (nt_client N) master)))))"

text \<open>Key packages are generated on the engine before it is shared, and published.\<close>

definition publish_packages :: "net \<Rightarrow> nat \<Rightarrow> nat \<times> string \<Rightarrow> engine \<Rightarrow> engine shact" where
  "publish_packages N batch creds x =
     (case generate_key_packages (nt_mls N) batch x of
        (Inl e, _) \<Rightarrow> fail (mls_error_display e)
      | (Inr packages, x') \<Rightarrow>
        bnd (rpc_at N (\<lambda>meta. upload_key_packages (nt_ext N) meta packages) creds) (\<lambda>_. ret x'))"

definition register_dm_session :: "string \<Rightarrow> string option \<Rightarrow> guest_session \<Rightarrow> bool \<Rightarrow> (app, 'e, unit) act" where
  "register_dm_session server_id cert guest make_active = modify (\<lambda>a. a\<lparr>ap_world := (ap_world a)\<lparr>w_sessions :=
     (let ss = sessions_entry server_id (\<lambda>s. s\<lparr>ss_channel := Some (gu_channel guest), ss_endpoint := Some (gu_endpoint guest),
        ss_cert := cert, ss_user_id := Some (gu_user_id guest), ss_device_id := Some (gu_device_id guest),
        ss_token := Some (gu_token guest), ss_refresh_token := Some (gu_refresh_token guest)\<rparr>) (sessions_of a)
      in if make_active then ss\<lparr>se_active := Some server_id\<rparr> else ss)\<rparr>\<rparr>)"

definition open_dm_with_contact :: "net \<Rightarrow> string \<Rightarrow> string \<Rightarrow> bool \<Rightarrow> opened_dm shact" where
  "open_dm_with_contact N contact_id my_display make_active =
     bnd (in_files (lookup_contact (nt_social N) contact_id)) (\<lambda>t.
     bnd (some_or ''unknown contact'' t) (\<lambda>target.
     bnd (some_or ''this contact code has no host info - ask them for an updated code'' (ct_host_user_id target)) (\<lambda>host_user_id.
     bnd (guest_login N target my_display) (\<lambda>guest.
     let creds = (gu_channel guest, gu_token guest); server_id = ''dm:'' @ contact_id in
     bnd (dm_engine N (gu_user_id guest)) (\<lambda>x0.
     bnd (publish_packages N KEY_PACKAGE_BATCH creds x0) (\<lambda>x.
     bnd (in_app (attach_engine server_id x)) (\<lambda>h.
     bnd (in_app (register_dm_session server_id (ct_cert target) guest make_active)) (\<lambda>_.
     bnd (start_stream N server_id (gu_channel guest)) (\<lambda>_.
     bnd (find_existing_dm N creds h contact_id (ct_name target)) (\<lambda>existing.
     bnd (case existing of Some g \<Rightarrow> ret g
          | None \<Rightarrow> create_dm_with N creds h (gu_user_id guest) host_user_id (ct_name target)) (\<lambda>group.
     bnd (in_files (record_dm_target (nt_social N) contact_id)) (\<lambda>_.
     ret \<lparr>od_server_id = server_id, od_group = group\<rparr>))))))))))))"

definition open_contact_dm :: "net \<Rightarrow> string \<Rightarrow> string \<Rightarrow> opened_dm shact" where
  "open_contact_dm N contact_id my_display = open_dm_with_contact N contact_id my_display True"

definition reopen_dm_targets :: "net \<Rightarrow> string \<Rightarrow> (shell, 'e, unit) act" where
  "reopen_dm_targets N my_display =
     bnd (in_files (dm_targets (nt_social N))) (\<lambda>ids.
     for_each (\<lambda>contact_id. bnd (attempt (open_dm_with_contact N contact_id my_display False)) (\<lambda>r.
       case r of Inl e \<Rightarrow> ret () | Inr _ \<Rightarrow> shell_emit Dms_Changed)) ids)"

section \<open>The list of conversations\<close>

definition dm_sessions :: "app \<Rightarrow> (string \<times> nat \<times> string \<times> nat) list" where
  "dm_sessions a = List.map_filter (\<lambda>(i, s).
     if i = ''home'' \<or> starts_with ''dm:'' i
     then (case (ss_channel s, ss_token s, map_of (ap_handles a) i) of
             (Some ch, Some tok, Some h) \<Rightarrow> Some (i, ch, tok, h) | _ \<Rightarrow> None)
     else None) (se_map (sessions_of a))"

definition conversation :: "net \<Rightarrow> string \<Rightarrow> nat \<Rightarrow> bytes \<Rightarrow> group_summary \<Rightarrow> dm_conversation list shact" where
  "conversation N server_id h own g =
     (if sm_kind g \<noteq> KindPrivate then ret [] else
      bnd (member_identities (nt_mls N) h (mls_id (nt_ext N) (sm_group_id g))) (\<lambda>ms.
      case List.find (\<lambda>m. m \<noteq> own) (case_option [] id ms) of
        None \<Rightarrow> ret []
      | Some peer \<Rightarrow>
        bnd (in_files (lookup_contact (nt_social N) (hex_full peer))) (\<lambda>t.
        ret [\<lparr>dc_server_id = server_id, dc_group_id = sm_group_id g, dc_peer_id = hex_full peer,
              dc_peer_name = (case t of Some c \<Rightarrow> ct_name c | None \<Rightarrow> ''Unknown''),
              dc_fingerprint = contact_fingerprint (nt_social N) peer\<rparr>])))"

definition list_dms :: "net \<Rightarrow> dm_conversation list shact" where
  "list_dms N =
     bnd (gets (\<lambda>s. dm_sessions (sh_app s))) (\<lambda>ss.
     bnd (map_each (\<lambda>(server_id, ch, tok, h).
       bnd (of_res (authed (nt_client N) tok)) (\<lambda>meta.
       bnd (attempt (in_world (remote ch (list_groups (nt_ext N) meta)))) (\<lambda>r.
       case r of Inl st \<Rightarrow> ret []
       | Inr groups \<Rightarrow>
         bnd (gets (\<lambda>s. credential_identity (ap_engine (sh_app s) h))) (\<lambda>own.
         bnd (map_each (conversation N server_id h own) groups) (\<lambda>cs. ret (concat cs)))))) ss) (\<lambda>out.
     ret (concat out)))"

section \<open>An attempt is the opening of a supervisor's turn\<close>

lemma attempt_is_turn:
  "stream_attempt E X server_id ch a = (Try_Again, a') \<Longrightarrow>
     \<exists>secs n. supervisor_turn E L X V server_id ch user_id h inbound att a = (Retry_In secs, n, a')"
  "stream_attempt E X server_id ch a = (Gave_Up, a') \<Longrightarrow>
     \<exists>n. supervisor_turn E L X V server_id ch user_id h inbound att a = (Stopped, n, a')"
  by (auto simp: stream_attempt_def supervisor_turn_def Let_def split: option.splits prod.splits sum.splits)

text \<open>Waiting for the stream ends: with an open stream, or with the error after at most the given attempts.\<close>

lemma await_ready_outcome:
  "await_ready k E X server_id ch a = (r, a') \<Longrightarrow> r = Inr () \<or> r = Inl ''could not open the message stream''"
  by (induction k arbitrary: a) (auto simp: fail_def split: prod.splits attempt_result.splits)

section \<open>Reopening a direct message\<close>

text \<open>A conversation that is found again is a private group of the server the engine knows, with the peer in it.\<close>

lemma find_dm_member:
  assumes "(find_dm N h peer name gs s :: (string + _) \<times> _) = (Inr (Some g), s')"
  shows "\<exists>x\<in>set gs. sm_kind x = KindPrivate \<and> g = private_group_dto (sm_group_id x) name \<and>
    (\<exists>t t' ms. (member_identities (nt_mls N) h (mls_id (nt_ext N) (sm_group_id x)) t :: (string + _) \<times> _) = (Inr (Some ms), t') \<and>
       peer \<in> set ms)"
  using assms
proof (induction gs arbitrary: s)
  case (Cons x gs)
  show ?case
  proof (cases "sm_kind x = KindPrivate")
    case True
    obtain ms s1 where m: "(member_identities (nt_mls N) h (mls_id (nt_ext N) (sm_group_id x)) s :: (string + _) \<times> _) = (Inr ms, s1)"
      by (cases "member_identities (nt_mls N) h (mls_id (nt_ext N) (sm_group_id x)) s :: (string + _) \<times> _")
        (auto simp: member_identities_def or_else_def split: prod.splits)
    show ?thesis
    proof (cases "case ms of None \<Rightarrow> False | Some l \<Rightarrow> peer \<in> set l")
      case found: True
      then obtain l where l: "ms = Some l" "peer \<in> set l" by (auto split: option.splits)
      have "g = private_group_dto (sm_group_id x) name" using Cons.prems True found m by (auto simp: bnd_def ret_def)
      then show ?thesis using True m l by auto
    next
      case False
      then have "(find_dm N h peer name gs s1 :: (string + _) \<times> _) = (Inr (Some g), s')"
        using Cons.prems True m by (auto simp: bnd_def ret_def split: if_splits)
      from Cons.IH [OF this] show ?thesis by auto
    qed
  next
    case False
    then show ?thesis using Cons.IH [of s] Cons.prems by auto
  qed
qed (simp add: ret_def)

end
