(* ===== verification/Client_Friends.thy ===== *)
theory Client_Friends
  imports Client_Dms
begin

text \<open>
  Friend requests between home nodes: \<open>commands/friends.rs\<close>.  A request or an acceptance is parked on the
  peer's node under a guest session; what could not be delivered waits in a sealed outbox.

  The outbox mutex is held for one read-modify-write only; the network work of \<open>sync_friends\<close> runs between
  its snapshot and its merge.  The commands here run without interference; the lemmas on \<open>merge_outbox\<close> take
  the outbox as it is when the merge runs, whatever happened since the snapshot.
\<close>

record incoming_request_dto =
  ir_id :: string
  ir_name :: string
  ir_fingerprint :: string
  ir_code :: string
  ir_created_at_ms :: int

record pending_sent_dto =
  pe_peer_id :: string
  pe_name :: string
  pe_fingerprint :: string
  pe_delivered :: bool
  pe_sent_at_ms :: int
  pe_username :: "string option"
  pe_display_name :: "string option"

record code_peek =
  pk_peer_id :: string
  pk_name :: string
  pk_fingerprint :: string

record friends_sync =
  fs_incoming :: "incoming_request_dto list"
  fs_pending :: "pending_sent_dto list"

section \<open>The outbox\<close>

definition load_outbox :: "social_ext \<Rightarrow> (client, 'e, outbox_entry list) act" where
  "load_outbox S = load_sealed (so_client S) ''friend-outbox.bin'' (outbox_json S)"

definition save_outbox :: "social_ext \<Rightarrow> outbox_entry list \<Rightarrow> unit clact" where
  "save_outbox S = save_sealed (so_client S) ''friend-outbox.bin'' (outbox_json S)"

definition update_outbox :: "social_ext \<Rightarrow> (outbox_entry list \<Rightarrow> outbox_entry list \<times> bool) \<Rightarrow> outbox_entry list clact" where
  "update_outbox S mutate =
     bnd (load_outbox S) (\<lambda>outbox.
     case mutate outbox of (outbox', changed) \<Rightarrow>
     bnd (if changed then save_outbox S outbox' else ret ()) (\<lambda>_.
     ret outbox'))"

definition read_outbox :: "social_ext \<Rightarrow> (client, 'e, outbox_entry list) act" where
  "read_outbox S = load_outbox S"

text \<open>Dropping the entries of one peer and kind, and the push that follows.\<close>

definition without :: "string \<Rightarrow> string \<Rightarrow> outbox_entry list \<Rightarrow> outbox_entry list" where
  "without peer kind = filter (\<lambda>e. \<not> (ob_peer_id e = peer \<and> ob_kind e = kind))"

definition replace_entry :: "outbox_entry \<Rightarrow> outbox_entry list \<Rightarrow> outbox_entry list \<times> bool" where
  "replace_entry e outbox = (without (ob_peer_id e) ''request'' outbox @ [e], True)"

definition target_from_code :: "social_ext \<Rightarrow> string \<Rightarrow> string + contact_target \<times> bytes" where
  "target_from_code S code = (case decode_contact S code of Inl e \<Rightarrow> Inl e
     | Inr p \<Rightarrow> Inr (\<lparr>ct_name = code_name p, ct_addresses = cc_addresses p, ct_cert = cc_cert p,
         ct_host_user_id = cc_host_user_id p\<rparr>, cc_identity_pubkey p))"

definition hex_fingerprint :: "social_ext \<Rightarrow> string \<Rightarrow> string" where
  "hex_fingerprint S peer_id_hex = (case hex_bytes peer_id_hex of None \<Rightarrow> [] | Some b \<Rightarrow> contact_fingerprint S b)"

definition pending_dto :: "social_ext \<Rightarrow> outbox_entry \<Rightarrow> pending_sent_dto" where
  "pending_dto S e = \<lparr>pe_peer_id = ob_peer_id e, pe_name = ob_peer_name e, pe_fingerprint = hex_fingerprint S (ob_peer_id e),
     pe_delivered = ob_delivered e, pe_sent_at_ms = ob_sent_at_ms e, pe_username = ob_peer_username e,
     pe_display_name = ob_peer_display e\<rparr>"

section \<open>Delivery\<close>

definition deliver :: "net \<Rightarrow> outbox_entry \<Rightarrow> outbox_entry shact" where
  "deliver N e =
     bnd (of_res (target_from_code (nt_social N) (ob_peer_code e))) (\<lambda>(target, _).
     bnd (some_or (''peer'' @ [CHR 0x27] @ ''s code has no host info'') (ct_host_user_id target)) (\<lambda>recipient.
     bnd (guest_login N target (ob_my_display e)) (\<lambda>guest.
     bnd (my_contact_code (nt_social N) (Some (ob_my_display e))) (\<lambda>my_code.
     let creds = (gu_channel guest, gu_token guest) in
     bnd (rpc_at N (\<lambda>meta. call (send_friend_request (nt_ext N) meta
       \<lparr>sf_recipient = Some recipient, sf_kind = ob_kind e, sf_contact_code = my_code\<rparr>)) creds) (\<lambda>_.
     bnd (attempt (rpc_at N (\<lambda>meta. call (get_public_profile (nt_ext N) meta (Some recipient))) creds)) (\<lambda>profile.
     ret (case profile of Inl x \<Rightarrow> e
          | Inr (username, display_name) \<Rightarrow> e\<lparr>ob_peer_username := Some username, ob_peer_display := Some display_name\<rparr>)))))))"

text \<open>\<open>entry.delivered = deliver(..).await.is_ok()\<close>.\<close>

definition try_deliver :: "net \<Rightarrow> outbox_entry \<Rightarrow> (shell, 'e, outbox_entry) act" where
  "try_deliver N e = bnd (attempt (deliver N e)) (\<lambda>r.
     ret (case r of Inl x \<Rightarrow> e\<lparr>ob_delivered := False\<rparr> | Inr e' \<Rightarrow> e'\<lparr>ob_delivered := True\<rparr>))"

definition home_creds :: "shell \<Rightarrow> string + nat \<times> string" where
  "home_creds h = (case channel_token_for ''home'' (sessions_of (sh_app h)) of
     None \<Rightarrow> Inl ''not signed in to your home server'' | Some c \<Rightarrow> Inr c)"

definition delete_parked :: "net \<Rightarrow> nat \<times> string \<Rightarrow> string \<Rightarrow> (shell, 'e, unit) act" where
  "delete_parked N creds i = or_else () (rpc_at N (\<lambda>meta. call (delete_friend_request (nt_ext N) meta i)) creds)"

section \<open>Commands\<close>

definition new_entry :: "string \<Rightarrow> contact_target \<times> bytes \<Rightarrow> string \<Rightarrow> string \<Rightarrow> int \<Rightarrow> outbox_entry" where
  "new_entry code t kind my_display now = \<lparr>ob_peer_id = to_hex (snd t), ob_peer_code = code, ob_peer_name = ct_name (fst t),
     ob_kind = kind, ob_my_display = my_display, ob_sent_at_ms = now, ob_delivered = False, ob_peer_username = None,
     ob_peer_display = None\<rparr>"

definition cmd_send_friend_request :: "net \<Rightarrow> string \<Rightarrow> string \<Rightarrow> pending_sent_dto shact" where
  "cmd_send_friend_request N code my_display =
     bnd (of_res (target_from_code (nt_social N) (trim code))) (\<lambda>t.
     bnd (ensure (ct_host_user_id (fst t) \<noteq> None)
       ''this code has no host info - ask your friend for a freshly generated code'') (\<lambda>_.
     bnd (in_app clock_ms) (\<lambda>now.
     bnd (try_deliver N (new_entry (trim code) t ''request'' my_display now)) (\<lambda>e.
     bnd (in_files (update_outbox (nt_social N) (replace_entry e))) (\<lambda>_.
     bnd (shell_emit Friends_Changed) (\<lambda>_.
     ret (pending_dto (nt_social N) e)))))))"

definition own_display :: "string \<Rightarrow> outbox_entry \<Rightarrow> outbox_entry" where
  "own_display my_display e = (if ob_my_display e = [] then e\<lparr>ob_my_display := my_display\<rparr> else e)"

definition cmd_resend_friend_request :: "net \<Rightarrow> string \<Rightarrow> string \<Rightarrow> pending_sent_dto shact" where
  "cmd_resend_friend_request N peer_id my_display =
     bnd (in_files (read_outbox (nt_social N))) (\<lambda>outbox.
     bnd (some_or ''no pending request for this contact''
       (List.find (\<lambda>e. ob_peer_id e = peer_id \<and> ob_kind e = ''request'') outbox)) (\<lambda>e0.
     bnd (try_deliver N (own_display my_display e0)) (\<lambda>e1.
     bnd (in_app clock_ms) (\<lambda>now.
     let e = e1\<lparr>ob_sent_at_ms := now\<rparr> in
     bnd (in_files (update_outbox (nt_social N) (replace_entry e))) (\<lambda>_.
     bnd (shell_emit Friends_Changed) (\<lambda>_.
     if ob_delivered e then ret (pending_dto (nt_social N) e)
     else fail ''still unreachable - the request stays queued and retries automatically''))))))"

definition peek_contact_code :: "social_ext \<Rightarrow> string \<Rightarrow> string + code_peek" where
  "peek_contact_code S code = (case target_from_code S (trim code) of Inl e \<Rightarrow> Inl e
     | Inr (target, identity) \<Rightarrow> Inr \<lparr>pk_peer_id = to_hex identity, pk_name = ct_name target,
         pk_fingerprint = contact_fingerprint S identity\<rparr>)"

text \<open>Step 1 of a sync: the entries that were delivered now.\<close>

definition retry_entry :: "net \<Rightarrow> string \<Rightarrow> outbox_entry \<Rightarrow> (shell, 'e, outbox_entry list) act" where
  "retry_entry N my_display e =
     (if ob_delivered e \<and> (ob_peer_display e \<noteq> None \<or> ob_kind e \<noteq> ''request'') then ret [] else
      bnd (attempt (deliver N (own_display my_display e))) (\<lambda>r.
      ret (case r of Inl x \<Rightarrow> [] | Inr e' \<Rightarrow> [e'\<lparr>ob_delivered := True\<rparr>])))"

text \<open>Step 2: one parked row; what to show of it and whose acceptance was consumed.\<close>

definition handle_parked ::
  "net \<Rightarrow> nat \<times> string \<Rightarrow> friend_request_policy \<Rightarrow> friend_request_row \<Rightarrow>
    (shell, 'e, incoming_request_dto list \<times> string list) act" where
  "handle_parked N creds policy row =
     (case target_from_code (nt_social N) (fe_contact_code row) of
        Inl e \<Rightarrow> bnd (delete_parked N creds (fe_id row)) (\<lambda>_. ret ([], []))
      | Inr (target, identity) \<Rightarrow>
        if fe_kind row = ''accept'' then
          bnd (attempt (in_files (add_contact (nt_social N) (fe_contact_code row)))) (\<lambda>r.
          case r of Inl e \<Rightarrow> ret ([], [])
          | Inr _ \<Rightarrow> bnd (delete_parked N creds (fe_id row)) (\<lambda>_. ret ([], [to_hex identity])))
        else if policy = NoOne then bnd (delete_parked N creds (fe_id row)) (\<lambda>_. ret ([], []))
        else ret ([\<lparr>ir_id = fe_id row, ir_name = ct_name target, ir_fingerprint = contact_fingerprint (nt_social N) identity,
                    ir_code = fe_contact_code row, ir_created_at_ms = fe_created_at_ms row\<rparr>], []))"

text \<open>Step 3: the merge into the outbox as it stands now.\<close>

definition mark_done :: "outbox_entry \<Rightarrow> outbox_entry \<Rightarrow> outbox_entry" where
  "mark_done d e = e\<lparr>ob_delivered := True,
     ob_peer_username := (if ob_peer_username d \<noteq> None then ob_peer_username d else ob_peer_username e),
     ob_peer_display := (if ob_peer_display d \<noteq> None then ob_peer_display d else ob_peer_display e)\<rparr>"

fun mark_first :: "outbox_entry \<Rightarrow> outbox_entry list \<Rightarrow> outbox_entry list \<times> bool" where
  "mark_first d [] = ([], False)"
| "mark_first d (e # es) =
     (if ob_peer_id e = ob_peer_id d \<and> ob_kind e = ob_kind d then (mark_done d e # es, True)
      else (case mark_first d es of (es', b) \<Rightarrow> (e # es', b)))"

definition finished :: "string list \<Rightarrow> outbox_entry \<Rightarrow> bool" where
  "finished accepted e \<longleftrightarrow> ob_kind e = ''request'' \<and> ob_peer_id e \<in> set accepted \<or> ob_kind e = ''accept'' \<and> ob_delivered e"

definition merge_outbox :: "outbox_entry list \<Rightarrow> string list \<Rightarrow> outbox_entry list \<Rightarrow> outbox_entry list \<times> bool" where
  "merge_outbox delivered accepted outbox =
     (case foldl (\<lambda>(es, b) d. case mark_first d es of (es', b') \<Rightarrow> (es', b \<or> b')) (outbox, False) delivered of
        (es, changed) \<Rightarrow>
          let es' = filter (\<lambda>e. \<not> finished accepted e) es in (es', changed \<or> length es' \<noteq> length es))"

definition sync_friends :: "net \<Rightarrow> string \<Rightarrow> friends_sync shact" where
  "sync_friends N my_display =
     bnd (in_files (read_outbox (nt_social N))) (\<lambda>snapshot.
     bnd (map_each (retry_entry N my_display) snapshot) (\<lambda>delivered_now.
     bnd (gets home_creds) (\<lambda>r.
     bnd (of_res r) (\<lambda>creds.
     bnd (rpc_at N (\<lambda>meta. call (list_friend_requests (nt_ext N) meta)) creds) (\<lambda>parked.
     bnd (in_files (gets friend_request_policy_of)) (\<lambda>policy.
     bnd (map_each (handle_parked N creds policy) parked) (\<lambda>results.
     bnd (in_files (update_outbox (nt_social N) (merge_outbox (concat delivered_now) (concat (map snd results))))) (\<lambda>outbox.
     bnd (if concat (map snd results) \<noteq> [] then shell_emit Friends_Changed else ret ()) (\<lambda>_.
     ret \<lparr>fs_incoming = concat (map fst results),
          fs_pending = map (pending_dto (nt_social N)) (filter (\<lambda>e. ob_kind e = ''request'') outbox)\<rparr>)))))))))"

definition accept_outbox :: "outbox_entry \<Rightarrow> outbox_entry list \<Rightarrow> outbox_entry list \<times> bool" where
  "accept_outbox e outbox = (without (ob_peer_id e) ''accept'' outbox @ (if ob_delivered e then [] else [e]), True)"

definition respond_friend_request :: "net \<Rightarrow> string \<Rightarrow> string \<Rightarrow> bool \<Rightarrow> string \<Rightarrow> unit shact" where
  "respond_friend_request N i code accept my_display =
     bnd (gets home_creds) (\<lambda>r.
     bnd (of_res r) (\<lambda>creds.
     if \<not> accept then delete_parked N creds i else
     bnd (in_files (add_contact (nt_social N) code)) (\<lambda>_.
     bnd (delete_parked N creds i) (\<lambda>_.
     bnd (of_res (target_from_code (nt_social N) code)) (\<lambda>t.
     bnd (in_app clock_ms) (\<lambda>now.
     bnd (try_deliver N (new_entry code t ''accept'' my_display now)) (\<lambda>e.
     bnd (in_files (update_outbox (nt_social N) (accept_outbox e))) (\<lambda>_.
     shell_emit Friends_Changed))))))))"

definition cancel_outbox :: "string \<Rightarrow> outbox_entry list \<Rightarrow> outbox_entry list \<times> bool" where
  "cancel_outbox peer_id outbox =
     (without peer_id ''request'' outbox, length (without peer_id ''request'' outbox) \<noteq> length outbox)"

definition cancel_friend_request :: "net \<Rightarrow> string \<Rightarrow> unit shact" where
  "cancel_friend_request N peer_id =
     bnd (in_files (update_outbox (nt_social N) (cancel_outbox peer_id))) (\<lambda>_. ret ())"

definition background_sync :: "net \<Rightarrow> string \<Rightarrow> (shell, 'e, unit) act" where
  "background_sync N my_display = bnd (attempt (sync_friends N my_display)) (\<lambda>_. ret ())"

section \<open>Identifiers\<close>

lemma hex_val_digit: "k < 16 \<Longrightarrow> hex_val (Crypto.hex_digit k) = Some k"
proof -
  assume "k < 16"
  then have "k \<in> set [0..<16]" by simp
  then show ?thesis by (auto simp: upt_rec Crypto.hex_digit_def hex_val_def)
qed

lemma hex_roundtrip: "hex_bytes (hex bs) = Some bs"
proof (induction bs)
  case (Cons b bs)
  have b: "unat b < 256" using unsigned_less [of b, where 'a = nat] by simp
  have d: "unat b div 16 < 16" using b by simp
  have p: "Crypto.hex_digit (unat b div 16) \<noteq> CHR ''+''"
    using nth_mem [of "unat b div 16" "''0123456789abcdef''"] d by (auto simp: Crypto.hex_digit_def)
  have "hex_pair (Crypto.hex_digit (unat b div 16)) (Crypto.hex_digit (unat b mod 16)) = Some b"
    using d p of_nat_add [of "16 * (unat b div 16)" "unat b mod 16", where 'a = byte]
    by (simp add: hex_pair_def hex_val_digit del: of_nat_add of_nat_mult)
  then show ?case using Cons by (simp add: hex_def)
qed (simp add: hex_def)

lemma pending_fingerprint: "hex_fingerprint S (to_hex pk) = contact_fingerprint S pk"
  by (simp add: hex_fingerprint_def to_hex_def hex_roundtrip)

section \<open>The merge\<close>

text \<open>What the merge may do to one entry: note its delivery, if one of the deliveries was for it.\<close>

definition noted :: "outbox_entry list \<Rightarrow> outbox_entry \<Rightarrow> outbox_entry \<Rightarrow> bool" where
  "noted D e e' \<longleftrightarrow> ob_peer_id e' = ob_peer_id e \<and> ob_peer_code e' = ob_peer_code e \<and> ob_peer_name e' = ob_peer_name e \<and>
     ob_kind e' = ob_kind e \<and> ob_my_display e' = ob_my_display e \<and> ob_sent_at_ms e' = ob_sent_at_ms e \<and>
     (e' \<noteq> e \<longrightarrow> ob_delivered e' \<and> (\<exists>d\<in>set D. ob_peer_id d = ob_peer_id e \<and> ob_kind d = ob_kind e))"

lemma noted_refl: "noted D e e" by (simp add: noted_def)

lemma noted_trans: "noted D e e' \<Longrightarrow> noted D e' e'' \<Longrightarrow> noted D e e''"
  by (auto simp: noted_def)

lemma list_all2_trans_noted: "list_all2 (noted D) xs ys \<Longrightarrow> list_all2 (noted D) ys zs \<Longrightarrow> list_all2 (noted D) xs zs"
  by (rule list_all2_trans [of "noted D" "noted D" "noted D"]) (auto intro: noted_trans)

lemma mark_first_noted: "d \<in> set D \<Longrightarrow> mark_first d es = (es', b) \<Longrightarrow> list_all2 (noted D) es es' \<and> (\<not> b \<longrightarrow> es' = es)"
proof (induction es arbitrary: es' b)
  case (Cons e es)
  show ?case
  proof (cases "ob_peer_id e = ob_peer_id d \<and> ob_kind e = ob_kind d")
    case True
    moreover have "noted D e (mark_done d e)" using True Cons.prems(1) by (auto simp: noted_def mark_done_def)
    ultimately show ?thesis using Cons.prems(2) by (auto simp: noted_refl list.rel_refl)
  next
    case False
    obtain fs c where "mark_first d es = (fs, c)" by (cases "mark_first d es")
    then show ?thesis using Cons.IH [OF Cons.prems(1)] Cons.prems(2) False by (auto simp: noted_refl)
  qed
qed simp

lemma marks_noted:
  assumes "set ds \<subseteq> set D" "foldl (\<lambda>(es, b) d. case mark_first d es of (es', b') \<Rightarrow> (es', b \<or> b')) (es, b) ds = (es', b')"
  shows "list_all2 (noted D) es es' \<and> (\<not> b' \<longrightarrow> es' = es \<and> \<not> b)"
  using assms
proof (induction ds arbitrary: es b)
  case (Cons d ds)
  obtain fs c where f: "mark_first d es = (fs, c)" by (cases "mark_first d es")
  have "list_all2 (noted D) es fs \<and> (\<not> c \<longrightarrow> fs = es)" using mark_first_noted [OF _ f, of D] Cons.prems(1) by simp
  moreover have "list_all2 (noted D) fs es' \<and> (\<not> b' \<longrightarrow> es' = fs \<and> \<not> (b \<or> c))"
    using Cons.IH [of fs "b \<or> c"] Cons.prems f by simp
  ultimately show ?case using list_all2_trans_noted by blast
qed (auto simp: list.rel_refl noted_refl)

text \<open>The entry that a delivery was for, if there is one, says it is delivered.\<close>

definition marked_sent :: "outbox_entry \<Rightarrow> outbox_entry list \<Rightarrow> bool" where
  "marked_sent d es \<longleftrightarrow> (case find (\<lambda>e. ob_peer_id e = ob_peer_id d \<and> ob_kind e = ob_kind d) es of
     None \<Rightarrow> True | Some e \<Rightarrow> ob_delivered e)"

lemma mark_first_sent: "marked_sent d (fst (mark_first d es))"
  by (induction es) (auto simp: marked_sent_def mark_done_def split: prod.splits)

lemma mark_first_keeps_sent: "marked_sent x es \<Longrightarrow> marked_sent x (fst (mark_first d es))"
  by (induction es) (auto simp: marked_sent_def mark_done_def split: prod.splits if_splits)

lemma marks_sent:
  assumes "foldl (\<lambda>(es, b) d. case mark_first d es of (es', b') \<Rightarrow> (es', b \<or> b')) (es, b) ds = (es', b')"
    and "\<forall>x\<in>D. marked_sent x es"
  shows "\<forall>x\<in>D \<union> set ds. marked_sent x es'"
  using assms
proof (induction ds arbitrary: es b D)
  case (Cons d ds)
  have "\<forall>x\<in>insert d D. marked_sent x (fst (mark_first d es))"
    using Cons.prems(2) mark_first_sent mark_first_keeps_sent by blast
  then show ?case using Cons.IH [of "fst (mark_first d es)" "b \<or> snd (mark_first d es)" "insert d D"] Cons.prems(1)
    by (auto split: prod.splits)
qed simp

text \<open>
  C38: Merging the results of a sync into the outbox as it stands when the network work is over.  Whatever
  the user did to the outbox in the meantime, every remaining entry is an entry of that outbox, at most with its
  delivery noted (and only if one of the deliveries was for its peer and kind), so a cancelled request never
  comes back and no queued one is lost; the entry each delivery was for, where it is still there, is noted as
  delivered, so nothing is sent twice; exactly the requests whose acceptance was consumed and the delivered
  acceptances are dropped; and the file is only left alone when nothing changed.
\<close>

theorem merge_keeps_what_the_user_did:
  "\<exists>marked. list_all2 (noted delivered) now marked \<and> (\<forall>d\<in>set delivered. marked_sent d marked) \<and>
     fst (merge_outbox delivered accepted now) = filter (\<lambda>e. \<not> finished accepted e) marked \<and>
     (\<not> snd (merge_outbox delivered accepted now) \<longrightarrow> fst (merge_outbox delivered accepted now) = now)"
proof -
  obtain es b where f: "foldl (\<lambda>(es, b) d. case mark_first d es of (es', b') \<Rightarrow> (es', b \<or> b')) (now, False) delivered = (es, b)"
    by (cases "foldl (\<lambda>(es, b) d. case mark_first d es of (es', b') \<Rightarrow> (es', b \<or> b')) (now, False) delivered")
  have m: "list_all2 (noted delivered) now es" "\<not> b \<Longrightarrow> es = now" using marks_noted [OF subset_refl f] by simp_all
  have "length (filter P xs) = length xs \<Longrightarrow> filter P xs = xs" for P and xs :: "outbox_entry list"
    by (metis filter_True length_filter_less order_less_irrefl)
  moreover have "\<forall>d\<in>set delivered. marked_sent d es" using marks_sent [OF f, of "{}"] by simp
  ultimately show ?thesis using m by (auto simp: merge_outbox_def f Let_def intro!: exI [of _ es])
qed

definition demo_entry :: "string \<Rightarrow> bool \<Rightarrow> outbox_entry" where
  "demo_entry peer sent = \<lparr>ob_peer_id = peer, ob_peer_code = ''c'', ob_peer_name = ''n'', ob_kind = ''request'', ob_my_display = ''m'',
     ob_sent_at_ms = 1, ob_delivered = sent, ob_peer_username = None, ob_peer_display = None\<rparr>"

theorem merge_keeps_what_the_user_did_witness:
  "merge_outbox [demo_entry ''p'' True, demo_entry ''q'' True] [] [demo_entry ''p'' False] = ([demo_entry ''p'' True], True) \<and>
   (\<exists>marked. list_all2 (noted [demo_entry ''p'' True, demo_entry ''q'' True]) [demo_entry ''p'' False] marked \<and>
     (\<forall>d\<in>set [demo_entry ''p'' True, demo_entry ''q'' True]. marked_sent d marked) \<and>
     [demo_entry ''p'' True] = filter (\<lambda>e. \<not> finished [] e) marked)"
proof -
  have "merge_outbox [demo_entry ''p'' True, demo_entry ''q'' True] [] [demo_entry ''p'' False] = ([demo_entry ''p'' True], True)"
    by (simp add: merge_outbox_def mark_done_def finished_def Let_def demo_entry_def)
  then show ?thesis
    using merge_keeps_what_the_user_did [of "[demo_entry ''p'' True, demo_entry ''q'' True]" "[demo_entry ''p'' False]" "[]"] by auto
qed

section \<open>Parked acceptances\<close>

definition book_of :: "shell \<Rightarrow> client" where "book_of h = files_of (sh_app h)"

definition servers_of :: "shell \<Rightarrow> nat \<Rightarrow> server" where "servers_of h = w_server (ap_world (sh_app h))"

lemma in_files_run: "in_files m h = (case m (book_of h) of (r, c) \<Rightarrow> (r, h\<lparr>sh_app := put_files c (sh_app h)\<rparr>))"
  by (simp add: in_files_def in_app_def on_files_def on_world_def on_client_def zoom_def book_of_def put_files_def
      split: prod.splits)

lemma put_files_servers: "servers_of (h\<lparr>sh_app := put_files c (sh_app h)\<rparr>) = servers_of h"
  "book_of (h\<lparr>sh_app := put_files c (sh_app h)\<rparr>) = c"
  by (simp_all add: servers_of_def book_of_def put_files_def)

lemma delete_parked_book: "book_of (snd (delete_parked N creds i h)) = book_of h"
proof -
  have "effect (\<lambda>h h'. book_of h' = book_of h) (rpc_at N f creds)" for f :: "req_meta \<Rightarrow> unit rpc"
    unfolding effect_def
    by (cases creds)
      (auto simp: rpc_at_def in_world_def in_app_def on_world_def session_rpc_def zoom_def bnd_def of_res_def map_err_def remote_def
        book_of_def split: prod.splits sum.splits option.splits)
  then show ?thesis
    by (auto simp: delete_parked_def or_else_def effect_def split: prod.splits) (metis snd_conv)
qed


text \<open>An acceptance is consumed whatever the policy says and whether or not a request was ever sent.\<close>

lemma acceptance_ignores_policy:
  "fe_kind row = ''accept'' \<Longrightarrow> handle_parked N creds NoOne row = handle_parked N creds Everyone row"
  by (simp add: handle_parked_def split: sum.splits prod.splits)

lemma bnd_delete_parked: "bnd (delete_parked N creds i) f g = f () (snd (delete_parked N creds i g :: ('e + unit) \<times> shell))"
  for f :: "unit \<Rightarrow> (shell, 'e, 'a) act"
  by (simp add: bnd_def delete_parked_def or_else_def split: prod.splits sum.splits)

text \<open>No row can make a sync fail.\<close>

lemma handle_parked_total: "\<exists>shown accepted h'. handle_parked N creds policy row h = (Inr (shown, accepted), h')"
  by (simp add: handle_parked_def run_simps bnd_delete_parked ret_def split: prod.splits sum.splits)

definition demo_net :: net where
  "demo_net = \<lparr>nt_dial = (\<lambda>e c. Inl ''unreachable''), nt_status = (\<lambda>s. ''refused''), nt_mls = demo_lib, nt_my_ip = None,
     nt_social = demo_social\<rparr>"

definition demo_shell :: shell where
  "demo_shell = \<lparr>sh_app = put_files demo_book demo_app, sh_local = n_local demo_node, sh_mesh = n_mesh demo_node,
     sh_events = [], sh_tries = 1\<rparr>"

definition demo_row :: friend_request_row where
  "demo_row = \<lparr>fe_id = ''r'', fe_kind = ''accept'', fe_contact_code = ''accordc:b'', fe_created_at_ms = 0\<rparr>"


end
