(* ===== verification/Client_Login.thy ===== *)
theory Client_Login
  imports Client_Friends
begin

text \<open>
  Signing in: \<open>register\<close>, \<open>login\<close>, \<open>login_with_key\<close> and the set-up both logins share, of
  \<open>commands/auth.rs\<close>.  The reopening of direct messages and the friend sync that a home login spawns run to
  their end after the set-up.
\<close>

definition LOGIN_KEY_PACKAGES :: nat where "LOGIN_KEY_PACKAGES = 10"

record login_info =
  li_user_id :: string
  li_device_id :: string

definition active_endpoint :: "app \<Rightarrow> string + nat \<times> string \<times> string option" where
  "active_endpoint a = (case sessions_active (sessions_of a) of None \<Rightarrow> Inl ''not connected''
     | Some s \<Rightarrow> (case ss_channel s of None \<Rightarrow> Inl ''not connected''
         | Some ch \<Rightarrow> Inr (ch, case_option [] id (ss_endpoint s), ss_cert s)))"

definition cmd_register :: "net \<Rightarrow> string \<Rightarrow> string \<Rightarrow> string \<Rightarrow> string option \<Rightarrow> unit shact" where
  "cmd_register N username password display_name invite_token =
     bnd (gets (\<lambda>h. active_endpoint (sh_app h))) (\<lambda>r.
     bnd (of_res r) (\<lambda>(channel, endpoint, cert).
     bnd (in_files (load_or_create_master (nt_client N))) (\<lambda>master.
     bnd (map_err (nt_status N) (in_world (remote channel (register (nt_ext N) (no_auth N)
       \<lparr>rq_username = username, rq_display_name = display_name, rq_password = password,
        rq_invite_token = case_option [] id invite_token,
        rq_identity_pubkey = derived_pubkey_for (nt_client N) master cert endpoint\<rparr>)))) (\<lambda>_.
     ret ()))))"

text \<open>The engine of a session: the local cache, the vault, or a new one.\<close>

definition session_signer :: "net \<Rightarrow> identity_key_pair \<Rightarrow> bool \<Rightarrow> string option \<Rightarrow> string \<Rightarrow> identity_key_pair" where
  "session_signer N master is_home cert endpoint =
     (if is_home then contact_identity (nt_client N) master else derive_for (nt_client N) master cert endpoint)"

definition session_engine ::
  "net \<Rightarrow> nat \<times> string \<Rightarrow> string \<Rightarrow> bool \<Rightarrow> string option \<Rightarrow> string \<Rightarrow> identity_key_pair \<Rightarrow> engine shact" where
  "session_engine N creds user_id is_home cert endpoint master =
     bnd (in_files (mls_load (nt_mls N) (nt_client N) user_id)) (\<lambda>cached.
     case cached of Some x \<Rightarrow> ret x
     | None \<Rightarrow>
     bnd (in_world (get_sealed (nt_ext N) (nt_client N) (fst creds) (snd creds) master MLS_STATE)) (\<lambda>blob.
     case Option.bind blob (\<lambda>bs. case from_serialized (nt_mls N) bs of Inl e \<Rightarrow> None | Inr x \<Rightarrow> Some x) of
       Some x \<Rightarrow> ret x
     | None \<Rightarrow> map_err mls_error_display (of_res (engine_new (cx_prims (nt_client N)) (nt_mls N)
         (session_signer N master is_home cert endpoint)))))"

definition spawn_flusher :: "(client, 'e, unit) act" where
  "spawn_flusher = modify (\<lambda>c. c\<lparr>c_sync := (c_sync c)\<lparr>sy_started := True\<rparr>\<rparr>)"

definition attach_login :: "string \<Rightarrow> string \<Rightarrow> string \<Rightarrow> string \<Rightarrow> engine \<Rightarrow> (app, string, string \<times> nat) act" where
  "attach_login user_id device_id token refresh x =
     bnd (gets (\<lambda>a. se_active (sessions_of a))) (\<lambda>active.
     bnd (some_or ''not connected'' active) (\<lambda>server_id.
     bnd (modify (\<lambda>a. a\<lparr>ap_world := (ap_world a)\<lparr>w_sessions := sessions_active_mut
       (\<lambda>s. s\<lparr>ss_user_id := Some user_id, ss_device_id := Some device_id, ss_token := Some token,
              ss_refresh_token := Some refresh\<rparr>) (sessions_of a)\<rparr>\<rparr>)) (\<lambda>_.
     bnd (attach_engine server_id x) (\<lambda>h. ret (server_id, h)))))"

definition finish_session :: "net \<Rightarrow> nat \<Rightarrow> string \<Rightarrow> login_response \<Rightarrow> unit shact" where
  "finish_session N channel username lr =
     (let user_id = lr_user_id lr; token = lr_access_token lr; creds = (channel, token) in
     bnd (gets (\<lambda>h. sessions_of (sh_app h))) (\<lambda>ss.
     let is_home = (se_active ss = Some ''home'');
         endpoint = case_option [] id (Option.bind (sessions_active ss) ss_endpoint);
         cert = Option.bind (sessions_active ss) ss_cert in
     bnd (in_files (load_or_create_master (nt_client N))) (\<lambda>master.
     bnd (session_engine N creds user_id is_home cert endpoint master) (\<lambda>x0.
     bnd (publish_packages N LOGIN_KEY_PACKAGES creds x0) (\<lambda>x.
     bnd (in_world (restore_all (nt_ext N) (nt_client N) channel token master user_id)) (\<lambda>_.
     bnd (in_files spawn_flusher) (\<lambda>_.
     bnd (in_files (mark_all_local_dirty user_id)) (\<lambda>_.
     bnd (in_app (attach_login user_id (lr_device_id lr) token (lr_refresh_token lr) x)) (\<lambda>(server_id, h).
     bnd (start_stream N server_id channel) (\<lambda>_.
     bnd (in_app (persist_engine (nt_mls N) (nt_client N) h user_id)) (\<lambda>_.
     if is_home then
       bnd (in_app clock_ms) (\<lambda>now.
       bnd (in_files (record_account (nt_client N) now username)) (\<lambda>_.
       bnd (reopen_dm_targets N username) (\<lambda>_.
       background_sync N username)))
     else ret ())))))))))))"

definition cmd_login :: "net \<Rightarrow> (code \<Rightarrow> string) \<Rightarrow> (string \<Rightarrow> string) \<Rightarrow> string \<Rightarrow> string \<Rightarrow> string \<Rightarrow> login_info shact" where
  "cmd_login N code_text broken username password label =
     bnd (gets (\<lambda>h. require_channel (sessions_of (sh_app h)))) (\<lambda>r.
     bnd (of_res r) (\<lambda>channel.
     bnd (in_files (device_name label)) (\<lambda>device.
     bnd (map_err (nt_status N) (in_world (remote channel (login (nt_ext N) username password device)))) (\<lambda>lr.
     bnd (in_world (sync_key_backup (nt_ext N) (nt_client N) code_text broken channel (lr_access_token lr) password)) (\<lambda>_.
     bnd (finish_session N channel username lr) (\<lambda>_.
     ret \<lparr>li_user_id = lr_user_id lr, li_device_id = lr_device_id lr\<rparr>))))))"

definition cmd_login_with_key :: "net \<Rightarrow> string \<Rightarrow> string \<Rightarrow> login_info shact" where
  "cmd_login_with_key N username label =
     bnd (gets (\<lambda>h. require_channel (sessions_of (sh_app h)))) (\<lambda>r.
     bnd (of_res r) (\<lambda>channel.
     bnd (gets (\<lambda>h. sessions_active (sessions_of (sh_app h)))) (\<lambda>s.
     bnd (some_or ''not connected'' s) (\<lambda>s.
     bnd (in_files (load_or_create_master (nt_client N))) (\<lambda>master.
     let derived = derive_for (nt_client N) master (ss_cert s) (case_option [] id (ss_endpoint s));
         pk = public_of (cx_prims (nt_client N)) derived in
     bnd (map_err (nt_status N) (in_world (remote channel (request_challenge (nt_ext N) pk)))) (\<lambda>challenge.
     bnd (in_files (device_name label)) (\<lambda>device.
     bnd (map_err (nt_status N) (in_world (remote channel (login_with_key (nt_ext N)
       \<lparr>kl_identity_pubkey = pk, kl_challenge = challenge,
        kl_signature = sign (cx_prims (nt_client N)) derived (ascii challenge), kl_device_name = device\<rparr>)))) (\<lambda>lr.
     bnd (finish_session N channel username lr) (\<lambda>_.
     ret \<lparr>li_user_id = lr_user_id lr, li_device_id = lr_device_id lr\<rparr>)))))))))"

section \<open>Which key an engine signs with\<close>

text \<open>
  A new engine carries the contact identity at home, the one in this user's contact code, and the key derived
  for the server everywhere else.
\<close>

lemma fresh_engine_identity:
  assumes "engine_new (cx_prims (nt_client N)) (nt_mls N) (session_signer N master is_home cert endpoint) = Inr x"
  shows "credential_identity x = public_of (cx_prims (nt_client N))
    (if is_home then contact_identity (nt_client N) master else derive_for (nt_client N) master cert endpoint)"
proof -
  have "engine_new P L kp = Inr x \<Longrightarrow> en_identity x = public_of P kp" for P L kp
    by (cases "ml_store_signer L (secret_bytes kp, public_of P kp) []") (auto simp: engine_new_def Let_def split: sum.splits)
  from this [OF assms] show ?thesis by (simp add: credential_identity_def session_signer_def)
qed

end
