(* ===== verification/Client_Invites.thy ===== *)
theory Client_Invites
  imports Client_Friends
begin

text \<open>
  Hosting and joining a server: \<open>commands/server.rs\<close>.  The owner starts a server in the client's own process and
  mints invite keys for the servers the client is signed in to; a joiner decodes the key.

  Base64 and the JSON form of a key are the record \<open>invite_ext\<close>; this machine's LAN address and the environment
  variable \<open>ACCORD_MESH_PEERS\<close> are arguments of the commands that read them.
\<close>

record invite_ext =
  iv_b64_encode :: "bytes \<Rightarrow> string"
  iv_b64_decode :: "string \<Rightarrow> bytes option"
  iv_to_json :: "invite_key \<Rightarrow> bytes"
  iv_from_json :: "bytes \<Rightarrow> invite_key option"

definition DEFAULT_PORT :: "16 word" where "DEFAULT_PORT = 50051"

record host_info =
  hi_endpoint :: string
  hi_cert :: "string option"

section \<open>Hosting\<close>

definition hosted_info :: "host_info noact" where
  "hosted_info = bnd (gets (\<lambda>n. local_connect_info (n_local n))) (\<lambda>i.
     bnd (some_or ''server did not start'' i) (\<lambda>(endpoint, cert).
     ret \<lparr>hi_endpoint = endpoint, hi_cert = cert\<rparr>))"

definition host_private_server :: "host_ext \<Rightarrow> host_info noact" where
  "host_private_server H = bnd (host_start H DEFAULT_PORT True True) (\<lambda>_. hosted_info)"

definition host_public_server :: "host_ext \<Rightarrow> host_info noact" where
  "host_public_server H = bnd (host_start H DEFAULT_PORT False True) (\<lambda>_. hosted_info)"

section \<open>Invite keys\<close>

text \<open>\<open>str::parse::<u16>\<close>.\<close>

definition parse_u16 :: "string \<Rightarrow> 16 word option" where
  "parse_u16 s = (case parse_u64 s of None \<Rightarrow> None | Some w \<Rightarrow> if unat w < 65536 then Some (of_nat (unat w)) else None)"

definition parse_port :: "string \<Rightarrow> 16 word option" where
  "parse_port endpoint = parse_u16 (after_last_colon (rev (dropWhile (\<lambda>c. c = CHR ''/'') (rev endpoint))))"

definition configured_mesh_peers :: "string option \<Rightarrow> string list" where
  "configured_mesh_peers env =
     (let from_env = (case env of None \<Rightarrow> []
        | Some s \<Rightarrow> filter (\<lambda>p. p \<noteq> []) (map trim (split_at (\<lambda>c. c = CHR '','') s)))
      in if from_env = [] then default_peers else from_env)"

text \<open>The target session's channel, token, certificate and endpoint, with the source's messages.\<close>

definition invite_session :: "string \<Rightarrow> sessions \<Rightarrow> string + nat \<times> string \<times> string option \<times> string" where
  "invite_session server_id ss =
     (case map_of (se_map ss) server_id of None \<Rightarrow> Inl ''not signed in to that tavern''
      | Some s \<Rightarrow>
        (case ss_channel s of None \<Rightarrow> Inl ''tavern is not connected''
         | Some channel \<Rightarrow>
           (case ss_token s of None \<Rightarrow> Inl ''not signed in to that tavern''
            | Some token \<Rightarrow>
              (case ss_endpoint s of None \<Rightarrow> Inl ''tavern has no endpoint''
               | Some endpoint \<Rightarrow> Inr (channel, token, ss_cert s, endpoint)))))"

definition invite_key_for ::
  "string option \<Rightarrow> string + string \<Rightarrow> string option \<Rightarrow> 16 word \<Rightarrow> string \<Rightarrow> string option \<Rightarrow> string + invite_key" where
  "invite_key_for env lan_ip mesh_addr port invite cert =
     (case mesh_addr of
        Some addr \<Rightarrow> Inr (invite_with_cert cert (invite_mesh addr port invite (configured_mesh_peers env)))
      | None \<Rightarrow> (case lan_ip of Inl e \<Rightarrow> Inl (''could not determine LAN address: '' @ e)
          | Inr host \<Rightarrow> Inr (invite_with_cert cert (invite_direct host port invite))))"

definition create_invite_key :: "net \<Rightarrow> invite_ext \<Rightarrow> string option \<Rightarrow> string + string \<Rightarrow> string \<Rightarrow> string shact" where
  "create_invite_key N V env lan_ip server_id =
     bnd (gets (\<lambda>h. sessions_of (sh_app h))) (\<lambda>ss.
     bnd (of_res (invite_session server_id ss)) (\<lambda>(channel, token, cert, endpoint).
     bnd (rpc_at N (create_invite (nt_ext N)) (channel, token)) (\<lambda>invite.
     bnd (some_or (''could not determine the tavern'' @ [CHR 0x27] @ ''s port'') (parse_port endpoint)) (\<lambda>port.
     bnd (gets (\<lambda>h. current_address (sh_mesh h))) (\<lambda>mesh_addr.
     bnd (of_res (invite_key_for env lan_ip mesh_addr port invite cert)) (\<lambda>key.
     ret (invite_encode (iv_b64_encode V) (iv_to_json V) key)))))))"

record invite_info =
  ii_endpoint :: string
  ii_token :: string
  ii_transport :: string
  ii_peers :: "string list"
  ii_name :: "string option"
  ii_cert :: "string option"

fun invite_error_text :: "code_error \<Rightarrow> string" where
  "invite_error_text BadPrefix = ''not an Accord invite key''"
| "invite_error_text BadBase64 = ''invite key is malformed (base64)''"
| "invite_error_text BadPayload = ''invite key is malformed (payload)''"

definition decode_invite :: "invite_ext \<Rightarrow> string \<Rightarrow> string + invite_info" where
  "decode_invite V key =
     (case invite_decode (iv_b64_decode V) (iv_from_json V) key of
        Inl e \<Rightarrow> Inl (invite_error_text e)
      | Inr k \<Rightarrow> Inr \<lparr>ii_endpoint = invite_endpoint k, ii_token = ik_token k,
          ii_transport = (case ik_transport k of Direct \<Rightarrow> ''direct'' | Mesh \<Rightarrow> ''mesh''),
          ii_peers = ik_peers k, ii_name = ik_name k, ii_cert = ik_cert k\<rparr>)"

section \<open>Joining over the mesh\<close>

definition prepare_mesh :: "client_ext \<Rightarrow> string list \<Rightarrow> string noact" where
  "prepare_mesh X ps =
     bnd (or_else [] (on_disk (make_dir []))) (\<lambda>_.
     bnd (or_else () (on_disk (write_file [''mesh-peers.txt''] (ascii (join_with [CHR 0x0A] ps))))) (\<lambda>_.
     start_with_peers X None))"

section \<open>From the owner's key to a member\<close>

lemma find_snoc: "\<forall>x\<in>set xs. \<not> P x \<Longrightarrow> P y \<Longrightarrow> find P (xs @ [y]) = Some y"
  by (induction xs) auto

lemma invite_stored:
  assumes "sq_create_invite token user d = (Inr (), e)"
  shows "sq_is_invite_valid token e = (Inr True, e)"
proof -
  obtain r where "\<forall>x\<in>set (db_invites d). in_token x \<noteq> token" "db_invites e = db_invites d @ [r]" "in_token r = token" "\<not> in_revoked r"
    using assms by (auto simp: sq_create_invite_def ok_simps insert_stmt_def clock_defs exists_where_def split: if_splits)
  then show ?thesis by (simp add: sq_is_invite_valid_def gets_def find_snoc)
qed

lemma invite_minted:
  assumes "create_invite E meta s = (Inr token, s')"
  shows "(\<exists>a b. token = simple E a @ simple E b) \<and> sq_is_invite_valid token (sv_db s') = (Inr True, sv_db s')"
proof -
  obtain d a b user where "sq_create_invite token user d = (Inr (), sv_db s')" "token = simple E a @ simple E b"
    using assms by (auto simp: create_invite_def ok_simps call_def rpc_def on_db_def Let_def)
  then show ?thesis using invite_stored by blast
qed

lemma created_user: "sq_create_user n dn ph ow guest ik d = (Inr i, d') \<Longrightarrow> \<exists>u\<in>set (db_users d'). u_id u = i \<and> u_is_guest u = guest"
  by (auto simp: sq_create_user_def ok_simps on_unique_def insert_stmt_def split: if_splits)

lemma rate_keeps_invites: "check_registration_rate ip s = (Inr u, t) \<Longrightarrow> db_invites (sv_db t) = db_invites (sv_db s)"
  by (auto simp: check_registration_rate_def ok_simps on_db_def clock_defs Let_def split: if_splits)

lemma invited_is_member:
  assumes "register E meta req s = (Inr i, s')"
    and "sq_is_invite_valid (trim (rq_invite_token req)) (sv_db s) = (Inr True, sv_db s)" "trim (rq_invite_token req) \<noteq> []"
  shows "\<exists>u\<in>set (db_users (sv_db s')). to_str E (u_id u) = i \<and> \<not> u_is_guest u"
proof -
  let ?t = "trim (rq_invite_token req)"
  have v: "sq_is_invite_valid ?t d = (Inr True, d)" if "db_invites d = db_invites (sv_db s)" for d
    using assms(2) that by (simp add: sq_is_invite_valid_def gets_def)
  show ?thesis
    using assms(1,3)
    by (auto simp: register_def rpc_def ok_simps on_db_def Let_def check_password_rules_def sq_count_users_def v split: if_splits option.splits dest!: created_user rate_keeps_invites)
qed

text \<open>The port of an endpoint the client made itself is read back.\<close>

lemma port_text_digits: "c \<in> set (port_text p) \<Longrightarrow> c \<noteq> CHR '':'' \<and> c \<noteq> CHR ''/''"
  using show_nat_digits [of c "unat p"] by (auto simp: port_text_def is_digit_def)

lemma after_last_colon_append: "CHR '':'' \<notin> set t \<Longrightarrow> after_last_colon (s @ '':'' @ t) = t"
  by (simp add: after_last_colon_def takeWhile_append)

lemma parse_u16_text: "parse_u16 (port_text p) = Some p"
proof -
  obtain n where n: "p = of_nat n" "unat p = n" "n < 65536"
  proof (rule that)
    show "p = of_nat (unat p)" by simp
    show "unat p < 65536" using unsigned_less [where ?'a = nat and w = p] by simp
  qed simp
  have "unat (of_nat n :: 64 word) = n" using n(3) by (simp add: unat_of_nat)
  moreover have "parse_u64 (show_nat n) = Some (of_nat n)" using n(3) by (intro parse_u64_show_nat) simp
  ultimately show ?thesis using n by (simp add: parse_u16_def port_text_def)
qed

lemma parse_port_text: "parse_port (s @ '':'' @ port_text p) = Some p"
proof -
  have ne: "port_text p \<noteq> []" by (simp add: port_text_def)
  then have "hd (rev (port_text p)) \<noteq> CHR ''/''" using port_text_digits by (metis hd_in_set rev_is_Nil_conv set_rev)
  then have "dropWhile (\<lambda>c. c = CHR ''/'') (rev (s @ '':'' @ port_text p)) = rev (s @ '':'' @ port_text p)"
    using ne by (intro dropWhile_noop) simp
  moreover have "after_last_colon (s @ '':'' @ port_text p) = port_text p"
    using port_text_digits by (intro after_last_colon_append) blast
  ultimately show ?thesis by (simp only: parse_port_def rev_rev_ident parse_u16_text)
qed

lemma remote_success: "remote ch f w = (Inr x, w') \<Longrightarrow> f (w_server w ch) = (Inr x, w_server w' ch)"
  by (cases "f (w_server w ch)") (auto simp: remote_def split: option.splits)

lemma rpc_at_ok:
  assumes "rpc_at N f (ch, token) h = (Inr x, h')"
  shows "\<exists>meta. f meta (servers_of h ch) = (Inr x, servers_of h' ch) \<and> sh_mesh h' = sh_mesh h"
  using assms
  by (auto simp: rpc_at_def in_world_def in_app_def on_world_def session_rpc_def bnd_ok of_res_ok map_err_ok zoom_ok servers_of_def
      dest!: remote_success)

text \<open>
  C36: An invite key lets its holder in.  A key that the owner of a signed-in server makes decodes, on the
  joiner's side, to an endpoint at that server's own port (on the mesh address if the mesh is up, else
  on this machine's LAN address), with that server's pinned certificate and an invite token; and whoever
  registers on that server with this token, from wherever, becomes a member and not a guest.
\<close>

theorem invite_key_admits:
  assumes "\<forall>b. iv_b64_decode V (iv_b64_encode V b) = Some b \<and> (\<forall>c\<in>set (iv_b64_encode V b). \<not> is_ws c)"
    and "\<forall>i k. invite_key_for env lan_ip (current_address (sh_mesh h)) port i cert = Inr k \<longrightarrow> iv_from_json V (iv_to_json V k) = Some k"
    and "\<forall>u. simple (nt_ext N) u \<noteq> [] \<and> (\<forall>c\<in>set (simple (nt_ext N) u). \<not> is_ws c)"
    and "invite_session server_id (sessions_of (sh_app h)) = Inr (ch, tok, cert, url @ '':'' @ port_text port)"
    and "create_invite_key N V env lan_ip server_id h = (Inr key, h')"
  shows "\<exists>info host. decode_invite V key = Inr info \<and> ii_cert info = cert \<and>
    (case current_address (sh_mesh h) of Some a \<Rightarrow> host = a | None \<Rightarrow> lan_ip = Inr host) \<and>
    ii_endpoint info = (if cert \<noteq> None then ''https'' else ''http'') @ ''://'' @
      (if CHR '':'' \<in> set host then ''['' @ host @ '']'' else host) @ '':'' @ port_text port \<and>
    (\<forall>meta req i s. rq_invite_token req = ii_token info \<longrightarrow> register (nt_ext N) meta req (servers_of h' ch) = (Inr i, s) \<longrightarrow>
       (\<exists>u\<in>set (db_users (sv_db s)). to_str (nt_ext N) (u_id u) = i \<and> \<not> u_is_guest u))"
proof -
  obtain invite h1 k where r: "rpc_at N (create_invite (nt_ext N)) (ch, tok) h = (Inr invite, h1)"
    "invite_key_for env lan_ip (current_address (sh_mesh h1)) port invite cert = Inr k"
    "key = invite_encode (iv_b64_encode V) (iv_to_json V) k" "h' = h1"
    using assms(4,5) by (auto simp: create_invite_key_def bnd_ok gets_ok of_res_ok some_or_ok ret_ok parse_port_text [simplified])
  obtain meta where m: "create_invite (nt_ext N) meta (servers_of h ch) = (Inr invite, servers_of h1 ch)" "sh_mesh h1 = sh_mesh h"
    using rpc_at_ok [OF r(1)] by blast
  note v = invite_minted [OF m(1)]
  then have ws: "invite \<noteq> [] \<and> (\<forall>c\<in>set invite. \<not> is_ws c)" using assms(3) by auto
  then have t: "trim invite = invite" by (intro trim_noop) auto
  have j: "iv_from_json V (iv_to_json V k) = Some k" using assms(2) r(2) unfolding m(2) by blast
  have d: "invite_decode (iv_b64_decode V) (iv_from_json V) key = Inr k"
    using envelope_roundtrip [of "iv_from_json V" "iv_to_json V" k "iv_b64_decode V" "iv_b64_encode V" INVITE_PREFIX "[]" "[]"] assms(1) j
    unfolding r(3) invite_decode_def invite_encode_def by (simp add: INVITE_PREFIX_def is_ws_def)
  obtain host where h: "case current_address (sh_mesh h) of Some a \<Rightarrow> host = a | None \<Rightarrow> lan_ip = Inr host"
    "ik_host k = host" "ik_port k = port" "ik_token k = invite" "ik_cert k = cert"
    using r(2) unfolding m(2)
    by (auto simp: invite_key_for_def invite_with_cert_def invite_mesh_def invite_direct_def split: option.splits sum.splits)
  have "\<exists>u\<in>set (db_users (sv_db s)). to_str (nt_ext N) (u_id u) = i \<and> \<not> u_is_guest u"
    if "rq_invite_token req = invite" "register (nt_ext N) meta req (servers_of h' ch) = (Inr i, s)" for meta req i s
    using invited_is_member [OF that(2)] v ws t r(4) that(1) by simp
  then show ?thesis using d h by (auto simp: decode_invite_def invite_endpoint_def Let_def port_text_def)
qed

section \<open>A concrete invitation\<close>

definition demo_invites :: invite_ext where
  "demo_invites = \<lparr>iv_b64_encode = hex, iv_b64_decode = hex_bytes, iv_to_json = (\<lambda>k. ascii (ik_token k)),
     iv_from_json = (\<lambda>b. Some (invite_with_cert (Some ''pem'') (invite_direct ''10.0.0.7'' 50052 (map (char_of \<circ> unat) b))))\<rparr>"

definition demo_invite_net :: net where
  "demo_invite_net = demo_net\<lparr>nt_social := demo_social\<lparr>so_ext := demo_ext\<lparr>simple := (\<lambda>u. ''t'')\<rparr>\<rparr>\<rparr>"

definition demo_owner :: shell where
  "demo_owner = demo_shell\<lparr>sh_app := demo_app\<lparr>ap_world := demo_world\<lparr>w_sessions := \<lparr>se_map = [(''inn'', session_default
     \<lparr>ss_channel := Some 0, ss_token := Some ''x.xxx'', ss_endpoint := Some (''https://127.0.0.1:'' @ port_text 50052), ss_cert := Some ''pem''\<rparr>)],
     se_active = None\<rparr>\<rparr>\<rparr>\<rparr>"

lemma ascii_back: "map (char_of \<circ> unat) (ascii s) = s"
  by (induction s) (simp_all add: ascii_def unat_of_nat)

lemma demo_mint:
  "\<exists>s. create_invite (nt_ext demo_invite_net) \<lparr>rm_authorization = Some ''Bearer x.xxx'', rm_remote_ip = None\<rparr> demo_server = (Inr ''tt'', s)"
proof -
  let ?E = "nt_ext demo_invite_net"
  let ?m = "\<lparr>rm_authorization = Some ''Bearer x.xxx'', rm_remote_ip = None\<rparr>"
  have u: "user_of ?E ?m d = Some 1" for d
    by (simp add: user_of_def claims_of_def bearer_def nt_ext_def demo_invite_net_def demo_ext_def strip_prefix_def)
  have p: "allows (perms_of demo_db 1) CREATE_INVITE" 
    by (simp add: perms_of_def owner_of_def find_user_def demo_user_def allows_def)
  have t: "simple ?E a = ''t''" for a by (simp add: nt_ext_def demo_invite_net_def)
  have i: "db_invites demo_db = []" "sv_db demo_server = demo_db" by (simp_all add: demo_db_def migrated_db_def demo_server_def)
  show ?thesis
    by (simp add: create_invite_def auth_require_def bnd_ok call_ok caller_ok require_ok ret_ok Let_def u p t i clock_defs
        sq_create_invite_def on_env_def zoom_def read_env_def insert_stmt_def tick_def exists_where_def)
qed

lemma demo_invite_key: "\<exists>h'. create_invite_key demo_invite_net demo_invites None (Inr ''10.0.0.7'') ''inn'' demo_owner =
   (Inr (invite_encode hex (\<lambda>k. ascii (ik_token k)) (invite_with_cert (Some ''pem'') (invite_direct ''10.0.0.7'' 50052 ''tt''))), h')"
proof -
  have s: "invite_session ''inn'' (sessions_of (sh_app demo_owner)) = Inr (0, ''x.xxx'', Some ''pem'', ''https://127.0.0.1'' @ '':'' @ port_text 50052)"
    by (simp add: invite_session_def sessions_of_def demo_owner_def demo_world_def session_default_def)
  obtain t where m: "create_invite (nt_ext demo_invite_net) \<lparr>rm_authorization = Some ''Bearer x.xxx'', rm_remote_ip = None\<rparr> demo_server = (Inr ''tt'', t)"
    using demo_mint by blast
  have "\<exists>h'. rpc_at demo_invite_net (create_invite (nt_ext demo_invite_net)) (0, ''x.xxx'') demo_owner = (Inr ''tt'', h') \<and>
      sh_mesh h' = sh_mesh demo_owner"
    using m
    by (simp add: rpc_at_def in_world_def in_app_def on_world_def session_rpc_def zoom_def bnd_def of_res_def map_err_def remote_def authed_def
        nt_client_def demo_owner_def demo_world_def demo_cext_def demo_invite_net_def demo_net_def demo_social_def)
  then obtain h' where h: "rpc_at demo_invite_net (create_invite (nt_ext demo_invite_net)) (0, ''x.xxx'') demo_owner = (Inr ''tt'', h')"
    "sh_mesh h' = sh_mesh demo_owner" by blast
  have "current_address (sh_mesh h') = None" unfolding h(2) by (simp add: demo_owner_def demo_shell_def current_address_def demo_node_def)
  moreover have "parse_port (''https://127.0.0.1'' @ '':'' @ port_text 50052) = Some 50052" by (rule parse_port_text)
  ultimately show ?thesis using s h(1)
    by (simp add: create_invite_key_def bnd_gets bnd_of_res bnd_eq [where m = "rpc_at _ _ _"] bnd_some_or invite_key_for_def ret_def
        demo_invites_def)
qed

theorem invite_key_admits_witness:
  "\<exists>key h' info. create_invite_key demo_invite_net demo_invites None (Inr ''10.0.0.7'') ''inn'' demo_owner = (Inr key, h') \<and>
     decode_invite demo_invites key = Inr info \<and> ii_cert info = Some ''pem'' \<and>
     ii_endpoint info = ''https://10.0.0.7:'' @ port_text 50052 \<and>
     (\<forall>meta req i s. rq_invite_token req = ii_token info \<longrightarrow>
       register (nt_ext demo_invite_net) meta req (servers_of h' 0) = (Inr i, s) \<longrightarrow>
       (\<exists>u\<in>set (db_users (sv_db s)). to_str (nt_ext demo_invite_net) (u_id u) = i \<and> \<not> u_is_guest u))"
proof -
  obtain key h' where k: "create_invite_key demo_invite_net demo_invites None (Inr ''10.0.0.7'') ''inn'' demo_owner = (Inr key, h')"
    using demo_invite_key by blast
  have a: "current_address (sh_mesh demo_owner) = None" by (simp add: demo_owner_def demo_shell_def current_address_def demo_node_def)
  have 1: "\<forall>b. iv_b64_decode demo_invites (iv_b64_encode demo_invites b) = Some b \<and> (\<forall>c\<in>set (iv_b64_encode demo_invites b). \<not> is_ws c)"
    using hex_digits by (fastforce simp: demo_invites_def hex_roundtrip is_ws_def)
  have 2: "\<forall>i k. invite_key_for None (Inr ''10.0.0.7'') (current_address (sh_mesh demo_owner)) 50052 i (Some ''pem'') = Inr k \<longrightarrow>
      iv_from_json demo_invites (iv_to_json demo_invites k) = Some k"
    unfolding a by (auto simp: invite_key_for_def demo_invites_def ascii_back invite_with_cert_def invite_direct_def)
  have 3: "\<forall>u. simple (nt_ext demo_invite_net) u \<noteq> [] \<and> (\<forall>c\<in>set (simple (nt_ext demo_invite_net) u). \<not> is_ws c)"
    by (simp add: nt_ext_def demo_invite_net_def is_ws_def)
  have 4: "invite_session ''inn'' (sessions_of (sh_app demo_owner)) = Inr (0, ''x.xxx'', Some ''pem'', ''https://127.0.0.1'' @ '':'' @ port_text 50052)"
    by (simp add: invite_session_def sessions_of_def demo_owner_def demo_world_def session_default_def)
  show ?thesis using invite_key_admits [OF 1 2 3 4 k] k a by auto
qed

text \<open>
  Hosting is idempotent whatever was asked for: while an open server runs, asking for a private one succeeds
  and leaves it open.
\<close>

lemma private_request_keeps_open_server:
  assumes "ls_addr (n_local n) = Some a" "ls_port (n_local n) = Some p"
  shows "\<exists>i. host_private_server H n = (Inr i, n)"
  using assms
  by (simp add: host_private_server_def host_start_def hosted_info_def bnd_def host_claim_run local_connect_info_def gets_def some_or_def ret_def)

end
