(* ===== verification/Spec2Isabelle.thy ===== *)
theory Spec2Isabelle
  imports Perms Errors Codes Names Guardrails Hub Authz Roles_Service Groups_Service Auth_Service
    Friends_Service Vault_Backup Mls_Relay Messaging_Service Client_Mirror Voice_Audio Store_Backends
    Store_Migrations Client_Login Client_Invites
begin

text \<open>
  A verification library for Accord: the server (\<open>crates/accord-server\<close>), the value types it shares with
  its clients (\<open>crates/accord-types\<close>), the client's cryptography (\<open>crates/accord-crypto\<close>) and MLS wrapper
  (\<open>crates/accord-mls\<close>), and the Rust side of the desktop client (\<open>crates/accord-client/src-tauri\<close>).

  \<^bold>\<open>The program.\<close> Accord is a self-hosted chat system.  A server is a gRPC front end of eight services over
  one SQL database behind the \<open>Store\<close> trait, an in-process hub that fans messages out to connected devices,
  and a guardrail engine that rate-limits privileged actions; access is decided by \<open>authz.rs\<close> from the role
  tables.  The desktop client keeps one session per server, an MLS engine per account, a sealed archive of
  messages that it mirrors to the server's vault, a voice engine, and a node of its own: it hosts a home
  server and private servers (taverns) and joins a mesh network.  Two users talk by the guest account one
  of them has on the other's home server; friend requests are parked there.

  \<^bold>\<open>The theories\<close>, in dependency order, with the sources they translate.

  Common ground:
  \<^item> \<open>Accord_Prelude\<close>: the state-and-error monad the handlers are written in, its weakest-precondition
    rules (collection \<open>wp_simps\<close>) and success rules (\<open>ok_simps\<close>), effect frames (locale
    \<open>effect_order\<close>), reachability (locale \<open>inductive_invariant\<close>), the fragments of Rust's standard
    library and of SQL that the code uses.
  \<^item> \<open>Perms\<close> (\<open>perms.rs\<close>), \<open>Errors\<close> (\<open>error.rs\<close>), \<open>Codes\<close> (\<open>invite.rs\<close>, \<open>contact.rs\<close>).
  \<^item> \<open>Externals\<close>: third-party functions (record \<open>ext\<close>) and oracles of a run (record \<open>env\<close>).

  The server:
  \<^item> \<open>Store_Schema\<close>, \<open>Store_Accounts\<close>, \<open>Store_Groups\<close>, \<open>Store_Messages\<close>: the migrated SQLite schema and
    every method of \<open>store/sqlite.rs\<close>, named \<open>sq_\<close> followed by the method's name.  Locales \<open>db_frame\<close> and
    \<open>db_view\<close> carry what a statement may do to the database through whole handlers.
  \<^item> \<open>Store_Postgres\<close> (\<open>store/postgres.rs\<close>, methods named \<open>pg_\<close>) and \<open>Store_Backends\<close> (\<open>store/mod.rs\<close>): the
    second back end over the same tables, and runs of trait calls on either; \<open>Store_Migrations\<close>: opening a
    store, its migrations and the repair of their checksums.
  \<^item> \<open>Authz\<close> (\<open>authz.rs\<close>; locale \<open>hierarchy\<close>), \<open>Names\<close> and \<open>Guardrails\<close> (\<open>guardrails/\<close>; locale
    \<open>rate_limiter\<close>), \<open>Hub\<close> (\<open>messaging/hub.rs\<close>).
  \<^item> \<open>Server\<close>: the state the services share, authentication and id parsing (\<open>util.rs\<close>, \<open>auth/jwt.rs\<close>).
  \<^item> \<open>Roles_Service\<close>, \<open>Groups_Service\<close>, \<open>Auth_Service\<close>, \<open>Friends_Service\<close>, \<open>Vault_Backup\<close>,
    \<open>Mls_Relay\<close>, \<open>Messaging_Service\<close>: one definition per RPC, named as the method.
  \<^item> \<open>Server_Startup\<close> (\<open>config.rs\<close>, \<open>run_inner\<close> of \<open>lib.rs\<close>): configuration, its check, seeding and the
    order of start-up.

  The client's libraries:
  \<^item> \<open>Crypto\<close> (\<open>accord-crypto\<close>), \<open>Mls_Engine\<close> (\<open>accord-mls\<close>, \<open>mls_persist.rs\<close>).
  \<^item> \<open>Client_Local\<close> (\<open>at_rest.rs\<close>, \<open>settings.rs\<close>, \<open>identity.rs\<close>, \<open>commands/accounts.rs\<close>): the files of an
    installation; \<open>Client_History\<close> (\<open>history.rs\<close>, the dirty marks of \<open>sync.rs\<close>): the archive.
  \<^item> \<open>Client_Sync\<close> and \<open>Client_Mirror\<close> (\<open>state.rs\<close>, \<open>grpc.rs\<close>, \<open>vault.rs\<close>, \<open>sync.rs\<close>, the key backup of
    \<open>commands/auth.rs\<close>): a client and its servers as one state, where a request runs the server's handler.
  \<^item> \<open>Voice_Audio\<close>, \<open>Voice_Ringtone\<close>, \<open>Voice_Link\<close>, \<open>Voice_Engine\<close>: the four files of \<open>voice_engine/\<close>.

  The client's commands:
  \<^item> \<open>Client_Commands\<close> and \<open>Client_Events\<close> (\<open>commands/messaging.rs\<close>, \<open>commands/dto.rs\<close>): commands that are one
    request, and what is shown to the front end.
  \<^item> \<open>Client_Chat\<close> (\<open>commands/messaging.rs\<close>, \<open>commands/voice.rs\<close>): the live session.
  \<^item> \<open>Client_Node\<close> (\<open>peers.rs\<close> and the state of the node; locale \<open>guarded_start\<close>), \<open>Client_Mesh\<close> (\<open>mesh.rs\<close>), \<open>Client_Hosting\<close>
    (\<open>hosting.rs\<close>, \<open>taverns.rs\<close>).
  \<^item> \<open>Client_Contacts\<close> (\<open>commands/contacts.rs\<close>, \<open>commands/blocks.rs\<close>), \<open>Client_Dms\<close> (\<open>commands/mls.rs\<close>),
    \<open>Client_Friends\<close> (\<open>commands/friends.rs\<close>), \<open>Client_Login\<close> (\<open>commands/auth.rs\<close>), \<open>Client_Invites\<close>
    (\<open>commands/server.rs\<close>).

  \<^bold>\<open>How code becomes definitions.\<close> A handler or command is a function from a state to an error or a
  response and the state it leaves, so every early return keeps the effects made before it.  A table is
  the list of its rows in rowid order; an \<open>INSERT\<close> checks primary keys, unique indexes and, when
  \<open>db_fk\<close> is set (sqlx's default), foreign keys; transactions roll back on error.  Statements read the
  clock and mint UUIDs from the oracles of \<open>env\<close>, which no theorem restricts unless it says so.  The client's
  disk is an association list of files; reading, writing and creating may fail at any path (\<open>c_fault\<close>), a
  failing write may leave a torn file, and the generator is a stream of bytes.  What the operating system
  and the network answer the node is the record \<open>os\<close>, asked with a running number, so that two questions
  may get different answers.

  \<^bold>\<open>What the theorems show.\<close>
  \<^item> Authorization: what the effective permissions are, bit by bit; acting on a user is a strict order with
    the owner on top; no role request lets anybody become administrator or touches roles above its caller.
  \<^item> Rate limits: however requests interleave, the actions let through are within the budget, and a
    throttled caller that waits as told is let through.
  \<^item> Stores: messages are numbered in order and stored once, key packages are handed out once and their pool
    is bounded, the PostgreSQL tables keep their schema, and the two back ends agree outside listed cases;
    migrations are immutable up to line endings.
  \<^item> Services: private groups are closed to outsiders, the mailbox is filled and emptied exactly, a page of
    history is the right one, vault and backup refine a map and a cell per account.
  \<^item> Hub: every reachable state is well formed and delivery is exact.
  \<^item> Client: the archive is read back exactly after torn writes and lies on disk only sealed; the identity and
    the archive survive a reinstall, through the server's own handlers; the MLS state survives a restart; a
    private message goes from one device to the other and is archived on both.
  \<^item> Voice: buffers are bounded, mixing is exact, of two devices exactly one offers, frames arrive in order,
    and no ICE candidate is lost.
  \<^item> Node and friends: hosted servers never share a port and stay within the limit; at most one start of the
    mesh or of the home server is in flight; adding a contact changes only that contact; a sync's merge keeps
    what the user did meanwhile, and an acceptance is not dropped before the contact is stored; an invite key
    leads to its server and makes its holder a member.

  \<^bold>\<open>Bounds and fuel.\<close> The waiting loop of the embedded server makes the 200 rounds of the source.  Loops
  that reconnect for ever are modelled by one turn (\<open>supervisor_turn\<close>, \<open>watchdog_turn\<close>); the twenty seconds
  that opening a session waits for its stream are a number of attempts (\<open>sh_tries\<close>), for any
  number of which the lemmas hold.  All other recursion is on lists or proved to terminate.

  \<^bold>\<open>Conventions.\<close> Ids are 128-bit words on the server and the store's text form of them is abstracted
  (\<open>to_string\<close> and \<open>parse_id\<close> are inverse there); ids in requests go through the parameter
  \<open>parse_str\<close>.  Strings are ASCII.  The \<open>f64\<close> token counts and ratios are exact rationals, except the one
  percentage whose rounding is visible in a message, which follows IEEE rounding; audio samples are real
  numbers.  Timestamps are the milliseconds the store keeps.  Hash maps are association lists; nothing
  depends on their order except the order in which one delivery reaches several clients.  Handlers and
  commands run one after another.  Where the code releases a lock during slow work and relies on a flag
  (starting the mesh or the home server, the outbox), the locked steps are separate definitions and the
  theorems take them in any order; elsewhere an interleaving of two handlers at an \<open>await\<close> is not a behaviour
  of the model.  Logging is dropped.

  \<^bold>\<open>What is not modelled\<close>: what a migration does to the tables (the model of the store starts from the
  migrated schema), \<open>tls.rs\<close> and the listener's socket options (start-up takes their results as parameters);
  the layering of configuration sources; the Redis connection (the events published to it are kept as a trace); generated
  protocol code; and of the client the registration of commands with Tauri, log set-up, WebView permissions
  and the factory reset.  Argon2, XChaCha20-Poly1305, BLAKE3, Ed25519, JWT, OpenMLS, Opus, WebRTC, serde and
  base64 are parameters whose documented behaviour is a named hypothesis of the theorems that use it.
\<close>

end
